(* ===== verification/Prelude.thy ===== *)
theory Prelude
  imports
    Complex_Main
    "HOL-Library.AList"
    "HOL-Library.Product_Lexorder"
    "HOL-Library.List_Lexorder"
    "HOL-Library.Char_ord"
    "HOL-Library.Word"
begin

text \<open>
  What every component of the ledger shares.

  \<^item> The types of values the Go code passes around: \<open>decimal\<close> (a shopspring decimal, by
    its exact value), \<open>time\<close> (nanoseconds since the zero time), \<open>json\<close> and \<open>metadata\<close>.
  \<^item> The decimal package is not part of the repository: its parser and printer are the
    parameter \<open>decimal_lib\<close>, and \<open>codec_ok\<close> states the documented round trip.
  \<^item> The Go error values, and the shape of every stateful Go function:
    \<open>exec\<close>, a state transformer that returns an error or a result together with the
    state that is left behind (on an error too, as in Go). \<open>bindE\<close> is
    \<open>if err != nil { return err }\<close>, \<open>forE\<close> is a \<open>for range\<close> loop.
  \<^item> \<open>world\<close>: the store or transaction a server method works on, with the number of
    identifiers and clock readings taken so far from \<open>s.NewID\<close> and \<open>s.Now\<close>.
  \<^item> \<open>exec_simps\<close>: the rules that turn a run that succeeded into facts on its steps.
\<close>

named_theorems exec_simps \<open>inversion of the runs of stateful functions\<close>

section \<open>Values\<close>

type_synonym decimal = rat
type_synonym time = int
type_synonym duration = int

abbreviation zeroTime :: time where "zeroTime \<equiv> 0"

abbreviation millisecond :: duration where "millisecond \<equiv> 1000000"
abbreviation second :: duration where "second \<equiv> 1000000000"
abbreviation minute :: duration where "minute \<equiv> 60 * second"
abbreviation hour :: duration where "hour \<equiv> 60 * minute"

datatype json =
    JNull
  | JBool bool
  | JNum rat
  | JStr string
  | JArr "json list"
  | JObj "(string \<times> json) list"

type_synonym metadata = "(string \<times> json) list"

text \<open>A Go map assignment \<open>m[k] = v\<close> and the rendering of a map by \<open>json.Marshal\<close>,
  kept as the JSON value it denotes.\<close>

abbreviation setKey :: "string \<Rightarrow> json \<Rightarrow> metadata \<Rightarrow> metadata" where
  "setKey k v m \<equiv> AList.update k v m"

record decimal_lib =
  dl_NewFromString :: "string \<Rightarrow> decimal option"
  dl_String :: "decimal \<Rightarrow> string"

definition codec_ok :: "decimal_lib \<Rightarrow> bool" where
  "codec_ok D \<longleftrightarrow> (\<forall>d. dl_NewFromString D (dl_String D d) = Some d) \<and>
     dl_NewFromString D ''0'' = Some 0"

lemma codec_okD [simp]:
  "codec_ok D \<Longrightarrow> dl_NewFromString D (dl_String D d) = Some d"
  "codec_ok D \<Longrightarrow> dl_NewFromString D ''0'' = Some 0"
  by (simp_all add: codec_ok_def)

section \<open>Stateful functions that may fail\<close>

type_synonym ('s, 'e, 'a) exec = "'s \<Rightarrow> ('e + 'a) \<times> 's"

definition ret :: "'a \<Rightarrow> ('s, 'e, 'a) exec" where
  "ret a s = (Inr a, s)"

definition throwE :: "'e \<Rightarrow> ('s, 'e, 'a) exec" where
  "throwE e s = (Inl e, s)"

definition bindE :: "('s, 'e, 'a) exec \<Rightarrow> ('a \<Rightarrow> ('s, 'e, 'b) exec) \<Rightarrow> ('s, 'e, 'b) exec" where
  "bindE m f s = (case m s of (Inl e, s') \<Rightarrow> (Inl e, s') | (Inr a, s') \<Rightarrow> f a s')"

definition thenE :: "('s, 'e, 'a) exec \<Rightarrow> ('s, 'e, 'b) exec \<Rightarrow> ('s, 'e, 'b) exec" where
  "thenE m n = bindE m (\<lambda>_. n)"

definition liftE :: "'e + 'a \<Rightarrow> ('s, 'e, 'a) exec" where
  "liftE r s = (r, s)"

definition whenE :: "bool \<Rightarrow> ('s, 'e, unit) exec \<Rightarrow> ('s, 'e, unit) exec" where
  "whenE b m = (if b then m else ret ())"

text \<open>Replacing the error of a failed run, as \<open>return nil, ToConnectError(err)\<close> does.\<close>

definition mapErr :: "('e \<Rightarrow> 'f) \<Rightarrow> ('s, 'e, 'a) exec \<Rightarrow> ('s, 'f, 'a) exec" where
  "mapErr f m s = (case m s of (Inl e, s') \<Rightarrow> (Inl (f e), s') | (Inr a, s') \<Rightarrow> (Inr a, s'))"

fun forE :: "('x \<Rightarrow> 'acc \<Rightarrow> ('s, 'e, 'acc) exec) \<Rightarrow> 'x list \<Rightarrow> 'acc \<Rightarrow> ('s, 'e, 'acc) exec" where
  "forE f [] acc = ret acc"
| "forE f (x # xs) acc = bindE (f x acc) (forE f xs)"

lemma ret_Inr [exec_simps]: "ret a s = (Inr b, s') \<longleftrightarrow> b = a \<and> s' = s"
  by (auto simp: ret_def)

lemma ret_Inl [exec_simps]: "\<not> ret a s = (Inl e, s')"
  by (simp add: ret_def)

lemma throwE_Inr [exec_simps]: "\<not> throwE e s = (Inr b, s')"
  by (simp add: throwE_def)

lemma throwE_Inl [exec_simps]: "throwE e s = (Inl e', s') \<longleftrightarrow> e' = e \<and> s' = s"
  by (auto simp: throwE_def)

lemma liftE_Inr [exec_simps]: "liftE r s = (Inr b, s') \<longleftrightarrow> r = Inr b \<and> s' = s"
  by (auto simp: liftE_def)

lemma liftE_Inl [exec_simps]: "liftE r s = (Inl e, s') \<longleftrightarrow> r = Inl e \<and> s' = s"
  by (auto simp: liftE_def)

lemma bindE_Inr [exec_simps]:
  "bindE m f s = (Inr b, s') \<longleftrightarrow> (\<exists>a s1. m s = (Inr a, s1) \<and> f a s1 = (Inr b, s'))"
  by (auto simp: bindE_def split: prod.splits sum.splits)

lemma bindE_Inl [exec_simps]:
  "bindE m f s = (Inl e, s') \<longleftrightarrow>
     m s = (Inl e, s') \<or> (\<exists>a s1. m s = (Inr a, s1) \<and> f a s1 = (Inl e, s'))"
  by (auto simp: bindE_def split: prod.splits sum.splits)

lemma thenE_Inr [exec_simps]:
  "thenE m n s = (Inr b, s') \<longleftrightarrow> (\<exists>a s1. m s = (Inr a, s1) \<and> n s1 = (Inr b, s'))"
  by (simp add: thenE_def exec_simps)

lemma thenE_Inl [exec_simps]:
  "thenE m n s = (Inl e, s') \<longleftrightarrow>
     m s = (Inl e, s') \<or> (\<exists>a s1. m s = (Inr a, s1) \<and> n s1 = (Inl e, s'))"
  by (simp add: thenE_def exec_simps)

lemma whenE_Inr [exec_simps]:
  "whenE b m s = (Inr u, s') \<longleftrightarrow> (if b then m s = (Inr u, s') else s' = s)"
  by (auto simp: whenE_def ret_def)

lemma mapErr_Inr [exec_simps]: "mapErr f m s = (Inr a, s') \<longleftrightarrow> m s = (Inr a, s')"
  by (auto simp: mapErr_def split: prod.splits sum.splits)

lemma mapErr_Inl [exec_simps]:
  "mapErr f m s = (Inl e, s') \<longleftrightarrow> (\<exists>e0. m s = (Inl e0, s') \<and> e = f e0)"
  by (auto simp: mapErr_def split: prod.splits sum.splits)

text \<open>An error that is logged, not returned.\<close>

definition catchE :: "('s, 'e, 'a) exec \<Rightarrow> ('s, 'f, 'a option) exec" where
  "catchE m s = (case m s of (Inl e, s') \<Rightarrow> (Inr None, s') | (Inr a, s') \<Rightarrow> (Inr (Some a), s'))"

lemma catchE_Inr [exec_simps]:
  "catchE m s = (Inr r, s') \<longleftrightarrow> (case r of None \<Rightarrow> \<exists>e. m s = (Inl e, s') | Some a \<Rightarrow> m s = (Inr a, s'))"
  by (auto simp: catchE_def split: prod.splits sum.splits option.splits)

lemma catchE_Inl [exec_simps]: "\<not> catchE m s = (Inl e, s')"
  by (auto simp: catchE_def split: prod.splits sum.splits)

text \<open>Running a step of known outcome.\<close>

lemma bindE_run:
  "m s = (Inr a, s1) \<Longrightarrow> bindE m f s = f a s1"
  "m s = (Inl e, s1) \<Longrightarrow> bindE m f s = (Inl e, s1)"
  by (simp_all add: bindE_def)

lemma bindE_ret [simp]: "bindE (ret a) f = f a"
  by (auto simp: bindE_def ret_def)

lemma bindE_throwE [simp]: "bindE (throwE e) f = throwE e"
  by (auto simp: bindE_def throwE_def)

lemma bindE_liftE_Inr [simp]: "bindE (liftE (Inr a)) f = f a"
  by (auto simp: bindE_def liftE_def)

text \<open>A handler that maps the error of its body and renders its result ends where the body ends.\<close>

lemma handler_state:
  "bindE (mapErr f m) (\<lambda>a. ret (g a)) s = (r, s') \<Longrightarrow> \<exists>r0. m s = (r0, s')"
  by (auto simp: bindE_def mapErr_def ret_def split: prod.splits sum.splits)

section \<open>What every run of a computation does to the state\<close>

text \<open>\<open>stepsBy R m\<close>: whatever its result, a run of \<open>m\<close> changes the state by a step of \<open>R\<close>. For a
  reflexive and transitive \<open>R\<close> the rules follow the structure of \<open>m\<close>.\<close>

definition stepsBy :: "('s \<Rightarrow> 's \<Rightarrow> bool) \<Rightarrow> ('s, 'e, 'a) exec \<Rightarrow> bool" where
  "stepsBy R m \<longleftrightarrow> (\<forall>s r s'. m s = (r, s') \<longrightarrow> R s s')"

lemma stepsByI: "(\<And>s r s'. m s = (r, s') \<Longrightarrow> R s s') \<Longrightarrow> stepsBy R m"
  by (simp add: stepsBy_def)

lemma stepsByD: "stepsBy R m \<Longrightarrow> m s = (r, s') \<Longrightarrow> R s s'"
  by (simp add: stepsBy_def)

lemma stepsBy_mono: "stepsBy R m \<Longrightarrow> (\<And>s s'. R s s' \<Longrightarrow> Q s s') \<Longrightarrow> stepsBy Q m"
  by (simp add: stepsBy_def)

lemma stepsBy_pure:
  assumes "reflp R"
  shows "stepsBy R (ret a)" and "stepsBy R (throwE e)" and "stepsBy R (liftE x)"
  using assms by (auto simp: stepsBy_def ret_def throwE_def liftE_def elim: reflpE)

lemma stepsBy_bindE:
  assumes "transp R" and "stepsBy R m" and "\<And>a. stepsBy R (f a)"
  shows "stepsBy R (bindE m f)"
proof (rule stepsByI)
  fix s r s' assume run: "bindE m f s = (r, s')"
  obtain r1 s1 where m: "m s = (r1, s1)" by (cases "m s")
  show "R s s'"
  proof (cases r1)
    case (Inl e)
    with run m stepsByD [OF assms(2) m] show ?thesis by (simp add: bindE_def)
  next
    case (Inr a)
    with run m have "f a s1 = (r, s')" by (simp add: bindE_def)
    with transpD [OF assms(1)] stepsByD [OF assms(2) m] stepsByD [OF assms(3)] show ?thesis by blast
  qed
qed

lemma stepsBy_thenE: "transp R \<Longrightarrow> stepsBy R m \<Longrightarrow> stepsBy R n \<Longrightarrow> stepsBy R (thenE m n)"
  by (simp add: thenE_def stepsBy_bindE)

lemma stepsBy_mapErr: "stepsBy R m \<Longrightarrow> stepsBy R (mapErr f m)"
  by (auto simp: stepsBy_def mapErr_def split: prod.splits sum.splits)

lemma stepsBy_case_option:
  "stepsBy R m \<Longrightarrow> (\<And>x. stepsBy R (f x)) \<Longrightarrow> stepsBy R (case x of None \<Rightarrow> m | Some y \<Rightarrow> f y)"
  by (cases x) auto

lemma stepsBy_case_sum:
  "(\<And>e. stepsBy R (f e)) \<Longrightarrow> (\<And>a. stepsBy R (g a)) \<Longrightarrow> stepsBy R (case x of Inl e \<Rightarrow> f e | Inr a \<Rightarrow> g a)"
  by (cases x) auto

lemma stepsBy_case_prod: "(\<And>a b. stepsBy R (f a b)) \<Longrightarrow> stepsBy R (case p of (a, b) \<Rightarrow> f a b)"
  by (cases p) auto

lemma stepsBy_if: "stepsBy R m \<Longrightarrow> stepsBy R n \<Longrightarrow> stepsBy R (if b then m else n)"
  by simp

section \<open>The world of a server method\<close>

record 'x world =
  w_st :: 'x
  w_ids :: nat
  w_ticks :: nat

definition inSt :: "('x, 'e, 'a) exec \<Rightarrow> ('x world, 'e, 'a) exec" where
  "inSt m w = (case m (w_st w) of (r, x) \<Rightarrow> (r, w\<lparr>w_st := x\<rparr>))"

lemma inSt_Inr [exec_simps]:
  "inSt m w = (Inr a, w') \<longleftrightarrow> (\<exists>x. m (w_st w) = (Inr a, x) \<and> w' = w\<lparr>w_st := x\<rparr>)"
  by (auto simp: inSt_def split: prod.splits)

lemma inSt_Inl [exec_simps]:
  "inSt m w = (Inl e, w') \<longleftrightarrow> (\<exists>x. m (w_st w) = (Inl e, x) \<and> w' = w\<lparr>w_st := x\<rparr>)"
  by (auto simp: inSt_def split: prod.splits)

section \<open>Lists\<close>

lemma find_map_upd:
  assumes "\<And>x. P (f x) = P x"
  shows "find P (map f xs) = map_option f (find P xs)"
  using assms by (induction xs) auto

lemma find_append: "find P (xs @ ys) = (case find P xs of None \<Rightarrow> find P ys | Some x \<Rightarrow> Some x)"
  by (induction xs) auto

lemma find_SomeD: "find P xs = Some x \<Longrightarrow> x \<in> set xs \<and> P x"
  by (auto simp: find_Some_iff)

lemma find_NoneD: "find P xs = None \<Longrightarrow> x \<in> set xs \<Longrightarrow> \<not> P x"
  by (auto simp: find_None_iff)

lemma find_unique:
  assumes "x \<in> set xs" and "P x" and "\<And>y. y \<in> set xs \<Longrightarrow> P y \<Longrightarrow> y = x"
  shows "find P xs = Some x"
proof (cases "find P xs")
  case None
  with find_NoneD [OF None assms(1)] assms(2) show ?thesis by simp
next
  case (Some y)
  with find_SomeD [OF Some] assms(3) show ?thesis by simp
qed

lemma sum_list_filter_split:
  "sum_list (map f xs) = sum_list (map f (filter P xs)) + sum_list (map f (filter (\<lambda>x. \<not> P x) xs))"
  for f :: "'a \<Rightarrow> 'b::comm_monoid_add"
  by (induction xs) (auto simp: ac_simps)

lemma sum_list_map_if:
  "sum_list (map (\<lambda>x. if P x then f x else 0) xs) = sum_list (map f (filter P xs))"
  for f :: "'a \<Rightarrow> 'b::comm_monoid_add"
  by (induction xs) auto

text \<open>Sorting by a key that a change of the elements does not touch.\<close>

lemma map_insort_key: "(\<And>x. k (h x) = k x) \<Longrightarrow> map h (insort_key k x xs) = insort_key k (h x) (map h xs)"
  by (induction xs) auto

lemma map_sort_key: "(\<And>x. k (h x) = k x) \<Longrightarrow> map h (sort_key k xs) = sort_key k (map h xs)"
  by (induction xs) (simp_all add: map_insort_key)

end
