(* ===== verification/Domain.thy ===== *)
theory Domain
  imports Prelude
begin

text \<open>
  The domain types and rules of \<open>internal/ledger\<close>: the domain error codes and the Go error
  values, accounts with the normalised balance, journals with the double-entry rule
  \<open>Journal.Validate\<close>, flows, reservations with the conservation rule, snapshots, FX rates
  and the reconciliation types.

  Go string enumerations (\<open>type Direction string\<close>) stay strings with named constants, as
  in the source: the code casts arbitrary strings to them and \<open>Valid\<close> checks the value.
  \<open>DomainCode\<close> is only ever one of its constants and is a datatype, with its text in
  \<open>codeString\<close>. Field names carry a
  prefix of their struct. The texts of error messages are those of the
  source, less the quoting, positions and wrapped causes that \<open>fmt.Errorf\<close> adds.
\<close>

section \<open>Errors (errors.go)\<close>

datatype DomainCode =
    CodeInsufficientFunds | CodeAccountNotFound | CodeAccountCurrencyMismatch
  | CodeUnbalancedJournal | CodeDuplicateIdempotencyKey | CodeFlowAlreadyCompleted
  | CodeFlowConflict | CodeInvalidAccountStatus | CodeSerializationRetryExhausted
  | CodeReservationNotFound | CodeReservationClosed | CodeReservationAmountExceeds
  | CodeReservationCurrencyMismatch | CodeFXRateNotFound | CodeFXAmountMismatch
  | CodeDiscrepancyNotFound | CodeDiscrepancyClosed | CodeReconBatchNotFound
  | CodeUnsupportedOperation | CodeFlowTooLarge

text \<open>A Go error value: a domain error, a PostgreSQL error with its SQLSTATE, the error of a
  cancelled context, a run-time panic, or any other error.\<close>

datatype error =
    DomainError DomainCode string
  | PgError string string
  | ContextError
  | Panic string
  | GoError string

definition IsDomainCode :: "error \<Rightarrow> DomainCode \<Rightarrow> bool" where
  "IsDomainCode err code = (case err of DomainError c _ \<Rightarrow> c = code | _ \<Rightarrow> False)"

text \<open>The text of a domain code, as it travels in the \<open>ledger-error-code\<close> header.\<close>

fun codeString :: "DomainCode \<Rightarrow> string" where
  "codeString CodeInsufficientFunds = ''INSUFFICIENT_FUNDS''"
| "codeString CodeAccountNotFound = ''ACCOUNT_NOT_FOUND''"
| "codeString CodeAccountCurrencyMismatch = ''ACCOUNT_CURRENCY_MISMATCH''"
| "codeString CodeUnbalancedJournal = ''UNBALANCED_JOURNAL''"
| "codeString CodeDuplicateIdempotencyKey = ''DUPLICATE_IDEMPOTENCY_KEY''"
| "codeString CodeFlowAlreadyCompleted = ''FLOW_ALREADY_COMPLETED''"
| "codeString CodeFlowConflict = ''FLOW_CONFLICT''"
| "codeString CodeInvalidAccountStatus = ''INVALID_ACCOUNT_STATUS''"
| "codeString CodeSerializationRetryExhausted = ''SERIALIZATION_RETRY_EXHAUSTED''"
| "codeString CodeReservationNotFound = ''RESERVATION_NOT_FOUND''"
| "codeString CodeReservationClosed = ''RESERVATION_CLOSED''"
| "codeString CodeReservationAmountExceeds = ''RESERVATION_AMOUNT_EXCEEDS''"
| "codeString CodeReservationCurrencyMismatch = ''RESERVATION_CURRENCY_MISMATCH''"
| "codeString CodeFXRateNotFound = ''FX_RATE_NOT_FOUND''"
| "codeString CodeFXAmountMismatch = ''FX_AMOUNT_MISMATCH''"
| "codeString CodeDiscrepancyNotFound = ''DISCREPANCY_NOT_FOUND''"
| "codeString CodeDiscrepancyClosed = ''DISCREPANCY_CLOSED''"
| "codeString CodeReconBatchNotFound = ''RECON_BATCH_NOT_FOUND''"
| "codeString CodeUnsupportedOperation = ''UNSUPPORTED_OPERATION''"
| "codeString CodeFlowTooLarge = ''FLOW_TOO_LARGE''"

lemma codeString_inject: "codeString c = codeString c' \<longleftrightarrow> c = c'"
  by (cases c; cases c'; simp)

lemma codeString_nonempty [simp]: "codeString c \<noteq> ''''"
  by (cases c) simp_all

section \<open>Accounts (account.go)\<close>

type_synonym NormalBalance = string

abbreviation NormalDebit :: NormalBalance where "NormalDebit \<equiv> ''DEBIT''"
abbreviation NormalCredit :: NormalBalance where "NormalCredit \<equiv> ''CREDIT''"

definition NormalBalance_Valid :: "NormalBalance \<Rightarrow> bool" where
  "NormalBalance_Valid n \<longleftrightarrow> n = NormalDebit \<or> n = NormalCredit"

type_synonym AccountStatus = string

abbreviation AccountActive :: AccountStatus where "AccountActive \<equiv> ''ACTIVE''"
abbreviation AccountFrozen :: AccountStatus where "AccountFrozen \<equiv> ''FROZEN''"
abbreviation AccountClosed :: AccountStatus where "AccountClosed \<equiv> ''CLOSED''"

definition AccountStatus_Valid :: "AccountStatus \<Rightarrow> bool" where
  "AccountStatus_Valid s \<longleftrightarrow> s \<in> {AccountActive, AccountFrozen, AccountClosed}"

record Account =
  acc_ID :: string
  acc_TenantID :: string
  acc_OwnerType :: string
  acc_OwnerID :: string
  acc_AccountType :: string
  acc_Currency :: string
  acc_NormalBalance :: NormalBalance
  acc_AllowNegative :: bool
  acc_Status :: AccountStatus
  acc_CreatedAt :: time

definition NormalizedBalance :: "NormalBalance \<Rightarrow> decimal \<Rightarrow> decimal \<Rightarrow> decimal" where
  "NormalizedBalance nb postedDebits postedCredits =
     (if nb = NormalCredit then postedCredits - postedDebits else postedDebits - postedCredits)"

section \<open>Money (money.go)\<close>

definition ParseAmount :: "decimal_lib \<Rightarrow> string \<Rightarrow> error + decimal" where
  "ParseAmount D s =
     (if s = '''' then Inl (GoError ''amount is empty'')
      else case dl_NewFromString D s of
        None \<Rightarrow> Inl (GoError (''invalid amount '' @ s))
      | Some d \<Rightarrow>
          if \<not> 0 < d then Inl (GoError (''amount must be > 0, got '' @ s))
          else Inr d)"

section \<open>Journals (journal.go)\<close>

type_synonym Direction = string

abbreviation DirectionDebit :: Direction where "DirectionDebit \<equiv> ''DEBIT''"
abbreviation DirectionCredit :: Direction where "DirectionCredit \<equiv> ''CREDIT''"

definition Direction_Valid :: "Direction \<Rightarrow> bool" where
  "Direction_Valid d \<longleftrightarrow> d = DirectionDebit \<or> d = DirectionCredit"

record Entry =
  ent_AccountID :: string
  ent_Currency :: string
  ent_Direction :: Direction
  ent_Amount :: decimal

record Journal =
  jrn_ID :: string
  jrn_TenantID :: string
  jrn_FlowRunID :: string
  jrn_EventID :: string
  jrn_SourceService :: string
  jrn_SourceType :: string
  jrn_ActorID :: string
  jrn_Metadata :: metadata
  jrn_Entries :: "Entry list"
  jrn_CreatedAt :: time

text \<open>The signed amount of an entry: a debit counts up, a credit down.\<close>

definition signedAmount :: "Entry \<Rightarrow> decimal" where
  "signedAmount e =
     (if ent_Direction e = DirectionCredit then - ent_Amount e else ent_Amount e)"

text \<open>\<open>sums[e.Currency] = sums[e.Currency].Add(signed)\<close>: a missing key reads as zero.\<close>

definition addSum :: "Entry \<Rightarrow> (string \<times> decimal) list \<Rightarrow> (string \<times> decimal) list" where
  "addSum e totals =
     AList.update (ent_Currency e)
       (case map_of totals (ent_Currency e) of None \<Rightarrow> signedAmount e | Some x \<Rightarrow> x + signedAmount e)
       totals"

text \<open>The loop of \<open>Journal.Validate\<close> over the entries, which checks each of them and
  accumulates the sums; the range over the map \<open>sums\<close> is over its keys in the order of
  insertion (Go leaves the order open, which decides only which currency is reported).\<close>

fun validateEntries :: "Entry list \<Rightarrow> (string \<times> decimal) list \<Rightarrow> error + (string \<times> decimal) list" where
  "validateEntries [] totals = Inr totals"
| "validateEntries (e # es) totals =
     (if ent_AccountID e = '''' then Inl (GoError ''journal: account_id required'')
      else if ent_Currency e = '''' then Inl (GoError ''journal: currency required'')
      else if \<not> Direction_Valid (ent_Direction e) then Inl (GoError ''journal: invalid direction'')
      else if \<not> 0 < ent_Amount e then Inl (GoError ''journal: amount must be > 0'')
      else validateEntries es (addSum e totals))"

definition Journal_Validate :: "Journal \<Rightarrow> error + unit" where
  "Journal_Validate j =
     (if jrn_EventID j = '''' then Inl (GoError ''journal: event_id is required'')
      else if length (jrn_Entries j) = 0 then Inl (GoError ''journal: at least one entry required'')
      else case validateEntries (jrn_Entries j) [] of
        Inl e \<Rightarrow> Inl e
      | Inr totals \<Rightarrow>
          (case find (\<lambda>(ccy, s). s \<noteq> 0) totals of
             Some (ccy, s) \<Rightarrow> Inl (GoError (''journal: unbalanced '' @ ccy))
           | None \<Rightarrow> Inr ()))"

section \<open>Flows (flow.go)\<close>

type_synonym FlowStatus = string

abbreviation FlowRunning :: FlowStatus where "FlowRunning \<equiv> ''RUNNING''"
abbreviation FlowCompleted :: FlowStatus where "FlowCompleted \<equiv> ''COMPLETED''"
abbreviation FlowFailed :: FlowStatus where "FlowFailed \<equiv> ''FAILED''"

type_synonym StepStatus = string

abbreviation StepCompleted :: StepStatus where "StepCompleted \<equiv> ''COMPLETED''"
abbreviation StepFailed :: StepStatus where "StepFailed \<equiv> ''FAILED''"

record FlowStep =
  fs_ID :: string
  fs_TenantID :: string
  fs_FlowRunID :: string
  fs_StepID :: string
  fs_Status :: StepStatus
  fs_JournalID :: string
  fs_ErrorCode :: string
  fs_CreatedAt :: time

record FlowRun =
  fr_ID :: string
  fr_TenantID :: string
  fr_FlowType :: string
  fr_IdempotencyKey :: string
  fr_SourceService :: string
  fr_ActorID :: string
  fr_Status :: FlowStatus
  fr_Metadata :: metadata
  fr_CreatedAt :: time
  fr_CompletedAt :: "time option"
  fr_FailedAt :: "time option"
  fr_Steps :: "FlowStep list"

record StepInput =
  si_StepID :: string
  si_Journal :: Journal

section \<open>FX rates (fx.go) and snapshots (snapshot.go)\<close>

record FXRate =
  fx_ID :: string
  fx_TenantID :: string
  fx_BaseCurrency :: string
  fx_QuoteCurrency :: string
  fx_Rate :: decimal
  fx_Source :: string
  fx_EffectiveAt :: time
  fx_CreatedAt :: time

record BalanceSnapshot =
  bs_ID :: string
  bs_TenantID :: string
  bs_AccountID :: string
  bs_Currency :: string
  bs_PostedDebits :: decimal
  bs_PostedCredits :: decimal
  bs_Version :: int
  bs_SnapshotAt :: time
  bs_CreatedAt :: time

section \<open>Reservations (reservation.go)\<close>

type_synonym ReservationStatus = string

abbreviation ReservationHeld :: ReservationStatus where "ReservationHeld \<equiv> ''HELD''"
abbreviation ReservationPartial :: ReservationStatus where "ReservationPartial \<equiv> ''PARTIAL''"
abbreviation ReservationCommitted :: ReservationStatus where "ReservationCommitted \<equiv> ''COMMITTED''"
abbreviation ReservationReleased :: ReservationStatus where "ReservationReleased \<equiv> ''RELEASED''"
abbreviation ReservationExpired :: ReservationStatus where "ReservationExpired \<equiv> ''EXPIRED''"

definition ReservationStatus_Closed :: "ReservationStatus \<Rightarrow> bool" where
  "ReservationStatus_Closed s \<longleftrightarrow>
     s \<in> {ReservationCommitted, ReservationReleased, ReservationExpired}"

record Reservation =
  res_ID :: string
  res_TenantID :: string
  res_IdempotencyKey :: string
  res_SourceAccountID :: string
  res_ReservedAccountID :: string
  res_Currency :: string
  res_OriginalAmount :: decimal
  res_OutstandingAmount :: decimal
  res_CommittedAmount :: decimal
  res_ReleasedAmount :: decimal
  res_Status :: ReservationStatus
  res_ExpiresAt :: "time option"
  res_FlowRunID :: string
  res_Metadata :: metadata
  res_CreatedAt :: time
  res_UpdatedAt :: time

definition Reservation_Validate :: "Reservation \<Rightarrow> error + unit" where
  "Reservation_Validate r =
     (if res_OutstandingAmount r + res_CommittedAmount r + res_ReleasedAmount r
         \<noteq> res_OriginalAmount r
      then Inl (GoError ''reservation: outstanding+committed+released != original'')
      else Inr ())"

section \<open>Reconciliation types (recon.go)\<close>

type_synonym ExternalRecordStatus = string

abbreviation ExternalUnmatched :: ExternalRecordStatus where "ExternalUnmatched \<equiv> ''UNMATCHED''"
abbreviation ExternalMatched :: ExternalRecordStatus where "ExternalMatched \<equiv> ''MATCHED''"
abbreviation ExternalMismatched :: ExternalRecordStatus where "ExternalMismatched \<equiv> ''MISMATCHED''"

record ExternalRecord =
  er_ID :: string
  er_TenantID :: string
  er_Source :: string
  er_ExternalRef :: string
  er_Amount :: decimal
  er_Currency :: string
  er_OccurredAt :: time
  er_AccountID :: string
  er_RawPayload :: metadata
  er_MatchStatus :: ExternalRecordStatus
  er_MatchedJournalID :: string
  er_CreatedAt :: time

type_synonym BatchStatus = string

abbreviation BatchRunning :: BatchStatus where "BatchRunning \<equiv> ''RUNNING''"
abbreviation BatchCompleted :: BatchStatus where "BatchCompleted \<equiv> ''COMPLETED''"
abbreviation BatchFailed :: BatchStatus where "BatchFailed \<equiv> ''FAILED''"

type_synonym i32 = "32 word"
type_synonym i64 = "64 word"

record ReconciliationBatch =
  rb_ID :: string
  rb_TenantID :: string
  rb_IdempotencyKey :: string
  rb_Source :: string
  rb_WindowStart :: time
  rb_WindowEnd :: time
  rb_Status :: BatchStatus
  rb_IngestedCount :: i32
  rb_MatchedCount :: i32
  rb_MismatchedCount :: i32
  rb_MissingInLedgerCount :: i32
  rb_MissingInExternalCount :: i32
  rb_StartedAt :: time
  rb_CompletedAt :: time
  rb_ActorID :: string

type_synonym DiscrepancyType = string

abbreviation DiscrepancyMissingInLedger :: DiscrepancyType where
  "DiscrepancyMissingInLedger \<equiv> ''MISSING_IN_LEDGER''"
abbreviation DiscrepancyMissingInExternal :: DiscrepancyType where
  "DiscrepancyMissingInExternal \<equiv> ''MISSING_IN_EXTERNAL''"
abbreviation DiscrepancyAmountMismatch :: DiscrepancyType where
  "DiscrepancyAmountMismatch \<equiv> ''AMOUNT_MISMATCH''"

type_synonym DiscrepancyStatus = string

abbreviation DiscrepancyOpen :: DiscrepancyStatus where "DiscrepancyOpen \<equiv> ''OPEN''"
abbreviation DiscrepancyResolved :: DiscrepancyStatus where "DiscrepancyResolved \<equiv> ''RESOLVED''"
abbreviation DiscrepancyIgnored :: DiscrepancyStatus where "DiscrepancyIgnored \<equiv> ''IGNORED''"

definition DiscrepancyStatus_Closed :: "DiscrepancyStatus \<Rightarrow> bool" where
  "DiscrepancyStatus_Closed s \<longleftrightarrow> s = DiscrepancyResolved \<or> s = DiscrepancyIgnored"

record Discrepancy =
  dis_ID :: string
  dis_TenantID :: string
  dis_BatchID :: string
  dis_Type :: DiscrepancyType
  dis_ExternalRecordID :: string
  dis_JournalID :: string
  dis_Status :: DiscrepancyStatus
  dis_ResolutionJournalID :: string
  dis_ResolutionNote :: string
  dis_ResolvedBy :: string
  dis_ResolvedAt :: time
  dis_CreatedAt :: time

section \<open>Amounts\<close>

lemma ParseAmount_Inr:
  "ParseAmount D s = Inr d \<longleftrightarrow> s \<noteq> '''' \<and> dl_NewFromString D s = Some d \<and> 0 < d"
  by (auto simp: ParseAmount_def split: option.splits if_splits)

lemma ParseAmount_pos: "ParseAmount D s = Inr d \<Longrightarrow> 0 < d"
  by (simp add: ParseAmount_Inr)

text \<open>What \<open>amount.String()\<close> writes into an inner request, \<open>ParseAmount\<close> reads back.\<close>

lemma ParseAmount_String:
  assumes "codec_ok D" and "dl_String D d \<noteq> ''''" and "0 < d"
  shows "ParseAmount D (dl_String D d) = Inr d"
  using assms by (simp add: ParseAmount_Inr)

section \<open>The double-entry rule\<close>

text \<open>The sum of the signed amounts of a list of entries in one currency.\<close>

definition netIn :: "string \<Rightarrow> Entry list \<Rightarrow> decimal" where
  "netIn ccy es = sum_list (map signedAmount (filter (\<lambda>e. ent_Currency e = ccy) es))"

lemma netIn_simps [simp]:
  "netIn ccy [] = 0"
  "netIn ccy (e # es) = (if ent_Currency e = ccy then signedAmount e else 0) + netIn ccy es"
  "netIn ccy (es @ fs) = netIn ccy es + netIn ccy fs"
  by (simp_all add: netIn_def)

definition wf_entry :: "Entry \<Rightarrow> bool" where
  "wf_entry e \<longleftrightarrow> ent_AccountID e \<noteq> '''' \<and> ent_Currency e \<noteq> '''' \<and>
     Direction_Valid (ent_Direction e) \<and> 0 < ent_Amount e"

text \<open>The value a Go map of sums holds for a key, zero when the key is absent.\<close>

definition sumOf :: "(string \<times> decimal) list \<Rightarrow> string \<Rightarrow> decimal" where
  "sumOf totals ccy = (case map_of totals ccy of None \<Rightarrow> 0 | Some x \<Rightarrow> x)"

lemma sumOf_addSum: "sumOf (addSum e totals) ccy =
    sumOf totals ccy + (if ent_Currency e = ccy then signedAmount e else 0)"
  by (auto simp: sumOf_def addSum_def update_conv' split: option.splits)

lemma distinct_addSum: "distinct (map fst totals) \<Longrightarrow> distinct (map fst (addSum e totals))"
  by (simp add: addSum_def distinct_update)

lemma validateEntries_Inr:
  "validateEntries es totals = Inr totals' \<Longrightarrow>
     list_all wf_entry es \<and> (\<forall>ccy. sumOf totals' ccy = sumOf totals ccy + netIn ccy es) \<and>
     (distinct (map fst totals) \<longrightarrow> distinct (map fst totals'))"
proof (induction es totals rule: validateEntries.induct)
  case (1 totals)
  then show ?case by simp
next
  case (2 e es totals)
  then show ?case
    by (auto simp: wf_entry_def sumOf_addSum distinct_addSum split: if_splits)
qed

lemma validateEntries_wf:
  "list_all wf_entry es \<Longrightarrow> \<exists>totals'. validateEntries es totals = Inr totals'"
  by (induction es totals rule: validateEntries.induct) (auto simp: wf_entry_def)

lemma all_sums_zero:
  "distinct (map fst totals) \<Longrightarrow>
     find (\<lambda>(ccy, s). s \<noteq> 0) totals = None \<longleftrightarrow> (\<forall>ccy. sumOf totals ccy = 0)"
proof (induction totals)
  case Nil
  then show ?case by (simp add: sumOf_def)
next
  case (Cons p totals)
  obtain c x where p: "p = (c, x)" by (cases p)
  have eq: "sumOf ((c, x) # totals) ccy = (if ccy = c then x else sumOf totals ccy)" for ccy
    by (simp add: sumOf_def p)
  have "map_of totals c = None"
    using Cons.prems by (simp add: p map_of_eq_None_iff)
  then have c: "sumOf totals c = 0" by (simp add: sumOf_def)
  have "(\<forall>ccy. sumOf ((c, x) # totals) ccy = 0) \<longleftrightarrow> x = 0 \<and> (\<forall>ccy. sumOf totals ccy = 0)"
    using c by (metis eq)
  with Cons show ?case by (auto simp: p)
qed

theorem Journal_Validate_iff:
  "Journal_Validate j = Inr () \<longleftrightarrow>
     jrn_EventID j \<noteq> '''' \<and> jrn_Entries j \<noteq> [] \<and> list_all wf_entry (jrn_Entries j) \<and>
     (\<forall>ccy. netIn ccy (jrn_Entries j) = 0)"
proof (cases "jrn_EventID j = '''' \<or> jrn_Entries j = []")
  case True
  then show ?thesis by (auto simp: Journal_Validate_def)
next
  case False
  note ne = False
  show ?thesis
  proof (cases "validateEntries (jrn_Entries j) []")
    case (Inl e)
    then have "\<not> list_all wf_entry (jrn_Entries j)"
      by (metis validateEntries_wf sum.distinct(1))
    with ne Inl show ?thesis by (simp add: Journal_Validate_def)
  next
    case (Inr totals)
    from validateEntries_Inr [OF Inr]
    have *: "list_all wf_entry (jrn_Entries j)" "distinct (map fst totals)"
        "\<And>ccy. sumOf totals ccy = netIn ccy (jrn_Entries j)"
      by (simp_all add: sumOf_def)
    have "Journal_Validate j = Inr () \<longleftrightarrow> find (\<lambda>(ccy, s). s \<noteq> 0) totals = None"
      using ne Inr by (auto simp: Journal_Validate_def split: option.splits)
    with ne * show ?thesis by (simp add: all_sums_zero)
  qed
qed

lemma Journal_Validate_Inr:
  "Journal_Validate j = Inr u \<Longrightarrow> list_all wf_entry (jrn_Entries j) \<and>
     (\<forall>ccy. netIn ccy (jrn_Entries j) = 0)"
  using Journal_Validate_iff [of j] by simp

end
