(* ===== verification/Repo.thy ===== *)
theory Repo
  imports Domain "HOL-Library.Multiset"
begin

text \<open>
  The repository interface of \<open>internal/repo\<close>.

  \<^item> \<open>tx_ops\<close> and \<open>store_ops\<close> are the Go interfaces \<open>repo.Tx\<close> and \<open>repo.Store\<close>: records of
    methods over the state \<open>'t\<close> of a transaction and \<open>'s\<close> of a store. The service layer
    takes them as arguments, as the Go code takes interface values, so it is written once
    for every backend.
  \<^item> \<open>WithRetry\<close> is the retry loop of \<open>retry.go\<close>.
  \<^item> \<open>ledger_view\<close> is what a ledger database means: the accounts, balances, posted entries,
    flows, reservations and outbox events a client can observe, with no rows or texts. The
    locale \<open>ledger_tx\<close> says what each transactional method does to the view when it
    succeeds; \<open>ledger_store\<close> adds what begin, commit and rollback do. A backend is correct
    when it interprets the locale; the service theorems are proved once inside it.
\<close>

section \<open>Rows and query inputs (repo.go)\<close>

record OutboxEvent =
  obx_ID :: string
  obx_TenantID :: string
  obx_AggregateID :: string
  obx_EventType :: string
  obx_IdempotencyKey :: string
  obx_Payload :: json
  obx_CreatedAt :: time

record ListActivityInput =
  lai_TenantID :: string
  lai_AccountID :: string
  lai_Currency :: string
  lai_Since :: "time option"
  lai_Until :: "time option"
  lai_Limit :: int

record ListFXRatesInput =
  lfx_TenantID :: string
  lfx_BaseCurrency :: string
  lfx_QuoteCurrency :: string
  lfx_Since :: "time option"
  lfx_Until :: "time option"
  lfx_Limit :: int

record ListReservationsInput =
  lri_TenantID :: string
  lri_OwnerType :: string
  lri_OwnerID :: string
  lri_Status :: string
  lri_Limit :: int

record ListDiscrepanciesInput =
  ldi_TenantID :: string
  ldi_BatchID :: string
  ldi_Status :: string
  ldi_Limit :: int

record ActivityRow =
  ar_JournalID :: string
  ar_EntryID :: string
  ar_Currency :: string
  ar_Direction :: Direction
  ar_Amount :: decimal
  ar_CreatedAt :: time
  ar_SourceService :: string

record ExpiredReservation =
  xr_ID :: string
  xr_TenantID :: string

record TenantBalanceRow =
  tb_AccountID :: string
  tb_Currency :: string
  tb_PostedDebits :: decimal
  tb_PostedCredits :: decimal
  tb_Version :: int

section \<open>The interfaces\<close>

record 't tx_ops =
  tx_GetFlowByIdempotency :: "string \<Rightarrow> string \<Rightarrow> ('t, error, FlowRun option) exec"
  tx_GetAccount :: "string \<Rightarrow> string \<Rightarrow> ('t, error, Account) exec"
  tx_LockBalance :: "string \<Rightarrow> string \<Rightarrow> string \<Rightarrow> ('t, error, decimal \<times> decimal \<times> int) exec"
  tx_EnsureBalanceRow :: "string \<Rightarrow> string \<Rightarrow> string \<Rightarrow> ('t, error, unit) exec"
  tx_UpdateBalance :: "string \<Rightarrow> string \<Rightarrow> string \<Rightarrow> decimal \<Rightarrow> decimal \<Rightarrow> ('t, error, unit) exec"
  tx_InsertAccount :: "Account \<Rightarrow> ('t, error, unit) exec"
  tx_InsertFlowRun :: "FlowRun \<Rightarrow> ('t, error, unit) exec"
  tx_CompleteFlowRun :: "string \<Rightarrow> string \<Rightarrow> ('t, error, unit) exec"
  tx_InsertJournal :: "Journal \<Rightarrow> ('t, error, unit) exec"
  tx_InsertEntry :: "string \<Rightarrow> string \<Rightarrow> string \<Rightarrow> string \<Rightarrow> string \<Rightarrow> Direction \<Rightarrow> decimal \<Rightarrow>
    ('t, error, unit) exec"
  tx_InsertFlowStep :: "FlowStep \<Rightarrow> ('t, error, unit) exec"
  tx_InsertOutbox :: "OutboxEvent \<Rightarrow> ('t, error, unit) exec"
  tx_GetFlowSteps :: "string \<Rightarrow> string \<Rightarrow> ('t, error, FlowStep list) exec"
  tx_InsertReservation :: "Reservation \<Rightarrow> ('t, error, unit) exec"
  tx_LockReservation :: "string \<Rightarrow> string \<Rightarrow> ('t, error, Reservation) exec"
  tx_GetReservationByIdempotency :: "string \<Rightarrow> string \<Rightarrow> ('t, error, Reservation option) exec"
  tx_UpdateReservationAmounts :: "string \<Rightarrow> string \<Rightarrow> decimal \<Rightarrow> decimal \<Rightarrow> decimal \<Rightarrow>
    ReservationStatus \<Rightarrow> ('t, error, unit) exec"
  tx_GetReconBatchByIdempotency :: "string \<Rightarrow> string \<Rightarrow> ('t, error, ReconciliationBatch option) exec"
  tx_InsertReconBatch :: "ReconciliationBatch \<Rightarrow> ('t, error, unit) exec"
  tx_CompleteReconBatch :: "ReconciliationBatch \<Rightarrow> ('t, error, unit) exec"
  tx_ListExternalRecordsForRecon :: "string \<Rightarrow> string \<Rightarrow> time \<Rightarrow> time \<Rightarrow>
    ('t, error, ExternalRecord list) exec"
  tx_ListJournalsForRecon :: "string \<Rightarrow> string \<Rightarrow> time \<Rightarrow> time \<Rightarrow> ('t, error, Journal list) exec"
  tx_UpdateExternalRecordMatch :: "string \<Rightarrow> string \<Rightarrow> ExternalRecordStatus \<Rightarrow> string \<Rightarrow>
    ('t, error, unit) exec"
  tx_SumJournalEntries :: "string \<Rightarrow> string \<Rightarrow> string \<Rightarrow> string \<Rightarrow>
    ('t, error, decimal \<times> decimal) exec"
  tx_InsertDiscrepancy :: "Discrepancy \<Rightarrow> ('t, error, unit) exec"
  tx_LockDiscrepancy :: "string \<Rightarrow> string \<Rightarrow> ('t, error, Discrepancy) exec"
  tx_ResolveDiscrepancyRow :: "Discrepancy \<Rightarrow> ('t, error, unit) exec"

record ('s, 't) store_ops =
  st_Tx :: "'t tx_ops"
  st_BeginFlowTx :: "('s, error, 't) exec"
  st_Commit :: "'t \<Rightarrow> ('s, error, unit) exec"
  st_Rollback :: "'t \<Rightarrow> 's \<Rightarrow> 's"
  st_GetAccount :: "string \<Rightarrow> string \<Rightarrow> ('s, error, Account) exec"
  st_GetBalance :: "string \<Rightarrow> string \<Rightarrow> string \<Rightarrow> ('s, error, decimal \<times> decimal \<times> int) exec"
  st_GetFlow :: "string \<Rightarrow> string \<Rightarrow> ('s, error, FlowRun option) exec"
  st_ListAccountActivity :: "ListActivityInput \<Rightarrow> ('s, error, ActivityRow list) exec"
  st_PendingOutbox :: "int \<Rightarrow> ('s, error, OutboxEvent list) exec"
  st_MarkOutboxPublished :: "string \<Rightarrow> ('s, error, unit) exec"
  st_IncrementOutboxAttempts :: "string \<Rightarrow> ('s, error, unit) exec"
  st_InsertSnapshot :: "BalanceSnapshot \<Rightarrow> ('s, error, unit) exec"
  st_GetSnapshotBefore :: "string \<Rightarrow> string \<Rightarrow> string \<Rightarrow> time \<Rightarrow>
    ('s, error, BalanceSnapshot option) exec"
  st_SumEntriesBetween :: "string \<Rightarrow> string \<Rightarrow> string \<Rightarrow> time \<Rightarrow> time \<Rightarrow>
    ('s, error, decimal \<times> decimal) exec"
  st_ListTenantBalances :: "string \<Rightarrow> ('s, error, TenantBalanceRow list) exec"
  st_ListTenantsDueForSnapshot :: "time \<Rightarrow> int \<Rightarrow> ('s, error, string list) exec"
  st_PruneSnapshotsOlderThan :: "time \<Rightarrow> int \<Rightarrow> ('s, error, int) exec"
  st_UpsertFXRate :: "FXRate \<Rightarrow> ('s, error, FXRate) exec"
  st_GetFXRateAt :: "string \<Rightarrow> string \<Rightarrow> string \<Rightarrow> time \<Rightarrow> ('s, error, FXRate option) exec"
  st_ListFXRates :: "ListFXRatesInput \<Rightarrow> ('s, error, FXRate list) exec"
  st_GetReservation :: "string \<Rightarrow> string \<Rightarrow> ('s, error, Reservation) exec"
  st_ListExpiredReservations :: "time \<Rightarrow> int \<Rightarrow> ('s, error, ExpiredReservation list) exec"
  st_ListReservations :: "ListReservationsInput \<Rightarrow> ('s, error, Reservation list) exec"
  st_InsertExternalRecord :: "ExternalRecord \<Rightarrow> ('s, error, bool) exec"
  st_ListExternalRecordsForRecon :: "string \<Rightarrow> string \<Rightarrow> time \<Rightarrow> time \<Rightarrow>
    ('s, error, ExternalRecord list) exec"
  st_ListJournalsForRecon :: "string \<Rightarrow> string \<Rightarrow> time \<Rightarrow> time \<Rightarrow> ('s, error, Journal list) exec"
  st_GetReconBatch :: "string \<Rightarrow> string \<Rightarrow> ('s, error, ReconciliationBatch) exec"
  st_ListDiscrepancies :: "ListDiscrepanciesInput \<Rightarrow> ('s, error, Discrepancy list) exec"
  st_GetDiscrepancy :: "string \<Rightarrow> string \<Rightarrow> ('s, error, Discrepancy) exec"

section \<open>The retry loop (retry.go)\<close>

definition IsSerializationError :: "error \<Rightarrow> bool" where
  "IsSerializationError err = (case err of PgError code _ \<Rightarrow> code = ''40001'' | _ \<Rightarrow> False)"

fun Error_string :: "error \<Rightarrow> string" where
  "Error_string (DomainError c msg) = codeString c @ '': '' @ msg"
| "Error_string (PgError code msg) = msg"
| "Error_string ContextError = ''context canceled''"
| "Error_string (Panic msg) = msg"
| "Error_string (GoError msg) = msg"

text \<open>\<open>cancelled i\<close>: the context is cancelled during the \<open>i\<close>-th wait; \<open>jit i d\<close>: the random
  jitter \<open>rand.Int64N(d)\<close> of that wait. The waits that were slept in full are logged next
  to the state.\<close>

fun retryLoop :: "(nat \<Rightarrow> bool) \<Rightarrow> (nat \<Rightarrow> duration \<Rightarrow> duration) \<Rightarrow> ('s, error, unit) exec \<Rightarrow>
    nat \<Rightarrow> nat \<Rightarrow> duration \<Rightarrow> error \<Rightarrow> ('s \<times> duration list, error, unit) exec" where
  "retryLoop cancelled jit fn 0 i delay lastErr st =
     (Inl (DomainError CodeSerializationRetryExhausted (Error_string lastErr)), st)"
| "retryLoop cancelled jit fn (Suc n) i delay lastErr (s, slept) =
     (case fn s of
        (Inr u, s') \<Rightarrow> (Inr (), (s', slept))
      | (Inl err, s') \<Rightarrow>
          if \<not> IsSerializationError err then (Inl err, (s', slept))
          else if cancelled i then (Inl ContextError, (s', slept))
          else retryLoop cancelled jit fn n (Suc i)
                 (if delay < 80 * millisecond then delay * 2 else delay) err
                 (s', slept @ [delay + jit i delay]))"

definition WithRetry :: "(nat \<Rightarrow> bool) \<Rightarrow> (nat \<Rightarrow> duration \<Rightarrow> duration) \<Rightarrow> int \<Rightarrow>
    ('s, error, unit) exec \<Rightarrow> ('s \<times> duration list, error, unit) exec" where
  "WithRetry cancelled jit maxAttempts fn =
     (let m = (if maxAttempts \<le> 0 then 5 else maxAttempts)
      in retryLoop cancelled jit fn (nat m) 0 (5 * millisecond) (GoError ''''))"

section \<open>What a ledger means\<close>

text \<open>The part of a reservation that its operations read and write.\<close>

record res_core =
  rc_IdempotencyKey :: string
  rc_SourceAccountID :: string
  rc_ReservedAccountID :: string
  rc_Currency :: string
  rc_Original :: decimal
  rc_Outstanding :: decimal
  rc_Committed :: decimal
  rc_Released :: decimal
  rc_Status :: ReservationStatus

definition coreOf :: "Reservation \<Rightarrow> res_core" where
  "coreOf r = \<lparr>rc_IdempotencyKey = res_IdempotencyKey r,
     rc_SourceAccountID = res_SourceAccountID r, rc_ReservedAccountID = res_ReservedAccountID r,
     rc_Currency = res_Currency r, rc_Original = res_OriginalAmount r,
     rc_Outstanding = res_OutstandingAmount r, rc_Committed = res_CommittedAmount r,
     rc_Released = res_ReleasedAmount r, rc_Status = res_Status r\<rparr>"

type_synonym step_info = "string \<times> StepStatus \<times> string \<times> string"

definition stepInfo :: "FlowStep \<Rightarrow> step_info" where
  "stepInfo s = (fs_StepID s, fs_Status s, fs_JournalID s, fs_ErrorCode s)"

type_synonym bal_key = "string \<times> string \<times> string"
type_synonym posted_entry = "string \<times> string \<times> Entry"

text \<open>
  Keys: accounts, reservations and steps by tenant and identifier, balances by tenant,
  account and currency, flows by tenant and idempotency key. \<open>v_journals\<close> holds tenant,
  journal and event identifiers, \<open>v_entries\<close> tenant, journal and entry, in the order they were
  posted, \<open>v_outbox\<close> tenant, aggregate, event type and idempotency key.
\<close>

record ledger_view =
  v_account :: "string \<times> string \<Rightarrow> Account option"
  v_balance :: "bal_key \<Rightarrow> (decimal \<times> decimal) option"
  v_journals :: "(string \<times> string \<times> string) list"
  v_entries :: "posted_entry list"
  v_flow :: "string \<times> string \<Rightarrow> (string \<times> FlowStatus) option"
  v_steps :: "string \<times> string \<Rightarrow> step_info list"
  v_reservation :: "string \<times> string \<Rightarrow> res_core option"
  v_outbox :: "(string \<times> string \<times> string \<times> string) list"

definition balanceOf :: "ledger_view \<Rightarrow> bal_key \<Rightarrow> decimal \<times> decimal" where
  "balanceOf v k = (case v_balance v k of None \<Rightarrow> (0, 0) | Some b \<Rightarrow> b)"

text \<open>Marking a flow completed: every flow of the tenant with that identifier.\<close>

definition completeFlow :: "string \<Rightarrow> string \<Rightarrow> (string \<times> string \<Rightarrow> (string \<times> FlowStatus) option) \<Rightarrow>
    (string \<times> string \<Rightarrow> (string \<times> FlowStatus) option)" where
  "completeFlow tn fid m = (\<lambda>k. case m k of
       None \<Rightarrow> None
     | Some (i, s) \<Rightarrow> Some (i, if fst k = tn \<and> i = fid then FlowCompleted else s))"

section \<open>The transaction contract\<close>

locale ledger_tx =
  fixes T :: "'t tx_ops"
    and view :: "'t \<Rightarrow> ledger_view"
    and inv :: "'t \<Rightarrow> bool"
  assumes GetFlowByIdempotency:
      "inv t \<Longrightarrow> tx_GetFlowByIdempotency T tn key t = (Inr fo, t') \<Longrightarrow>
        inv t' \<and> view t' = view t \<and>
        v_flow (view t) (tn, key) = map_option (\<lambda>f. (fr_ID f, fr_Status f)) fo"
    and GetAccount:
      "inv t \<Longrightarrow> tx_GetAccount T tn a t = (Inr acc, t') \<Longrightarrow>
        inv t' \<and> view t' = view t \<and> v_account (view t) (tn, a) = Some acc"
    and LockBalance:
      "inv t \<Longrightarrow> tx_LockBalance T tn a c t = (Inr (d, cr, ver), t') \<Longrightarrow>
        inv t' \<and> (d, cr) = balanceOf (view t) (tn, a, c) \<and>
        view t' = (view t)\<lparr>v_balance := (v_balance (view t))((tn, a, c) \<mapsto> (d, cr))\<rparr>"
    and UpdateBalance:
      "inv t \<Longrightarrow> v_balance (view t) (tn, a, c) \<noteq> None \<Longrightarrow>
        tx_UpdateBalance T tn a c d cr t = (Inr u, t') \<Longrightarrow>
        inv t' \<and> view t' = (view t)\<lparr>v_balance := (v_balance (view t))((tn, a, c) \<mapsto> (d, cr))\<rparr>"
    and InsertAccount:
      "inv t \<Longrightarrow> tx_InsertAccount T acc t = (Inr u, t') \<Longrightarrow>
        inv t' \<and> v_account (view t) (acc_TenantID acc, acc_ID acc) = None \<and>
        (\<exists>ct. view t' = (view t)\<lparr>v_account :=
          (v_account (view t))((acc_TenantID acc, acc_ID acc) \<mapsto> acc\<lparr>acc_CreatedAt := ct\<rparr>)\<rparr>)"
    and InsertFlowRun:
      "inv t \<Longrightarrow> tx_InsertFlowRun T f t = (Inr u, t') \<Longrightarrow>
        inv t' \<and> view t' = (view t)\<lparr>v_flow :=
          (v_flow (view t))((fr_TenantID f, fr_IdempotencyKey f) \<mapsto> (fr_ID f, FlowRunning))\<rparr>"
    and CompleteFlowRun:
      "inv t \<Longrightarrow> tx_CompleteFlowRun T tn fid t = (Inr u, t') \<Longrightarrow>
        inv t' \<and> view t' = (view t)\<lparr>v_flow := completeFlow tn fid (v_flow (view t))\<rparr>"
    and InsertJournal:
      "inv t \<Longrightarrow> tx_InsertJournal T j t = (Inr u, t') \<Longrightarrow>
        inv t' \<and> view t' = (view t)\<lparr>v_journals :=
          v_journals (view t) @ [(jrn_TenantID j, jrn_ID j, jrn_EventID j)]\<rparr>"
    and InsertEntry:
      "inv t \<Longrightarrow> tx_InsertEntry T tn eid jid a c dir amt t = (Inr u, t') \<Longrightarrow>
        inv t' \<and> view t' = (view t)\<lparr>v_entries := v_entries (view t) @
          [(tn, jid, \<lparr>ent_AccountID = a, ent_Currency = c, ent_Direction = dir, ent_Amount = amt\<rparr>)]\<rparr>"
    and InsertFlowStep:
      "inv t \<Longrightarrow> tx_InsertFlowStep T s t = (Inr u, t') \<Longrightarrow>
        inv t' \<and> view t' = (view t)\<lparr>v_steps := (v_steps (view t))
          ((fs_TenantID s, fs_FlowRunID s) :=
             v_steps (view t) (fs_TenantID s, fs_FlowRunID s) @ [stepInfo s])\<rparr>"
    and InsertOutbox:
      "inv t \<Longrightarrow> tx_InsertOutbox T e t = (Inr u, t') \<Longrightarrow>
        inv t' \<and> view t' = (view t)\<lparr>v_outbox := v_outbox (view t) @
          [(obx_TenantID e, obx_AggregateID e, obx_EventType e, obx_IdempotencyKey e)]\<rparr>"
    and GetFlowSteps:
      "inv t \<Longrightarrow> tx_GetFlowSteps T tn fid t = (Inr ss, t') \<Longrightarrow>
        inv t' \<and> view t' = view t \<and>
        mset (map stepInfo ss) = mset (v_steps (view t) (tn, fid))"
    and InsertReservation:
      "inv t \<Longrightarrow> res_CommittedAmount r = 0 \<Longrightarrow> res_ReleasedAmount r = 0 \<Longrightarrow>
        tx_InsertReservation T r t = (Inr u, t') \<Longrightarrow>
        inv t' \<and> view t' = (view t)\<lparr>v_reservation :=
          (v_reservation (view t))((res_TenantID r, res_ID r) \<mapsto> coreOf r)\<rparr>"
    and LockReservation:
      "inv t \<Longrightarrow> tx_LockReservation T tn rid t = (Inr r, t') \<Longrightarrow>
        inv t' \<and> view t' = view t \<and> v_reservation (view t) (tn, rid) = Some (coreOf r) \<and>
        res_ID r = rid \<and> res_TenantID r = tn"
    and GetReservationByIdempotency:
      "inv t \<Longrightarrow> tx_GetReservationByIdempotency T tn key t = (Inr ro, t') \<Longrightarrow>
        inv t' \<and> view t' = view t \<and>
        (\<forall>r. ro = Some r \<longrightarrow> v_reservation (view t) (tn, res_ID r) = Some (coreOf r) \<and>
            res_IdempotencyKey r = key)"
    and UpdateReservationAmounts:
      "inv t \<Longrightarrow> tx_UpdateReservationAmounts T tn rid out com rel status t = (Inr u, t') \<Longrightarrow>
        inv t' \<and> view t' = (view t)\<lparr>v_reservation := (v_reservation (view t))
          ((tn, rid) := map_option (\<lambda>r. r\<lparr>rc_Outstanding := out, rc_Committed := com,
             rc_Released := rel, rc_Status := status\<rparr>) (v_reservation (view t) (tn, rid)))\<rparr>"
    and GetReconBatchByIdempotency:
      "inv t \<Longrightarrow> tx_GetReconBatchByIdempotency T tn key t = (Inr b, t') \<Longrightarrow>
        inv t' \<and> view t' = view t"
    and InsertReconBatch:
      "inv t \<Longrightarrow> tx_InsertReconBatch T rb t = (Inr u, t') \<Longrightarrow> inv t' \<and> view t' = view t"
    and CompleteReconBatch:
      "inv t \<Longrightarrow> tx_CompleteReconBatch T rb t = (Inr u, t') \<Longrightarrow> inv t' \<and> view t' = view t"
    and ListExternalRecordsForRecon:
      "inv t \<Longrightarrow> tx_ListExternalRecordsForRecon T tn src ws we t = (Inr xs, t') \<Longrightarrow>
        inv t' \<and> view t' = view t"
    and ListJournalsForRecon:
      "inv t \<Longrightarrow> tx_ListJournalsForRecon T tn src ws we t = (Inr js, t') \<Longrightarrow>
        inv t' \<and> view t' = view t"
    and UpdateExternalRecordMatch:
      "inv t \<Longrightarrow> tx_UpdateExternalRecordMatch T tn xid ms jid t = (Inr u, t') \<Longrightarrow>
        inv t' \<and> view t' = view t"
    and SumJournalEntries:
      "inv t \<Longrightarrow> tx_SumJournalEntries T tn jid a c t = (Inr dc, t') \<Longrightarrow>
        inv t' \<and> view t' = view t"
    and InsertDiscrepancy:
      "inv t \<Longrightarrow> tx_InsertDiscrepancy T d0 t = (Inr u, t') \<Longrightarrow> inv t' \<and> view t' = view t"
    and LockDiscrepancy:
      "inv t \<Longrightarrow> tx_LockDiscrepancy T tn did t = (Inr d1, t') \<Longrightarrow> inv t' \<and> view t' = view t"
    and ResolveDiscrepancyRow:
      "inv t \<Longrightarrow> tx_ResolveDiscrepancyRow T d0 t = (Inr u, t') \<Longrightarrow> inv t' \<and> view t' = view t"

section \<open>The store contract\<close>

text \<open>\<open>tinv s t\<close>: the transaction \<open>t\<close> was begun on the store \<open>s\<close> and is well formed.\<close>

text \<open>An operation that leaves the ledger as it is, whatever it returns.\<close>

definition keeps :: "('s \<Rightarrow> bool) \<Rightarrow> ('s \<Rightarrow> ledger_view) \<Rightarrow> ('s, 'e, 'a) exec \<Rightarrow> bool" where
  "keeps sinv sview m \<longleftrightarrow>
     (\<forall>s r s'. sinv s \<longrightarrow> m s = (r, s') \<longrightarrow> sinv s' \<and> sview s' = sview s)"

locale ledger_store =
  fixes S :: "('s, 't) store_ops"
    and sview :: "'s \<Rightarrow> ledger_view"
    and sinv :: "'s \<Rightarrow> bool"
    and view :: "'t \<Rightarrow> ledger_view"
    and tinv :: "'s \<Rightarrow> 't \<Rightarrow> bool"
  assumes tx_contract: "ledger_tx (st_Tx S) view (tinv s)"
    and BeginFlowTx_Inr:
      "sinv s \<Longrightarrow> st_BeginFlowTx S s = (Inr t, s') \<Longrightarrow>
        sinv s' \<and> sview s' = sview s \<and> tinv s' t \<and> view t = sview s"
    and BeginFlowTx_Inl:
      "sinv s \<Longrightarrow> st_BeginFlowTx S s = (Inl e, s') \<Longrightarrow> sinv s' \<and> sview s' = sview s"
    and Commit_Inr:
      "sinv s \<Longrightarrow> tinv s t \<Longrightarrow> st_Commit S t s = (Inr u, s') \<Longrightarrow>
        sinv s' \<and> sview s' = view t"
    and Commit_Inl:
      "sinv s \<Longrightarrow> st_Commit S t s = (Inl e, s') \<Longrightarrow> sinv s' \<and> sview s' = sview s"
    and Rollback: "sinv s \<Longrightarrow> sinv (st_Rollback S t s) \<and> sview (st_Rollback S t s) = sview s"
    and GetAccount: "keeps sinv sview (st_GetAccount S tn a)"
    and GetAccount_Inr:
      "sinv s \<Longrightarrow> st_GetAccount S tn a s = (Inr acc, s') \<Longrightarrow> v_account (sview s) (tn, a) = Some acc"
    and GetBalance_Inr:
      "sinv s \<Longrightarrow> st_GetBalance S tn a c s = (Inr (d, cr, ver), s') \<Longrightarrow>
        (d, cr) = balanceOf (sview s) (tn, a, c)"
    and GetFlow_Inr:
      "sinv s \<Longrightarrow> st_GetFlow S tn fid s = (Inr fo, s') \<Longrightarrow>
        (\<forall>f. fo = Some f \<longrightarrow> fr_ID f = fid \<and> mset (map stepInfo (fr_Steps f)) = mset (v_steps (sview s) (tn, fid)) \<and>
          v_flow (sview s) (tn, fr_IdempotencyKey f) = Some (fid, fr_Status f))"
    and GetReservation_Inr:
      "sinv s \<Longrightarrow> st_GetReservation S tn rid s = (Inr res, s') \<Longrightarrow>
        v_reservation (sview s) (tn, rid) = Some (coreOf res)"
    and GetBalance: "keeps sinv sview (st_GetBalance S tn a c)"
    and GetFlow: "keeps sinv sview (st_GetFlow S tn a)"
    and ListAccountActivity: "keeps sinv sview (st_ListAccountActivity S lai)"
    and PendingOutbox: "keeps sinv sview (st_PendingOutbox S n)"
    and MarkOutboxPublished: "keeps sinv sview (st_MarkOutboxPublished S a)"
    and IncrementOutboxAttempts: "keeps sinv sview (st_IncrementOutboxAttempts S a)"
    and InsertSnapshot: "keeps sinv sview (st_InsertSnapshot S bs)"
    and GetSnapshotBefore: "keeps sinv sview (st_GetSnapshotBefore S tn a c at1)"
    and SumEntriesBetween: "keeps sinv sview (st_SumEntriesBetween S tn a c at1 at2)"
    and ListTenantBalances: "keeps sinv sview (st_ListTenantBalances S tn)"
    and ListTenantsDueForSnapshot: "keeps sinv sview (st_ListTenantsDueForSnapshot S at1 n)"
    and PruneSnapshotsOlderThan: "keeps sinv sview (st_PruneSnapshotsOlderThan S at1 n)"
    and UpsertFXRate: "keeps sinv sview (st_UpsertFXRate S fx)"
    and GetFXRateAt: "keeps sinv sview (st_GetFXRateAt S tn a c at1)"
    and ListFXRates: "keeps sinv sview (st_ListFXRates S lfx)"
    and GetReservation: "keeps sinv sview (st_GetReservation S tn a)"
    and ListExpiredReservations: "keeps sinv sview (st_ListExpiredReservations S at1 n)"
    and ListReservations: "keeps sinv sview (st_ListReservations S lri)"
    and InsertExternalRecord: "keeps sinv sview (st_InsertExternalRecord S er)"
    and ListExternalRecordsForRecon: "keeps sinv sview (st_ListExternalRecordsForRecon S tn a at1 at2)"
    and ListJournalsForRecon: "keeps sinv sview (st_ListJournalsForRecon S tn a at1 at2)"
    and GetReconBatch: "keeps sinv sview (st_GetReconBatch S tn a)"
    and ListDiscrepancies: "keeps sinv sview (st_ListDiscrepancies S ldi)"
    and GetDiscrepancy: "keeps sinv sview (st_GetDiscrepancy S tn a)"

lemma keepsD: "keeps sinv sview m \<Longrightarrow> sinv s \<Longrightarrow> m s = (r, s') \<Longrightarrow> sinv s' \<and> sview s' = sview s"
  by (auto simp: keeps_def)

named_theorems keeps_intros \<open>operations that leave the ledger as it is\<close>

lemma keeps_ret [keeps_intros]: "keeps si sv (ret a)"
  by (simp add: keeps_def ret_def)

lemma keeps_throwE [keeps_intros]: "keeps si sv (throwE e)"
  by (simp add: keeps_def throwE_def)

lemma keeps_bindE [keeps_intros]:
  assumes "keeps si sv m" and "\<And>a. keeps si sv (f a)"
  shows "keeps si sv (bindE m f)"
  unfolding keeps_def
proof (intro allI impI)
  fix s r s'
  assume s: "si s" "bindE m f s = (r, s')"
  obtain r1 s1 where m: "m s = (r1, s1)" by (cases "m s")
  note 1 = keepsD [OF assms(1) s(1) m]
  show "si s' \<and> sv s' = sv s"
  proof (cases r1)
    case (Inl e)
    with s(2) m 1 show ?thesis by (simp add: bindE_def)
  next
    case (Inr a)
    with s(2) m have "f a s1 = (r, s')" by (simp add: bindE_def)
    from keepsD [OF assms(2) conjunct1 [OF 1] this] 1 show ?thesis by simp
  qed
qed

lemma keeps_thenE [keeps_intros]:
  "keeps si sv m \<Longrightarrow> keeps si sv n \<Longrightarrow> keeps si sv (thenE m n)"
  by (simp add: thenE_def keeps_bindE)

lemma keeps_mapErr [keeps_intros]: "keeps si sv m \<Longrightarrow> keeps si sv (mapErr f m)"
  by (auto simp: keeps_def mapErr_def split: prod.splits sum.splits)

lemma keeps_inSt [keeps_intros]:
  "keeps si sv m \<Longrightarrow> keeps (\<lambda>w. si (w_st w)) (\<lambda>w. sv (w_st w)) (inSt m)"
  by (fastforce simp: keeps_def inSt_def split: prod.splits)

lemma keeps_case_prod [keeps_intros]:
  "(\<And>a b. keeps si sv (f a b)) \<Longrightarrow> keeps si sv (case p of (a, b) \<Rightarrow> f a b)"
  by (cases p) simp

sublocale ledger_store \<subseteq> tx: ledger_tx "st_Tx S" view "tinv s" for s
  by (rule tx_contract)

section \<open>The retry loop\<close>

text \<open>The state after the first \<open>k\<close> calls of \<open>fn\<close>, and what the loop may return once \<open>fn\<close>
  was called for the \<open>k\<close>-th time with outcome \<open>lst\<close>, with \<open>n\<close> attempts from wait \<open>i\<close> on.\<close>

definition afterCalls :: "('s, error, unit) exec \<Rightarrow> nat \<Rightarrow> 's \<Rightarrow> 's" where
  "afterCalls fn k = ((\<lambda>s. snd (fn s)) ^^ k)"

lemma afterCalls_0 [simp]: "afterCalls fn 0 s = s"
  by (simp add: afterCalls_def)

lemma afterCalls_Suc: "afterCalls fn (Suc k) s = afterCalls fn k (snd (fn s))"
  by (simp add: afterCalls_def funpow_Suc_right del: funpow.simps)

definition retryOutcome :: "(nat \<Rightarrow> bool) \<Rightarrow> nat \<Rightarrow> nat \<Rightarrow> nat \<Rightarrow> error + unit \<Rightarrow> error + unit \<Rightarrow> bool" where
  "retryOutcome cancelled i n k lst r = (case lst of
     Inr u \<Rightarrow> r = Inr ()
   | Inl err \<Rightarrow>
       if \<not> IsSerializationError err then r = Inl err
       else if cancelled (i + k - 1) then r = Inl ContextError
       else k = n \<and> r = Inl (DomainError CodeSerializationRetryExhausted (Error_string err)))"

definition backoffs :: "duration set" where
  "backoffs = {5 * millisecond, 10 * millisecond, 20 * millisecond, 40 * millisecond,
     80 * millisecond}"

lemma backoffs_next:
  "d \<in> backoffs \<Longrightarrow> (if d < 80 * millisecond then d * 2 else d) \<in> backoffs"
  by (auto simp: backoffs_def)

lemma backoffs_wait:
  "d \<in> backoffs \<Longrightarrow> 0 \<le> j \<Longrightarrow> j < d \<Longrightarrow> 5 * millisecond \<le> d + j \<and> d + j < 160 * millisecond"
  by (auto simp: backoffs_def)

lemma retryLoop_spec:
  fixes fn :: "('s, error, unit) exec"
  assumes "\<And>i d. 0 < d \<Longrightarrow> 0 \<le> jit i d \<and> jit i d < d"
    and "retryLoop cancelled jit fn (Suc n) i delay lastErr (s, slept) = (r, (s', slept'))"
    and "delay \<in> backoffs"
  shows "\<exists>k ws. 1 \<le> k \<and> k \<le> Suc n \<and> s' = afterCalls fn k s \<and> slept' = slept @ ws \<and>
    length ws \<le> k \<and> (\<forall>w\<in>set ws. 5 * millisecond \<le> w \<and> w < 160 * millisecond) \<and>
    retryOutcome cancelled i (Suc n) k (fst (fn (afterCalls fn (k - 1) s))) r"
  using assms(2,3)
proof (induction n arbitrary: i delay lastErr s slept)
  case (Suc n)
  obtain r1 s1 where fn: "fn s = (r1, s1)" by (cases "fn s")
  show ?case
  proof (cases "\<exists>err. r1 = Inl err \<and> IsSerializationError err \<and> \<not> cancelled i")
    case False
    with Suc.prems fn show ?thesis
      by (intro exI [of _ 1] exI [of _ "[]"])
        (auto simp: retryOutcome_def afterCalls_Suc split: sum.splits if_splits)
  next
    case True
    then obtain err where err: "r1 = Inl err" "IsSerializationError err" "\<not> cancelled i" by blast
    let ?w = "delay + jit i delay"
    have pos: "0 < delay" using Suc.prems(2) by (auto simp: backoffs_def)
    have "retryLoop cancelled jit fn (Suc n) (Suc i)
        (if delay < 80 * millisecond then delay * 2 else delay) err (s1, slept @ [?w]) =
        (r, (s', slept'))"
      using Suc.prems(1) fn err by (simp del: retryLoop.simps add: retryLoop.simps(2) [of _ _ _ "Suc n"])
    from Suc.IH [OF this backoffs_next [OF Suc.prems(2)]] obtain k ws
      where k: "1 \<le> k" "k \<le> Suc n" "s' = afterCalls fn k s1" "slept' = (slept @ [?w]) @ ws"
        "length ws \<le> k" "\<forall>w\<in>set ws. 5 * millisecond \<le> w \<and> w < 160 * millisecond"
        "retryOutcome cancelled (Suc i) (Suc n) k (fst (fn (afterCalls fn (k - 1) s1))) r"
      by blast
    have "retryOutcome cancelled i (Suc (Suc n)) (Suc k) (fst (fn (afterCalls fn k s))) r"
      using k(1,7) fn by (cases k) (auto simp: retryOutcome_def afterCalls_Suc split: sum.splits)
    with k fn backoffs_wait [OF Suc.prems(2), of "jit i delay"] assms(1) [OF pos, of i]
    show ?thesis
      by (intro exI [of _ "Suc k"] exI [of _ "?w # ws"]) (auto simp: afterCalls_Suc)
  qed
next
  case 0
  obtain r1 s1 where fn: "fn s = (r1, s1)" by (cases "fn s")
  have pos: "0 < delay" using 0(2) by (auto simp: backoffs_def)
  show ?case
  proof (cases "\<exists>err. r1 = Inl err \<and> IsSerializationError err \<and> \<not> cancelled i")
    case False
    with 0 fn show ?thesis
      by (intro exI [of _ 1] exI [of _ "[]"])
        (auto simp: retryOutcome_def afterCalls_Suc split: sum.splits if_splits)
  next
    case True
    with 0 fn backoffs_wait [OF 0(2), of "jit i delay"] assms(1) [OF pos, of i]
    show ?thesis
      by (intro exI [of _ 1] exI [of _ "[delay + jit i delay]"])
        (auto simp: retryOutcome_def afterCalls_Suc)
  qed
qed

end
