(* ===== verification/Proto.thy ===== *)
theory Proto
  imports Repo
begin

text \<open>
  What the service layer exchanges with its clients and environment.

  \<^item> The Connect error of a handler and \<open>ToConnectError\<close> (\<open>internal/service/errors.go\<close>).
  \<^item> The messages of \<open>proto/ledger/v1/ledger.proto\<close>, one record per message with the fields the
    handlers read or fill. A nil message pointer is \<open>None\<close>; a nil-safe getter on it gives the
    zero value. Enumerations are the numbers of the wire format, timestamps are \<open>time\<close>.
  \<^item> \<open>env\<close>: the clock and the identifier generator of \<open>Server\<close> (\<open>server.go\<close>), the decimal
    package, and \<open>structpb.NewStruct\<close>, which may reject a map.
\<close>

section \<open>Connect errors (errors.go)\<close>

datatype ConnectCode =
    CodeInternal | CodeFailedPrecondition | CodeNotFound | CodeInvalidArgument
  | CodeAlreadyExists | CodeAborted | CodeUnimplemented

text \<open>The Connect code, the \<open>ledger-error-code\<close> header, and the wrapped Go error.\<close>

datatype connect_error = ConnectError (connectCode: ConnectCode) (ledgerErrorCode: "DomainCode option")
  (wrapped: error)

fun connectCodeOf :: "DomainCode \<Rightarrow> ConnectCode" where
  "connectCodeOf CodeInsufficientFunds = CodeFailedPrecondition"
| "connectCodeOf CodeInvalidAccountStatus = CodeFailedPrecondition"
| "connectCodeOf CodeReservationClosed = CodeFailedPrecondition"
| "connectCodeOf CodeDiscrepancyClosed = CodeFailedPrecondition"
| "connectCodeOf CodeAccountNotFound = CodeNotFound"
| "connectCodeOf CodeReservationNotFound = CodeNotFound"
| "connectCodeOf CodeFXRateNotFound = CodeNotFound"
| "connectCodeOf CodeDiscrepancyNotFound = CodeNotFound"
| "connectCodeOf CodeReconBatchNotFound = CodeNotFound"
| "connectCodeOf CodeAccountCurrencyMismatch = CodeInvalidArgument"
| "connectCodeOf CodeUnbalancedJournal = CodeInvalidArgument"
| "connectCodeOf CodeReservationAmountExceeds = CodeInvalidArgument"
| "connectCodeOf CodeReservationCurrencyMismatch = CodeInvalidArgument"
| "connectCodeOf CodeFXAmountMismatch = CodeInvalidArgument"
| "connectCodeOf CodeDuplicateIdempotencyKey = CodeAlreadyExists"
| "connectCodeOf CodeFlowAlreadyCompleted = CodeAlreadyExists"
| "connectCodeOf CodeFlowConflict = CodeAborted"
| "connectCodeOf CodeSerializationRetryExhausted = CodeAborted"
| "connectCodeOf CodeUnsupportedOperation = CodeInternal"
| "connectCodeOf CodeFlowTooLarge = CodeInternal"

fun ToConnectError :: "error \<Rightarrow> connect_error" where
  "ToConnectError (DomainError code msg) =
     ConnectError (connectCodeOf code) (Some code) (DomainError code msg)"
| "ToConnectError err = ConnectError CodeInternal None err"

section \<open>Messages\<close>

type_synonym enum = int

abbreviation DIRECTION_DEBIT :: enum where "DIRECTION_DEBIT \<equiv> 1"
abbreviation DIRECTION_CREDIT :: enum where "DIRECTION_CREDIT \<equiv> 2"
abbreviation NORMAL_BALANCE_DEBIT :: enum where "NORMAL_BALANCE_DEBIT \<equiv> 1"
abbreviation NORMAL_BALANCE_CREDIT :: enum where "NORMAL_BALANCE_CREDIT \<equiv> 2"
abbreviation ACCOUNT_STATUS_ACTIVE :: enum where "ACCOUNT_STATUS_ACTIVE \<equiv> 1"
abbreviation ACCOUNT_STATUS_FROZEN :: enum where "ACCOUNT_STATUS_FROZEN \<equiv> 2"
abbreviation ACCOUNT_STATUS_CLOSED :: enum where "ACCOUNT_STATUS_CLOSED \<equiv> 3"
abbreviation FLOW_STATUS_RUNNING :: enum where "FLOW_STATUS_RUNNING \<equiv> 1"
abbreviation FLOW_STATUS_COMPLETED :: enum where "FLOW_STATUS_COMPLETED \<equiv> 2"
abbreviation FLOW_STATUS_FAILED :: enum where "FLOW_STATUS_FAILED \<equiv> 3"

record EntryMsg =
  em_AccountId :: string
  em_Currency :: string
  em_Direction :: enum
  em_Amount :: string

record JournalMsg =
  jm_EventId :: string
  jm_Entries :: "EntryMsg list"

record StepMsg =
  sm_StepId :: string
  sm_Journal :: "JournalMsg option"

record ExecuteFlowRequest =
  efr_TenantId :: string
  efr_FlowType :: string
  efr_IdempotencyKey :: string
  efr_SourceService :: string
  efr_ActorId :: string
  efr_Steps :: "StepMsg list"
  efr_Metadata :: "metadata option"

record FlowStepResult =
  fsr_StepId :: string
  fsr_Status :: string
  fsr_JournalId :: string
  fsr_ErrorCode :: string

record ExecuteFlowResponse =
  efs_FlowRunId :: string
  efs_Status :: enum
  efs_Steps :: "FlowStepResult list"

record PostJournalRequest =
  pjr_TenantId :: string
  pjr_IdempotencyKey :: string
  pjr_SourceService :: string
  pjr_ActorId :: string
  pjr_Journal :: "JournalMsg option"

record PostJournalResponse =
  pjs_JournalId :: string
  pjs_FlowRunId :: string

record AccountMsg =
  am_Id :: string
  am_TenantId :: string
  am_OwnerType :: string
  am_OwnerId :: string
  am_AccountType :: string
  am_Currency :: string
  am_NormalBalance :: enum
  am_AllowNegative :: bool
  am_Status :: enum
  am_CreatedAt :: time

record CreateAccountRequest =
  car_TenantId :: string
  car_OwnerType :: string
  car_OwnerId :: string
  car_AccountType :: string
  car_Currency :: string
  car_NormalBalance :: enum
  car_AllowNegative :: bool

record BalanceMsg =
  bm_AccountId :: string
  bm_Currency :: string
  bm_PostedDebits :: string
  bm_PostedCredits :: string
  bm_Normalized :: string
  bm_Version :: int

record GetBalanceRequest =
  gbr_TenantId :: string
  gbr_AccountId :: string
  gbr_Currency :: string
  gbr_AsOf :: "time option"

record ListAccountActivityRequest =
  lar_TenantId :: string
  lar_AccountId :: string
  lar_Currency :: string
  lar_Since :: "time option"
  lar_Until :: "time option"
  lar_PageSize :: i32

record AccountActivityEntry =
  aae_JournalId :: string
  aae_EntryId :: string
  aae_Currency :: string
  aae_Direction :: enum
  aae_Amount :: string
  aae_CreatedAt :: time
  aae_SourceService :: string

record TakeBalanceSnapshotRequest =
  tsr_TenantId :: string
  tsr_AccountId :: string
  tsr_Currency :: string

record ReservationMsg =
  rm_Id :: string
  rm_TenantId :: string
  rm_Status :: string
  rm_SourceAccountId :: string
  rm_ReservedAccountId :: string
  rm_Currency :: string
  rm_OriginalAmount :: string
  rm_OutstandingAmount :: string
  rm_CommittedAmount :: string
  rm_ReleasedAmount :: string
  rm_ExpiresAt :: "time option"
  rm_CreatedAt :: time
  rm_UpdatedAt :: time
  rm_FlowRunId :: string

record CreateReservationRequest =
  crr_TenantId :: string
  crr_IdempotencyKey :: string
  crr_SourceAccountId :: string
  crr_ReservedAccountId :: string
  crr_Currency :: string
  crr_Amount :: string
  crr_ExpiresAt :: "time option"
  crr_SourceService :: string
  crr_ActorId :: string
  crr_Metadata :: "metadata option"

record CommitReservationRequest =
  cmr_TenantId :: string
  cmr_ReservationId :: string
  cmr_DestinationAccountId :: string
  cmr_Amount :: string
  cmr_IdempotencyKey :: string
  cmr_SourceService :: string
  cmr_ActorId :: string

record ReleaseReservationRequest =
  rlr_TenantId :: string
  rlr_ReservationId :: string
  rlr_Amount :: string
  rlr_IdempotencyKey :: string
  rlr_SourceService :: string
  rlr_ActorId :: string

record ListReservationsRequest =
  lrr_TenantId :: string
  lrr_OwnerType :: string
  lrr_OwnerId :: string
  lrr_Status :: string
  lrr_PageSize :: i32

record FXRateMsg =
  fm_Id :: string
  fm_TenantId :: string
  fm_BaseCurrency :: string
  fm_QuoteCurrency :: string
  fm_Rate :: string
  fm_Source :: string
  fm_EffectiveAt :: time
  fm_CreatedAt :: time

record ExecuteExchangeRequest =
  exr_TenantId :: string
  exr_IdempotencyKey :: string
  exr_FromAccountId :: string
  exr_ToAccountId :: string
  exr_FromCounterAccountId :: string
  exr_ToCounterAccountId :: string
  exr_FromAmount :: string
  exr_ToAmount :: string
  exr_Rate :: string
  exr_RateSource :: string
  exr_SourceService :: string
  exr_ActorId :: string
  exr_Metadata :: "metadata option"

record ExecuteExchangeResponse =
  exs_FlowRunId :: string
  exs_JournalId :: string
  exs_RateUsed :: string
  exs_RateSource :: string

record PutFXRateRequest =
  pfr_TenantId :: string
  pfr_BaseCurrency :: string
  pfr_QuoteCurrency :: string
  pfr_Rate :: string
  pfr_Source :: string
  pfr_EffectiveAt :: "time option"

record GetFXRateRequest =
  gfr_TenantId :: string
  gfr_BaseCurrency :: string
  gfr_QuoteCurrency :: string
  gfr_At :: "time option"

record ListFXRatesRequest =
  lfr_TenantId :: string
  lfr_BaseCurrency :: string
  lfr_QuoteCurrency :: string
  lfr_Since :: "time option"
  lfr_Until :: "time option"
  lfr_PageSize :: i32

record ExternalRecordInput =
  eri_Source :: string
  eri_ExternalRef :: string
  eri_Amount :: string
  eri_Currency :: string
  eri_OccurredAt :: "time option"
  eri_AccountId :: string
  eri_RawPayload :: "metadata option"

record IngestExternalRecordsRequest =
  ier_TenantId :: string
  ier_Records :: "ExternalRecordInput list"

record RunReconciliationRequest =
  rrr_TenantId :: string
  rrr_IdempotencyKey :: string
  rrr_Source :: string
  rrr_WindowStart :: "time option"
  rrr_WindowEnd :: "time option"
  rrr_ActorId :: string

record ReconciliationBatchMsg =
  rbm_Id :: string
  rbm_TenantId :: string
  rbm_Source :: string
  rbm_WindowStart :: time
  rbm_WindowEnd :: time
  rbm_Status :: string
  rbm_IngestedCount :: i32
  rbm_MatchedCount :: i32
  rbm_MismatchedCount :: i32
  rbm_MissingInLedgerCount :: i32
  rbm_MissingInExternalCount :: i32
  rbm_StartedAt :: time
  rbm_CompletedAt :: "time option"
  rbm_ActorId :: string

record DiscrepancyMsg =
  dm_Id :: string
  dm_TenantId :: string
  dm_BatchId :: string
  dm_Type :: string
  dm_ExternalRecordId :: string
  dm_JournalId :: string
  dm_Status :: string
  dm_ResolutionJournalId :: string
  dm_ResolutionNote :: string
  dm_ResolvedBy :: string
  dm_ResolvedAt :: "time option"
  dm_CreatedAt :: time

record ListDiscrepanciesRequest =
  ldr_TenantId :: string
  ldr_BatchId :: string
  ldr_Status :: string
  ldr_PageSize :: i32

record ResolveDiscrepancyRequest =
  rdr_TenantId :: string
  rdr_DiscrepancyId :: string
  rdr_Resolution :: string
  rdr_Adjustment :: "ExecuteFlowRequest option"
  rdr_Note :: string
  rdr_IdempotencyKey :: string
  rdr_ActorId :: string

section \<open>The environment of a server (server.go)\<close>

record env =
  env_Now :: "nat \<Rightarrow> time"
  env_NewID :: "nat \<Rightarrow> string"
  env_D :: decimal_lib
  env_NewStruct :: "metadata \<Rightarrow> metadata option"

definition NewID :: "env \<Rightarrow> ('x world, 'e, string) exec" where
  "NewID E w = (Inr (env_NewID E (w_ids w)), w\<lparr>w_ids := Suc (w_ids w)\<rparr>)"

definition Now :: "env \<Rightarrow> ('x world, 'e, time) exec" where
  "Now E w = (Inr (env_Now E (w_ticks w)), w\<lparr>w_ticks := Suc (w_ticks w)\<rparr>)"

lemma NewID_Inr [exec_simps]:
  "NewID E w = (Inr i, w') \<longleftrightarrow> i = env_NewID E (w_ids w) \<and> w' = w\<lparr>w_ids := Suc (w_ids w)\<rparr>"
  by (auto simp: NewID_def)

lemma NewID_Inl [exec_simps]: "\<not> NewID E w = (Inl e, w')"
  by (simp add: NewID_def)

lemma Now_Inr [exec_simps]:
  "Now E w = (Inr i, w') \<longleftrightarrow> i = env_Now E (w_ticks w) \<and> w' = w\<lparr>w_ticks := Suc (w_ticks w)\<rparr>"
  by (auto simp: Now_def)

lemma Now_Inl [exec_simps]: "\<not> Now E w = (Inl e, w')"
  by (simp add: Now_def)

text \<open>\<open>structToMap\<close> and \<open>mapToStruct\<close> of \<open>execute_flow.go\<close>.\<close>

definition structToMap :: "metadata option \<Rightarrow> metadata" where
  "structToMap s = (case s of None \<Rightarrow> [] | Some m \<Rightarrow> m)"

definition mapToStruct :: "env \<Rightarrow> metadata \<Rightarrow> metadata option" where
  "mapToStruct E m = (if length m = 0 then None else env_NewStruct E m)"

end
