(* ===== verification/Ledger_Spec.thy ===== *)
theory Ledger_Spec
  imports Repo
begin

text \<open>
  The abstract ledger: what an observer of the accounts, balances, posted entries, flows,
  reservations and outbox may see happen, as a step relation on \<open>ledger_view\<close>.

  \<^item> \<open>absPost\<close> is the effect of a completed flow; \<open>postable\<close> is when it may happen.
  \<^item> \<open>ledger_step\<close> has one rule per atomic change; a request of the service is a sequence of
    them (\<open>ledger_steps\<close>), or none when it is refused, replayed or only reads.
  \<^item> \<open>ledger_inv\<close> collects the books: balances are the sums of the posted entries, every
    journal nets to zero in every currency, no account that forbids it is overdrawn, every
    flow is completed, every reservation conserves its amount. It is kept by every step.
\<close>

section \<open>Posting\<close>

definition isDebit :: "Entry \<Rightarrow> bool" where
  "isDebit e \<longleftrightarrow> ent_Direction e = DirectionDebit"

definition entryKey :: "Entry \<Rightarrow> string \<times> string" where
  "entryKey e = (ent_AccountID e, ent_Currency e)"

definition debitsOf :: "string \<times> string \<Rightarrow> Entry list \<Rightarrow> decimal" where
  "debitsOf k es = sum_list (map ent_Amount (filter (\<lambda>e. entryKey e = k \<and> isDebit e) es))"

definition creditsOf :: "string \<times> string \<Rightarrow> Entry list \<Rightarrow> decimal" where
  "creditsOf k es = sum_list (map ent_Amount (filter (\<lambda>e. entryKey e = k \<and> \<not> isDebit e) es))"

lemma debitsOf_simps [simp]:
  "debitsOf k [] = 0"
  "debitsOf k (e # es) = (if entryKey e = k \<and> isDebit e then ent_Amount e else 0) + debitsOf k es"
  "debitsOf k (es @ fs) = debitsOf k es + debitsOf k fs"
  by (simp_all add: debitsOf_def)

lemma creditsOf_simps [simp]:
  "creditsOf k [] = 0"
  "creditsOf k (e # es) = (if entryKey e = k \<and> \<not> isDebit e then ent_Amount e else 0) + creditsOf k es"
  "creditsOf k (es @ fs) = creditsOf k es + creditsOf k fs"
  by (simp_all add: creditsOf_def)

lemma sums_zero: "k \<notin> entryKey ` set es \<Longrightarrow> debitsOf k es = 0 \<and> creditsOf k es = 0"
  by (induction es) auto

text \<open>The entries of a list of steps, and the effect of one step with its journal identifier.\<close>

definition entriesOf :: "StepInput list \<Rightarrow> Entry list" where
  "entriesOf steps = concat (map (\<lambda>st. jrn_Entries (si_Journal st)) steps)"

lemma entriesOf_simps [simp]:
  "entriesOf [] = []"
  "entriesOf (st # steps) = jrn_Entries (si_Journal st) @ entriesOf steps"
  "entriesOf (steps @ steps') = entriesOf steps @ entriesOf steps'"
  by (simp_all add: entriesOf_def)

definition absStep :: "string \<Rightarrow> string \<Rightarrow> string \<Rightarrow> StepInput \<times> string \<Rightarrow> ledger_view \<Rightarrow> ledger_view" where
  "absStep tn fid ft p v = (case p of (st, jid) \<Rightarrow>
     v\<lparr>v_journals := v_journals v @ [(tn, jid, jrn_EventID (si_Journal st))],
       v_entries := v_entries v @ map (\<lambda>e. (tn, jid, e)) (jrn_Entries (si_Journal st)),
       v_steps := (v_steps v)((tn, fid) :=
         v_steps v (tn, fid) @ [(si_StepID st, StepCompleted, jid, '''')]),
       v_outbox := v_outbox v @
         [(tn, fid, ft @ ''.'' @ si_StepID st, fid @ '':'' @ si_StepID st)]\<rparr>)"

definition absSteps :: "string \<Rightarrow> string \<Rightarrow> string \<Rightarrow> StepInput list \<Rightarrow> string list \<Rightarrow>
    ledger_view \<Rightarrow> ledger_view" where
  "absSteps tn fid ft steps jids v = fold (absStep tn fid ft) (zip steps jids) v"

definition absBalances :: "string \<Rightarrow> Entry list \<Rightarrow> ledger_view \<Rightarrow> ledger_view" where
  "absBalances tn es v = v\<lparr>v_balance := (\<lambda>k. if fst k = tn \<and> snd k \<in> entryKey ` set es
     then Some (fst (balanceOf v k) + debitsOf (snd k) es, snd (balanceOf v k) + creditsOf (snd k) es)
     else v_balance v k)\<rparr>"

definition absPost :: "string \<Rightarrow> string \<Rightarrow> string \<Rightarrow> string \<Rightarrow> StepInput list \<Rightarrow> string list \<Rightarrow>
    ledger_view \<Rightarrow> ledger_view" where
  "absPost tn key fid ft steps jids v =
     (absBalances tn (entriesOf steps) (absSteps tn fid ft steps jids v))
       \<lparr>v_flow := completeFlow tn fid ((v_flow v)((tn, key) \<mapsto> (fid, FlowRunning)))\<rparr>"

text \<open>The normalised balance an account would have after a posting.\<close>

definition overdrawn :: "Account \<Rightarrow> decimal \<times> decimal \<Rightarrow> bool" where
  "overdrawn acc b \<longleftrightarrow> \<not> acc_AllowNegative acc \<and>
     NormalizedBalance (acc_NormalBalance acc) (fst b) (snd b) < 0"

definition postable :: "ledger_view \<Rightarrow> string \<Rightarrow> StepInput list \<Rightarrow> bool" where
  "postable v tn steps \<longleftrightarrow>
     (\<forall>st\<in>set steps. Journal_Validate (si_Journal st) = Inr ()) \<and>
     (\<forall>k\<in>entryKey ` set (entriesOf steps). \<exists>acc. v_account v (tn, fst k) = Some acc \<and>
        acc_Status acc = AccountActive \<and> acc_Currency acc = snd k \<and>
        \<not> overdrawn acc (fst (balanceOf v (tn, k)) + debitsOf k (entriesOf steps),
                           snd (balanceOf v (tn, k)) + creditsOf k (entriesOf steps)))"

lemma absSteps_Nil [simp]: "absSteps tn fid ft [] jids v = v"
  by (simp add: absSteps_def)

lemma absSteps_Cons [simp]:
  "absSteps tn fid ft (st # steps) (jid # jids) v =
     absSteps tn fid ft steps jids (absStep tn fid ft (st, jid) v)"
  by (simp add: absSteps_def)

lemma absSteps_same [simp]:
  "v_account (absSteps tn fid ft steps jids v) = v_account v"
  "v_balance (absSteps tn fid ft steps jids v) = v_balance v"
  "v_flow (absSteps tn fid ft steps jids v) = v_flow v"
  "v_reservation (absSteps tn fid ft steps jids v) = v_reservation v"
proof -
  have "v_account (fold (absStep tn fid ft) ps v) = v_account v \<and>
      v_balance (fold (absStep tn fid ft) ps v) = v_balance v \<and>
      v_flow (fold (absStep tn fid ft) ps v) = v_flow v \<and>
      v_reservation (fold (absStep tn fid ft) ps v) = v_reservation v" for ps
    by (induction ps arbitrary: v) (auto simp: absStep_def split: prod.splits)
  then show "v_account (absSteps tn fid ft steps jids v) = v_account v"
    "v_balance (absSteps tn fid ft steps jids v) = v_balance v"
    "v_flow (absSteps tn fid ft steps jids v) = v_flow v"
    "v_reservation (absSteps tn fid ft steps jids v) = v_reservation v"
    by (simp_all add: absSteps_def)
qed

lemma balanceOf_absSteps [simp]:
  "balanceOf (absSteps tn fid ft steps jids v) k = balanceOf v k"
  by (simp add: balanceOf_def)

text \<open>The journals of the steps are appended in order, each with its entries.\<close>

lemma absSteps_entries:
  assumes "length jids = length steps"
  shows "\<exists>new. v_entries (absSteps tn fid ft steps jids v) = v_entries v @ new \<and>
    map (\<lambda>p. snd (snd p)) new = entriesOf steps \<and> (\<forall>p\<in>set new. fst p = tn)"
  using assms
proof (induction steps jids arbitrary: v rule: list_induct2')
  case (4 st steps jid jids)
  from 4(1) [of "absStep tn fid ft (st, jid) v"] 4(2) obtain new
    where new: "v_entries (absSteps tn fid ft steps jids (absStep tn fid ft (st, jid) v)) =
        v_entries (absStep tn fid ft (st, jid) v) @ new"
      "map (\<lambda>p. snd (snd p)) new = entriesOf steps" "\<forall>p\<in>set new. fst p = tn"
    by auto
  then show ?case
    by (intro exI [of _ "map (\<lambda>e. (tn, jid, e)) (jrn_Entries (si_Journal st)) @ new"])
      (auto simp: absStep_def comp_def)
qed auto

section \<open>The step relation\<close>

definition closedRes :: "decimal \<Rightarrow> ReservationStatus \<Rightarrow> ReservationStatus" where
  "closedRes rest status = (if rest = 0 then status else ReservationPartial)"

inductive ledger_step :: "ledger_view \<Rightarrow> ledger_view \<Rightarrow> bool" where
  create_account: "v_account v (acc_TenantID acc, acc_ID acc) = None \<Longrightarrow>
    acc_Status acc = AccountActive \<Longrightarrow> NormalBalance_Valid (acc_NormalBalance acc) \<Longrightarrow>
    ledger_step v (v\<lparr>v_account := (v_account v)((acc_TenantID acc, acc_ID acc) \<mapsto> acc)\<rparr>)"
| post: "v_flow v (tn, key) = None \<Longrightarrow> postable v tn steps \<Longrightarrow> length jids = length steps \<Longrightarrow>
    ledger_step v (absPost tn key fid ft steps jids v)"
| hold: "rc_Committed c = 0 \<Longrightarrow> rc_Released c = 0 \<Longrightarrow> 0 < rc_Original c \<Longrightarrow>
    rc_Outstanding c = rc_Original c \<Longrightarrow> rc_Status c = ReservationHeld \<Longrightarrow>
    ledger_step v (v\<lparr>v_reservation := (v_reservation v)((tn, rid) \<mapsto> c)\<rparr>)"
| commit: "v_reservation v (tn, rid) = Some c \<Longrightarrow> \<not> ReservationStatus_Closed (rc_Status c) \<Longrightarrow>
    0 < amount \<Longrightarrow> amount \<le> rc_Outstanding c \<Longrightarrow>
    ledger_step v (v\<lparr>v_reservation := (v_reservation v)((tn, rid) \<mapsto>
      c\<lparr>rc_Outstanding := rc_Outstanding c - amount, rc_Committed := rc_Committed c + amount,
        rc_Status := closedRes (rc_Outstanding c - amount) ReservationCommitted\<rparr>)\<rparr>)"
| release: "v_reservation v (tn, rid) = Some c \<Longrightarrow> \<not> ReservationStatus_Closed (rc_Status c) \<Longrightarrow>
    0 < amount \<Longrightarrow> amount \<le> rc_Outstanding c \<Longrightarrow>
    ledger_step v (v\<lparr>v_reservation := (v_reservation v)((tn, rid) \<mapsto>
      c\<lparr>rc_Outstanding := rc_Outstanding c - amount, rc_Released := rc_Released c + amount,
        rc_Status := closedRes (rc_Outstanding c - amount) ReservationReleased\<rparr>)\<rparr>)"
| expire: "v_reservation v (tn, rid) = Some c \<Longrightarrow> \<not> ReservationStatus_Closed (rc_Status c) \<Longrightarrow>
    0 < rc_Outstanding c \<Longrightarrow>
    ledger_step v (v\<lparr>v_reservation := (v_reservation v)((tn, rid) \<mapsto>
      c\<lparr>rc_Outstanding := 0, rc_Released := rc_Released c + rc_Outstanding c,
        rc_Status := ReservationExpired\<rparr>)\<rparr>)"
| notify: "ledger_step v (v\<lparr>v_outbox := v_outbox v @ [ev]\<rparr>)"

abbreviation ledger_steps :: "ledger_view \<Rightarrow> ledger_view \<Rightarrow> bool" where
  "ledger_steps \<equiv> ledger_step\<^sup>*\<^sup>*"

section \<open>The invariant\<close>

definition tenantEntries :: "ledger_view \<Rightarrow> string \<Rightarrow> Entry list" where
  "tenantEntries v tn = map (\<lambda>p. snd (snd p)) (filter (\<lambda>p. fst p = tn) (v_entries v))"

definition books :: "ledger_view \<Rightarrow> bool" where
  "books v \<longleftrightarrow> (\<forall>tn k. balanceOf v (tn, k) =
     (debitsOf k (tenantEntries v tn), creditsOf k (tenantEntries v tn)))"

definition trial_balance :: "ledger_view \<Rightarrow> bool" where
  "trial_balance v \<longleftrightarrow> (\<forall>tn ccy. netIn ccy (tenantEntries v tn) = 0)"

definition solvent :: "ledger_view \<Rightarrow> bool" where
  "solvent v \<longleftrightarrow> (\<forall>tn a c b. v_balance v (tn, a, c) = Some b \<longrightarrow>
     (\<exists>acc. v_account v (tn, a) = Some acc \<and> acc_Currency acc = c \<and> \<not> overdrawn acc b))"

definition flows_done :: "ledger_view \<Rightarrow> bool" where
  "flows_done v \<longleftrightarrow> (\<forall>k fid st. v_flow v k = Some (fid, st) \<longrightarrow> st = FlowCompleted)"

text \<open>Conservation of a reservation, with what its status says of the outstanding amount.\<close>

definition res_ok :: "res_core \<Rightarrow> bool" where
  "res_ok c \<longleftrightarrow> rc_Outstanding c + rc_Committed c + rc_Released c = rc_Original c \<and>
     0 \<le> rc_Outstanding c \<and> 0 \<le> rc_Committed c \<and> 0 \<le> rc_Released c \<and>
     (if ReservationStatus_Closed (rc_Status c) then rc_Outstanding c = 0
      else rc_Status c \<in> {ReservationHeld, ReservationPartial} \<and> 0 < rc_Outstanding c)"

definition reservations_ok :: "ledger_view \<Rightarrow> bool" where
  "reservations_ok v \<longleftrightarrow> (\<forall>k c. v_reservation v k = Some c \<longrightarrow> res_ok c)"

definition ledger_inv :: "ledger_view \<Rightarrow> bool" where
  "ledger_inv v \<longleftrightarrow> books v \<and> trial_balance v \<and> solvent v \<and> flows_done v \<and> reservations_ok v"

lemmas ledger_inv_parts = books_def trial_balance_def solvent_def flows_done_def reservations_ok_def

text \<open>The invariant reads only part of the view.\<close>

lemma ledger_inv_notify: "ledger_inv (v\<lparr>v_outbox := ob\<rparr>) = ledger_inv v"
  by (simp add: ledger_inv_def ledger_inv_parts balanceOf_def tenantEntries_def)

lemma ledger_inv_reservation:
  assumes "ledger_inv v" and "\<And>c0. v_reservation v k = Some c0 \<Longrightarrow> res_ok c0 \<Longrightarrow> res_ok c"
    and "v_reservation v k = None \<Longrightarrow> res_ok c"
  shows "ledger_inv (v\<lparr>v_reservation := (v_reservation v)(k \<mapsto> c)\<rparr>)"
  using assms
  by (cases "v_reservation v k")
    (auto simp: ledger_inv_def ledger_inv_parts balanceOf_def tenantEntries_def)

lemma tenantEntries_post:
  assumes "length jids = length steps"
  shows "tenantEntries (absPost tn key fid ft steps jids v) t =
    tenantEntries v t @ (if t = tn then entriesOf steps else [])"
proof -
  from absSteps_entries [OF assms, of tn fid ft v] obtain new
    where new: "v_entries (absSteps tn fid ft steps jids v) = v_entries v @ new"
      "map (\<lambda>p. snd (snd p)) new = entriesOf steps" "\<forall>p\<in>set new. fst p = tn"
    by blast
  have "filter (\<lambda>p. fst p = t) new = (if t = tn then new else [])"
    using new(3) by (auto intro: filter_True filter_False)
  with new show ?thesis by (auto simp: tenantEntries_def absPost_def absBalances_def)
qed

lemma balanceOf_post:
  "balanceOf (absPost tn key fid ft steps jids v) (t, k) =
     (if t = tn then (fst (balanceOf v (t, k)) + debitsOf k (entriesOf steps),
                      snd (balanceOf v (t, k)) + creditsOf k (entriesOf steps))
      else balanceOf v (t, k))"
  using sums_zero [of k "entriesOf steps"]
  by (cases "k \<in> entryKey ` set (entriesOf steps)")
    (auto simp: absPost_def absBalances_def balanceOf_def split: option.splits)

lemma netIn_entriesOf:
  "\<forall>st\<in>set steps. Journal_Validate (si_Journal st) = Inr () \<Longrightarrow> netIn ccy (entriesOf steps) = 0"
  by (induction steps) (auto dest: Journal_Validate_Inr)

lemma flows_done_post:
  "flows_done v \<Longrightarrow> flows_done (absPost tn key fid ft steps jids v)"
  by (auto simp: flows_done_def absPost_def completeFlow_def split: option.splits if_splits)

lemma solvent_post:
  assumes "solvent v" and "postable v tn steps"
  shows "solvent (absPost tn key fid ft steps jids v)"
  unfolding solvent_def
proof (intro allI impI)
  fix t a c b
  assume b: "v_balance (absPost tn key fid ft steps jids v) (t, a, c) = Some b"
  have acc: "v_account (absPost tn key fid ft steps jids v) = v_account v"
    by (simp add: absPost_def absBalances_def)
  show "\<exists>acc. v_account (absPost tn key fid ft steps jids v) (t, a) = Some acc \<and>
      acc_Currency acc = c \<and> \<not> overdrawn acc b"
  proof (cases "t = tn \<and> (a, c) \<in> entryKey ` set (entriesOf steps)")
    case True
    with b have "b = (fst (balanceOf v (tn, a, c)) + debitsOf (a, c) (entriesOf steps),
        snd (balanceOf v (tn, a, c)) + creditsOf (a, c) (entriesOf steps))"
      by (auto simp: absPost_def absBalances_def balanceOf_def)
    moreover obtain acc where "v_account v (tn, a) = Some acc" "acc_Currency acc = c"
      "\<not> overdrawn acc (fst (balanceOf v (tn, a, c)) + debitsOf (a, c) (entriesOf steps),
        snd (balanceOf v (tn, a, c)) + creditsOf (a, c) (entriesOf steps))"
      using True assms(2) unfolding postable_def by (metis fst_conv snd_conv)
    ultimately show ?thesis using True unfolding acc by auto
  next
    case False
    then have "v_balance v (t, a, c) = Some b"
      using b by (auto simp: absPost_def absBalances_def)
    with assms(1) show ?thesis unfolding acc solvent_def by blast
  qed
qed

lemma ledger_inv_post:
  assumes "ledger_inv v" and "postable v tn steps" and "length jids = length steps"
  shows "ledger_inv (absPost tn key fid ft steps jids v)"
proof -
  have inv: "books v" "trial_balance v" "solvent v" "flows_done v" "reservations_ok v"
    using assms(1) by (auto simp: ledger_inv_def)
  have "books (absPost tn key fid ft steps jids v)"
    using inv(1) by (simp add: books_def balanceOf_post tenantEntries_post [OF assms(3)])
  moreover have "trial_balance (absPost tn key fid ft steps jids v)"
    using inv(2) assms(2)
    by (auto simp: trial_balance_def tenantEntries_post [OF assms(3)] netIn_entriesOf postable_def)
  moreover have "reservations_ok (absPost tn key fid ft steps jids v)"
    using inv(5) by (simp add: reservations_ok_def absPost_def absBalances_def)
  ultimately show ?thesis
    using inv solvent_post assms(2) flows_done_post by (simp add: ledger_inv_def)
qed

lemma ledger_inv_account:
  "ledger_inv v \<Longrightarrow> v_account v k = None \<Longrightarrow>
     ledger_inv (v\<lparr>v_account := (v_account v)(k \<mapsto> acc)\<rparr>)"
  by (fastforce simp: ledger_inv_def ledger_inv_parts balanceOf_def tenantEntries_def)

lemma ledger_step_inv: "ledger_step v v' \<Longrightarrow> ledger_inv v \<Longrightarrow> ledger_inv v'"
proof (induction rule: ledger_step.induct)
  case (create_account v acc)
  then show ?case by (intro ledger_inv_account)
next
  case (post v tn key steps jids fid ft)
  then show ?case by (intro ledger_inv_post)
next
  case (hold c v tn rid)
  then show ?case
    by (intro ledger_inv_reservation) (auto simp: res_ok_def ReservationStatus_Closed_def)
next
  case (commit v tn rid c amount)
  then show ?case
    by (intro ledger_inv_reservation) (auto simp: res_ok_def ReservationStatus_Closed_def closedRes_def)
next
  case (release v tn rid c amount)
  then show ?case
    by (intro ledger_inv_reservation) (auto simp: res_ok_def ReservationStatus_Closed_def closedRes_def)
next
  case (expire v tn rid c)
  then show ?case
    by (intro ledger_inv_reservation) (auto simp: res_ok_def ReservationStatus_Closed_def)
next
  case (notify v ev)
  then show ?case by (simp add: ledger_inv_notify)
qed

lemma ledger_steps_inv: "ledger_steps v v' \<Longrightarrow> ledger_inv v \<Longrightarrow> ledger_inv v'"
  by (induction rule: rtranclp_induct) (auto intro: ledger_step_inv)

section \<open>What never changes\<close>

lemma absSteps_journals:
  "length jids = length steps \<Longrightarrow>
     v_journals (absSteps tn fid ft steps jids v) =
       v_journals v @ map2 (\<lambda>st jid. (tn, jid, jrn_EventID (si_Journal st))) steps jids"
  by (induction steps jids arbitrary: v rule: list_induct2') (auto simp: absStep_def)

text \<open>The ledger is append-only: posted entries and journals are never changed or removed,
  and an account, once created, stays as it is.\<close>

definition extends :: "ledger_view \<Rightarrow> ledger_view \<Rightarrow> bool" where
  "extends v v' \<longleftrightarrow> (\<exists>es. v_entries v' = v_entries v @ es) \<and>
     (\<exists>js. v_journals v' = v_journals v @ js) \<and> v_account v \<subseteq>\<^sub>m v_account v' \<and>
     (\<forall>k f. v_flow v k = Some (f, FlowCompleted) \<longrightarrow> v_flow v' k = Some (f, FlowCompleted))"

lemma extends_refl [simp]: "extends v v"
  by (simp add: extends_def)

lemma extends_trans: "extends u v \<Longrightarrow> extends v w \<Longrightarrow> extends u w"
  by (fastforce simp: extends_def intro: map_le_trans)

lemma extends_post:
  assumes "length jids = length steps" and "v_flow v (tn, key) = None"
  shows "extends v (absPost tn key fid ft steps jids v)"
  using absSteps_entries [OF assms(1), of tn fid ft v] absSteps_journals [OF assms(1), of tn fid ft v] assms(2)
  by (auto simp: extends_def absPost_def absBalances_def completeFlow_def split: if_splits)

lemma ledger_step_extends: "ledger_step v v' \<Longrightarrow> extends v v'"
proof (induction rule: ledger_step.induct)
  case (post v tn key steps jids fid ft)
  then show ?case by (intro extends_post)
qed (auto simp: extends_def map_le_def)

lemma ledger_steps_extends: "ledger_steps v v' \<Longrightarrow> extends v v'"
  by (induction rule: rtranclp_induct) (auto intro: extends_trans ledger_step_extends)

end
