(* ===== verification/Flow.thy ===== *)
theory Flow
  imports Proto Ledger_Spec
begin

text \<open>
  Flow execution: \<open>execute_flow.go\<close>, \<open>post_journal.go\<close> and the transaction wrapper of
  \<open>server.go\<close>.

  \<open>executeFlowInTx\<close> is the orchestrator body: the idempotency check, the locking of every
  touched balance in a fixed order, the journals, entries, steps and outbox events of each
  step, and the overdraft check with the final balances. The three loops are definitions of
  their own (\<open>lockKey\<close>, \<open>applyEntry\<close> and \<open>applyStep\<close>, \<open>persistKey\<close>), folded by \<open>forE\<close>.

  Inside the locale \<open>ledger_tx\<close> each loop is related to \<open>Ledger_Spec\<close>: a run that succeeds
  is either a replay that changes nothing or exactly one \<open>absPost\<close> under \<open>postable\<close>. Inside
  \<open>ledger_store\<close> a failed transaction leaves the ledger as it was.
\<close>

section \<open>Transactions (server.go)\<close>

definition runTx :: "('s, 't) store_ops \<Rightarrow> ('t world, error, 'a) exec \<Rightarrow>
    ('s world, error, 'a) exec" where
  "runTx S body w = (case st_BeginFlowTx S (w_st w) of
     (Inl e, s1) \<Rightarrow> (Inl e, w\<lparr>w_st := s1\<rparr>)
   | (Inr t, s1) \<Rightarrow> (case body \<lparr>w_st = t, w_ids = w_ids w, w_ticks = w_ticks w\<rparr> of
       (Inl e, wt) \<Rightarrow>
         (Inl e, \<lparr>w_st = st_Rollback S (w_st wt) s1, w_ids = w_ids wt, w_ticks = w_ticks wt\<rparr>)
     | (Inr a, wt) \<Rightarrow> (case st_Commit S (w_st wt) s1 of
         (Inl e, s2) \<Rightarrow>
           (Inl e, \<lparr>w_st = st_Rollback S (w_st wt) s2, w_ids = w_ids wt, w_ticks = w_ticks wt\<rparr>)
       | (Inr u, s2) \<Rightarrow> (Inr a, \<lparr>w_st = s2, w_ids = w_ids wt, w_ticks = w_ticks wt\<rparr>))))"

text \<open>\<open>runInTx\<close> returns the error of \<open>Commit\<close> without a rollback.\<close>

definition runInTx :: "('s, 't) store_ops \<Rightarrow> ('t world, error, unit) exec \<Rightarrow>
    ('s world, error, unit) exec" where
  "runInTx S fn w = (case st_BeginFlowTx S (w_st w) of
     (Inl e, s1) \<Rightarrow> (Inl e, w\<lparr>w_st := s1\<rparr>)
   | (Inr t, s1) \<Rightarrow> (case fn \<lparr>w_st = t, w_ids = w_ids w, w_ticks = w_ticks w\<rparr> of
       (Inl e, wt) \<Rightarrow>
         (Inl e, \<lparr>w_st = st_Rollback S (w_st wt) s1, w_ids = w_ids wt, w_ticks = w_ticks wt\<rparr>)
     | (Inr u, wt) \<Rightarrow> (case st_Commit S (w_st wt) s1 of (r, s2) \<Rightarrow>
         (r, \<lparr>w_st = s2, w_ids = w_ids wt, w_ticks = w_ticks wt\<rparr>))))"

section \<open>Requests and responses (execute_flow.go)\<close>

fun entriesFromProto :: "decimal_lib \<Rightarrow> EntryMsg list \<Rightarrow> error + Entry list" where
  "entriesFromProto D [] = Inr []"
| "entriesFromProto D (e # es) =
     (case ParseAmount D (em_Amount e) of
        Inl err \<Rightarrow> Inl (DomainError CodeUnbalancedJournal (Error_string err))
      | Inr amt \<Rightarrow>
          (case entriesFromProto D es of
             Inl err \<Rightarrow> Inl err
           | Inr rest \<Rightarrow> Inr (\<lparr>ent_AccountID = em_AccountId e, ent_Currency = em_Currency e,
               ent_Direction = (if em_Direction e = DIRECTION_CREDIT then DirectionCredit
                                else DirectionDebit),
               ent_Amount = amt\<rparr> # rest)))"

definition newJournal :: "string \<Rightarrow> Entry list \<Rightarrow> Journal" where
  "newJournal eventID es = \<lparr>jrn_ID = '''', jrn_TenantID = '''', jrn_FlowRunID = '''',
     jrn_EventID = eventID, jrn_SourceService = '''', jrn_SourceType = '''', jrn_ActorID = '''',
     jrn_Metadata = [], jrn_Entries = es, jrn_CreatedAt = zeroTime\<rparr>"

definition GetEventId :: "JournalMsg option \<Rightarrow> string" where
  "GetEventId j = (case j of None \<Rightarrow> '''' | Some m \<Rightarrow> jm_EventId m)"

definition GetEntries :: "JournalMsg option \<Rightarrow> EntryMsg list" where
  "GetEntries j = (case j of None \<Rightarrow> [] | Some m \<Rightarrow> jm_Entries m)"

fun stepsFromProto :: "decimal_lib \<Rightarrow> StepMsg list \<Rightarrow> error + StepInput list" where
  "stepsFromProto D [] = Inr []"
| "stepsFromProto D (s # ss) =
     (case entriesFromProto D (GetEntries (sm_Journal s)) of
        Inl err \<Rightarrow> Inl err
      | Inr es \<Rightarrow>
          (case stepsFromProto D ss of
             Inl err \<Rightarrow> Inl err
           | Inr rest \<Rightarrow> Inr (\<lparr>si_StepID = sm_StepId s,
               si_Journal = newJournal (GetEventId (sm_Journal s)) es\<rparr> # rest)))"

definition flowStatusToProto :: "FlowStatus \<Rightarrow> enum" where
  "flowStatusToProto s =
     (if s = FlowCompleted then FLOW_STATUS_COMPLETED
      else if s = FlowFailed then FLOW_STATUS_FAILED
      else FLOW_STATUS_RUNNING)"

definition stepToProto :: "FlowStep \<Rightarrow> FlowStepResult" where
  "stepToProto s = \<lparr>fsr_StepId = fs_StepID s, fsr_Status = fs_Status s,
     fsr_JournalId = fs_JournalID s, fsr_ErrorCode = fs_ErrorCode s\<rparr>"

definition flowRunToResponse :: "string \<Rightarrow> FlowStatus \<Rightarrow> FlowStep list \<Rightarrow> ExecuteFlowResponse" where
  "flowRunToResponse fid status steps = \<lparr>efs_FlowRunId = fid,
     efs_Status = flowStatusToProto status, efs_Steps = map stepToProto steps\<rparr>"

section \<open>The orchestrator (execute_flow.go)\<close>

type_synonym key = "string \<times> string"

record balState =
  bst_acct :: Account
  bst_postedDebits :: decimal
  bst_postedCredits :: decimal

type_synonym flow_state = "key \<Rightarrow> balState option"

text \<open>The distinct (account, currency) keys in the order they are met, then sorted by account
  and currency.\<close>

fun collectKeys :: "Entry list \<Rightarrow> key list \<Rightarrow> key list" where
  "collectKeys [] ks = ks"
| "collectKeys (e # es) ks =
     collectKeys es (if (ent_AccountID e, ent_Currency e) \<in> set ks then ks
                     else ks @ [(ent_AccountID e, ent_Currency e)])"

definition orderedKeys :: "StepInput list \<Rightarrow> key list" where
  "orderedKeys steps =
     sort (collectKeys (concat (map (\<lambda>st. jrn_Entries (si_Journal st)) steps)) [])"

definition lockKey :: "'t tx_ops \<Rightarrow> string \<Rightarrow> key \<Rightarrow> flow_state \<Rightarrow> ('t world, error, flow_state) exec" where
  "lockKey T tn k state =
     bindE (inSt (tx_GetAccount T tn (fst k))) (\<lambda>acc.
       if acc_Status acc \<noteq> AccountActive
       then throwE (DomainError CodeInvalidAccountStatus (acc_ID acc))
       else if acc_Currency acc \<noteq> snd k
       then throwE (DomainError CodeAccountCurrencyMismatch
         (acc_ID acc @ '': account='' @ acc_Currency acc @ '' req='' @ snd k))
       else bindE (inSt (tx_LockBalance T tn (fst k) (snd k))) (\<lambda>(d, c, ver).
         ret (state(k \<mapsto> \<lparr>bst_acct = acc, bst_postedDebits = d, bst_postedCredits = c\<rparr>))))"

definition applyEntry :: "env \<Rightarrow> 't tx_ops \<Rightarrow> string \<Rightarrow> string \<Rightarrow> Entry \<Rightarrow> flow_state \<Rightarrow>
    ('t world, error, flow_state) exec" where
  "applyEntry E T tn journalID e state =
     bindE (NewID E) (\<lambda>entryID.
     thenE (inSt (tx_InsertEntry T tn entryID journalID (ent_AccountID e) (ent_Currency e)
        (ent_Direction e) (ent_Amount e)))
       (let k = (ent_AccountID e, ent_Currency e) in
        case state k of
          None \<Rightarrow> throwE (Panic ''nil pointer dereference'')
        | Some bs \<Rightarrow>
            if ent_Direction e = DirectionDebit
            then ret (state(k \<mapsto> bs\<lparr>bst_postedDebits := bst_postedDebits bs + ent_Amount e\<rparr>))
            else ret (state(k \<mapsto> bs\<lparr>bst_postedCredits := bst_postedCredits bs + ent_Amount e\<rparr>))))"

text \<open>One step: validate, post the journal and its entries, record the step and its event.\<close>

definition applyStep :: "env \<Rightarrow> 't tx_ops \<Rightarrow> ExecuteFlowRequest \<Rightarrow> string \<Rightarrow> metadata \<Rightarrow> StepInput \<Rightarrow>
    flow_state \<times> FlowStep list \<Rightarrow> ('t world, error, flow_state \<times> FlowStep list) exec" where
  "applyStep E T r flowRunID metaMap st acc =
     (case Journal_Validate (si_Journal st) of
        Inl err \<Rightarrow> throwE (DomainError CodeUnbalancedJournal (Error_string err))
      | Inr u \<Rightarrow>
          bindE (NewID E) (\<lambda>journalID.
          bindE (Now E) (\<lambda>now.
          let j = (si_Journal st)\<lparr>jrn_ID := journalID, jrn_TenantID := efr_TenantId r,
                jrn_FlowRunID := flowRunID, jrn_SourceService := efr_SourceService r,
                jrn_SourceType := efr_FlowType r, jrn_ActorID := efr_ActorId r,
                jrn_Metadata := metaMap, jrn_CreatedAt := now\<rparr> in
          thenE (inSt (tx_InsertJournal T j))
          (bindE (forE (applyEntry E T (efr_TenantId r) journalID) (jrn_Entries j) (fst acc)) (\<lambda>state.
          bindE (NewID E) (\<lambda>stepRowID.
          bindE (Now E) (\<lambda>stepAt.
          let fs = \<lparr>fs_ID = stepRowID, fs_TenantID = efr_TenantId r, fs_FlowRunID = flowRunID,
                fs_StepID = si_StepID st, fs_Status = StepCompleted, fs_JournalID = journalID,
                fs_ErrorCode = '''', fs_CreatedAt = stepAt\<rparr> in
          thenE (inSt (tx_InsertFlowStep T fs))
          (bindE (NewID E) (\<lambda>outboxID.
           bindE (Now E) (\<lambda>outboxAt.
           thenE (inSt (tx_InsertOutbox T \<lparr>obx_ID = outboxID, obx_TenantID = efr_TenantId r,
               obx_AggregateID = flowRunID,
               obx_EventType = efr_FlowType r @ ''.'' @ si_StepID st,
               obx_IdempotencyKey = flowRunID @ '':'' @ si_StepID st,
               obx_Payload = JObj [(''flow_type'', JStr (efr_FlowType r)),
                 (''journal_id'', JStr journalID), (''step_id'', JStr (si_StepID st))],
               obx_CreatedAt = outboxAt\<rparr>))
           (ret (state, snd acc @ [fs]))))))))))))"

definition persistKey :: "env \<Rightarrow> 't tx_ops \<Rightarrow> string \<Rightarrow> flow_state \<Rightarrow> key \<Rightarrow> unit \<Rightarrow>
    ('t world, error, unit) exec" where
  "persistKey E T tn state k u =
     (case state k of
        None \<Rightarrow> throwE (Panic ''nil pointer dereference'')
      | Some bs \<Rightarrow>
          if \<not> acc_AllowNegative (bst_acct bs) \<and>
             NormalizedBalance (acc_NormalBalance (bst_acct bs)) (bst_postedDebits bs)
               (bst_postedCredits bs) < 0
          then throwE (DomainError CodeInsufficientFunds (''account='' @ acc_ID (bst_acct bs) @
            '' currency='' @ snd k @ '' normalized='' @
            dl_String (env_D E) (NormalizedBalance (acc_NormalBalance (bst_acct bs))
              (bst_postedDebits bs) (bst_postedCredits bs))))
          else inSt (tx_UpdateBalance T tn (fst k) (snd k) (bst_postedDebits bs)
                 (bst_postedCredits bs)))"

definition replayFlow :: "'t tx_ops \<Rightarrow> string \<Rightarrow> FlowRun \<Rightarrow> ('t world, error, ExecuteFlowResponse) exec" where
  "replayFlow T tn f =
     (if fr_Status f \<noteq> FlowCompleted
      then throwE (DomainError CodeFlowConflict (''flow not completed: '' @ fr_Status f))
      else bindE (inSt (tx_GetFlowSteps T tn (fr_ID f))) (\<lambda>steps.
        ret (flowRunToResponse (fr_ID f) (fr_Status f) steps)))"

definition startFlow :: "env \<Rightarrow> 't tx_ops \<Rightarrow> ExecuteFlowRequest \<Rightarrow> StepInput list \<Rightarrow>
    ('t world, error, ExecuteFlowResponse) exec" where
  "startFlow E T r steps =
     bindE (NewID E) (\<lambda>flowRunID.
     bindE (Now E) (\<lambda>createdAt.
     let metaMap = structToMap (efr_Metadata r); tn = efr_TenantId r; ordered = orderedKeys steps in
     thenE (inSt (tx_InsertFlowRun T \<lparr>fr_ID = flowRunID, fr_TenantID = tn,
         fr_FlowType = efr_FlowType r, fr_IdempotencyKey = efr_IdempotencyKey r,
         fr_SourceService = efr_SourceService r, fr_ActorID = efr_ActorId r,
         fr_Status = FlowRunning, fr_Metadata = metaMap, fr_CreatedAt = createdAt,
         fr_CompletedAt = None, fr_FailedAt = None, fr_Steps = []\<rparr>))
     (bindE (forE (lockKey T tn) ordered Map.empty) (\<lambda>state0.
      bindE (forE (applyStep E T r flowRunID metaMap) steps (state0, [])) (\<lambda>(state, stepResults).
      thenE (forE (persistKey E T tn state) ordered ())
      (thenE (inSt (tx_CompleteFlowRun T tn flowRunID))
       (ret (flowRunToResponse flowRunID FlowCompleted stepResults))))))))"

definition executeFlowInTx :: "env \<Rightarrow> 't tx_ops \<Rightarrow> ExecuteFlowRequest \<Rightarrow>
    ('t world, error, ExecuteFlowResponse) exec" where
  "executeFlowInTx E T r =
     bindE (liftE (stepsFromProto (env_D E) (efr_Steps r))) (\<lambda>steps.
     bindE (inSt (tx_GetFlowByIdempotency T (efr_TenantId r) (efr_IdempotencyKey r))) (\<lambda>existing.
       case existing of
         Some f \<Rightarrow> replayFlow T (efr_TenantId r) f
       | None \<Rightarrow> startFlow E T r steps))"

text \<open>An outbox event with a fresh identifier, as the handlers add them.\<close>

definition insertEvent :: "env \<Rightarrow> 't tx_ops \<Rightarrow> string \<Rightarrow> string \<Rightarrow> string \<Rightarrow> string \<Rightarrow> json \<Rightarrow>
    ('t world, error, unit) exec" where
  "insertEvent E T tn aggregate eventType key payload =
     bindE (NewID E) (\<lambda>oid. bindE (Now E) (\<lambda>ts.
       inSt (tx_InsertOutbox T \<lparr>obx_ID = oid, obx_TenantID = tn, obx_AggregateID = aggregate,
         obx_EventType = eventType, obx_IdempotencyKey = key, obx_Payload = payload,
         obx_CreatedAt = ts\<rparr>)))"

section \<open>The handlers\<close>

definition ExecuteFlow :: "env \<Rightarrow> ('s, 't) store_ops \<Rightarrow> ExecuteFlowRequest \<Rightarrow>
    ('s world, connect_error, ExecuteFlowResponse) exec" where
  "ExecuteFlow E S r = mapErr ToConnectError (runTx S (executeFlowInTx E (st_Tx S) r))"

definition postJournalFlow :: "PostJournalRequest \<Rightarrow> ExecuteFlowRequest" where
  "postJournalFlow r = \<lparr>efr_TenantId = pjr_TenantId r, efr_FlowType = ''POST_JOURNAL'',
     efr_IdempotencyKey = pjr_IdempotencyKey r, efr_SourceService = pjr_SourceService r,
     efr_ActorId = pjr_ActorId r,
     efr_Steps = [\<lparr>sm_StepId = ''post'', sm_Journal = pjr_Journal r\<rparr>],
     efr_Metadata = None\<rparr>"

definition firstJournalID :: "ExecuteFlowResponse \<Rightarrow> string" where
  "firstJournalID resp = (case efs_Steps resp of [] \<Rightarrow> '''' | s # _ \<Rightarrow> fsr_JournalId s)"

definition PostJournal :: "env \<Rightarrow> ('s, 't) store_ops \<Rightarrow> PostJournalRequest \<Rightarrow>
    ('s world, connect_error, PostJournalResponse) exec" where
  "PostJournal E S r =
     bindE (ExecuteFlow E S (postJournalFlow r)) (\<lambda>res.
       ret \<lparr>pjs_JournalId = firstJournalID res, pjs_FlowRunId = efs_FlowRunId res\<rparr>)"

definition GetFlow :: "('s, 't) store_ops \<Rightarrow> string \<Rightarrow> string \<Rightarrow>
    ('s world, connect_error, ExecuteFlowResponse) exec" where
  "GetFlow S tn fid =
     bindE (mapErr ToConnectError (inSt (st_GetFlow S tn fid))) (\<lambda>f.
       case f of
         None \<Rightarrow> throwE (ToConnectError (DomainError CodeAccountNotFound (''flow '' @ fid)))
       | Some run \<Rightarrow> ret (flowRunToResponse (fr_ID run) (fr_Status run) (fr_Steps run)))"

end
