(* ===== verification/Flow_Correct.thy ===== *)
theory Flow_Correct
  imports Flow
begin

text \<open>
  The orchestrator against the abstract ledger, for every backend that meets the contract of
  \<open>Repo\<close>: one lemma per loop of \<open>executeFlowInTx\<close>, then \<open>executeFlowInTx_Inr\<close>, the functional
  description of every run that succeeds, and its consequence that such a run is a sequence
  of steps of the abstract ledger. \<open>runTx_Inl\<close> and \<open>runTx_Inr\<close> are what a handler gets from
  its transaction: all of the body, or nothing.
\<close>

section \<open>Parsed requests\<close>

lemma entriesFromProto_wf:
  "entriesFromProto D ms = Inr es \<Longrightarrow>
     \<forall>e\<in>set es. 0 < ent_Amount e \<and> Direction_Valid (ent_Direction e)"
  by (induction ms arbitrary: es)
    (fastforce simp: Direction_Valid_def ParseAmount_Inr split: sum.splits)+

lemma stepsFromProto_length: "stepsFromProto D ms = Inr steps \<Longrightarrow> length steps = length ms"
  by (induction ms arbitrary: steps) (auto split: sum.splits)

section \<open>The keys\<close>

lemma collectKeys_spec:
  "distinct ks \<Longrightarrow> distinct (collectKeys es ks) \<and>
     set (collectKeys es ks) = set ks \<union> entryKey ` set es"
  by (induction es ks rule: collectKeys.induct) (auto simp: entryKey_def)

lemma orderedKeys_spec:
  "distinct (orderedKeys steps)" "set (orderedKeys steps) = entryKey ` set (entriesOf steps)"
  "sorted (orderedKeys steps)"
  using collectKeys_spec [of "[]" "entriesOf steps"]
  by (simp_all add: orderedKeys_def entriesOf_def)

section \<open>The in-memory balances\<close>

definition addEntries :: "key \<Rightarrow> Entry list \<Rightarrow> balState \<Rightarrow> balState" where
  "addEntries k es b = b\<lparr>bst_postedDebits := bst_postedDebits b + debitsOf k es,
     bst_postedCredits := bst_postedCredits b + creditsOf k es\<rparr>"

lemma addEntries_simps [simp]:
  "addEntries k [] b = b"
  "bst_acct (addEntries k es b) = bst_acct b"
  "bst_postedDebits (addEntries k es b) = bst_postedDebits b + debitsOf k es"
  "bst_postedCredits (addEntries k es b) = bst_postedCredits b + creditsOf k es"
  "addEntries k fs (addEntries k es b) = addEntries k (es @ fs) b"
  by (simp_all add: addEntries_def ac_simps)

definition tracks :: "flow_state \<Rightarrow> Entry list \<Rightarrow> flow_state \<Rightarrow> bool" where
  "tracks st0 es st \<longleftrightarrow> (\<forall>k. st k = map_option (addEntries k es) (st0 k))"

lemma tracks_refl: "tracks st [] st"
  by (simp add: tracks_def option.map_ident_strong)

lemma tracks_trans: "tracks st0 es st1 \<Longrightarrow> tracks st1 fs st2 \<Longrightarrow> tracks st0 (es @ fs) st2"
  by (auto simp: tracks_def option.map_comp comp_def)

lemma entry_eta:
  "\<lparr>ent_AccountID = ent_AccountID e, ent_Currency = ent_Currency e,
     ent_Direction = ent_Direction e, ent_Amount = ent_Amount e\<rparr> = e"
  by simp

section \<open>The loops\<close>

context ledger_tx
begin

lemma lockKey_Inr:
  assumes "inv (w_st w)" and "lockKey T tn k st w = (Inr st', w')"
  obtains acc where "inv (w_st w')"
    and "v_account (view (w_st w)) (tn, fst k) = Some acc"
    and "acc_Status acc = AccountActive" and "acc_Currency acc = snd k"
    and "st' = st(k \<mapsto> \<lparr>bst_acct = acc,
      bst_postedDebits = fst (balanceOf (view (w_st w)) (tn, k)),
      bst_postedCredits = snd (balanceOf (view (w_st w)) (tn, k))\<rparr>)"
    and "view (w_st w') = (view (w_st w))\<lparr>v_balance :=
      (v_balance (view (w_st w)))((tn, k) \<mapsto> balanceOf (view (w_st w)) (tn, k))\<rparr>"
proof -
  obtain acc x1 d c ver x2 where
    a: "tx_GetAccount T tn (fst k) (w_st w) = (Inr acc, x1)" and
    g: "acc_Status acc = AccountActive" "acc_Currency acc = snd k" and
    l: "tx_LockBalance T tn (fst k) (snd k) x1 = (Inr (d, c, ver), x2)" and
    r: "w' = w\<lparr>w_st := x2\<rparr>"
      "st' = st(k \<mapsto> \<lparr>bst_acct = acc, bst_postedDebits = d, bst_postedCredits = c\<rparr>)"
    using assms(2) by (auto simp: lockKey_def exec_simps split: if_splits)
  from GetAccount [OF assms(1) a]
  have x1: "inv x1" "view x1 = view (w_st w)" "v_account (view (w_st w)) (tn, fst k) = Some acc"
    by auto
  from LockBalance [OF x1(1) l] x1 g r show thesis
    by (intro that [of acc]) (auto simp: prod_eq_iff)
qed

lemma lockLoop_Inr:
  assumes "inv (w_st w)" and "forE (lockKey T tn) ks st w = (Inr st', w')"
  shows "inv (w_st w') \<and>
    view (w_st w') = (view (w_st w))\<lparr>v_balance := (\<lambda>p. if fst p = tn \<and> snd p \<in> set ks
      then Some (balanceOf (view (w_st w)) p) else v_balance (view (w_st w)) p)\<rparr> \<and>
    (\<forall>k\<in>set ks. \<exists>acc. v_account (view (w_st w)) (tn, fst k) = Some acc \<and>
       acc_Status acc = AccountActive \<and> acc_Currency acc = snd k \<and>
       st' k = Some \<lparr>bst_acct = acc,
         bst_postedDebits = fst (balanceOf (view (w_st w)) (tn, k)),
         bst_postedCredits = snd (balanceOf (view (w_st w)) (tn, k))\<rparr>) \<and>
    (\<forall>k. k \<notin> set ks \<longrightarrow> st' k = st k)"
  using assms
proof (induction ks arbitrary: st w)
  case Nil
  then show ?case by (simp add: exec_simps)
next
  case (Cons k ks)
  from Cons.prems(2) obtain st1 w1
    where s1: "lockKey T tn k st w = (Inr st1, w1)" "forE (lockKey T tn) ks st1 w1 = (Inr st', w')"
    by (auto simp: exec_simps)
  from lockKey_Inr [OF Cons.prems(1) s1(1)] obtain acc where
    k: "inv (w_st w1)" "v_account (view (w_st w)) (tn, fst k) = Some acc"
      "acc_Status acc = AccountActive" "acc_Currency acc = snd k"
      "st1 = st(k \<mapsto> \<lparr>bst_acct = acc,
        bst_postedDebits = fst (balanceOf (view (w_st w)) (tn, k)),
        bst_postedCredits = snd (balanceOf (view (w_st w)) (tn, k))\<rparr>)"
      "view (w_st w1) = (view (w_st w))\<lparr>v_balance :=
        (v_balance (view (w_st w)))((tn, k) \<mapsto> balanceOf (view (w_st w)) (tn, k))\<rparr>"
    by blast
  have bal: "balanceOf (view (w_st w1)) p = balanceOf (view (w_st w)) p" for p
    by (simp add: k(6) balanceOf_def)
  have same: "v_account (view (w_st w1)) = v_account (view (w_st w))" by (simp add: k(6))
  note IH = Cons.IH [OF k(1) s1(2), unfolded bal same]
  have "st' k' = st k'" if "k' \<notin> set (k # ks)" for k'
    using that IH k(5) by (simp del: split_paired_All)
  moreover have "\<exists>acc. v_account (view (w_st w)) (tn, fst k') = Some acc \<and>
      acc_Status acc = AccountActive \<and> acc_Currency acc = snd k' \<and>
      st' k' = Some \<lparr>bst_acct = acc,
         bst_postedDebits = fst (balanceOf (view (w_st w)) (tn, k')),
         bst_postedCredits = snd (balanceOf (view (w_st w)) (tn, k'))\<rparr>"
    if "k' \<in> set (k # ks)" for k'
    using that IH k(2-5) by (cases "k' \<in> set ks") (auto simp del: split_paired_All)
  moreover have "view (w_st w') = (view (w_st w))\<lparr>v_balance := (\<lambda>p. if fst p = tn \<and> snd p \<in> set (k # ks)
      then Some (balanceOf (view (w_st w)) p) else v_balance (view (w_st w)) p)\<rparr>"
    using IH by (simp add: k(6) fun_eq_iff)
  ultimately show ?case using IH by blast
qed

lemma applyEntry_Inr:
  assumes "inv (w_st w)" and "applyEntry E T tn jid e st w = (Inr st', w')"
  shows "inv (w_st w') \<and> tracks st [e] st' \<and>
    view (w_st w') = (view (w_st w))\<lparr>v_entries := v_entries (view (w_st w)) @ [(tn, jid, e)]\<rparr>"
proof -
  obtain eid x bs where
    i: "tx_InsertEntry T tn eid jid (ent_AccountID e) (ent_Currency e) (ent_Direction e)
      (ent_Amount e) (w_st w) = (Inr (), x)" and
    w': "w_st w' = x" and bs: "st (entryKey e) = Some bs" and
    st': "st' = st(entryKey e \<mapsto> addEntries (entryKey e) [e] bs)"
    using assms(2)
    by (auto simp: applyEntry_def Let_def exec_simps entryKey_def addEntries_def isDebit_def
      split: option.splits if_splits)
  from InsertEntry [OF assms(1) i]
  have "inv x" "view x = (view (w_st w))\<lparr>v_entries := v_entries (view (w_st w)) @ [(tn, jid, e)]\<rparr>"
    by (simp_all add: entry_eta)
  moreover have "tracks st [e] st'"
    using bs by (auto simp: tracks_def st' addEntries_def option.map_ident_strong)
  ultimately show ?thesis by (simp add: w')
qed

lemma entryLoop_Inr:
  assumes "inv (w_st w)" and "forE (applyEntry E T tn jid) es st w = (Inr st', w')"
  shows "inv (w_st w') \<and> tracks st es st' \<and>
    view (w_st w') = (view (w_st w))\<lparr>v_entries :=
      v_entries (view (w_st w)) @ map (\<lambda>e. (tn, jid, e)) es\<rparr>"
  using assms
proof (induction es arbitrary: st w)
  case Nil
  then show ?case by (simp add: exec_simps tracks_refl)
next
  case (Cons e es)
  from Cons.prems(2) obtain st1 w1
    where s1: "applyEntry E T tn jid e st w = (Inr st1, w1)"
      "forE (applyEntry E T tn jid) es st1 w1 = (Inr st', w')"
    by (auto simp: exec_simps)
  from applyEntry_Inr [OF Cons.prems(1) s1(1)] Cons.IH [OF _ s1(2)] show ?case
    using tracks_trans [of st "[e]" st1 es st'] by simp
qed

lemma applyStep_Inr:
  assumes "inv (w_st w)" and "applyStep E T r fid mm st (state, results) w = (Inr acc', w')"
  obtains jid state' fs where "acc' = (state', results @ [fs])" and "inv (w_st w')"
    and "Journal_Validate (si_Journal st) = Inr ()"
    and "tracks state (jrn_Entries (si_Journal st)) state'"
    and "stepInfo fs = (si_StepID st, StepCompleted, jid, '''')"
    and "view (w_st w') = absStep (efr_TenantId r) fid (efr_FlowType r) (st, jid) (view (w_st w))"
proof -
  obtain jid j x1 w1 state' w2 fs x2 ev x3 where
    v: "Journal_Validate (si_Journal st) = Inr ()" and
    ij: "tx_InsertJournal T j (w_st w) = (Inr (), x1)" "jrn_TenantID j = efr_TenantId r"
      "jrn_ID j = jid" "jrn_EventID j = jrn_EventID (si_Journal st)" and
    el: "forE (applyEntry E T (efr_TenantId r) jid) (jrn_Entries (si_Journal st)) state w1 = (Inr state', w2)"
    and w1: "w_st w1 = x1" and fs: "tx_InsertFlowStep T fs (w_st w2) = (Inr (), x2)" "fs_TenantID fs = efr_TenantId r"
      "fs_FlowRunID fs = fid" "stepInfo fs = (si_StepID st, StepCompleted, jid, '''')" and
    ev: "tx_InsertOutbox T ev x2 = (Inr (), x3)" "obx_TenantID ev = efr_TenantId r"
      "obx_AggregateID ev = fid" "obx_EventType ev = efr_FlowType r @ ''.'' @ si_StepID st"
      "obx_IdempotencyKey ev = fid @ '':'' @ si_StepID st" and
    w': "w_st w' = x3" "acc' = (state', results @ [fs])"
    using assms(2)
    by (cases "Journal_Validate (si_Journal st)")
      (clarsimp simp: applyStep_def Let_def exec_simps stepInfo_def)+
  from InsertJournal [OF assms(1) ij(1)] have "inv (w_st w1)" by (simp add: w1)
  from entryLoop_Inr [OF this el] have 2: "inv (w_st w2)" "tracks state (jrn_Entries (si_Journal st)) state'"
    by auto
  from InsertFlowStep [OF 2(1) fs(1)] have "inv x2" by simp
  from InsertOutbox [OF this ev(1)] have "inv (w_st w')" by (simp add: w')
  moreover have "view (w_st w') = absStep (efr_TenantId r) fid (efr_FlowType r) (st, jid) (view (w_st w))"
    using InsertJournal [OF assms(1) ij(1)] entryLoop_Inr [OF \<open>inv (w_st w1)\<close> el]
      InsertFlowStep [OF 2(1) fs(1)] InsertOutbox [OF \<open>inv x2\<close> ev(1)]
    by (simp add: absStep_def w' w1 ij(2-) fs(2-) ev(2-))
  ultimately show thesis using that [of state' fs jid] w'(2) v 2 fs(4) by blast
qed

lemma stepLoop_Inr:
  assumes "inv (w_st w)"
    and "forE (applyStep E T r fid mm) steps (state, results) w = (Inr (state', results'), w')"
  shows "inv (w_st w') \<and> (\<forall>st\<in>set steps. Journal_Validate (si_Journal st) = Inr ()) \<and>
    tracks state (entriesOf steps) state' \<and>
    (\<exists>jids new. length jids = length steps \<and> results' = results @ new \<and>
      map stepInfo new = map2 (\<lambda>st jid. (si_StepID st, StepCompleted, jid, '''')) steps jids \<and>
      view (w_st w') = absSteps (efr_TenantId r) fid (efr_FlowType r) steps jids (view (w_st w)))"
  using assms
proof (induction steps arbitrary: state results w)
  case Nil
  then show ?case by (simp add: exec_simps tracks_refl)
next
  case (Cons st steps)
  from Cons.prems(2) obtain acc1 w1
    where s1: "applyStep E T r fid mm st (state, results) w = (Inr acc1, w1)"
      "forE (applyStep E T r fid mm) steps acc1 w1 = (Inr (state', results'), w')"
    by (auto simp: exec_simps)
  from applyStep_Inr [OF Cons.prems(1) s1(1)] obtain jid state1 fs where
    1: "acc1 = (state1, results @ [fs])" "inv (w_st w1)"
      "Journal_Validate (si_Journal st) = Inr ()"
      "tracks state (jrn_Entries (si_Journal st)) state1"
      "stepInfo fs = (si_StepID st, StepCompleted, jid, '''')"
      "view (w_st w1) = absStep (efr_TenantId r) fid (efr_FlowType r) (st, jid) (view (w_st w))"
    by blast
  from Cons.IH [OF 1(2)] s1(2) 1(1) obtain jids new where
    IH: "inv (w_st w')" "\<forall>st\<in>set steps. Journal_Validate (si_Journal st) = Inr ()"
      "tracks state1 (entriesOf steps) state'" "length jids = length steps"
      "results' = (results @ [fs]) @ new"
      "map stepInfo new = map2 (\<lambda>st jid. (si_StepID st, StepCompleted, jid, '''')) steps jids"
      "view (w_st w') = absSteps (efr_TenantId r) fid (efr_FlowType r) steps jids (view (w_st w1))"
    by blast
  have "tracks state (entriesOf (st # steps)) state'"
    using tracks_trans [OF 1(4) IH(3)] by simp
  moreover have "\<exists>jids new. length jids = length (st # steps) \<and> results' = results @ new \<and>
      map stepInfo new = map2 (\<lambda>st jid. (si_StepID st, StepCompleted, jid, '''')) (st # steps) jids \<and>
      view (w_st w') = absSteps (efr_TenantId r) fid (efr_FlowType r) (st # steps) jids (view (w_st w))"
    by (intro exI [of _ "jid # jids"] exI [of _ "fs # new"]) (simp add: IH 1)
  ultimately show ?case using IH 1(3) by simp
qed

lemma persistLoop_Inr:
  assumes "inv (w_st w)" and "\<forall>k\<in>set ks. v_balance (view (w_st w)) (tn, k) \<noteq> None"
    and "forE (persistKey E T tn state) ks () w = (Inr (), w')"
  shows "inv (w_st w') \<and>
    (\<forall>k\<in>set ks. \<exists>bs. state k = Some bs \<and>
      \<not> overdrawn (bst_acct bs) (bst_postedDebits bs, bst_postedCredits bs)) \<and>
    view (w_st w') = (view (w_st w))\<lparr>v_balance := (\<lambda>p. if fst p = tn \<and> snd p \<in> set ks
      then map_option (\<lambda>bs. (bst_postedDebits bs, bst_postedCredits bs)) (state (snd p))
      else v_balance (view (w_st w)) p)\<rparr>"
  using assms
proof (induction ks arbitrary: w)
  case Nil
  then show ?case by (simp add: exec_simps)
next
  case (Cons k ks)
  from Cons.prems(3) obtain w1
    where s1: "persistKey E T tn state k () w = (Inr (), w1)"
      "forE (persistKey E T tn state) ks () w1 = (Inr (), w')"
    by (auto simp: exec_simps)
  then obtain bs x where bs: "state k = Some bs"
      "\<not> overdrawn (bst_acct bs) (bst_postedDebits bs, bst_postedCredits bs)" and
    u: "tx_UpdateBalance T tn (fst k) (snd k) (bst_postedDebits bs) (bst_postedCredits bs) (w_st w) =
      (Inr (), x)" "w_st w1 = x"
    by (auto simp: persistKey_def overdrawn_def exec_simps split: option.splits if_splits)
  have "v_balance (view (w_st w)) (tn, fst k, snd k) \<noteq> None" using Cons.prems(2) by simp
  from UpdateBalance [OF Cons.prems(1) this u(1)]
  have 1: "inv (w_st w1)" "view (w_st w1) = (view (w_st w))\<lparr>v_balance :=
      (v_balance (view (w_st w)))((tn, k) \<mapsto> (bst_postedDebits bs, bst_postedCredits bs))\<rparr>"
    by (simp_all add: u(2))
  have "\<forall>k\<in>set ks. v_balance (view (w_st w1)) (tn, k) \<noteq> None"
    using Cons.prems(2) by (simp add: 1(2))
  from Cons.IH [OF 1(1) this s1(2)] 1 bs show ?case by (auto simp: fun_eq_iff)
qed

end

section \<open>Flow execution\<close>

lemma absSteps_balance_flow:
  "length jids = length steps \<Longrightarrow>
     absSteps tn fid ft steps jids (v\<lparr>v_balance := b, v_flow := f\<rparr>) =
       (absSteps tn fid ft steps jids v)\<lparr>v_balance := b, v_flow := f\<rparr>"
proof (induction steps jids arbitrary: v rule: list_induct2')
  case (4 st steps jid jids)
  have "absStep tn fid ft (st, jid) (v\<lparr>v_balance := b, v_flow := f\<rparr>) =
      (absStep tn fid ft (st, jid) v)\<lparr>v_balance := b, v_flow := f\<rparr>"
    by (simp add: absStep_def)
  with 4 show ?case by simp
qed auto

definition replayResponse :: "string \<Rightarrow> step_info list \<Rightarrow> ExecuteFlowResponse" where
  "replayResponse fid infos = \<lparr>efs_FlowRunId = fid, efs_Status = FLOW_STATUS_COMPLETED,
     efs_Steps = map (\<lambda>(sid, status, jid, ec). \<lparr>fsr_StepId = sid, fsr_Status = status,
       fsr_JournalId = jid, fsr_ErrorCode = ec\<rparr>) infos\<rparr>"

lemma flowRunToResponse_replay:
  "flowRunToResponse fid FlowCompleted steps = replayResponse fid (map stepInfo steps)"
  by (simp add: flowRunToResponse_def replayResponse_def flowStatusToProto_def stepToProto_def
    stepInfo_def)

definition completedSteps :: "StepInput list \<Rightarrow> string list \<Rightarrow> step_info list" where
  "completedSteps steps jids =
     map2 (\<lambda>st jid. (si_StepID st, StepCompleted, jid, '''')) steps jids"

text \<open>What a successful run of the orchestrator did: either the flow was already completed, and
  nothing changes, or it is posted now. A replay reports the recorded steps in the order the
  backend returns them.\<close>

definition flowEffect :: "string \<Rightarrow> ExecuteFlowRequest \<Rightarrow> StepInput list \<Rightarrow> ledger_view \<Rightarrow>
    ExecuteFlowResponse \<Rightarrow> ledger_view \<Rightarrow> bool" where
  "flowEffect newID r steps v resp v' \<longleftrightarrow>
     (case v_flow v (efr_TenantId r, efr_IdempotencyKey r) of
        Some (fid, status) \<Rightarrow> status = FlowCompleted \<and> v' = v \<and>
          (\<exists>infos. mset infos = mset (v_steps v (efr_TenantId r, fid)) \<and>
            resp = replayResponse fid infos)
      | None \<Rightarrow> postable v (efr_TenantId r) steps \<and> (\<exists>jids. length jids = length steps \<and>
          v' = absPost (efr_TenantId r) (efr_IdempotencyKey r) newID (efr_FlowType r) steps jids v \<and>
          resp = replayResponse newID (completedSteps steps jids)))"

text \<open>The same for a request whose steps were parsed, with \<open>n\<close> identifiers taken before.\<close>

definition flowDone :: "env \<Rightarrow> ExecuteFlowRequest \<Rightarrow> nat \<Rightarrow> ledger_view \<Rightarrow> ExecuteFlowResponse \<Rightarrow>
    ledger_view \<Rightarrow> bool" where
  "flowDone E r n v resp v' \<longleftrightarrow> (\<exists>steps. stepsFromProto (env_D E) (efr_Steps r) = Inr steps \<and>
     flowEffect (env_NewID E n) r steps v resp v')"

lemma flowDone_steps: "flowDone E r n v resp v' \<Longrightarrow> ledger_steps v v'"
  by (cases "v_flow v (efr_TenantId r, efr_IdempotencyKey r)")
    (auto simp: flowDone_def flowEffect_def intro: r_into_rtranclp ledger_step.post)

lemma flowDone_same:
  "flowDone E r n v resp v' \<Longrightarrow> v_account v' = v_account v \<and> v_reservation v' = v_reservation v"
  by (cases "v_flow v (efr_TenantId r, efr_IdempotencyKey r)")
    (auto simp: flowDone_def flowEffect_def absPost_def absBalances_def)

lemma flowDone_flow:
  "flowDone E r n v resp v' \<Longrightarrow>
     v_flow v' (efr_TenantId r, efr_IdempotencyKey r) = Some (efs_FlowRunId resp, FlowCompleted) \<and>
     efs_Status resp = FLOW_STATUS_COMPLETED"
  by (auto simp: flowDone_def flowEffect_def replayResponse_def absPost_def completeFlow_def
    split: option.splits)

lemma flowDone_again:
  "flowDone E r n v resp v' \<Longrightarrow>
     v_flow v (efr_TenantId r, efr_IdempotencyKey r) = Some (fid, st) \<Longrightarrow>
     efs_FlowRunId resp = fid \<and> v' = v"
  by (auto simp: flowDone_def flowEffect_def replayResponse_def)

text \<open>After a flow, doing it again changes nothing and names the same flow.\<close>

lemma flowDone_twice:
  assumes "flowDone E r n v resp v1" and "flowDone E r m v1 resp' v2"
  shows "v2 = v1 \<and> efs_FlowRunId resp' = efs_FlowRunId resp"
proof -
  from flowDone_flow [OF assms(1)] have
    "v_flow v1 (efr_TenantId r, efr_IdempotencyKey r) = Some (efs_FlowRunId resp, FlowCompleted)"
    by simp
  from flowDone_again [OF assms(2) this] show ?thesis by simp
qed

context ledger_tx
begin

lemma startFlow_Inr:
  assumes "inv (w_st w)" and "startFlow E T r steps w = (Inr resp, w')"
  shows "inv (w_st w') \<and> postable (view (w_st w)) (efr_TenantId r) steps \<and>
    (\<exists>jids. length jids = length steps \<and>
      view (w_st w') = absPost (efr_TenantId r) (efr_IdempotencyKey r) (env_NewID E (w_ids w))
        (efr_FlowType r) steps jids (view (w_st w)) \<and>
      resp = replayResponse (env_NewID E (w_ids w)) (completedSteps steps jids))"
proof -
  let ?tn = "efr_TenantId r" and ?fid = "env_NewID E (w_ids w)" and ?v = "view (w_st w)"
  obtain f x0 w0 state0 w1 state results w2 w3 x4 where
    f: "tx_InsertFlowRun T f (w_st w) = (Inr (), x0)" "fr_TenantID f = ?tn"
      "fr_IdempotencyKey f = efr_IdempotencyKey r" "fr_ID f = ?fid" and
    lk: "forE (lockKey T ?tn) (orderedKeys steps) Map.empty w0 = (Inr state0, w1)" and
    w0: "w_st w0 = x0" and
    st: "forE (applyStep E T r ?fid (structToMap (efr_Metadata r))) steps (state0, []) w1 =
      (Inr (state, results), w2)" and
    ps: "forE (persistKey E T ?tn state) (orderedKeys steps) () w2 = (Inr (), w3)" and
    cf: "tx_CompleteFlowRun T ?tn ?fid (w_st w3) = (Inr (), x4)" and w': "w_st w' = x4" and
    resp: "resp = flowRunToResponse ?fid FlowCompleted results"
    using assms(2)
    by (clarsimp simp: startFlow_def Let_def exec_simps)
  let ?ks = "orderedKeys steps"
  from InsertFlowRun [OF assms(1) f(1)] have 0: "inv (w_st w0)"
    "view (w_st w0) = ?v\<lparr>v_flow := (v_flow ?v)((?tn, efr_IdempotencyKey r) \<mapsto> (?fid, FlowRunning))\<rparr>"
    by (simp_all add: w0 f)
  have bal0: "balanceOf (view (w_st w0)) p = balanceOf ?v p" for p
    by (simp add: 0(2) balanceOf_def)
  note lk' = lockLoop_Inr [OF 0(1) lk, unfolded bal0]
  from stepLoop_Inr [OF conjunct1 [OF lk'] st] obtain jids where
    sl: "inv (w_st w2)" "\<forall>st\<in>set steps. Journal_Validate (si_Journal st) = Inr ()"
      "tracks state0 (entriesOf steps) state" "length jids = length steps"
      "map stepInfo results = completedSteps steps jids"
      "view (w_st w2) = absSteps ?tn ?fid (efr_FlowType r) steps jids (view (w_st w1))"
    by (auto simp: completedSteps_def)
  have "\<forall>k\<in>set ?ks. v_balance (view (w_st w2)) (?tn, k) \<noteq> None"
    using lk' by (simp add: sl(6))
  note ps' = persistLoop_Inr [OF sl(1) this ps]
  from CompleteFlowRun [OF conjunct1 [OF ps'] cf] have 4: "inv (w_st w')"
    "view (w_st w') = (view (w_st w3))\<lparr>v_flow := completeFlow ?tn ?fid (v_flow (view (w_st w3)))\<rparr>"
    by (simp_all add: w')
  have key: "\<exists>acc. v_account ?v (?tn, fst k) = Some acc \<and> acc_Status acc = AccountActive \<and>
      acc_Currency acc = snd k \<and> state k = Some \<lparr>bst_acct = acc,
        bst_postedDebits = fst (balanceOf ?v (?tn, k)) + debitsOf k (entriesOf steps),
        bst_postedCredits = snd (balanceOf ?v (?tn, k)) + creditsOf k (entriesOf steps)\<rparr>"
    if "k \<in> set ?ks" for k
  proof -
    from lk' that obtain acc where "v_account ?v (?tn, fst k) = Some acc" "acc_Status acc = AccountActive"
      "acc_Currency acc = snd k" "state0 k = Some \<lparr>bst_acct = acc,
        bst_postedDebits = fst (balanceOf ?v (?tn, k)), bst_postedCredits = snd (balanceOf ?v (?tn, k))\<rparr>"
      by (auto simp: 0(2))
    with sl(3) show ?thesis by (simp add: tracks_def addEntries_def del: split_paired_All)
  qed
  have "postable ?v ?tn steps"
    unfolding postable_def
  proof (intro conjI sl(2) ballI)
    fix k assume "k \<in> entryKey ` set (entriesOf steps)"
    then have k: "k \<in> set ?ks" by (simp add: orderedKeys_spec)
    from key [OF k] ps' k show "\<exists>acc. v_account ?v (?tn, fst k) = Some acc \<and>
        acc_Status acc = AccountActive \<and> acc_Currency acc = snd k \<and>
        \<not> overdrawn acc (fst (balanceOf ?v (?tn, k)) + debitsOf k (entriesOf steps),
          snd (balanceOf ?v (?tn, k)) + creditsOf k (entriesOf steps))"
      by fastforce
  qed
  moreover have "view (w_st w') = absPost ?tn (efr_IdempotencyKey r) ?fid (efr_FlowType r) steps jids ?v"
  proof -
    have "view (w_st w1) = ?v\<lparr>v_balance := v_balance (view (w_st w1)),
        v_flow := (v_flow ?v)((?tn, efr_IdempotencyKey r) \<mapsto> (?fid, FlowRunning))\<rparr>"
      using lk' by (simp add: 0(2))
    then have 2: "view (w_st w2) = (absSteps ?tn ?fid (efr_FlowType r) steps jids ?v)
        \<lparr>v_balance := v_balance (view (w_st w1)),
         v_flow := (v_flow ?v)((?tn, efr_IdempotencyKey r) \<mapsto> (?fid, FlowRunning))\<rparr>"
      using absSteps_balance_flow [OF sl(4)] sl(6) by metis
    have v2: "v_balance (view (w_st w2)) = v_balance (view (w_st w1))" by (simp add: 2)
    have bal: "(\<lambda>p. if fst p = ?tn \<and> snd p \<in> set ?ks
        then map_option (\<lambda>bs. (bst_postedDebits bs, bst_postedCredits bs)) (state (snd p))
        else v_balance (view (w_st w1)) p) =
      (\<lambda>p. if fst p = ?tn \<and> snd p \<in> entryKey ` set (entriesOf steps)
       then Some (fst (balanceOf ?v p) + debitsOf (snd p) (entriesOf steps),
         snd (balanceOf ?v p) + creditsOf (snd p) (entriesOf steps))
       else v_balance ?v p)"
    proof (rule ext)
      fix p
      show "(if fst p = ?tn \<and> snd p \<in> set ?ks
          then map_option (\<lambda>bs. (bst_postedDebits bs, bst_postedCredits bs)) (state (snd p))
          else v_balance (view (w_st w1)) p) =
        (if fst p = ?tn \<and> snd p \<in> entryKey ` set (entriesOf steps)
         then Some (fst (balanceOf ?v p) + debitsOf (snd p) (entriesOf steps),
           snd (balanceOf ?v p) + creditsOf (snd p) (entriesOf steps))
         else v_balance ?v p)"
        using key [of "snd p"] lk' by (cases p) (auto simp: orderedKeys_spec 0(2))
    qed
    have "view (w_st w3) = (absSteps ?tn ?fid (efr_FlowType r) steps jids ?v)
        \<lparr>v_flow := (v_flow ?v)((?tn, efr_IdempotencyKey r) \<mapsto> (?fid, FlowRunning)),
         v_balance := (\<lambda>p. if fst p = ?tn \<and> snd p \<in> entryKey ` set (entriesOf steps)
           then Some (fst (balanceOf ?v p) + debitsOf (snd p) (entriesOf steps),
             snd (balanceOf ?v p) + creditsOf (snd p) (entriesOf steps))
           else v_balance ?v p)\<rparr>"
      using ps' [unfolded v2 bal] by (simp add: 2)
    then show ?thesis
      by (simp add: 4(2) absPost_def absBalances_def cong: if_cong)
  qed
  ultimately show ?thesis
    using 4(1) sl(4,5) resp by (auto simp: flowRunToResponse_replay)
qed

lemma executeFlowInTx_Inr:
  assumes "inv (w_st w)" and "executeFlowInTx E T r w = (Inr resp, w')"
  shows "inv (w_st w') \<and> flowDone E r (w_ids w) (view (w_st w)) resp (view (w_st w'))"
proof -
  obtain steps fo x where st: "stepsFromProto (env_D E) (efr_Steps r) = Inr steps" and
    g: "tx_GetFlowByIdempotency T (efr_TenantId r) (efr_IdempotencyKey r) (w_st w) = (Inr fo, x)" and
    b: "(case fo of Some f \<Rightarrow> replayFlow T (efr_TenantId r) f | None \<Rightarrow> startFlow E T r steps)
      (w\<lparr>w_st := x\<rparr>) = (Inr resp, w')"
    using assms(2) by (auto simp: executeFlowInTx_def exec_simps)
  from GetFlowByIdempotency [OF assms(1) g] have x: "inv x" "view x = view (w_st w)"
    "v_flow (view (w_st w)) (efr_TenantId r, efr_IdempotencyKey r) =
      map_option (\<lambda>f. (fr_ID f, fr_Status f)) fo"
    by auto
  show ?thesis
  proof (cases fo)
    case None
    with startFlow_Inr [of "w\<lparr>w_st := x\<rparr>" E r steps resp w'] b x st show ?thesis
      by (auto simp: flowDone_def flowEffect_def)
  next
    case (Some f)
    with b obtain ss x2 where c: "fr_Status f = FlowCompleted"
        "tx_GetFlowSteps T (efr_TenantId r) (fr_ID f) x = (Inr ss, x2)" "w_st w' = x2"
        "resp = flowRunToResponse (fr_ID f) (fr_Status f) ss"
      by (auto simp: replayFlow_def exec_simps split: if_splits)
    from GetFlowSteps [OF x(1) c(2)] c x st Some show ?thesis
      by (auto simp: flowDone_def flowEffect_def flowRunToResponse_replay intro!: exI [of _ "map stepInfo ss"])
  qed
qed

end

context ledger_tx
begin

lemma insertEvent_Inr:
  "inv (w_st w) \<Longrightarrow> insertEvent E T tn ag et key pl w = (Inr u, w') \<Longrightarrow>
     inv (w_st w') \<and> view (w_st w') = (view (w_st w))\<lparr>v_outbox :=
       v_outbox (view (w_st w)) @ [(tn, ag, et, key)]\<rparr>"
  by (auto simp: insertEvent_def exec_simps dest!: InsertOutbox [rotated])

end

section \<open>Safe requests\<close>

text \<open>A request is safe when, from a ledger that satisfies the invariant, it ends in one that is
  reached by steps of the abstract ledger, whatever it returns. Safety is compositional.\<close>

named_theorems safe_intros \<open>safety of the requests of the service\<close>

definition safe :: "('s \<Rightarrow> bool) \<Rightarrow> ('s \<Rightarrow> ledger_view) \<Rightarrow> ('s world, 'e, 'a) exec \<Rightarrow> bool" where
  "safe sinv sview m \<longleftrightarrow> (\<forall>w r w'. sinv (w_st w) \<longrightarrow> ledger_inv (sview (w_st w)) \<longrightarrow> m w = (r, w') \<longrightarrow>
     sinv (w_st w') \<and> ledger_steps (sview (w_st w)) (sview (w_st w')))"

lemma safeD:
  "safe sinv sview m \<Longrightarrow> sinv (w_st w) \<Longrightarrow> ledger_inv (sview (w_st w)) \<Longrightarrow> m w = (r, w') \<Longrightarrow>
     sinv (w_st w') \<and> ledger_steps (sview (w_st w)) (sview (w_st w'))"
  by (auto simp: safe_def)

lemma safe_ret [safe_intros]: "safe sinv sview (ret a)"
  by (auto simp: safe_def ret_def)

lemma safe_throwE [safe_intros]: "safe sinv sview (throwE e)"
  by (auto simp: safe_def throwE_def)

lemma safe_Now [safe_intros]: "safe sinv sview (Now E)"
  by (auto simp: safe_def Now_def)

lemma safe_NewID [safe_intros]: "safe sinv sview (NewID E)"
  by (auto simp: safe_def NewID_def)

lemma safe_mapErr [safe_intros]: "safe sinv sview m \<Longrightarrow> safe sinv sview (mapErr f m)"
  by (auto simp: safe_def mapErr_def split: prod.splits sum.splits)

lemma safe_bindE [safe_intros]:
  assumes "safe sinv sview m" and "\<And>a. safe sinv sview (f a)"
  shows "safe sinv sview (bindE m f)"
  unfolding safe_def
proof (intro allI impI)
  fix w r w'
  assume w: "sinv (w_st w)" "ledger_inv (sview (w_st w))" "bindE m f w = (r, w')"
  obtain r1 w1 where m: "m w = (r1, w1)" by (cases "m w")
  note 1 = safeD [OF assms(1) w(1,2) m]
  show "sinv (w_st w') \<and> ledger_steps (sview (w_st w)) (sview (w_st w'))"
  proof (cases r1)
    case (Inl e)
    with w(3) m 1 show ?thesis by (simp add: bindE_def)
  next
    case (Inr a)
    with w(3) m have "f a w1 = (r, w')" by (simp add: bindE_def)
    from safeD [OF assms(2) _ _ this] 1 ledger_steps_inv [OF _ w(2)] show ?thesis
      by (meson rtranclp_trans)
  qed
qed

lemma safe_thenE [safe_intros]:
  "safe sinv sview m \<Longrightarrow> safe sinv sview n \<Longrightarrow> safe sinv sview (thenE m n)"
  by (simp add: thenE_def safe_bindE)

lemma safe_forE [safe_intros]:
  "(\<And>x acc. safe sinv sview (f x acc)) \<Longrightarrow> safe sinv sview (forE f xs acc)"
  by (induction xs arbitrary: acc) (auto intro: safe_intros)

lemma safe_catchE [safe_intros]: "safe sinv sview m \<Longrightarrow> safe sinv sview (catchE m)"
  by (auto simp: safe_def catchE_def split: prod.splits sum.splits)

lemma safe_case_prod [safe_intros]:
  "(\<And>a b. safe sinv sview (f a b)) \<Longrightarrow> safe sinv sview (case p of (a, b) \<Rightarrow> f a b)"
  by (cases p) simp

lemma safe_keeps [safe_intros]: "keeps sinv sview m \<Longrightarrow> safe sinv sview (inSt m)"
  by (fastforce simp: safe_def keeps_def inSt_def split: prod.splits)

section \<open>Transactions\<close>

context ledger_store
begin

lemma begin_same:
  "sinv s \<Longrightarrow> st_BeginFlowTx S s = (r, s') \<Longrightarrow> sinv s' \<and> sview s' = sview s"
  using BeginFlowTx_Inl BeginFlowTx_Inr by (cases r) blast+

lemma runTx_Inl:
  assumes "sinv (w_st w)" and "runTx S body w = (Inl e, w')"
  shows "sinv (w_st w') \<and> sview (w_st w') = sview (w_st w)"
proof -
  obtain r s1 where b: "st_BeginFlowTx S (w_st w) = (r, s1)" by (cases "st_BeginFlowTx S (w_st w)")
  note 1 = begin_same [OF assms(1) b]
  have "sinv s2 \<and> sview s2 = sview s1" if "st_Commit S t s1 = (Inl e', s2)" for t e' s2
    using Commit_Inl [OF conjunct1 [OF 1] that] .
  with assms(2) b 1 Rollback show ?thesis
    by (auto simp: runTx_def split: prod.splits sum.splits)
qed

text \<open>What the body does to the view of its transaction, the handler does to the store.\<close>

lemma runTx_Inr:
  assumes "sinv (w_st w)" and "runTx S body w = (Inr a, w')"
    and "\<And>s w1 w2. tinv s (w_st w1) \<Longrightarrow> body w1 = (Inr a, w2) \<Longrightarrow>
      tinv s (w_st w2) \<and> Q (w_ids w1) (view (w_st w1)) a (view (w_st w2))"
  shows "sinv (w_st w') \<and> Q (w_ids w) (sview (w_st w)) a (sview (w_st w'))"
proof -
  let ?w1 = "\<lambda>t. \<lparr>w_st = t, w_ids = w_ids w, w_ticks = w_ticks w\<rparr>"
  obtain t s1 wt u s2 where
    b: "st_BeginFlowTx S (w_st w) = (Inr t, s1)" and m: "body (?w1 t) = (Inr a, wt)" and
    c: "st_Commit S (w_st wt) s1 = (Inr u, s2)" "w_st w' = s2"
    using assms(2) by (auto simp: runTx_def split: prod.splits sum.splits)
  from BeginFlowTx_Inr [OF assms(1) b] have 1: "sinv s1" "tinv s1 t" "view t = sview (w_st w)"
    by auto
  from assms(3) [of s1 "?w1 t" wt] 1 m
  have "tinv s1 (w_st wt)" "Q (w_ids w) (sview (w_st w)) a (view (w_st wt))" by auto
  with Commit_Inr [OF 1(1) _ c(1)] c(2) show ?thesis by simp
qed

lemma runTx_steps:
  assumes "sinv (w_st w)" and "runTx S body w = (r, w')" and "C (sview (w_st w))"
    and "\<And>s w1 w2 a. tinv s (w_st w1) \<Longrightarrow> body w1 = (Inr a, w2) \<Longrightarrow>
      tinv s (w_st w2) \<and> (C (view (w_st w1)) \<longrightarrow> ledger_steps (view (w_st w1)) (view (w_st w2)))"
  shows "sinv (w_st w') \<and> ledger_steps (sview (w_st w)) (sview (w_st w'))"
proof (cases r)
  case (Inl e)
  with runTx_Inl [OF assms(1)] assms(2) show ?thesis by auto
next
  case (Inr a)
  with assms(2) have "runTx S body w = (Inr a, w')" by simp
  from runTx_Inr [where Q = "\<lambda>n v a v'. C v \<longrightarrow> ledger_steps v v'", OF assms(1) this assms(4)] assms(3)
  show ?thesis by simp
qed

text \<open>A transaction is safe when its body is, from a view that satisfies the invariant.\<close>

lemma runTx_safe:
  assumes "\<And>s w1 w2 a. tinv s (w_st w1) \<Longrightarrow> body w1 = (Inr a, w2) \<Longrightarrow>
      tinv s (w_st w2) \<and> (ledger_inv (view (w_st w1)) \<longrightarrow> ledger_steps (view (w_st w1)) (view (w_st w2)))"
  shows "safe sinv sview (runTx S body)"
  unfolding safe_def
proof (intro allI impI)
  fix w r w'
  assume w: "sinv (w_st w)" "ledger_inv (sview (w_st w))" "runTx S body w = (r, w')"
  show "sinv (w_st w') \<and> ledger_steps (sview (w_st w)) (sview (w_st w'))"
    by (rule runTx_steps [where C = ledger_inv, OF w(1,3,2)]) (rule assms)
qed

lemma inSt_keeps:
  assumes "keeps sinv sview m" and "sinv (w_st w)" and "inSt m w = (r, w')"
  shows "sinv (w_st w') \<and> sview (w_st w') = sview (w_st w) \<and> w_ids w' = w_ids w"
  using assms keepsD [OF assms(1,2)] by (auto simp: inSt_def split: prod.splits)

lemma runInTx_Inl:
  assumes "sinv (w_st w)" and "runInTx S body w = (Inl e, w')"
  shows "sinv (w_st w') \<and> sview (w_st w') = sview (w_st w)"
proof -
  obtain r s1 where b: "st_BeginFlowTx S (w_st w) = (r, s1)" by (cases "st_BeginFlowTx S (w_st w)")
  note 1 = begin_same [OF assms(1) b]
  have "sinv s2 \<and> sview s2 = sview s1" if "st_Commit S t s1 = (Inl e', s2)" for t e' s2
    using Commit_Inl [OF conjunct1 [OF 1] that] .
  with assms(2) b 1 Rollback show ?thesis
    by (auto simp: runInTx_def split: prod.splits sum.splits)
qed

lemma runInTx_runTx: "runInTx S body w = (Inr (), w') \<Longrightarrow> runTx S body w = (Inr (), w')"
  by (auto simp: runInTx_def runTx_def split: prod.splits sum.splits)

lemma ExecuteFlow_Inl:
  "sinv (w_st w) \<Longrightarrow> ExecuteFlow E S r w = (Inl e, w') \<Longrightarrow>
     sinv (w_st w') \<and> sview (w_st w') = sview (w_st w)"
  by (auto simp: ExecuteFlow_def exec_simps dest: runTx_Inl)

lemma ExecuteFlow_Inr:
  assumes "sinv (w_st w)" and "ExecuteFlow E S r w = (Inr resp, w')"
  shows "sinv (w_st w') \<and> flowDone E r (w_ids w) (sview (w_st w)) resp (sview (w_st w'))"
proof -
  have "runTx S (executeFlowInTx E (st_Tx S) r) w = (Inr resp, w')"
    using assms(2) by (simp add: ExecuteFlow_def exec_simps)
  from runTx_Inr [where Q = "flowDone E r", OF assms(1) this tx.executeFlowInTx_Inr]
  show ?thesis .
qed

lemma ExecuteFlow_safe [safe_intros]: "safe sinv sview (ExecuteFlow E S r)"
  unfolding ExecuteFlow_def
  by (rule safe_intros, rule runTx_safe)
    (auto dest!: tx.executeFlowInTx_Inr [rotated] flowDone_steps)

lemma PostJournal_safe [safe_intros]: "safe sinv sview (PostJournal E S r)"
  by (auto simp: PostJournal_def intro!: safe_intros)

lemma GetFlow_safe [safe_intros]: "safe sinv sview (Flow.GetFlow S tn fid)"
  by (auto simp: Flow.GetFlow_def split: option.splits intro!: safe_intros GetFlow)

end

end
