(* ===== verification/Accounts.thy ===== *)
theory Accounts
  imports Flow_Correct
begin

text \<open>
  Accounts: \<open>create_account.go\<close> and \<open>get_account.go\<close>. The identifier of an account is built
  from its owner, type and currency; \<open>CreateAccount\<close> is one insert in a transaction of its
  own, which the abstract ledger sees as one \<open>create_account\<close> step.
\<close>

definition normalBalanceFromProto :: "enum \<Rightarrow> NormalBalance" where
  "normalBalanceFromProto p = (if p = NORMAL_BALANCE_CREDIT then NormalCredit else NormalDebit)"

definition accountToProto :: "Account \<Rightarrow> AccountMsg" where
  "accountToProto a = \<lparr>am_Id = acc_ID a, am_TenantId = acc_TenantID a,
     am_OwnerType = acc_OwnerType a, am_OwnerId = acc_OwnerID a,
     am_AccountType = acc_AccountType a, am_Currency = acc_Currency a,
     am_NormalBalance = (if acc_NormalBalance a = NormalCredit then NORMAL_BALANCE_CREDIT
       else NORMAL_BALANCE_DEBIT),
     am_AllowNegative = acc_AllowNegative a,
     am_Status = (if acc_Status a = AccountFrozen then ACCOUNT_STATUS_FROZEN
       else if acc_Status a = AccountClosed then ACCOUNT_STATUS_CLOSED
       else ACCOUNT_STATUS_ACTIVE),
     am_CreatedAt = acc_CreatedAt a\<rparr>"

definition accountID :: "CreateAccountRequest \<Rightarrow> string" where
  "accountID r = car_OwnerType r @ '':'' @ car_OwnerId r @ '':'' @ car_AccountType r @ '':'' @
     car_Currency r"

definition newAccount :: "CreateAccountRequest \<Rightarrow> NormalBalance \<Rightarrow> time \<Rightarrow> Account" where
  "newAccount r nb now = \<lparr>acc_ID = accountID r, acc_TenantID = car_TenantId r,
     acc_OwnerType = car_OwnerType r, acc_OwnerID = car_OwnerId r,
     acc_AccountType = car_AccountType r, acc_Currency = car_Currency r,
     acc_NormalBalance = nb, acc_AllowNegative = car_AllowNegative r,
     acc_Status = AccountActive, acc_CreatedAt = now\<rparr>"

definition CreateAccount :: "env \<Rightarrow> ('s, 't) store_ops \<Rightarrow> CreateAccountRequest \<Rightarrow>
    ('s world, connect_error, AccountMsg) exec" where
  "CreateAccount E S r =
     (let nb = normalBalanceFromProto (car_NormalBalance r) in
      if \<not> NormalBalance_Valid nb
      then throwE (ToConnectError (DomainError CodeInvalidAccountStatus ''invalid normal_balance''))
      else bindE (Now E) (\<lambda>now.
        let a = newAccount r nb now in
        thenE (mapErr ToConnectError (runInTx S (inSt (tx_InsertAccount (st_Tx S) a))))
          (ret (accountToProto a))))"

definition GetAccount :: "('s, 't) store_ops \<Rightarrow> string \<Rightarrow> string \<Rightarrow>
    ('s world, connect_error, AccountMsg) exec" where
  "GetAccount S tn a =
     bindE (mapErr ToConnectError (inSt (st_GetAccount S tn a))) (\<lambda>acc. ret (accountToProto acc))"

lemma normalBalanceFromProto_Valid [simp]: "NormalBalance_Valid (normalBalanceFromProto p)"
  by (simp add: normalBalanceFromProto_def NormalBalance_Valid_def)

context ledger_store
begin

lemma CreateAccount_Inl:
  "sinv (w_st w) \<Longrightarrow> CreateAccount E S r w = (Inl e, w') \<Longrightarrow>
     sinv (w_st w') \<and> sview (w_st w') = sview (w_st w)"
  by (auto simp: CreateAccount_def Let_def exec_simps dest!: runInTx_Inl [rotated])

lemma CreateAccount_Inr:
  assumes "sinv (w_st w)" and "CreateAccount E S r w = (Inr msg, w')"
  shows "sinv (w_st w') \<and> v_account (sview (w_st w)) (car_TenantId r, accountID r) = None \<and>
    (\<exists>now ct. msg = accountToProto (newAccount r (normalBalanceFromProto (car_NormalBalance r)) now) \<and>
      sview (w_st w') = (sview (w_st w))\<lparr>v_account := (v_account (sview (w_st w)))
        ((car_TenantId r, accountID r) \<mapsto>
           newAccount r (normalBalanceFromProto (car_NormalBalance r)) ct)\<rparr>)"
proof -
  let ?nb = "normalBalanceFromProto (car_NormalBalance r)" and ?now = "env_Now E (w_ticks w)"
  let ?a = "newAccount r ?nb ?now"
  have msg: "msg = accountToProto ?a" and
    run: "runTx S (inSt (tx_InsertAccount (st_Tx S) ?a)) (w\<lparr>w_ticks := Suc (w_ticks w)\<rparr>) = (Inr (), w')"
    using assms(2) by (auto simp: CreateAccount_def Let_def exec_simps intro: runInTx_runTx)
  let ?Q = "\<lambda>n v u v'. v_account v (car_TenantId r, accountID r) = None \<and>
    (\<exists>ct. v' = v\<lparr>v_account := (v_account v)((car_TenantId r, accountID r) \<mapsto> newAccount r ?nb ct)\<rparr>)"
  have "tinv s (w_st w2) \<and> ?Q (w_ids w1) (view (w_st w1)) () (view (w_st w2))"
    if "tinv s (w_st w1)" "inSt (tx_InsertAccount (st_Tx S) ?a) w1 = (Inr (), w2)" for s w1 w2
    using that tx.InsertAccount [OF that(1), of ?a "()" "w_st w2"]
    by (auto simp: exec_simps newAccount_def)
  with runTx_Inr [OF _ run, of ?Q] assms(1) msg show ?thesis by auto
qed

lemma CreateAccount_safe [safe_intros]: "safe sinv sview (CreateAccount E S r)"
  unfolding safe_def
proof (intro allI impI)
  fix w res w'
  assume w: "sinv (w_st w)" "CreateAccount E S r w = (res, w')"
  show "sinv (w_st w') \<and> ledger_steps (sview (w_st w)) (sview (w_st w'))"
  proof (cases res)
    case (Inl e)
    with CreateAccount_Inl [OF w(1)] w(2) show ?thesis by auto
  next
    case (Inr msg)
    with CreateAccount_Inr [OF w(1)] w(2) obtain ct where
      "sinv (w_st w')" "v_account (sview (w_st w)) (car_TenantId r, accountID r) = None"
      "sview (w_st w') = (sview (w_st w))\<lparr>v_account := (v_account (sview (w_st w)))
        ((car_TenantId r, accountID r) \<mapsto>
           newAccount r (normalBalanceFromProto (car_NormalBalance r)) ct)\<rparr>"
      by blast
    with ledger_step.create_account [of "sview (w_st w)"
        "newAccount r (normalBalanceFromProto (car_NormalBalance r)) ct"]
    show ?thesis by (auto simp: newAccount_def intro: r_into_rtranclp)
  qed
qed

lemma GetAccount_safe [safe_intros]: "safe sinv sview (Accounts.GetAccount S tn a)"
  by (auto simp: Accounts.GetAccount_def intro!: safe_intros GetAccount)

end

end
