(* ===== verification/Reservations.thy ===== *)
theory Reservations
  imports Flow_Correct
begin

text \<open>
  Reservations: \<open>create_reservation.go\<close>, \<open>commit_reservation.go\<close>, \<open>release_reservation.go\<close>,
  \<open>expire_reservation.go\<close>, \<open>get_reservation.go\<close>, \<open>list_reservations.go\<close> and
  \<open>reservation_helpers.go\<close>.

  A reservation is a row next to the ledger: each operation moves money by an inner flow with
  a derived idempotency key and then rewrites the row in the same transaction. Every
  operation is a sequence of abstract steps (\<open>post\<close>, then \<open>hold\<close>, \<open>commit\<close>, \<open>release\<close> or
  \<open>expire\<close>, then \<open>notify\<close>); \<open>createEffect\<close>, \<open>commitEffect\<close>, \<open>releaseEffect\<close> and
  \<open>expireEffect\<close> state the exact effects.
\<close>

section \<open>The operations\<close>

definition reservationToProto :: "env \<Rightarrow> Reservation \<Rightarrow> ReservationMsg" where
  "reservationToProto E r = (let str = dl_String (env_D E) in
     \<lparr>rm_Id = res_ID r, rm_TenantId = res_TenantID r, rm_Status = res_Status r,
      rm_SourceAccountId = res_SourceAccountID r, rm_ReservedAccountId = res_ReservedAccountID r,
      rm_Currency = res_Currency r, rm_OriginalAmount = str (res_OriginalAmount r),
      rm_OutstandingAmount = str (res_OutstandingAmount r),
      rm_CommittedAmount = str (res_CommittedAmount r),
      rm_ReleasedAmount = str (res_ReleasedAmount r),
      rm_ExpiresAt = res_ExpiresAt r, rm_CreatedAt = res_CreatedAt r,
      rm_UpdatedAt = res_UpdatedAt r, rm_FlowRunId = res_FlowRunID r\<rparr>)"

text \<open>The inner flow of the four operations: one step with one journal that debits one account
  and credits another. Tenants, actors, steps, events and accounts are named by identifiers.\<close>

type_synonym ident = string

definition transferFlow :: "ident \<Rightarrow> string \<Rightarrow> string \<Rightarrow> string \<Rightarrow> ident \<Rightarrow> ident \<Rightarrow> ident \<Rightarrow>
    ident \<Rightarrow> ident \<Rightarrow> string \<Rightarrow> string \<Rightarrow> ExecuteFlowRequest" where
  "transferFlow tn flowType key svc actor stepID eventID debitAcct creditAcct ccy amount =
     \<lparr>efr_TenantId = tn, efr_FlowType = flowType, efr_IdempotencyKey = key,
      efr_SourceService = svc, efr_ActorId = actor,
      efr_Steps = [\<lparr>sm_StepId = stepID, sm_Journal = Some \<lparr>jm_EventId = eventID,
        jm_Entries = [
          \<lparr>em_AccountId = debitAcct, em_Currency = ccy, em_Direction = DIRECTION_DEBIT,
           em_Amount = amount\<rparr>,
          \<lparr>em_AccountId = creditAcct, em_Currency = ccy, em_Direction = DIRECTION_CREDIT,
           em_Amount = amount\<rparr>]\<rparr>\<rparr>],
      efr_Metadata = None\<rparr>"

definition createFlow :: "CreateReservationRequest \<Rightarrow> ExecuteFlowRequest" where
  "createFlow r = transferFlow (crr_TenantId r) ''CREATE_RESERVATION''
     (crr_IdempotencyKey r @ '':create'') (crr_SourceService r) (crr_ActorId r) ''reserve''
     (crr_IdempotencyKey r @ '':reserve'') (crr_ReservedAccountId r) (crr_SourceAccountId r)
     (crr_Currency r) (crr_Amount r)"

definition newReservation :: "CreateReservationRequest \<Rightarrow> decimal \<Rightarrow> string \<Rightarrow> string \<Rightarrow> time \<Rightarrow> time \<Rightarrow>
    Reservation" where
  "newReservation r amount rid flowRunID createdAt updatedAt =
     \<lparr>res_ID = rid, res_TenantID = crr_TenantId r, res_IdempotencyKey = crr_IdempotencyKey r,
      res_SourceAccountID = crr_SourceAccountId r,
      res_ReservedAccountID = crr_ReservedAccountId r, res_Currency = crr_Currency r,
      res_OriginalAmount = amount, res_OutstandingAmount = amount, res_CommittedAmount = 0,
      res_ReleasedAmount = 0, res_Status = ReservationHeld, res_ExpiresAt = crr_ExpiresAt r,
      res_FlowRunID = flowRunID, res_Metadata = structToMap (crr_Metadata r),
      res_CreatedAt = createdAt, res_UpdatedAt = updatedAt\<rparr>"

definition createReservationInTx :: "env \<Rightarrow> 't tx_ops \<Rightarrow> CreateReservationRequest \<Rightarrow> decimal \<Rightarrow>
    ('t world, error, Reservation) exec" where
  "createReservationInTx E T r amount =
     bindE (inSt (tx_GetReservationByIdempotency T (crr_TenantId r) (crr_IdempotencyKey r))) (\<lambda>existing.
       case existing of
         Some x \<Rightarrow> ret x
       | None \<Rightarrow>
           bindE (executeFlowInTx E T (createFlow r)) (\<lambda>flowResp.
           bindE (NewID E) (\<lambda>rid. bindE (Now E) (\<lambda>createdAt. bindE (Now E) (\<lambda>updatedAt.
           let res = newReservation r amount rid (efs_FlowRunId flowResp) createdAt updatedAt in
           thenE (inSt (tx_InsertReservation T res))
           (thenE (insertEvent E T (res_TenantID res) rid ''RESERVATION_CREATED'' (rid @ '':created'')
              (JObj [(''amount'', JStr (dl_String (env_D E) amount)),
                (''currency'', JStr (res_Currency res)), (''reservation_id'', JStr rid)]))
            (ret res)))))))"

definition CreateReservation :: "env \<Rightarrow> ('s, 't) store_ops \<Rightarrow> CreateReservationRequest \<Rightarrow>
    ('s world, connect_error, ReservationMsg) exec" where
  "CreateReservation E S r =
     (case ParseAmount (env_D E) (crr_Amount r) of
        Inl err \<Rightarrow> throwE (ToConnectError
          (DomainError CodeReservationAmountExceeds (Error_string err)))
      | Inr amount \<Rightarrow>
          bindE (mapErr ToConnectError (runTx S (createReservationInTx E (st_Tx S) r amount))) (\<lambda>res.
            ret (reservationToProto E res)))"

text \<open>The check shared by commit and release, on the locked row.\<close>

definition lockOpen :: "env \<Rightarrow> 't tx_ops \<Rightarrow> string \<Rightarrow> string \<Rightarrow> decimal \<Rightarrow>
    ('t world, error, Reservation) exec" where
  "lockOpen E T tn rid amount =
     bindE (inSt (tx_LockReservation T tn rid)) (\<lambda>res.
       if ReservationStatus_Closed (res_Status res)
       then throwE (DomainError CodeReservationClosed (''status='' @ res_Status res))
       else if res_OutstandingAmount res < amount
       then throwE (DomainError CodeReservationAmountExceeds
         (''amount='' @ dl_String (env_D E) amount @ '' outstanding='' @
          dl_String (env_D E) (res_OutstandingAmount res)))
       else ret res)"

definition saveReservation :: "'t tx_ops \<Rightarrow> string \<Rightarrow> Reservation \<Rightarrow> ('t world, error, unit) exec" where
  "saveReservation T tn res = inSt (tx_UpdateReservationAmounts T tn (res_ID res)
     (res_OutstandingAmount res) (res_CommittedAmount res) (res_ReleasedAmount res)
     (res_Status res))"

definition commitFlow :: "env \<Rightarrow> CommitReservationRequest \<Rightarrow> Reservation \<Rightarrow> string \<Rightarrow> decimal \<Rightarrow>
    ExecuteFlowRequest" where
  "commitFlow E r res dst amount = transferFlow (cmr_TenantId r) ''COMMIT_RESERVATION''
     (res_ID res @ '':commit:'' @ cmr_IdempotencyKey r) (cmr_SourceService r) (cmr_ActorId r)
     ''commit'' (res_ID res @ '':commit:'' @ cmr_IdempotencyKey r) dst
     (res_ReservedAccountID res) (res_Currency res) (dl_String (env_D E) amount)"

definition commitAmounts :: "Reservation \<Rightarrow> decimal \<Rightarrow> time \<Rightarrow> Reservation" where
  "commitAmounts res amount now = (let rest = res_OutstandingAmount res - amount in
     res\<lparr>res_OutstandingAmount := rest, res_CommittedAmount := res_CommittedAmount res + amount,
       res_UpdatedAt := now,
       res_Status := (if rest = 0 then ReservationCommitted else ReservationPartial)\<rparr>)"

definition commitReservationInTx :: "env \<Rightarrow> 't tx_ops \<Rightarrow> CommitReservationRequest \<Rightarrow> decimal \<Rightarrow>
    ('t world, error, Reservation) exec" where
  "commitReservationInTx E T r amount =
     bindE (lockOpen E T (cmr_TenantId r) (cmr_ReservationId r) amount) (\<lambda>res.
     bindE (inSt (tx_GetAccount T (cmr_TenantId r) (cmr_DestinationAccountId r))) (\<lambda>dst.
       if acc_Currency dst \<noteq> res_Currency res
       then throwE (DomainError CodeReservationCurrencyMismatch
         (''destination '' @ acc_ID dst @ '' currency='' @ acc_Currency dst @ '' reservation='' @
          res_Currency res))
       else
         bindE (executeFlowInTx E T (commitFlow E r res (acc_ID dst) amount)) (\<lambda>flowResp.
         bindE (Now E) (\<lambda>updatedAt.
         let res' = commitAmounts res amount updatedAt in
         thenE (saveReservation T (cmr_TenantId r) res')
         (thenE (insertEvent E T (res_TenantID res') (res_ID res') ''RESERVATION_COMMITTED''
            (res_ID res' @ '':committed:'' @ cmr_IdempotencyKey r)
            (JObj [(''amount'', JStr (dl_String (env_D E) amount)),
              (''outstanding'', JStr (dl_String (env_D E) (res_OutstandingAmount res'))),
              (''reservation_id'', JStr (res_ID res')), (''status'', JStr (res_Status res'))]))
          (ret res'))))))"

definition CommitReservation :: "env \<Rightarrow> ('s, 't) store_ops \<Rightarrow> CommitReservationRequest \<Rightarrow>
    ('s world, connect_error, ReservationMsg) exec" where
  "CommitReservation E S r =
     (case ParseAmount (env_D E) (cmr_Amount r) of
        Inl err \<Rightarrow> throwE (ToConnectError
          (DomainError CodeReservationAmountExceeds (Error_string err)))
      | Inr amount \<Rightarrow>
          bindE (mapErr ToConnectError (runTx S (commitReservationInTx E (st_Tx S) r amount))) (\<lambda>res.
            ret (reservationToProto E res)))"

definition releaseFlow :: "env \<Rightarrow> ReleaseReservationRequest \<Rightarrow> Reservation \<Rightarrow> decimal \<Rightarrow>
    ExecuteFlowRequest" where
  "releaseFlow E r res amount = transferFlow (rlr_TenantId r) ''RELEASE_RESERVATION''
     (res_ID res @ '':release:'' @ rlr_IdempotencyKey r) (rlr_SourceService r) (rlr_ActorId r)
     ''release'' (res_ID res @ '':release:'' @ rlr_IdempotencyKey r) (res_SourceAccountID res)
     (res_ReservedAccountID res) (res_Currency res) (dl_String (env_D E) amount)"

definition releaseAmounts :: "Reservation \<Rightarrow> decimal \<Rightarrow> time \<Rightarrow> Reservation" where
  "releaseAmounts res amount now = (let rest = res_OutstandingAmount res - amount in
     res\<lparr>res_OutstandingAmount := rest, res_ReleasedAmount := res_ReleasedAmount res + amount,
       res_UpdatedAt := now,
       res_Status := (if rest = 0 then ReservationReleased else ReservationPartial)\<rparr>)"

definition releaseReservationInTx :: "env \<Rightarrow> 't tx_ops \<Rightarrow> ReleaseReservationRequest \<Rightarrow> decimal \<Rightarrow>
    ('t world, error, Reservation) exec" where
  "releaseReservationInTx E T r amount =
     bindE (lockOpen E T (rlr_TenantId r) (rlr_ReservationId r) amount) (\<lambda>res.
     bindE (executeFlowInTx E T (releaseFlow E r res amount)) (\<lambda>flowResp.
     bindE (Now E) (\<lambda>updatedAt.
     let res' = releaseAmounts res amount updatedAt in
     thenE (saveReservation T (rlr_TenantId r) res')
     (thenE (insertEvent E T (res_TenantID res') (res_ID res') ''RESERVATION_RELEASED''
        (res_ID res' @ '':released:'' @ rlr_IdempotencyKey r)
        (JObj [(''amount'', JStr (dl_String (env_D E) amount)),
          (''outstanding'', JStr (dl_String (env_D E) (res_OutstandingAmount res'))),
          (''reservation_id'', JStr (res_ID res')), (''status'', JStr (res_Status res'))]))
      (ret res')))))"

definition ReleaseReservation :: "env \<Rightarrow> ('s, 't) store_ops \<Rightarrow> ReleaseReservationRequest \<Rightarrow>
    ('s world, connect_error, ReservationMsg) exec" where
  "ReleaseReservation E S r =
     (case ParseAmount (env_D E) (rlr_Amount r) of
        Inl err \<Rightarrow> throwE (ToConnectError
          (DomainError CodeReservationAmountExceeds (Error_string err)))
      | Inr amount \<Rightarrow>
          bindE (mapErr ToConnectError (runTx S (releaseReservationInTx E (st_Tx S) r amount))) (\<lambda>res.
            ret (reservationToProto E res)))"

definition expireFlow :: "env \<Rightarrow> string \<Rightarrow> Reservation \<Rightarrow> ExecuteFlowRequest" where
  "expireFlow E tn res = transferFlow tn ''EXPIRE_RESERVATION'' (res_ID res @ '':expire'')
     ''scheduler'' ''system'' ''expire'' (res_ID res @ '':expire'') (res_SourceAccountID res)
     (res_ReservedAccountID res) (res_Currency res)
     (dl_String (env_D E) (res_OutstandingAmount res))"

definition expireAmounts :: "Reservation \<Rightarrow> time \<Rightarrow> Reservation" where
  "expireAmounts res now = (let amount = res_OutstandingAmount res in
     res\<lparr>res_ReleasedAmount := res_ReleasedAmount res + amount,
       res_OutstandingAmount := res_OutstandingAmount res - amount,
       res_Status := ReservationExpired, res_UpdatedAt := now\<rparr>)"

text \<open>The two early commits of a reservation that needs nothing are the two \<open>ret ()\<close>.\<close>

definition expireReservationInTx :: "env \<Rightarrow> 't tx_ops \<Rightarrow> string \<Rightarrow> string \<Rightarrow>
    ('t world, error, unit) exec" where
  "expireReservationInTx E T tn rid =
     bindE (inSt (tx_LockReservation T tn rid)) (\<lambda>res.
       if ReservationStatus_Closed (res_Status res) then ret ()
       else if res_OutstandingAmount res = 0 then ret ()
       else
         let amount = res_OutstandingAmount res in
         bindE (executeFlowInTx E T (expireFlow E tn res)) (\<lambda>flowResp.
         bindE (Now E) (\<lambda>updatedAt.
         let res' = expireAmounts res updatedAt in
         thenE (saveReservation T tn res')
           (insertEvent E T (res_TenantID res') (res_ID res') ''RESERVATION_EXPIRED''
             (res_ID res' @ '':expired'')
             (JObj [(''amount'', JStr (dl_String (env_D E) amount)),
               (''reservation_id'', JStr (res_ID res')), (''status'', JStr ''EXPIRED'')])))))"

definition ExpireReservation :: "env \<Rightarrow> ('s, 't) store_ops \<Rightarrow> string \<Rightarrow> string \<Rightarrow>
    ('s world, error, unit) exec" where
  "ExpireReservation E S tn rid = runTx S (expireReservationInTx E (st_Tx S) tn rid)"

definition GetReservation :: "env \<Rightarrow> ('s, 't) store_ops \<Rightarrow> string \<Rightarrow> string \<Rightarrow>
    ('s world, connect_error, ReservationMsg) exec" where
  "GetReservation E S tn rid =
     bindE (mapErr ToConnectError (inSt (st_GetReservation S tn rid))) (\<lambda>res.
       ret (reservationToProto E res))"

definition ListReservations :: "env \<Rightarrow> ('s, 't) store_ops \<Rightarrow> ListReservationsRequest \<Rightarrow>
    ('s world, connect_error, ReservationMsg list) exec" where
  "ListReservations E S r =
     bindE (mapErr ToConnectError (inSt (st_ListReservations S
        \<lparr>lri_TenantID = lrr_TenantId r, lri_OwnerType = lrr_OwnerType r,
         lri_OwnerID = lrr_OwnerId r, lri_Status = lrr_Status r,
         lri_Limit = sint (lrr_PageSize r)\<rparr>))) (\<lambda>rows.
       ret (map (reservationToProto E) rows))"

section \<open>Their effect on the ledger\<close>

text \<open>What the three operations on a reservation write back, next to the outbox event.\<close>

definition storeReservation :: "string \<Rightarrow> string \<Rightarrow> res_core \<Rightarrow> string \<Rightarrow> string \<Rightarrow> ledger_view \<Rightarrow>
    ledger_view" where
  "storeReservation tn rid c eventType key v =
     v\<lparr>v_reservation := (v_reservation v)((tn, rid) \<mapsto> c),
       v_outbox := v_outbox v @ [(tn, rid, eventType, key)]\<rparr>"

definition heldCore :: "CreateReservationRequest \<Rightarrow> decimal \<Rightarrow> res_core" where
  "heldCore r amount = \<lparr>rc_IdempotencyKey = crr_IdempotencyKey r,
     rc_SourceAccountID = crr_SourceAccountId r, rc_ReservedAccountID = crr_ReservedAccountId r,
     rc_Currency = crr_Currency r, rc_Original = amount, rc_Outstanding = amount,
     rc_Committed = 0, rc_Released = 0, rc_Status = ReservationHeld\<rparr>"

definition committedCore :: "res_core \<Rightarrow> decimal \<Rightarrow> res_core" where
  "committedCore c amount = c\<lparr>rc_Outstanding := rc_Outstanding c - amount,
     rc_Committed := rc_Committed c + amount,
     rc_Status := closedRes (rc_Outstanding c - amount) ReservationCommitted\<rparr>"

definition releasedCore :: "res_core \<Rightarrow> decimal \<Rightarrow> res_core" where
  "releasedCore c amount = c\<lparr>rc_Outstanding := rc_Outstanding c - amount,
     rc_Released := rc_Released c + amount,
     rc_Status := closedRes (rc_Outstanding c - amount) ReservationReleased\<rparr>"

definition expiredCore :: "res_core \<Rightarrow> res_core" where
  "expiredCore c = c\<lparr>rc_Outstanding := 0, rc_Released := rc_Released c + rc_Outstanding c,
     rc_Status := ReservationExpired\<rparr>"

definition createEffect :: "env \<Rightarrow> CreateReservationRequest \<Rightarrow> decimal \<Rightarrow> nat \<Rightarrow> ledger_view \<Rightarrow>
    Reservation \<Rightarrow> ledger_view \<Rightarrow> bool" where
  "createEffect E r amount n v res v' \<longleftrightarrow>
     (v' = v \<and> v_reservation v (crr_TenantId r, res_ID res) = Some (coreOf res) \<and>
        res_IdempotencyKey res = crr_IdempotencyKey r) \<or>
     (\<exists>resp v1. flowDone E (createFlow r) n v resp v1 \<and> coreOf res = heldCore r amount \<and>
        v' = storeReservation (crr_TenantId r) (res_ID res) (heldCore r amount)
          ''RESERVATION_CREATED'' (res_ID res @ '':created'') v1)"

definition commitEffect :: "env \<Rightarrow> CommitReservationRequest \<Rightarrow> decimal \<Rightarrow> nat \<Rightarrow> ledger_view \<Rightarrow>
    Reservation \<Rightarrow> ledger_view \<Rightarrow> bool" where
  "commitEffect E r amount n v res' v' \<longleftrightarrow> (\<exists>res dst resp v1.
     v_reservation v (cmr_TenantId r, cmr_ReservationId r) = Some (coreOf res) \<and>
     res_ID res = cmr_ReservationId r \<and> \<not> ReservationStatus_Closed (res_Status res) \<and>
     amount \<le> res_OutstandingAmount res \<and>
     v_account v (cmr_TenantId r, cmr_DestinationAccountId r) = Some dst \<and>
     acc_Currency dst = res_Currency res \<and>
     flowDone E (commitFlow E r res (acc_ID dst) amount) n v resp v1 \<and>
     coreOf res' = committedCore (coreOf res) amount \<and>
     v' = storeReservation (cmr_TenantId r) (cmr_ReservationId r) (committedCore (coreOf res) amount)
       ''RESERVATION_COMMITTED'' (cmr_ReservationId r @ '':committed:'' @ cmr_IdempotencyKey r) v1)"

definition releaseEffect :: "env \<Rightarrow> ReleaseReservationRequest \<Rightarrow> decimal \<Rightarrow> nat \<Rightarrow> ledger_view \<Rightarrow>
    Reservation \<Rightarrow> ledger_view \<Rightarrow> bool" where
  "releaseEffect E r amount n v res' v' \<longleftrightarrow> (\<exists>res resp v1.
     v_reservation v (rlr_TenantId r, rlr_ReservationId r) = Some (coreOf res) \<and>
     res_ID res = rlr_ReservationId r \<and> \<not> ReservationStatus_Closed (res_Status res) \<and>
     amount \<le> res_OutstandingAmount res \<and>
     flowDone E (releaseFlow E r res amount) n v resp v1 \<and>
     coreOf res' = releasedCore (coreOf res) amount \<and>
     v' = storeReservation (rlr_TenantId r) (rlr_ReservationId r) (releasedCore (coreOf res) amount)
       ''RESERVATION_RELEASED'' (rlr_ReservationId r @ '':released:'' @ rlr_IdempotencyKey r) v1)"

definition expireEffect :: "env \<Rightarrow> string \<Rightarrow> string \<Rightarrow> nat \<Rightarrow> ledger_view \<Rightarrow> unit \<Rightarrow> ledger_view \<Rightarrow> bool" where
  "expireEffect E tn rid n v u v' \<longleftrightarrow> (\<exists>res.
     v_reservation v (tn, rid) = Some (coreOf res) \<and> res_ID res = rid \<and>
     (if ReservationStatus_Closed (res_Status res) \<or> res_OutstandingAmount res = 0 then v' = v
      else \<exists>resp v1. flowDone E (expireFlow E tn res) n v resp v1 \<and>
        v' = storeReservation tn rid (expiredCore (coreOf res)) ''RESERVATION_EXPIRED''
          (rid @ '':expired'') v1))"

lemma coreOf_simps [simp]:
  "rc_Status (coreOf res) = res_Status res"
  "rc_Outstanding (coreOf res) = res_OutstandingAmount res"
  "rc_Committed (coreOf res) = res_CommittedAmount res"
  "rc_Released (coreOf res) = res_ReleasedAmount res"
  "rc_Original (coreOf res) = res_OriginalAmount res"
  by (simp_all add: coreOf_def)

lemma newReservation_simps [simp]:
  "res_ID (newReservation r amount rid fid t1 t2) = rid"
  "res_TenantID (newReservation r amount rid fid t1 t2) = crr_TenantId r"
  "res_CommittedAmount (newReservation r amount rid fid t1 t2) = 0"
  "res_ReleasedAmount (newReservation r amount rid fid t1 t2) = 0"
  "coreOf (newReservation r amount rid fid t1 t2) = heldCore r amount"
  by (simp_all add: newReservation_def coreOf_def heldCore_def)

lemma commitAmounts_simps [simp]:
  "res_ID (commitAmounts res amount t) = res_ID res"
  "res_TenantID (commitAmounts res amount t) = res_TenantID res"
  "coreOf (commitAmounts res amount t) = committedCore (coreOf res) amount"
  by (simp_all add: commitAmounts_def coreOf_def committedCore_def closedRes_def Let_def)

lemma releaseAmounts_simps [simp]:
  "res_ID (releaseAmounts res amount t) = res_ID res"
  "res_TenantID (releaseAmounts res amount t) = res_TenantID res"
  "coreOf (releaseAmounts res amount t) = releasedCore (coreOf res) amount"
  by (simp_all add: releaseAmounts_def coreOf_def releasedCore_def closedRes_def Let_def)

lemma expireAmounts_simps [simp]:
  "res_ID (expireAmounts res t) = res_ID res"
  "res_TenantID (expireAmounts res t) = res_TenantID res"
  "coreOf (expireAmounts res t) = expiredCore (coreOf res)"
  by (simp_all add: expireAmounts_def coreOf_def expiredCore_def Let_def)

context ledger_tx
begin

lemma saveReservation_Inr:
  assumes "inv (w_st w)" and "saveReservation T tn res w = (Inr u, w')"
    and "v_reservation (view (w_st w)) (tn, res_ID res) = Some c"
  shows "inv (w_st w') \<and> view (w_st w') = (view (w_st w))\<lparr>v_reservation :=
    (v_reservation (view (w_st w)))((tn, res_ID res) \<mapsto> c\<lparr>rc_Outstanding := res_OutstandingAmount res,
      rc_Committed := res_CommittedAmount res, rc_Released := res_ReleasedAmount res,
      rc_Status := res_Status res\<rparr>)\<rparr>"
  using assms by (auto simp: saveReservation_def exec_simps dest!: UpdateReservationAmounts [rotated])

lemma lockOpen_Inr:
  assumes "inv (w_st w)" and "lockOpen E T tn rid amount w = (Inr res, w')"
  shows "inv (w_st w') \<and> view (w_st w') = view (w_st w) \<and> w_ids w' = w_ids w \<and>
    v_reservation (view (w_st w)) (tn, rid) = Some (coreOf res) \<and> res_ID res = rid \<and>
    res_TenantID res = tn \<and> \<not> ReservationStatus_Closed (res_Status res) \<and>
    amount \<le> res_OutstandingAmount res"
  using assms by (auto simp: lockOpen_def exec_simps split: if_splits dest!: LockReservation [rotated])

text \<open>After the inner flow: the row is rewritten and the event added.\<close>

lemma storeReservation_Inr:
  assumes "inv (w_st w)" and "v_reservation (view (w_st w)) (tn, rid) = Some c"
    and "saveReservation T tn res' w = (Inr u1, w1)"
    and "insertEvent E T tn rid et key pl w1 = (Inr u2, w2)"
    and "res_ID res' = rid"
    and "coreOf res' = c\<lparr>rc_Outstanding := res_OutstandingAmount res',
      rc_Committed := res_CommittedAmount res', rc_Released := res_ReleasedAmount res',
      rc_Status := res_Status res'\<rparr>"
  shows "inv (w_st w2) \<and> view (w_st w2) = storeReservation tn rid (coreOf res') et key (view (w_st w))"
proof -
  note s = saveReservation_Inr [OF assms(1,3), unfolded assms(5), OF assms(2)]
  from insertEvent_Inr [OF conjunct1 [OF s] assms(4)] s show ?thesis
    by (simp add: storeReservation_def assms(6))
qed

lemma createReservationInTx_Inr:
  assumes "inv (w_st w)" and "createReservationInTx E T r amount w = (Inr res, w')"
  shows "inv (w_st w') \<and> createEffect E r amount (w_ids w) (view (w_st w)) res (view (w_st w'))"
proof -
  obtain ro x where g: "tx_GetReservationByIdempotency T (crr_TenantId r) (crr_IdempotencyKey r)
      (w_st w) = (Inr ro, x)"
    using assms(2) by (auto simp: createReservationInTx_def exec_simps)
  from GetReservationByIdempotency [OF assms(1) g] have x: "inv x" "view x = view (w_st w)"
    "\<And>r'. ro = Some r' \<Longrightarrow> v_reservation (view (w_st w)) (crr_TenantId r, res_ID r') = Some (coreOf r') \<and>
      res_IdempotencyKey r' = crr_IdempotencyKey r"
    by auto
  show ?thesis
  proof (cases ro)
    case (Some r')
    with assms(2) g x show ?thesis
      by (auto simp: createReservationInTx_def createEffect_def exec_simps)
  next
    case None
    then obtain resp w1 rid fid t1 t2 x3 w4 pl where
      f: "executeFlowInTx E T (createFlow r) (w\<lparr>w_st := x\<rparr>) = (Inr resp, w1)" and
      res: "res = newReservation r amount rid fid t1 t2" and
      i: "tx_InsertReservation T (newReservation r amount rid fid t1 t2) (w_st w1) = (Inr (), x3)" and
      e: "insertEvent E T (crr_TenantId r) rid ''RESERVATION_CREATED'' (rid @ '':created'') pl w4 =
        (Inr (), w')" and w4: "w_st w4 = x3"
      using assms(2) g by (clarsimp simp: createReservationInTx_def Let_def exec_simps)
    from executeFlowInTx_Inr [OF _ f] x have 1: "inv (w_st w1)"
      "flowDone E (createFlow r) (w_ids w) (view (w_st w)) resp (view (w_st w1))" by auto
    from InsertReservation [OF 1(1) _ _ i]
    have 2: "inv (w_st w4)" "view (w_st w4) = (view (w_st w1))\<lparr>v_reservation :=
        (v_reservation (view (w_st w1)))((crr_TenantId r, rid) \<mapsto> heldCore r amount)\<rparr>"
      by (simp_all add: w4)
    from insertEvent_Inr [OF 2(1) e] 1 2 show ?thesis
      unfolding createEffect_def storeReservation_def by (auto simp: res)
  qed
qed

lemma commitReservationInTx_Inr:
  assumes "inv (w_st w)" and "commitReservationInTx E T r amount w = (Inr res', w')"
  shows "inv (w_st w') \<and> commitEffect E r amount (w_ids w) (view (w_st w)) res' (view (w_st w'))"
proof -
  let ?tn = "cmr_TenantId r" and ?rid = "cmr_ReservationId r"
  obtain res w1 dst x2 resp w3 w4 w5 pl now where
    l: "lockOpen E T ?tn ?rid amount w = (Inr res, w1)" and
    a: "tx_GetAccount T ?tn (cmr_DestinationAccountId r) (w_st w1) = (Inr dst, x2)" and
    ccy: "acc_Currency dst = res_Currency res" and
    f: "executeFlowInTx E T (commitFlow E r res (acc_ID dst) amount) (w1\<lparr>w_st := x2\<rparr>) = (Inr resp, w3)" and
    res': "res' = commitAmounts res amount now" and
    s: "saveReservation T ?tn (commitAmounts res amount now) w4 = (Inr (), w5)" and
    e: "insertEvent E T (res_TenantID res) (res_ID res) ''RESERVATION_COMMITTED''
      (res_ID res @ '':committed:'' @ cmr_IdempotencyKey r) pl w5 = (Inr (), w')" and
    w4: "w_st w4 = w_st w3"
    using assms(2)
    by (clarsimp simp: commitReservationInTx_def Let_def exec_simps split: if_splits)
  from lockOpen_Inr [OF assms(1) l] have 1: "inv (w_st w1)" "view (w_st w1) = view (w_st w)"
    "w_ids w1 = w_ids w" "v_reservation (view (w_st w)) (?tn, ?rid) = Some (coreOf res)"
    "res_ID res = ?rid" "res_TenantID res = ?tn" "\<not> ReservationStatus_Closed (res_Status res)"
    "amount \<le> res_OutstandingAmount res"
    by auto
  from GetAccount [OF 1(1) a] have 2: "inv x2" "view x2 = view (w_st w)"
    "v_account (view (w_st w)) (?tn, cmr_DestinationAccountId r) = Some dst"
    by (auto simp: 1)
  from executeFlowInTx_Inr [OF _ f] 1 2 have 3: "inv (w_st w4)"
    "flowDone E (commitFlow E r res (acc_ID dst) amount) (w_ids w) (view (w_st w)) resp (view (w_st w4))"
    by (auto simp: w4)
  have "v_reservation (view (w_st w4)) (?tn, ?rid) = Some (coreOf res)"
    using flowDone_same [OF 3(2)] 1(4) by simp
  from storeReservation_Inr [OF 3(1) this s e [unfolded 1(5,6)]]
  have "inv (w_st w')" "view (w_st w') = storeReservation ?tn ?rid (committedCore (coreOf res) amount)
    ''RESERVATION_COMMITTED'' (?rid @ '':committed:'' @ cmr_IdempotencyKey r) (view (w_st w4))"
    using 1(5) by (auto simp: coreOf_def committedCore_def commitAmounts_def closedRes_def Let_def)
  with 1 2 3 ccy show ?thesis unfolding commitEffect_def res' by (auto simp: res')
qed

lemma releaseReservationInTx_Inr:
  assumes "inv (w_st w)" and "releaseReservationInTx E T r amount w = (Inr res', w')"
  shows "inv (w_st w') \<and> releaseEffect E r amount (w_ids w) (view (w_st w)) res' (view (w_st w'))"
proof -
  let ?tn = "rlr_TenantId r" and ?rid = "rlr_ReservationId r"
  obtain res w1 resp w3 w4 w5 pl now where
    l: "lockOpen E T ?tn ?rid amount w = (Inr res, w1)" and
    f: "executeFlowInTx E T (releaseFlow E r res amount) w1 = (Inr resp, w3)" and
    res': "res' = releaseAmounts res amount now" and
    s: "saveReservation T ?tn (releaseAmounts res amount now) w4 = (Inr (), w5)" and
    e: "insertEvent E T (res_TenantID res) (res_ID res) ''RESERVATION_RELEASED''
      (res_ID res @ '':released:'' @ rlr_IdempotencyKey r) pl w5 = (Inr (), w')" and
    w4: "w_st w4 = w_st w3"
    using assms(2)
    by (clarsimp simp: releaseReservationInTx_def Let_def exec_simps split: if_splits)
  from lockOpen_Inr [OF assms(1) l] have 1: "inv (w_st w1)" "view (w_st w1) = view (w_st w)"
    "w_ids w1 = w_ids w" "v_reservation (view (w_st w)) (?tn, ?rid) = Some (coreOf res)"
    "res_ID res = ?rid" "res_TenantID res = ?tn" "\<not> ReservationStatus_Closed (res_Status res)"
    "amount \<le> res_OutstandingAmount res"
    by auto
  from executeFlowInTx_Inr [OF _ f] 1 have 3: "inv (w_st w4)"
    "flowDone E (releaseFlow E r res amount) (w_ids w) (view (w_st w)) resp (view (w_st w4))"
    by (auto simp: w4)
  have "v_reservation (view (w_st w4)) (?tn, ?rid) = Some (coreOf res)"
    using flowDone_same [OF 3(2)] 1(4) by simp
  from storeReservation_Inr [OF 3(1) this s e [unfolded 1(5,6)]]
  have "inv (w_st w')" "view (w_st w') = storeReservation ?tn ?rid (releasedCore (coreOf res) amount)
    ''RESERVATION_RELEASED'' (?rid @ '':released:'' @ rlr_IdempotencyKey r) (view (w_st w4))"
    using 1(5) by (auto simp: coreOf_def releasedCore_def releaseAmounts_def closedRes_def Let_def)
  with 1 3 show ?thesis unfolding releaseEffect_def res' by (auto simp: res')
qed

lemma expireReservationInTx_Inr:
  assumes "inv (w_st w)" and "expireReservationInTx E T tn rid w = (Inr u, w')"
  shows "inv (w_st w') \<and> expireEffect E tn rid (w_ids w) (view (w_st w)) () (view (w_st w'))"
proof -
  obtain res x where l: "tx_LockReservation T tn rid (w_st w) = (Inr res, x)"
    using assms(2) by (auto simp: expireReservationInTx_def exec_simps)
  from LockReservation [OF assms(1) l] have 1: "inv x" "view x = view (w_st w)"
    "v_reservation (view (w_st w)) (tn, rid) = Some (coreOf res)" "res_ID res = rid"
    "res_TenantID res = tn"
    by auto
  show ?thesis
  proof (cases "ReservationStatus_Closed (res_Status res) \<or> res_OutstandingAmount res = 0")
    case True
    with assms(2) l 1 show ?thesis
      by (auto simp: expireReservationInTx_def expireEffect_def exec_simps split: if_splits)
  next
    case False
    then obtain resp w3 w4 w5 pl now where
      f: "executeFlowInTx E T (expireFlow E tn res) (w\<lparr>w_st := x\<rparr>) = (Inr resp, w3)" and
      s: "saveReservation T tn (expireAmounts res now) w4 = (Inr (), w5)" and
      e: "insertEvent E T tn rid ''RESERVATION_EXPIRED'' (rid @ '':expired'') pl w5 = (Inr (), w')" and
      w4: "w_st w4 = w_st w3"
      using assms(2) l 1(4,5)
      by (clarsimp simp: expireReservationInTx_def Let_def exec_simps split: if_splits)
    from executeFlowInTx_Inr [OF _ f] 1 have 3: "inv (w_st w4)"
      "flowDone E (expireFlow E tn res) (w_ids w) (view (w_st w)) resp (view (w_st w4))"
      by (auto simp: w4)
    have "v_reservation (view (w_st w4)) (tn, rid) = Some (coreOf res)"
      using flowDone_same [OF 3(2)] 1(3) by simp
    from storeReservation_Inr [OF 3(1) this s e]
    have "inv (w_st w')" "view (w_st w') = storeReservation tn rid (expiredCore (coreOf res))
      ''RESERVATION_EXPIRED'' (rid @ '':expired'') (view (w_st w4))"
      using 1(4) by (auto simp: coreOf_def expiredCore_def expireAmounts_def Let_def)
    with 1 3 False show ?thesis unfolding expireEffect_def by auto
  qed
qed

end

section \<open>As steps of the abstract ledger\<close>

lemma storeReservation_steps:
  assumes "ledger_step v (v\<lparr>v_reservation := (v_reservation v)((tn, rid) \<mapsto> c)\<rparr>)"
  shows "ledger_steps v (storeReservation tn rid c et key v)"
proof -
  have "ledger_step (v\<lparr>v_reservation := (v_reservation v)((tn, rid) \<mapsto> c)\<rparr>)
      (storeReservation tn rid c et key v)"
    using ledger_step.notify [of "v\<lparr>v_reservation := (v_reservation v)((tn, rid) \<mapsto> c)\<rparr>"]
    by (simp add: storeReservation_def)
  with r_into_rtranclp [of ledger_step, OF assms] show ?thesis by (rule rtranclp.rtrancl_into_rtrancl)
qed

lemma createEffect_steps:
  assumes "createEffect E r amount n v res v'" and "0 < amount"
  shows "ledger_steps v v'"
proof (cases "v' = v")
  case False
  then obtain resp v1 where f: "flowDone E (createFlow r) n v resp v1" and
    v': "v' = storeReservation (crr_TenantId r) (res_ID res) (heldCore r amount)
      ''RESERVATION_CREATED'' (res_ID res @ '':created'') v1"
    using assms(1) by (auto simp: createEffect_def)
  have "ledger_step v1 (v1\<lparr>v_reservation := (v_reservation v1)
      ((crr_TenantId r, res_ID res) \<mapsto> heldCore r amount)\<rparr>)"
    using assms(2) by (intro ledger_step.hold) (simp_all add: heldCore_def)
  then show ?thesis unfolding v'
    by (rule rtranclp_trans [OF flowDone_steps [OF f] storeReservation_steps])
qed simp

lemma commitEffect_steps:
  assumes "commitEffect E r amount n v res' v'" and "0 < amount"
  shows "ledger_steps v v'"
proof -
  let ?tn = "cmr_TenantId r" and ?rid = "cmr_ReservationId r"
  obtain res resp v1 and dst :: Account where
    res: "v_reservation v (?tn, ?rid) = Some (coreOf res)"
      "\<not> ReservationStatus_Closed (res_Status res)" "amount \<le> res_OutstandingAmount res" and
    f: "flowDone E (commitFlow E r res (acc_ID dst) amount) n v resp v1" and
    v': "v' = storeReservation ?tn ?rid (committedCore (coreOf res) amount)
       ''RESERVATION_COMMITTED'' (?rid @ '':committed:'' @ cmr_IdempotencyKey r) v1"
    using assms(1) unfolding commitEffect_def by blast
  have "ledger_step v1 (v1\<lparr>v_reservation := (v_reservation v1)
      ((?tn, ?rid) \<mapsto> committedCore (coreOf res) amount)\<rparr>)"
    unfolding committedCore_def
    using assms(2) res flowDone_same [OF f] by (intro ledger_step.commit) simp_all
  then show ?thesis unfolding v'
    by (rule rtranclp_trans [OF flowDone_steps [OF f] storeReservation_steps])
qed

lemma releaseEffect_steps:
  assumes "releaseEffect E r amount n v res' v'" and "0 < amount"
  shows "ledger_steps v v'"
proof -
  let ?tn = "rlr_TenantId r" and ?rid = "rlr_ReservationId r"
  obtain res resp v1 where
    res: "v_reservation v (?tn, ?rid) = Some (coreOf res)"
      "\<not> ReservationStatus_Closed (res_Status res)" "amount \<le> res_OutstandingAmount res" and
    f: "flowDone E (releaseFlow E r res amount) n v resp v1" and
    v': "v' = storeReservation ?tn ?rid (releasedCore (coreOf res) amount)
       ''RESERVATION_RELEASED'' (?rid @ '':released:'' @ rlr_IdempotencyKey r) v1"
    using assms(1) unfolding releaseEffect_def by blast
  have "ledger_step v1 (v1\<lparr>v_reservation := (v_reservation v1)
      ((?tn, ?rid) \<mapsto> releasedCore (coreOf res) amount)\<rparr>)"
    unfolding releasedCore_def
    using assms(2) res flowDone_same [OF f] by (intro ledger_step.release) simp_all
  then show ?thesis unfolding v'
    by (rule rtranclp_trans [OF flowDone_steps [OF f] storeReservation_steps])
qed

lemma expireEffect_steps:
  assumes "expireEffect E tn rid n v u v'" and "reservations_ok v"
  shows "ledger_steps v v'"
proof (cases "v' = v")
  case False
  then obtain res resp v1 where
    res: "v_reservation v (tn, rid) = Some (coreOf res)"
      "\<not> ReservationStatus_Closed (res_Status res)" and
    f: "flowDone E (expireFlow E tn res) n v resp v1" and
    v': "v' = storeReservation tn rid (expiredCore (coreOf res)) ''RESERVATION_EXPIRED''
      (rid @ '':expired'') v1"
    using assms(1) by (auto simp: expireEffect_def split: if_splits)
  have "res_ok (coreOf res)" using assms(2) res(1) unfolding reservations_ok_def by blast
  with res(2) have "0 < res_OutstandingAmount res" by (simp add: res_ok_def)
  then have "ledger_step v1 (v1\<lparr>v_reservation := (v_reservation v1)((tn, rid) \<mapsto> expiredCore (coreOf res))\<rparr>)"
    unfolding expiredCore_def using res flowDone_same [OF f] by (intro ledger_step.expire) simp_all
  then show ?thesis unfolding v'
    by (rule rtranclp_trans [OF flowDone_steps [OF f] storeReservation_steps])
qed simp

context ledger_store
begin

lemma CreateReservation_Inr:
  assumes "sinv (w_st w)" and "CreateReservation E S r w = (Inr msg, w')"
  shows "sinv (w_st w') \<and> (\<exists>amount res. ParseAmount (env_D E) (crr_Amount r) = Inr amount \<and>
    msg = reservationToProto E res \<and>
    createEffect E r amount (w_ids w) (sview (w_st w)) res (sview (w_st w')))"
proof -
  from assms(2) obtain amount res where a: "ParseAmount (env_D E) (crr_Amount r) = Inr amount"
    and run: "runTx S (createReservationInTx E (st_Tx S) r amount) w = (Inr res, w')"
    and msg: "msg = reservationToProto E res"
    by (auto simp: CreateReservation_def exec_simps split: sum.splits)
  from runTx_Inr [where Q = "createEffect E r amount", OF assms(1) run tx.createReservationInTx_Inr]
  show ?thesis using a msg by blast
qed

lemma CommitReservation_Inr:
  assumes "sinv (w_st w)" and "CommitReservation E S r w = (Inr msg, w')"
  shows "sinv (w_st w') \<and> (\<exists>amount res. ParseAmount (env_D E) (cmr_Amount r) = Inr amount \<and>
    msg = reservationToProto E res \<and>
    commitEffect E r amount (w_ids w) (sview (w_st w)) res (sview (w_st w')))"
proof -
  from assms(2) obtain amount res where a: "ParseAmount (env_D E) (cmr_Amount r) = Inr amount"
    and run: "runTx S (commitReservationInTx E (st_Tx S) r amount) w = (Inr res, w')"
    and msg: "msg = reservationToProto E res"
    by (auto simp: CommitReservation_def exec_simps split: sum.splits)
  from runTx_Inr [where Q = "commitEffect E r amount", OF assms(1) run tx.commitReservationInTx_Inr]
  show ?thesis using a msg by blast
qed

lemma ReleaseReservation_Inr:
  assumes "sinv (w_st w)" and "ReleaseReservation E S r w = (Inr msg, w')"
  shows "sinv (w_st w') \<and> (\<exists>amount res. ParseAmount (env_D E) (rlr_Amount r) = Inr amount \<and>
    msg = reservationToProto E res \<and>
    releaseEffect E r amount (w_ids w) (sview (w_st w)) res (sview (w_st w')))"
proof -
  from assms(2) obtain amount res where a: "ParseAmount (env_D E) (rlr_Amount r) = Inr amount"
    and run: "runTx S (releaseReservationInTx E (st_Tx S) r amount) w = (Inr res, w')"
    and msg: "msg = reservationToProto E res"
    by (auto simp: ReleaseReservation_def exec_simps split: sum.splits)
  from runTx_Inr [where Q = "releaseEffect E r amount", OF assms(1) run tx.releaseReservationInTx_Inr]
  show ?thesis using a msg by blast
qed

lemma ExpireReservation_Inr:
  assumes "sinv (w_st w)" and "ExpireReservation E S tn rid w = (Inr u, w')"
  shows "sinv (w_st w') \<and> expireEffect E tn rid (w_ids w) (sview (w_st w)) () (sview (w_st w'))"
  using runTx_Inr [where Q = "expireEffect E tn rid", OF assms(1) _ tx.expireReservationInTx_Inr]
    assms(2) by (simp add: ExpireReservation_def)

lemma CreateReservation_Inl:
  "sinv (w_st w) \<Longrightarrow> CreateReservation E S r w = (Inl e, w') \<Longrightarrow>
     sinv (w_st w') \<and> sview (w_st w') = sview (w_st w)"
  by (auto simp: CreateReservation_def exec_simps split: sum.splits dest!: runTx_Inl [rotated])

lemma CommitReservation_Inl:
  "sinv (w_st w) \<Longrightarrow> CommitReservation E S r w = (Inl e, w') \<Longrightarrow>
     sinv (w_st w') \<and> sview (w_st w') = sview (w_st w)"
  by (auto simp: CommitReservation_def exec_simps split: sum.splits dest!: runTx_Inl [rotated])

lemma ReleaseReservation_Inl:
  "sinv (w_st w) \<Longrightarrow> ReleaseReservation E S r w = (Inl e, w') \<Longrightarrow>
     sinv (w_st w') \<and> sview (w_st w') = sview (w_st w)"
  by (auto simp: ReleaseReservation_def exec_simps split: sum.splits dest!: runTx_Inl [rotated])

lemma ExpireReservation_Inl:
  "sinv (w_st w) \<Longrightarrow> ExpireReservation E S tn rid w = (Inl e, w') \<Longrightarrow>
     sinv (w_st w') \<and> sview (w_st w') = sview (w_st w)"
  by (auto simp: ExpireReservation_def dest!: runTx_Inl [rotated])

lemma CreateReservation_safe [safe_intros]: "safe sinv sview (CreateReservation E S r)"
proof -
  have "safe sinv sview (runTx S (createReservationInTx E (st_Tx S) r amount))" if "0 < amount" for amount
    by (rule runTx_safe) (auto dest!: tx.createReservationInTx_Inr [rotated] createEffect_steps [OF _ that])
  then show ?thesis
    by (auto simp: CreateReservation_def split: sum.splits dest!: ParseAmount_pos intro!: safe_intros)
qed

lemma CommitReservation_safe [safe_intros]: "safe sinv sview (CommitReservation E S r)"
proof -
  have "safe sinv sview (runTx S (commitReservationInTx E (st_Tx S) r amount))" if "0 < amount" for amount
    by (rule runTx_safe) (auto dest!: tx.commitReservationInTx_Inr [rotated] commitEffect_steps [OF _ that])
  then show ?thesis
    by (auto simp: CommitReservation_def split: sum.splits dest!: ParseAmount_pos intro!: safe_intros)
qed

lemma ReleaseReservation_safe [safe_intros]: "safe sinv sview (ReleaseReservation E S r)"
proof -
  have "safe sinv sview (runTx S (releaseReservationInTx E (st_Tx S) r amount))" if "0 < amount" for amount
    by (rule runTx_safe) (auto dest!: tx.releaseReservationInTx_Inr [rotated] releaseEffect_steps [OF _ that])
  then show ?thesis
    by (auto simp: ReleaseReservation_def split: sum.splits dest!: ParseAmount_pos intro!: safe_intros)
qed

lemma ExpireReservation_safe [safe_intros]: "safe sinv sview (ExpireReservation E S tn rid)"
  unfolding ExpireReservation_def
  by (rule runTx_safe)
    (auto simp: ledger_inv_def dest!: tx.expireReservationInTx_Inr [rotated] expireEffect_steps)

lemma GetReservation_safe [safe_intros]: "safe sinv sview (Reservations.GetReservation E S tn rid)"
  by (auto simp: Reservations.GetReservation_def intro!: safe_intros GetReservation)

lemma ListReservations_safe [safe_intros]: "safe sinv sview (Reservations.ListReservations E S r)"
  by (auto simp: Reservations.ListReservations_def intro!: safe_intros ListReservations)

end

end
