(* ===== verification/Exchange.thy ===== *)
theory Exchange
  imports Flow_Correct
begin

text \<open>
  FX rates and exchanges: \<open>put_fx_rate.go\<close>, \<open>get_fx_rate.go\<close>, \<open>list_fx_rates.go\<close>,
  \<open>fx_helpers.go\<close> and \<open>execute_exchange.go\<close>.

  An exchange resolves its accounts and its rate outside the transaction, checks
  \<open>from_amount * rate = to_amount\<close> exactly, and posts one journal with two legs per currency.
\<close>

section \<open>Rates\<close>

definition fxRateToProto :: "env \<Rightarrow> FXRate \<Rightarrow> FXRateMsg" where
  "fxRateToProto E r = \<lparr>fm_Id = fx_ID r, fm_TenantId = fx_TenantID r,
     fm_BaseCurrency = fx_BaseCurrency r, fm_QuoteCurrency = fx_QuoteCurrency r,
     fm_Rate = dl_String (env_D E) (fx_Rate r), fm_Source = fx_Source r,
     fm_EffectiveAt = fx_EffectiveAt r, fm_CreatedAt = fx_CreatedAt r\<rparr>"

text \<open>A timestamp of the request, or the clock when it is not set.\<close>

definition PutFXRate :: "env \<Rightarrow> ('s, 't) store_ops \<Rightarrow> PutFXRateRequest \<Rightarrow>
    ('s world, connect_error, FXRateMsg) exec" where
  "PutFXRate E S r =
     (case ParseAmount (env_D E) (pfr_Rate r) of
        Inl err \<Rightarrow> throwE (ToConnectError (DomainError CodeFXAmountMismatch (Error_string err)))
      | Inr rate \<Rightarrow>
          bindE (Now E) (\<lambda>now.
          bindE (NewID E) (\<lambda>i.
          bindE (mapErr ToConnectError (inSt (st_UpsertFXRate S
            \<lparr>fx_ID = i, fx_TenantID = pfr_TenantId r, fx_BaseCurrency = pfr_BaseCurrency r,
             fx_QuoteCurrency = pfr_QuoteCurrency r, fx_Rate = rate, fx_Source = pfr_Source r,
             fx_EffectiveAt = (case pfr_EffectiveAt r of None \<Rightarrow> now | Some t \<Rightarrow> t),
             fx_CreatedAt = zeroTime\<rparr>))) (\<lambda>got.
          ret (fxRateToProto E got)))))"

definition GetFXRate :: "env \<Rightarrow> ('s, 't) store_ops \<Rightarrow> GetFXRateRequest \<Rightarrow>
    ('s world, connect_error, FXRateMsg) exec" where
  "GetFXRate E S r =
     bindE (Now E) (\<lambda>now.
     bindE (mapErr ToConnectError (inSt (st_GetFXRateAt S (gfr_TenantId r) (gfr_BaseCurrency r)
        (gfr_QuoteCurrency r) (case gfr_At r of None \<Rightarrow> now | Some t \<Rightarrow> t)))) (\<lambda>got.
       case got of
         None \<Rightarrow> throwE (ToConnectError (DomainError CodeFXRateNotFound
           (gfr_BaseCurrency r @ ''/'' @ gfr_QuoteCurrency r)))
       | Some x \<Rightarrow> ret (fxRateToProto E x)))"

definition ListFXRates :: "env \<Rightarrow> ('s, 't) store_ops \<Rightarrow> ListFXRatesRequest \<Rightarrow>
    ('s world, connect_error, FXRateMsg list) exec" where
  "ListFXRates E S r =
     bindE (mapErr ToConnectError (inSt (st_ListFXRates S
        \<lparr>lfx_TenantID = lfr_TenantId r, lfx_BaseCurrency = lfr_BaseCurrency r,
         lfx_QuoteCurrency = lfr_QuoteCurrency r, lfx_Since = lfr_Since r,
         lfx_Until = lfr_Until r, lfx_Limit = sint (lfr_PageSize r)\<rparr>))) (\<lambda>rows.
       ret (map (fxRateToProto E) rows))"

section \<open>Exchanges\<close>

definition resolveRate :: "env \<Rightarrow> ('s, 't) store_ops \<Rightarrow> ExecuteExchangeRequest \<Rightarrow> string \<Rightarrow> string \<Rightarrow>
    ('s world, connect_error, decimal \<times> string) exec" where
  "resolveRate E S r fromCcy toCcy =
     (if exr_Rate r \<noteq> '''' then
        (case dl_NewFromString (env_D E) (exr_Rate r) of
           None \<Rightarrow> throwE (ToConnectError (DomainError CodeFXAmountMismatch ''invalid rate''))
         | Some rate \<Rightarrow>
             if \<not> 0 < rate
             then throwE (ToConnectError (DomainError CodeFXAmountMismatch ''invalid rate''))
             else ret (rate, exr_RateSource r))
      else
        bindE (Now E) (\<lambda>now.
        bindE (mapErr ToConnectError (inSt (st_GetFXRateAt S (exr_TenantId r) fromCcy toCcy now))) (\<lambda>got.
          case got of
            None \<Rightarrow> throwE (ToConnectError (DomainError CodeFXRateNotFound
              (fromCcy @ ''/'' @ toCcy)))
          | Some x \<Rightarrow> ret (fx_Rate x, fx_Source x))))"

definition exchangeFlow :: "env \<Rightarrow> ExecuteExchangeRequest \<Rightarrow> string \<Rightarrow> string \<Rightarrow> decimal \<Rightarrow> string \<Rightarrow>
    ExecuteFlowRequest" where
  "exchangeFlow E r fromCcy toCcy rate rateSource =
     (let metaMap =
        setKey ''to_currency'' (JStr toCcy)
          (setKey ''from_currency'' (JStr fromCcy)
            (setKey ''rate_source'' (JStr rateSource)
              (setKey ''rate'' (JStr (dl_String (env_D E) rate)) (structToMap (exr_Metadata r)))))
      in \<lparr>efr_TenantId = exr_TenantId r, efr_FlowType = ''EXCHANGE'',
        efr_IdempotencyKey = exr_IdempotencyKey r, efr_SourceService = exr_SourceService r,
        efr_ActorId = exr_ActorId r,
        efr_Steps = [\<lparr>sm_StepId = ''exchange'', sm_Journal = Some
          \<lparr>jm_EventId = exr_IdempotencyKey r @ '':exchange'',
           jm_Entries = [
             \<lparr>em_AccountId = exr_FromCounterAccountId r, em_Currency = fromCcy,
              em_Direction = DIRECTION_DEBIT, em_Amount = exr_FromAmount r\<rparr>,
             \<lparr>em_AccountId = exr_FromAccountId r, em_Currency = fromCcy,
              em_Direction = DIRECTION_CREDIT, em_Amount = exr_FromAmount r\<rparr>,
             \<lparr>em_AccountId = exr_ToAccountId r, em_Currency = toCcy,
              em_Direction = DIRECTION_DEBIT, em_Amount = exr_ToAmount r\<rparr>,
             \<lparr>em_AccountId = exr_ToCounterAccountId r, em_Currency = toCcy,
              em_Direction = DIRECTION_CREDIT, em_Amount = exr_ToAmount r\<rparr>]\<rparr>\<rparr>],
        efr_Metadata = mapToStruct E metaMap\<rparr>)"

definition exchangeInTx :: "env \<Rightarrow> 't tx_ops \<Rightarrow> ExecuteExchangeRequest \<Rightarrow> decimal \<Rightarrow> decimal \<Rightarrow>
    string \<Rightarrow> string \<Rightarrow> decimal \<Rightarrow> string \<Rightarrow> ('t world, error, ExecuteFlowResponse) exec" where
  "exchangeInTx E T r fromAmount toAmount fromCcy toCcy rate rateSource =
     (let expected = fromAmount * rate in
      if expected \<noteq> toAmount
      then throwE (DomainError CodeFXAmountMismatch
        (''from_amount*rate='' @ dl_String (env_D E) expected @ '' != to_amount='' @
         dl_String (env_D E) toAmount))
      else executeFlowInTx E T (exchangeFlow E r fromCcy toCcy rate rateSource))"

definition ExecuteExchange :: "env \<Rightarrow> ('s, 't) store_ops \<Rightarrow> ExecuteExchangeRequest \<Rightarrow>
    ('s world, connect_error, ExecuteExchangeResponse) exec" where
  "ExecuteExchange E S r =
     (case ParseAmount (env_D E) (exr_FromAmount r) of
        Inl err \<Rightarrow> throwE (ToConnectError
          (DomainError CodeFXAmountMismatch (''from_amount: '' @ Error_string err)))
      | Inr fromAmount \<Rightarrow>
     (case ParseAmount (env_D E) (exr_ToAmount r) of
        Inl err \<Rightarrow> throwE (ToConnectError
          (DomainError CodeFXAmountMismatch (''to_amount: '' @ Error_string err)))
      | Inr toAmount \<Rightarrow>
     bindE (mapErr ToConnectError (inSt (st_GetAccount S (exr_TenantId r) (exr_FromAccountId r)))) (\<lambda>fromAcc.
     bindE (mapErr ToConnectError (inSt (st_GetAccount S (exr_TenantId r) (exr_ToAccountId r)))) (\<lambda>toAcc.
       if acc_Currency fromAcc = acc_Currency toAcc
       then throwE (ToConnectError (DomainError CodeAccountCurrencyMismatch
         ''from and to currencies must differ''))
       else
     bindE (resolveRate E S r (acc_Currency fromAcc) (acc_Currency toAcc)) (\<lambda>(rate, rateSource).
     bindE (mapErr ToConnectError (runTx S (exchangeInTx E (st_Tx S) r fromAmount toAmount
        (acc_Currency fromAcc) (acc_Currency toAcc) rate rateSource))) (\<lambda>flowResp.
       ret \<lparr>exs_FlowRunId = efs_FlowRunId flowResp, exs_JournalId = firstJournalID flowResp,
         exs_RateUsed = dl_String (env_D E) rate, exs_RateSource = rateSource\<rparr>))))))"

section \<open>Their effect on the ledger\<close>

context ledger_store
begin

lemma resolveRate_keeps:
  assumes "sinv (w_st w)" and "resolveRate E S r a b w = (res, w')"
  shows "sinv (w_st w') \<and> sview (w_st w') = sview (w_st w) \<and> w_ids w' = w_ids w"
proof -
  have "sinv (w_st w2) \<and> sview (w_st w2) = sview (w_st w1) \<and> w_ids w2 = w_ids w1"
    if "mapErr ToConnectError (inSt (st_GetFXRateAt S tn x y t)) w1 = (r, w2)" "sinv (w_st w1)"
    for tn x y t w1 w2 and r :: "connect_error + FXRate option"
    using that inSt_keeps [OF GetFXRateAt that(2)]
    by (fastforce simp: mapErr_def split: prod.splits sum.splits)
  from this [of _ _ _ _ "w\<lparr>w_ticks := Suc (w_ticks w)\<rparr>"] assms show ?thesis
    by (auto simp: resolveRate_def bindE_def Now_def ret_def throwE_def
      split: if_splits option.splits prod.splits sum.splits)
qed

text \<open>What a successful exchange did, with the rate it reports.\<close>

lemma ExecuteExchange_Inr:
  assumes "sinv (w_st w)" and "ExecuteExchange E S r w = (Inr resp, w')"
  shows "sinv (w_st w') \<and> (\<exists>fa ta fromAcc toAcc rate src fresp.
    ParseAmount (env_D E) (exr_FromAmount r) = Inr fa \<and>
    ParseAmount (env_D E) (exr_ToAmount r) = Inr ta \<and> ta = fa * rate \<and>
    v_account (sview (w_st w)) (exr_TenantId r, exr_FromAccountId r) = Some fromAcc \<and>
    v_account (sview (w_st w)) (exr_TenantId r, exr_ToAccountId r) = Some toAcc \<and>
    acc_Currency fromAcc \<noteq> acc_Currency toAcc \<and>
    exs_RateUsed resp = dl_String (env_D E) rate \<and> exs_FlowRunId resp = efs_FlowRunId fresp \<and>
    flowDone E (exchangeFlow E r (acc_Currency fromAcc) (acc_Currency toAcc) rate src)
      (w_ids w) (sview (w_st w)) fresp (sview (w_st w')))"
proof -
  obtain fa ta fromAcc w1 toAcc w2 rate src w3 fresp where
    fa: "ParseAmount (env_D E) (exr_FromAmount r) = Inr fa" and
    ta: "ParseAmount (env_D E) (exr_ToAmount r) = Inr ta" and
    a1: "inSt (st_GetAccount S (exr_TenantId r) (exr_FromAccountId r)) w = (Inr fromAcc, w1)" and
    a2: "inSt (st_GetAccount S (exr_TenantId r) (exr_ToAccountId r)) w1 = (Inr toAcc, w2)" and
    ne: "acc_Currency fromAcc \<noteq> acc_Currency toAcc" and
    rr: "resolveRate E S r (acc_Currency fromAcc) (acc_Currency toAcc) w2 = (Inr (rate, src), w3)" and
    run: "runTx S (exchangeInTx E (st_Tx S) r fa ta (acc_Currency fromAcc) (acc_Currency toAcc)
      rate src) w3 = (Inr fresp, w')" and
    resp: "exs_RateUsed resp = dl_String (env_D E) rate" "exs_FlowRunId resp = efs_FlowRunId fresp"
    using assms(2)
    by (clarsimp simp: ExecuteExchange_def exec_simps mapErr_Inr split: sum.splits if_splits)
  have v1: "sinv (w_st w1)" "sview (w_st w1) = sview (w_st w)" "w_ids w1 = w_ids w"
    "v_account (sview (w_st w)) (exr_TenantId r, exr_FromAccountId r) = Some fromAcc"
    using inSt_keeps [OF GetAccount assms(1) a1] GetAccount_Inr [OF assms(1)] a1
    by (auto simp: exec_simps)
  have v2: "sinv (w_st w2)" "sview (w_st w2) = sview (w_st w)" "w_ids w2 = w_ids w"
    "v_account (sview (w_st w)) (exr_TenantId r, exr_ToAccountId r) = Some toAcc"
    using inSt_keeps [OF GetAccount v1(1) a2] GetAccount_Inr [OF v1(1)] a2 v1
    by (auto simp: exec_simps)
  note v3 = resolveRate_keeps [OF v2(1) rr, unfolded v2]
  let ?Q = "\<lambda>n v resp v'. ta = fa * rate \<and>
    flowDone E (exchangeFlow E r (acc_Currency fromAcc) (acc_Currency toAcc) rate src) n v resp v'"
  have "tinv s (w_st x2) \<and> ?Q (w_ids x1) (view (w_st x1)) fresp (view (w_st x2))"
    if "tinv s (w_st x1)" "exchangeInTx E (st_Tx S) r fa ta (acc_Currency fromAcc)
      (acc_Currency toAcc) rate src x1 = (Inr fresp, x2)" for s x1 x2
    using that tx.executeFlowInTx_Inr [OF that(1)]
    by (auto simp: exchangeInTx_def Let_def exec_simps split: if_splits)
  from runTx_Inr [where Q = ?Q, OF conjunct1 [OF v3] run this] v3
  have "sinv (w_st w')" "?Q (w_ids w) (sview (w_st w)) fresp (sview (w_st w'))" by auto
  with fa ta ne v1(4) v2(4) resp show ?thesis by blast
qed

lemma resolveRate_safe [safe_intros]: "safe sinv sview (resolveRate E S r a b)"
  using resolveRate_keeps by (auto simp: safe_def)

lemma exchangeInTx_safe [safe_intros]:
  "safe sinv sview (runTx S (exchangeInTx E (st_Tx S) r fa ta a b rate src))"
  by (rule runTx_safe)
    (auto simp: exchangeInTx_def Let_def exec_simps split: if_splits
      dest!: tx.executeFlowInTx_Inr [rotated] flowDone_steps)

lemma ExecuteExchange_safe [safe_intros]: "safe sinv sview (ExecuteExchange E S r)"
  by (auto simp: ExecuteExchange_def split: sum.splits intro!: safe_intros GetAccount)

lemma PutFXRate_safe [safe_intros]: "safe sinv sview (PutFXRate E S r)"
  by (auto simp: PutFXRate_def split: sum.splits intro!: safe_intros UpsertFXRate)

lemma GetFXRate_safe [safe_intros]: "safe sinv sview (GetFXRate E S r)"
  by (auto simp: GetFXRate_def split: option.splits intro!: safe_intros GetFXRateAt)

lemma ListFXRates_safe [safe_intros]: "safe sinv sview (ListFXRates E S r)"
  by (auto simp: ListFXRates_def intro!: safe_intros ListFXRates)

end

end
