(* ===== verification/Snapshots.thy ===== *)
theory Snapshots
  imports Flow_Correct
begin

text \<open>
  Balances, snapshots and activity: \<open>get_balance.go\<close>, \<open>take_snapshot.go\<close> and
  \<open>list_activity.go\<close>. A balance as of a time is the latest snapshot before it plus the
  entries posted after the snapshot.
\<close>

definition balanceAsOf :: "('s, 't) store_ops \<Rightarrow> GetBalanceRequest \<Rightarrow> time \<Rightarrow>
    ('s world, connect_error, decimal \<times> decimal \<times> int) exec" where
  "balanceAsOf S r t =
     bindE (mapErr ToConnectError (inSt (st_GetSnapshotBefore S (gbr_TenantId r) (gbr_AccountId r)
        (gbr_Currency r) t))) (\<lambda>snap.
     let (d, c, ver, snapAt) = (case snap of
           None \<Rightarrow> (0, 0, 0, zeroTime)
         | Some sn \<Rightarrow> (bs_PostedDebits sn, bs_PostedCredits sn, bs_Version sn, bs_SnapshotAt sn)) in
     bindE (mapErr ToConnectError (inSt (st_SumEntriesBetween S (gbr_TenantId r) (gbr_AccountId r)
        (gbr_Currency r) snapAt t))) (\<lambda>(addD, addC).
     ret (d + addD, c + addC, ver)))"

definition GetBalance :: "env \<Rightarrow> ('s, 't) store_ops \<Rightarrow> GetBalanceRequest \<Rightarrow>
    ('s world, connect_error, BalanceMsg) exec" where
  "GetBalance E S r =
     bindE (mapErr ToConnectError (inSt (st_GetAccount S (gbr_TenantId r) (gbr_AccountId r)))) (\<lambda>a.
       if acc_Currency a \<noteq> gbr_Currency r
       then throwE (ToConnectError (DomainError CodeAccountCurrencyMismatch
         (''account '' @ acc_ID a @ '' currency='' @ acc_Currency a @ '' req='' @ gbr_Currency r)))
       else
     bindE (case gbr_AsOf r of
              Some t \<Rightarrow> balanceAsOf S r t
            | None \<Rightarrow> mapErr ToConnectError (inSt (st_GetBalance S (gbr_TenantId r) (gbr_AccountId r)
                (gbr_Currency r)))) (\<lambda>(d, c, ver).
       ret \<lparr>bm_AccountId = acc_ID a, bm_Currency = gbr_Currency r,
         bm_PostedDebits = dl_String (env_D E) d, bm_PostedCredits = dl_String (env_D E) c,
         bm_Normalized = dl_String (env_D E) (NormalizedBalance (acc_NormalBalance a) d c),
         bm_Version = ver\<rparr>))"

definition insertSnapshot :: "env \<Rightarrow> ('s, 't) store_ops \<Rightarrow> string \<Rightarrow> time \<Rightarrow> TenantBalanceRow \<Rightarrow> i32 \<Rightarrow>
    ('s world, connect_error, i32) exec" where
  "insertSnapshot E S tn now b taken =
     bindE (NewID E) (\<lambda>i.
     thenE (mapErr ToConnectError (inSt (st_InsertSnapshot S
        \<lparr>bs_ID = i, bs_TenantID = tn, bs_AccountID = tb_AccountID b, bs_Currency = tb_Currency b,
         bs_PostedDebits = tb_PostedDebits b, bs_PostedCredits = tb_PostedCredits b,
         bs_Version = tb_Version b, bs_SnapshotAt = now, bs_CreatedAt = zeroTime\<rparr>)))
     (ret (taken + 1)))"

definition TakeBalanceSnapshot :: "env \<Rightarrow> ('s, 't) store_ops \<Rightarrow> TakeBalanceSnapshotRequest \<Rightarrow>
    ('s world, connect_error, i32) exec" where
  "TakeBalanceSnapshot E S r =
     (let tn = tsr_TenantId r in
      if tn = ''''
      then throwE (ToConnectError (DomainError CodeAccountCurrencyMismatch ''tenant_id required''))
      else
        bindE (Now E) (\<lambda>now.
        if tsr_AccountId r \<noteq> '''' \<and> tsr_Currency r \<noteq> '''' then
          bindE (mapErr ToConnectError (inSt (st_GetBalance S tn (tsr_AccountId r) (tsr_Currency r)))) (\<lambda>(d, c, ver).
            insertSnapshot E S tn now \<lparr>tb_AccountID = tsr_AccountId r, tb_Currency = tsr_Currency r,
              tb_PostedDebits = d, tb_PostedCredits = c, tb_Version = ver\<rparr> 0)
        else
          bindE (mapErr ToConnectError (inSt (st_ListTenantBalances S tn))) (\<lambda>rows.
            forE (insertSnapshot E S tn now) rows 0)))"

definition activityToProto :: "env \<Rightarrow> ActivityRow \<Rightarrow> AccountActivityEntry" where
  "activityToProto E row = \<lparr>aae_JournalId = ar_JournalID row, aae_EntryId = ar_EntryID row,
     aae_Currency = ar_Currency row,
     aae_Direction = (if ar_Direction row = ''CREDIT'' then DIRECTION_CREDIT else DIRECTION_DEBIT),
     aae_Amount = dl_String (env_D E) (ar_Amount row), aae_CreatedAt = ar_CreatedAt row,
     aae_SourceService = ar_SourceService row\<rparr>"

definition ListAccountActivity :: "env \<Rightarrow> ('s, 't) store_ops \<Rightarrow> ListAccountActivityRequest \<Rightarrow>
    ('s world, connect_error, AccountActivityEntry list) exec" where
  "ListAccountActivity E S r =
     (let n = sint (lar_PageSize r);
          limit = (if n \<le> 0 \<or> n > 500 then 100 else n) in
      bindE (mapErr ToConnectError (inSt (st_ListAccountActivity S
         \<lparr>lai_TenantID = lar_TenantId r, lai_AccountID = lar_AccountId r,
          lai_Currency = lar_Currency r, lai_Since = lar_Since r, lai_Until = lar_Until r,
          lai_Limit = limit\<rparr>))) (\<lambda>rows.
        ret (map (activityToProto E) rows)))"

context ledger_store
begin

text \<open>The current balance a client reads is the balance of the ledger, normalised for the
  account.\<close>

lemma GetBalance_now_Inr:
  assumes "sinv (w_st w)" and "gbr_AsOf r = None" and "Snapshots.GetBalance E S r w = (Inr b, w')"
  shows "\<exists>acc. v_account (sview (w_st w)) (gbr_TenantId r, gbr_AccountId r) = Some acc \<and>
    acc_Currency acc = gbr_Currency r \<and>
    (let (d, c) = balanceOf (sview (w_st w)) (gbr_TenantId r, gbr_AccountId r, gbr_Currency r) in
     bm_PostedDebits b = dl_String (env_D E) d \<and> bm_PostedCredits b = dl_String (env_D E) c \<and>
     bm_Normalized b = dl_String (env_D E) (NormalizedBalance (acc_NormalBalance acc) d c))"
proof -
  obtain acc w1 d c ver w2 where
    a: "inSt (st_GetAccount S (gbr_TenantId r) (gbr_AccountId r)) w = (Inr acc, w1)" and
    ccy: "acc_Currency acc = gbr_Currency r" and
    g: "inSt (st_GetBalance S (gbr_TenantId r) (gbr_AccountId r) (gbr_Currency r)) w1 =
      (Inr (d, c, ver), w2)" and
    b: "bm_PostedDebits b = dl_String (env_D E) d" "bm_PostedCredits b = dl_String (env_D E) c"
      "bm_Normalized b = dl_String (env_D E) (NormalizedBalance (acc_NormalBalance acc) d c)"
    using assms(2,3)
    by (clarsimp simp: Snapshots.GetBalance_def bindE_Inr mapErr_Inr ret_Inr split: if_splits)
      (auto simp: throwE_def)
  have v1: "sinv (w_st w1)" "sview (w_st w1) = sview (w_st w)"
    "v_account (sview (w_st w)) (gbr_TenantId r, gbr_AccountId r) = Some acc"
    using inSt_keeps [OF GetAccount assms(1) a] GetAccount_Inr [OF assms(1)] a
    by (auto simp: exec_simps)
  from g obtain x where
    "st_GetBalance S (gbr_TenantId r) (gbr_AccountId r) (gbr_Currency r) (w_st w1) = (Inr (d, c, ver), x)"
    by (auto simp: exec_simps)
  from GetBalance_Inr [OF v1(1) this] v1 ccy b show ?thesis by (auto split: prod.splits)
qed

lemma balanceAsOf_safe [safe_intros]: "safe sinv sview (balanceAsOf S r t)"
  by (auto simp: balanceAsOf_def split: option.splits
    intro!: safe_intros GetSnapshotBefore SumEntriesBetween)

lemma GetBalance_safe [safe_intros]: "safe sinv sview (Snapshots.GetBalance E S r)"
  by (auto simp: Snapshots.GetBalance_def split: option.splits intro!: safe_intros GetAccount GetBalance)

lemma insertSnapshot_safe [safe_intros]: "safe sinv sview (insertSnapshot E S tn now b n)"
  by (auto simp: insertSnapshot_def intro!: safe_intros InsertSnapshot)

lemma TakeBalanceSnapshot_safe [safe_intros]: "safe sinv sview (TakeBalanceSnapshot E S r)"
  by (auto simp: TakeBalanceSnapshot_def Let_def intro!: safe_intros GetBalance ListTenantBalances)

lemma ListAccountActivity_safe [safe_intros]: "safe sinv sview (Snapshots.ListAccountActivity E S r)"
  by (auto simp: Snapshots.ListAccountActivity_def Let_def intro!: safe_intros ListAccountActivity)

end

end
