(* ===== verification/Reconcile.thy ===== *)
theory Reconcile
  imports Flow_Correct
begin

text \<open>
  Reconciliation: the matcher \<open>recon/matcher.go\<close> and the handlers \<open>run_reconciliation.go\<close>,
  \<open>resolve_discrepancy.go\<close>, \<open>ingest_external_records.go\<close>, \<open>get_reconciliation_batch.go\<close>,
  \<open>list_discrepancies.go\<close> and \<open>recon_helpers.go\<close>.

  The Go map \<open>byEventID\<close> is an association list in the order of the journals; the final range
  over it is in that order (Go leaves it open). Counters are 32-bit integers.
\<close>

section \<open>The matcher (matcher.go)\<close>

record MatchResult =
  mr_Ingested :: i32
  mr_Matched :: i32
  mr_Mismatched :: i32
  mr_MissingInLedger :: i32
  mr_MissingInExternal :: i32
  mr_Discrepancies :: "Discrepancy list"

type_synonym by_event = "(string \<times> Journal) list"

definition byEventID :: "Journal list \<Rightarrow> by_event" where
  "byEventID journals = fold (\<lambda>j m. AList.update (jrn_EventID j) j m) journals []"

definition foundDiscrepancy :: "string \<Rightarrow> DiscrepancyType \<Rightarrow> string \<Rightarrow> string \<Rightarrow> Discrepancy" where
  "foundDiscrepancy tn ty extID jid = \<lparr>dis_ID = '''', dis_TenantID = tn, dis_BatchID = '''',
     dis_Type = ty, dis_ExternalRecordID = extID, dis_JournalID = jid, dis_Status = '''',
     dis_ResolutionJournalID = '''', dis_ResolutionNote = '''', dis_ResolvedBy = '''',
     dis_ResolvedAt = zeroTime, dis_CreatedAt = zeroTime\<rparr>"

text \<open>The body of the loop over the external records, and of the loop over what is left.\<close>

definition amountMismatch :: "'t tx_ops \<Rightarrow> string \<Rightarrow> ExternalRecord \<Rightarrow> Journal \<Rightarrow> ('t world, error, bool) exec" where
  "amountMismatch T tn e j =
     (if er_AccountID e \<noteq> '''' then
        bindE (inSt (tx_SumJournalEntries T tn (jrn_ID j) (er_AccountID e) (er_Currency e)))
          (\<lambda>(debits, credits). ret (debits - credits \<noteq> er_Amount e))
      else ret False)"

definition matchRecord :: "'t tx_ops \<Rightarrow> string \<Rightarrow> ExternalRecord \<Rightarrow> by_event \<times> MatchResult \<Rightarrow>
    ('t world, error, by_event \<times> MatchResult) exec" where
  "matchRecord T tn e acc = (case acc of (m, res) \<Rightarrow>
     (case map_of m (er_ExternalRef e) of
        None \<Rightarrow> ret (m, res\<lparr>mr_MissingInLedger := mr_MissingInLedger res + 1,
          mr_Discrepancies := mr_Discrepancies res @
            [foundDiscrepancy tn DiscrepancyMissingInLedger (er_ID e) '''']\<rparr>)
      | Some j \<Rightarrow>
          bindE (amountMismatch T tn e j) (\<lambda>mismatch.
          if mismatch then
            thenE (inSt (tx_UpdateExternalRecordMatch T tn (er_ID e) ExternalMismatched (jrn_ID j)))
              (ret (AList.delete (er_ExternalRef e) m,
                res\<lparr>mr_Mismatched := mr_Mismatched res + 1,
                  mr_Discrepancies := mr_Discrepancies res @
                    [foundDiscrepancy tn DiscrepancyAmountMismatch (er_ID e) (jrn_ID j)]\<rparr>))
          else
            thenE (inSt (tx_UpdateExternalRecordMatch T tn (er_ID e) ExternalMatched (jrn_ID j)))
              (ret (AList.delete (er_ExternalRef e) m, res\<lparr>mr_Matched := mr_Matched res + 1\<rparr>)))))"

definition missingInExternal :: "string \<Rightarrow> Journal \<Rightarrow> MatchResult \<Rightarrow> MatchResult" where
  "missingInExternal tn j res = res\<lparr>mr_MissingInExternal := mr_MissingInExternal res + 1,
     mr_Discrepancies := mr_Discrepancies res @
       [foundDiscrepancy tn DiscrepancyMissingInExternal '''' (jrn_ID j)]\<rparr>"

definition matcherRun :: "'t tx_ops \<Rightarrow> string \<Rightarrow> string \<Rightarrow> time \<Rightarrow> time \<Rightarrow>
    ('t world, error, MatchResult) exec" where
  "matcherRun T tn source windowStart windowEnd =
     bindE (inSt (tx_ListExternalRecordsForRecon T tn source windowStart windowEnd)) (\<lambda>ext.
     bindE (inSt (tx_ListJournalsForRecon T tn source windowStart windowEnd)) (\<lambda>journals.
     bindE (forE (matchRecord T tn) ext (byEventID journals,
        \<lparr>mr_Ingested = of_nat (length ext), mr_Matched = 0, mr_Mismatched = 0,
         mr_MissingInLedger = 0, mr_MissingInExternal = 0, mr_Discrepancies = []\<rparr>)) (\<lambda>(m, res).
     ret (fold (missingInExternal tn) (map snd m) res))))"

section \<open>The handlers\<close>

definition reconBatchToProto :: "ReconciliationBatch \<Rightarrow> ReconciliationBatchMsg" where
  "reconBatchToProto b = \<lparr>rbm_Id = rb_ID b, rbm_TenantId = rb_TenantID b, rbm_Source = rb_Source b,
     rbm_WindowStart = rb_WindowStart b, rbm_WindowEnd = rb_WindowEnd b, rbm_Status = rb_Status b,
     rbm_IngestedCount = rb_IngestedCount b, rbm_MatchedCount = rb_MatchedCount b,
     rbm_MismatchedCount = rb_MismatchedCount b,
     rbm_MissingInLedgerCount = rb_MissingInLedgerCount b,
     rbm_MissingInExternalCount = rb_MissingInExternalCount b, rbm_StartedAt = rb_StartedAt b,
     rbm_CompletedAt = (if rb_CompletedAt b = zeroTime then None else Some (rb_CompletedAt b)),
     rbm_ActorId = rb_ActorID b\<rparr>"

definition discrepancyToProto :: "Discrepancy \<Rightarrow> DiscrepancyMsg" where
  "discrepancyToProto d = \<lparr>dm_Id = dis_ID d, dm_TenantId = dis_TenantID d,
     dm_BatchId = dis_BatchID d, dm_Type = dis_Type d,
     dm_ExternalRecordId = dis_ExternalRecordID d, dm_JournalId = dis_JournalID d,
     dm_Status = dis_Status d, dm_ResolutionJournalId = dis_ResolutionJournalID d,
     dm_ResolutionNote = dis_ResolutionNote d, dm_ResolvedBy = dis_ResolvedBy d,
     dm_ResolvedAt = (if dis_ResolvedAt d = zeroTime then None else Some (dis_ResolvedAt d)),
     dm_CreatedAt = dis_CreatedAt d\<rparr>"

definition openDiscrepancy :: "env \<Rightarrow> 't tx_ops \<Rightarrow> ReconciliationBatch \<Rightarrow> Discrepancy \<Rightarrow> unit \<Rightarrow>
    ('t world, error, unit) exec" where
  "openDiscrepancy E T batch d0 u =
     bindE (NewID E) (\<lambda>i.
     bindE (Now E) (\<lambda>createdAt.
     let d = d0\<lparr>dis_ID := i, dis_BatchID := rb_ID batch, dis_Status := DiscrepancyOpen,
           dis_CreatedAt := createdAt\<rparr> in
     thenE (inSt (tx_InsertDiscrepancy T d))
       (insertEvent E T (rb_TenantID batch) i ''DISCREPANCY_OPENED'' (i @ '':opened'')
         (JObj [(''batch_id'', JStr (rb_ID batch)), (''discrepancy_id'', JStr i),
           (''type'', JStr (dis_Type d))]))))"

definition newBatch :: "RunReconciliationRequest \<Rightarrow> string \<Rightarrow> time \<Rightarrow> time \<Rightarrow> time \<Rightarrow> ReconciliationBatch" where
  "newBatch r i windowStart windowEnd startedAt = \<lparr>rb_ID = i, rb_TenantID = rrr_TenantId r,
     rb_IdempotencyKey = rrr_IdempotencyKey r, rb_Source = rrr_Source r,
     rb_WindowStart = windowStart, rb_WindowEnd = windowEnd, rb_Status = BatchRunning,
     rb_IngestedCount = 0, rb_MatchedCount = 0, rb_MismatchedCount = 0,
     rb_MissingInLedgerCount = 0, rb_MissingInExternalCount = 0, rb_StartedAt = startedAt,
     rb_CompletedAt = zeroTime, rb_ActorID = rrr_ActorId r\<rparr>"

definition completedBatch :: "ReconciliationBatch \<Rightarrow> MatchResult \<Rightarrow> time \<Rightarrow> ReconciliationBatch" where
  "completedBatch b res completedAt = b\<lparr>rb_Status := BatchCompleted,
     rb_IngestedCount := mr_Ingested res, rb_MatchedCount := mr_Matched res,
     rb_MismatchedCount := mr_Mismatched res, rb_MissingInLedgerCount := mr_MissingInLedger res,
     rb_MissingInExternalCount := mr_MissingInExternal res, rb_CompletedAt := completedAt\<rparr>"

definition runReconInTx :: "env \<Rightarrow> 't tx_ops \<Rightarrow> RunReconciliationRequest \<Rightarrow> time \<Rightarrow> time \<Rightarrow>
    ('t world, error, ReconciliationBatch) exec" where
  "runReconInTx E T r windowStart windowEnd =
     bindE (inSt (tx_GetReconBatchByIdempotency T (rrr_TenantId r) (rrr_IdempotencyKey r))) (\<lambda>existing.
       case existing of
         Some b \<Rightarrow>
           if rb_Status b \<noteq> BatchCompleted
           then throwE (DomainError CodeFlowConflict (''batch not completed: '' @ rb_Status b))
           else ret b
       | None \<Rightarrow>
           bindE (NewID E) (\<lambda>i.
           bindE (Now E) (\<lambda>startedAt.
           let batch = newBatch r i windowStart windowEnd startedAt in
           thenE (inSt (tx_InsertReconBatch T batch))
           (bindE (matcherRun T (rrr_TenantId r) (rrr_Source r) windowStart windowEnd) (\<lambda>res.
            thenE (forE (openDiscrepancy E T batch) (mr_Discrepancies res) ())
            (bindE (Now E) (\<lambda>completedAt.
             let final = completedBatch batch res completedAt in
             thenE (inSt (tx_CompleteReconBatch T final))
             (thenE (insertEvent E T (rb_TenantID batch) i ''RECON_BATCH_COMPLETED'' (i @ '':completed'')
                (JObj [(''batch_id'', JStr i), (''matched'', JNum (of_int (sint (mr_Matched res)))),
                  (''mismatched'', JNum (of_int (sint (mr_Mismatched res)))),
                  (''missing_in_external'', JNum (of_int (sint (mr_MissingInExternal res)))),
                  (''missing_in_ledger'', JNum (of_int (sint (mr_MissingInLedger res)))),
                  (''source'', JStr (rb_Source batch))]))
              (ret final)))))))))"

definition RunReconciliation :: "env \<Rightarrow> ('s, 't) store_ops \<Rightarrow> RunReconciliationRequest \<Rightarrow>
    ('s world, connect_error, ReconciliationBatchMsg) exec" where
  "RunReconciliation E S r =
     bindE (Now E) (\<lambda>now1.
     let windowStart = (case rrr_WindowStart r of None \<Rightarrow> now1 | Some t \<Rightarrow> t) in
     bindE (Now E) (\<lambda>now2.
     let windowEnd = (case rrr_WindowEnd r of None \<Rightarrow> now2 | Some t \<Rightarrow> t) in
     bindE (mapErr ToConnectError (runTx S (runReconInTx E (st_Tx S) r windowStart windowEnd))) (\<lambda>b.
       ret (reconBatchToProto b))))"

definition adjustmentFlow :: "ResolveDiscrepancyRequest \<Rightarrow> string \<Rightarrow> ExecuteFlowRequest \<Rightarrow>
    ExecuteFlowRequest" where
  "adjustmentFlow r did adj =
     adj\<lparr>efr_IdempotencyKey := did @ '':resolve:'' @ rdr_IdempotencyKey r\<rparr>"

definition resolveInTx :: "env \<Rightarrow> 't tx_ops \<Rightarrow> ResolveDiscrepancyRequest \<Rightarrow>
    ('t world, error, Discrepancy) exec" where
  "resolveInTx E T r =
     bindE (inSt (tx_LockDiscrepancy T (rdr_TenantId r) (rdr_DiscrepancyId r))) (\<lambda>d.
       if DiscrepancyStatus_Closed (dis_Status d)
       then throwE (DomainError CodeDiscrepancyClosed (''status='' @ dis_Status d))
       else
         bindE (case rdr_Adjustment r of
                  Some adj \<Rightarrow>
                    if rdr_Resolution r = ''RESOLVED'' then
                      bindE (executeFlowInTx E T (adjustmentFlow r (dis_ID d) adj))
                        (\<lambda>flowResp. ret (firstJournalID flowResp))
                    else ret ''''
                | None \<Rightarrow> ret '''') (\<lambda>resolutionJournalID.
         bindE (Now E) (\<lambda>resolvedAt.
         let d' = d\<lparr>dis_Status := rdr_Resolution r, dis_ResolutionJournalID := resolutionJournalID,
               dis_ResolutionNote := rdr_Note r, dis_ResolvedBy := rdr_ActorId r,
               dis_ResolvedAt := resolvedAt\<rparr> in
         thenE (inSt (tx_ResolveDiscrepancyRow T d'))
         (thenE (insertEvent E T (dis_TenantID d') (dis_ID d')
            (if dis_Status d' = DiscrepancyIgnored then ''DISCREPANCY_IGNORED''
             else ''DISCREPANCY_RESOLVED'')
            (dis_ID d' @ '':'' @ dis_Status d' @ '':'' @ rdr_IdempotencyKey r)
            (JObj [(''discrepancy_id'', JStr (dis_ID d')),
              (''resolution_journal_id'', JStr (dis_ResolutionJournalID d')),
              (''status'', JStr (dis_Status d'))]))
          (ret d')))))"

definition ResolveDiscrepancy :: "env \<Rightarrow> ('s, 't) store_ops \<Rightarrow> ResolveDiscrepancyRequest \<Rightarrow>
    ('s world, connect_error, DiscrepancyMsg) exec" where
  "ResolveDiscrepancy E S r =
     (if rdr_Resolution r \<noteq> ''RESOLVED'' \<and> rdr_Resolution r \<noteq> ''IGNORED''
      then throwE (ToConnectError (DomainError CodeAccountCurrencyMismatch
        ''resolution must be RESOLVED or IGNORED''))
      else bindE (mapErr ToConnectError (runTx S (resolveInTx E (st_Tx S) r))) (\<lambda>d.
        ret (discrepancyToProto d)))"

definition ingestRecord :: "env \<Rightarrow> ('s, 't) store_ops \<Rightarrow> string \<Rightarrow> ExternalRecordInput \<Rightarrow> i32 \<times> i32 \<Rightarrow>
    ('s world, connect_error, i32 \<times> i32) exec" where
  "ingestRecord E S tn x acc =
     (case ParseAmount (env_D E) (eri_Amount x) of
        Inl err \<Rightarrow> throwE (ToConnectError (DomainError CodeUnbalancedJournal
          (''amount: '' @ Error_string err)))
      | Inr amt \<Rightarrow>
          bindE (Now E) (\<lambda>now.
          bindE (NewID E) (\<lambda>i.
          bindE (mapErr ToConnectError (inSt (st_InsertExternalRecord S
             \<lparr>er_ID = i, er_TenantID = tn, er_Source = eri_Source x,
              er_ExternalRef = eri_ExternalRef x, er_Amount = amt, er_Currency = eri_Currency x,
              er_OccurredAt = (case eri_OccurredAt x of None \<Rightarrow> now | Some t \<Rightarrow> t),
              er_AccountID = eri_AccountId x, er_RawPayload = structToMap (eri_RawPayload x),
              er_MatchStatus = '''', er_MatchedJournalID = '''', er_CreatedAt = zeroTime\<rparr>))) (\<lambda>ok.
          ret (if ok then (fst acc + 1, snd acc) else (fst acc, snd acc + 1))))))"

definition IngestExternalRecords :: "env \<Rightarrow> ('s, 't) store_ops \<Rightarrow> IngestExternalRecordsRequest \<Rightarrow>
    ('s world, connect_error, i32 \<times> i32) exec" where
  "IngestExternalRecords E S r = forE (ingestRecord E S (ier_TenantId r)) (ier_Records r) (0, 0)"

definition GetReconciliationBatch :: "('s, 't) store_ops \<Rightarrow> string \<Rightarrow> string \<Rightarrow>
    ('s world, connect_error, ReconciliationBatchMsg) exec" where
  "GetReconciliationBatch S tn bid =
     bindE (mapErr ToConnectError (inSt (st_GetReconBatch S tn bid))) (\<lambda>b. ret (reconBatchToProto b))"

definition ListDiscrepancies :: "('s, 't) store_ops \<Rightarrow> ListDiscrepanciesRequest \<Rightarrow>
    ('s world, connect_error, DiscrepancyMsg list) exec" where
  "ListDiscrepancies S r =
     bindE (mapErr ToConnectError (inSt (st_ListDiscrepancies S
        \<lparr>ldi_TenantID = ldr_TenantId r, ldi_BatchID = ldr_BatchId r, ldi_Status = ldr_Status r,
         ldi_Limit = sint (ldr_PageSize r)\<rparr>))) (\<lambda>rows.
       ret (map discrepancyToProto rows))"

section \<open>Every record and every journal is accounted for\<close>

definition countType :: "DiscrepancyType \<Rightarrow> Discrepancy list \<Rightarrow> nat" where
  "countType ty ds = length (filter (\<lambda>d. dis_Type d = ty) ds)"

lemma countType_simps [simp]:
  "countType ty [] = 0"
  "countType ty (ds @ [d]) = countType ty ds + (if dis_Type d = ty then 1 else 0)"
  by (simp_all add: countType_def)

lemma foundDiscrepancy_Type [simp]: "dis_Type (foundDiscrepancy tn ty e j) = ty"
  by (simp add: foundDiscrepancy_def)

abbreviation mismatchesIn :: "MatchResult \<Rightarrow> nat" where
  "mismatchesIn res \<equiv> countType DiscrepancyAmountMismatch (mr_Discrepancies res)"
abbreviation missingLedgerIn :: "MatchResult \<Rightarrow> nat" where
  "missingLedgerIn res \<equiv> countType DiscrepancyMissingInLedger (mr_Discrepancies res)"
abbreviation missingExternalIn :: "MatchResult \<Rightarrow> nat" where
  "missingExternalIn res \<equiv> countType DiscrepancyMissingInExternal (mr_Discrepancies res)"

text \<open>The counters say what the list of discrepancies holds.\<close>

definition tallied :: "MatchResult \<Rightarrow> bool" where
  "tallied res \<longleftrightarrow> mr_Mismatched res = of_nat (mismatchesIn res) \<and>
     mr_MissingInLedger res = of_nat (missingLedgerIn res) \<and>
     mr_MissingInExternal res = of_nat (missingExternalIn res) \<and>
     length (mr_Discrepancies res) = mismatchesIn res + missingLedgerIn res + missingExternalIn res"

lemma length_AList_delete:
  "distinct (map fst m) \<Longrightarrow> map_of m k = Some v \<Longrightarrow> length m = Suc (length (AList.delete k m))"
proof (induction m)
  case (Cons p m)
  from Cons.prems(1) have "fst p \<notin> fst ` set m" by simp
  with Cons show ?case by (auto simp: AList.delete_idem split: if_splits)
qed simp

lemma distinct_byEventID: "distinct (map fst (byEventID js))"
proof -
  have "distinct (map fst m) \<Longrightarrow> distinct (map fst (fold (\<lambda>j m. AList.update (jrn_EventID j) j m) js m))" for m
    by (induction js arbitrary: m) (auto intro: distinct_update)
  then show ?thesis by (simp add: byEventID_def)
qed

lemma keys_byEventID: "set (map fst (byEventID js)) = jrn_EventID ` set js"
proof -
  have "fst ` set (fold (\<lambda>j m. AList.update (jrn_EventID j) j m) js m) = fst ` set m \<union> jrn_EventID ` set js" for m
    by (induction js arbitrary: m) (auto simp: dom_update image_Un)
  then show ?thesis by (simp add: byEventID_def)
qed

lemma missingInExternal_fold:
  "tallied res \<Longrightarrow> (let res' = fold (missingInExternal tn) js res in tallied res' \<and>
     missingExternalIn res' = missingExternalIn res + length js \<and>
     mismatchesIn res' = mismatchesIn res \<and> missingLedgerIn res' = missingLedgerIn res \<and>
     mr_Matched res' = mr_Matched res \<and> mr_Ingested res' = mr_Ingested res)"
proof (induction js arbitrary: res)
  case (Cons j js)
  have "tallied (missingInExternal tn j res)"
    using Cons.prems by (simp add: tallied_def missingInExternal_def)
  from Cons.IH [OF this] show ?case by (simp add: Let_def missingInExternal_def)
qed (simp add: Let_def)

context ledger_tx
begin

lemma matchRecord_Inr:
  assumes "inv (w_st w)" and "matchRecord T tn e (m, res) w = (Inr (m', res'), w')"
    and "distinct (map fst m)" and "tallied res"
  shows "inv (w_st w') \<and> view (w_st w') = view (w_st w) \<and> distinct (map fst m') \<and> tallied res' \<and>
    mr_Ingested res' = mr_Ingested res \<and> missingExternalIn res' = missingExternalIn res \<and>
    (\<exists>k. mr_Matched res' = mr_Matched res + of_nat k \<and>
       length m + mismatchesIn res = length m' + k + mismatchesIn res' \<and>
       1 + mismatchesIn res + missingLedgerIn res = k + mismatchesIn res' + missingLedgerIn res')"
proof (cases "map_of m (er_ExternalRef e)")
  case None
  with assms show ?thesis
    by (auto simp: matchRecord_def exec_simps tallied_def intro: exI [of _ 0])
next
  case (Some j)
  then obtain mis w1 where a: "amountMismatch T tn e j w = (Inr mis, w1)"
    using assms(2) by (auto simp: matchRecord_def exec_simps)
  have w1: "inv (w_st w1)" "view (w_st w1) = view (w_st w)"
    using a assms(1)
    by (auto simp: amountMismatch_def exec_simps dest!: SumJournalEntries [rotated] split: if_splits)
  let ?status = "if mis then ExternalMismatched else ExternalMatched"
  obtain x where
    u: "tx_UpdateExternalRecordMatch T tn (er_ID e) ?status (jrn_ID j) (w_st w1) = (Inr (), x)"
      "w_st w' = x" "m' = AList.delete (er_ExternalRef e) m" and
    r: "mis \<Longrightarrow> res' = res\<lparr>mr_Mismatched := mr_Mismatched res + 1,
          mr_Discrepancies := mr_Discrepancies res @
            [foundDiscrepancy tn DiscrepancyAmountMismatch (er_ID e) (jrn_ID j)]\<rparr>"
      "\<not> mis \<Longrightarrow> res' = res\<lparr>mr_Matched := mr_Matched res + 1\<rparr>"
    using assms(2) Some a by (cases mis) (auto simp: matchRecord_def exec_simps)
  have "inv (w_st w')" "view (w_st w') = view (w_st w)"
    using UpdateExternalRecordMatch [OF w1(1) u(1)] w1 u by auto
  moreover have "length m = Suc (length m')" "distinct (map fst m')"
    using length_AList_delete [OF assms(3) Some] assms(3) by (auto simp: u(3) distinct_delete)
  ultimately show ?thesis
    using r assms(4)
    by (cases mis) (auto simp: tallied_def intro: exI [of _ 0] exI [of _ "Suc 0"])
qed

lemma matchLoop_Inr:
  assumes "inv (w_st w)" and "forE (matchRecord T tn) ext (m, res) w = (Inr (m', res'), w')"
    and "distinct (map fst m)" and "tallied res"
  shows "inv (w_st w') \<and> view (w_st w') = view (w_st w) \<and> tallied res' \<and>
    mr_Ingested res' = mr_Ingested res \<and> missingExternalIn res' = missingExternalIn res \<and>
    (\<exists>k. mr_Matched res' = mr_Matched res + of_nat k \<and>
       length m + mismatchesIn res = length m' + k + mismatchesIn res' \<and>
       length ext + mismatchesIn res + missingLedgerIn res = k + mismatchesIn res' + missingLedgerIn res')"
  using assms
proof (induction ext arbitrary: m res w)
  case Nil
  then show ?case by (auto simp: exec_simps intro: exI [of _ 0])
next
  case (Cons e ext)
  from Cons.prems(2) obtain m1 res1 w1 where
    1: "matchRecord T tn e (m, res) w = (Inr (m1, res1), w1)"
      "forE (matchRecord T tn) ext (m1, res1) w1 = (Inr (m', res'), w')"
    by (auto simp: exec_simps)
  from matchRecord_Inr [OF Cons.prems(1) 1(1) Cons.prems(3,4)] obtain k where
    k: "inv (w_st w1)" "view (w_st w1) = view (w_st w)" "distinct (map fst m1)" "tallied res1"
      "mr_Ingested res1 = mr_Ingested res" "missingExternalIn res1 = missingExternalIn res"
      "mr_Matched res1 = mr_Matched res + of_nat k"
      "length m + mismatchesIn res = length m1 + k + mismatchesIn res1"
      "1 + mismatchesIn res + missingLedgerIn res = k + mismatchesIn res1 + missingLedgerIn res1"
    by blast
  from Cons.IH [OF k(1) 1(2) k(3,4)] obtain k' where
    k': "inv (w_st w')" "view (w_st w') = view (w_st w1)" "tallied res'"
      "mr_Ingested res' = mr_Ingested res1" "missingExternalIn res' = missingExternalIn res1"
      "mr_Matched res' = mr_Matched res1 + of_nat k'"
      "length m1 + mismatchesIn res1 = length m' + k' + mismatchesIn res'"
      "length ext + mismatchesIn res1 + missingLedgerIn res1 = k' + mismatchesIn res' + missingLedgerIn res'"
    by blast
  show ?case
    using k k' by (intro conjI exI [of _ "k + k'"]) (auto simp: algebra_simps)
qed

text \<open>With \<open>k\<close> matches: every external record read is matched, mismatched or missing in the
  ledger, and every event of a journal read is matched, mismatched or missing outside.\<close>

lemma matcherRun_Inr:
  assumes "inv (w_st w)" and "matcherRun T tn source ws we w = (Inr res, w')"
  shows "inv (w_st w') \<and> view (w_st w') = view (w_st w) \<and>
    (\<exists>ext journals k x1 x2. tx_ListExternalRecordsForRecon T tn source ws we (w_st w) = (Inr ext, x1) \<and>
       tx_ListJournalsForRecon T tn source ws we x1 = (Inr journals, x2) \<and> tallied res \<and>
       mr_Ingested res = of_nat (length ext) \<and> mr_Matched res = of_nat k \<and>
       length ext = k + mismatchesIn res + missingLedgerIn res \<and>
       card (jrn_EventID ` set journals) = k + mismatchesIn res + missingExternalIn res)"
proof -
  let ?r0 = "\<lambda>ext. \<lparr>mr_Ingested = of_nat (length ext), mr_Matched = 0, mr_Mismatched = 0,
         mr_MissingInLedger = 0, mr_MissingInExternal = 0, mr_Discrepancies = []\<rparr>"
  obtain ext :: "ExternalRecord list" and x1 journals x2 m1 res1 where
    e: "tx_ListExternalRecordsForRecon T tn source ws we (w_st w) = (Inr ext, x1)" and
    j: "tx_ListJournalsForRecon T tn source ws we x1 = (Inr journals, x2)" and
    l: "forE (matchRecord T tn) ext (byEventID journals, ?r0 ext) (w\<lparr>w_st := x2\<rparr>) =
      (Inr (m1, res1), w')" and
    r: "res = fold (missingInExternal tn) (map snd m1) res1"
    using assms(2) by (auto simp: matcherRun_def exec_simps)
  from ListExternalRecordsForRecon [OF assms(1) e] have 1: "inv x1" "view x1 = view (w_st w)" by auto
  from ListJournalsForRecon [OF 1(1) j] 1 have 2: "inv x2" "view x2 = view (w_st w)" by auto
  have "tallied (?r0 ext)" by (simp add: tallied_def)
  from matchLoop_Inr [OF _ l distinct_byEventID this] 2 obtain k where
    k: "inv (w_st w')" "view (w_st w') = view (w_st w)" "tallied res1"
      "mr_Ingested res1 = of_nat (length ext)" "missingExternalIn res1 = 0" "mr_Matched res1 = of_nat k"
      "length (byEventID journals) = length m1 + k + mismatchesIn res1"
      "length ext = k + mismatchesIn res1 + missingLedgerIn res1"
    by auto
  have "card (jrn_EventID ` set journals) = length (byEventID journals)"
    using distinct_card [OF distinct_byEventID] keys_byEventID by (metis length_map)
  with missingInExternal_fold [OF k(3), of tn "map snd m1"] k e j show ?thesis
    by (intro conjI exI [of _ ext] exI [of _ journals] exI [of _ k] exI [of _ x1] exI [of _ x2])
      (auto simp: r Let_def)
qed

text \<open>A batch only adds events to the outbox.\<close>

lemma openDiscrepancy_Inr:
  assumes "inv (w_st w)" and "openDiscrepancy E T batch d u w = (Inr u', w')"
  shows "inv (w_st w') \<and> ledger_steps (view (w_st w)) (view (w_st w'))"
proof -
  obtain d' x w1 w2 i pl where
    i: "tx_InsertDiscrepancy T d' (w_st w) = (Inr (), x)" and
    e: "insertEvent E T (rb_TenantID batch) i ''DISCREPANCY_OPENED'' (i @ '':opened'') pl w1 = (Inr u', w')"
    and w1: "w_st w1 = x"
    using assms(2) by (clarsimp simp: openDiscrepancy_def Let_def exec_simps)
  from InsertDiscrepancy [OF assms(1) i] w1 insertEvent_Inr [OF _ e] show ?thesis
    by (auto intro: r_into_rtranclp ledger_step.notify)
qed

lemma openLoop_Inr:
  "inv (w_st w) \<Longrightarrow> forE (openDiscrepancy E T batch) ds u w = (Inr u', w') \<Longrightarrow>
     inv (w_st w') \<and> ledger_steps (view (w_st w)) (view (w_st w'))"
proof (induction ds arbitrary: u w)
  case (Cons d ds)
  then obtain u1 w1 where 1: "openDiscrepancy E T batch d u w = (Inr u1, w1)"
    "forE (openDiscrepancy E T batch) ds u1 w1 = (Inr u', w')"
    by (auto simp: exec_simps)
  from openDiscrepancy_Inr [OF Cons.prems(1) 1(1)] Cons.IH [OF _ 1(2)] show ?case
    by (meson rtranclp_trans)
qed (simp add: exec_simps)

lemma runReconInTx_Inr:
  assumes "inv (w_st w)" and "runReconInTx E T r ws we w = (Inr b, w')"
  shows "inv (w_st w') \<and> ledger_steps (view (w_st w)) (view (w_st w'))"
proof -
  obtain bo x where g: "tx_GetReconBatchByIdempotency T (rrr_TenantId r) (rrr_IdempotencyKey r) (w_st w) = (Inr bo, x)"
    using assms(2) by (auto simp: runReconInTx_def exec_simps)
  note 0 = GetReconBatchByIdempotency [OF assms(1) g]
  show ?thesis
  proof (cases bo)
    case (Some b')
    with assms(2) g 0 show ?thesis by (auto simp: runReconInTx_def exec_simps split: if_splits)
  next
    case None
    then obtain batch x1 w1 res w2 w3 w4 b' x5 w5 i pl where
      ib: "tx_InsertReconBatch T batch x = (Inr (), x1)" and
      m: "matcherRun T (rrr_TenantId r) (rrr_Source r) ws we w1 = (Inr res, w2)" and
      w1: "w_st w1 = x1" and
      op: "forE (openDiscrepancy E T batch) (mr_Discrepancies res) () w2 = (Inr (), w3)" and
      c: "tx_CompleteReconBatch T b' (w_st w3) = (Inr (), x5)" and
      e: "insertEvent E T (rb_TenantID batch) i ''RECON_BATCH_COMPLETED'' (i @ '':completed'') pl w5 = (Inr (), w')"
      and w5: "w_st w5 = x5"
      using assms(2) g by (clarsimp simp: runReconInTx_def Let_def exec_simps)
    from InsertReconBatch [OF _ ib] 0 w1 have 1: "inv (w_st w1)" "view (w_st w1) = view (w_st w)" by auto
    from matcherRun_Inr [OF 1(1) m] 1 have 2: "inv (w_st w2)" "view (w_st w2) = view (w_st w)" by auto
    from openLoop_Inr [OF 2(1) op] 2 have 3: "inv (w_st w3)" "ledger_steps (view (w_st w)) (view (w_st w3))" by auto
    from CompleteReconBatch [OF 3(1) c] w5 have 5: "inv (w_st w5)" "view (w_st w5) = view (w_st w3)" by auto
    from insertEvent_Inr [OF 5(1) e] 5 have "inv (w_st w')" "ledger_step (view (w_st w3)) (view (w_st w'))"
      by (auto intro: ledger_step.notify)
    with 3 show ?thesis by (meson rtranclp.rtrancl_into_rtrancl)
  qed
qed

lemma resolveInTx_Inr:
  assumes "inv (w_st w)" and "resolveInTx E T r w = (Inr d', w')"
  shows "inv (w_st w') \<and> ledger_steps (view (w_st w)) (view (w_st w')) \<and>
    dis_Status d' = rdr_Resolution r"
proof -
  obtain d x w1 jid w2 d1 x3 w3 et pl where
    l: "tx_LockDiscrepancy T (rdr_TenantId r) (rdr_DiscrepancyId r) (w_st w) = (Inr d, x)" and
    b: "(case rdr_Adjustment r of
           Some adj \<Rightarrow> if rdr_Resolution r = ''RESOLVED'' then
               bindE (executeFlowInTx E T (adjustmentFlow r (dis_ID d) adj))
                 (\<lambda>flowResp. ret (firstJournalID flowResp))
             else ret ''''
         | None \<Rightarrow> ret '''') (w\<lparr>w_st := x\<rparr>) = (Inr jid, w1)" and
    s: "tx_ResolveDiscrepancyRow T d1 (w_st w1) = (Inr (), x3)" and
    e: "insertEvent E T (dis_TenantID d) (dis_ID d) et (dis_ID d @ '':'' @ rdr_Resolution r @ '':'' @
      rdr_IdempotencyKey r) pl w3 = (Inr (), w')" and w3: "w_st w3 = x3" and
    d': "dis_Status d' = rdr_Resolution r"
    using assms(2) by (clarsimp simp: resolveInTx_def Let_def exec_simps split: if_splits)
  note 0 = LockDiscrepancy [OF assms(1) l]
  have 1: "inv (w_st w1) \<and> ledger_steps (view (w_st w)) (view (w_st w1))"
    using b 0 executeFlowInTx_Inr [of "w\<lparr>w_st := x\<rparr>" E]
    by (auto simp: exec_simps split: option.splits if_splits intro: flowDone_steps)
  from ResolveDiscrepancyRow [OF conjunct1 [OF 1] s] w3
  have 3: "inv (w_st w3)" "view (w_st w3) = view (w_st w1)" by auto
  from insertEvent_Inr [OF 3(1) e] 3 have "inv (w_st w')" "ledger_step (view (w_st w1)) (view (w_st w'))"
    by (auto intro: ledger_step.notify)
  with 1 d' show ?thesis by (meson rtranclp.rtrancl_into_rtrancl)
qed

end

context ledger_store
begin

lemma RunReconciliation_safe [safe_intros]: "safe sinv sview (RunReconciliation E S r)"
proof -
  have "safe sinv sview (runTx S (runReconInTx E (st_Tx S) r ws we))" for ws we
    by (rule runTx_safe) (auto dest!: tx.runReconInTx_Inr [rotated])
  then show ?thesis by (auto simp: RunReconciliation_def Let_def intro!: safe_intros)
qed

lemma ResolveDiscrepancy_safe [safe_intros]: "safe sinv sview (ResolveDiscrepancy E S r)"
proof -
  have "safe sinv sview (runTx S (resolveInTx E (st_Tx S) r))"
    by (rule runTx_safe) (auto dest!: tx.resolveInTx_Inr [rotated])
  then show ?thesis by (auto simp: ResolveDiscrepancy_def intro!: safe_intros)
qed

lemma IngestExternalRecords_safe [safe_intros]: "safe sinv sview (IngestExternalRecords E S r)"
  by (auto simp: IngestExternalRecords_def ingestRecord_def split: sum.splits
    intro!: safe_intros InsertExternalRecord)

lemma GetReconciliationBatch_safe [safe_intros]: "safe sinv sview (GetReconciliationBatch S tn b)"
  by (auto simp: GetReconciliationBatch_def intro!: safe_intros GetReconBatch)

lemma ListDiscrepancies_safe [safe_intros]: "safe sinv sview (Reconcile.ListDiscrepancies S r)"
  by (auto simp: Reconcile.ListDiscrepancies_def intro!: safe_intros ListDiscrepancies)

end

end
