(* ===== verification/Client.thy ===== *)
theory Client
  imports Accounts Reservations Exchange Snapshots Reconcile
begin

text \<open>
  The client surface of \<open>pkg/dledger\<close>.

  \<^item> \<open>client\<close> is the Go interface \<open>Client\<close> (\<open>client.go\<close>), one method per RPC; \<open>embeddedClient\<close>
    (\<open>embedded.go\<close>) delegates every one to the server.
  \<^item> \<open>sdk_error\<close> is a Go error of the SDK: the Connect error of a call under the prefixes
    \<open>fmt.Errorf\<close> put around it; \<open>IsErrCode\<close> (\<open>errors.go\<close>) looks for its error code header.
\<close>

section \<open>The interface (client.go, embedded.go)\<close>

record 'c client =
  cl_CreateAccount :: "CreateAccountRequest \<Rightarrow> ('c, connect_error, AccountMsg) exec"
  cl_GetAccount :: "string \<Rightarrow> string \<Rightarrow> ('c, connect_error, AccountMsg) exec"
  cl_GetBalance :: "GetBalanceRequest \<Rightarrow> ('c, connect_error, BalanceMsg) exec"
  cl_PostJournal :: "PostJournalRequest \<Rightarrow> ('c, connect_error, PostJournalResponse) exec"
  cl_ExecuteFlow :: "ExecuteFlowRequest \<Rightarrow> ('c, connect_error, ExecuteFlowResponse) exec"
  cl_GetFlow :: "string \<Rightarrow> string \<Rightarrow> ('c, connect_error, ExecuteFlowResponse) exec"
  cl_ListAccountActivity :: "ListAccountActivityRequest \<Rightarrow>
    ('c, connect_error, AccountActivityEntry list) exec"
  cl_TakeBalanceSnapshot :: "TakeBalanceSnapshotRequest \<Rightarrow> ('c, connect_error, i32) exec"
  cl_CreateReservation :: "CreateReservationRequest \<Rightarrow> ('c, connect_error, ReservationMsg) exec"
  cl_CommitReservation :: "CommitReservationRequest \<Rightarrow> ('c, connect_error, ReservationMsg) exec"
  cl_ReleaseReservation :: "ReleaseReservationRequest \<Rightarrow> ('c, connect_error, ReservationMsg) exec"
  cl_GetReservation :: "string \<Rightarrow> string \<Rightarrow> ('c, connect_error, ReservationMsg) exec"
  cl_ListReservations :: "ListReservationsRequest \<Rightarrow> ('c, connect_error, ReservationMsg list) exec"
  cl_ExecuteExchange :: "ExecuteExchangeRequest \<Rightarrow>
    ('c, connect_error, ExecuteExchangeResponse) exec"
  cl_PutFXRate :: "PutFXRateRequest \<Rightarrow> ('c, connect_error, FXRateMsg) exec"
  cl_GetFXRate :: "GetFXRateRequest \<Rightarrow> ('c, connect_error, FXRateMsg) exec"
  cl_ListFXRates :: "ListFXRatesRequest \<Rightarrow> ('c, connect_error, FXRateMsg list) exec"
  cl_IngestExternalRecords :: "IngestExternalRecordsRequest \<Rightarrow> ('c, connect_error, i32 \<times> i32) exec"
  cl_RunReconciliation :: "RunReconciliationRequest \<Rightarrow>
    ('c, connect_error, ReconciliationBatchMsg) exec"
  cl_GetReconciliationBatch :: "string \<Rightarrow> string \<Rightarrow> ('c, connect_error, ReconciliationBatchMsg) exec"
  cl_ListDiscrepancies :: "ListDiscrepanciesRequest \<Rightarrow> ('c, connect_error, DiscrepancyMsg list) exec"
  cl_ResolveDiscrepancy :: "ResolveDiscrepancyRequest \<Rightarrow> ('c, connect_error, DiscrepancyMsg) exec"

definition embeddedClient :: "env \<Rightarrow> ('s, 't) store_ops \<Rightarrow> 's world client" where
  "embeddedClient E S = \<lparr>cl_CreateAccount = CreateAccount E S, cl_GetAccount = GetAccount S,
     cl_GetBalance = GetBalance E S, cl_PostJournal = PostJournal E S,
     cl_ExecuteFlow = ExecuteFlow E S, cl_GetFlow = GetFlow S,
     cl_ListAccountActivity = ListAccountActivity E S,
     cl_TakeBalanceSnapshot = TakeBalanceSnapshot E S,
     cl_CreateReservation = CreateReservation E S, cl_CommitReservation = CommitReservation E S,
     cl_ReleaseReservation = ReleaseReservation E S, cl_GetReservation = GetReservation E S,
     cl_ListReservations = ListReservations E S, cl_ExecuteExchange = ExecuteExchange E S,
     cl_PutFXRate = PutFXRate E S, cl_GetFXRate = GetFXRate E S, cl_ListFXRates = ListFXRates E S,
     cl_IngestExternalRecords = IngestExternalRecords E S,
     cl_RunReconciliation = RunReconciliation E S,
     cl_GetReconciliationBatch = GetReconciliationBatch S,
     cl_ListDiscrepancies = ListDiscrepancies S, cl_ResolveDiscrepancy = ResolveDiscrepancy E S\<rparr>"

section \<open>Errors of the SDK (errors.go)\<close>

datatype sdk_error = Rpc connect_error | Plain string | Wrap string sdk_error

fun rpcOf :: "sdk_error \<Rightarrow> connect_error option" where
  "rpcOf (Rpc ce) = Some ce"
| "rpcOf (Plain msg) = None"
| "rpcOf (Wrap msg e) = rpcOf e"

text \<open>\<open>ce.Meta().Get("ledger-error-code")\<close>: the empty string when the header is not set.\<close>

definition codeHeader :: "connect_error \<Rightarrow> string" where
  "codeHeader ce = (case ledgerErrorCode ce of None \<Rightarrow> '''' | Some c \<Rightarrow> codeString c)"

definition IsErrCode :: "sdk_error option \<Rightarrow> string \<Rightarrow> bool" where
  "IsErrCode err code = (case err of None \<Rightarrow> False | Some e \<Rightarrow>
     (case rpcOf e of None \<Rightarrow> False | Some ce \<Rightarrow> codeHeader ce = code))"

text \<open>A domain error keeps its code through the server and any wrapping of the SDK; an error
  without a domain code matches none.\<close>

lemma IsErrCode_Wrap [simp]: "IsErrCode (Some (Wrap msg e)) code = IsErrCode (Some e) code"
  by (simp add: IsErrCode_def)

lemma IsErrCode_domain:
  "IsErrCode (Some (Rpc (ToConnectError err))) (codeString c) \<longleftrightarrow> IsDomainCode err c"
  by (cases err) (auto simp: IsErrCode_def codeHeader_def IsDomainCode_def codeString_inject
    codeString_nonempty [symmetric] simp del: codeString_nonempty)

end
