(* ===== verification/Scheduler.thy ===== *)
theory Scheduler
  imports Snapshots Reservations
begin

text \<open>
  The background jobs of \<open>internal/scheduler\<close>: snapshots of the tenants that are due, expiry of
  overdue reservations and pruning of old snapshots. Each tick reads the clock of the
  scheduler (\<open>now\<close>), asks the store for a batch and calls the service; errors are logged.
\<close>

record SchedulerConfig =
  cfg_SnapshotTick :: duration
  cfg_SnapshotInterval :: duration
  cfg_ExpiryTick :: duration
  cfg_RetentionTick :: duration
  cfg_RetentionAge :: duration
  cfg_BatchN :: int

definition defaultConfig :: SchedulerConfig where
  "defaultConfig = \<lparr>cfg_SnapshotTick = 5 * minute, cfg_SnapshotInterval = 24 * hour,
     cfg_ExpiryTick = 30 * second, cfg_RetentionTick = 1 * hour,
     cfg_RetentionAge = 90 * 24 * hour, cfg_BatchN = 100\<rparr>"

definition snapshotTick :: "env \<Rightarrow> ('s, 't) store_ops \<Rightarrow> SchedulerConfig \<Rightarrow> time \<Rightarrow>
    ('s world, error, unit) exec" where
  "snapshotTick E S cfg now =
     bindE (catchE (inSt (st_ListTenantsDueForSnapshot S (now - cfg_SnapshotInterval cfg)
       (cfg_BatchN cfg)))) (\<lambda>due. case due of
         None \<Rightarrow> ret ()
       | Some tenants \<Rightarrow> forE (\<lambda>tn _. thenE (catchE (TakeBalanceSnapshot E S
           \<lparr>tsr_TenantId = tn, tsr_AccountId = '''', tsr_Currency = ''''\<rparr>)) (ret ())) tenants ())"

text \<open>\<open>New\<close> finds \<open>ExpireReservation\<close> on the server, so \<open>Reservations\<close> is set.\<close>

definition expireOne :: "env \<Rightarrow> ('s, 't) store_ops \<Rightarrow> ExpiredReservation \<Rightarrow> unit \<Rightarrow>
    ('s world, error, unit) exec" where
  "expireOne E S r u = thenE (catchE (ExpireReservation E S (xr_TenantID r) (xr_ID r))) (ret ())"

definition expiryTick :: "env \<Rightarrow> ('s, 't) store_ops \<Rightarrow> SchedulerConfig \<Rightarrow> time \<Rightarrow>
    ('s world, error, unit) exec" where
  "expiryTick E S cfg now =
     bindE (catchE (inSt (st_ListExpiredReservations S now (cfg_BatchN cfg)))) (\<lambda>due. case due of
         None \<Rightarrow> ret ()
       | Some rows \<Rightarrow> forE (expireOne E S) rows ())"

definition retentionTick :: "('s, 't) store_ops \<Rightarrow> SchedulerConfig \<Rightarrow> time \<Rightarrow>
    ('s world, error, unit) exec" where
  "retentionTick S cfg now =
     thenE (catchE (inSt (st_PruneSnapshotsOlderThan S (now - cfg_RetentionAge cfg)
       (cfg_BatchN cfg)))) (ret ())"

text \<open>\<open>Run\<close>: the tickers that fire, in order, with the time at which they do.\<close>

datatype ticker = SnapshotTicker | ExpiryTicker | RetentionTicker

definition tickOf :: "env \<Rightarrow> ('s, 't) store_ops \<Rightarrow> SchedulerConfig \<Rightarrow> ticker \<times> time \<Rightarrow>
    ('s world, error, unit) exec" where
  "tickOf E S cfg p = (case p of (t, now) \<Rightarrow> (case t of
       SnapshotTicker \<Rightarrow> snapshotTick E S cfg now
     | ExpiryTicker \<Rightarrow> expiryTick E S cfg now
     | RetentionTicker \<Rightarrow> retentionTick S cfg now))"

definition Run :: "env \<Rightarrow> ('s, 't) store_ops \<Rightarrow> SchedulerConfig \<Rightarrow> (ticker \<times> time) list \<Rightarrow>
    ('s world, error, unit) exec" where
  "Run E S cfg fired = forE (\<lambda>p _. tickOf E S cfg p) fired ()"

section \<open>Safety, and what an expiry touches\<close>

context ledger_store
begin

lemma snapshotTick_safe [safe_intros]: "safe sinv sview (snapshotTick E S cfg now)"
  by (auto simp: snapshotTick_def intro!: safe_intros ListTenantsDueForSnapshot split: option.splits)

lemma expireOne_safe [safe_intros]: "safe sinv sview (expireOne E S r u)"
  by (auto simp: expireOne_def intro!: safe_intros)

lemma expiryTick_safe [safe_intros]: "safe sinv sview (expiryTick E S cfg now)"
  by (auto simp: expiryTick_def intro!: safe_intros ListExpiredReservations split: option.splits)

lemma retentionTick_safe [safe_intros]: "safe sinv sview (retentionTick S cfg now)"
  by (auto simp: retentionTick_def intro!: safe_intros PruneSnapshotsOlderThan)

lemma Run_safe [safe_intros]: "safe sinv sview (Scheduler.Run E S cfg fired)"
  by (auto simp: Scheduler.Run_def tickOf_def intro!: safe_intros split: prod.splits ticker.splits)

lemma expireOne_other:
  assumes "sinv (w_st w)" and "expireOne E S x u w = (r, w')"
    and "k \<noteq> (xr_TenantID x, xr_ID x)"
  shows "sinv (w_st w') \<and> v_reservation (sview (w_st w')) k = v_reservation (sview (w_st w)) k"
proof -
  obtain r1 where e: "ExpireReservation E S (xr_TenantID x) (xr_ID x) w = (r1, w')"
    using assms(2) by (auto simp: expireOne_def thenE_def bindE_def catchE_def ret_def
      split: prod.splits sum.splits)
  show ?thesis
  proof (cases r1)
    case (Inl err)
    with ExpireReservation_Inl [OF assms(1)] e show ?thesis by auto
  next
    case (Inr v)
    from ExpireReservation_Inr [OF assms(1) e [unfolded Inr]] assms(3) show ?thesis
      by (auto simp: expireEffect_def storeReservation_def dest: flowDone_same split: if_splits)
  qed
qed

lemma expireLoop_other:
  assumes "sinv (w_st w)" and "forE (expireOne E S) rows () w = (r, w')"
    and "k \<notin> (\<lambda>x. (xr_TenantID x, xr_ID x)) ` set rows"
  shows "sinv (w_st w') \<and> v_reservation (sview (w_st w')) k = v_reservation (sview (w_st w)) k"
  using assms
proof (induction rows arbitrary: w)
  case (Cons x rows)
  obtain r1 w1 where x: "expireOne E S x () w = (r1, w1)" by (cases "expireOne E S x () w")
  from Cons.prems(3) have "k \<noteq> (xr_TenantID x, xr_ID x)" by auto
  note 1 = expireOne_other [OF Cons.prems(1) x this]
  show ?case
  proof (cases r1)
    case (Inl e)
    with Cons.prems(2) x 1 show ?thesis by (simp add: bindE_def)
  next
    case (Inr u)
    with Cons.prems(2) x have "forE (expireOne E S) rows () w1 = (r, w')"
      by (simp add: bindE_def)
    from Cons.IH [OF conjunct1 [OF 1] this] Cons.prems(3) 1 show ?thesis by simp
  qed
qed (simp add: ret_def)

text \<open>A tick touches only the reservations the store listed.\<close>

lemma expiryTick_other:
  assumes "sinv (w_st w)" and "expiryTick E S cfg now w = (r, w')"
    and "\<And>rows s1. st_ListExpiredReservations S now (cfg_BatchN cfg) (w_st w) = (Inr rows, s1) \<Longrightarrow>
      k \<notin> (\<lambda>x. (xr_TenantID x, xr_ID x)) ` set rows"
  shows "v_reservation (sview (w_st w')) k = v_reservation (sview (w_st w)) k"
proof -
  obtain r1 s1 where l: "st_ListExpiredReservations S now (cfg_BatchN cfg) (w_st w) = (r1, s1)"
    by (cases "st_ListExpiredReservations S now (cfg_BatchN cfg) (w_st w)")
  note 1 = keepsD [OF ListExpiredReservations assms(1) l]
  show ?thesis
  proof (cases r1)
    case (Inl e)
    with assms(2) l 1 show ?thesis
      by (auto simp: expiryTick_def bindE_def catchE_def inSt_def ret_def)
  next
    case (Inr rows)
    with assms(2) l have "forE (expireOne E S) rows () (w\<lparr>w_st := s1\<rparr>) = (r, w')"
      by (auto simp: expiryTick_def bindE_def catchE_def inSt_def)
    from expireLoop_other [OF _ this assms(3) [OF l [unfolded Inr]]] 1 show ?thesis by simp
  qed
qed

end

end
