(* ===== verification/Sql_Base.thy ===== *)
theory Sql_Base
  imports Repo "HOL-Library.Option_ord"
begin

text \<open>
  What the two SQL backends share: tables are lists of rows in the order of insertion, and a
  query filters, finds, updates or orders them. The lemmas say how a lookup by key sees an
  insert or an update of the rows.
\<close>

section \<open>Rows\<close>

definition updateWhere :: "('r \<Rightarrow> bool) \<Rightarrow> ('r \<Rightarrow> 'r) \<Rightarrow> 'r list \<Rightarrow> 'r list" where
  "updateWhere P f rows = map (\<lambda>r. if P r then f r else r) rows"

definition exists_row :: "('r \<Rightarrow> bool) \<Rightarrow> 'r list \<Rightarrow> bool" where
  "exists_row P rows = list_ex P rows"

text \<open>The first row (\<open>LIMIT 1\<close>), and an order by descending columns.\<close>

definition limit1 :: "'r list \<Rightarrow> 'r option" where
  "limit1 rows = (case rows of [] \<Rightarrow> None | r # _ \<Rightarrow> Some r)"

definition orderDesc :: "('r \<Rightarrow> 'k::linorder) \<Rightarrow> 'r list \<Rightarrow> 'r list" where
  "orderDesc f rows = rev (sort_key f rows)"

text \<open>A filter that the empty string disables (\<open>col = ? OR ? = ''\<close>).\<close>

definition matches :: "string \<Rightarrow> string \<Rightarrow> bool" where
  "matches col v \<longleftrightarrow> col = v \<or> v = ''''"

text \<open>A nullable text column.\<close>

definition nullString :: "string \<Rightarrow> string option" where
  "nullString s = (if s = '''' then None else Some s)"

definition orEmpty :: "string option \<Rightarrow> string" where
  "orEmpty s = (case s of None \<Rightarrow> '''' | Some v \<Rightarrow> v)"

lemma orEmpty_nullString [simp]: "orEmpty (nullString s) = s"
  by (simp add: orEmpty_def nullString_def)

section \<open>Statements\<close>

text \<open>A statement reads or changes the tables, or fails; what it left behind is dropped then.\<close>

definition readS :: "('s \<Rightarrow> 'a) \<Rightarrow> ('s, 'e, 'a) exec" where
  "readS f s = (Inr (f s), s)"

definition modifyS :: "('s \<Rightarrow> 's) \<Rightarrow> ('s, 'e, unit) exec" where
  "modifyS f s = (Inr (), f s)"

definition requireS :: "('s \<Rightarrow> bool) \<Rightarrow> 'e \<Rightarrow> ('s, 'e, unit) exec" where
  "requireS P e s = (if P s then (Inr (), s) else (Inl e, s))"

definition whenS :: "('s \<Rightarrow> bool) \<Rightarrow> ('s, 'e, unit) exec \<Rightarrow> ('s, 'e, unit) exec" where
  "whenS P m s = (if P s then m s else (Inr (), s))"

lemma statements_Inr [exec_simps]:
  "readS f s = (Inr a, s') \<longleftrightarrow> a = f s \<and> s' = s"
  "modifyS g s = (Inr u, s') \<longleftrightarrow> s' = g s"
  "requireS P e s = (Inr v, s') \<longleftrightarrow> P s \<and> s' = s"
  "whenS P m s = (Inr w, s') \<longleftrightarrow> (if P s then m s = (Inr w, s') else s' = s)"
  by (auto simp: readS_def modifyS_def requireS_def whenS_def)

text \<open>The order in which a scan meets the rows of a table: the \<open>i\<close>-th row by its rank.\<close>

definition scanOrder :: "(nat \<Rightarrow> nat) \<Rightarrow> 'r list \<Rightarrow> 'r list" where
  "scanOrder rank rows = map snd (sort_key (\<lambda>p. rank (fst p)) (enumerate 0 rows))"

lemma mset_scanOrder [simp]: "mset (scanOrder rank rows) = mset rows"
proof -
  have "mset (scanOrder rank rows) = mset (map snd (enumerate 0 rows))"
    by (simp add: scanOrder_def del: map_snd_enumerate)
  then show ?thesis by simp
qed

lemma set_scanOrder [simp]: "set (scanOrder rank rows) = set rows"
  by (rule mset_eq_setD) simp

section \<open>Lookups after inserts and updates\<close>

lemma find_updateWhere:
  assumes "\<And>r. Q (f r) = Q r"
  shows "find Q (updateWhere P f rows) = map_option (\<lambda>r. if P r then f r else r) (find Q rows)"
  unfolding updateWhere_def by (rule find_map_upd) (simp add: assms)

lemma find_updateWhere_if:
  assumes "\<And>r. Q (f r) = Q r" and "\<And>r. Q r \<Longrightarrow> P r = B"
  shows "find Q (updateWhere P f rows) = (if B then map_option f (find Q rows) else find Q rows)"
  using assms by (induction rows) (auto simp: updateWhere_def)

lemma exists_row_find: "\<not> exists_row P rows \<Longrightarrow> (\<And>r. Q r \<Longrightarrow> P r) \<Longrightarrow> find Q rows = None"
  by (auto simp: exists_row_def list_ex_iff find_None_iff)

lemma exists_row_distinct:
  "\<not> exists_row P rows \<Longrightarrow> (\<And>r. f r = x \<Longrightarrow> P r) \<Longrightarrow> distinct (map f rows) \<Longrightarrow> x \<notin> f ` set rows"
  by (auto simp: exists_row_def list_ex_iff)

lemma map_updateWhere: "(\<And>r. f (g r) = f r) \<Longrightarrow> map f (updateWhere P g rows) = map f rows"
  by (simp add: updateWhere_def)

section \<open>Ordered rows\<close>

lemma limit1_orderDesc:
  assumes "limit1 (orderDesc f rows) = Some r"
  shows "r \<in> set rows \<and> (\<forall>x\<in>set rows. f x \<le> f r)"
proof -
  obtain ys where "rev (sort_key f rows) = r # ys"
    using assms by (auto simp: limit1_def orderDesc_def split: list.splits)
  then have s: "sort_key f rows = rev ys @ [r]" by (metis rev.simps(2) rev_rev_ident)
  have "sorted (map f (rev ys @ [r]))" unfolding s [symmetric] by simp
  then have "\<forall>x\<in>set (rev ys @ [r]). f x \<le> f r" by (auto simp: sorted_append)
  moreover have "set (rev ys @ [r]) = set rows" unfolding s [symmetric] by simp
  ultimately show ?thesis by auto
qed

lemma limit1_orderDesc_None: "limit1 (orderDesc f rows) = None \<longleftrightarrow> rows = []"
  by (auto simp: limit1_def orderDesc_def split: list.splits)
    (metis Nil_is_rev_conv length_0_conv length_sort list.distinct(1))

end
