(* ===== verification/Sqlite_Rows.thy ===== *)
theory Sqlite_Rows
  imports Sql_Base
begin

text \<open>
  The SQLite database of \<open>internal/repo/sqlite\<close>: the tables of the migrations under
  \<open>internal/sdk/migrations/sqlite\<close> as lists of rows in the order of insertion, and the
  conversions of \<open>conv.go\<close>.

  \<^item> Columns keep their SQL types: amounts are TEXT (\<open>decimal.String()\<close>), flags and versions
    INTEGER, nullable columns options. A timestamp column holds
    \<open>strftime('%Y-%m-%dT%H:%M:%fZ')\<close> text, whose lexicographic order is the order of the
    milliseconds it denotes: it is kept as that number. A JSON column is kept as its value.
  \<^item> \<open>sqlite_cfg\<close> holds what the repository does not decide: the decimal package, the clock of the
    database, which statements fail with a driver error, which COMMIT and ROLLBACK fail (and
    whether SQLite then rolls the transaction back by itself), and SQLite's sum of REALs.
  \<^item> \<open>stmt\<close> is one SQL statement; each takes a tick of the database, fails without effect when
    the driver fails, and otherwise reads or changes the tables. Primary keys, UNIQUE and
    CHECK constraints are those of the migrations. Foreign keys are not enforced here.
\<close>

section \<open>Rows\<close>

type_synonym ms = int

record AccountRow =
  ra_id :: string
  ra_tenant_id :: string
  ra_owner_type :: string
  ra_owner_id :: string
  ra_account_type :: string
  ra_currency :: string
  ra_normal_balance :: string
  ra_allow_negative :: int
  ra_status :: string
  ra_created_at :: ms

record BalanceRow =
  rb2_tenant_id :: string
  rb2_account_id :: string
  rb2_currency :: string
  rb2_posted_debits :: string
  rb2_posted_credits :: string
  rb2_version :: int
  rb2_updated_at :: ms

record JournalRow =
  rj_id :: string
  rj_tenant_id :: string
  rj_flow_run_id :: "string option"
  rj_event_id :: string
  rj_source_service :: string
  rj_source_type :: string
  rj_actor_id :: string
  rj_metadata :: metadata
  rj_created_at :: ms

record EntryRow =
  re_id :: string
  re_tenant_id :: string
  re_journal_id :: string
  re_account_id :: string
  re_currency :: string
  re_direction :: string
  re_amount :: string
  re_created_at :: ms

record FlowRunRow =
  rf_id :: string
  rf_tenant_id :: string
  rf_flow_type :: string
  rf_idempotency_key :: string
  rf_source_service :: string
  rf_actor_id :: string
  rf_status :: string
  rf_metadata :: metadata
  rf_created_at :: ms
  rf_completed_at :: "ms option"
  rf_failed_at :: "ms option"

record FlowStepRow =
  rs_id :: string
  rs_tenant_id :: string
  rs_flow_run_id :: string
  rs_step_id :: string
  rs_status :: string
  rs_journal_id :: "string option"
  rs_error_code :: "string option"
  rs_created_at :: ms

record OutboxRow =
  ro_id :: string
  ro_tenant_id :: string
  ro_aggregate_id :: string
  ro_event_type :: string
  ro_idempotency_key :: string
  ro_payload :: json
  ro_publish_state :: string
  ro_attempts :: int
  ro_created_at :: ms
  ro_published_at :: "ms option"

record SnapshotRow =
  rn_id :: string
  rn_tenant_id :: string
  rn_account_id :: string
  rn_currency :: string
  rn_posted_debits :: string
  rn_posted_credits :: string
  rn_version :: int
  rn_snapshot_at :: ms
  rn_created_at :: ms

record ReservationRow =
  rr_id :: string
  rr_tenant_id :: string
  rr_idempotency_key :: string
  rr_source_account_id :: string
  rr_reserved_account_id :: string
  rr_currency :: string
  rr_original_amount :: string
  rr_outstanding_amount :: string
  rr_committed_amount :: string
  rr_released_amount :: string
  rr_status :: string
  rr_expires_at :: "ms option"
  rr_flow_run_id :: string
  rr_metadata :: metadata
  rr_created_at :: ms
  rr_updated_at :: ms

record FxRateRow =
  rx_id :: string
  rx_tenant_id :: string
  rx_base_currency :: string
  rx_quote_currency :: string
  rx_rate :: string
  rx_source :: string
  rx_effective_at :: ms
  rx_created_at :: ms

record ExternalRecordRow =
  rex_id :: string
  rex_tenant_id :: string
  rex_source :: string
  rex_external_ref :: string
  rex_amount :: string
  rex_currency :: string
  rex_occurred_at :: ms
  rex_account_id :: "string option"
  rex_raw_payload :: metadata
  rex_match_status :: string
  rex_matched_journal_id :: "string option"
  rex_created_at :: ms

record ReconBatchRow =
  rc2_id :: string
  rc2_tenant_id :: string
  rc2_idempotency_key :: string
  rc2_source :: string
  rc2_window_start :: ms
  rc2_window_end :: ms
  rc2_status :: string
  rc2_ingested_count :: int
  rc2_matched_count :: int
  rc2_mismatched_count :: int
  rc2_missing_in_ledger_count :: int
  rc2_missing_in_external_count :: int
  rc2_started_at :: ms
  rc2_completed_at :: "ms option"
  rc2_actor_id :: string

record DiscrepancyRow =
  rd_id :: string
  rd_tenant_id :: string
  rd_batch_id :: string
  rd_type :: string
  rd_external_record_id :: "string option"
  rd_journal_id :: "string option"
  rd_status :: string
  rd_resolution_journal_id :: "string option"
  rd_resolution_note :: string
  rd_resolved_by :: string
  rd_resolved_at :: "ms option"
  rd_created_at :: ms

record sqldb =
  db_accounts :: "AccountRow list"
  db_balances :: "BalanceRow list"
  db_journals :: "JournalRow list"
  db_entries :: "EntryRow list"
  db_flow_runs :: "FlowRunRow list"
  db_flow_steps :: "FlowStepRow list"
  db_outbox :: "OutboxRow list"
  db_snapshots :: "SnapshotRow list"
  db_reservations :: "ReservationRow list"
  db_fx_rates :: "FxRateRow list"
  db_external :: "ExternalRecordRow list"
  db_batches :: "ReconBatchRow list"
  db_discrepancies :: "DiscrepancyRow list"
  db_tick :: nat

definition emptyDB :: sqldb where
  "emptyDB = \<lparr>db_accounts = [], db_balances = [], db_journals = [], db_entries = [],
     db_flow_runs = [], db_flow_steps = [], db_outbox = [], db_snapshots = [],
     db_reservations = [], db_fx_rates = [], db_external = [], db_batches = [],
     db_discrepancies = [], db_tick = 0\<rparr>"

section \<open>Statements\<close>

record sqlite_cfg =
  sc_D :: decimal_lib
  sc_now :: "nat \<Rightarrow> ms"
  sc_fault :: "nat \<Rightarrow> error option"
  sc_endFault :: "nat \<Rightarrow> (error \<times> bool) option"
  sc_sumReal :: "string list \<Rightarrow> decimal"

type_synonym 'a sql = "(sqldb, error, 'a) exec"

definition stmt :: "sqlite_cfg \<Rightarrow> (ms \<Rightarrow> sqldb \<Rightarrow> (error + 'a) \<times> sqldb) \<Rightarrow> 'a sql" where
  "stmt C m d = (let n = db_tick d; d1 = d\<lparr>db_tick := Suc n\<rparr> in
     case sc_fault C n of Some e \<Rightarrow> (Inl e, d1) | None \<Rightarrow> m (sc_now C n) d1)"

text \<open>\<open>SELECT\<close>; an \<open>INSERT\<close> under its constraints; an \<open>UPDATE\<close> or \<open>DELETE\<close>.\<close>

definition selectQ :: "sqlite_cfg \<Rightarrow> (sqldb \<Rightarrow> 'a) \<Rightarrow> 'a sql" where
  "selectQ C f = stmt C (\<lambda>now d. (Inr (f d), d))"

definition insertQ :: "sqlite_cfg \<Rightarrow> (sqldb \<Rightarrow> bool) \<Rightarrow> bool \<Rightarrow> (ms \<Rightarrow> sqldb \<Rightarrow> sqldb) \<Rightarrow> unit sql" where
  "insertQ C conflict check ins = stmt C (\<lambda>now d.
     if conflict d then (Inl (GoError ''UNIQUE constraint failed''), d)
     else if \<not> check then (Inl (GoError ''CHECK constraint failed''), d)
     else (Inr (), ins now d))"

definition updateQ :: "sqlite_cfg \<Rightarrow> (ms \<Rightarrow> sqldb \<Rightarrow> sqldb) \<Rightarrow> unit sql" where
  "updateQ C upd = stmt C (\<lambda>now d. (Inr (), upd now d))"

lemma stmt_Inr [exec_simps]:
  "stmt C m d = (Inr a, d') \<longleftrightarrow> sc_fault C (db_tick d) = None \<and>
     m (sc_now C (db_tick d)) (d\<lparr>db_tick := Suc (db_tick d)\<rparr>) = (Inr a, d')"
  by (auto simp: stmt_def Let_def split: option.splits)

lemma selectQ_Inr [exec_simps]:
  "selectQ C f d = (Inr a, d') \<longleftrightarrow> sc_fault C (db_tick d) = None \<and>
     d' = d\<lparr>db_tick := Suc (db_tick d)\<rparr> \<and> a = f d'"
  by (auto simp: selectQ_def exec_simps)

lemma insertQ_Inr [exec_simps]:
  "insertQ C conflict check ins d = (Inr u, d') \<longleftrightarrow> sc_fault C (db_tick d) = None \<and>
     \<not> conflict (d\<lparr>db_tick := Suc (db_tick d)\<rparr>) \<and> check \<and>
     d' = ins (sc_now C (db_tick d)) (d\<lparr>db_tick := Suc (db_tick d)\<rparr>)"
  by (auto simp: insertQ_def exec_simps)

lemma updateQ_Inr [exec_simps]:
  "updateQ C upd d = (Inr u, d') \<longleftrightarrow> sc_fault C (db_tick d) = None \<and>
     d' = upd (sc_now C (db_tick d)) (d\<lparr>db_tick := Suc (db_tick d)\<rparr>)"
  by (auto simp: updateQ_def exec_simps)

section \<open>Conversions (conv.go)\<close>

text \<open>The texts of a timestamp column, and the decimal of a column whose parse error is dropped.\<close>

definition formatTime :: "time \<Rightarrow> ms" where
  "formatTime t = t div millisecond"

definition parseTime :: "ms \<Rightarrow> time" where
  "parseTime m = m * millisecond"

definition decOrZero :: "sqlite_cfg \<Rightarrow> string \<Rightarrow> decimal" where
  "decOrZero C s = (case dl_NewFromString (sc_D C) s of None \<Rightarrow> 0 | Some d \<Rightarrow> d)"

definition rowToAccount :: "AccountRow \<Rightarrow> Account" where
  "rowToAccount r = \<lparr>acc_ID = ra_id r, acc_TenantID = ra_tenant_id r,
     acc_OwnerType = ra_owner_type r, acc_OwnerID = ra_owner_id r,
     acc_AccountType = ra_account_type r, acc_Currency = ra_currency r,
     acc_NormalBalance = ra_normal_balance r, acc_AllowNegative = (ra_allow_negative r \<noteq> 0),
     acc_Status = ra_status r, acc_CreatedAt = parseTime (ra_created_at r)\<rparr>"

definition rowToFlowRun :: "FlowRunRow \<Rightarrow> FlowRun" where
  "rowToFlowRun r = \<lparr>fr_ID = rf_id r, fr_TenantID = rf_tenant_id r, fr_FlowType = rf_flow_type r,
     fr_IdempotencyKey = rf_idempotency_key r, fr_SourceService = rf_source_service r,
     fr_ActorID = rf_actor_id r, fr_Status = rf_status r, fr_Metadata = rf_metadata r,
     fr_CreatedAt = parseTime (rf_created_at r),
     fr_CompletedAt = map_option parseTime (rf_completed_at r),
     fr_FailedAt = map_option parseTime (rf_failed_at r), fr_Steps = []\<rparr>"

definition rowToFlowStep :: "FlowStepRow \<Rightarrow> FlowStep" where
  "rowToFlowStep r = \<lparr>fs_ID = rs_id r, fs_TenantID = rs_tenant_id r,
     fs_FlowRunID = rs_flow_run_id r, fs_StepID = rs_step_id r, fs_Status = rs_status r,
     fs_JournalID = orEmpty (rs_journal_id r), fs_ErrorCode = orEmpty (rs_error_code r),
     fs_CreatedAt = parseTime (rs_created_at r)\<rparr>"

definition rowToJournal :: "JournalRow \<Rightarrow> Journal" where
  "rowToJournal r = \<lparr>jrn_ID = rj_id r, jrn_TenantID = rj_tenant_id r,
     jrn_FlowRunID = orEmpty (rj_flow_run_id r), jrn_EventID = rj_event_id r,
     jrn_SourceService = rj_source_service r, jrn_SourceType = rj_source_type r,
     jrn_ActorID = rj_actor_id r, jrn_Metadata = rj_metadata r, jrn_Entries = [],
     jrn_CreatedAt = parseTime (rj_created_at r)\<rparr>"

definition rowToSnapshot :: "sqlite_cfg \<Rightarrow> SnapshotRow \<Rightarrow> BalanceSnapshot" where
  "rowToSnapshot C r = \<lparr>bs_ID = rn_id r, bs_TenantID = rn_tenant_id r,
     bs_AccountID = rn_account_id r, bs_Currency = rn_currency r,
     bs_PostedDebits = decOrZero C (rn_posted_debits r),
     bs_PostedCredits = decOrZero C (rn_posted_credits r), bs_Version = rn_version r,
     bs_SnapshotAt = parseTime (rn_snapshot_at r), bs_CreatedAt = parseTime (rn_created_at r)\<rparr>"

definition rowToFXRate :: "sqlite_cfg \<Rightarrow> FxRateRow \<Rightarrow> FXRate" where
  "rowToFXRate C r = \<lparr>fx_ID = rx_id r, fx_TenantID = rx_tenant_id r,
     fx_BaseCurrency = rx_base_currency r, fx_QuoteCurrency = rx_quote_currency r,
     fx_Rate = decOrZero C (rx_rate r), fx_Source = rx_source r,
     fx_EffectiveAt = parseTime (rx_effective_at r), fx_CreatedAt = parseTime (rx_created_at r)\<rparr>"

definition rowToReservation :: "sqlite_cfg \<Rightarrow> ReservationRow \<Rightarrow> Reservation" where
  "rowToReservation C r = \<lparr>res_ID = rr_id r, res_TenantID = rr_tenant_id r,
     res_IdempotencyKey = rr_idempotency_key r, res_SourceAccountID = rr_source_account_id r,
     res_ReservedAccountID = rr_reserved_account_id r, res_Currency = rr_currency r,
     res_OriginalAmount = decOrZero C (rr_original_amount r),
     res_OutstandingAmount = decOrZero C (rr_outstanding_amount r),
     res_CommittedAmount = decOrZero C (rr_committed_amount r),
     res_ReleasedAmount = decOrZero C (rr_released_amount r), res_Status = rr_status r,
     res_ExpiresAt = map_option parseTime (rr_expires_at r), res_FlowRunID = rr_flow_run_id r,
     res_Metadata = rr_metadata r, res_CreatedAt = parseTime (rr_created_at r),
     res_UpdatedAt = parseTime (rr_updated_at r)\<rparr>"

definition rowToExternalRecord :: "sqlite_cfg \<Rightarrow> ExternalRecordRow \<Rightarrow> ExternalRecord" where
  "rowToExternalRecord C r = \<lparr>er_ID = rex_id r, er_TenantID = rex_tenant_id r,
     er_Source = rex_source r, er_ExternalRef = rex_external_ref r,
     er_Amount = decOrZero C (rex_amount r), er_Currency = rex_currency r,
     er_OccurredAt = parseTime (rex_occurred_at r), er_AccountID = orEmpty (rex_account_id r),
     er_RawPayload = rex_raw_payload r, er_MatchStatus = rex_match_status r,
     er_MatchedJournalID = orEmpty (rex_matched_journal_id r),
     er_CreatedAt = parseTime (rex_created_at r)\<rparr>"

text \<open>\<open>int32(r.IngestedCount)\<close> keeps the low 32 bits; a missing completion time reads as zero.\<close>

definition rowToReconBatch :: "ReconBatchRow \<Rightarrow> ReconciliationBatch" where
  "rowToReconBatch r = \<lparr>rb_ID = rc2_id r, rb_TenantID = rc2_tenant_id r,
     rb_IdempotencyKey = rc2_idempotency_key r, rb_Source = rc2_source r,
     rb_WindowStart = parseTime (rc2_window_start r), rb_WindowEnd = parseTime (rc2_window_end r),
     rb_Status = rc2_status r, rb_IngestedCount = word_of_int (rc2_ingested_count r),
     rb_MatchedCount = word_of_int (rc2_matched_count r),
     rb_MismatchedCount = word_of_int (rc2_mismatched_count r),
     rb_MissingInLedgerCount = word_of_int (rc2_missing_in_ledger_count r),
     rb_MissingInExternalCount = word_of_int (rc2_missing_in_external_count r),
     rb_StartedAt = parseTime (rc2_started_at r),
     rb_CompletedAt = (case rc2_completed_at r of None \<Rightarrow> zeroTime | Some t \<Rightarrow> parseTime t),
     rb_ActorID = rc2_actor_id r\<rparr>"

definition rowToDiscrepancy :: "DiscrepancyRow \<Rightarrow> Discrepancy" where
  "rowToDiscrepancy r = \<lparr>dis_ID = rd_id r, dis_TenantID = rd_tenant_id r,
     dis_BatchID = rd_batch_id r, dis_Type = rd_type r,
     dis_ExternalRecordID = orEmpty (rd_external_record_id r),
     dis_JournalID = orEmpty (rd_journal_id r), dis_Status = rd_status r,
     dis_ResolutionJournalID = orEmpty (rd_resolution_journal_id r),
     dis_ResolutionNote = rd_resolution_note r, dis_ResolvedBy = rd_resolved_by r,
     dis_ResolvedAt = (case rd_resolved_at r of None \<Rightarrow> zeroTime | Some t \<Rightarrow> parseTime t),
     dis_CreatedAt = parseTime (rd_created_at r)\<rparr>"

lemma decOrZero_String [simp]:
  "codec_ok (sc_D C) \<Longrightarrow> decOrZero C (dl_String (sc_D C) d) = d"
  "codec_ok (sc_D C) \<Longrightarrow> decOrZero C ''0'' = 0"
  by (simp_all add: decOrZero_def)

lemma time_roundtrip: "parseTime (formatTime t) \<le> t \<and> t < parseTime (formatTime t) + millisecond"
proof -
  have "t div 1000000 * 1000000 = t - t mod 1000000" by (simp add: minus_mod_eq_div_mult)
  moreover have "0 \<le> t mod 1000000" "t mod 1000000 < 1000000" by simp_all
  ultimately show ?thesis unfolding parseTime_def formatTime_def by linarith
qed

end
