(* ===== verification/Sqlite_Queries.thy ===== *)
theory Sqlite_Queries
  imports Sqlite_Rows
begin

text \<open>
  The generated queries of \<open>gen/sqlite\<close>, one definition per SQL text, by the name of its constant
  with a \<open>Q\<close> after it and with the parameters \<open>?\<close> in their order.

  \<^item> A SELECT is a function of the tables: an option of a row for \<open>:one\<close> (none is
    \<open>sql.ErrNoRows\<close>), a list of rows for \<open>:many\<close>. An INSERT, UPDATE or DELETE is a statement,
    with the primary and UNIQUE keys and the CHECK constraints of the migrations.
  \<^item> The methods of \<open>Queries\<close> hand their parameters to the driver and scan the columns into the
    rows of \<open>models.go\<close>. The queries that no method of the store uses are left out.
  \<^item> Where a query selects some of the columns, its rows are whole here and the store reads only
    the selected columns of them.
  \<^item> SQL leaves the order of rows with equal keys open; here it is the order of insertion.

  The definitions are unfolded by the simplifier: the proofs are about the methods over them.
\<close>

section \<open>Flows (flows.sql.go)\<close>

definition getFlowByIDQ :: "string \<Rightarrow> string \<Rightarrow> sqldb \<Rightarrow> FlowRunRow option" where
  [simp]: "getFlowByIDQ tn fid d = find (\<lambda>r. rf_tenant_id r = tn \<and> rf_id r = fid) (db_flow_runs d)"

definition getFlowByIdempotencyQ :: "string \<Rightarrow> string \<Rightarrow> sqldb \<Rightarrow> FlowRunRow option" where
  [simp]: "getFlowByIdempotencyQ tn key d =
     find (\<lambda>r. rf_tenant_id r = tn \<and> rf_idempotency_key r = key) (db_flow_runs d)"

definition insertFlowRunQ :: "sqlite_cfg \<Rightarrow> string \<Rightarrow> string \<Rightarrow> string \<Rightarrow> string \<Rightarrow> string \<Rightarrow> string \<Rightarrow>
    metadata \<Rightarrow> unit sql" where
  [simp]: "insertFlowRunQ C i tn flowType key sourceService actorID md =
     insertQ C (\<lambda>d. exists_row (\<lambda>r. rf_id r = i \<or> rf_idempotency_key r = key)
         (db_flow_runs d)) True
       (\<lambda>now d. d\<lparr>db_flow_runs := db_flow_runs d @ [\<lparr>rf_id = i, rf_tenant_id = tn,
          rf_flow_type = flowType, rf_idempotency_key = key,
          rf_source_service = sourceService, rf_actor_id = actorID,
          rf_status = FlowRunning, rf_metadata = md, rf_created_at = now,
          rf_completed_at = None, rf_failed_at = None\<rparr>]\<rparr>)"

definition completeFlowRunQ :: "sqlite_cfg \<Rightarrow> string \<Rightarrow> string \<Rightarrow> unit sql" where
  [simp]: "completeFlowRunQ C fid tn =
     updateQ C (\<lambda>now d. d\<lparr>db_flow_runs := updateWhere (\<lambda>r. rf_id r = fid \<and> rf_tenant_id r = tn)
       (\<lambda>r. r\<lparr>rf_status := FlowCompleted, rf_completed_at := Some now\<rparr>) (db_flow_runs d)\<rparr>)"

definition insertFlowStepQ :: "sqlite_cfg \<Rightarrow> string \<Rightarrow> string \<Rightarrow> string \<Rightarrow> string \<Rightarrow> StepStatus \<Rightarrow>
    string option \<Rightarrow> string option \<Rightarrow> unit sql" where
  [simp]: "insertFlowStepQ C i tn fid stepID status journalID errorCode =
     insertQ C (\<lambda>d. exists_row (\<lambda>r. rs_id r = i \<or> rs_tenant_id r = tn \<and>
          rs_flow_run_id r = fid \<and> rs_step_id r = stepID) (db_flow_steps d))
       (status = StepCompleted \<or> status = StepFailed)
       (\<lambda>now d. d\<lparr>db_flow_steps := db_flow_steps d @ [\<lparr>rs_id = i, rs_tenant_id = tn,
          rs_flow_run_id = fid, rs_step_id = stepID, rs_status = status,
          rs_journal_id = journalID, rs_error_code = errorCode,
          rs_created_at = now\<rparr>]\<rparr>)"

text \<open>\<open>getFlowSteps\<close>.\<close>

definition stepRows :: "string \<Rightarrow> string \<Rightarrow> sqldb \<Rightarrow> FlowStepRow list" where
  "stepRows tn fid d = sort_key rs_created_at
     (filter (\<lambda>r. rs_tenant_id r = tn \<and> rs_flow_run_id r = fid) (db_flow_steps d))"

section \<open>Accounts and balances (accounts.sql.go, balances.sql.go)\<close>

definition getAccountQ :: "string \<Rightarrow> string \<Rightarrow> sqldb \<Rightarrow> AccountRow option" where
  [simp]: "getAccountQ tn a d = find (\<lambda>r. ra_tenant_id r = tn \<and> ra_id r = a) (db_accounts d)"

definition insertAccountQ :: "sqlite_cfg \<Rightarrow> string \<Rightarrow> string \<Rightarrow> string \<Rightarrow> string \<Rightarrow> string \<Rightarrow> string \<Rightarrow>
    NormalBalance \<Rightarrow> int \<Rightarrow> AccountStatus \<Rightarrow> unit sql" where
  [simp]: "insertAccountQ C i tn ownerType ownerID acctType ccy nb neg status =
     insertQ C (\<lambda>d. exists_row (\<lambda>r. ra_id r = i \<or>
          (ra_tenant_id r = tn \<and> ra_owner_type r = ownerType \<and>
           ra_owner_id r = ownerID \<and> ra_account_type r = acctType \<and>
           ra_currency r = ccy)) (db_accounts d))
       (NormalBalance_Valid nb \<and> AccountStatus_Valid status)
       (\<lambda>now d. d\<lparr>db_accounts := db_accounts d @ [\<lparr>ra_id = i, ra_tenant_id = tn,
          ra_owner_type = ownerType, ra_owner_id = ownerID,
          ra_account_type = acctType, ra_currency = ccy,
          ra_normal_balance = nb,
          ra_allow_negative = neg, ra_status = status,
          ra_created_at = now\<rparr>]\<rparr>)"

definition balanceRow :: "string \<Rightarrow> string \<Rightarrow> string \<Rightarrow> BalanceRow \<Rightarrow> bool" where
  "balanceRow tn a c r \<longleftrightarrow> rb2_tenant_id r = tn \<and> rb2_account_id r = a \<and> rb2_currency r = c"

text \<open>\<open>getBalance\<close>.\<close>

definition findBalance :: "string \<Rightarrow> string \<Rightarrow> string \<Rightarrow> sqldb \<Rightarrow> BalanceRow option" where
  "findBalance tn a c d = find (balanceRow tn a c) (db_balances d)"

definition updateBalanceQ :: "sqlite_cfg \<Rightarrow> string \<Rightarrow> string \<Rightarrow> string \<Rightarrow> string \<Rightarrow> string \<Rightarrow> unit sql" where
  [simp]: "updateBalanceQ C debits credits tn a c =
     updateQ C (\<lambda>now d. d\<lparr>db_balances := updateWhere (balanceRow tn a c)
       (\<lambda>r. r\<lparr>rb2_posted_debits := debits,
          rb2_posted_credits := credits,
          rb2_version := rb2_version r + 1, rb2_updated_at := now\<rparr>) (db_balances d)\<rparr>)"

text \<open>\<open>ON CONFLICT DO NOTHING\<close>.\<close>

definition upsertBalanceZeroQ :: "sqlite_cfg \<Rightarrow> string \<Rightarrow> string \<Rightarrow> string \<Rightarrow> unit sql" where
  [simp]: "upsertBalanceZeroQ C tn a c =
     updateQ C (\<lambda>now d. case findBalance tn a c d of
       Some r \<Rightarrow> d
     | None \<Rightarrow> d\<lparr>db_balances := db_balances d @ [\<lparr>rb2_tenant_id = tn, rb2_account_id = a,
         rb2_currency = c, rb2_posted_debits = ''0'', rb2_posted_credits = ''0'', rb2_version = 0,
         rb2_updated_at = now\<rparr>]\<rparr>)"

section \<open>Journals, entries and events (journals.sql.go, entries.sql.go, outbox.sql.go)\<close>

definition insertJournalQ :: "sqlite_cfg \<Rightarrow> string \<Rightarrow> string \<Rightarrow> string option \<Rightarrow> string \<Rightarrow> string \<Rightarrow>
    string \<Rightarrow> string \<Rightarrow> metadata \<Rightarrow> unit sql" where
  [simp]: "insertJournalQ C i tn fid eventID sourceService sourceType actorID md =
     insertQ C (\<lambda>d. exists_row (\<lambda>r. rj_id r = i \<or> rj_event_id r = eventID) (db_journals d))
       True
       (\<lambda>now d. d\<lparr>db_journals := db_journals d @ [\<lparr>rj_id = i, rj_tenant_id = tn,
          rj_flow_run_id = fid, rj_event_id = eventID,
          rj_source_service = sourceService, rj_source_type = sourceType,
          rj_actor_id = actorID, rj_metadata = md, rj_created_at = now\<rparr>]\<rparr>)"

definition insertEntryQ :: "sqlite_cfg \<Rightarrow> string \<Rightarrow> string \<Rightarrow> string \<Rightarrow> string \<Rightarrow> string \<Rightarrow> Direction \<Rightarrow>
    string \<Rightarrow> unit sql" where
  [simp]: "insertEntryQ C i tn journalID a c dir amount =
     insertQ C (\<lambda>d. exists_row (\<lambda>r. re_id r = i) (db_entries d)) (Direction_Valid dir)
       (\<lambda>now d. d\<lparr>db_entries := db_entries d @ [\<lparr>re_id = i, re_tenant_id = tn,
          re_journal_id = journalID, re_account_id = a, re_currency = c, re_direction = dir,
          re_amount = amount, re_created_at = now\<rparr>]\<rparr>)"

text \<open>A bound that the empty string (\<open>None\<close>) disables.\<close>

definition sinceQ :: "ms option \<Rightarrow> ms \<Rightarrow> bool" where
  "sinceQ since m = (case since of None \<Rightarrow> True | Some t \<Rightarrow> t \<le> m)"

definition untilQ :: "ms option \<Rightarrow> ms \<Rightarrow> bool" where
  "untilQ until m = (case until of None \<Rightarrow> True | Some t \<Rightarrow> m \<le> t)"

definition listAccountActivityQ :: "string \<Rightarrow> string \<Rightarrow> string \<Rightarrow> ms option \<Rightarrow> ms option \<Rightarrow> nat \<Rightarrow>
    sqldb \<Rightarrow> EntryRow list" where
  [simp]: "listAccountActivityQ tn a c since until n d =
     take n (sort_key (\<lambda>r. (re_created_at r, re_id r))
       (filter (\<lambda>r. re_tenant_id r = tn \<and> re_account_id r = a \<and>
          re_currency r = c \<and> sinceQ since (re_created_at r) \<and>
          untilQ until (re_created_at r)) (db_entries d)))"

definition insertOutboxQ :: "sqlite_cfg \<Rightarrow> string \<Rightarrow> string \<Rightarrow> string \<Rightarrow> string \<Rightarrow> string \<Rightarrow>
    json \<Rightarrow> unit sql" where
  [simp]: "insertOutboxQ C i tn aggregateID eventType key payload =
     insertQ C (\<lambda>d. exists_row (\<lambda>r. ro_id r = i \<or> ro_idempotency_key r = key)
         (db_outbox d)) True
       (\<lambda>now d. d\<lparr>db_outbox := db_outbox d @ [\<lparr>ro_id = i, ro_tenant_id = tn,
          ro_aggregate_id = aggregateID, ro_event_type = eventType,
          ro_idempotency_key = key, ro_payload = payload,
          ro_publish_state = ''PENDING'', ro_attempts = 0, ro_created_at = now,
          ro_published_at = None\<rparr>]\<rparr>)"

definition listPendingOutboxQ :: "nat \<Rightarrow> sqldb \<Rightarrow> OutboxRow list" where
  [simp]: "listPendingOutboxQ n d = take n (sort_key ro_created_at
     (filter (\<lambda>r. ro_publish_state r = ''PENDING'') (db_outbox d)))"

definition markOutboxPublishedQ :: "sqlite_cfg \<Rightarrow> string \<Rightarrow> unit sql" where
  [simp]: "markOutboxPublishedQ C i =
     updateQ C (\<lambda>now d. d\<lparr>db_outbox := updateWhere (\<lambda>r. ro_id r = i)
       (\<lambda>r. r\<lparr>ro_publish_state := ''PUBLISHED'', ro_published_at := Some now\<rparr>) (db_outbox d)\<rparr>)"

definition incrementOutboxAttemptsQ :: "sqlite_cfg \<Rightarrow> string \<Rightarrow> unit sql" where
  [simp]: "incrementOutboxAttemptsQ C i =
     updateQ C (\<lambda>now d. d\<lparr>db_outbox := updateWhere (\<lambda>r. ro_id r = i)
       (\<lambda>r. r\<lparr>ro_attempts := ro_attempts r + 1\<rparr>) (db_outbox d)\<rparr>)"

section \<open>Reservations (reservations.sql.go)\<close>

definition ReservationStatus_Valid :: "string \<Rightarrow> bool" where
  "ReservationStatus_Valid s \<longleftrightarrow> s \<in> {ReservationHeld, ReservationPartial, ReservationCommitted,
     ReservationReleased, ReservationExpired}"

definition getReservationQ :: "string \<Rightarrow> string \<Rightarrow> sqldb \<Rightarrow> ReservationRow option" where
  [simp]: "getReservationQ tn rid d =
     find (\<lambda>r. rr_tenant_id r = tn \<and> rr_id r = rid) (db_reservations d)"

definition getReservationByIdempotencyQ :: "string \<Rightarrow> string \<Rightarrow> sqldb \<Rightarrow> ReservationRow option" where
  [simp]: "getReservationByIdempotencyQ tn key d =
     find (\<lambda>r. rr_tenant_id r = tn \<and> rr_idempotency_key r = key) (db_reservations d)"

definition insertReservationQ :: "sqlite_cfg \<Rightarrow> string \<Rightarrow> string \<Rightarrow> string \<Rightarrow> string \<Rightarrow> string \<Rightarrow> string \<Rightarrow>
    string \<Rightarrow> string \<Rightarrow> ReservationStatus \<Rightarrow> ms option \<Rightarrow> string \<Rightarrow> metadata \<Rightarrow> unit sql" where
  [simp]: "insertReservationQ C i tn key source reserved ccy original outstanding status expiresAt fid md =
     insertQ C (\<lambda>d. exists_row (\<lambda>r. rr_id r = i \<or> rr_idempotency_key r = key)
         (db_reservations d)) (ReservationStatus_Valid status)
       (\<lambda>now d. d\<lparr>db_reservations := db_reservations d @ [\<lparr>rr_id = i,
          rr_tenant_id = tn, rr_idempotency_key = key,
          rr_source_account_id = source,
          rr_reserved_account_id = reserved, rr_currency = ccy,
          rr_original_amount = original,
          rr_outstanding_amount = outstanding,
          rr_committed_amount = ''0'', rr_released_amount = ''0'', rr_status = status,
          rr_expires_at = expiresAt,
          rr_flow_run_id = fid, rr_metadata = md, rr_created_at = now,
          rr_updated_at = now\<rparr>]\<rparr>)"

definition updateReservationAmountsQ :: "sqlite_cfg \<Rightarrow> string \<Rightarrow> string \<Rightarrow> string \<Rightarrow> ReservationStatus \<Rightarrow>
    string \<Rightarrow> string \<Rightarrow> unit sql" where
  [simp]: "updateReservationAmountsQ C outstanding committed released status tn rid =
     stmt C (\<lambda>now d.
       if exists_row (\<lambda>r. rr_tenant_id r = tn \<and> rr_id r = rid) (db_reservations d) \<and>
          \<not> ReservationStatus_Valid status
       then (Inl (GoError ''CHECK constraint failed''), d)
       else (Inr (), d\<lparr>db_reservations := updateWhere (\<lambda>r. rr_tenant_id r = tn \<and> rr_id r = rid)
         (\<lambda>r. r\<lparr>rr_outstanding_amount := outstanding,
            rr_committed_amount := committed,
            rr_released_amount := released, rr_status := status,
            rr_updated_at := now\<rparr>) (db_reservations d)\<rparr>))"

definition expired :: "ms \<Rightarrow> ReservationRow \<Rightarrow> bool" where
  "expired now r \<longleftrightarrow> rr_status r \<in> {ReservationHeld, ReservationPartial} \<and>
     (case rr_expires_at r of None \<Rightarrow> False | Some m \<Rightarrow> m \<le> now)"

definition listExpiredReservationsQ :: "ms \<Rightarrow> nat \<Rightarrow> sqldb \<Rightarrow> ReservationRow list" where
  [simp]: "listExpiredReservationsQ now n d =
     take n (sort_key rr_expires_at (filter (expired now) (db_reservations d)))"

definition listReservationsQ :: "string \<Rightarrow> string \<Rightarrow> string \<Rightarrow> string \<Rightarrow> nat \<Rightarrow> sqldb \<Rightarrow>
    ReservationRow list" where
  [simp]: "listReservationsQ tn ownerType ownerID status n d =
     take n (orderDesc (\<lambda>r. (rr_created_at r, rr_id r))
       (filter (\<lambda>r. rr_tenant_id r = tn \<and>
          exists_row (\<lambda>a. ra_id a = rr_source_account_id r \<and>
            matches (ra_owner_type a) ownerType \<and>
            matches (ra_owner_id a) ownerID) (db_accounts d) \<and>
          matches (rr_status r) status) (db_reservations d)))"

section \<open>Reconciliation (reconciliation\_batches.sql.go, external\_records.sql.go, discrepancies.sql.go)\<close>

definition getReconBatchQ :: "string \<Rightarrow> string \<Rightarrow> sqldb \<Rightarrow> ReconBatchRow option" where
  [simp]: "getReconBatchQ tn i d = find (\<lambda>r. rc2_tenant_id r = tn \<and> rc2_id r = i) (db_batches d)"

definition getReconBatchByIdempotencyQ :: "string \<Rightarrow> string \<Rightarrow> sqldb \<Rightarrow> ReconBatchRow option" where
  [simp]: "getReconBatchByIdempotencyQ tn key d =
     find (\<lambda>r. rc2_tenant_id r = tn \<and> rc2_idempotency_key r = key) (db_batches d)"

definition insertReconBatchQ :: "sqlite_cfg \<Rightarrow> string \<Rightarrow> string \<Rightarrow> string \<Rightarrow> string \<Rightarrow> ms \<Rightarrow> ms \<Rightarrow>
    string \<Rightarrow> unit sql" where
  [simp]: "insertReconBatchQ C i tn key source windowStart windowEnd actorID =
     insertQ C (\<lambda>d. exists_row (\<lambda>r. rc2_id r = i \<or> rc2_idempotency_key r = key)
         (db_batches d)) True
       (\<lambda>now d. d\<lparr>db_batches := db_batches d @ [\<lparr>rc2_id = i, rc2_tenant_id = tn,
          rc2_idempotency_key = key, rc2_source = source,
          rc2_window_start = windowStart,
          rc2_window_end = windowEnd, rc2_status = BatchRunning,
          rc2_ingested_count = 0, rc2_matched_count = 0, rc2_mismatched_count = 0,
          rc2_missing_in_ledger_count = 0, rc2_missing_in_external_count = 0,
          rc2_started_at = now, rc2_completed_at = None, rc2_actor_id = actorID\<rparr>]\<rparr>)"

definition completeReconBatchQ :: "sqlite_cfg \<Rightarrow> int \<Rightarrow> int \<Rightarrow> int \<Rightarrow> int \<Rightarrow> int \<Rightarrow> string \<Rightarrow> string \<Rightarrow>
    unit sql" where
  [simp]: "completeReconBatchQ C ingested matched mismatched missingInLedger missingInExternal i tn =
     updateQ C (\<lambda>now d. d\<lparr>db_batches := updateWhere
       (\<lambda>r. rc2_id r = i \<and> rc2_tenant_id r = tn)
       (\<lambda>r. r\<lparr>rc2_status := BatchCompleted, rc2_completed_at := Some now,
          rc2_ingested_count := ingested,
          rc2_matched_count := matched,
          rc2_mismatched_count := mismatched,
          rc2_missing_in_ledger_count := missingInLedger,
          rc2_missing_in_external_count := missingInExternal\<rparr>) (db_batches d)\<rparr>)"

definition listJournalsForReconQ :: "string \<Rightarrow> string \<Rightarrow> ms \<Rightarrow> ms \<Rightarrow> sqldb \<Rightarrow> JournalRow list" where
  [simp]: "listJournalsForReconQ tn source windowStart windowEnd d = sort_key rj_created_at
     (filter (\<lambda>r. rj_tenant_id r = tn \<and> rj_source_service r = source \<and>
        windowStart \<le> rj_created_at r \<and> rj_created_at r \<le> windowEnd)
       (db_journals d))"

definition insertExternalRecordQ :: "sqlite_cfg \<Rightarrow> string \<Rightarrow> string \<Rightarrow> string \<Rightarrow> string \<Rightarrow> string \<Rightarrow>
    string \<Rightarrow> ms \<Rightarrow> string option \<Rightarrow> metadata \<Rightarrow> bool sql" where
  [simp]: "insertExternalRecordQ C i tn source ref amount ccy occurredAt a payload =
     stmt C (\<lambda>now d.
       if exists_row (\<lambda>r. rex_id r = i) (db_external d)
       then (Inl (GoError ''UNIQUE constraint failed''), d)
       else if exists_row (\<lambda>r. rex_tenant_id r = tn \<and> rex_source r = source \<and>
              rex_external_ref r = ref) (db_external d)
       then (Inr False, d)
       else (Inr True, d\<lparr>db_external := db_external d @ [\<lparr>rex_id = i,
         rex_tenant_id = tn, rex_source = source,
         rex_external_ref = ref, rex_amount = amount,
         rex_currency = ccy, rex_occurred_at = occurredAt,
         rex_account_id = a, rex_raw_payload = payload,
         rex_match_status = ExternalUnmatched, rex_matched_journal_id = None,
         rex_created_at = now\<rparr>]\<rparr>))"

definition listExternalRecordsForReconQ :: "string \<Rightarrow> string \<Rightarrow> ms \<Rightarrow> ms \<Rightarrow> sqldb \<Rightarrow>
    ExternalRecordRow list" where
  [simp]: "listExternalRecordsForReconQ tn source windowStart windowEnd d = sort_key rex_occurred_at
     (filter (\<lambda>r. rex_tenant_id r = tn \<and> rex_source r = source \<and>
        windowStart \<le> rex_occurred_at r \<and> rex_occurred_at r \<le> windowEnd \<and>
        rex_match_status r = ExternalUnmatched) (db_external d))"

definition updateExternalRecordMatchQ :: "sqlite_cfg \<Rightarrow> ExternalRecordStatus \<Rightarrow> string option \<Rightarrow>
    string \<Rightarrow> string \<Rightarrow> unit sql" where
  [simp]: "updateExternalRecordMatchQ C status journalID i tn =
     stmt C (\<lambda>now d.
       if exists_row (\<lambda>r. rex_id r = i \<and> rex_tenant_id r = tn) (db_external d) \<and>
          status \<notin> {ExternalUnmatched, ExternalMatched, ExternalMismatched}
       then (Inl (GoError ''CHECK constraint failed''), d)
       else (Inr (), d\<lparr>db_external := updateWhere (\<lambda>r. rex_id r = i \<and> rex_tenant_id r = tn)
         (\<lambda>r. r\<lparr>rex_match_status := status, rex_matched_journal_id := journalID\<rparr>)
         (db_external d)\<rparr>))"

text \<open>\<open>SUM(CASE WHEN direction = .. THEN CAST(amount AS REAL))\<close> over the selected entries.\<close>

definition sumSides :: "sqlite_cfg \<Rightarrow> EntryRow list \<Rightarrow> decimal \<times> decimal" where
  "sumSides C rows =
     (sc_sumReal C (map re_amount (filter (\<lambda>r. re_direction r = DirectionDebit) rows)),
      sc_sumReal C (map re_amount (filter (\<lambda>r. re_direction r = DirectionCredit) rows)))"

definition sumJournalEntriesQ :: "sqlite_cfg \<Rightarrow> string \<Rightarrow> string \<Rightarrow> string \<Rightarrow> string \<Rightarrow> sqldb \<Rightarrow>
    decimal \<times> decimal" where
  [simp]: "sumJournalEntriesQ C tn journalID a c d =
     sumSides C (filter (\<lambda>r. re_tenant_id r = tn \<and> re_journal_id r = journalID \<and>
       re_account_id r = a \<and> re_currency r = c) (db_entries d))"

definition getDiscrepancyQ :: "string \<Rightarrow> string \<Rightarrow> sqldb \<Rightarrow> DiscrepancyRow option" where
  [simp]: "getDiscrepancyQ tn i d = find (\<lambda>r. rd_tenant_id r = tn \<and> rd_id r = i) (db_discrepancies d)"

definition insertDiscrepancyQ :: "sqlite_cfg \<Rightarrow> string \<Rightarrow> string \<Rightarrow> string \<Rightarrow> DiscrepancyType \<Rightarrow>
    string option \<Rightarrow> string option \<Rightarrow> unit sql" where
  [simp]: "insertDiscrepancyQ C i tn batchID ty externalID journalID =
     insertQ C (\<lambda>d. exists_row (\<lambda>r. rd_id r = i) (db_discrepancies d))
       (ty \<in> {DiscrepancyMissingInLedger, DiscrepancyMissingInExternal,
          DiscrepancyAmountMismatch})
       (\<lambda>now d. d\<lparr>db_discrepancies := db_discrepancies d @ [\<lparr>rd_id = i,
          rd_tenant_id = tn, rd_batch_id = batchID, rd_type = ty,
          rd_external_record_id = externalID,
          rd_journal_id = journalID, rd_status = DiscrepancyOpen,
          rd_resolution_journal_id = None, rd_resolution_note = '''', rd_resolved_by = '''',
          rd_resolved_at = None, rd_created_at = now\<rparr>]\<rparr>)"

definition listDiscrepanciesQ :: "string \<Rightarrow> string \<Rightarrow> string \<Rightarrow> nat \<Rightarrow> sqldb \<Rightarrow> DiscrepancyRow list" where
  [simp]: "listDiscrepanciesQ tn batchID status n d =
     take n (sort_key (\<lambda>r. - rd_created_at r)
       (filter (\<lambda>r. rd_tenant_id r = tn \<and> matches (rd_batch_id r) batchID \<and>
          matches (rd_status r) status) (db_discrepancies d)))"

definition resolveDiscrepancyRowQ :: "sqlite_cfg \<Rightarrow> DiscrepancyStatus \<Rightarrow> string option \<Rightarrow> string \<Rightarrow>
    string \<Rightarrow> string \<Rightarrow> string \<Rightarrow> unit sql" where
  [simp]: "resolveDiscrepancyRowQ C status journalID note resolvedBy i tn =
     stmt C (\<lambda>now d.
       if exists_row (\<lambda>r. rd_id r = i \<and> rd_tenant_id r = tn) (db_discrepancies d) \<and>
          status \<notin> {DiscrepancyOpen, DiscrepancyResolved, DiscrepancyIgnored}
       then (Inl (GoError ''CHECK constraint failed''), d)
       else (Inr (), d\<lparr>db_discrepancies := updateWhere
         (\<lambda>r. rd_id r = i \<and> rd_tenant_id r = tn)
         (\<lambda>r. r\<lparr>rd_status := status,
            rd_resolution_journal_id := journalID,
            rd_resolution_note := note, rd_resolved_by := resolvedBy,
            rd_resolved_at := Some now\<rparr>) (db_discrepancies d)\<rparr>))"

section \<open>Snapshots (snapshots.sql.go)\<close>

definition insertSnapshotQ :: "sqlite_cfg \<Rightarrow> string \<Rightarrow> string \<Rightarrow> string \<Rightarrow> string \<Rightarrow> string \<Rightarrow> string \<Rightarrow>
    int \<Rightarrow> ms \<Rightarrow> unit sql" where
  [simp]: "insertSnapshotQ C i tn a c debits credits version snapshotAt =
     insertQ C (\<lambda>d. exists_row (\<lambda>r. rn_id r = i) (db_snapshots d)) True
       (\<lambda>now d. d\<lparr>db_snapshots := db_snapshots d @ [\<lparr>rn_id = i, rn_tenant_id = tn,
          rn_account_id = a, rn_currency = c,
          rn_posted_debits = debits,
          rn_posted_credits = credits, rn_version = version,
          rn_snapshot_at = snapshotAt, rn_created_at = now\<rparr>]\<rparr>)"

text \<open>\<open>getLatestSnapshotBefore\<close>, and the rows \<open>sumEntriesBetween\<close> sums.\<close>

definition snapshotBefore :: "string \<Rightarrow> string \<Rightarrow> string \<Rightarrow> ms \<Rightarrow> sqldb \<Rightarrow> SnapshotRow option" where
  "snapshotBefore tn a c m d = limit1 (orderDesc (\<lambda>r. (rn_snapshot_at r, rn_id r))
     (filter (\<lambda>r. rn_tenant_id r = tn \<and> rn_account_id r = a \<and> rn_currency r = c \<and>
        rn_snapshot_at r \<le> m) (db_snapshots d)))"

definition entriesBetween :: "string \<Rightarrow> string \<Rightarrow> string \<Rightarrow> ms \<Rightarrow> ms \<Rightarrow> sqldb \<Rightarrow> EntryRow list" where
  "entriesBetween tn a c after until d = filter (\<lambda>r. re_tenant_id r = tn \<and> re_account_id r = a \<and>
     re_currency r = c \<and> after < re_created_at r \<and> re_created_at r \<le> until) (db_entries d)"

definition sumEntriesBetweenQ :: "sqlite_cfg \<Rightarrow> string \<Rightarrow> string \<Rightarrow> string \<Rightarrow> ms \<Rightarrow> ms \<Rightarrow> sqldb \<Rightarrow>
    decimal \<times> decimal" where
  [simp]: "sumEntriesBetweenQ C tn a c after until d = sumSides C (entriesBetween tn a c after until d)"

definition listAllBalancesForTenantQ :: "string \<Rightarrow> sqldb \<Rightarrow> BalanceRow list" where
  [simp]: "listAllBalancesForTenantQ tn d =
     sort_key (\<lambda>r. (rb2_account_id r, rb2_currency r))
       (filter (\<lambda>r. rb2_tenant_id r = tn) (db_balances d))"

definition listTenantsDueForSnapshotQ :: "ms \<Rightarrow> nat \<Rightarrow> sqldb \<Rightarrow> string list" where
  [simp]: "listTenantsDueForSnapshotQ cutoff n d =
     take n (sort (remdups (map ra_tenant_id
       (filter (\<lambda>a. \<not> exists_row (\<lambda>b. rn_tenant_id b = ra_tenant_id a \<and>
          cutoff < rn_snapshot_at b) (db_snapshots d)) (db_accounts d)))))"

text \<open>The rows a prune deletes: older than the cutoff, with a younger snapshot of the same
  balance.\<close>

definition prunable :: "ms \<Rightarrow> sqldb \<Rightarrow> SnapshotRow \<Rightarrow> bool" where
  "prunable cutoff d r \<longleftrightarrow> rn_snapshot_at r < cutoff \<and>
     exists_row (\<lambda>r2. rn_tenant_id r2 = rn_tenant_id r \<and> rn_account_id r2 = rn_account_id r \<and>
       rn_currency r2 = rn_currency r \<and> rn_snapshot_at r < rn_snapshot_at r2) (db_snapshots d)"

definition pruneSnapshotsOlderThanQ :: "sqlite_cfg \<Rightarrow> ms \<Rightarrow> nat \<Rightarrow> int sql" where
  [simp]: "pruneSnapshotsOlderThanQ C cutoff n =
     stmt C (\<lambda>now d. let ids = map rn_id (take n
           (filter (prunable cutoff d) (db_snapshots d)));
         kept = filter (\<lambda>r. rn_id r \<notin> set ids) (db_snapshots d) in
       (Inr (int (length (db_snapshots d) - length kept)), d\<lparr>db_snapshots := kept\<rparr>))"

section \<open>Rates (fx\_rates.sql.go)\<close>

text \<open>\<open>getFXRateAt\<close>.\<close>

definition rateAt :: "string \<Rightarrow> string \<Rightarrow> string \<Rightarrow> ms \<Rightarrow> sqldb \<Rightarrow> FxRateRow option" where
  "rateAt tn base quote m d = limit1 (orderDesc (\<lambda>r. (rx_effective_at r, rx_id r))
     (filter (\<lambda>r. rx_tenant_id r = tn \<and> rx_base_currency r = base \<and>
        rx_quote_currency r = quote \<and> rx_effective_at r \<le> m) (db_fx_rates d)))"

definition listFXRatesQ :: "string \<Rightarrow> string \<Rightarrow> string \<Rightarrow> ms option \<Rightarrow> ms option \<Rightarrow> nat \<Rightarrow> sqldb \<Rightarrow>
    FxRateRow list" where
  [simp]: "listFXRatesQ tn base quote since until n d =
     take n (orderDesc (\<lambda>r. (rx_effective_at r, rx_id r))
       (filter (\<lambda>r. rx_tenant_id r = tn \<and>
          matches (rx_base_currency r) base \<and>
          matches (rx_quote_currency r) quote \<and>
          sinceQ since (rx_effective_at r) \<and>
          untilQ until (rx_effective_at r)) (db_fx_rates d)))"

definition sameRate :: "string \<Rightarrow> string \<Rightarrow> string \<Rightarrow> string \<Rightarrow> ms \<Rightarrow> FxRateRow \<Rightarrow> bool" where
  "sameRate tn base quote source effectiveAt r \<longleftrightarrow> rx_tenant_id r = tn \<and> rx_base_currency r = base \<and>
     rx_quote_currency r = quote \<and> rx_effective_at r = effectiveAt \<and> rx_source r = source"

text \<open>\<open>ON CONFLICT .. DO UPDATE SET rate = excluded.rate RETURNING *\<close>.\<close>

definition upsertFXRateQ :: "sqlite_cfg \<Rightarrow> string \<Rightarrow> string \<Rightarrow> string \<Rightarrow> string \<Rightarrow> string \<Rightarrow> string \<Rightarrow>
    ms \<Rightarrow> FxRateRow sql" where
  "upsertFXRateQ C i tn base quote rate source effectiveAt =
     (let same = sameRate tn base quote source effectiveAt in
      stmt C (\<lambda>now d.
       if exists_row (\<lambda>r. rx_id r = i) (db_fx_rates d)
       then (Inl (GoError ''UNIQUE constraint failed''), d)
       else (case find same (db_fx_rates d) of
         Some row \<Rightarrow>
           (Inr (row\<lparr>rx_rate := rate\<rparr>),
            d\<lparr>db_fx_rates := updateWhere same (\<lambda>r. r\<lparr>rx_rate := rate\<rparr>) (db_fx_rates d)\<rparr>)
       | None \<Rightarrow>
           let row = \<lparr>rx_id = i, rx_tenant_id = tn, rx_base_currency = base,
             rx_quote_currency = quote, rx_rate = rate, rx_source = source,
             rx_effective_at = effectiveAt, rx_created_at = now\<rparr> in
           (Inr row, d\<lparr>db_fx_rates := db_fx_rates d @ [row]\<rparr>))))"

end
