(* ===== verification/Sqlite_Tx.thy ===== *)
theory Sqlite_Tx
  imports Sqlite_Queries
begin

text \<open>
  The SQLite transaction of \<open>internal/repo/sqlite/tx.go\<close>: every method of \<open>repo.Tx\<close> runs
  generated queries of \<^theory_text>\<open>Sqlite_Queries\<close> on the connection of the transaction, with the
  domain's values as the columns hold them, and reads the rows back into the domain.
  \<open>sqlView\<close> reads the ledger off the tables, and the interpretation \<open>sqtx\<close> shows that the
  transaction meets the contract \<open>ledger_tx\<close>.
\<close>

section \<open>Flows\<close>

definition GetFlowByIdempotency :: "sqlite_cfg \<Rightarrow> string \<Rightarrow> string \<Rightarrow> FlowRun option sql" where
  "GetFlowByIdempotency C tn key =
     selectQ C (\<lambda>d. map_option rowToFlowRun (getFlowByIdempotencyQ tn key d))"

definition InsertFlowRun :: "sqlite_cfg \<Rightarrow> FlowRun \<Rightarrow> unit sql" where
  "InsertFlowRun C f = insertFlowRunQ C (fr_ID f) (fr_TenantID f) (fr_FlowType f)
     (fr_IdempotencyKey f) (fr_SourceService f) (fr_ActorID f) (fr_Metadata f)"

definition CompleteFlowRun :: "sqlite_cfg \<Rightarrow> string \<Rightarrow> string \<Rightarrow> unit sql" where
  "CompleteFlowRun C tn fid = completeFlowRunQ C fid tn"

definition InsertFlowStep :: "sqlite_cfg \<Rightarrow> FlowStep \<Rightarrow> unit sql" where
  "InsertFlowStep C s = insertFlowStepQ C (fs_ID s) (fs_TenantID s) (fs_FlowRunID s) (fs_StepID s)
     (fs_Status s) (nullString (fs_JournalID s)) (nullString (fs_ErrorCode s))"

definition GetFlowSteps :: "sqlite_cfg \<Rightarrow> string \<Rightarrow> string \<Rightarrow> FlowStep list sql" where
  "GetFlowSteps C tn fid = selectQ C (\<lambda>d. map rowToFlowStep (stepRows tn fid d))"

section \<open>Accounts and balances\<close>

definition findAccount :: "string \<Rightarrow> string \<Rightarrow> sqldb \<Rightarrow> Account option" where
  "findAccount tn a d = map_option rowToAccount (getAccountQ tn a d)"

definition GetAccount :: "sqlite_cfg \<Rightarrow> string \<Rightarrow> string \<Rightarrow> Account sql" where
  "GetAccount C tn a =
     bindE (selectQ C (findAccount tn a)) (\<lambda>r. case r of
       None \<Rightarrow> throwE (DomainError CodeAccountNotFound a)
     | Some acc \<Rightarrow> ret acc)"

definition InsertAccount :: "sqlite_cfg \<Rightarrow> Account \<Rightarrow> unit sql" where
  "InsertAccount C a = insertAccountQ C (acc_ID a) (acc_TenantID a) (acc_OwnerType a) (acc_OwnerID a)
     (acc_AccountType a) (acc_Currency a) (acc_NormalBalance a)
     (if acc_AllowNegative a then 1 else 0) (acc_Status a)"

definition EnsureBalanceRow :: "sqlite_cfg \<Rightarrow> string \<Rightarrow> string \<Rightarrow> string \<Rightarrow> unit sql" where
  "EnsureBalanceRow C tn a c = upsertBalanceZeroQ C tn a c"

definition parseBalance :: "sqlite_cfg \<Rightarrow> BalanceRow \<Rightarrow> (decimal \<times> decimal \<times> int) sql" where
  "parseBalance C r =
     (case dl_NewFromString (sc_D C) (rb2_posted_debits r) of
        None \<Rightarrow> throwE (GoError ''parse posted_debits'')
      | Some d \<Rightarrow> (case dl_NewFromString (sc_D C) (rb2_posted_credits r) of
          None \<Rightarrow> throwE (GoError ''parse posted_credits'')
        | Some c \<Rightarrow> ret (d, c, rb2_version r)))"

definition LockBalance :: "sqlite_cfg \<Rightarrow> string \<Rightarrow> string \<Rightarrow> string \<Rightarrow> (decimal \<times> decimal \<times> int) sql" where
  "LockBalance C tn a c =
     thenE (EnsureBalanceRow C tn a c)
       (bindE (selectQ C (findBalance tn a c)) (\<lambda>r. case r of
          None \<Rightarrow> throwE (GoError ''sql: no rows in result set'')
        | Some row \<Rightarrow> parseBalance C row))"

definition UpdateBalance :: "sqlite_cfg \<Rightarrow> string \<Rightarrow> string \<Rightarrow> string \<Rightarrow> decimal \<Rightarrow> decimal \<Rightarrow> unit sql" where
  "UpdateBalance C tn a c postedDebits postedCredits =
     updateBalanceQ C (dl_String (sc_D C) postedDebits) (dl_String (sc_D C) postedCredits) tn a c"

section \<open>Journals, entries and events\<close>

definition InsertJournal :: "sqlite_cfg \<Rightarrow> Journal \<Rightarrow> unit sql" where
  "InsertJournal C j = insertJournalQ C (jrn_ID j) (jrn_TenantID j) (nullString (jrn_FlowRunID j))
     (jrn_EventID j) (jrn_SourceService j) (jrn_SourceType j) (jrn_ActorID j) (jrn_Metadata j)"

definition InsertEntry :: "sqlite_cfg \<Rightarrow> string \<Rightarrow> string \<Rightarrow> string \<Rightarrow> string \<Rightarrow> string \<Rightarrow> Direction \<Rightarrow>
    decimal \<Rightarrow> unit sql" where
  "InsertEntry C tn entryID journalID a c dir amount =
     insertEntryQ C entryID tn journalID a c dir (dl_String (sc_D C) amount)"

definition InsertOutbox :: "sqlite_cfg \<Rightarrow> OutboxEvent \<Rightarrow> unit sql" where
  "InsertOutbox C e = insertOutboxQ C (obx_ID e) (obx_TenantID e) (obx_AggregateID e)
     (obx_EventType e) (obx_IdempotencyKey e) (obx_Payload e)"

section \<open>Reservations\<close>

definition InsertReservation :: "sqlite_cfg \<Rightarrow> Reservation \<Rightarrow> unit sql" where
  "InsertReservation C x = insertReservationQ C (res_ID x) (res_TenantID x) (res_IdempotencyKey x)
     (res_SourceAccountID x) (res_ReservedAccountID x) (res_Currency x)
     (dl_String (sc_D C) (res_OriginalAmount x)) (dl_String (sc_D C) (res_OutstandingAmount x))
     (res_Status x) (map_option formatTime (res_ExpiresAt x)) (res_FlowRunID x) (res_Metadata x)"

definition findReservation :: "sqlite_cfg \<Rightarrow> string \<Rightarrow> string \<Rightarrow> sqldb \<Rightarrow> Reservation option" where
  "findReservation C tn rid d = map_option (rowToReservation C) (getReservationQ tn rid d)"

definition LockReservation :: "sqlite_cfg \<Rightarrow> string \<Rightarrow> string \<Rightarrow> Reservation sql" where
  "LockReservation C tn rid =
     bindE (selectQ C (findReservation C tn rid)) (\<lambda>r. case r of
       None \<Rightarrow> throwE (DomainError CodeReservationNotFound rid)
     | Some x \<Rightarrow> ret x)"

definition GetReservationByIdempotency :: "sqlite_cfg \<Rightarrow> string \<Rightarrow> string \<Rightarrow> Reservation option sql" where
  "GetReservationByIdempotency C tn key =
     selectQ C (\<lambda>d. map_option (rowToReservation C) (getReservationByIdempotencyQ tn key d))"

definition UpdateReservationAmounts :: "sqlite_cfg \<Rightarrow> string \<Rightarrow> string \<Rightarrow> decimal \<Rightarrow> decimal \<Rightarrow> decimal \<Rightarrow>
    ReservationStatus \<Rightarrow> unit sql" where
  "UpdateReservationAmounts C tn rid outstanding committed released status =
     updateReservationAmountsQ C (dl_String (sc_D C) outstanding) (dl_String (sc_D C) committed)
       (dl_String (sc_D C) released) status tn rid"

section \<open>Reconciliation\<close>

definition GetReconBatchByIdempotency :: "sqlite_cfg \<Rightarrow> string \<Rightarrow> string \<Rightarrow>
    ReconciliationBatch option sql" where
  "GetReconBatchByIdempotency C tn key =
     selectQ C (\<lambda>d. map_option rowToReconBatch (getReconBatchByIdempotencyQ tn key d))"

definition InsertReconBatch :: "sqlite_cfg \<Rightarrow> ReconciliationBatch \<Rightarrow> unit sql" where
  "InsertReconBatch C b = insertReconBatchQ C (rb_ID b) (rb_TenantID b) (rb_IdempotencyKey b)
     (rb_Source b) (formatTime (rb_WindowStart b)) (formatTime (rb_WindowEnd b)) (rb_ActorID b)"

definition CompleteReconBatch :: "sqlite_cfg \<Rightarrow> ReconciliationBatch \<Rightarrow> unit sql" where
  "CompleteReconBatch C b = completeReconBatchQ C (sint (rb_IngestedCount b))
     (sint (rb_MatchedCount b)) (sint (rb_MismatchedCount b)) (sint (rb_MissingInLedgerCount b))
     (sint (rb_MissingInExternalCount b)) (rb_ID b) (rb_TenantID b)"

definition externalForRecon :: "sqlite_cfg \<Rightarrow> string \<Rightarrow> string \<Rightarrow> time \<Rightarrow> time \<Rightarrow> ExternalRecord list sql" where
  "externalForRecon C tn source windowStart windowEnd =
     selectQ C (\<lambda>d. map (rowToExternalRecord C)
       (listExternalRecordsForReconQ tn source (formatTime windowStart) (formatTime windowEnd) d))"

definition journalsForRecon :: "sqlite_cfg \<Rightarrow> string \<Rightarrow> string \<Rightarrow> time \<Rightarrow> time \<Rightarrow> Journal list sql" where
  "journalsForRecon C tn source windowStart windowEnd =
     selectQ C (\<lambda>d. map rowToJournal
       (listJournalsForReconQ tn source (formatTime windowStart) (formatTime windowEnd) d))"

definition UpdateExternalRecordMatch :: "sqlite_cfg \<Rightarrow> string \<Rightarrow> string \<Rightarrow> ExternalRecordStatus \<Rightarrow>
    string \<Rightarrow> unit sql" where
  "UpdateExternalRecordMatch C tn i status journalID =
     updateExternalRecordMatchQ C status (nullString journalID) i tn"

definition SumJournalEntries :: "sqlite_cfg \<Rightarrow> string \<Rightarrow> string \<Rightarrow> string \<Rightarrow> string \<Rightarrow>
    (decimal \<times> decimal) sql" where
  "SumJournalEntries C tn journalID a c = selectQ C (sumJournalEntriesQ C tn journalID a c)"

definition InsertDiscrepancy :: "sqlite_cfg \<Rightarrow> Discrepancy \<Rightarrow> unit sql" where
  "InsertDiscrepancy C x = insertDiscrepancyQ C (dis_ID x) (dis_TenantID x) (dis_BatchID x)
     (dis_Type x) (nullString (dis_ExternalRecordID x)) (nullString (dis_JournalID x))"

definition findDiscrepancy :: "string \<Rightarrow> string \<Rightarrow> sqldb \<Rightarrow> Discrepancy option" where
  "findDiscrepancy tn i d = map_option rowToDiscrepancy (getDiscrepancyQ tn i d)"

definition LockDiscrepancy :: "sqlite_cfg \<Rightarrow> string \<Rightarrow> string \<Rightarrow> Discrepancy sql" where
  "LockDiscrepancy C tn i =
     bindE (selectQ C (findDiscrepancy tn i)) (\<lambda>r. case r of
       None \<Rightarrow> throwE (DomainError CodeDiscrepancyNotFound i)
     | Some x \<Rightarrow> ret x)"

definition ResolveDiscrepancyRow :: "sqlite_cfg \<Rightarrow> Discrepancy \<Rightarrow> unit sql" where
  "ResolveDiscrepancyRow C x = resolveDiscrepancyRowQ C (dis_Status x)
     (nullString (dis_ResolutionJournalID x)) (dis_ResolutionNote x) (dis_ResolvedBy x)
     (dis_ID x) (dis_TenantID x)"

section \<open>The method table\<close>

definition sqliteTx :: "sqlite_cfg \<Rightarrow> sqldb tx_ops" where
  "sqliteTx C = \<lparr>tx_GetFlowByIdempotency = GetFlowByIdempotency C, tx_GetAccount = GetAccount C,
     tx_LockBalance = LockBalance C, tx_EnsureBalanceRow = EnsureBalanceRow C,
     tx_UpdateBalance = UpdateBalance C, tx_InsertAccount = InsertAccount C,
     tx_InsertFlowRun = InsertFlowRun C, tx_CompleteFlowRun = CompleteFlowRun C,
     tx_InsertJournal = InsertJournal C, tx_InsertEntry = InsertEntry C,
     tx_InsertFlowStep = InsertFlowStep C, tx_InsertOutbox = InsertOutbox C,
     tx_GetFlowSteps = GetFlowSteps C, tx_InsertReservation = InsertReservation C,
     tx_LockReservation = LockReservation C,
     tx_GetReservationByIdempotency = GetReservationByIdempotency C,
     tx_UpdateReservationAmounts = UpdateReservationAmounts C,
     tx_GetReconBatchByIdempotency = GetReconBatchByIdempotency C,
     tx_InsertReconBatch = InsertReconBatch C, tx_CompleteReconBatch = CompleteReconBatch C,
     tx_ListExternalRecordsForRecon = externalForRecon C,
     tx_ListJournalsForRecon = journalsForRecon C,
     tx_UpdateExternalRecordMatch = UpdateExternalRecordMatch C,
     tx_SumJournalEntries = SumJournalEntries C, tx_InsertDiscrepancy = InsertDiscrepancy C,
     tx_LockDiscrepancy = LockDiscrepancy C, tx_ResolveDiscrepancyRow = ResolveDiscrepancyRow C\<rparr>"

lemma sqliteTx_simps [simp]:
  "tx_GetFlowByIdempotency (sqliteTx C) = GetFlowByIdempotency C"
  "tx_GetAccount (sqliteTx C) = GetAccount C"
  "tx_LockBalance (sqliteTx C) = LockBalance C"
  "tx_EnsureBalanceRow (sqliteTx C) = EnsureBalanceRow C"
  "tx_UpdateBalance (sqliteTx C) = UpdateBalance C"
  "tx_InsertAccount (sqliteTx C) = InsertAccount C"
  "tx_InsertFlowRun (sqliteTx C) = InsertFlowRun C"
  "tx_CompleteFlowRun (sqliteTx C) = CompleteFlowRun C"
  "tx_InsertJournal (sqliteTx C) = InsertJournal C"
  "tx_InsertEntry (sqliteTx C) = InsertEntry C"
  "tx_InsertFlowStep (sqliteTx C) = InsertFlowStep C"
  "tx_InsertOutbox (sqliteTx C) = InsertOutbox C"
  "tx_GetFlowSteps (sqliteTx C) = GetFlowSteps C"
  "tx_InsertReservation (sqliteTx C) = InsertReservation C"
  "tx_LockReservation (sqliteTx C) = LockReservation C"
  "tx_GetReservationByIdempotency (sqliteTx C) = GetReservationByIdempotency C"
  "tx_UpdateReservationAmounts (sqliteTx C) = UpdateReservationAmounts C"
  "tx_GetReconBatchByIdempotency (sqliteTx C) = GetReconBatchByIdempotency C"
  "tx_InsertReconBatch (sqliteTx C) = InsertReconBatch C"
  "tx_CompleteReconBatch (sqliteTx C) = CompleteReconBatch C"
  "tx_ListExternalRecordsForRecon (sqliteTx C) = externalForRecon C"
  "tx_ListJournalsForRecon (sqliteTx C) = journalsForRecon C"
  "tx_UpdateExternalRecordMatch (sqliteTx C) = UpdateExternalRecordMatch C"
  "tx_SumJournalEntries (sqliteTx C) = SumJournalEntries C"
  "tx_InsertDiscrepancy (sqliteTx C) = InsertDiscrepancy C"
  "tx_LockDiscrepancy (sqliteTx C) = LockDiscrepancy C"
  "tx_ResolveDiscrepancyRow (sqliteTx C) = ResolveDiscrepancyRow C"
  by (simp_all add: sqliteTx_def)

section \<open>The ledger in the tables\<close>

definition balanceView :: "sqlite_cfg \<Rightarrow> BalanceRow \<Rightarrow> decimal \<times> decimal" where
  "balanceView C r = (decOrZero C (rb2_posted_debits r), decOrZero C (rb2_posted_credits r))"

definition entryView :: "sqlite_cfg \<Rightarrow> EntryRow \<Rightarrow> posted_entry" where
  "entryView C r = (re_tenant_id r, re_journal_id r, \<lparr>ent_AccountID = re_account_id r,
     ent_Currency = re_currency r, ent_Direction = re_direction r,
     ent_Amount = decOrZero C (re_amount r)\<rparr>)"

definition sqlView :: "sqlite_cfg \<Rightarrow> sqldb \<Rightarrow> ledger_view" where
  "sqlView C d = \<lparr>v_account = (\<lambda>(tn, a). findAccount tn a d),
     v_balance = (\<lambda>(tn, a, c). map_option (balanceView C) (findBalance tn a c d)),
     v_journals = map (\<lambda>r. (rj_tenant_id r, rj_id r, rj_event_id r)) (db_journals d),
     v_entries = map (entryView C) (db_entries d),
     v_flow = (\<lambda>(tn, key). map_option (\<lambda>r. (rf_id r, rf_status r))
       (find (\<lambda>r. rf_tenant_id r = tn \<and> rf_idempotency_key r = key) (db_flow_runs d))),
     v_steps = (\<lambda>(tn, fid). map (\<lambda>r. stepInfo (rowToFlowStep r))
       (filter (\<lambda>r. rs_tenant_id r = tn \<and> rs_flow_run_id r = fid) (db_flow_steps d))),
     v_reservation = (\<lambda>(tn, rid). map_option coreOf (findReservation C tn rid d)),
     v_outbox = map (\<lambda>r. (ro_tenant_id r, ro_aggregate_id r, ro_event_type r, ro_idempotency_key r))
       (db_outbox d)\<rparr>"

text \<open>What every operation keeps of the tables: identifiers of reservations, flows and events,
  and idempotency keys of flows and events are unique, and the directions of entries are valid
  (with the decimal package as documented).\<close>

definition sqlInv :: "sqlite_cfg \<Rightarrow> sqldb \<Rightarrow> bool" where
  "sqlInv C d \<longleftrightarrow> codec_ok (sc_D C) \<and> distinct (map rr_id (db_reservations d)) \<and>
     distinct (map rf_id (db_flow_runs d)) \<and> distinct (map rf_idempotency_key (db_flow_runs d)) \<and>
     distinct (map ro_id (db_outbox d)) \<and> distinct (map ro_idempotency_key (db_outbox d)) \<and>
     (\<forall>r\<in>set (db_entries d). Direction_Valid (re_direction r))"

lemma sqlView_sel:
  "v_account (sqlView C d) (tn, a) = findAccount tn a d"
  "v_balance (sqlView C d) (tn, a, c) = map_option (balanceView C) (findBalance tn a c d)"
  "v_flow (sqlView C d) (tn, key) = map_option (\<lambda>r. (rf_id r, rf_status r))
     (find (\<lambda>r. rf_tenant_id r = tn \<and> rf_idempotency_key r = key) (db_flow_runs d))"
  "v_steps (sqlView C d) (tn, fid) = map (\<lambda>r. stepInfo (rowToFlowStep r))
     (filter (\<lambda>r. rs_tenant_id r = tn \<and> rs_flow_run_id r = fid) (db_flow_steps d))"
  "v_reservation (sqlView C d) (tn, rid) = map_option coreOf (findReservation C tn rid d)"
  by (simp_all add: sqlView_def)

lemma find_tick [simp]:
  "findAccount tn a (d\<lparr>db_tick := n\<rparr>) = findAccount tn a d"
  "findBalance tn a c (d\<lparr>db_tick := n\<rparr>) = findBalance tn a c d"
  "findReservation C tn rid (d\<lparr>db_tick := n\<rparr>) = findReservation C tn rid d"
  by (simp_all add: findAccount_def findBalance_def findReservation_def)

lemma sqlView_tick [simp]: "sqlView C (d\<lparr>db_tick := n\<rparr>) = sqlView C d"
  by (simp add: sqlView_def)

lemma sqlInv_tick [simp]: "sqlInv C (d\<lparr>db_tick := n\<rparr>) = sqlInv C d"
  by (simp add: sqlInv_def)

section \<open>The contract\<close>

lemmas sqlView_defs = sqlView_def findAccount_def findBalance_def findReservation_def

lemma GetFlowByIdempotency_law:
  assumes "sqlInv C d" and "GetFlowByIdempotency C tn key d = (Inr fo, d')"
  shows "sqlInv C d' \<and> sqlView C d' = sqlView C d \<and>
    v_flow (sqlView C d) (tn, key) = map_option (\<lambda>f. (fr_ID f, fr_Status f)) fo"
  using assms
  by (auto simp: GetFlowByIdempotency_def exec_simps sqlView_sel rowToFlowRun_def option.map_comp comp_def)

lemma GetAccount_law:
  assumes "sqlInv C d" and "GetAccount C tn a d = (Inr acc, d')"
  shows "sqlInv C d' \<and> sqlView C d' = sqlView C d \<and> v_account (sqlView C d) (tn, a) = Some acc"
  using assms by (auto simp: GetAccount_def exec_simps sqlView_sel split: option.splits)

lemma parseBalance_Inr:
  "parseBalance C r s = (Inr (d, c, ver), s') \<longleftrightarrow>
     dl_NewFromString (sc_D C) (rb2_posted_debits r) = Some d \<and>
     dl_NewFromString (sc_D C) (rb2_posted_credits r) = Some c \<and> ver = rb2_version r \<and> s' = s"
  by (auto simp: parseBalance_def exec_simps split: option.splits)

lemma LockBalance_law:
  assumes "sqlInv C d0" and "LockBalance C tn a c d0 = (Inr (d, cr, ver), d')"
  shows "sqlInv C d' \<and> (d, cr) = balanceOf (sqlView C d0) (tn, a, c) \<and>
    sqlView C d' = (sqlView C d0)\<lparr>v_balance := (v_balance (sqlView C d0))((tn, a, c) \<mapsto> (d, cr))\<rparr>"
proof -
  have ok: "codec_ok (sc_D C)" using assms(1) by (simp add: sqlInv_def)
  obtain d1 r where e: "EnsureBalanceRow C tn a c d0 = (Inr (), d1)" and
    f: "findBalance tn a c d1 = Some r" and p: "balanceView C r = (d, cr)" and
    d': "d' = d1\<lparr>db_tick := Suc (db_tick d1)\<rparr>"
    using assms(2)
    by (auto simp: LockBalance_def parseBalance_Inr balanceView_def decOrZero_def exec_simps
      split: option.splits)
  show ?thesis
  proof (cases "findBalance tn a c d0")
    case (Some r0)
    with e f have "d1 = d0\<lparr>db_tick := Suc (db_tick d0)\<rparr>" "r = r0"
      by (auto simp: EnsureBalanceRow_def exec_simps)
    with assms(1) Some p show ?thesis
      by (auto simp: d' sqlView_sel balanceOf_def fun_upd_idem)
  next
    case None
    define r1 where "r1 = \<lparr>rb2_tenant_id = tn, rb2_account_id = a, rb2_currency = c,
      rb2_posted_debits = ''0'', rb2_posted_credits = ''0'', rb2_version = 0,
      rb2_updated_at = sc_now C (db_tick d0)\<rparr>"
    have d1: "d1 = d0\<lparr>db_tick := Suc (db_tick d0), db_balances := db_balances d0 @ [r1]\<rparr>"
      using e None by (auto simp: EnsureBalanceRow_def exec_simps r1_def)
    have r1: "balanceRow tn' a' c' r1 \<longleftrightarrow> tn' = tn \<and> a' = a \<and> c' = c" for tn' a' c'
      by (auto simp: balanceRow_def r1_def)
    have "r = r1" using f None by (simp add: d1 findBalance_def find_append r1)
    then have dc: "d = 0" "cr = 0" using p ok by (simp_all add: balanceView_def r1_def)
    have "v_balance (sqlView C d1) = (v_balance (sqlView C d0))((tn, a, c) \<mapsto> (0, 0))"
      using None \<open>r = r1\<close> p dc
      by (auto simp: sqlView_def d1 findBalance_def find_append r1 fun_eq_iff split: option.splits)
    then have "sqlView C d1 = (sqlView C d0)\<lparr>v_balance := (v_balance (sqlView C d0))((tn, a, c) \<mapsto> (0, 0))\<rparr>"
      by (simp add: sqlView_def d1 findAccount_def findReservation_def)
    moreover have "sqlInv C d1" using assms(1) by (simp add: sqlInv_def d1)
    ultimately show ?thesis
      using None by (simp add: d' dc balanceOf_def sqlView_sel)
  qed
qed

lemma UpdateBalance_law:
  assumes "sqlInv C d0" and "v_balance (sqlView C d0) (tn, a, c) \<noteq> None"
    and "UpdateBalance C tn a c d cr d0 = (Inr u, d')"
  shows "sqlInv C d' \<and>
    sqlView C d' = (sqlView C d0)\<lparr>v_balance := (v_balance (sqlView C d0))((tn, a, c) \<mapsto> (d, cr))\<rparr>"
proof -
  have ok: "codec_ok (sc_D C)" using assms(1) by (simp add: sqlInv_def)
  define upd where "upd = (\<lambda>r :: BalanceRow. r\<lparr>rb2_posted_debits := dl_String (sc_D C) d,
    rb2_posted_credits := dl_String (sc_D C) cr, rb2_version := rb2_version r + 1,
    rb2_updated_at := sc_now C (db_tick d0)\<rparr>)"
  have d': "d' = d0\<lparr>db_tick := Suc (db_tick d0),
      db_balances := updateWhere (balanceRow tn a c) upd (db_balances d0)\<rparr>"
    using assms(3) by (auto simp: UpdateBalance_def exec_simps upd_def)
  then have rows: "db_balances d' = updateWhere (balanceRow tn a c) upd (db_balances d0)" by simp
  have same: "balanceRow tn' a' c' (upd r) = balanceRow tn' a' c' r" for tn' a' c' r
    by (simp add: balanceRow_def upd_def)
  have key: "balanceRow tn' a' c' r \<Longrightarrow> balanceRow tn a c r \<longleftrightarrow> tn' = tn \<and> a' = a \<and> c' = c" for tn' a' c' r
    by (auto simp: balanceRow_def)
  have "v_balance (sqlView C d') = (v_balance (sqlView C d0))((tn, a, c) \<mapsto> (d, cr))"
  proof (rule ext)
    fix k :: bal_key
    obtain tn' a' c' where k: "k = (tn', a', c')" by (cases k)
    have "findBalance tn' a' c' d' = (if tn' = tn \<and> a' = a \<and> c' = c
        then map_option upd (findBalance tn' a' c' d0) else findBalance tn' a' c' d0)"
      unfolding findBalance_def rows by (rule find_updateWhere_if, rule same, rule key)
    moreover have "balanceView C (upd r) = (d, cr)" for r
      using ok by (simp add: balanceView_def upd_def)
    ultimately show "v_balance (sqlView C d') k = ((v_balance (sqlView C d0))((tn, a, c) \<mapsto> (d, cr))) k"
      using assms(2) by (auto simp: k sqlView_sel)
  qed
  then have "sqlView C d' = (sqlView C d0)\<lparr>v_balance := (v_balance (sqlView C d0))((tn, a, c) \<mapsto> (d, cr))\<rparr>"
    by (simp add: sqlView_def d' findAccount_def findReservation_def)
  with assms(1) show ?thesis by (simp add: sqlInv_def d')
qed

lemma InsertAccount_law:
  assumes "sqlInv C d" and "InsertAccount C acc d = (Inr u, d')"
  shows "sqlInv C d' \<and> v_account (sqlView C d) (acc_TenantID acc, acc_ID acc) = None \<and>
    (\<exists>ct. sqlView C d' = (sqlView C d)\<lparr>v_account := (v_account (sqlView C d))
      ((acc_TenantID acc, acc_ID acc) \<mapsto> acc\<lparr>acc_CreatedAt := ct\<rparr>)\<rparr>)"
proof -
  let ?P = "\<lambda>r. ra_id r = acc_ID acc \<or>
          (ra_tenant_id r = acc_TenantID acc \<and> ra_owner_type r = acc_OwnerType acc \<and>
           ra_owner_id r = acc_OwnerID acc \<and> ra_account_type r = acc_AccountType acc \<and>
           ra_currency r = acc_Currency acc)"
  define row where "row = \<lparr>ra_id = acc_ID acc, ra_tenant_id = acc_TenantID acc,
    ra_owner_type = acc_OwnerType acc, ra_owner_id = acc_OwnerID acc,
    ra_account_type = acc_AccountType acc, ra_currency = acc_Currency acc,
    ra_normal_balance = acc_NormalBalance acc,
    ra_allow_negative = (if acc_AllowNegative acc then 1 else 0), ra_status = acc_Status acc,
    ra_created_at = sc_now C (db_tick d)\<rparr>"
  have d': "d' = d\<lparr>db_tick := Suc (db_tick d), db_accounts := db_accounts d @ [row]\<rparr>" and
    fresh: "\<not> exists_row ?P (db_accounts d)"
    using assms(2) by (auto simp: InsertAccount_def exec_simps row_def)
  have row: "rowToAccount row = acc\<lparr>acc_CreatedAt := parseTime (sc_now C (db_tick d))\<rparr>"
    by (simp add: rowToAccount_def row_def)
  have none: "find (\<lambda>r. ra_tenant_id r = tn \<and> ra_id r = acc_ID acc) (db_accounts d) = None" for tn
    by (rule exists_row_find [OF fresh]) auto
  have "v_account (sqlView C d') = (v_account (sqlView C d))
      ((acc_TenantID acc, acc_ID acc) \<mapsto> acc\<lparr>acc_CreatedAt := parseTime (sc_now C (db_tick d))\<rparr>)"
    using none row
    by (auto simp: sqlView_def findAccount_def d' find_append fun_eq_iff row_def split: option.splits)
  then have "sqlView C d' = (sqlView C d)\<lparr>v_account := (v_account (sqlView C d))
      ((acc_TenantID acc, acc_ID acc) \<mapsto> acc\<lparr>acc_CreatedAt := parseTime (sc_now C (db_tick d))\<rparr>)\<rparr>"
    by (simp add: sqlView_def d' findBalance_def findReservation_def)
  moreover have "v_account (sqlView C d) (acc_TenantID acc, acc_ID acc) = None"
    by (simp add: sqlView_sel findAccount_def none)
  ultimately show ?thesis using assms(1) by (auto simp: sqlInv_def d')
qed

lemma InsertFlowRun_law:
  assumes "sqlInv C d" and "InsertFlowRun C f d = (Inr u, d')"
  shows "sqlInv C d' \<and> sqlView C d' = (sqlView C d)\<lparr>v_flow :=
    (v_flow (sqlView C d))((fr_TenantID f, fr_IdempotencyKey f) \<mapsto> (fr_ID f, FlowRunning))\<rparr>"
proof -
  let ?P = "\<lambda>r. rf_id r = fr_ID f \<or> rf_idempotency_key r = fr_IdempotencyKey f"
  obtain row where d': "d' = d\<lparr>db_tick := Suc (db_tick d), db_flow_runs := db_flow_runs d @ [row]\<rparr>" and
    fresh: "\<not> exists_row ?P (db_flow_runs d)" and
    row: "rf_id row = fr_ID f" "rf_tenant_id row = fr_TenantID f" "rf_status row = FlowRunning"
      "rf_idempotency_key row = fr_IdempotencyKey f"
    using assms(2) by (fastforce simp: InsertFlowRun_def exec_simps)
  have none: "find (\<lambda>r. rf_tenant_id r = tn \<and> rf_idempotency_key r = fr_IdempotencyKey f)
      (db_flow_runs d) = None" for tn
    by (rule exists_row_find [OF fresh]) auto
  have "v_flow (sqlView C d') = (v_flow (sqlView C d))
      ((fr_TenantID f, fr_IdempotencyKey f) \<mapsto> (fr_ID f, FlowRunning))"
    using none by (auto simp: sqlView_def d' find_append fun_eq_iff row split: option.splits)
  then have "sqlView C d' = (sqlView C d)\<lparr>v_flow := (v_flow (sqlView C d))
      ((fr_TenantID f, fr_IdempotencyKey f) \<mapsto> (fr_ID f, FlowRunning))\<rparr>"
    by (simp add: sqlView_defs d')
  moreover have "sqlInv C d'"
    using assms(1) fresh
    by (auto simp: sqlInv_def d' row exists_row_def list_ex_iff)
  ultimately show ?thesis by simp
qed

lemma CompleteFlowRun_law:
  assumes "sqlInv C d" and "CompleteFlowRun C tn fid d = (Inr u, d')"
  shows "sqlInv C d' \<and>
    sqlView C d' = (sqlView C d)\<lparr>v_flow := completeFlow tn fid (v_flow (sqlView C d))\<rparr>"
proof -
  define upd where "upd = (\<lambda>r :: FlowRunRow. r\<lparr>rf_status := FlowCompleted, rf_completed_at := Some (sc_now C (db_tick d))\<rparr>)"
  let ?P = "\<lambda>r. rf_id r = fid \<and> rf_tenant_id r = tn"
  have d': "d' = d\<lparr>db_tick := Suc (db_tick d), db_flow_runs := updateWhere ?P upd (db_flow_runs d)\<rparr>"
    using assms(2) by (auto simp: CompleteFlowRun_def exec_simps upd_def)
  have same: "rf_id (upd r) = rf_id r" "rf_tenant_id (upd r) = rf_tenant_id r"
    "rf_idempotency_key (upd r) = rf_idempotency_key r" "rf_status (upd r) = FlowCompleted" for r
    by (simp_all add: upd_def)
  have "find (\<lambda>r. rf_tenant_id r = tn' \<and> rf_idempotency_key r = key) (db_flow_runs d') =
      map_option (\<lambda>r. if ?P r then upd r else r)
        (find (\<lambda>r. rf_tenant_id r = tn' \<and> rf_idempotency_key r = key) (db_flow_runs d))" for tn' key
    by (simp add: d' find_updateWhere same)
  then have "v_flow (sqlView C d') = completeFlow tn fid (v_flow (sqlView C d))"
    by (auto simp: sqlView_def completeFlow_def fun_eq_iff same option.map_comp comp_def
      dest!: find_SomeD split: option.splits)
  then have "sqlView C d' = (sqlView C d)\<lparr>v_flow := completeFlow tn fid (v_flow (sqlView C d))\<rparr>"
    by (simp add: sqlView_defs d')
  with assms(1) show ?thesis by (simp add: sqlInv_def d' map_updateWhere same)
qed

lemma append_laws:
  assumes "sqlInv C d"
  shows "InsertJournal C j d = (Inr u, d') \<Longrightarrow> sqlInv C d' \<and> sqlView C d' = (sqlView C d)\<lparr>v_journals :=
      v_journals (sqlView C d) @ [(jrn_TenantID j, jrn_ID j, jrn_EventID j)]\<rparr>"
    and "InsertEntry C tn eid jid a c dir amt d = (Inr u, d') \<Longrightarrow> sqlInv C d' \<and>
      sqlView C d' = (sqlView C d)\<lparr>v_entries := v_entries (sqlView C d) @
        [(tn, jid, \<lparr>ent_AccountID = a, ent_Currency = c, ent_Direction = dir, ent_Amount = amt\<rparr>)]\<rparr>"
    and "InsertFlowStep C s d = (Inr u, d') \<Longrightarrow> sqlInv C d' \<and> sqlView C d' = (sqlView C d)\<lparr>v_steps :=
      (v_steps (sqlView C d))((fs_TenantID s, fs_FlowRunID s) :=
        v_steps (sqlView C d) (fs_TenantID s, fs_FlowRunID s) @ [stepInfo s])\<rparr>"
    and "InsertOutbox C e d = (Inr u, d') \<Longrightarrow> sqlInv C d' \<and> sqlView C d' = (sqlView C d)\<lparr>v_outbox :=
      v_outbox (sqlView C d) @ [(obx_TenantID e, obx_AggregateID e, obx_EventType e, obx_IdempotencyKey e)]\<rparr>"
  using assms
  by (auto simp: InsertJournal_def InsertEntry_def InsertFlowStep_def InsertOutbox_def exec_simps
    sqlInv_def sqlView_defs entryView_def rowToFlowStep_def stepInfo_def fun_eq_iff exists_row_def
    list_ex_iff)

lemma GetFlowSteps_law:
  assumes "sqlInv C d" and "GetFlowSteps C tn fid d = (Inr ss, d')"
  shows "sqlInv C d' \<and> sqlView C d' = sqlView C d \<and>
    mset (map stepInfo ss) = mset (v_steps (sqlView C d) (tn, fid))"
proof -
  have "mset (map f (sort_key g xs)) = mset (map f xs)" for f :: "FlowStepRow \<Rightarrow> step_info" and g :: "FlowStepRow \<Rightarrow> ms" and xs
    by simp
  then show ?thesis
    using assms by (auto simp: GetFlowSteps_def exec_simps stepRows_def sqlView_sel comp_def)
qed

lemma InsertReservation_law:
  assumes "sqlInv C d" and "res_CommittedAmount x = 0" and "res_ReleasedAmount x = 0"
    and "InsertReservation C x d = (Inr u, d')"
  shows "sqlInv C d' \<and> sqlView C d' = (sqlView C d)\<lparr>v_reservation :=
    (v_reservation (sqlView C d))((res_TenantID x, res_ID x) \<mapsto> coreOf x)\<rparr>"
proof -
  let ?P = "\<lambda>r. rr_id r = res_ID x \<or> rr_idempotency_key r = res_IdempotencyKey x"
  have ok: "codec_ok (sc_D C)" using assms(1) by (simp add: sqlInv_def)
  obtain row where d': "d' = d\<lparr>db_tick := Suc (db_tick d), db_reservations := db_reservations d @ [row]\<rparr>" and
    fresh: "\<not> exists_row ?P (db_reservations d)" and
    row: "rr_id row = res_ID x" "rr_tenant_id row = res_TenantID x"
      "coreOf (rowToReservation C row) = coreOf x"
    using assms(2-) ok
    by (fastforce simp: InsertReservation_def exec_simps rowToReservation_def coreOf_def)
  have none: "find (\<lambda>r. rr_tenant_id r = tn \<and> rr_id r = res_ID x) (db_reservations d) = None" for tn
    by (rule exists_row_find [OF fresh]) auto
  have "v_reservation (sqlView C d') = (v_reservation (sqlView C d))((res_TenantID x, res_ID x) \<mapsto> coreOf x)"
    using none row(3)
    by (auto simp: sqlView_def findReservation_def d' find_append fun_eq_iff row(1,2) split: option.splits)
  then have "sqlView C d' = (sqlView C d)\<lparr>v_reservation :=
      (v_reservation (sqlView C d))((res_TenantID x, res_ID x) \<mapsto> coreOf x)\<rparr>"
    by (simp add: sqlView_def findAccount_def findBalance_def d')
  moreover have "sqlInv C d'"
    using assms(1) fresh by (auto simp: sqlInv_def d' row exists_row_def list_ex_iff)
  ultimately show ?thesis by simp
qed

lemma LockReservation_law:
  assumes "sqlInv C d" and "LockReservation C tn rid d = (Inr x, d')"
  shows "sqlInv C d' \<and> sqlView C d' = sqlView C d \<and>
    v_reservation (sqlView C d) (tn, rid) = Some (coreOf x) \<and> res_ID x = rid \<and> res_TenantID x = tn"
  using assms
  by (auto simp: LockReservation_def exec_simps sqlView_sel findReservation_def rowToReservation_def
    dest!: find_SomeD split: option.splits)

lemma GetReservationByIdempotency_law:
  assumes "sqlInv C d" and "GetReservationByIdempotency C tn key d = (Inr ro, d')"
  shows "sqlInv C d' \<and> sqlView C d' = sqlView C d \<and>
    (\<forall>x. ro = Some x \<longrightarrow> v_reservation (sqlView C d) (tn, res_ID x) = Some (coreOf x) \<and>
       res_IdempotencyKey x = key)"
proof -
  have ro: "ro = map_option (rowToReservation C)
      (find (\<lambda>r. rr_tenant_id r = tn \<and> rr_idempotency_key r = key) (db_reservations d))" and
    d': "d' = d\<lparr>db_tick := Suc (db_tick d)\<rparr>"
    using assms(2) by (auto simp: GetReservationByIdempotency_def exec_simps)
  have "v_reservation (sqlView C d) (tn, res_ID x) = Some (coreOf x) \<and> res_IdempotencyKey x = key"
    if x: "ro = Some x" for x
  proof -
    obtain row where row: "row \<in> set (db_reservations d)" "rr_tenant_id row = tn"
        "rr_idempotency_key row = key" "x = rowToReservation C row"
      using x by (auto simp: ro dest!: find_SomeD)
    have "find (\<lambda>r. rr_tenant_id r = tn \<and> rr_id r = rr_id row) (db_reservations d) = Some row"
      using assms(1) row(1,2) by (intro find_unique) (auto simp: sqlInv_def distinct_map inj_on_def)
    with row show ?thesis by (simp add: sqlView_sel findReservation_def rowToReservation_def)
  qed
  with assms(1) d' show ?thesis by simp
qed

lemma UpdateReservationAmounts_law:
  assumes "sqlInv C d" and "UpdateReservationAmounts C tn rid out com rel status d = (Inr u, d')"
  shows "sqlInv C d' \<and> sqlView C d' = (sqlView C d)\<lparr>v_reservation := (v_reservation (sqlView C d))
    ((tn, rid) := map_option (\<lambda>r. r\<lparr>rc_Outstanding := out, rc_Committed := com,
       rc_Released := rel, rc_Status := status\<rparr>) (v_reservation (sqlView C d) (tn, rid)))\<rparr>"
proof -
  have ok: "codec_ok (sc_D C)" using assms(1) by (simp add: sqlInv_def)
  let ?P = "\<lambda>r. rr_tenant_id r = tn \<and> rr_id r = rid"
  define upd where "upd = (\<lambda>r :: ReservationRow. r\<lparr>rr_outstanding_amount := dl_String (sc_D C) out,
    rr_committed_amount := dl_String (sc_D C) com, rr_released_amount := dl_String (sc_D C) rel,
    rr_status := status, rr_updated_at := sc_now C (db_tick d)\<rparr>)"
  have d': "d' = d\<lparr>db_tick := Suc (db_tick d), db_reservations := updateWhere ?P upd (db_reservations d)\<rparr>"
    using assms(2) by (auto simp: UpdateReservationAmounts_def exec_simps upd_def split: if_splits)
  have same: "rr_id (upd r) = rr_id r" "rr_tenant_id (upd r) = rr_tenant_id r" for r
    by (simp_all add: upd_def)
  have core: "coreOf (rowToReservation C (upd r)) = (coreOf (rowToReservation C r))
      \<lparr>rc_Outstanding := out, rc_Committed := com, rc_Released := rel, rc_Status := status\<rparr>" for r
    using ok by (simp add: coreOf_def rowToReservation_def upd_def)
  have f: "find (\<lambda>r. rr_tenant_id r = tn' \<and> rr_id r = rid') (db_reservations d') =
      (let row = find (\<lambda>r. rr_tenant_id r = tn' \<and> rr_id r = rid') (db_reservations d)
       in if tn' = tn \<and> rid' = rid then map_option upd row else row)" for tn' rid'
    unfolding d' by simp (subst find_updateWhere_if [where B = "tn' = tn \<and> rid' = rid"],
      auto simp: same)
  have "v_reservation (sqlView C d') = (v_reservation (sqlView C d))
    ((tn, rid) := map_option (\<lambda>r. r\<lparr>rc_Outstanding := out, rc_Committed := com,
       rc_Released := rel, rc_Status := status\<rparr>) (v_reservation (sqlView C d) (tn, rid)))"
  proof (rule ext)
    fix k :: "string \<times> string"
    obtain tn' rid' where k: "k = (tn', rid')" by (cases k)
    show "v_reservation (sqlView C d') k = ((v_reservation (sqlView C d))
      ((tn, rid) := map_option (\<lambda>r. r\<lparr>rc_Outstanding := out, rc_Committed := com,
         rc_Released := rel, rc_Status := status\<rparr>) (v_reservation (sqlView C d) (tn, rid)))) k"
      by (auto simp: k sqlView_sel findReservation_def f Let_def core option.map_comp comp_def)
  qed
  then have "sqlView C d' = (sqlView C d)\<lparr>v_reservation := (v_reservation (sqlView C d))
    ((tn, rid) := map_option (\<lambda>r. r\<lparr>rc_Outstanding := out, rc_Committed := com,
       rc_Released := rel, rc_Status := status\<rparr>) (v_reservation (sqlView C d) (tn, rid)))\<rparr>"
    by (simp add: sqlView_def findAccount_def findBalance_def d')
  with assms(1) show ?thesis by (simp add: sqlInv_def d' map_updateWhere same)
qed

lemma sqlView_other [simp]:
  "sqlView C (d\<lparr>db_batches := b\<rparr>) = sqlView C d"
  "sqlView C (d\<lparr>db_external := x\<rparr>) = sqlView C d"
  "sqlView C (d\<lparr>db_discrepancies := y\<rparr>) = sqlView C d"
  "sqlView C (d\<lparr>db_snapshots := n\<rparr>) = sqlView C d"
  "sqlView C (d\<lparr>db_fx_rates := f\<rparr>) = sqlView C d"
  by (simp_all add: sqlView_defs)

lemma sqlInv_other [simp]:
  "sqlInv C (d\<lparr>db_batches := b\<rparr>) = sqlInv C d"
  "sqlInv C (d\<lparr>db_external := x\<rparr>) = sqlInv C d"
  "sqlInv C (d\<lparr>db_discrepancies := y\<rparr>) = sqlInv C d"
  "sqlInv C (d\<lparr>db_snapshots := n\<rparr>) = sqlInv C d"
  "sqlInv C (d\<lparr>db_fx_rates := f\<rparr>) = sqlInv C d"
  by (simp_all add: sqlInv_def)

text \<open>Operations on the other tables leave the ledger as it is.\<close>

lemma keeps_stmt:
  assumes "\<And>now d r d'. m now d = (r, d') \<Longrightarrow> sqlInv C d \<Longrightarrow> sqlInv C d' \<and> sqlView C d' = sqlView C d"
  shows "keeps (sqlInv C) (sqlView C) (stmt C m)"
proof -
  have "sqlInv C d' \<and> sqlView C d' = sqlView C d" if "sqlInv C d" "stmt C m d = (r, d')" for d r d'
    using that assms [of _ "d\<lparr>db_tick := Suc (db_tick d)\<rparr>"]
    by (auto simp: stmt_def Let_def split: option.splits)
  then show ?thesis by (auto simp: keeps_def)
qed

lemma keeps_selectQ [keeps_intros]: "keeps (sqlInv C) (sqlView C) (selectQ C f)"
  unfolding selectQ_def by (rule keeps_stmt) simp

lemma keeps_insertQ [keeps_intros]:
  "(\<And>now d. sqlView C (ins now d) = sqlView C d) \<Longrightarrow> (\<And>now d. sqlInv C (ins now d) = sqlInv C d) \<Longrightarrow>
     keeps (sqlInv C) (sqlView C) (insertQ C conflict check ins)"
  unfolding insertQ_def by (rule keeps_stmt) (auto split: if_splits)

lemma keeps_updateQ [keeps_intros]:
  "(\<And>now d. sqlView C (upd now d) = sqlView C d) \<Longrightarrow> (\<And>now d. sqlInv C (upd now d) = sqlInv C d) \<Longrightarrow>
     keeps (sqlInv C) (sqlView C) (updateQ C upd)"
  unfolding updateQ_def by (rule keeps_stmt) auto

lemma recon_keeps [keeps_intros]:
  "keeps (sqlInv C) (sqlView C) (GetReconBatchByIdempotency C tn key)"
  "keeps (sqlInv C) (sqlView C) (InsertReconBatch C rb)"
  "keeps (sqlInv C) (sqlView C) (CompleteReconBatch C rb)"
  "keeps (sqlInv C) (sqlView C) (externalForRecon C tn src ws we)"
  "keeps (sqlInv C) (sqlView C) (journalsForRecon C tn src ws we)"
  "keeps (sqlInv C) (sqlView C) (UpdateExternalRecordMatch C tn i ms jid)"
  "keeps (sqlInv C) (sqlView C) (SumJournalEntries C tn jid a c)"
  "keeps (sqlInv C) (sqlView C) (InsertDiscrepancy C dx)"
  "keeps (sqlInv C) (sqlView C) (LockDiscrepancy C tn i)"
  "keeps (sqlInv C) (sqlView C) (ResolveDiscrepancyRow C dx)"
proof -
  show "keeps (sqlInv C) (sqlView C) (UpdateExternalRecordMatch C tn i ms jid)"
    unfolding UpdateExternalRecordMatch_def updateExternalRecordMatchQ_def by (rule keeps_stmt) (auto split: if_splits)
  show "keeps (sqlInv C) (sqlView C) (ResolveDiscrepancyRow C dx)"
    unfolding ResolveDiscrepancyRow_def resolveDiscrepancyRowQ_def by (rule keeps_stmt) (auto split: if_splits)
  show "keeps (sqlInv C) (sqlView C) (LockDiscrepancy C tn i)"
    by (auto simp: LockDiscrepancy_def intro!: keeps_intros split: option.splits)
qed (auto simp: GetReconBatchByIdempotency_def InsertReconBatch_def CompleteReconBatch_def
    externalForRecon_def journalsForRecon_def SumJournalEntries_def InsertDiscrepancy_def
    intro!: keeps_intros)

lemmas recon_laws = recon_keeps [THEN keepsD]

interpretation sqtx: ledger_tx "sqliteTx C" "sqlView C" "sqlInv C" for C
  by unfold_locales
    (simp only: sqliteTx_simps,
     (rule GetFlowByIdempotency_law GetAccount_law LockBalance_law UpdateBalance_law
        InsertAccount_law InsertFlowRun_law CompleteFlowRun_law append_laws GetFlowSteps_law
        InsertReservation_law LockReservation_law GetReservationByIdempotency_law
        UpdateReservationAmounts_law recon_laws; assumption))+

end
