(* ===== verification/Sqlite_Store.thy ===== *)
theory Sqlite_Store
  imports Sqlite_Tx Accounts Exchange Reconcile Scheduler
begin

text \<open>
  The SQLite store of \<open>internal/repo/sqlite/store.go\<close>: the queries that run outside a
  transaction, and the one connection of the pool (\<open>SetMaxOpenConns(1)\<close>).

  \<^item> A query is a generated one of \<^theory_text>\<open>Sqlite_Queries\<close>, its rows read back into the domain.
  \<^item> \<open>sqlite\<close> is the connection: the committed tables, the tables of a transaction that was left
    open on it, and whether the transaction was finalized. \<open>BeginFlowTx\<close>, \<open>Commit\<close> and
    \<open>Rollback\<close> run BEGIN IMMEDIATE, COMMIT and ROLLBACK, any of which may fail.
  \<^item> The interpretation \<open>sq\<close> shows that the store meets the contract \<open>ledger_store\<close> as long as a
    COMMIT or ROLLBACK that fails has rolled the transaction back.
\<close>

section \<open>Queries\<close>

text \<open>The default page sizes.\<close>

definition limitOr100 :: "int \<Rightarrow> nat" where
  "limitOr100 n = nat (if n \<le> 0 then 100 else n)"

definition limitUpTo500 :: "int \<Rightarrow> nat" where
  "limitUpTo500 n = nat (if n \<le> 0 \<or> n > 500 then 100 else n)"

definition GetAccount :: "sqlite_cfg \<Rightarrow> string \<Rightarrow> string \<Rightarrow> Account sql" where
  "GetAccount C tn a =
     bindE (selectQ C (findAccount tn a)) (\<lambda>r. case r of
       None \<Rightarrow> throwE (DomainError CodeAccountNotFound (''account '' @ a))
     | Some acc \<Rightarrow> ret acc)"

definition GetBalance :: "sqlite_cfg \<Rightarrow> string \<Rightarrow> string \<Rightarrow> string \<Rightarrow> (decimal \<times> decimal \<times> int) sql" where
  "GetBalance C tn a c =
     bindE (selectQ C (findBalance tn a c)) (\<lambda>r. case r of
       None \<Rightarrow> ret (0, 0, 0)
     | Some row \<Rightarrow> parseBalance C row)"

definition GetFlow :: "sqlite_cfg \<Rightarrow> string \<Rightarrow> string \<Rightarrow> FlowRun option sql" where
  "GetFlow C tn fid =
     bindE (selectQ C (getFlowByIDQ tn fid)) (\<lambda>row. case row of
       None \<Rightarrow> ret None
     | Some r \<Rightarrow>
         bindE (selectQ C (\<lambda>d. map rowToFlowStep (stepRows tn fid d))) (\<lambda>steps.
         ret (Some ((rowToFlowRun r)\<lparr>fr_Steps := steps\<rparr>))))"

definition ListAccountActivity :: "sqlite_cfg \<Rightarrow> ListActivityInput \<Rightarrow> ActivityRow list sql" where
  "ListAccountActivity C i =
     selectQ C (\<lambda>d. map (\<lambda>r. \<lparr>ar_JournalID = re_journal_id r, ar_EntryID = re_id r,
         ar_Currency = re_currency r, ar_Direction = re_direction r,
         ar_Amount = decOrZero C (re_amount r), ar_CreatedAt = parseTime (re_created_at r),
         ar_SourceService = ''''\<rparr>)
       (listAccountActivityQ (lai_TenantID i) (lai_AccountID i) (lai_Currency i)
          (map_option formatTime (lai_Since i)) (map_option formatTime (lai_Until i))
          (limitOr100 (lai_Limit i)) d))"

definition rowToOutboxEvent :: "OutboxRow \<Rightarrow> OutboxEvent" where
  "rowToOutboxEvent r = \<lparr>obx_ID = ro_id r, obx_TenantID = ro_tenant_id r,
     obx_AggregateID = ro_aggregate_id r, obx_EventType = ro_event_type r,
     obx_IdempotencyKey = ro_idempotency_key r, obx_Payload = ro_payload r,
     obx_CreatedAt = parseTime (ro_created_at r)\<rparr>"

definition PendingOutbox :: "sqlite_cfg \<Rightarrow> int \<Rightarrow> OutboxEvent list sql" where
  "PendingOutbox C n = selectQ C (\<lambda>d. map rowToOutboxEvent (listPendingOutboxQ (limitOr100 n) d))"

definition MarkOutboxPublished :: "sqlite_cfg \<Rightarrow> string \<Rightarrow> unit sql" where
  "MarkOutboxPublished C i = markOutboxPublishedQ C i"

definition IncrementOutboxAttempts :: "sqlite_cfg \<Rightarrow> string \<Rightarrow> unit sql" where
  "IncrementOutboxAttempts C i = incrementOutboxAttemptsQ C i"

section \<open>Snapshots\<close>

definition InsertSnapshot :: "sqlite_cfg \<Rightarrow> BalanceSnapshot \<Rightarrow> unit sql" where
  "InsertSnapshot C s = insertSnapshotQ C (bs_ID s) (bs_TenantID s) (bs_AccountID s) (bs_Currency s)
     (dl_String (sc_D C) (bs_PostedDebits s)) (dl_String (sc_D C) (bs_PostedCredits s))
     (bs_Version s) (formatTime (bs_SnapshotAt s))"

definition GetSnapshotBefore :: "sqlite_cfg \<Rightarrow> string \<Rightarrow> string \<Rightarrow> string \<Rightarrow> time \<Rightarrow>
    BalanceSnapshot option sql" where
  "GetSnapshotBefore C tn a c t =
     selectQ C (\<lambda>d. map_option (rowToSnapshot C) (snapshotBefore tn a c (formatTime t) d))"

definition SumEntriesBetween :: "sqlite_cfg \<Rightarrow> string \<Rightarrow> string \<Rightarrow> string \<Rightarrow> time \<Rightarrow> time \<Rightarrow>
    (decimal \<times> decimal) sql" where
  "SumEntriesBetween C tn a c after until =
     selectQ C (sumEntriesBetweenQ C tn a c (formatTime after) (formatTime until))"

definition ListTenantBalances :: "sqlite_cfg \<Rightarrow> string \<Rightarrow> TenantBalanceRow list sql" where
  "ListTenantBalances C tn =
     selectQ C (\<lambda>d. map (\<lambda>r. \<lparr>tb_AccountID = rb2_account_id r, tb_Currency = rb2_currency r,
         tb_PostedDebits = decOrZero C (rb2_posted_debits r),
         tb_PostedCredits = decOrZero C (rb2_posted_credits r), tb_Version = rb2_version r\<rparr>)
       (listAllBalancesForTenantQ tn d))"

definition ListTenantsDueForSnapshot :: "sqlite_cfg \<Rightarrow> time \<Rightarrow> int \<Rightarrow> string list sql" where
  "ListTenantsDueForSnapshot C cutoff n =
     selectQ C (listTenantsDueForSnapshotQ (formatTime cutoff) (limitOr100 n))"

definition PruneSnapshotsOlderThan :: "sqlite_cfg \<Rightarrow> time \<Rightarrow> int \<Rightarrow> int sql" where
  "PruneSnapshotsOlderThan C cutoff n =
     pruneSnapshotsOlderThanQ C (formatTime cutoff) (limitOr100 n)"

section \<open>Rates\<close>

definition UpsertFXRate :: "sqlite_cfg \<Rightarrow> FXRate \<Rightarrow> FXRate sql" where
  "UpsertFXRate C x =
     bindE (upsertFXRateQ C (fx_ID x) (fx_TenantID x) (fx_BaseCurrency x) (fx_QuoteCurrency x)
       (dl_String (sc_D C) (fx_Rate x)) (fx_Source x) (formatTime (fx_EffectiveAt x)))
     (\<lambda>row. ret (rowToFXRate C row))"

definition GetFXRateAt :: "sqlite_cfg \<Rightarrow> string \<Rightarrow> string \<Rightarrow> string \<Rightarrow> time \<Rightarrow> FXRate option sql" where
  "GetFXRateAt C tn base quote t =
     selectQ C (\<lambda>d. map_option (rowToFXRate C) (rateAt tn base quote (formatTime t) d))"

definition ListFXRates :: "sqlite_cfg \<Rightarrow> ListFXRatesInput \<Rightarrow> FXRate list sql" where
  "ListFXRates C i =
     selectQ C (\<lambda>d. map (rowToFXRate C)
       (listFXRatesQ (lfx_TenantID i) (lfx_BaseCurrency i) (lfx_QuoteCurrency i)
          (map_option formatTime (lfx_Since i)) (map_option formatTime (lfx_Until i))
          (limitUpTo500 (lfx_Limit i)) d))"

section \<open>Reservations\<close>

definition GetReservation :: "sqlite_cfg \<Rightarrow> string \<Rightarrow> string \<Rightarrow> Reservation sql" where
  "GetReservation C tn rid =
     bindE (selectQ C (findReservation C tn rid)) (\<lambda>r. case r of
       None \<Rightarrow> throwE (DomainError CodeReservationNotFound rid)
     | Some x \<Rightarrow> ret x)"

definition ListExpiredReservations :: "sqlite_cfg \<Rightarrow> time \<Rightarrow> int \<Rightarrow> ExpiredReservation list sql" where
  "ListExpiredReservations C now n =
     selectQ C (\<lambda>d. map (\<lambda>r. \<lparr>xr_ID = rr_id r, xr_TenantID = rr_tenant_id r\<rparr>)
       (listExpiredReservationsQ (formatTime now) (limitOr100 n) d))"

definition ListReservations :: "sqlite_cfg \<Rightarrow> ListReservationsInput \<Rightarrow> Reservation list sql" where
  "ListReservations C i =
     selectQ C (\<lambda>d. map (rowToReservation C)
       (listReservationsQ (lri_TenantID i) (lri_OwnerType i) (lri_OwnerID i) (lri_Status i)
          (limitUpTo500 (lri_Limit i)) d))"

section \<open>Reconciliation\<close>

text \<open>\<open>ON CONFLICT (tenant_id, source, external_ref) DO NOTHING\<close>, with the number of rows
  inserted.\<close>

definition InsertExternalRecord :: "sqlite_cfg \<Rightarrow> ExternalRecord \<Rightarrow> bool sql" where
  "InsertExternalRecord C x = insertExternalRecordQ C (er_ID x) (er_TenantID x) (er_Source x)
     (er_ExternalRef x) (dl_String (sc_D C) (er_Amount x)) (er_Currency x)
     (formatTime (er_OccurredAt x)) (nullString (er_AccountID x)) (er_RawPayload x)"

definition GetReconBatch :: "sqlite_cfg \<Rightarrow> string \<Rightarrow> string \<Rightarrow> ReconciliationBatch sql" where
  "GetReconBatch C tn i =
     bindE (selectQ C (\<lambda>d. map_option rowToReconBatch (getReconBatchQ tn i d))) (\<lambda>r. case r of
       None \<Rightarrow> throwE (DomainError CodeReconBatchNotFound i)
     | Some b \<Rightarrow> ret b)"

definition ListDiscrepancies :: "sqlite_cfg \<Rightarrow> ListDiscrepanciesInput \<Rightarrow> Discrepancy list sql" where
  "ListDiscrepancies C i =
     selectQ C (\<lambda>d. map rowToDiscrepancy
       (listDiscrepanciesQ (ldi_TenantID i) (ldi_BatchID i) (ldi_Status i)
          (limitUpTo500 (ldi_Limit i)) d))"

definition GetDiscrepancy :: "sqlite_cfg \<Rightarrow> string \<Rightarrow> string \<Rightarrow> Discrepancy sql" where
  "GetDiscrepancy C tn i =
     bindE (selectQ C (findDiscrepancy tn i)) (\<lambda>r. case r of
       None \<Rightarrow> throwE (DomainError CodeDiscrepancyNotFound i)
     | Some x \<Rightarrow> ret x)"

section \<open>The connection\<close>

record sqlite =
  sq_db :: sqldb
  sq_pending :: "sqldb option"
  sq_done :: bool

text \<open>A query of the store runs on the pooled connection: inside a transaction that is still
  open there, else on the committed tables.\<close>

definition onDb :: "'a sql \<Rightarrow> (sqlite, error, 'a) exec" where
  "onDb m s = (case sq_pending s of
       None \<Rightarrow> (case m (sq_db s) of (r, d) \<Rightarrow> (r, s\<lparr>sq_db := d\<rparr>))
     | Some p \<Rightarrow> (case m p of (r, d) \<Rightarrow> (r, s\<lparr>sq_pending := Some d\<rparr>)))"

definition BeginFlowTx :: "sqlite_cfg \<Rightarrow> (sqlite, error, sqldb) exec" where
  "BeginFlowTx C s = (case sq_pending s of
       Some p \<Rightarrow> (Inl (GoError ''begin immediate: cannot start a transaction within a transaction''), s)
     | None \<Rightarrow> (case stmt C (\<lambda>now d. (Inr (), d)) (sq_db s) of
         (Inl e, d) \<Rightarrow> (Inl e, s\<lparr>sq_db := d\<rparr>)
       | (Inr _, d) \<Rightarrow> (Inr d, s\<lparr>sq_db := d, sq_done := False\<rparr>)))"

text \<open>\<open>finalize\<close> marks the transaction done before it runs the statement. When COMMIT or
  ROLLBACK fails, SQLite either rolls the transaction back or, as on SQLITE_BUSY, keeps it open
  on the connection, which goes back to the pool.\<close>

definition finalize :: "sqlite_cfg \<Rightarrow> sqldb \<Rightarrow> sqldb \<Rightarrow> sqlite \<Rightarrow> (error + unit) \<times> sqlite" where
  "finalize C t result s =
     (let n = Suc (db_tick t) in
      if sq_done s then (Inr (), s)
      else case sc_endFault C (db_tick t) of
        Some (e, rolledBack) \<Rightarrow>
          (Inl e, if rolledBack then s\<lparr>sq_db := (sq_db s)\<lparr>db_tick := n\<rparr>, sq_done := True\<rparr>
                  else s\<lparr>sq_pending := Some (t\<lparr>db_tick := n\<rparr>), sq_done := True\<rparr>)
      | None \<Rightarrow> (Inr (), s\<lparr>sq_db := result\<lparr>db_tick := n\<rparr>, sq_done := True\<rparr>))"

definition Commit :: "sqlite_cfg \<Rightarrow> sqldb \<Rightarrow> (sqlite, error, unit) exec" where
  "Commit C t s = finalize C t t s"

definition Rollback :: "sqlite_cfg \<Rightarrow> sqldb \<Rightarrow> sqlite \<Rightarrow> sqlite" where
  "Rollback C t s = snd (finalize C t (sq_db s) s)"

definition sqliteStore :: "sqlite_cfg \<Rightarrow> (sqlite, sqldb) store_ops" where
  "sqliteStore C = \<lparr>st_Tx = sqliteTx C, st_BeginFlowTx = BeginFlowTx C, st_Commit = Commit C,
     st_Rollback = Rollback C,
     st_GetAccount = (\<lambda>tn a. onDb (GetAccount C tn a)),
     st_GetBalance = (\<lambda>tn a c. onDb (GetBalance C tn a c)),
     st_GetFlow = (\<lambda>tn f. onDb (GetFlow C tn f)),
     st_ListAccountActivity = (\<lambda>i. onDb (ListAccountActivity C i)),
     st_PendingOutbox = (\<lambda>n. onDb (PendingOutbox C n)),
     st_MarkOutboxPublished = (\<lambda>i. onDb (MarkOutboxPublished C i)),
     st_IncrementOutboxAttempts = (\<lambda>i. onDb (IncrementOutboxAttempts C i)),
     st_InsertSnapshot = (\<lambda>s. onDb (InsertSnapshot C s)),
     st_GetSnapshotBefore = (\<lambda>tn a c t. onDb (GetSnapshotBefore C tn a c t)),
     st_SumEntriesBetween = (\<lambda>tn a c t u. onDb (SumEntriesBetween C tn a c t u)),
     st_ListTenantBalances = (\<lambda>tn. onDb (ListTenantBalances C tn)),
     st_ListTenantsDueForSnapshot = (\<lambda>t n. onDb (ListTenantsDueForSnapshot C t n)),
     st_PruneSnapshotsOlderThan = (\<lambda>t n. onDb (PruneSnapshotsOlderThan C t n)),
     st_UpsertFXRate = (\<lambda>x. onDb (UpsertFXRate C x)),
     st_GetFXRateAt = (\<lambda>tn b q t. onDb (GetFXRateAt C tn b q t)),
     st_ListFXRates = (\<lambda>i. onDb (ListFXRates C i)),
     st_GetReservation = (\<lambda>tn i. onDb (GetReservation C tn i)),
     st_ListExpiredReservations = (\<lambda>t n. onDb (ListExpiredReservations C t n)),
     st_ListReservations = (\<lambda>i. onDb (ListReservations C i)),
     st_InsertExternalRecord = (\<lambda>x. onDb (InsertExternalRecord C x)),
     st_ListExternalRecordsForRecon = (\<lambda>tn src ws we. onDb (externalForRecon C tn src ws we)),
     st_ListJournalsForRecon = (\<lambda>tn src ws we. onDb (journalsForRecon C tn src ws we)),
     st_GetReconBatch = (\<lambda>tn i. onDb (GetReconBatch C tn i)),
     st_ListDiscrepancies = (\<lambda>i. onDb (ListDiscrepancies C i)),
     st_GetDiscrepancy = (\<lambda>tn i. onDb (GetDiscrepancy C tn i))\<rparr>"

section \<open>The contract\<close>

definition sqliteView :: "sqlite_cfg \<Rightarrow> sqlite \<Rightarrow> ledger_view" where
  "sqliteView C s = sqlView C (sq_db s)"

definition sqliteInv :: "sqlite_cfg \<Rightarrow> sqlite \<Rightarrow> bool" where
  "sqliteInv C s \<longleftrightarrow> sqlInv C (sq_db s) \<and> sq_pending s = None \<and>
     (\<forall>n e. sc_endFault C n \<noteq> Some (e, False))"

text \<open>A transaction of the store: begun and not yet finalized.\<close>

definition sqliteTInv :: "sqlite_cfg \<Rightarrow> sqlite \<Rightarrow> sqldb \<Rightarrow> bool" where
  "sqliteTInv C s t \<longleftrightarrow> sqlInv C t \<and> \<not> sq_done s"

lemma keeps_onDb:
  assumes "keeps (sqlInv C) (sqlView C) m"
  shows "keeps (sqliteInv C) (sqliteView C) (onDb m)"
  unfolding keeps_def
proof (intro allI impI)
  fix s r s'
  assume s: "sqliteInv C s" "onDb m s = (r, s')"
  obtain r1 d where m: "m (sq_db s) = (r1, d)" by (cases "m (sq_db s)")
  from keepsD [OF assms _ m] s m show "sqliteInv C s' \<and> sqliteView C s' = sqliteView C s"
    by (auto simp: sqliteInv_def sqliteView_def onDb_def)
qed

lemma onDb_Inr:
  "sqliteInv C s \<Longrightarrow> onDb m s = (Inr a, s') \<Longrightarrow> \<exists>d. m (sq_db s) = (Inr a, d)"
  by (auto simp: onDb_def sqliteInv_def split: prod.splits)

lemma parseBalance_keeps [keeps_intros]: "keeps si sv (parseBalance C row)"
  by (auto simp: parseBalance_def keeps_def ret_def throwE_def split: option.splits)

lemma queries_keep:
  "keeps (sqlInv C) (sqlView C) (GetAccount C tn a)"
  "keeps (sqlInv C) (sqlView C) (GetBalance C tn a c)"
  "keeps (sqlInv C) (sqlView C) (GetFlow C tn fid)"
  "keeps (sqlInv C) (sqlView C) (GetReservation C tn rid)"
  "keeps (sqlInv C) (sqlView C) (GetReconBatch C tn i)"
  "keeps (sqlInv C) (sqlView C) (GetDiscrepancy C tn i)"
  by (auto simp: GetAccount_def GetBalance_def GetFlow_def GetReservation_def GetReconBatch_def
    GetDiscrepancy_def intro!: keeps_intros split: option.splits)

lemma lists_keep:
  "keeps (sqlInv C) (sqlView C) (ListAccountActivity C lai)"
  "keeps (sqlInv C) (sqlView C) (PendingOutbox C n)"
  "keeps (sqlInv C) (sqlView C) (GetSnapshotBefore C tn a c t)"
  "keeps (sqlInv C) (sqlView C) (SumEntriesBetween C tn a c t u)"
  "keeps (sqlInv C) (sqlView C) (ListTenantBalances C tn)"
  "keeps (sqlInv C) (sqlView C) (ListTenantsDueForSnapshot C t n)"
  "keeps (sqlInv C) (sqlView C) (GetFXRateAt C tn b q t)"
  "keeps (sqlInv C) (sqlView C) (ListFXRates C lfx)"
  "keeps (sqlInv C) (sqlView C) (ListExpiredReservations C t n)"
  "keeps (sqlInv C) (sqlView C) (ListReservations C lri)"
  "keeps (sqlInv C) (sqlView C) (ListDiscrepancies C ldi)"
  by (auto simp: ListAccountActivity_def PendingOutbox_def GetSnapshotBefore_def SumEntriesBetween_def
    ListTenantBalances_def ListTenantsDueForSnapshot_def GetFXRateAt_def ListFXRates_def
    ListExpiredReservations_def ListReservations_def ListDiscrepancies_def intro!: keeps_intros)

lemma sqlView_outbox:
  assumes "\<And>r. ro_tenant_id (g r) = ro_tenant_id r" "\<And>r. ro_aggregate_id (g r) = ro_aggregate_id r"
    "\<And>r. ro_event_type (g r) = ro_event_type r" "\<And>r. ro_idempotency_key (g r) = ro_idempotency_key r"
  shows "sqlView C (d\<lparr>db_outbox := updateWhere P g (db_outbox d)\<rparr>) = sqlView C d"
  by (simp add: sqlView_defs map_updateWhere assms)

lemma upsertFXRateQ_keeps:
  "keeps (sqlInv C) (sqlView C) (upsertFXRateQ C i tn base quote rate source effectiveAt)"
  unfolding upsertFXRateQ_def Let_def
  by (rule keeps_stmt) (auto simp: Let_def split: if_splits option.splits)

lemma updates_keep:
  "keeps (sqlInv C) (sqlView C) (MarkOutboxPublished C i)"
  "keeps (sqlInv C) (sqlView C) (IncrementOutboxAttempts C i)"
  "keeps (sqlInv C) (sqlView C) (InsertSnapshot C s)"
  "keeps (sqlInv C) (sqlView C) (PruneSnapshotsOlderThan C t n)"
  "keeps (sqlInv C) (sqlView C) (UpsertFXRate C x)"
  "keeps (sqlInv C) (sqlView C) (InsertExternalRecord C e)"
proof -
  show "keeps (sqlInv C) (sqlView C) (MarkOutboxPublished C i)"
    unfolding MarkOutboxPublished_def markOutboxPublishedQ_def
    by (rule keeps_updateQ) (simp_all add: sqlView_outbox sqlInv_def map_updateWhere)
  show "keeps (sqlInv C) (sqlView C) (IncrementOutboxAttempts C i)"
    unfolding IncrementOutboxAttempts_def incrementOutboxAttemptsQ_def
    by (rule keeps_updateQ) (simp_all add: sqlView_outbox sqlInv_def map_updateWhere)
  show "keeps (sqlInv C) (sqlView C) (InsertSnapshot C s)"
    unfolding InsertSnapshot_def insertSnapshotQ_def by (rule keeps_insertQ) simp_all
  show "keeps (sqlInv C) (sqlView C) (PruneSnapshotsOlderThan C t n)"
    unfolding PruneSnapshotsOlderThan_def pruneSnapshotsOlderThanQ_def by (rule keeps_stmt) (auto simp: Let_def)
  show "keeps (sqlInv C) (sqlView C) (UpsertFXRate C x)"
    unfolding UpsertFXRate_def by (intro keeps_intros upsertFXRateQ_keeps)
  show "keeps (sqlInv C) (sqlView C) (InsertExternalRecord C e)"
    unfolding InsertExternalRecord_def insertExternalRecordQ_def by (rule keeps_stmt) (auto split: if_splits)
qed

lemma GetFlow_law:
  assumes "sqlInv C d" and "GetFlow C tn fid d = (Inr fo, d')" and "fo = Some f"
  shows "fr_ID f = fid \<and> mset (map stepInfo (fr_Steps f)) = mset (v_steps (sqlView C d) (tn, fid)) \<and>
    v_flow (sqlView C d) (tn, fr_IdempotencyKey f) = Some (fid, fr_Status f)"
proof -
  obtain r d1 where r: "find (\<lambda>r. rf_tenant_id r = tn \<and> rf_id r = fid) (db_flow_runs d) = Some r" and
    f: "f = (rowToFlowRun r)\<lparr>fr_Steps := map rowToFlowStep (stepRows tn fid (d\<lparr>db_tick := d1\<rparr>))\<rparr>"
    using assms(2,3) by (fastforce simp: GetFlow_def exec_simps split: option.splits)
  have row: "r \<in> set (db_flow_runs d)" "rf_tenant_id r = tn" "rf_id r = fid"
    using find_SomeD [OF r] by auto
  have "find (\<lambda>r'. rf_tenant_id r' = tn \<and> rf_idempotency_key r' = rf_idempotency_key r)
      (db_flow_runs d) = Some r"
    using assms(1) row by (intro find_unique) (auto simp: sqlInv_def distinct_map inj_on_def)
  with row(3) show ?thesis
    by (simp add: f sqlView_sel rowToFlowRun_def stepRows_def comp_def)
qed


lemma Begin_law:
  assumes "sqliteInv C s" and "BeginFlowTx C s = (r, s')"
  shows "sqliteInv C s' \<and> sqliteView C s' = sqliteView C s \<and>
    (\<forall>t. r = Inr t \<longrightarrow> sqliteTInv C s' t \<and> sqlView C t = sqliteView C s)"
  using assms
  by (auto simp: BeginFlowTx_def sqliteInv_def sqliteView_def sqliteTInv_def stmt_def Let_def
    split: option.splits)

lemma Commit_ok:
  assumes "sqliteInv C s" and "sqliteTInv C s t" and "Commit C t s = (Inr u, s')"
  shows "sqliteInv C s' \<and> sqliteView C s' = sqlView C t"
  using assms
  by (auto simp: Commit_def finalize_def Let_def sqliteInv_def sqliteView_def sqliteTInv_def
    split: if_splits option.splits)

lemma Commit_error:
  assumes "sqliteInv C s" and "Commit C t s = (Inl e, s')"
  shows "sqliteInv C s' \<and> sqliteView C s' = sqliteView C s"
  using assms
  by (auto simp: Commit_def finalize_def Let_def sqliteInv_def sqliteView_def
    split: if_splits option.splits)

lemma Rollback_law:
  assumes "sqliteInv C s"
  shows "sqliteInv C (Rollback C t s) \<and> sqliteView C (Rollback C t s) = sqliteView C s"
  using assms
  by (auto simp: Rollback_def finalize_def Let_def sqliteInv_def sqliteView_def split: option.splits)

lemma sqliteTx_contract: "ledger_tx (sqliteTx C) (sqlView C) (sqliteTInv C s)"
proof (cases "sq_done s")
  case True
  then have "sqliteTInv C s = (\<lambda>t. False)" by (simp add: sqliteTInv_def fun_eq_iff)
  then show ?thesis by (simp, unfold_locales) simp_all
next
  case False
  then have "sqliteTInv C s = sqlInv C" by (simp add: sqliteTInv_def fun_eq_iff)
  then show ?thesis using sqtx.ledger_tx_axioms by simp
qed

lemma sqliteStore_simps [simp]:
  "st_Tx (sqliteStore C) = sqliteTx C"
  "st_BeginFlowTx (sqliteStore C) = BeginFlowTx C"
  "st_Commit (sqliteStore C) = Commit C"
  "st_Rollback (sqliteStore C) = Rollback C"
  "st_GetAccount (sqliteStore C) tn a = onDb (GetAccount C tn a)"
  "st_GetBalance (sqliteStore C) tn a c = onDb (GetBalance C tn a c)"
  "st_GetFlow (sqliteStore C) tn f = onDb (GetFlow C tn f)"
  "st_ListAccountActivity (sqliteStore C) lai = onDb (ListAccountActivity C lai)"
  "st_PendingOutbox (sqliteStore C) n = onDb (PendingOutbox C n)"
  "st_MarkOutboxPublished (sqliteStore C) i = onDb (MarkOutboxPublished C i)"
  "st_IncrementOutboxAttempts (sqliteStore C) i = onDb (IncrementOutboxAttempts C i)"
  "st_InsertSnapshot (sqliteStore C) bs = onDb (InsertSnapshot C bs)"
  "st_GetSnapshotBefore (sqliteStore C) tn a c t = onDb (GetSnapshotBefore C tn a c t)"
  "st_SumEntriesBetween (sqliteStore C) tn a c t u = onDb (SumEntriesBetween C tn a c t u)"
  "st_ListTenantBalances (sqliteStore C) tn = onDb (ListTenantBalances C tn)"
  "st_ListTenantsDueForSnapshot (sqliteStore C) t n = onDb (ListTenantsDueForSnapshot C t n)"
  "st_PruneSnapshotsOlderThan (sqliteStore C) t n = onDb (PruneSnapshotsOlderThan C t n)"
  "st_UpsertFXRate (sqliteStore C) x = onDb (UpsertFXRate C x)"
  "st_GetFXRateAt (sqliteStore C) tn b q t = onDb (GetFXRateAt C tn b q t)"
  "st_ListFXRates (sqliteStore C) lfx = onDb (ListFXRates C lfx)"
  "st_GetReservation (sqliteStore C) tn i = onDb (GetReservation C tn i)"
  "st_ListExpiredReservations (sqliteStore C) t n = onDb (ListExpiredReservations C t n)"
  "st_ListReservations (sqliteStore C) lri = onDb (ListReservations C lri)"
  "st_InsertExternalRecord (sqliteStore C) er = onDb (InsertExternalRecord C er)"
  "st_ListExternalRecordsForRecon (sqliteStore C) tn src ws we = onDb (externalForRecon C tn src ws we)"
  "st_ListJournalsForRecon (sqliteStore C) tn src ws we = onDb (journalsForRecon C tn src ws we)"
  "st_GetReconBatch (sqliteStore C) tn i = onDb (GetReconBatch C tn i)"
  "st_ListDiscrepancies (sqliteStore C) ldi = onDb (ListDiscrepancies C ldi)"
  "st_GetDiscrepancy (sqliteStore C) tn i = onDb (GetDiscrepancy C tn i)"
  by (simp_all add: sqliteStore_def)

lemma GetAccount_result:
  "sqliteInv C s \<Longrightarrow> onDb (GetAccount C tn a) s = (Inr acc, s') \<Longrightarrow>
     v_account (sqliteView C s) (tn, a) = Some acc"
  by (drule (1) onDb_Inr)
    (auto simp: GetAccount_def exec_simps sqliteView_def sqlView_sel split: option.splits)

lemma GetBalance_result:
  "sqliteInv C s \<Longrightarrow> onDb (GetBalance C tn a c) s = (Inr (d, cr, ver), s') \<Longrightarrow>
     (d, cr) = balanceOf (sqliteView C s) (tn, a, c)"
  by (drule (1) onDb_Inr)
    (auto simp: GetBalance_def parseBalance_Inr balanceOf_def balanceView_def decOrZero_def exec_simps
      sqliteView_def sqlView_sel split: option.splits)

lemma GetReservation_result:
  "sqliteInv C s \<Longrightarrow> onDb (GetReservation C tn rid) s = (Inr x, s') \<Longrightarrow>
     v_reservation (sqliteView C s) (tn, rid) = Some (coreOf x)"
  by (drule (1) onDb_Inr)
    (auto simp: GetReservation_def exec_simps sqliteView_def sqlView_sel split: option.splits)

lemma GetFlow_result:
  assumes "sqliteInv C s" and "onDb (GetFlow C tn fid) s = (Inr fo, s')"
  shows "\<forall>f. fo = Some f \<longrightarrow> fr_ID f = fid \<and>
    mset (map stepInfo (fr_Steps f)) = mset (v_steps (sqliteView C s) (tn, fid)) \<and>
    v_flow (sqliteView C s) (tn, fr_IdempotencyKey f) = Some (fid, fr_Status f)"
  using onDb_Inr [OF assms] assms(1) GetFlow_law
  unfolding sqliteInv_def sqliteView_def by blast

lemmas store_keeps = queries_keep lists_keep updates_keep recon_keeps

interpretation sq: ledger_store "sqliteStore C" "sqliteView C" "sqliteInv C" "sqlView C" "sqliteTInv C" for C
proof (rule ledger_store.intro, goal_cases)
  case 1
  show ?case by (simp add: sqliteTx_contract)
next
  case (2 s t s')
  then show ?case using Begin_law by auto
next
  case (3 s e s')
  then show ?case using Begin_law by auto
next
  case (4 s t u s')
  then show ?case using Commit_ok [OF 4(1,2)] by simp
next
  case (5 s t e s')
  then show ?case using Commit_error [OF 5(1)] by simp
next
  case (6 s t)
  then show ?case by (simp add: Rollback_law)
next
  case (8 s tn a acc s')
  then show ?case using GetAccount_result by simp
next
  case (9 s tn a c d cr ver s')
  then show ?case using GetBalance_result by simp
next
  case (10 s tn fid fo s')
  then show ?case using GetFlow_result by simp
next
  case (11 s tn rid res s')
  then show ?case using GetReservation_result by simp
qed (simp_all only: sqliteStore_simps, (rule keeps_onDb store_keeps)+)

section \<open>What the queries return\<close>

text \<open>The latest snapshot up to a time, and the latest rate.\<close>

lemma snapshotBefore_latest:
  "snapshotBefore tn a c m d = Some r \<Longrightarrow> r \<in> set (db_snapshots d) \<and>
     rn_tenant_id r = tn \<and> rn_account_id r = a \<and> rn_currency r = c \<and> rn_snapshot_at r \<le> m \<and>
     (\<forall>x\<in>set (db_snapshots d). rn_tenant_id x = tn \<longrightarrow> rn_account_id x = a \<longrightarrow> rn_currency x = c \<longrightarrow>
        rn_snapshot_at x \<le> m \<longrightarrow> rn_snapshot_at x \<le> rn_snapshot_at r)"
  unfolding snapshotBefore_def by (drule limit1_orderDesc) (auto simp: less_eq_prod_def)

lemma rateAt_latest:
  "rateAt tn b q m d = Some r \<Longrightarrow> r \<in> set (db_fx_rates d) \<and>
     rx_tenant_id r = tn \<and> rx_base_currency r = b \<and> rx_quote_currency r = q \<and> rx_effective_at r \<le> m \<and>
     (\<forall>x\<in>set (db_fx_rates d). rx_tenant_id x = tn \<longrightarrow> rx_base_currency x = b \<longrightarrow>
        rx_quote_currency x = q \<longrightarrow> rx_effective_at x \<le> m \<longrightarrow> rx_effective_at x \<le> rx_effective_at r)"
  unfolding rateAt_def by (drule limit1_orderDesc) (auto simp: less_eq_prod_def)

lemma rateAt_None:
  "rateAt tn b q m d = None \<longleftrightarrow> (\<forall>x\<in>set (db_fx_rates d). \<not> (rx_tenant_id x = tn \<and>
     rx_base_currency x = b \<and> rx_quote_currency x = q \<and> rx_effective_at x \<le> m))"
  by (auto simp: rateAt_def limit1_orderDesc_None filter_empty_conv)

text \<open>A prune never removes the youngest snapshot of a balance, nor one at or after the cutoff.\<close>

lemma Prune_kept:
  assumes "PruneSnapshotsOlderThan C cutoff n d = (Inr k, d')" and "r \<in> set (db_snapshots d)"
    and "distinct (map rn_id (db_snapshots d))"
    and "formatTime cutoff \<le> rn_snapshot_at r \<or>
      (\<forall>x\<in>set (db_snapshots d). rn_tenant_id x = rn_tenant_id r \<longrightarrow>
        rn_account_id x = rn_account_id r \<longrightarrow> rn_currency x = rn_currency r \<longrightarrow>
        rn_snapshot_at x \<le> rn_snapshot_at r)"
  shows "r \<in> set (db_snapshots d')"
proof -
  let ?d = "d\<lparr>db_tick := Suc (db_tick d)\<rparr>"
  let ?gone = "take (limitOr100 n) (filter (prunable (formatTime cutoff) ?d) (db_snapshots d))"
  have d': "set (db_snapshots d') = {x \<in> set (db_snapshots d). rn_id x \<notin> rn_id ` set ?gone}"
    using assms(1) by (auto simp: PruneSnapshotsOlderThan_def stmt_Inr Let_def)
  have "rn_id r \<notin> rn_id ` set ?gone"
  proof
    assume "rn_id r \<in> rn_id ` set ?gone"
    then obtain x where x: "x \<in> set ?gone" "rn_id x = rn_id r" by auto
    then have "x \<in> set (db_snapshots d)" "prunable (formatTime cutoff) ?d x"
      by (auto dest!: in_set_takeD)
    moreover from this(1) x(2) assms(2,3) have "x = r" by (auto simp: distinct_map inj_on_def)
    ultimately show False
      using assms(4) by (auto simp: prunable_def exists_row_def list_ex_iff)
  qed
  with d' assms(2) show ?thesis by simp
qed

text \<open>After COMMIT has failed and left the transaction open, rolling back does nothing and no
  transaction can be begun; the queries read the rows of the failed transaction.\<close>

definition wedged :: "sqlite \<Rightarrow> bool" where
  "wedged s \<longleftrightarrow> sq_pending s \<noteq> None \<and> sq_done s"

lemma wedged_stays:
  assumes "wedged s"
  shows "Rollback C t s = s" and "Commit C t s = (Inr (), s)"
    and "\<exists>e. BeginFlowTx C s = (Inl e, s)" and "wedged (snd (onDb m s))"
  using assms
  by (auto simp: wedged_def Rollback_def Commit_def finalize_def Let_def BeginFlowTx_def onDb_def
    split: option.splits prod.splits)

lemma Commit_wedges:
  assumes "sc_endFault C (db_tick t) = Some (e, False)" and "\<not> sq_done s"
    and "Commit C t s = (r, s')"
  shows "r = Inl e \<and> wedged s'"
  using assms by (auto simp: Commit_def finalize_def Let_def wedged_def)

end
