(* ===== verification/Outbox.thy ===== *)
theory Outbox
  imports Sqlite_Store "HOL-Library.Sublist"
begin

text \<open>
  The outbox dispatcher of \<open>internal/outbox\<close>: it takes a batch of pending events from the
  store, publishes each to a sink, and marks the published ones.

  \<^item> \<open>outbox_store\<close> is the Go interface \<open>outbox.Store\<close>; \<open>RepoAdapter\<close> provides it from any
    \<open>repo.Store\<close>. A sink is a stateful function that may refuse an event; \<open>LogSink\<close> is the
    one of the repository.
  \<^item> The locales state what the dispatcher relies on: \<open>event_queue\<close> (the pending events, in
    order, leave the queue only when they are marked), \<open>sink_contract\<close> (an accepted event is
    delivered, a refused one is not). \<open>dispatcher\<close> puts them together: no event is lost and a
    tick delivers at most once, in order. \<open>reliable_dispatcher\<close> adds a store and a sink that do
    not fail: the queue is drained.
  \<^item> They are interpreted on the SQLite store behind \<open>RepoAdapter\<close> and on \<open>LogSink\<close>.
\<close>

section \<open>Events, stores and sinks (event.go, sink.go, repo\_adapter.go)\<close>

record Event =
  ev_ID :: string
  ev_TenantID :: string
  ev_AggregateID :: string
  ev_EventType :: string
  ev_IdempotencyKey :: string
  ev_Payload :: json
  ev_CreatedAt :: time

record 's outbox_store =
  os_PendingOutbox :: "int \<Rightarrow> ('s, error, Event list) exec"
  os_MarkOutboxPublished :: "string \<Rightarrow> ('s, error, unit) exec"
  os_IncrementOutboxAttempts :: "string \<Rightarrow> ('s, error, unit) exec"

type_synonym 'k sink = "Event \<Rightarrow> ('k, error, unit) exec"

definition toEvent :: "OutboxEvent \<Rightarrow> Event" where
  "toEvent r = \<lparr>ev_ID = obx_ID r, ev_TenantID = obx_TenantID r, ev_AggregateID = obx_AggregateID r,
     ev_EventType = obx_EventType r, ev_IdempotencyKey = obx_IdempotencyKey r,
     ev_Payload = obx_Payload r, ev_CreatedAt = obx_CreatedAt r\<rparr>"

definition RepoAdapter :: "('s, 't) store_ops \<Rightarrow> 's outbox_store" where
  "RepoAdapter S = \<lparr>os_PendingOutbox = (\<lambda>n. bindE (st_PendingOutbox S n) (\<lambda>rows. ret (map toEvent rows))),
     os_MarkOutboxPublished = st_MarkOutboxPublished S,
     os_IncrementOutboxAttempts = st_IncrementOutboxAttempts S\<rparr>"

text \<open>The fields \<open>LogSink\<close> logs: event, tenant, type and idempotency key.\<close>

type_synonym log_line = "string \<times> string \<times> string \<times> string"

definition LogSink :: "log_line list sink" where
  "LogSink e lines =
     (Inr (), lines @ [(ev_ID e, ev_TenantID e, ev_EventType e, ev_IdempotencyKey e)])"

section \<open>The dispatcher (dispatcher.go)\<close>

record Config =
  cfg_Interval :: duration
  cfg_BatchSize :: int

definition NewDispatcher :: "Config \<Rightarrow> Config" where
  "NewDispatcher cfg = \<lparr>
     cfg_Interval = (if cfg_Interval cfg = 0 then 250 * millisecond else cfg_Interval cfg),
     cfg_BatchSize = (if cfg_BatchSize cfg = 0 then 100 else cfg_BatchSize cfg)\<rparr>"

text \<open>The errors of \<open>IncrementOutboxAttempts\<close> and \<open>MarkOutboxPublished\<close> are dropped or logged.\<close>

definition dispatchOne :: "'s outbox_store \<Rightarrow> 'k sink \<Rightarrow> Event \<Rightarrow> 's \<times> 'k \<Rightarrow> 's \<times> 'k" where
  "dispatchOne Q P e = (\<lambda>(s, k). case P e k of
       (Inl err, k') \<Rightarrow> (snd (os_IncrementOutboxAttempts Q (ev_ID e) s), k')
     | (Inr _, k') \<Rightarrow> (snd (os_MarkOutboxPublished Q (ev_ID e) s), k'))"

definition tick :: "'s outbox_store \<Rightarrow> 'k sink \<Rightarrow> Config \<Rightarrow> 's \<times> 'k \<Rightarrow> 's \<times> 'k" where
  "tick Q P cfg = (\<lambda>(s, k). case os_PendingOutbox Q (cfg_BatchSize cfg) s of
       (Inl err, s') \<Rightarrow> (s', k)
     | (Inr events, s') \<Rightarrow> fold (dispatchOne Q P) events (s', k))"

text \<open>\<open>Run\<close> for a number of expiries of the ticker.\<close>

definition Run :: "'s outbox_store \<Rightarrow> 'k sink \<Rightarrow> Config \<Rightarrow> nat \<Rightarrow> 's \<times> 'k \<Rightarrow> 's \<times> 'k" where
  "Run Q P cfg n = (tick Q P cfg ^^ n)"

section \<open>The contracts\<close>

definition batchOf :: "int \<Rightarrow> nat" where
  "batchOf n = nat (if n \<le> 0 then 100 else n)"

lemma batchOf_pos [simp]: "0 < batchOf n"
  by (simp add: batchOf_def)

locale event_queue =
  fixes Q :: "'s outbox_store"
    and queue :: "'s \<Rightarrow> Event list"
    and ok :: "'s \<Rightarrow> bool"
  assumes Pending_Inr: "ok s \<Longrightarrow> os_PendingOutbox Q n s = (Inr es, s') \<Longrightarrow>
      ok s' \<and> queue s' = queue s \<and> es = take (batchOf n) (queue s)"
    and Pending_Inl: "ok s \<Longrightarrow> os_PendingOutbox Q n s = (Inl e, s') \<Longrightarrow> ok s' \<and> queue s' = queue s"
    and Mark_Inr: "ok s \<Longrightarrow> os_MarkOutboxPublished Q i s = (Inr u, s') \<Longrightarrow>
      ok s' \<and> queue s' = filter (\<lambda>e. ev_ID e \<noteq> i) (queue s)"
    and Mark_Inl: "ok s \<Longrightarrow> os_MarkOutboxPublished Q i s = (Inl e, s') \<Longrightarrow> ok s' \<and> queue s' = queue s"
    and Increment: "ok s \<Longrightarrow> os_IncrementOutboxAttempts Q i s = (r, s') \<Longrightarrow> ok s' \<and> queue s' = queue s"
    and distinct_ids: "ok s \<Longrightarrow> distinct (map ev_ID (queue s))"

locale sink_contract =
  fixes P :: "'k sink"
    and delivered :: "'k \<Rightarrow> string list"
  assumes accepted: "P e k = (Inr u, k') \<Longrightarrow> delivered k' = delivered k @ [ev_ID e]"
    and refused: "P e k = (Inl err, k') \<Longrightarrow> delivered k' = delivered k"

locale dispatcher = event_queue Q queue ok + sink_contract P delivered
  for Q :: "'s outbox_store" and queue and ok and P :: "'k sink" and delivered
begin

text \<open>One event: it leaves the queue only when the sink accepted it.\<close>

lemma dispatchOne_step:
  assumes "ok s" and "dispatchOne Q P e (s, k) = (s', k')"
  shows "ok s' \<and> (queue s' = queue s \<or> queue s' = filter (\<lambda>x. ev_ID x \<noteq> ev_ID e) (queue s)) \<and>
    (delivered k' = delivered k \<and> queue s' = queue s \<or> delivered k' = delivered k @ [ev_ID e])"
proof -
  obtain r k1 where p: "P e k = (r, k1)" by (cases "P e k")
  show ?thesis
  proof (cases r)
    case (Inl err)
    with p assms(2) have "os_IncrementOutboxAttempts Q (ev_ID e) s =
        (fst (os_IncrementOutboxAttempts Q (ev_ID e) s), s')" "k' = k1"
      by (auto simp: dispatchOne_def)
    with Increment [OF assms(1) this(1)] refused p Inl show ?thesis by simp
  next
    case (Inr u)
    obtain r2 s2 where m: "os_MarkOutboxPublished Q (ev_ID e) s = (r2, s2)"
      by (cases "os_MarkOutboxPublished Q (ev_ID e) s")
    with p assms(2) Inr have "s' = s2" "k' = k1" by (auto simp: dispatchOne_def)
    moreover have "ok s2 \<and> (queue s2 = queue s \<or> queue s2 = filter (\<lambda>x. ev_ID x \<noteq> ev_ID e) (queue s))"
      using m Mark_Inl [OF assms(1)] Mark_Inr [OF assms(1)] by (cases r2) blast+
    ultimately show ?thesis using accepted p Inr by simp
  qed
qed

text \<open>A batch: the deliveries are among its events, in order, and what is gone was delivered.\<close>

lemma dispatch_batch:
  assumes "ok s" and "fold (dispatchOne Q P) es (s, k) = (s', k')"
  shows "ok s' \<and> subseq (queue s') (queue s) \<and>
    (\<exists>new. delivered k' = delivered k @ new \<and> subseq new (map ev_ID es) \<and>
       (\<forall>e\<in>set (queue s). e \<in> set (queue s') \<or> ev_ID e \<in> set new))"
  using assms
proof (induction es arbitrary: s k)
  case (Cons e es)
  obtain s1 k1 where 1: "dispatchOne Q P e (s, k) = (s1, k1)" by (cases "dispatchOne Q P e (s, k)")
  note step = dispatchOne_step [OF Cons.prems(1) 1]
  from Cons.prems(2) 1 have "fold (dispatchOne Q P) es (s1, k1) = (s', k')" by simp
  from Cons.IH [OF conjunct1 [OF step] this] obtain new where
    new: "ok s'" "subseq (queue s') (queue s1)" "delivered k' = delivered k1 @ new"
      "subseq new (map ev_ID es)" "\<forall>x\<in>set (queue s1). x \<in> set (queue s') \<or> ev_ID x \<in> set new"
    by blast
  have sub: "subseq (queue s1) (queue s)" using step by auto
  show ?case
  proof (cases "delivered k1 = delivered k")
    case True
    with step have q: "queue s1 = queue s" by auto
    show ?thesis
    proof (intro conjI exI [of _ new])
      show "subseq (queue s') (queue s)" using new(2) q by simp
      show "delivered k' = delivered k @ new" using new(3) True by simp
      show "subseq new (map ev_ID (e # es))" using list_emb_Cons [OF new(4)] by simp
      show "\<forall>x\<in>set (queue s). x \<in> set (queue s') \<or> ev_ID x \<in> set new" using new(5) q by simp
    qed (rule new(1))
  next
    case False
    with step have d: "delivered k1 = delivered k @ [ev_ID e]" by auto
    show ?thesis
    proof (intro conjI exI [of _ "ev_ID e # new"])
      show "subseq (queue s') (queue s)" by (rule subseq_order.order_trans [OF new(2) sub])
      show "delivered k' = delivered k @ ev_ID e # new" using new(3) d by simp
      show "subseq (ev_ID e # new) (map ev_ID (e # es))" using new(4) by simp
      show "\<forall>x\<in>set (queue s). x \<in> set (queue s') \<or> ev_ID x \<in> set (ev_ID e # new)"
        using new(5) step by auto
    qed (rule new(1))
  qed
qed auto

lemma tick_no_loss:
  assumes "ok s" and "tick Q P cfg (s, k) = (s', k')"
  shows "ok s' \<and> subseq (queue s') (queue s) \<and>
    (\<exists>new. delivered k' = delivered k @ new \<and>
       subseq new (map ev_ID (take (batchOf (cfg_BatchSize cfg)) (queue s))) \<and>
       (\<forall>e\<in>set (queue s). e \<in> set (queue s') \<or> ev_ID e \<in> set new))"
proof -
  obtain r s1 where p: "os_PendingOutbox Q (cfg_BatchSize cfg) s = (r, s1)"
    by (cases "os_PendingOutbox Q (cfg_BatchSize cfg) s")
  show ?thesis
  proof (cases r)
    case (Inl e)
    with p assms Pending_Inl [OF assms(1)] show ?thesis by (auto simp: tick_def)
  next
    case (Inr es)
    from Pending_Inr [OF assms(1) p [unfolded Inr]] assms(2) p Inr dispatch_batch [of s1 es k s' k']
    show ?thesis by (auto simp: tick_def)
  qed
qed

end

section \<open>Draining the queue\<close>

locale reliable_dispatcher = dispatcher +
  assumes Pending_total: "ok s \<Longrightarrow> \<exists>es s'. os_PendingOutbox Q n s = (Inr es, s')"
    and Mark_total: "ok s \<Longrightarrow> \<exists>s'. os_MarkOutboxPublished Q i s = (Inr (), s')"
    and accepts: "\<exists>k'. P e k = (Inr (), k')"
begin

lemma dispatchOne_reliable:
  assumes "ok s" and "dispatchOne Q P e (s, k) = (s', k')"
  shows "ok s' \<and> queue s' = filter (\<lambda>x. ev_ID x \<noteq> ev_ID e) (queue s) \<and>
    delivered k' = delivered k @ [ev_ID e]"
proof -
  obtain k1 where p: "P e k = (Inr (), k1)" using accepts by blast
  obtain s1 where m: "os_MarkOutboxPublished Q (ev_ID e) s = (Inr (), s1)"
    using Mark_total [OF assms(1)] by blast
  from assms(2) p m have "s' = s1" "k' = k1" by (simp_all add: dispatchOne_def)
  with Mark_Inr [OF assms(1) m] accepted [OF p] show ?thesis by simp
qed

lemma batch_reliable:
  assumes "ok s" and "queue s = es @ rest" and "fold (dispatchOne Q P) es (s, k) = (s', k')"
  shows "ok s' \<and> queue s' = rest \<and> delivered k' = delivered k @ map ev_ID es"
  using assms
proof (induction es arbitrary: s k)
  case (Cons e es)
  obtain s1 k1 where 1: "dispatchOne Q P e (s, k) = (s1, k1)" by (cases "dispatchOne Q P e (s, k)")
  note step = dispatchOne_reliable [OF Cons.prems(1) 1]
  have "ev_ID e \<notin> ev_ID ` set (es @ rest)"
    using distinct_ids [OF Cons.prems(1)] unfolding Cons.prems(2) by (simp add: image_Un)
  then have "filter (\<lambda>x. ev_ID x \<noteq> ev_ID e) (es @ rest) = es @ rest"
    by (intro filter_True) (metis imageI)
  then have "queue s1 = es @ rest" using step Cons.prems(2) by simp
  moreover have "fold (dispatchOne Q P) es (s1, k1) = (s', k')" using Cons.prems(3) 1 by simp
  ultimately have "ok s' \<and> queue s' = rest \<and> delivered k' = delivered k1 @ map ev_ID es"
    by (rule Cons.IH [OF conjunct1 [OF step]])
  with step show ?case by simp
qed simp

lemma tick_reliable:
  assumes "ok s" and "tick Q P cfg (s, k) = (s', k')"
  shows "ok s' \<and> queue s' = drop (batchOf (cfg_BatchSize cfg)) (queue s) \<and>
    delivered k' = delivered k @ map ev_ID (take (batchOf (cfg_BatchSize cfg)) (queue s))"
proof -
  obtain es s1 where p: "os_PendingOutbox Q (cfg_BatchSize cfg) s = (Inr es, s1)"
    using Pending_total [OF assms(1)] by blast
  note 1 = Pending_Inr [OF assms(1) p]
  have f: "fold (dispatchOne Q P) es (s1, k) = (s', k')" using assms(2) p by (simp add: tick_def)
  have q: "queue s1 = es @ drop (batchOf (cfg_BatchSize cfg)) (queue s)" using 1 by simp
  from batch_reliable [OF conjunct1 [OF 1] q f] 1 show ?thesis by simp
qed

text \<open>After enough ticks every event has been delivered once, in order.\<close>

lemma Run_drains:
  assumes "ok s" and "Run Q P cfg n (s, k) = (s', k')"
  shows "ok s' \<and> queue s' = drop (n * batchOf (cfg_BatchSize cfg)) (queue s) \<and>
    delivered k' = delivered k @ map ev_ID (take (n * batchOf (cfg_BatchSize cfg)) (queue s))"
  using assms
proof (induction n arbitrary: s k)
  case (Suc n)
  obtain s1 k1 where 1: "tick Q P cfg (s, k) = (s1, k1)" by (cases "tick Q P cfg (s, k)")
  note t = tick_reliable [OF Suc.prems(1) 1]
  have "Run Q P cfg n (s1, k1) = (s', k')"
    using Suc.prems(2) 1 by (simp add: Run_def funpow_Suc_right del: funpow.simps)
  from Suc.IH [OF conjunct1 [OF t] this] t show ?case
    by (simp add: take_add add.commute)
qed (simp add: Run_def)

end

section \<open>The SQLite store as the queue of the dispatcher\<close>

definition pendingRows :: "sqldb \<Rightarrow> OutboxRow list" where
  "pendingRows d = sort_key ro_created_at (filter (\<lambda>r. ro_publish_state r = ''PENDING'') (db_outbox d))"

definition sqliteQueue :: "sqlite \<Rightarrow> Event list" where
  "sqliteQueue s = map (toEvent \<circ> rowToOutboxEvent) (pendingRows (sq_db s))"

lemma pendingRows_tick [simp]: "pendingRows (d\<lparr>db_tick := n\<rparr>) = pendingRows d"
  by (simp add: pendingRows_def)

lemma ev_ID_row [simp]: "ev_ID (toEvent (rowToOutboxEvent r)) = ro_id r"
  by (simp add: toEvent_def rowToOutboxEvent_def)

lemma pendingRows_mark:
  "pendingRows (d\<lparr>db_outbox := updateWhere (\<lambda>r. ro_id r = i)
       (\<lambda>r. r\<lparr>ro_publish_state := ''PUBLISHED'', ro_published_at := p\<rparr>) (db_outbox d)\<rparr>) =
     filter (\<lambda>r. ro_id r \<noteq> i) (pendingRows d)"
proof -
  have "filter (\<lambda>r. ro_publish_state r = ''PENDING'') (updateWhere (\<lambda>r. ro_id r = i)
       (\<lambda>r. r\<lparr>ro_publish_state := ''PUBLISHED'', ro_published_at := p\<rparr>) rows) =
      filter (\<lambda>r. ro_id r \<noteq> i) (filter (\<lambda>r. ro_publish_state r = ''PENDING'') rows)"
    for rows :: "OutboxRow list"
    by (induction rows) (auto simp: updateWhere_def)
  then show ?thesis by (simp add: pendingRows_def filter_sort)
qed

lemma pendingRows_increment:
  "map (toEvent \<circ> rowToOutboxEvent) (pendingRows (d\<lparr>db_outbox := updateWhere P
       (\<lambda>r. r\<lparr>ro_attempts := ro_attempts r + 1\<rparr>) (db_outbox d)\<rparr>)) =
     map (toEvent \<circ> rowToOutboxEvent) (pendingRows d)"
proof -
  let ?u = "\<lambda>r :: OutboxRow. if P r then r\<lparr>ro_attempts := ro_attempts r + 1\<rparr> else r"
  have "filter (\<lambda>r. ro_publish_state r = ''PENDING'') (map ?u rows) =
      map ?u (filter (\<lambda>r. ro_publish_state r = ''PENDING'') rows)"
    for rows :: "OutboxRow list"
    by (induction rows) auto
  then have "pendingRows (d\<lparr>db_outbox := updateWhere P
       (\<lambda>r. r\<lparr>ro_attempts := ro_attempts r + 1\<rparr>) (db_outbox d)\<rparr>) = map ?u (pendingRows d)"
    by (simp add: pendingRows_def updateWhere_def map_sort_key)
  then show ?thesis by (auto simp: toEvent_def rowToOutboxEvent_def)
qed

text \<open>A store whose statements do not fail.\<close>

definition sqliteReliable :: "sqlite_cfg \<Rightarrow> sqlite \<Rightarrow> bool" where
  "sqliteReliable C s \<longleftrightarrow> sqliteInv C s \<and> (\<forall>n. sc_fault C n = None)"

lemmas adapter_defs = RepoAdapter_def PendingOutbox_def MarkOutboxPublished_def
  IncrementOutboxAttempts_def onDb_def sqliteQueue_def

lemma sqliteQueue_distinct:
  "sqliteInv C s \<Longrightarrow> distinct (map ev_ID (sqliteQueue s))"
  by (auto simp: sqliteQueue_def sqliteInv_def sqlInv_def pendingRows_def comp_def distinct_map
    intro: inj_on_subset)

lemma pending_result:
  assumes "sqliteInv C s" and "os_PendingOutbox (RepoAdapter (sqliteStore C)) n s = (r, s')"
  shows "sqliteInv C s' \<and> sqliteQueue s' = sqliteQueue s \<and>
    (\<forall>es. r = Inr es \<longrightarrow> es = take (batchOf n) (sqliteQueue s))"
  using assms
  by (auto simp: adapter_defs sqliteInv_def bindE_def ret_def selectQ_def stmt_def Let_def take_map
      batchOf_def limitOr100_def pendingRows_def split: option.splits prod.splits sum.splits)

lemma mark_result:
  assumes "sqliteInv C s" and "os_MarkOutboxPublished (RepoAdapter (sqliteStore C)) i s = (r, s')"
  shows "sqliteInv C s' \<and>
    (case r of Inl e \<Rightarrow> sqliteQueue s' = sqliteQueue s
     | Inr u \<Rightarrow> sqliteQueue s' = filter (\<lambda>e. ev_ID e \<noteq> i) (sqliteQueue s))"
proof
  show "sqliteInv C s'"
    using assms keepsD [OF keeps_onDb [OF updates_keep(1)]] by (auto simp: RepoAdapter_def)
  show "case r of Inl e \<Rightarrow> sqliteQueue s' = sqliteQueue s
     | Inr u \<Rightarrow> sqliteQueue s' = filter (\<lambda>e. ev_ID e \<noteq> i) (sqliteQueue s)"
    using assms pendingRows_mark [where d = "(sq_db s)\<lparr>db_tick := Suc (db_tick (sq_db s))\<rparr>" and i = i]
    by (auto simp: adapter_defs sqliteInv_def updateQ_def stmt_def Let_def filter_map comp_def
      split: option.splits)
qed

lemma increment_result:
  assumes "sqliteInv C s" and "os_IncrementOutboxAttempts (RepoAdapter (sqliteStore C)) i s = (r, s')"
  shows "sqliteInv C s' \<and> sqliteQueue s' = sqliteQueue s"
proof
  show "sqliteInv C s'"
    using assms keepsD [OF keeps_onDb [OF updates_keep(2)]] by (auto simp: RepoAdapter_def)
  show "sqliteQueue s' = sqliteQueue s"
    using assms pendingRows_increment [where d = "(sq_db s)\<lparr>db_tick := Suc (db_tick (sq_db s))\<rparr>"]
    by (auto simp: adapter_defs sqliteInv_def updateQ_def stmt_def Let_def split: option.splits)
qed

lemma log_sink: "sink_contract LogSink (map fst)"
  by unfold_locales (auto simp: LogSink_def)

lemma sqlite_queue: "event_queue (RepoAdapter (sqliteStore C)) sqliteQueue (sqliteInv C)"
proof (unfold_locales, goal_cases)
  case (1 s n es s')
  then show ?case using pending_result by blast
next
  case (2 s n e s')
  then show ?case using pending_result by blast
next
  case (3 s i u s')
  then show ?case using mark_result by fastforce
next
  case (4 s i e s')
  then show ?case using mark_result by fastforce
next
  case (5 s i r s')
  then show ?case using increment_result by blast
next
  case (6 s)
  then show ?case by (rule sqliteQueue_distinct)
qed

interpretation obx: dispatcher "RepoAdapter (sqliteStore C)" sqliteQueue "sqliteInv C" LogSink "map fst"
  for C
  by (rule dispatcher.intro [OF sqlite_queue log_sink])

text \<open>With statements that do not fail, the dispatcher drains the queue.\<close>

lemma reliable_queue: "event_queue (RepoAdapter (sqliteStore C)) sqliteQueue (sqliteReliable C)"
  by (rule event_queue.intro)
    (auto simp: sqliteReliable_def dest: event_queue.Pending_Inr [OF sqlite_queue]
      event_queue.Pending_Inl [OF sqlite_queue] event_queue.Mark_Inr [OF sqlite_queue]
      event_queue.Mark_Inl [OF sqlite_queue] event_queue.Increment [OF sqlite_queue]
      sqliteQueue_distinct)

interpretation drain: reliable_dispatcher "RepoAdapter (sqliteStore C)" sqliteQueue
    "sqliteReliable C" LogSink "map fst" for C
proof (intro reliable_dispatcher.intro dispatcher.intro reliable_queue log_sink,
    unfold_locales, goal_cases)
  case (1 s n)
  then show ?case
    by (auto simp: adapter_defs sqliteReliable_def sqliteInv_def bindE_def ret_def selectQ_def stmt_def
      Let_def)
next
  case (2 s i)
  then show ?case
    by (auto simp: adapter_defs sqliteReliable_def sqliteInv_def updateQ_def stmt_def Let_def)
next
  case (3 e k)
  then show ?case by (simp add: LogSink_def)
qed

end
