(* ===== verification/System.thy ===== *)
theory System
  imports Client Scheduler Outbox
begin

text \<open>
  The system: one server, its background jobs and its store, as a transition function on the
  state of the server and of the sink.

  \<^item> \<open>rpc\<close> has one constructor per method of the client interface and \<open>serve\<close> calls it;
    \<open>action\<close> adds the tickers of the scheduler and of the outbox dispatcher. Their order is
    arbitrary. An action is atomic: each runs at most one transaction at a time, on the only
    connection of the store.
  \<^item> \<open>reach\<close> is the set of reachable states. Every action is a sequence of steps of the
    abstract ledger, so the books hold in every reachable state and nothing posted is lost.
\<close>

section \<open>Requests and jobs\<close>

datatype rpc =
    RCreateAccount CreateAccountRequest
  | RGetAccount string string
  | RGetBalance GetBalanceRequest
  | RPostJournal PostJournalRequest
  | RExecuteFlow ExecuteFlowRequest
  | RGetFlow string string
  | RListAccountActivity ListAccountActivityRequest
  | RTakeBalanceSnapshot TakeBalanceSnapshotRequest
  | RCreateReservation CreateReservationRequest
  | RCommitReservation CommitReservationRequest
  | RReleaseReservation ReleaseReservationRequest
  | RGetReservation string string
  | RListReservations ListReservationsRequest
  | RExecuteExchange ExecuteExchangeRequest
  | RPutFXRate PutFXRateRequest
  | RGetFXRate GetFXRateRequest
  | RListFXRates ListFXRatesRequest
  | RIngestExternalRecords IngestExternalRecordsRequest
  | RRunReconciliation RunReconciliationRequest
  | RGetReconciliationBatch string string
  | RListDiscrepancies ListDiscrepanciesRequest
  | RResolveDiscrepancy ResolveDiscrepancyRequest

text \<open>A call, with its answer dropped.\<close>

definition call :: "('c, connect_error, 'a) exec \<Rightarrow> ('c, connect_error, unit) exec" where
  "call m = bindE m (\<lambda>_. ret ())"

fun serve :: "'c client \<Rightarrow> rpc \<Rightarrow> ('c, connect_error, unit) exec" where
  "serve C (RCreateAccount r) = call (cl_CreateAccount C r)"
| "serve C (RGetAccount tn a) = call (cl_GetAccount C tn a)"
| "serve C (RGetBalance r) = call (cl_GetBalance C r)"
| "serve C (RPostJournal r) = call (cl_PostJournal C r)"
| "serve C (RExecuteFlow r) = call (cl_ExecuteFlow C r)"
| "serve C (RGetFlow tn f) = call (cl_GetFlow C tn f)"
| "serve C (RListAccountActivity r) = call (cl_ListAccountActivity C r)"
| "serve C (RTakeBalanceSnapshot r) = call (cl_TakeBalanceSnapshot C r)"
| "serve C (RCreateReservation r) = call (cl_CreateReservation C r)"
| "serve C (RCommitReservation r) = call (cl_CommitReservation C r)"
| "serve C (RReleaseReservation r) = call (cl_ReleaseReservation C r)"
| "serve C (RGetReservation tn i) = call (cl_GetReservation C tn i)"
| "serve C (RListReservations r) = call (cl_ListReservations C r)"
| "serve C (RExecuteExchange r) = call (cl_ExecuteExchange C r)"
| "serve C (RPutFXRate r) = call (cl_PutFXRate C r)"
| "serve C (RGetFXRate r) = call (cl_GetFXRate C r)"
| "serve C (RListFXRates r) = call (cl_ListFXRates C r)"
| "serve C (RIngestExternalRecords r) = call (cl_IngestExternalRecords C r)"
| "serve C (RRunReconciliation r) = call (cl_RunReconciliation C r)"
| "serve C (RGetReconciliationBatch tn i) = call (cl_GetReconciliationBatch C tn i)"
| "serve C (RListDiscrepancies r) = call (cl_ListDiscrepancies C r)"
| "serve C (RResolveDiscrepancy r) = call (cl_ResolveDiscrepancy C r)"

record ('s, 't, 'k) deployment =
  dp_env :: env
  dp_store :: "('s, 't) store_ops"
  dp_sink :: "'k sink"
  dp_scheduler :: SchedulerConfig
  dp_dispatcher :: Config

datatype action = Request rpc | Fire ticker time | Dispatch

fun act :: "('s, 't, 'k) deployment \<Rightarrow> action \<Rightarrow> 's world \<times> 'k \<Rightarrow> 's world \<times> 'k" where
  "act X (Request r) (w, k) = (snd (serve (embeddedClient (dp_env X) (dp_store X)) r w), k)"
| "act X (Fire t now) (w, k) =
     (snd (tickOf (dp_env X) (dp_store X) (dp_scheduler X) (t, now) w), k)"
| "act X Dispatch (w, k) =
     (case tick (RepoAdapter (dp_store X)) (dp_sink X) (dp_dispatcher X) (w_st w, k) of
        (s, k') \<Rightarrow> (w\<lparr>w_st := s\<rparr>, k'))"

inductive reach :: "('s, 't, 'k) deployment \<Rightarrow> 's world \<times> 'k \<Rightarrow> 's world \<times> 'k \<Rightarrow> bool"
  for X :: "('s, 't, 'k) deployment" and start :: "'s world \<times> 'k" where
  reach_start: "reach X start start"
| reach_act: "reach X start x \<Longrightarrow> reach X start (act X a x)"

section \<open>Every action is a sequence of abstract steps\<close>

context ledger_store
begin

lemma call_safe [safe_intros]: "safe sinv sview m \<Longrightarrow> safe sinv sview (call m)"
  by (auto simp: call_def intro!: safe_intros)

lemma serve_safe: "safe sinv sview (serve (embeddedClient E S) r)"
  by (cases r) (auto simp: embeddedClient_def intro!: safe_intros)

lemma dispatchOne_keeps:
  assumes "sinv s" and "dispatchOne (RepoAdapter S) P e (s, k) = (s', k')"
  shows "sinv s' \<and> sview s' = sview s"
proof -
  have "\<exists>i r. st_IncrementOutboxAttempts S i s = (r, s') \<or> st_MarkOutboxPublished S i s = (r, s')"
    using assms(2)
    by (auto simp: dispatchOne_def RepoAdapter_def split: prod.splits sum.splits)
      (metis prod.collapse)+
  then show ?thesis
    using keepsD [OF IncrementOutboxAttempts assms(1)] keepsD [OF MarkOutboxPublished assms(1)] by blast
qed

lemma dispatchBatch_keeps:
  "sinv s \<Longrightarrow> fold (dispatchOne (RepoAdapter S) P) es (s, k) = (s', k') \<Longrightarrow>
     sinv s' \<and> sview s' = sview s"
proof (induction es arbitrary: s k)
  case (Cons e es)
  obtain s1 k1 where 1: "dispatchOne (RepoAdapter S) P e (s, k) = (s1, k1)"
    by (cases "dispatchOne (RepoAdapter S) P e (s, k)")
  with Cons.prems(2) have 2: "fold (dispatchOne (RepoAdapter S) P) es (s1, k1) = (s', k')" by simp
  note d = dispatchOne_keeps [OF Cons.prems(1) 1]
  from Cons.IH [OF conjunct1 [OF d] 2] d show ?case by simp
qed simp

lemma tick_keeps:
  assumes "sinv s" and "tick (RepoAdapter S) P cfg (s, k) = (s', k')"
  shows "sinv s' \<and> sview s' = sview s"
proof -
  obtain r s1 where p: "st_PendingOutbox S (cfg_BatchSize cfg) s = (r, s1)"
    by (cases "st_PendingOutbox S (cfg_BatchSize cfg) s")
  note 1 = keepsD [OF PendingOutbox assms(1) p]
  show ?thesis
  proof (cases r)
    case (Inl e)
    with p assms(2) 1 show ?thesis by (simp add: tick_def RepoAdapter_def bindE_def)
  next
    case (Inr rows)
    with p assms(2) have "fold (dispatchOne (RepoAdapter S) P) (map toEvent rows) (s1, k) = (s', k')"
      by (simp add: tick_def RepoAdapter_def bindE_def ret_def)
    from dispatchBatch_keeps [OF conjunct1 [OF 1] this] 1 show ?thesis by simp
  qed
qed

lemma act_steps:
  assumes "dp_store X = S" and "sinv (w_st w)" and "ledger_inv (sview (w_st w))"
    and "act X a (w, k) = (w', k')"
  shows "sinv (w_st w') \<and> ledger_steps (sview (w_st w)) (sview (w_st w'))"
proof (cases a)
  case (Request r)
  with assms(1,4) have "serve (embeddedClient (dp_env X) S) r w =
      (fst (serve (embeddedClient (dp_env X) S) r w), w')"
    by auto
  from safeD [OF serve_safe assms(2,3) this] show ?thesis .
next
  case (Fire t now)
  have "safe sinv sview (tickOf (dp_env X) S (dp_scheduler X) (t, now))"
    by (cases t) (auto simp: tickOf_def intro!: safe_intros)
  moreover from Fire assms(1,4) have "tickOf (dp_env X) S (dp_scheduler X) (t, now) w =
      (fst (tickOf (dp_env X) S (dp_scheduler X) (t, now) w), w')"
    by auto
  ultimately show ?thesis using safeD assms(2,3) by blast
next
  case Dispatch
  with assms(1,4) have "tick (RepoAdapter S) (dp_sink X) (dp_dispatcher X) (w_st w, k) = (w_st w', k')"
    by (auto split: prod.splits)
  from tick_keeps [OF assms(2) this] show ?thesis by simp
qed

lemma reach_steps:
  assumes "reach X (w0, k0) x" and "dp_store X = S"
    and "sinv (w_st w0)" and "ledger_inv (sview (w_st w0))"
  shows "sinv (w_st (fst x)) \<and> ledger_inv (sview (w_st (fst x))) \<and>
    ledger_steps (sview (w_st w0)) (sview (w_st (fst x)))"
  using assms(1)
proof (induction rule: reach.induct)
  case (reach_act x a)
  then have x: "sinv (w_st (fst x))" "ledger_inv (sview (w_st (fst x)))"
    "ledger_steps (sview (w_st w0)) (sview (w_st (fst x)))" by auto
  have "act X a (fst x, snd x) = (fst (act X a x), snd (act X a x))" by simp
  from act_steps [OF assms(2) x(1,2) this] x ledger_steps_inv show ?case
    by (auto intro: rtranclp_trans)
qed (use assms in auto)

end

section \<open>A new database\<close>

definition freshStore :: sqlite where
  "freshStore = \<lparr>sq_db = emptyDB, sq_pending = None, sq_done = True\<rparr>"

definition freshWorld :: "sqlite world" where
  "freshWorld = \<lparr>w_st = freshStore, w_ids = 0, w_ticks = 0\<rparr>"

text \<open>What the deployment relies on: the decimal package prints and parses, and a COMMIT or
  ROLLBACK that fails has rolled the transaction back.\<close>

definition sane :: "sqlite_cfg \<Rightarrow> bool" where
  "sane C \<longleftrightarrow> codec_ok (sc_D C) \<and> (\<forall>n e. sc_endFault C n \<noteq> Some (e, False))"

lemma freshStore_inv: "sane C \<Longrightarrow> sqliteInv C freshStore"
  by (simp add: sane_def sqliteInv_def sqlInv_def freshStore_def emptyDB_def)

lemma freshStore_ledger: "ledger_inv (sqliteView C freshStore)"
  by (simp add: sqliteView_def freshStore_def ledger_inv_def ledger_inv_parts sqlView_def emptyDB_def
    findAccount_def findBalance_def findReservation_def balanceOf_def tenantEntries_def netIn_def)

lemma reach_sqlite:
  assumes "sane C" and "dp_store X = sqliteStore C" and "reach X (freshWorld, k0) (w, k)"
  shows "sqliteInv C (w_st w) \<and> ledger_inv (sqliteView C (w_st w)) \<and>
    ledger_steps (sqliteView C freshStore) (sqliteView C (w_st w))"
  using sq.reach_steps [OF assms(3,2)] freshStore_inv [OF assms(1)] freshStore_ledger
  by (simp add: freshWorld_def)

end
