(* ===== verification/Wallet.thy ===== *)
theory Wallet
  imports Client Sqlite_Store
begin

text \<open>
  The wallet of \<open>pkg/dledger/wallet.go\<close>: per-player accounts, deposits, withdrawals,
  settlements and reservations over any \<open>Client\<close>.

  \<^item> \<open>ledger_client\<close> states what the wallet relies on: what each RPC it calls does to the ledger
    the client talks to. The embedded client meets it on every store that meets
    \<open>ledger_store\<close> (the sublocale below).
  \<^item> \<open>wallet_client\<close> adds that an ALREADY\_EXISTS answer means that the account exists. It is
    interpreted on the embedded client over SQLite, as \<open>wal\<close>.
\<close>

section \<open>Types (wallet\_types.go)\<close>

record Wallet =
  wl_tenant :: string
  wl_ownerType :: string

record PlayerAccounts =
  pa_Available :: string
  pa_Reserved :: string

record Receipt =
  rcp_JournalID :: string
  rcp_FlowRunID :: string

record SdkReservation =
  sr_ID :: string
  sr_Status :: string
  sr_OriginalAmount :: string
  sr_OutstandingAmount :: string
  sr_CommittedAmount :: string
  sr_ReleasedAmount :: string
  sr_ExpiresAt :: time

text \<open>\<open>DepositInput\<close>, \<open>WithdrawInput\<close> and \<open>SettleInput\<close> differ in the name of the other account:
  the funding, withdrawal or pool account.\<close>

record TransferInput =
  ti_PlayerID :: string
  ti_Currency :: string
  ti_Amount :: string
  ti_OtherAccountID :: string
  ti_ExternalRef :: string
  ti_IdempotencyKey :: string
  ti_SourceService :: string

record ReserveInput =
  rsi_PlayerID :: string
  rsi_Currency :: string
  rsi_Amount :: string
  rsi_ExpiresAt :: time
  rsi_IdempotencyKey :: string
  rsi_SourceService :: string
  rsi_Metadata :: metadata

record CommitInput =
  cmi_ReservationID :: string
  cmi_DestinationAccountID :: string
  cmi_Amount :: string
  cmi_IdempotencyKey :: string
  cmi_SourceService :: string

record ReleaseInput =
  rli_ReservationID :: string
  rli_Amount :: string
  rli_IdempotencyKey :: string
  rli_SourceService :: string

record WalletSnapshot =
  ws_PlayerID :: string
  ws_Currency :: string
  ws_Available :: decimal
  ws_Reserved :: decimal
  ws_OpenReservations :: "SdkReservation list"

section \<open>The wallet (wallet.go)\<close>

definition WithOwnerType :: "string \<Rightarrow> Wallet \<Rightarrow> Wallet" where
  "WithOwnerType t w = w\<lparr>wl_ownerType := t\<rparr>"

definition NewWallet :: "string \<Rightarrow> (Wallet \<Rightarrow> Wallet) list \<Rightarrow> Wallet" where
  "NewWallet tenantID opts =
     fold (\<lambda>fn w. fn w) opts \<lparr>wl_tenant = tenantID, wl_ownerType = ''user''\<rparr>"

definition walletAccountID :: "Wallet \<Rightarrow> string \<Rightarrow> string \<Rightarrow> string \<Rightarrow> string" where
  "walletAccountID w ownerID acctType ccy =
     wl_ownerType w @ '':'' @ ownerID @ '':'' @ acctType @ '':'' @ ccy"

definition ensureRequest :: "Wallet \<Rightarrow> string \<Rightarrow> string \<Rightarrow> string \<Rightarrow> CreateAccountRequest" where
  "ensureRequest w ownerID acctType ccy = \<lparr>car_TenantId = wl_tenant w,
     car_OwnerType = wl_ownerType w, car_OwnerId = ownerID, car_AccountType = acctType,
     car_Currency = ccy, car_NormalBalance = NORMAL_BALANCE_DEBIT, car_AllowNegative = False\<rparr>"

definition ensureAccount :: "'c client \<Rightarrow> Wallet \<Rightarrow> string \<Rightarrow> string \<Rightarrow> string \<Rightarrow>
    ('c, sdk_error, unit) exec" where
  "ensureAccount C w ownerID acctType ccy s =
     (case cl_CreateAccount C (ensureRequest w ownerID acctType ccy) s of
        (Inr _, s1) \<Rightarrow> (Inr (), s1)
      | (Inl err, s1) \<Rightarrow>
          if connectCode err = CodeAlreadyExists then (Inr (), s1)
          else case cl_GetAccount C (wl_tenant w) (walletAccountID w ownerID acctType ccy) s1 of
            (Inr _, s2) \<Rightarrow> (Inr (), s2)
          | (Inl ge, s2) \<Rightarrow> (Inl (Wrap (''create '' @ acctType) (Rpc err)), s2))"

definition EnsurePlayerAccounts :: "'c client \<Rightarrow> Wallet \<Rightarrow> string \<Rightarrow> string \<Rightarrow>
    ('c, sdk_error, PlayerAccounts) exec" where
  "EnsurePlayerAccounts C w playerID ccy =
     thenE (mapErr (Wrap ''ensure cash_available'') (ensureAccount C w playerID ''cash_available'' ccy))
     (thenE (mapErr (Wrap ''ensure cash_reserved'') (ensureAccount C w playerID ''cash_reserved'' ccy))
     (ret \<lparr>pa_Available = walletAccountID w playerID ''cash_available'' ccy,
           pa_Reserved = walletAccountID w playerID ''cash_reserved'' ccy\<rparr>))"

definition transferJournal :: "Wallet \<Rightarrow> TransferInput \<Rightarrow> string \<Rightarrow> string \<Rightarrow> PostJournalRequest" where
  "transferJournal w i debit credit = \<lparr>pjr_TenantId = wl_tenant w,
     pjr_IdempotencyKey = ti_IdempotencyKey i, pjr_SourceService = ti_SourceService i,
     pjr_ActorId = '''',
     pjr_Journal = Some \<lparr>jm_EventId = ti_ExternalRef i, jm_Entries = [
       \<lparr>em_AccountId = debit, em_Currency = ti_Currency i, em_Direction = DIRECTION_DEBIT,
        em_Amount = ti_Amount i\<rparr>,
       \<lparr>em_AccountId = credit, em_Currency = ti_Currency i, em_Direction = DIRECTION_CREDIT,
        em_Amount = ti_Amount i\<rparr>]\<rparr>\<rparr>"

definition postJournal :: "'c client \<Rightarrow> Wallet \<Rightarrow> TransferInput \<Rightarrow> string \<Rightarrow> string \<Rightarrow>
    ('c, sdk_error, Receipt) exec" where
  "postJournal C w i debit credit =
     bindE (mapErr Rpc (cl_PostJournal C (transferJournal w i debit credit))) (\<lambda>resp.
       ret \<lparr>rcp_JournalID = pjs_JournalId resp, rcp_FlowRunID = pjs_FlowRunId resp\<rparr>)"

definition Deposit :: "'c client \<Rightarrow> Wallet \<Rightarrow> TransferInput \<Rightarrow> ('c, sdk_error, Receipt) exec" where
  "Deposit C w i = postJournal C w i
     (walletAccountID w (ti_PlayerID i) ''cash_available'' (ti_Currency i)) (ti_OtherAccountID i)"

definition Withdraw :: "'c client \<Rightarrow> Wallet \<Rightarrow> TransferInput \<Rightarrow> ('c, sdk_error, Receipt) exec" where
  "Withdraw C w i = postJournal C w i (ti_OtherAccountID i)
     (walletAccountID w (ti_PlayerID i) ''cash_available'' (ti_Currency i))"

definition Settle :: "'c client \<Rightarrow> Wallet \<Rightarrow> TransferInput \<Rightarrow> ('c, sdk_error, Receipt) exec" where
  "Settle C w i = postJournal C w i
     (walletAccountID w (ti_PlayerID i) ''cash_available'' (ti_Currency i)) (ti_OtherAccountID i)"

definition resvToSDK :: "ReservationMsg \<Rightarrow> SdkReservation" where
  "resvToSDK p = \<lparr>sr_ID = rm_Id p, sr_Status = rm_Status p,
     sr_OriginalAmount = rm_OriginalAmount p, sr_OutstandingAmount = rm_OutstandingAmount p,
     sr_CommittedAmount = rm_CommittedAmount p, sr_ReleasedAmount = rm_ReleasedAmount p,
     sr_ExpiresAt = (case rm_ExpiresAt p of None \<Rightarrow> zeroTime | Some t \<Rightarrow> t)\<rparr>"

definition reserveRequest :: "Wallet \<Rightarrow> ReserveInput \<Rightarrow> metadata option \<Rightarrow> CreateReservationRequest" where
  "reserveRequest w i md = \<lparr>crr_TenantId = wl_tenant w, crr_IdempotencyKey = rsi_IdempotencyKey i,
     crr_SourceAccountId = walletAccountID w (rsi_PlayerID i) ''cash_available'' (rsi_Currency i),
     crr_ReservedAccountId = walletAccountID w (rsi_PlayerID i) ''cash_reserved'' (rsi_Currency i),
     crr_Currency = rsi_Currency i, crr_Amount = rsi_Amount i,
     crr_ExpiresAt = (if rsi_ExpiresAt i = zeroTime then None else Some (rsi_ExpiresAt i)),
     crr_SourceService = rsi_SourceService i, crr_ActorId = '''', crr_Metadata = md\<rparr>"

definition Reserve :: "env \<Rightarrow> 'c client \<Rightarrow> Wallet \<Rightarrow> ReserveInput \<Rightarrow>
    ('c, sdk_error, SdkReservation) exec" where
  "Reserve E C w i =
     bindE (if length (rsi_Metadata i) > 0
            then (case env_NewStruct E (rsi_Metadata i) of
                    None \<Rightarrow> throwE (Plain ''metadata'') | Some md \<Rightarrow> ret (Some md))
            else ret None) (\<lambda>md.
     bindE (mapErr Rpc (cl_CreateReservation C (reserveRequest w i md))) (\<lambda>resp.
       ret (resvToSDK resp)))"

definition Commit :: "'c client \<Rightarrow> Wallet \<Rightarrow> CommitInput \<Rightarrow> ('c, sdk_error, SdkReservation) exec" where
  "Commit C w i =
     bindE (mapErr Rpc (cl_CommitReservation C \<lparr>cmr_TenantId = wl_tenant w,
       cmr_ReservationId = cmi_ReservationID i,
       cmr_DestinationAccountId = cmi_DestinationAccountID i, cmr_Amount = cmi_Amount i,
       cmr_IdempotencyKey = cmi_IdempotencyKey i, cmr_SourceService = cmi_SourceService i,
       cmr_ActorId = ''''\<rparr>)) (\<lambda>resp. ret (resvToSDK resp))"

definition Release :: "'c client \<Rightarrow> Wallet \<Rightarrow> ReleaseInput \<Rightarrow> ('c, sdk_error, SdkReservation) exec" where
  "Release C w i =
     bindE (mapErr Rpc (cl_ReleaseReservation C \<lparr>rlr_TenantId = wl_tenant w,
       rlr_ReservationId = rli_ReservationID i, rlr_Amount = rli_Amount i,
       rlr_IdempotencyKey = rli_IdempotencyKey i, rlr_SourceService = rli_SourceService i,
       rlr_ActorId = ''''\<rparr>)) (\<lambda>resp. ret (resvToSDK resp))"

definition balance :: "decimal_lib \<Rightarrow> 'c client \<Rightarrow> Wallet \<Rightarrow> string \<Rightarrow> string \<Rightarrow>
    ('c, sdk_error, decimal) exec" where
  "balance D C w acct ccy =
     bindE (mapErr Rpc (cl_GetBalance C \<lparr>gbr_TenantId = wl_tenant w, gbr_AccountId = acct,
       gbr_Currency = ccy, gbr_AsOf = None\<rparr>)) (\<lambda>b.
     case dl_NewFromString D (bm_Normalized b) of
       None \<Rightarrow> throwE (Plain (''parse balance '' @ bm_Normalized b))
     | Some d \<Rightarrow> ret d)"

definition openReservations :: "'c client \<Rightarrow> Wallet \<Rightarrow> string \<Rightarrow> string \<Rightarrow> string \<Rightarrow>
    SdkReservation list \<Rightarrow> ('c, sdk_error, SdkReservation list) exec" where
  "openReservations C w playerID ccy status acc =
     bindE (mapErr (Wrap (''list reservations '' @ status)) (mapErr Rpc (cl_ListReservations C
       \<lparr>lrr_TenantId = wl_tenant w, lrr_OwnerType = wl_ownerType w, lrr_OwnerId = playerID,
        lrr_Status = status, lrr_PageSize = 0\<rparr>))) (\<lambda>rows.
     ret (acc @ map resvToSDK (filter (\<lambda>p. rm_Currency p = ccy) rows)))"

definition GetWallet :: "decimal_lib \<Rightarrow> 'c client \<Rightarrow> Wallet \<Rightarrow> string \<Rightarrow> string \<Rightarrow>
    ('c, sdk_error, WalletSnapshot) exec" where
  "GetWallet D C w playerID ccy =
     bindE (mapErr (Wrap ''available'')
       (balance D C w (walletAccountID w playerID ''cash_available'' ccy) ccy)) (\<lambda>avail.
     bindE (mapErr (Wrap ''reserved'')
       (balance D C w (walletAccountID w playerID ''cash_reserved'' ccy) ccy)) (\<lambda>resv.
     bindE (forE (openReservations C w playerID ccy) [''HELD'', ''PARTIAL''] []) (\<lambda>opened.
     ret \<lparr>ws_PlayerID = playerID, ws_Currency = ccy, ws_Available = avail, ws_Reserved = resv,
          ws_OpenReservations = opened\<rparr>)))"

section \<open>What the wallet relies on\<close>

locale ledger_client =
  fixes C :: "'c client"
    and D :: decimal_lib
    and E :: env
    and cview :: "'c \<Rightarrow> ledger_view"
    and cinv :: "'c \<Rightarrow> bool"
  assumes CreateAccount_ok: "cinv c \<Longrightarrow> cl_CreateAccount C r c = (Inr m, c') \<Longrightarrow>
      cinv c' \<and> v_account (cview c) (car_TenantId r, accountID r) = None \<and>
      (\<exists>now. cview c' = (cview c)\<lparr>v_account := (v_account (cview c))
        ((car_TenantId r, accountID r) \<mapsto>
           newAccount r (normalBalanceFromProto (car_NormalBalance r)) now)\<rparr>)"
    and CreateAccount_err: "cinv c \<Longrightarrow> cl_CreateAccount C r c = (Inl e, c') \<Longrightarrow>
      cinv c' \<and> cview c' = cview c"
    and GetAccount_any: "cinv c \<Longrightarrow> cl_GetAccount C tn a c = (res, c') \<Longrightarrow>
      cinv c' \<and> cview c' = cview c"
    and GetAccount_ok: "cinv c \<Longrightarrow> cl_GetAccount C tn a c = (Inr msg, c') \<Longrightarrow>
      v_account (cview c) (tn, a) \<noteq> None"
    and GetBalance_any: "cinv c \<Longrightarrow> cl_GetBalance C gr c = (bres, c') \<Longrightarrow>
      cinv c' \<and> cview c' = cview c"
    and GetBalance_ok: "cinv c \<Longrightarrow> gbr_AsOf gr = None \<Longrightarrow> cl_GetBalance C gr c = (Inr b, c') \<Longrightarrow>
      \<exists>acc. v_account (cview c) (gbr_TenantId gr, gbr_AccountId gr) = Some acc \<and>
        (let (d, cr) = balanceOf (cview c) (gbr_TenantId gr, gbr_AccountId gr, gbr_Currency gr) in
         bm_Normalized b = dl_String D (NormalizedBalance (acc_NormalBalance acc) d cr))"
    and PostJournal_ok: "cinv c \<Longrightarrow> cl_PostJournal C pr c = (Inr resp, c') \<Longrightarrow>
      cinv c' \<and> (\<exists>n fresp. flowDone E (postJournalFlow pr) n (cview c) fresp (cview c'))"
    and PostJournal_err: "cinv c \<Longrightarrow> cl_PostJournal C pr c = (Inl e, c') \<Longrightarrow>
      cinv c' \<and> cview c' = cview c"
    and ListReservations_any: "cinv c \<Longrightarrow> cl_ListReservations C lr c = (lres, c') \<Longrightarrow>
      cinv c' \<and> cview c' = cview c"
    and decimals: "cinv c \<Longrightarrow> codec_ok D" "env_D E = D"

locale wallet_client = ledger_client +
  assumes AlreadyExists: "cinv c \<Longrightarrow> cl_CreateAccount C r c = (Inl e, c') \<Longrightarrow>
      connectCode e = CodeAlreadyExists \<Longrightarrow> v_account (cview c) (car_TenantId r, accountID r) \<noteq> None"

section \<open>What the wallet guarantees\<close>

text \<open>A transfer of the wallet: unless its key was used before, the parsed amount is added to the
  debits of one account and to the credits of the other, and no other balance changes.\<close>

definition transferred :: "decimal_lib \<Rightarrow> string \<Rightarrow> TransferInput \<Rightarrow> string \<Rightarrow> string \<Rightarrow>
    ledger_view \<Rightarrow> ledger_view \<Rightarrow> bool" where
  "transferred D tn i debit credit v v' \<longleftrightarrow> (\<exists>a. ParseAmount D (ti_Amount i) = Inr a \<and>
     (if v_flow v (tn, ti_IdempotencyKey i) \<noteq> None then v' = v
      else \<forall>t k. balanceOf v' (t, k) =
        (fst (balanceOf v (t, k)) + (if t = tn \<and> k = (debit, ti_Currency i) then a else 0),
         snd (balanceOf v (t, k)) + (if t = tn \<and> k = (credit, ti_Currency i) then a else 0))))"

lemma transfer_entries:
  assumes "stepsFromProto D (efr_Steps (postJournalFlow (transferJournal w i debit credit))) = Inr steps"
  shows "\<exists>a. ParseAmount D (ti_Amount i) = Inr a \<and> entriesOf steps =
    [\<lparr>ent_AccountID = debit, ent_Currency = ti_Currency i, ent_Direction = DirectionDebit, ent_Amount = a\<rparr>,
     \<lparr>ent_AccountID = credit, ent_Currency = ti_Currency i, ent_Direction = DirectionCredit, ent_Amount = a\<rparr>]"
  using assms
  by (auto simp: postJournalFlow_def transferJournal_def GetEntries_def newJournal_def
    split: sum.splits option.splits)

lemma flowDone_transferred:
  assumes "flowDone E (postJournalFlow (transferJournal w i debit credit)) n v resp v'"
  shows "transferred (env_D E) (wl_tenant w) i debit credit v v'"
proof -
  let ?r = "postJournalFlow (transferJournal w i debit credit)"
  have r: "efr_TenantId ?r = wl_tenant w" "efr_IdempotencyKey ?r = ti_IdempotencyKey i"
    by (simp_all add: postJournalFlow_def transferJournal_def)
  obtain steps where st: "stepsFromProto (env_D E) (efr_Steps ?r) = Inr steps" and
    f: "flowEffect (env_NewID E n) ?r steps v resp v'"
    using assms by (auto simp: flowDone_def)
  from transfer_entries [OF st] obtain a where a: "ParseAmount (env_D E) (ti_Amount i) = Inr a" and
    es: "entriesOf steps =
      [\<lparr>ent_AccountID = debit, ent_Currency = ti_Currency i, ent_Direction = DirectionDebit, ent_Amount = a\<rparr>,
       \<lparr>ent_AccountID = credit, ent_Currency = ti_Currency i, ent_Direction = DirectionCredit, ent_Amount = a\<rparr>]"
    by blast
  show ?thesis
  proof (cases "v_flow v (wl_tenant w, ti_IdempotencyKey i)")
    case None
    with f r obtain jids where
      "v' = absPost (wl_tenant w) (ti_IdempotencyKey i) (env_NewID E n) (efr_FlowType ?r) steps jids v"
      by (auto simp: flowEffect_def)
    with None a show ?thesis
      by (auto simp: transferred_def balanceOf_post es entryKey_def isDebit_def)
  next
    case (Some p)
    with f r a show ?thesis by (auto simp: transferred_def flowEffect_def)
  qed
qed

context ledger_client
begin

lemma postJournal_ok:
  assumes "cinv c" and "postJournal C w i debit credit c = (Inr rcp, c')"
  shows "cinv c' \<and> transferred D (wl_tenant w) i debit credit (cview c) (cview c')"
proof -
  obtain resp where "cl_PostJournal C (transferJournal w i debit credit) c = (Inr resp, c')"
    using assms(2) by (auto simp: postJournal_def exec_simps)
  from PostJournal_ok [OF assms(1) this] flowDone_transferred decimals(2) show ?thesis by blast
qed

lemma postJournal_err:
  assumes "cinv c" and "postJournal C w i debit credit c = (Inl e, c')"
  shows "cinv c' \<and> cview c' = cview c"
  using assms PostJournal_err by (auto simp: postJournal_def exec_simps)

lemma balance_ok:
  assumes "cinv c" and "balance D C w a ccy c = (Inr d, c')"
  shows "cinv c' \<and> cview c' = cview c \<and>
    (\<exists>acc. v_account (cview c) (wl_tenant w, a) = Some acc \<and>
       d = (let (dr, cr) = balanceOf (cview c) (wl_tenant w, a, ccy) in
              NormalizedBalance (acc_NormalBalance acc) dr cr))"
proof -
  let ?r = "\<lparr>gbr_TenantId = wl_tenant w, gbr_AccountId = a, gbr_Currency = ccy, gbr_AsOf = None\<rparr>"
  obtain b where b: "cl_GetBalance C ?r c = (Inr b, c')" "dl_NewFromString D (bm_Normalized b) = Some d"
    using assms(2) by (auto simp: balance_def exec_simps split: option.splits)
  from GetBalance_any [OF assms(1) b(1)] GetBalance_ok [OF assms(1) _ b(1)] b(2) decimals(1) [OF assms(1)]
  show ?thesis by (auto split: prod.splits)
qed

lemma openReservations_ok:
  assumes "cinv c" and "forE (openReservations C w playerID ccy) statuses acc c = (Inr res, c')"
  shows "cinv c' \<and> cview c' = cview c"
  using assms
proof (induction statuses arbitrary: acc c)
  case (Cons s statuses)
  then obtain acc1 c1 where
    1: "openReservations C w playerID ccy s acc c = (Inr acc1, c1)" and
    2: "forE (openReservations C w playerID ccy) statuses acc1 c1 = (Inr res, c')"
    by (auto simp: exec_simps)
  from 1 ListReservations_any [OF Cons.prems(1)] have "cinv c1 \<and> cview c1 = cview c"
    by (auto simp: openReservations_def exec_simps)
  with Cons.IH [OF _ 2] show ?case by simp
qed (simp add: exec_simps)

lemma GetWallet_ok:
  assumes "cinv c" and "GetWallet D C w playerID ccy c = (Inr ws, c')"
  shows "cinv c' \<and> cview c' = cview c \<and>
    (\<exists>acc. v_account (cview c) (wl_tenant w, walletAccountID w playerID ''cash_available'' ccy) = Some acc \<and>
       ws_Available ws = (let (dr, cr) = balanceOf (cview c)
           (wl_tenant w, walletAccountID w playerID ''cash_available'' ccy, ccy) in
         NormalizedBalance (acc_NormalBalance acc) dr cr)) \<and>
    (\<exists>acc. v_account (cview c) (wl_tenant w, walletAccountID w playerID ''cash_reserved'' ccy) = Some acc \<and>
       ws_Reserved ws = (let (dr, cr) = balanceOf (cview c)
           (wl_tenant w, walletAccountID w playerID ''cash_reserved'' ccy, ccy) in
         NormalizedBalance (acc_NormalBalance acc) dr cr))"
proof -
  obtain av c1 rv c2 opened where
    1: "balance D C w (walletAccountID w playerID ''cash_available'' ccy) ccy c = (Inr av, c1)" and
    2: "balance D C w (walletAccountID w playerID ''cash_reserved'' ccy) ccy c1 = (Inr rv, c2)" and
    3: "forE (openReservations C w playerID ccy) [''HELD'', ''PARTIAL''] [] c2 = (Inr opened, c')" and
    ws: "ws_Available ws = av" "ws_Reserved ws = rv"
    using assms(2) by (auto simp: GetWallet_def bindE_Inr mapErr_Inr ret_Inr simp del: forE.simps)
  note b1 = balance_ok [OF assms(1) 1]
  then have "cinv c1" by simp
  note b2 = balance_ok [OF this 2]
  then have "cinv c2" by simp
  from openReservations_ok [OF this 3] b1 b2 ws show ?thesis by simp
qed

end

lemma accountID_ensure [simp]:
  "accountID (ensureRequest w ownerID acctType ccy) = walletAccountID w ownerID acctType ccy"
  "car_TenantId (ensureRequest w ownerID acctType ccy) = wl_tenant w"
  by (simp_all add: accountID_def ensureRequest_def walletAccountID_def)

context wallet_client
begin

lemma ensureAccount_ok:
  assumes "cinv c" and "ensureAccount C w ownerID acctType ccy c = (Inr u, c')"
  shows "cinv c' \<and> v_account (cview c) \<subseteq>\<^sub>m v_account (cview c') \<and>
    v_account (cview c') (wl_tenant w, walletAccountID w ownerID acctType ccy) \<noteq> None"
proof -
  let ?r = "ensureRequest w ownerID acctType ccy"
  obtain res c1 where 1: "cl_CreateAccount C ?r c = (res, c1)" by (cases "cl_CreateAccount C ?r c")
  show ?thesis
  proof (cases res)
    case (Inr m)
    with assms(2) 1 have "c' = c1" by (simp add: ensureAccount_def)
    with CreateAccount_ok [OF assms(1) 1 [unfolded Inr]] show ?thesis by (auto simp: map_le_def)
  next
    case (Inl e)
    note 2 = CreateAccount_err [OF assms(1) 1 [unfolded Inl]]
    obtain res2 c2 where 3: "cl_GetAccount C (wl_tenant w) (walletAccountID w ownerID acctType ccy) c1 =
      (res2, c2)" by (cases "cl_GetAccount C (wl_tenant w) (walletAccountID w ownerID acctType ccy) c1")
    show ?thesis
    proof (cases "connectCode e = CodeAlreadyExists")
      case True
      with assms(2) 1 Inl have "c' = c1" by (simp add: ensureAccount_def)
      with 2 AlreadyExists [OF assms(1) 1 [unfolded Inl] True] show ?thesis by simp
    next
      case False
      with assms(2) 1 3 Inl have "c' = c2" "\<exists>m. res2 = Inr m"
        by (auto simp: ensureAccount_def split: sum.splits)
      with 2 3 GetAccount_any [of c1] GetAccount_ok [of c1] show ?thesis by fastforce
    qed
  qed
qed

lemma EnsurePlayerAccounts_ok:
  assumes "cinv c" and "EnsurePlayerAccounts C w playerID ccy c = (Inr pa, c')"
  shows "cinv c' \<and> v_account (cview c) \<subseteq>\<^sub>m v_account (cview c') \<and>
    v_account (cview c') (wl_tenant w, pa_Available pa) \<noteq> None \<and>
    v_account (cview c') (wl_tenant w, pa_Reserved pa) \<noteq> None"
proof -
  obtain c1 where
    1: "ensureAccount C w playerID ''cash_available'' ccy c = (Inr (), c1)" and
    2: "ensureAccount C w playerID ''cash_reserved'' ccy c1 = (Inr (), c')" and
    pa: "pa = \<lparr>pa_Available = walletAccountID w playerID ''cash_available'' ccy,
      pa_Reserved = walletAccountID w playerID ''cash_reserved'' ccy\<rparr>"
    using assms(2) by (auto simp: EnsurePlayerAccounts_def exec_simps)
  note e1 = ensureAccount_ok [OF assms(1) 1]
  note e2 = ensureAccount_ok [OF conjunct1 [OF e1] 2]
  obtain acc where "v_account (cview c1) (wl_tenant w, pa_Available pa) = Some acc"
    using e1 pa by auto
  moreover have m: "v_account (cview c1) \<subseteq>\<^sub>m v_account (cview c')" using e2 by simp
  ultimately have "v_account (cview c') (wl_tenant w, pa_Available pa) = Some acc"
    by (metis map_le_def domI)
  moreover have "v_account (cview c) \<subseteq>\<^sub>m v_account (cview c')" using e1 m map_le_trans by blast
  ultimately show ?thesis using e2 pa by simp
qed

end

section \<open>The embedded client\<close>

lemma embeddedClient_simps [simp]:
  "cl_CreateAccount (embeddedClient E S) = CreateAccount E S"
  "cl_GetAccount (embeddedClient E S) = Accounts.GetAccount S"
  "cl_GetBalance (embeddedClient E S) = Snapshots.GetBalance E S"
  "cl_PostJournal (embeddedClient E S) = PostJournal E S"
  "cl_ListReservations (embeddedClient E S) = Reservations.ListReservations E S"
  by (simp_all add: embeddedClient_def)

context ledger_store
begin

text \<open>The reads of the service leave the ledger as it is.\<close>

lemma reads_keep:
  "keeps (\<lambda>w. sinv (w_st w)) (\<lambda>w. sview (w_st w)) (Accounts.GetAccount S tn a)"
  "keeps (\<lambda>w. sinv (w_st w)) (\<lambda>w. sview (w_st w)) (Snapshots.GetBalance E S gr)"
  "keeps (\<lambda>w. sinv (w_st w)) (\<lambda>w. sview (w_st w)) (Reservations.ListReservations E S lr)"
  by (auto simp: Accounts.GetAccount_def Snapshots.GetBalance_def balanceAsOf_def
    Reservations.ListReservations_def Let_def split: option.splits
    intro!: keeps_intros GetAccount GetBalance GetSnapshotBefore SumEntriesBetween ListReservations)

lemma PostJournal_Inr:
  assumes "sinv (w_st w)" and "PostJournal E S r w = (Inr resp, w')"
  shows "sinv (w_st w') \<and>
    (\<exists>fresp. flowDone E (postJournalFlow r) (w_ids w) (sview (w_st w)) fresp (sview (w_st w')))"
  using assms ExecuteFlow_Inr by (fastforce simp: PostJournal_def exec_simps)

lemma PostJournal_Inl:
  "sinv (w_st w) \<Longrightarrow> PostJournal E S r w = (Inl e, w') \<Longrightarrow>
     sinv (w_st w') \<and> sview (w_st w') = sview (w_st w)"
  using ExecuteFlow_Inl by (fastforce simp: PostJournal_def exec_simps)

lemma embedded_client:
  "ledger_client (embeddedClient E S) (env_D E) E (\<lambda>w. sview (w_st w))
     (\<lambda>w. sinv (w_st w) \<and> codec_ok (env_D E))"
proof (unfold_locales, goal_cases)
  case (1 c r m c')
  then show ?case using CreateAccount_Inr [of c E r m c'] by auto
next
  case (2 c r e c')
  then show ?case using CreateAccount_Inl [of c E r e c'] by simp
next
  case (3 c tn a res c')
  then show ?case by (auto dest: keepsD [OF reads_keep(1), rotated])
next
  case (4 c tn a msg c')
  then show ?case using GetAccount_Inr by (fastforce simp: Accounts.GetAccount_def exec_simps)
next
  case (5 c gr bres c')
  then show ?case by (auto dest: keepsD [OF reads_keep(2), rotated])
next
  case (6 c gr b c')
  then have "Snapshots.GetBalance E S gr c = (Inr b, c')" "sinv (w_st c)" by simp_all
  from GetBalance_now_Inr [OF this(2) 6(2) this(1)] show ?case by (auto split: prod.splits)
next
  case (7 c pr resp c')
  then show ?case using PostJournal_Inr [of c E pr resp c'] by auto
next
  case (8 c pr e c')
  then show ?case using PostJournal_Inl [of c E pr e c'] by simp
next
  case (9 c lr lres c')
  then show ?case by (auto dest: keepsD [OF reads_keep(3), rotated])
qed simp_all

end

sublocale ledger_store \<subseteq> emb: ledger_client "embeddedClient E S" "env_D E" E
    "\<lambda>w. sview (w_st w)" "\<lambda>w. sinv (w_st w) \<and> codec_ok (env_D E)" for E
  by (rule embedded_client)

section \<open>The wallet over SQLite\<close>

text \<open>The driver returns its own errors, never a domain error of the ledger.\<close>

definition plainFaults :: "sqlite_cfg \<Rightarrow> bool" where
  "plainFaults C \<longleftrightarrow> (\<forall>n c msg. sc_fault C n \<noteq> Some (DomainError c msg)) \<and>
     (\<forall>n c msg b. sc_endFault C n \<noteq> Some (DomainError c msg, b))"

lemma ToConnectError_plain:
  "(\<And>c msg. err \<noteq> DomainError c msg) \<Longrightarrow> connectCode (ToConnectError err) = CodeInternal"
  by (cases err) auto

lemma insertQ_plain:
  assumes "plainFaults C" and "insertQ C conflict check ins d = (Inl err, d')"
  shows "err \<noteq> DomainError c msg"
  using assms by (auto simp: plainFaults_def insertQ_def stmt_def Let_def split: option.splits if_splits)

lemma CreateAccount_plain:
  assumes "plainFaults C" and "CreateAccount E (sqliteStore C) r w = (Inl e, w')"
  shows "connectCode e = CodeInternal"
proof -
  obtain a err w0 where e: "e = ToConnectError err" and
    run: "runInTx (sqliteStore C) (inSt (InsertAccount C a)) w0 = (Inl err, w')"
    using assms(2) by (auto simp: CreateAccount_def Let_def exec_simps)
  have "err \<noteq> DomainError c msg" for c msg
  proof -
    obtain r1 s1 where b: "BeginFlowTx C (w_st w0) = (r1, s1)" by (cases "BeginFlowTx C (w_st w0)")
    show ?thesis
    proof (cases r1)
      case (Inl e1)
      with run b have "err = e1" by (simp add: runInTx_def)
      with b Inl assms(1) show ?thesis
        by (auto simp: BeginFlowTx_def stmt_def Let_def plainFaults_def split: option.splits)
    next
      case (Inr t)
      obtain r2 d where i: "InsertAccount C a t = (r2, d)" by (cases "InsertAccount C a t")
      show ?thesis
      proof (cases r2)
        case (Inl e2)
        with run b Inr i have "err = e2" by (simp add: runInTx_def inSt_def)
        with insertQ_plain [OF assms(1)] i Inl show ?thesis by (simp add: InsertAccount_def)
      next
        case (Inr u)
        with run b \<open>r1 = Inr t\<close> i have "fst (Sqlite_Store.Commit C d s1) = Inl err"
          by (auto simp: runInTx_def inSt_def split: prod.splits)
        with assms(1) show ?thesis
          by (auto simp: Sqlite_Store.Commit_def finalize_def Let_def plainFaults_def
            split: if_splits option.splits)
      qed
    qed
  qed
  with ToConnectError_plain e show ?thesis by blast
qed

definition walletInv :: "env \<Rightarrow> sqlite_cfg \<Rightarrow> sqlite world \<Rightarrow> bool" where
  "walletInv E C w \<longleftrightarrow> (sqliteInv C (w_st w) \<and> codec_ok (env_D E)) \<and> plainFaults C"

lemma ledger_client_restrict:
  assumes "ledger_client C D E cview cinv"
  shows "ledger_client C D E cview (\<lambda>c. cinv c \<and> P)"
proof (cases P)
  case False
  with ledger_client.decimals(2) [OF assms] show ?thesis by unfold_locales simp_all
qed (use assms in simp)

interpretation wal: wallet_client "embeddedClient E (sqliteStore C)" "env_D E" E
    "\<lambda>w. sqliteView C (w_st w)" "walletInv E C" for E C
proof (intro wallet_client.intro wallet_client_axioms.intro)
  show "ledger_client (embeddedClient E (sqliteStore C)) (env_D E) E
      (\<lambda>w. sqliteView C (w_st w)) (walletInv E C)"
    unfolding walletInv_def by (rule ledger_client_restrict) (rule sq.embedded_client)
  show "v_account (sqliteView C (w_st c)) (car_TenantId r, accountID r) \<noteq> None"
    if "walletInv E C c" "cl_CreateAccount (embeddedClient E (sqliteStore C)) r c = (Inl e, c')"
      "connectCode e = CodeAlreadyExists" for c r e c'
    using that CreateAccount_plain [of C E r c e c'] by (simp add: walletInv_def)
qed

end
