(* ===== verification/Demo_Decimal.thy ===== *)
theory Demo_Decimal
  imports Prelude
begin

text \<open>
  A concrete decimal package, for evaluation: fractions printed in decimal digits. What it
  prints it parses back (\<open>demoD_ok\<close>).
\<close>

definition digitChar :: "nat \<Rightarrow> char" where
  "digitChar n = char_of (48 + n)"

fun showNat :: "nat \<Rightarrow> string" where
  "showNat n = (if n < 10 then [digitChar n] else showNat (n div 10) @ [digitChar (n mod 10)])"

declare showNat.simps [simp del]

definition digitVal :: "char \<Rightarrow> nat option" where
  "digitVal c = (let n = of_char c in if 48 \<le> n \<and> n < 58 then Some (n - 48) else None)"

fun readDigits :: "nat \<Rightarrow> string \<Rightarrow> nat option" where
  "readDigits acc [] = Some acc"
| "readDigits acc (c # cs) = (case digitVal c of None \<Rightarrow> None | Some d \<Rightarrow> readDigits (10 * acc + d) cs)"

definition readNat :: "string \<Rightarrow> nat option" where
  "readNat s = (if s = [] then None else readDigits 0 s)"

definition showRat :: "rat \<Rightarrow> string" where
  "showRat r = (case quotient_of r of (p, q) \<Rightarrow>
     (if p < 0 then ''-'' else '''') @ showNat (nat \<bar>p\<bar>) @
     (if q = 1 then '''' else ''/'' @ showNat (nat q)))"

definition readUnsigned :: "string \<Rightarrow> rat option" where
  "readUnsigned s = (case readNat (takeWhile (\<lambda>c. c \<noteq> CHR ''/'') s) of
       None \<Rightarrow> None
     | Some p \<Rightarrow> (case dropWhile (\<lambda>c. c \<noteq> CHR ''/'') s of
         [] \<Rightarrow> Some (rat_of_nat p)
       | _ # rest \<Rightarrow> (case readNat rest of
           None \<Rightarrow> None
         | Some q \<Rightarrow> if q = 0 then None else Some (rat_of_nat p / rat_of_nat q))))"

definition readRat :: "string \<Rightarrow> rat option" where
  "readRat s = (case s of
       CHR ''-'' # rest \<Rightarrow> map_option uminus (readUnsigned rest)
     | _ \<Rightarrow> readUnsigned s)"

definition demoD :: decimal_lib where
  "demoD = \<lparr>dl_NewFromString = readRat, dl_String = showRat\<rparr>"

lemma digitVal_digitChar [simp]: "n < 10 \<Longrightarrow> digitVal (digitChar n) = Some n"
  by (simp add: digitVal_def digitChar_def)

lemma readDigits_append:
  "readDigits acc (xs @ ys) = (case readDigits acc xs of None \<Rightarrow> None | Some a \<Rightarrow> readDigits a ys)"
  by (induction acc xs rule: readDigits.induct) (auto split: option.splits)

lemma readDigits_showNat:
  "\<exists>k. 10 ^ k > n \<and> (\<forall>acc. readDigits acc (showNat n) = Some (acc * 10 ^ k + n))"
proof (induction n rule: showNat.induct)
  case (1 n)
  show ?case
  proof (cases "n < 10")
    case True
    then show ?thesis
      by (intro exI [of _ 1]) (simp add: showNat.simps [of n])
  next
    case False
    with 1 obtain k where k: "10 ^ k > n div 10"
      "\<forall>acc. readDigits acc (showNat (n div 10)) = Some (acc * 10 ^ k + n div 10)"
      by blast
    have "n < 10 ^ Suc k" using k(1) by (simp add: div_less_iff_less_mult mult.commute)
    moreover have "readDigits acc (showNat n) = Some (acc * 10 ^ Suc k + n)" for acc
      using False k(2) by (subst showNat.simps) (simp add: readDigits_append algebra_simps)
    ultimately show ?thesis by blast
  qed
qed

lemma showNat_nonempty [simp]: "showNat n \<noteq> []"
  by (subst showNat.simps) simp

lemma readNat_showNat [simp]: "readNat (showNat n) = Some n"
  using readDigits_showNat [of n] by (auto simp: readNat_def)

lemma showNat_chars: "c \<in> set (showNat n) \<Longrightarrow> 48 \<le> (of_char c :: nat)"
  by (induction n rule: showNat.induct)
    (subst (asm) showNat.simps, auto simp: digitChar_def split: if_splits)

lemma showNat_no: "CHR ''/'' \<notin> set (showNat n)" "CHR ''-'' \<notin> set (showNat n)"
  using showNat_chars [of "CHR ''/''" n] showNat_chars [of "CHR ''-''" n] by auto

lemma showNat_no_slash: "c \<in> set (showNat n) \<Longrightarrow> c \<noteq> CHR ''/''"
  using showNat_no(1) by blast

lemma takeWhile_showNat [simp]:
  "takeWhile (\<lambda>c. c \<noteq> CHR ''/'') (showNat n) = showNat n"
  "takeWhile (\<lambda>c. c \<noteq> CHR ''/'') (showNat n @ CHR ''/'' # rest) = showNat n"
  by (simp_all add: showNat_no_slash takeWhile_append)

lemma dropWhile_showNat [simp]:
  "dropWhile (\<lambda>c. c \<noteq> CHR ''/'') (showNat n) = []"
  "dropWhile (\<lambda>c. c \<noteq> CHR ''/'') (showNat n @ CHR ''/'' # rest) = CHR ''/'' # rest"
  by (simp_all add: showNat_no_slash dropWhile_append)

lemma readRat_unsigned: "readRat (showNat n @ rest) = readUnsigned (showNat n @ rest)"
proof -
  obtain c cs where c: "showNat n = c # cs" by (cases "showNat n") auto
  with showNat_no(2) [of n] have "c \<noteq> CHR ''-''" by auto
  with c show ?thesis by (auto simp: readRat_def split: char.splits bool.splits)
qed

lemma readUnsigned_showRat:
  "q > 0 \<Longrightarrow> readUnsigned (showNat p @ (if q = 1 then '''' else ''/'' @ showNat q)) =
     Some (rat_of_nat p / rat_of_nat q)"
  by (auto simp: readUnsigned_def)

lemma readRat_showRat: "readRat (showRat r) = Some r"
proof -
  obtain p q where pq: "quotient_of r = (p, q)" by (cases "quotient_of r")
  have q: "q > 0" using quotient_of_denom_pos [OF pq] .
  have r: "r = of_int p / of_int q" by (rule quotient_of_div [OF pq])
  let ?t = "if nat q = 1 then '''' else ''/'' @ showNat (nat q)"
  have t: "(if q = 1 then '''' else ''/'' @ showNat (nat q)) = ?t" using q by auto
  have u: "readUnsigned (showNat (nat \<bar>p\<bar>) @ ?t) = Some (of_int \<bar>p\<bar> / of_int q)"
    using readUnsigned_showRat [of "nat q" "nat \<bar>p\<bar>"] q by simp
  have sr: "showRat r = (if p < 0 then ''-'' else '''') @ showNat (nat \<bar>p\<bar>) @ ?t"
    unfolding showRat_def pq prod.case t ..
  show ?thesis
  proof (cases "p < 0")
    case True
    then have "readRat (showRat r) = map_option uminus (readUnsigned (showNat (nat \<bar>p\<bar>) @ ?t))"
      unfolding sr by (simp only: if_True append.simps readRat_def list.case char.case bool.case)
    with u True show ?thesis unfolding r by simp
  next
    case False
    then have "readRat (showRat r) = readUnsigned (showNat (nat \<bar>p\<bar>) @ ?t)"
      unfolding sr by (simp only: if_False append.simps readRat_unsigned)
    with u False show ?thesis unfolding r by simp
  qed
qed

lemma demoD_ok [simp]: "codec_ok demoD"
proof -
  have "readRat ''0'' = Some 0" by code_simp
  then show ?thesis by (simp add: codec_ok_def demoD_def readRat_showRat)
qed

end
