(* ===== verification/Fixtures.thy ===== *)
theory Fixtures
  imports System Wallet Demo_Decimal
begin

text \<open>
  Concrete parameters on which the properties are tried: the decimal package \<open>demoD\<close>, an
  environment whose identifiers and clock count, a SQLite configuration without faults, and a
  small database built by running the service.
\<close>

section \<open>A server\<close>

definition demoEnv :: env where
  "demoEnv = \<lparr>env_Now = (\<lambda>n. int n * second), env_NewID = showNat,
     env_D = demoD, env_NewStruct = Some\<rparr>"

definition sumReals :: "string list \<Rightarrow> decimal" where
  "sumReals xs = sum_list (map (\<lambda>s. case readRat s of None \<Rightarrow> 0 | Some d \<Rightarrow> d) xs)"

definition demoC :: sqlite_cfg where
  "demoC = \<lparr>sc_D = demoD, sc_now = (\<lambda>n. int n), sc_fault = (\<lambda>n. None),
     sc_endFault = (\<lambda>n. None), sc_sumReal = sumReals\<rparr>"

definition demoS :: "(sqlite, sqldb) store_ops" where
  "demoS = sqliteStore demoC"

definition accountRequest :: "string \<Rightarrow> string \<Rightarrow> string \<Rightarrow> bool \<Rightarrow> CreateAccountRequest" where
  "accountRequest owner acctType ccy neg = \<lparr>car_TenantId = ''t'', car_OwnerType = ''u'',
     car_OwnerId = owner, car_AccountType = acctType, car_Currency = ccy,
     car_NormalBalance = NORMAL_BALANCE_DEBIT, car_AllowNegative = neg\<rparr>"

text \<open>A funding account that may go negative, an account of \<open>a\<close> and one for its reserved
  money; and the accounts of an exchange, in two currencies.\<close>

definition createAll :: "CreateAccountRequest list \<Rightarrow> (sqlite world, connect_error, unit) exec" where
  "createAll rs = forE (\<lambda>r u. call (CreateAccount demoEnv demoS r)) rs ()"

definition demoAccounts :: "(sqlite world, connect_error, unit) exec" where
  "demoAccounts = createAll [accountRequest ''f'' ''c'' ''U'' True,
     accountRequest ''a'' ''c'' ''U'' False, accountRequest ''a'' ''h'' ''U'' False]"

definition fxAccounts :: "(sqlite world, connect_error, unit) exec" where
  "fxAccounts = createAll [accountRequest ''f'' ''c'' ''U'' False,
     accountRequest ''a'' ''c'' ''U'' True, accountRequest ''f'' ''c'' ''E'' True,
     accountRequest ''a'' ''c'' ''E'' False]"

definition demoFlow :: ExecuteFlowRequest where
  "demoFlow = transferFlow ''t'' ''P'' ''k1'' ''s'' ''a'' ''s1'' ''e1'' ''u:a:c:U''
     ''u:f:c:U'' ''U'' ''100''"

text \<open>The other way round: \<open>a\<close> has nothing to pay with.\<close>

definition overdraft :: ExecuteFlowRequest where
  "overdraft = transferFlow ''t'' ''P'' ''k2'' ''s'' ''a'' ''s1'' ''e2'' ''u:f:c:U'' ''u:a:c:U'' ''U'' ''1''"

definition demoWorld :: "sqlite world" where
  "demoWorld = snd (demoAccounts freshWorld)"

definition fxWorld :: "sqlite world" where
  "fxWorld = snd (fxAccounts freshWorld)"

section \<open>Runs of the service\<close>

definition succeeds :: "('s, 'e, 'a) exec \<Rightarrow> 's \<Rightarrow> bool" where
  "succeeds m s = (case fst (m s) of Inl _ \<Rightarrow> False | Inr _ \<Rightarrow> True)"

lemma succeeds_run: "succeeds m s \<Longrightarrow> \<exists>a. m s = (Inr a, snd (m s))"
  by (cases "m s") (auto simp: succeeds_def split: sum.splits)

definition paidWorld :: "sqlite world" where
  "paidWorld = snd (ExecuteFlow demoEnv demoS demoFlow demoWorld)"

definition reserveReq :: CreateReservationRequest where
  "reserveReq = \<lparr>crr_TenantId = ''t'', crr_IdempotencyKey = ''r1'',
     crr_SourceAccountId = ''u:a:c:U'', crr_ReservedAccountId = ''u:a:h:U'',
     crr_Currency = ''U'', crr_Amount = ''40'', crr_ExpiresAt = Some 0,
     crr_SourceService = ''s'', crr_ActorId = ''a'', crr_Metadata = None\<rparr>"

definition heldWorld :: "sqlite world" where
  "heldWorld = snd (CreateReservation demoEnv demoS reserveReq paidWorld)"

text \<open>The identifier of the reservation: thirteen were drawn before it.\<close>

definition commitReq :: CommitReservationRequest where
  "commitReq = \<lparr>cmr_TenantId = ''t'', cmr_ReservationId = ''12'',
     cmr_DestinationAccountId = ''u:f:c:U'', cmr_Amount = ''15'',
     cmr_IdempotencyKey = ''c1'', cmr_SourceService = ''s'', cmr_ActorId = ''a''\<rparr>"

definition releaseReq :: ReleaseReservationRequest where
  "releaseReq = \<lparr>rlr_TenantId = ''t'', rlr_ReservationId = ''12'', rlr_Amount = ''40'',
     rlr_IdempotencyKey = ''l1'', rlr_SourceService = ''s'', rlr_ActorId = ''a''\<rparr>"

definition exchangeReq :: ExecuteExchangeRequest where
  "exchangeReq = \<lparr>exr_TenantId = ''t'', exr_IdempotencyKey = ''x1'',
     exr_FromAccountId = ''u:a:c:U'', exr_ToAccountId = ''u:a:c:E'',
     exr_FromCounterAccountId = ''u:f:c:U'',
     exr_ToCounterAccountId = ''u:f:c:E'', exr_FromAmount = ''10'',
     exr_ToAmount = ''20'', exr_Rate = ''2'', exr_RateSource = ''d'',
     exr_SourceService = ''s'', exr_ActorId = ''a'', exr_Metadata = None\<rparr>"

definition balanceReq :: GetBalanceRequest where
  "balanceReq = \<lparr>gbr_TenantId = ''t'', gbr_AccountId = ''u:a:c:U'',
     gbr_Currency = ''U'', gbr_AsOf = None\<rparr>"

text \<open>The databases of these worlds, row by row; the evaluations below start from them.\<close>

lemma demoWorld_eval [code]: "demoWorld =
    \<lparr>w_st = \<lparr>sq_db = \<lparr>db_accounts =
      [\<lparr>ra_id = ''u:f:c:U'', ra_tenant_id = ''t'', ra_owner_type = ''u'', ra_owner_id =
      ''f'', ra_account_type = ''c'', ra_currency = ''U'', ra_normal_balance = NormalDebit,
      ra_allow_negative = 1, ra_status = AccountActive, ra_created_at = 1\<rparr>,
      \<lparr>ra_id = ''u:a:c:U'', ra_tenant_id = ''t'', ra_owner_type = ''u'', ra_owner_id =
      ''a'', ra_account_type = ''c'', ra_currency = ''U'', ra_normal_balance = NormalDebit,
      ra_allow_negative = 0, ra_status = AccountActive, ra_created_at = 4\<rparr>,
      \<lparr>ra_id = ''u:a:h:U'', ra_tenant_id = ''t'', ra_owner_type = ''u'', ra_owner_id =
      ''a'', ra_account_type = ''h'', ra_currency = ''U'', ra_normal_balance = NormalDebit,
      ra_allow_negative = 0, ra_status = AccountActive, ra_created_at = 7\<rparr>],
      db_balances = [],
      db_journals = [],
      db_entries = [],
      db_flow_runs = [],
      db_flow_steps = [],
      db_outbox = [],
      db_snapshots = [],
      db_reservations = [],
      db_fx_rates = [],
      db_external = [],
      db_batches = [],
      db_discrepancies = [],
      db_tick = 9\<rparr>,
      sq_pending = None, sq_done = True\<rparr>, w_ids = 0, w_ticks = 3\<rparr>"
  by code_simp

lemma paidWorld_eval [code]: "paidWorld =
    \<lparr>w_st = \<lparr>sq_db = \<lparr>db_accounts =
      [\<lparr>ra_id = ''u:f:c:U'', ra_tenant_id = ''t'', ra_owner_type = ''u'', ra_owner_id =
      ''f'', ra_account_type = ''c'', ra_currency = ''U'', ra_normal_balance = NormalDebit,
      ra_allow_negative = 1, ra_status = AccountActive, ra_created_at = 1\<rparr>,
      \<lparr>ra_id = ''u:a:c:U'', ra_tenant_id = ''t'', ra_owner_type = ''u'', ra_owner_id =
      ''a'', ra_account_type = ''c'', ra_currency = ''U'', ra_normal_balance = NormalDebit,
      ra_allow_negative = 0, ra_status = AccountActive, ra_created_at = 4\<rparr>,
      \<lparr>ra_id = ''u:a:h:U'', ra_tenant_id = ''t'', ra_owner_type = ''u'', ra_owner_id =
      ''a'', ra_account_type = ''h'', ra_currency = ''U'', ra_normal_balance = NormalDebit,
      ra_allow_negative = 0, ra_status = AccountActive, ra_created_at = 7\<rparr>],
      db_balances =
      [\<lparr>rb2_tenant_id = ''t'', rb2_account_id = ''u:a:c:U'', rb2_currency = ''U'',
      rb2_posted_debits = ''100'', rb2_posted_credits = ''0'', rb2_version = 1, rb2_updated_at =
      23\<rparr>,
      \<lparr>rb2_tenant_id = ''t'', rb2_account_id = ''u:f:c:U'', rb2_currency = ''U'',
      rb2_posted_debits = ''0'', rb2_posted_credits = ''100'', rb2_version = 1, rb2_updated_at =
      24\<rparr>],
      db_journals =
      [\<lparr>rj_id = ''1'', rj_tenant_id = ''t'', rj_flow_run_id = Some ''0'', rj_event_id =
      ''e1'', rj_source_service = ''s'', rj_source_type = ''P'', rj_actor_id = ''a'', rj_metadata
      = [], rj_created_at = 18\<rparr>],
      db_entries =
      [\<lparr>re_id = ''2'', re_tenant_id = ''t'', re_journal_id = ''1'', re_account_id =
      ''u:a:c:U'', re_currency = ''U'', re_direction = DirectionDebit, re_amount = ''100'',
      re_created_at = 19\<rparr>,
      \<lparr>re_id = ''3'', re_tenant_id = ''t'', re_journal_id = ''1'', re_account_id =
      ''u:f:c:U'', re_currency = ''U'', re_direction = DirectionCredit, re_amount = ''100'',
      re_created_at = 20\<rparr>],
      db_flow_runs =
      [\<lparr>rf_id = ''0'', rf_tenant_id = ''t'', rf_flow_type = ''P'', rf_idempotency_key =
      ''k1'', rf_source_service = ''s'', rf_actor_id = ''a'', rf_status = FlowCompleted,
      rf_metadata = [], rf_created_at = 11, rf_completed_at = Some 25, rf_failed_at =
      None\<rparr>],
      db_flow_steps =
      [\<lparr>rs_id = ''4'', rs_tenant_id = ''t'', rs_flow_run_id = ''0'', rs_step_id = ''s1'',
      rs_status = StepCompleted, rs_journal_id = Some ''1'', rs_error_code = None, rs_created_at
      = 21\<rparr>],
      db_outbox =
      [\<lparr>ro_id = ''5'', ro_tenant_id = ''t'', ro_aggregate_id = ''0'', ro_event_type =
      ''P.s1'', ro_idempotency_key = ''0:s1'', ro_payload = JObj [(''flow_type'', JStr ''P''),
      (''journal_id'', JStr ''1''), (''step_id'', JStr ''s1'')], ro_publish_state = ''PENDING'',
      ro_attempts = 0, ro_created_at = 22, ro_published_at = None\<rparr>],
      db_snapshots = [],
      db_reservations = [],
      db_fx_rates = [],
      db_external = [],
      db_batches = [],
      db_discrepancies = [],
      db_tick = 27\<rparr>,
      sq_pending = None, sq_done = True\<rparr>, w_ids = 6, w_ticks = 7\<rparr>"
  by code_simp

lemma heldWorld_eval [code]: "heldWorld =
    \<lparr>w_st = \<lparr>sq_db = \<lparr>db_accounts =
      [\<lparr>ra_id = ''u:f:c:U'', ra_tenant_id = ''t'', ra_owner_type = ''u'', ra_owner_id =
      ''f'', ra_account_type = ''c'', ra_currency = ''U'', ra_normal_balance = NormalDebit,
      ra_allow_negative = 1, ra_status = AccountActive, ra_created_at = 1\<rparr>,
      \<lparr>ra_id = ''u:a:c:U'', ra_tenant_id = ''t'', ra_owner_type = ''u'', ra_owner_id =
      ''a'', ra_account_type = ''c'', ra_currency = ''U'', ra_normal_balance = NormalDebit,
      ra_allow_negative = 0, ra_status = AccountActive, ra_created_at = 4\<rparr>,
      \<lparr>ra_id = ''u:a:h:U'', ra_tenant_id = ''t'', ra_owner_type = ''u'', ra_owner_id =
      ''a'', ra_account_type = ''h'', ra_currency = ''U'', ra_normal_balance = NormalDebit,
      ra_allow_negative = 0, ra_status = AccountActive, ra_created_at = 7\<rparr>],
      db_balances =
      [\<lparr>rb2_tenant_id = ''t'', rb2_account_id = ''u:a:c:U'', rb2_currency = ''U'',
      rb2_posted_debits = ''100'', rb2_posted_credits = ''40'', rb2_version = 2, rb2_updated_at =
      42\<rparr>,
      \<lparr>rb2_tenant_id = ''t'', rb2_account_id = ''u:f:c:U'', rb2_currency = ''U'',
      rb2_posted_debits = ''0'', rb2_posted_credits = ''100'', rb2_version = 1, rb2_updated_at =
      24\<rparr>,
      \<lparr>rb2_tenant_id = ''t'', rb2_account_id = ''u:a:h:U'', rb2_currency = ''U'',
      rb2_posted_debits = ''40'', rb2_posted_credits = ''0'', rb2_version = 1, rb2_updated_at =
      43\<rparr>],
      db_journals =
      [\<lparr>rj_id = ''1'', rj_tenant_id = ''t'', rj_flow_run_id = Some ''0'', rj_event_id =
      ''e1'', rj_source_service = ''s'', rj_source_type = ''P'', rj_actor_id = ''a'', rj_metadata
      = [], rj_created_at = 18\<rparr>,
      \<lparr>rj_id = ''7'', rj_tenant_id = ''t'', rj_flow_run_id = Some ''6'', rj_event_id =
      ''r1:reserve'', rj_source_service = ''s'', rj_source_type = ''CREATE_RESERVATION'',
      rj_actor_id = ''a'', rj_metadata = [], rj_created_at = 37\<rparr>],
      db_entries =
      [\<lparr>re_id = ''2'', re_tenant_id = ''t'', re_journal_id = ''1'', re_account_id =
      ''u:a:c:U'', re_currency = ''U'', re_direction = DirectionDebit, re_amount = ''100'',
      re_created_at = 19\<rparr>,
      \<lparr>re_id = ''3'', re_tenant_id = ''t'', re_journal_id = ''1'', re_account_id =
      ''u:f:c:U'', re_currency = ''U'', re_direction = DirectionCredit, re_amount = ''100'',
      re_created_at = 20\<rparr>,
      \<lparr>re_id = ''8'', re_tenant_id = ''t'', re_journal_id = ''7'', re_account_id =
      ''u:a:h:U'', re_currency = ''U'', re_direction = DirectionDebit, re_amount = ''40'',
      re_created_at = 38\<rparr>,
      \<lparr>re_id = ''9'', re_tenant_id = ''t'', re_journal_id = ''7'', re_account_id =
      ''u:a:c:U'', re_currency = ''U'', re_direction = DirectionCredit, re_amount = ''40'',
      re_created_at = 39\<rparr>],
      db_flow_runs =
      [\<lparr>rf_id = ''0'', rf_tenant_id = ''t'', rf_flow_type = ''P'', rf_idempotency_key =
      ''k1'', rf_source_service = ''s'', rf_actor_id = ''a'', rf_status = FlowCompleted,
      rf_metadata = [], rf_created_at = 11, rf_completed_at = Some 25, rf_failed_at =
      None\<rparr>,
      \<lparr>rf_id = ''6'', rf_tenant_id = ''t'', rf_flow_type = ''CREATE_RESERVATION'',
      rf_idempotency_key = ''r1:create'', rf_source_service = ''s'', rf_actor_id = ''a'',
      rf_status = FlowCompleted, rf_metadata = [], rf_created_at = 30, rf_completed_at = Some 44,
      rf_failed_at = None\<rparr>],
      db_flow_steps =
      [\<lparr>rs_id = ''4'', rs_tenant_id = ''t'', rs_flow_run_id = ''0'', rs_step_id = ''s1'',
      rs_status = StepCompleted, rs_journal_id = Some ''1'', rs_error_code = None, rs_created_at
      = 21\<rparr>,
      \<lparr>rs_id = ''10'', rs_tenant_id = ''t'', rs_flow_run_id = ''6'', rs_step_id =
      ''reserve'', rs_status = StepCompleted, rs_journal_id = Some ''7'', rs_error_code = None,
      rs_created_at = 40\<rparr>],
      db_outbox =
      [\<lparr>ro_id = ''5'', ro_tenant_id = ''t'', ro_aggregate_id = ''0'', ro_event_type =
      ''P.s1'', ro_idempotency_key = ''0:s1'', ro_payload = JObj [(''flow_type'', JStr ''P''),
      (''journal_id'', JStr ''1''), (''step_id'', JStr ''s1'')], ro_publish_state = ''PENDING'',
      ro_attempts = 0, ro_created_at = 22, ro_published_at = None\<rparr>,
      \<lparr>ro_id = ''11'', ro_tenant_id = ''t'', ro_aggregate_id = ''6'', ro_event_type =
      ''CREATE_RESERVATION.reserve'', ro_idempotency_key = ''6:reserve'', ro_payload = JObj
      [(''flow_type'', JStr ''CREATE_RESERVATION''), (''journal_id'', JStr ''7''), (''step_id'',
      JStr ''reserve'')], ro_publish_state = ''PENDING'', ro_attempts = 0, ro_created_at = 41,
      ro_published_at = None\<rparr>,
      \<lparr>ro_id = ''13'', ro_tenant_id = ''t'', ro_aggregate_id = ''12'', ro_event_type =
      ''RESERVATION_CREATED'', ro_idempotency_key = ''12:created'', ro_payload = JObj
      [(''amount'', JStr ''40''), (''currency'', JStr ''U''), (''reservation_id'', JStr ''12'')],
      ro_publish_state = ''PENDING'', ro_attempts = 0, ro_created_at = 46, ro_published_at =
      None\<rparr>],
      db_snapshots = [],
      db_reservations =
      [\<lparr>rr_id = ''12'', rr_tenant_id = ''t'', rr_idempotency_key = ''r1'',
      rr_source_account_id = ''u:a:c:U'', rr_reserved_account_id = ''u:a:h:U'', rr_currency =
      ''U'', rr_original_amount = ''40'', rr_outstanding_amount = ''40'', rr_committed_amount =
      ''0'', rr_released_amount = ''0'', rr_status = ReservationHeld, rr_expires_at = Some 0,
      rr_flow_run_id = ''6'', rr_metadata = [], rr_created_at = 45, rr_updated_at = 45\<rparr>],
      db_fx_rates = [],
      db_external = [],
      db_batches = [],
      db_discrepancies = [],
      db_tick = 48\<rparr>,
      sq_pending = None, sq_done = True\<rparr>, w_ids = 14, w_ticks = 14\<rparr>"
  by code_simp

text \<open>A transaction begun in \<open>paidWorld\<close>.\<close>

definition paidTx :: "sqldb world" where
  "paidTx = \<lparr>w_st = sq_db (w_st paidWorld), w_ids = w_ids paidWorld, w_ticks = w_ticks paidWorld\<rparr>"

text \<open>Each run, evaluated from the empty database.\<close>

lemma demoAccounts_run: "succeeds demoAccounts freshWorld"
  by code_simp

lemma demoFlow_run: "succeeds (ExecuteFlow demoEnv demoS demoFlow) demoWorld"
  by code_simp

lemma overdraft_run:
  "\<not> succeeds (serve (embeddedClient demoEnv demoS) (RExecuteFlow overdraft)) demoWorld"
  by code_simp

lemma matcher_run: "succeeds (matcherRun (sqliteTx demoC) ''t'' ''s'' 0 second) paidTx"
  by code_simp

lemma replay_run: "succeeds (ExecuteFlow demoEnv demoS demoFlow) paidWorld"
  by code_simp

lemma reserve_run: "succeeds (CreateReservation demoEnv demoS reserveReq) paidWorld"
  by code_simp

lemma commit_run: "succeeds (CommitReservation demoEnv demoS commitReq) heldWorld"
  by code_simp

lemma release_run: "succeeds (ReleaseReservation demoEnv demoS releaseReq) heldWorld"
  by code_simp

lemma expire_run: "succeeds (ExpireReservation demoEnv demoS ''t'' ''12'') heldWorld"
  by code_simp

lemma exchange_run: "succeeds (ExecuteExchange demoEnv demoS exchangeReq) fxWorld"
  by code_simp

lemma balance_run: "succeeds (Snapshots.GetBalance demoEnv demoS balanceReq) paidWorld"
  by code_simp

lemma as_of_run:
  "succeeds (Snapshots.GetBalance demoEnv demoS (balanceReq\<lparr>gbr_AsOf := Some (19 * millisecond)\<rparr>)) paidWorld"
  by code_simp

lemma account_run: "succeeds (CreateAccount demoEnv demoS (accountRequest ''f'' ''c'' ''U'' True)) freshWorld"
  by code_simp

lemma demo_decimal: "decOrZero demoC ''100'' = 100" "decOrZero demoC ''40'' = 40"
  by code_simp+

section \<open>The invariant in these worlds\<close>

definition good :: "sqlite world \<Rightarrow> bool" where
  "good w \<longleftrightarrow> sqliteInv demoC (w_st w) \<and> ledger_inv (sqliteView demoC (w_st w))"

lemma good_run: "safe (sqliteInv demoC) (sqliteView demoC) m \<Longrightarrow> good w \<Longrightarrow> good (snd (m w))"
  using safeD [of "sqliteInv demoC" "sqliteView demoC" m w "fst (m w)" "snd (m w)"]
  by (auto simp: good_def intro: ledger_steps_inv)

lemma demoC_sane: "sane demoC"
  by (simp add: sane_def demoC_def)

lemma good_fresh: "good freshWorld"
  using freshStore_inv [OF demoC_sane] freshStore_ledger by (simp add: good_def freshWorld_def)

lemma good_createAll: "good w \<Longrightarrow> good (snd (createAll rs w))"
  by (rule good_run) (auto simp: createAll_def demoS_def intro!: safe_intros sq.call_safe sq.CreateAccount_safe)

lemma good_worlds: "good demoWorld" "good fxWorld" "good paidWorld" "good heldWorld"
proof -
  show d: "good demoWorld" "good fxWorld"
    unfolding demoWorld_def fxWorld_def demoAccounts_def fxAccounts_def
    by (intro good_createAll good_fresh)+
  show p: "good paidWorld"
    unfolding paidWorld_def demoS_def by (intro good_run sq.ExecuteFlow_safe d)
  show "good heldWorld"
    unfolding heldWorld_def demoS_def by (intro good_run sq.CreateReservation_safe p)
qed

lemmas good_inv = good_worlds [unfolded good_def, THEN conjunct1]
lemmas good_ledger = good_worlds [unfolded good_def, THEN conjunct2]

end
