(* ===== verification/Atomicity.thy ===== *)
theory Atomicity
  imports System Wallet
begin

text \<open>
  A request that is refused has no effect on the ledger.

  \<open>atomic\<close> says it of one computation: when it fails, the store keeps its invariant and shows
  the ledger it showed before. Each RPC handler has it: it reads, opens at most one transaction,
  and fails either before it or in it. The two handlers that write row by row outside a
  transaction, \<open>TakeBalanceSnapshot\<close> and \<open>IngestExternalRecords\<close>, write no part of the
  ledger.
\<close>

definition atomic :: "('s \<Rightarrow> bool) \<Rightarrow> ('s \<Rightarrow> ledger_view) \<Rightarrow> ('s world, 'e, 'a) exec \<Rightarrow> bool" where
  "atomic sinv sview m \<longleftrightarrow> (\<forall>w e w'. sinv (w_st w) \<longrightarrow> m w = (Inl e, w') \<longrightarrow>
     sinv (w_st w') \<and> sview (w_st w') = sview (w_st w))"

lemma atomicD:
  "atomic sinv sview m \<Longrightarrow> sinv (w_st w) \<Longrightarrow> m w = (Inl e, w') \<Longrightarrow>
     sinv (w_st w') \<and> sview (w_st w') = sview (w_st w)"
  by (auto simp: atomic_def)

lemma atomicI:
  "(\<And>w e w'. sinv (w_st w) \<Longrightarrow> m w = (Inl e, w') \<Longrightarrow>
     sinv (w_st w') \<and> sview (w_st w') = sview (w_st w)) \<Longrightarrow> atomic sinv sview m"
  by (auto simp: atomic_def)

lemma atomic_keeps:
  "keeps (\<lambda>w. sinv (w_st w)) (\<lambda>w. sview (w_st w)) m \<Longrightarrow> atomic sinv sview m"
  by (auto simp: atomic_def keeps_def)

lemma atomic_mapErr: "atomic sinv sview m \<Longrightarrow> atomic sinv sview (mapErr f m)"
  by (auto simp: atomic_def exec_simps)

lemma atomic_ret_after: "atomic sinv sview m \<Longrightarrow> atomic sinv sview (bindE m (\<lambda>a. ret (g a)))"
  by (auto simp: atomic_def exec_simps)

lemma atomic_keeps_bind:
  assumes "keeps (\<lambda>w. sinv (w_st w)) (\<lambda>w. sview (w_st w)) m" and "\<And>a. atomic sinv sview (f a)"
  shows "atomic sinv sview (bindE m f)"
proof (rule atomicI)
  fix w e w'
  assume "sinv (w_st w)" and run: "bindE m f w = (Inl e, w')"
  then have 1: "sinv (w_st w1) \<and> sview (w_st w1) = sview (w_st w)" if "m w = (r, w1)" for r w1
    using assms(1) that by (auto simp: keeps_def)
  from run consider "m w = (Inl e, w')" | a w1 where "m w = (Inr a, w1)" "f a w1 = (Inl e, w')"
    by (auto simp: exec_simps)
  then show "sinv (w_st w') \<and> sview (w_st w') = sview (w_st w)"
    by cases (use 1 atomicD [OF assms(2)] in \<open>force+\<close>)
qed

lemma atomic_throwE: "atomic sinv sview (throwE e)"
  by (auto simp: atomic_def exec_simps)

lemma atomic_call: "atomic sinv sview m \<Longrightarrow> atomic sinv sview (call m)"
  unfolding call_def by (rule atomic_ret_after)

context ledger_store
begin

lemma atomic_runTx: "atomic sinv sview (runTx S body)"
  by (rule atomicI) (rule runTx_Inl)

lemma atomic_runInTx: "atomic sinv sview (runInTx S body)"
  by (rule atomicI) (rule runInTx_Inl)

lemma keeps_clock:
  "keeps (\<lambda>w. sinv (w_st w)) (\<lambda>w. sview (w_st w)) (Now E)"
  "keeps (\<lambda>w. sinv (w_st w)) (\<lambda>w. sview (w_st w)) (NewID E)"
  by (auto simp: keeps_def Now_def NewID_def)

lemma keeps_forE:
  "(\<And>x acc. keeps si sv (f x acc)) \<Longrightarrow> keeps si sv (forE f xs acc)"
  by (induction xs arbitrary: acc) (auto intro!: keeps_intros)

lemma more_reads_keep:
  "keeps (\<lambda>w. sinv (w_st w)) (\<lambda>w. sview (w_st w)) (Flow.GetFlow S tn f)"
  "keeps (\<lambda>w. sinv (w_st w)) (\<lambda>w. sview (w_st w)) (Snapshots.ListAccountActivity E S lar)"
  "keeps (\<lambda>w. sinv (w_st w)) (\<lambda>w. sview (w_st w)) (Reservations.GetReservation E S tn i)"
  "keeps (\<lambda>w. sinv (w_st w)) (\<lambda>w. sview (w_st w)) (Exchange.GetFXRate E S gfr)"
  "keeps (\<lambda>w. sinv (w_st w)) (\<lambda>w. sview (w_st w)) (Exchange.ListFXRates E S lfr)"
  "keeps (\<lambda>w. sinv (w_st w)) (\<lambda>w. sview (w_st w)) (GetReconciliationBatch S tn i)"
  "keeps (\<lambda>w. sinv (w_st w)) (\<lambda>w. sview (w_st w)) (Reconcile.ListDiscrepancies S ldr)"
  by (auto simp: Flow.GetFlow_def Snapshots.ListAccountActivity_def Reservations.GetReservation_def
    Exchange.GetFXRate_def Exchange.ListFXRates_def GetReconciliationBatch_def
    Reconcile.ListDiscrepancies_def Let_def split: option.splits
    intro!: keeps_intros keeps_clock GetFlow ListAccountActivity GetReservation GetFXRateAt ListFXRates
      GetReconBatch ListDiscrepancies)

lemma row_writes_keep:
  "keeps (\<lambda>w. sinv (w_st w)) (\<lambda>w. sview (w_st w)) (PutFXRate E S pfr)"
  "keeps (\<lambda>w. sinv (w_st w)) (\<lambda>w. sview (w_st w)) (TakeBalanceSnapshot E S tsr)"
  "keeps (\<lambda>w. sinv (w_st w)) (\<lambda>w. sview (w_st w)) (IngestExternalRecords E S ier)"
  by (auto simp: PutFXRate_def TakeBalanceSnapshot_def insertSnapshot_def IngestExternalRecords_def
    ingestRecord_def Let_def split: option.splits sum.splits
    intro!: keeps_intros keeps_clock keeps_forE UpsertFXRate GetBalance InsertSnapshot
      ListTenantBalances InsertExternalRecord)

lemma resolveRate_keep:
  "keeps (\<lambda>w. sinv (w_st w)) (\<lambda>w. sview (w_st w)) (resolveRate E S exr a b)"
  by (auto simp: resolveRate_def split: option.splits
    intro!: keeps_intros keeps_clock GetFXRateAt)

lemma ExecuteExchange_atomic: "atomic sinv sview (ExecuteExchange E S r)"
  unfolding ExecuteExchange_def
  by (auto split: sum.splits intro!: atomic_keeps_bind atomic_ret_after atomic_mapErr atomic_runTx
    resolveRate_keep atomic_throwE keeps_mapErr keeps_inSt GetAccount)

lemma RunReconciliation_atomic: "atomic sinv sview (RunReconciliation E S r)"
  unfolding RunReconciliation_def Let_def
  by (intro atomic_keeps_bind keeps_clock atomic_ret_after atomic_mapErr atomic_runTx)

lemma ResolveDiscrepancy_atomic: "atomic sinv sview (ResolveDiscrepancy E S r)"
  unfolding ResolveDiscrepancy_def
  by (auto intro!: atomic_ret_after atomic_mapErr atomic_runTx atomic_throwE)

lemma posting_atomic:
  "atomic sinv sview (CreateAccount E S car)"
  "atomic sinv sview (ExecuteFlow E S efr)"
  "atomic sinv sview (PostJournal E S pjr)"
  "atomic sinv sview (CreateReservation E S crr)"
  "atomic sinv sview (CommitReservation E S cmr)"
  "atomic sinv sview (ReleaseReservation E S rlr)"
  by (rule atomicI; erule (1) CreateAccount_Inl ExecuteFlow_Inl PostJournal_Inl
    CreateReservation_Inl CommitReservation_Inl ReleaseReservation_Inl)+

lemmas atomic_handlers = posting_atomic ExecuteExchange_atomic RunReconciliation_atomic
  ResolveDiscrepancy_atomic reads_keep [THEN atomic_keeps] more_reads_keep [THEN atomic_keeps]
  row_writes_keep [THEN atomic_keeps]

lemma serve_atomic: "atomic sinv sview (serve (embeddedClient E S) r)"
  by (cases r) (auto simp: embeddedClient_def intro!: atomic_call atomic_handlers)

end

end
