(* ===== verification/As_Of.thy ===== *)
theory As_Of
  imports Snapshots Sqlite_Store
begin

text \<open>
  Balances at a past time over SQLite: the latest snapshot plus the entries after it is the
  balance of the entries up to that time, provided that snapshots are correct for the
  millisecond they are dated at, and that the database sums amounts exactly (it sums REALs).
  A snapshot that is taken when no entry is dated later than its millisecond is correct; it
  stays so unless entries are posted later in that same millisecond.
\<close>

definition upTo :: "string \<Rightarrow> string \<Rightarrow> string \<Rightarrow> ms \<Rightarrow> sqldb \<Rightarrow> EntryRow list" where
  "upTo tn a c m d = filter (\<lambda>r. re_tenant_id r = tn \<and> re_account_id r = a \<and> re_currency r = c \<and>
     re_created_at r \<le> m) (db_entries d)"

definition exactSum :: "sqlite_cfg \<Rightarrow> string list \<Rightarrow> decimal" where
  "exactSum C xs = sum_list (map (decOrZero C) xs)"

definition amountsIn :: "sqlite_cfg \<Rightarrow> Direction \<Rightarrow> EntryRow list \<Rightarrow> decimal" where
  "amountsIn C dir rows = exactSum C (map re_amount (filter (\<lambda>r. re_direction r = dir) rows))"

definition snapshotCorrect :: "sqlite_cfg \<Rightarrow> sqldb \<Rightarrow> SnapshotRow \<Rightarrow> bool" where
  "snapshotCorrect C d r \<longleftrightarrow>
     (let rows = upTo (rn_tenant_id r) (rn_account_id r) (rn_currency r) (rn_snapshot_at r) d in
      decOrZero C (rn_posted_debits r) = amountsIn C DirectionDebit rows \<and>
      decOrZero C (rn_posted_credits r) = amountsIn C DirectionCredit rows)"

lemma amountsIn_split:
  assumes "s \<le> m"
  shows "amountsIn C dir (upTo tn a c s d) + amountsIn C dir (entriesBetween tn a c s m d) =
    amountsIn C dir (upTo tn a c m d)"
proof -
  have "amountsIn C dir (filter (\<lambda>r. P r \<and> re_created_at r \<le> s) rows) +
      amountsIn C dir (filter (\<lambda>r. P r \<and> s < re_created_at r \<and> re_created_at r \<le> m) rows) =
      amountsIn C dir (filter (\<lambda>r. P r \<and> re_created_at r \<le> m) rows)" for P rows
    using assms by (induction rows) (auto simp: amountsIn_def exactSum_def ac_simps)
  from this [of "\<lambda>r. re_tenant_id r = tn \<and> re_account_id r = a \<and> re_currency r = c" "db_entries d"]
  show ?thesis by (simp add: upTo_def entriesBetween_def conj_assoc)
qed

lemma upTo_zero: "\<forall>r\<in>set (db_entries d). 0 < re_created_at r \<Longrightarrow> upTo tn a c 0 d = []"
  by (auto simp: upTo_def filter_empty_conv)

lemma sumSides_exact:
  "\<forall>xs. sc_sumReal C xs = exactSum C xs \<Longrightarrow>
     sumSides C rows = (amountsIn C DirectionDebit rows, amountsIn C DirectionCredit rows)"
  by (simp add: sumSides_def amountsIn_def)

lemma tick_upTo [simp]:
  "upTo tn a c m (d\<lparr>db_tick := n\<rparr>) = upTo tn a c m d"
  "entriesBetween tn a c s m (d\<lparr>db_tick := n\<rparr>) = entriesBetween tn a c s m d"
  "snapshotBefore tn a c m (d\<lparr>db_tick := n\<rparr>) = snapshotBefore tn a c m d"
  by (simp_all add: upTo_def entriesBetween_def snapshotBefore_def)

lemma onDb_select:
  "sq_pending s = None \<Longrightarrow> onDb (selectQ C f) s = (Inr a, s') \<longleftrightarrow>
     sc_fault C (db_tick (sq_db s)) = None \<and> a = f ((sq_db s)\<lparr>db_tick := Suc (db_tick (sq_db s))\<rparr>) \<and>
     s' = s\<lparr>sq_db := (sq_db s)\<lparr>db_tick := Suc (db_tick (sq_db s))\<rparr>\<rparr>"
  by (auto simp: onDb_def selectQ_def stmt_def Let_def split: option.splits)

lemma GetAccount_tick:
  "sq_pending s = None \<Longrightarrow> st_GetAccount (sqliteStore C) tn a s = (Inr acc, s') \<Longrightarrow>
     sq_db s' = (sq_db s)\<lparr>db_tick := Suc (db_tick (sq_db s))\<rparr>"
  by (auto simp: onDb_def Sqlite_Store.GetAccount_def exec_simps split: prod.splits option.splits)

lemma formatTime_simps [simp]: "formatTime 0 = 0" "formatTime (parseTime m) = m"
  by (simp_all add: formatTime_def parseTime_def)

lemma balanceAsOf_correct:
  assumes "sqliteInv C (w_st w)" and "balanceAsOf (sqliteStore C) r t w = (Inr (d, c, ver), w')"
    and "\<forall>xs. sc_sumReal C xs = exactSum C xs"
    and "\<forall>x\<in>set (db_entries (sq_db (w_st w))). 0 < re_created_at x"
    and "\<forall>x\<in>set (db_snapshots (sq_db (w_st w))). snapshotCorrect C (sq_db (w_st w)) x"
    and "0 \<le> t"
  shows "(d, c) = (let rows = upTo (gbr_TenantId r) (gbr_AccountId r) (gbr_Currency r)
      (formatTime t) (sq_db (w_st w)) in
    (amountsIn C DirectionDebit rows, amountsIn C DirectionCredit rows))"
proof -
  let ?db = "sq_db (w_st w)" and ?m = "formatTime t"
  let ?up = "\<lambda>m. upTo (gbr_TenantId r) (gbr_AccountId r) (gbr_Currency r) m ?db"
  have pend: "sq_pending (w_st w) = None" using assms(1) by (simp add: sqliteInv_def)
  have sums: "sumSides C rows = (amountsIn C DirectionDebit rows, amountsIn C DirectionCredit rows)" for rows
    by (rule sumSides_exact [OF assms(3)])
  note steps = balanceAsOf_def bindE_Inr mapErr_Inr inSt_Inr GetSnapshotBefore_def
    SumEntriesBetween_def ret_Inr
  show ?thesis
  proof (cases "snapshotBefore (gbr_TenantId r) (gbr_AccountId r) (gbr_Currency r) ?m ?db")
    case None
    then have "(d, c) = sumSides C (entriesBetween (gbr_TenantId r) (gbr_AccountId r)
        (gbr_Currency r) 0 ?m ?db)"
      using assms(2) pend by (auto simp: steps onDb_select split: prod.splits)
    moreover have "0 \<le> ?m" using assms(6) by (simp add: formatTime_def)
    ultimately show ?thesis
      using amountsIn_split [of 0 ?m C _ "gbr_TenantId r" "gbr_AccountId r" "gbr_Currency r" ?db]
        upTo_zero [OF assms(4)]
      by (simp add: sums amountsIn_def exactSum_def Let_def)
  next
    case (Some sr)
    note sr = snapshotBefore_latest [OF Some]
    then have ok: "snapshotCorrect C ?db sr" using assms(5) by blast
    from Some have "(d, c) = (case sumSides C (entriesBetween (gbr_TenantId r) (gbr_AccountId r)
        (gbr_Currency r) (rn_snapshot_at sr) ?m ?db) of (x, y) \<Rightarrow>
        (decOrZero C (rn_posted_debits sr) + x, decOrZero C (rn_posted_credits sr) + y))"
      using assms(2) pend
      by (auto simp: steps onDb_select rowToSnapshot_def split: prod.splits)
    with ok sr amountsIn_split [of "rn_snapshot_at sr" ?m C _ "gbr_TenantId r" "gbr_AccountId r"
        "gbr_Currency r" ?db]
    show ?thesis by (simp add: sums snapshotCorrect_def Let_def)
  qed
qed

text \<open>The snapshot that is taken of a ledger whose books hold is correct, if no entry is dated
  after its millisecond.\<close>

lemma upTo_all:
  assumes "\<forall>x\<in>set (db_entries d). re_created_at x \<le> m" and "sqlInv C d"
  shows "amountsIn C DirectionDebit (upTo tn a c m d) = debitsOf (a, c) (tenantEntries (sqlView C d) tn)"
    and "amountsIn C DirectionCredit (upTo tn a c m d) = creditsOf (a, c) (tenantEntries (sqlView C d) tn)"
proof -
  have v: "v_entries (sqlView C d) = map (entryView C) (db_entries d)" by (simp add: sqlView_def)
  have dirs: "\<forall>x\<in>set (db_entries d). Direction_Valid (re_direction x)"
    using assms(2) by (simp add: sqlInv_def)
  have "amountsIn C DirectionDebit (filter (\<lambda>r. re_tenant_id r = tn \<and> re_account_id r = a \<and>
        re_currency r = c \<and> re_created_at r \<le> m) rows) =
      debitsOf (a, c) (map (\<lambda>p. snd (snd p)) (filter (\<lambda>p. fst p = tn) (map (entryView C) rows)))"
    if "\<forall>x\<in>set rows. re_created_at x \<le> m" for rows
    using that by (induction rows)
      (auto simp: amountsIn_def exactSum_def entryView_def entryKey_def isDebit_def)
  with assms(1) show "amountsIn C DirectionDebit (upTo tn a c m d) =
      debitsOf (a, c) (tenantEntries (sqlView C d) tn)"
    by (simp add: upTo_def tenantEntries_def v)
  have "amountsIn C DirectionCredit (filter (\<lambda>r. re_tenant_id r = tn \<and> re_account_id r = a \<and>
        re_currency r = c \<and> re_created_at r \<le> m) rows) =
      creditsOf (a, c) (map (\<lambda>p. snd (snd p)) (filter (\<lambda>p. fst p = tn) (map (entryView C) rows)))"
    if "\<forall>x\<in>set rows. re_created_at x \<le> m \<and> Direction_Valid (re_direction x)" for rows
    using that by (induction rows)
      (auto simp: amountsIn_def exactSum_def entryView_def entryKey_def isDebit_def Direction_Valid_def)
  with assms(1) dirs show "amountsIn C DirectionCredit (upTo tn a c m d) =
      creditsOf (a, c) (tenantEntries (sqlView C d) tn)"
    by (simp add: upTo_def tenantEntries_def v)
qed

end
