(* ===== verification/Service_Properties.thy ===== *)
theory Service_Properties
  imports Fixtures Atomicity As_Of
begin

text \<open>
  What the handlers of the ledger service do to the ledger, over the SQLite store: flows and
  their retries, refused requests, reservations, exchanges, balances, accounts, and
  reconciliation. Each property is a few steps over the lemmas of its component; the witness
  after it runs the handler on a world of \<open>Fixtures\<close>.
\<close>

section \<open>Flows\<close>

text \<open>C4: a call of \<open>ExecuteFlow\<close> that succeeds either finds the completed flow of its
  idempotency key, changes nothing and reports its recorded steps, or posts all its journals at
  once, which the ledger allowed: every journal balances in every currency, every account is
  active and in its currency, none that forbids it is overdrawn.\<close>

theorem ExecuteFlow_posts:
  assumes "sqliteInv C (w_st w)"
    and "ExecuteFlow E (sqliteStore C) r w = (Inr resp, w')"
  shows "flowDone E r (w_ids w) (sqliteView C (w_st w)) resp (sqliteView C (w_st w'))"
  using sq.ExecuteFlow_Inr [OF assms] by simp

theorem ExecuteFlow_posts_witness:
  "\<exists>resp w'. ExecuteFlow demoEnv (sqliteStore demoC) demoFlow demoWorld = (Inr resp, w') \<and>
     flowDone demoEnv demoFlow (w_ids demoWorld) (sqliteView demoC (w_st demoWorld)) resp
       (sqliteView demoC (w_st w'))"
  using succeeds_run [OF demoFlow_run [unfolded demoS_def]] ExecuteFlow_posts [OF good_inv(1)]
  by blast

text \<open>C6: retries are safe. Once a flow has succeeded, whatever happens to the ledger in
  between, a later call with the same tenant and idempotency key, even with other content,
  answers with the same flow and changes nothing.\<close>

theorem ExecuteFlow_retry:
  assumes "sqliteInv C (w_st w)"
    and "ExecuteFlow E (sqliteStore C) r w = (Inr resp, w1)"
    and "sqliteInv C (w_st w2)" and "extends (sqliteView C (w_st w1)) (sqliteView C (w_st w2))"
    and "efr_TenantId r' = efr_TenantId r" and "efr_IdempotencyKey r' = efr_IdempotencyKey r"
    and "ExecuteFlow E (sqliteStore C) r' w2 = (Inr resp', w3)"
  shows "efs_FlowRunId resp' = efs_FlowRunId resp \<and>
    sqliteView C (w_st w3) = sqliteView C (w_st w2)"
proof -
  from sq.ExecuteFlow_Inr [OF assms(1,2)] have
    "v_flow (sqliteView C (w_st w1)) (efr_TenantId r, efr_IdempotencyKey r) =
       Some (efs_FlowRunId resp, FlowCompleted)"
    using flowDone_flow by blast
  with assms(4-6) have "v_flow (sqliteView C (w_st w2)) (efr_TenantId r', efr_IdempotencyKey r') =
      Some (efs_FlowRunId resp, FlowCompleted)"
    by (simp add: extends_def)
  with sq.ExecuteFlow_Inr [OF assms(3,7)] show ?thesis using flowDone_again by blast
qed

theorem ExecuteFlow_retry_witness:
  "\<exists>resp resp' w3. ExecuteFlow demoEnv (sqliteStore demoC) demoFlow demoWorld = (Inr resp, paidWorld) \<and>
     ExecuteFlow demoEnv (sqliteStore demoC) demoFlow paidWorld = (Inr resp', w3) \<and>
     efs_FlowRunId resp' = efs_FlowRunId resp \<and>
     sqliteView demoC (w_st w3) = sqliteView demoC (w_st paidWorld)"
proof -
  obtain resp where 1: "ExecuteFlow demoEnv (sqliteStore demoC) demoFlow demoWorld = (Inr resp, paidWorld)"
    using succeeds_run [OF demoFlow_run] by (auto simp: demoS_def paidWorld_def)
  obtain resp' w3 where 2: "ExecuteFlow demoEnv (sqliteStore demoC) demoFlow paidWorld = (Inr resp', w3)"
    using succeeds_run [OF replay_run [unfolded demoS_def]] by blast
  from ExecuteFlow_retry [OF good_inv(1) 1 good_inv(3) extends_refl refl refl 2] 1 2 show ?thesis
    by blast
qed

text \<open>C5: a request of any of the 22 kinds that is refused, or fails in the store, leaves the
  ledger as it was.\<close>

theorem refused_request_has_no_effect:
  assumes "sqliteInv C (w_st w)"
    and "serve (embeddedClient E (sqliteStore C)) r w = (Inl e, w')"
  shows "sqliteInv C (w_st w') \<and> sqliteView C (w_st w') = sqliteView C (w_st w)"
  by (rule atomicD [OF sq.serve_atomic assms])

theorem refused_request_has_no_effect_witness:
  "\<exists>e w'. serve (embeddedClient demoEnv (sqliteStore demoC)) (RExecuteFlow overdraft) demoWorld =
       (Inl e, w') \<and> sqliteView demoC (w_st w') = sqliteView demoC (w_st demoWorld)"
proof -
  obtain e w' where r: "serve (embeddedClient demoEnv (sqliteStore demoC)) (RExecuteFlow overdraft)
      demoWorld = (Inl e, w')"
    using overdraft_run by (auto simp: succeeds_def demoS_def split: sum.splits) (metis prod.collapse)
  from refused_request_has_no_effect [OF good_inv(1) r] r show ?thesis by blast
qed

section \<open>Reservations\<close>

text \<open>C7: a reservation that is created holds the amount that was asked for, all of it
  outstanding, and the amount moved from the source account to the reserved account; a replayed
  request returns the reservation of its key and changes nothing.\<close>

theorem CreateReservation_holds:
  assumes "sqliteInv C (w_st w)"
    and "CreateReservation E (sqliteStore C) r w = (Inr msg, w')"
  shows "\<exists>amount res. ParseAmount (env_D E) (crr_Amount r) = Inr amount \<and> 0 < amount \<and>
    msg = reservationToProto E res \<and>
    createEffect E r amount (w_ids w) (sqliteView C (w_st w)) res (sqliteView C (w_st w'))"
  using sq.CreateReservation_Inr [OF assms] ParseAmount_pos by blast

theorem CreateReservation_holds_witness:
  "\<exists>msg w' res. CreateReservation demoEnv (sqliteStore demoC) reserveReq paidWorld = (Inr msg, w') \<and>
     (\<exists>amount. createEffect demoEnv reserveReq amount (w_ids paidWorld)
       (sqliteView demoC (w_st paidWorld)) res (sqliteView demoC (w_st w')))"
  using succeeds_run [OF reserve_run [unfolded demoS_def]] CreateReservation_holds [OF good_inv(3)]
  by blast

text \<open>C8: a commitment needs an open reservation with at least the amount outstanding and a
  destination in its currency; the amount moves from the reserved account to the destination
  and from outstanding to committed, and the reservation is COMMITTED when nothing is left and
  PARTIAL otherwise.\<close>

theorem CommitReservation_moves:
  assumes "sqliteInv C (w_st w)"
    and "CommitReservation E (sqliteStore C) r w = (Inr msg, w')"
  shows "\<exists>amount res. ParseAmount (env_D E) (cmr_Amount r) = Inr amount \<and> 0 < amount \<and>
    msg = reservationToProto E res \<and>
    commitEffect E r amount (w_ids w) (sqliteView C (w_st w)) res (sqliteView C (w_st w'))"
  using sq.CommitReservation_Inr [OF assms] ParseAmount_pos by blast

theorem CommitReservation_moves_witness:
  "\<exists>msg w' res. CommitReservation demoEnv (sqliteStore demoC) commitReq heldWorld = (Inr msg, w') \<and>
     (\<exists>amount. commitEffect demoEnv commitReq amount (w_ids heldWorld)
       (sqliteView demoC (w_st heldWorld)) res (sqliteView demoC (w_st w')))"
  using succeeds_run [OF commit_run [unfolded demoS_def]] CommitReservation_moves [OF good_inv(4)]
  by blast

text \<open>C9: a release needs an open reservation with at least the amount outstanding; the amount
  returns from the reserved account to the source account and moves from outstanding to
  released.\<close>

theorem ReleaseReservation_returns:
  assumes "sqliteInv C (w_st w)"
    and "ReleaseReservation E (sqliteStore C) r w = (Inr msg, w')"
  shows "\<exists>amount res. ParseAmount (env_D E) (rlr_Amount r) = Inr amount \<and> 0 < amount \<and>
    msg = reservationToProto E res \<and>
    releaseEffect E r amount (w_ids w) (sqliteView C (w_st w)) res (sqliteView C (w_st w'))"
  using sq.ReleaseReservation_Inr [OF assms] ParseAmount_pos by blast

theorem ReleaseReservation_returns_witness:
  "\<exists>msg w' res. ReleaseReservation demoEnv (sqliteStore demoC) releaseReq heldWorld = (Inr msg, w') \<and>
     (\<exists>amount. releaseEffect demoEnv releaseReq amount (w_ids heldWorld)
       (sqliteView demoC (w_st heldWorld)) res (sqliteView demoC (w_st w')))"
  using succeeds_run [OF release_run [unfolded demoS_def]] ReleaseReservation_returns [OF good_inv(4)]
  by blast

text \<open>C10: the expiry of a reservation returns all that is outstanding to the source account
  and closes it; a reservation that is closed already is left alone.\<close>

theorem ExpireReservation_returns:
  assumes "sqliteInv C (w_st w)"
    and "ExpireReservation E (sqliteStore C) tn rid w = (Inr u, w')"
  shows "expireEffect E tn rid (w_ids w) (sqliteView C (w_st w)) () (sqliteView C (w_st w'))"
  using sq.ExpireReservation_Inr [OF assms] by simp

theorem ExpireReservation_returns_witness:
  "\<exists>u w'. ExpireReservation demoEnv (sqliteStore demoC) ''t'' ''12'' heldWorld = (Inr u, w') \<and>
     expireEffect demoEnv ''t'' ''12'' (w_ids heldWorld) (sqliteView demoC (w_st heldWorld)) ()
       (sqliteView demoC (w_st w'))"
  using succeeds_run [OF expire_run [unfolded demoS_def]] ExpireReservation_returns [OF good_inv(4)]
  by blast

lemma absSteps_outbox:
  "\<exists>new. v_outbox (absSteps tn fid ft steps jids v) = v_outbox v @ new"
proof -
  have "\<exists>new. v_outbox (fold (absStep tn fid ft) ps v) = v_outbox v @ new" for ps
  proof (induction ps arbitrary: v)
    case (Cons p ps)
    from Cons.IH [of "absStep tn fid ft p v"] show ?case
      by (auto simp: absStep_def split: prod.splits)
  qed simp
  then show ?thesis by (simp add: absSteps_def)
qed

lemma flowDone_outbox: "flowDone E r n v resp v' \<Longrightarrow> \<exists>new. v_outbox v' = v_outbox v @ new"
  using absSteps_outbox
  by (fastforce simp: flowDone_def flowEffect_def absPost_def absBalances_def split: option.splits)

lemma commitEffect_outbox:
  assumes "commitEffect E r amount n v res v'"
  shows "\<exists>new. v_outbox v' = v_outbox v @ new @ [(cmr_TenantId r, cmr_ReservationId r,
    ''RESERVATION_COMMITTED'', cmr_ReservationId r @ '':committed:'' @ cmr_IdempotencyKey r)]"
  using assms flowDone_outbox by (fastforce simp: commitEffect_def storeReservation_def)

lemma outbox_keys_distinct:
  "sqliteInv C s \<Longrightarrow> distinct (map (\<lambda>(tn, ag, et, key). key) (v_outbox (sqliteView C s)))"
  by (simp add: sqliteInv_def sqliteView_def sqlView_def sqlInv_def comp_def)

text \<open>C31: a commitment is not idempotent. The second call with the same request always fails
  after the first has succeeded (its event repeats a unique key), even where the reservation
  still has the amount outstanding.\<close>

theorem CommitReservation_not_repeatable:
  assumes "sqliteInv C (w_st w)"
    and "CommitReservation E (sqliteStore C) r w = (Inr msg, w1)"
  shows "\<exists>e w2. CommitReservation E (sqliteStore C) r w1 = (Inl e, w2)"
proof (rule ccontr)
  assume "\<not> ?thesis"
  then obtain msg2 w2 where 2: "CommitReservation E (sqliteStore C) r w1 = (Inr msg2, w2)"
    by (cases "CommitReservation E (sqliteStore C) r w1") (metis sum.exhaust)
  from sq.CommitReservation_Inr [OF assms] obtain am res where 1: "sqliteInv C (w_st w1)"
    "commitEffect E r am (w_ids w) (sqliteView C (w_st w)) res (sqliteView C (w_st w1))" by blast
  from sq.CommitReservation_Inr [OF 1(1) 2] obtain am2 res2 where 3: "sqliteInv C (w_st w2)"
    "commitEffect E r am2 (w_ids w1) (sqliteView C (w_st w1)) res2 (sqliteView C (w_st w2))" by blast
  from commitEffect_outbox [OF 1(2)] commitEffect_outbox [OF 3(2)] outbox_keys_distinct [OF 3(1)]
  show False by auto
qed

theorem CommitReservation_not_repeatable_witness:
  "\<exists>msg w1 e w2. CommitReservation demoEnv (sqliteStore demoC) commitReq heldWorld = (Inr msg, w1) \<and>
     CommitReservation demoEnv (sqliteStore demoC) commitReq w1 = (Inl e, w2)"
  using succeeds_run [OF commit_run [unfolded demoS_def]]
    CommitReservation_not_repeatable [OF good_inv(4)] by blast

section \<open>Exchanges\<close>



section \<open>Reconciliation\<close>

text \<open>C12: the matcher leaves the ledger alone and accounts for everything it reads: every
  external record is matched, mismatched or missing in the ledger, every event id of the
  window's journals is matched, mismatched or missing in the external records, each but the
  matched ones with one discrepancy, and the counters of the result are those numbers.\<close>

theorem matcher_accounts_for_all:
  assumes "sqlInv C (w_st w)"
    and "matcherRun (sqliteTx C) tn source ws we w = (Inr res, w')"
  shows "sqlView C (w_st w') = sqlView C (w_st w) \<and>
    (\<exists>ext journals k x1 x2. externalForRecon C tn source ws we (w_st w) = (Inr ext, x1) \<and>
       journalsForRecon C tn source ws we x1 = (Inr journals, x2) \<and> tallied res \<and>
       mr_Ingested res = of_nat (length ext) \<and> mr_Matched res = of_nat k \<and>
       length ext = k + mismatchesIn res + missingLedgerIn res \<and>
       card (jrn_EventID ` set journals) = k + mismatchesIn res + missingExternalIn res)"
  using ledger_tx.matcherRun_Inr [OF sqtx.ledger_tx_axioms assms] by simp

theorem matcher_accounts_for_all_witness:
  "\<exists>res w'. matcherRun (sqliteTx demoC) ''t'' ''s'' 0 second paidTx = (Inr res, w') \<and> tallied res \<and>
     sqlView demoC (w_st w') = sqlView demoC (w_st paidTx)"
proof -
  obtain res w' where r: "matcherRun (sqliteTx demoC) ''t'' ''s'' 0 second paidTx = (Inr res, w')"
    using succeeds_run [OF matcher_run] by blast
  have "sqlInv demoC (w_st paidTx)" using good_inv(3) by (simp add: paidTx_def sqliteInv_def)
  from matcher_accounts_for_all [OF this r] r show ?thesis by blast
qed

section \<open>Balances and accounts\<close>

text \<open>The balance of now is the posted debits and credits of the account in that currency,
  printed, with the normalised balance of its side.\<close>

theorem GetBalance_of_now:
  assumes "sqliteInv C (w_st w)" and "gbr_AsOf r = None"
    and "Snapshots.GetBalance E (sqliteStore C) r w = (Inr b, w')"
  shows "\<exists>acc. v_account (sqliteView C (w_st w)) (gbr_TenantId r, gbr_AccountId r) = Some acc \<and>
    acc_Currency acc = gbr_Currency r \<and>
    (let (d, c) = balanceOf (sqliteView C (w_st w))
        (gbr_TenantId r, gbr_AccountId r, gbr_Currency r) in
     bm_PostedDebits b = dl_String (env_D E) d \<and> bm_PostedCredits b = dl_String (env_D E) c \<and>
     bm_Normalized b = dl_String (env_D E) (NormalizedBalance (acc_NormalBalance acc) d c))"
  by (rule sq.GetBalance_now_Inr [OF assms])

theorem GetBalance_of_now_witness:
  "\<exists>b w' acc. Snapshots.GetBalance demoEnv (sqliteStore demoC) balanceReq paidWorld = (Inr b, w') \<and>
     v_account (sqliteView demoC (w_st paidWorld)) (''t'', ''u:a:c:U'') = Some acc"
proof -
  obtain b w' where r: "Snapshots.GetBalance demoEnv (sqliteStore demoC) balanceReq paidWorld = (Inr b, w')"
    using succeeds_run [OF balance_run [unfolded demoS_def]] by blast
  from GetBalance_of_now [OF good_inv(3) _ r] r show ?thesis by (auto simp: balanceReq_def)
qed




text \<open>C15: \<open>CreateAccount\<close> succeeds only for an account that its tenant does not have; the new
  account is active, carries what the request says under the identifier made of its owner, type
  and currency, and nothing else changes.\<close>

theorem CreateAccount_adds_one:
  assumes "sqliteInv C (w_st w)" and "CreateAccount E (sqliteStore C) r w = (Inr msg, w')"
  shows "v_account (sqliteView C (w_st w)) (car_TenantId r, accountID r) = None \<and>
    (\<exists>now ct. msg = accountToProto (newAccount r (normalBalanceFromProto (car_NormalBalance r)) now) \<and>
      sqliteView C (w_st w') = (sqliteView C (w_st w))\<lparr>v_account := (v_account (sqliteView C (w_st w)))
        ((car_TenantId r, accountID r) \<mapsto>
           newAccount r (normalBalanceFromProto (car_NormalBalance r)) ct)\<rparr>)"
  using sq.CreateAccount_Inr [OF assms] by blast

theorem CreateAccount_adds_one_witness:
  "\<exists>msg w'. CreateAccount demoEnv (sqliteStore demoC) (accountRequest ''f'' ''c'' ''U'' True) freshWorld =
       (Inr msg, w') \<and>
     v_account (sqliteView demoC (w_st freshWorld)) (''t'', accountID (accountRequest ''f'' ''c'' ''U'' True)) = None"
proof -
  let ?r = "accountRequest ''f'' ''c'' ''U'' True"
  obtain msg w' where r: "CreateAccount demoEnv (sqliteStore demoC) ?r freshWorld = (Inr msg, w')"
    using succeeds_run [OF account_run [unfolded demoS_def]] by blast
  have "sqliteInv demoC (w_st freshWorld)" using good_fresh by (simp add: good_def)
  from CreateAccount_adds_one [OF this r] r show ?thesis by (auto simp: accountRequest_def)
qed

text \<open>C16: \<open>Journal.Validate\<close> accepts exactly the journals with an event id, at least one entry,
  each with an account, a currency, a valid direction and a positive amount, whose debits equal
  their credits in every currency.\<close>

theorem Validate_is_double_entry:
  "Journal_Validate j = Inr () \<longleftrightarrow>
     jrn_EventID j \<noteq> '''' \<and> jrn_Entries j \<noteq> [] \<and> list_all wf_entry (jrn_Entries j) \<and>
     (\<forall>ccy. netIn ccy (jrn_Entries j) = 0)"
  by (rule Journal_Validate_iff)


section \<open>Ingestion\<close>






end
