(* ===== verification/Store_Properties.thy ===== *)
theory Store_Properties
  imports Fixtures
begin

text \<open>
  Properties of the parts beside the service: the retry loop, the SQLite tables and the
  connection, the outbox dispatcher and the scheduler.
\<close>

section \<open>Retries (retry.go)\<close>



section \<open>Tables\<close>

text \<open>The rate \<open>GetFXRateAt\<close> returns is a stored rate of the pair effective at that time,
  and no rate of the pair effective by then is newer.\<close>

theorem GetFXRateAt_is_latest:
  assumes "GetFXRateAt C tn b q t d = (Inr (Some x), d')"
  shows "\<exists>r\<in>set (db_fx_rates d). x = rowToFXRate C r \<and> rx_tenant_id r = tn \<and>
    rx_base_currency r = b \<and> rx_quote_currency r = q \<and> rx_effective_at r \<le> formatTime t \<and>
    (\<forall>y\<in>set (db_fx_rates d). rx_tenant_id y = tn \<and> rx_base_currency y = b \<and>
       rx_quote_currency y = q \<and> rx_effective_at y \<le> formatTime t \<longrightarrow>
       rx_effective_at y \<le> rx_effective_at r)"
proof -
  from assms obtain r where "rateAt tn b q (formatTime t) (d\<lparr>db_tick := Suc (db_tick d)\<rparr>) = Some r"
    "x = rowToFXRate C r"
    by (auto simp: GetFXRateAt_def exec_simps eq_commute [of "Some x"])
  with rateAt_latest [OF this(1)] show ?thesis by auto
qed

definition rateRow :: "string \<Rightarrow> ms \<Rightarrow> string \<Rightarrow> FxRateRow" where
  "rateRow i m rate = \<lparr>rx_id = i, rx_tenant_id = ''t'', rx_base_currency = ''U'',
     rx_quote_currency = ''E'', rx_rate = rate, rx_source = ''d'', rx_effective_at = m,
     rx_created_at = 0\<rparr>"

definition ratesDB :: sqldb where
  "ratesDB = emptyDB\<lparr>db_fx_rates := [rateRow ''1'' 5 ''2'', rateRow ''2'' 9 ''3'', rateRow ''3'' 20 ''4'']\<rparr>"

theorem GetFXRateAt_is_latest_witness:
  "\<exists>d'. GetFXRateAt demoC ''t'' ''U'' ''E'' (10 * millisecond) ratesDB =
       (Inr (Some (rowToFXRate demoC (rateRow ''2'' 9 ''3''))), d') \<and>
     (\<forall>y\<in>set (db_fx_rates ratesDB). rx_effective_at y \<le> 10 \<longrightarrow> rx_effective_at y \<le> 9)"
proof -
  let ?row = "rateRow ''2'' 9 ''3''"
  have run: "GetFXRateAt demoC ''t'' ''U'' ''E'' (10 * millisecond) ratesDB =
      (Inr (Some (rowToFXRate demoC ?row)), ratesDB\<lparr>db_tick := 1\<rparr>)"
    by (simp add: GetFXRateAt_def selectQ_def stmt_def demoC_def ratesDB_def emptyDB_def rateAt_def
      rateRow_def formatTime_def limit1_def orderDesc_def Let_def)
  from GetFXRateAt_is_latest [OF run] obtain r where "r \<in> set (db_fx_rates ratesDB)"
    "rx_effective_at r \<le> 10"
    "\<forall>y\<in>set (db_fx_rates ratesDB). rx_tenant_id y = ''t'' \<and> rx_base_currency y = ''U'' \<and>
       rx_quote_currency y = ''E'' \<and> rx_effective_at y \<le> 10 \<longrightarrow> rx_effective_at y \<le> rx_effective_at r"
    by (auto simp: formatTime_def)
  then have "\<forall>y\<in>set (db_fx_rates ratesDB). rx_effective_at y \<le> 10 \<longrightarrow> rx_effective_at y \<le> 9"
    by (auto simp: ratesDB_def emptyDB_def rateRow_def)
  with run show ?thesis by blast
qed

text \<open>Pruning never deletes the latest snapshot of a balance, nor one younger than the
  cutoff.\<close>

theorem Prune_keeps_latest:
  assumes "PruneSnapshotsOlderThan C cutoff n d = (Inr k, d')" and "r \<in> set (db_snapshots d)"
    and "distinct (map rn_id (db_snapshots d))"
    and "formatTime cutoff \<le> rn_snapshot_at r \<or>
      (\<forall>x\<in>set (db_snapshots d). rn_tenant_id x = rn_tenant_id r \<longrightarrow>
        rn_account_id x = rn_account_id r \<longrightarrow> rn_currency x = rn_currency r \<longrightarrow>
        rn_snapshot_at x \<le> rn_snapshot_at r)"
  shows "r \<in> set (db_snapshots d')"
  by (rule Prune_kept [OF assms])

definition snapshotRow :: "string \<Rightarrow> ms \<Rightarrow> SnapshotRow" where
  "snapshotRow i m = \<lparr>rn_id = i, rn_tenant_id = ''t'', rn_account_id = ''a'', rn_currency = ''U'',
     rn_posted_debits = ''0'', rn_posted_credits = ''0'', rn_version = 0, rn_snapshot_at = m,
     rn_created_at = m\<rparr>"

definition snapshotsDB :: sqldb where
  "snapshotsDB = emptyDB\<lparr>db_snapshots := [snapshotRow ''1'' 3, snapshotRow ''2'' 5]\<rparr>"

theorem Prune_keeps_latest_witness:
  "\<exists>d'. PruneSnapshotsOlderThan demoC (100 * millisecond) 0 snapshotsDB = (Inr 1, d') \<and>
     snapshotRow ''2'' 5 \<in> set (db_snapshots d')"
proof -
  obtain d' where run: "PruneSnapshotsOlderThan demoC (100 * millisecond) 0 snapshotsDB = (Inr 1, d')"
    by (simp add: PruneSnapshotsOlderThan_def stmt_def demoC_def snapshotsDB_def snapshotRow_def
      emptyDB_def prunable_def exists_row_def formatTime_def limitOr100_def Let_def)
  have "snapshotRow ''2'' 5 \<in> set (db_snapshots d')"
    by (rule Prune_keeps_latest [OF run]) (simp_all add: snapshotsDB_def snapshotRow_def emptyDB_def)
  with run show ?thesis by blast
qed

text \<open>The second ingestion of an external record, with the same tenant, source and
  reference, adds nothing, whatever else it says.\<close>

theorem InsertExternalRecord_once:
  assumes "InsertExternalRecord C x d = (Inr b, d1)" and "InsertExternalRecord C y d1 = (Inr b', d2)"
    and "er_TenantID y = er_TenantID x" and "er_Source y = er_Source x"
    and "er_ExternalRef y = er_ExternalRef x"
  shows "\<not> b' \<and> db_external d2 = db_external d1"
  using assms by (auto simp: InsertExternalRecord_def exec_simps exists_row_def split: if_splits)

definition externalRec :: "string \<Rightarrow> decimal \<Rightarrow> ExternalRecord" where
  "externalRec i amt = \<lparr>er_ID = i, er_TenantID = ''t'', er_Source = ''bank'', er_ExternalRef = ''x'',
     er_Amount = amt, er_Currency = ''U'', er_OccurredAt = 0, er_AccountID = '''', er_RawPayload = [],
     er_MatchStatus = '''', er_MatchedJournalID = '''', er_CreatedAt = 0\<rparr>"

theorem InsertExternalRecord_once_witness:
  "\<exists>d1 d2. InsertExternalRecord demoC (externalRec ''1'' 5) emptyDB = (Inr True, d1) \<and>
     InsertExternalRecord demoC (externalRec ''2'' 7) d1 = (Inr False, d2) \<and>
     db_external d2 = db_external d1"
proof -
  let ?c = "\<lambda>x d. InsertExternalRecord demoC x d"
  obtain d1 where 1: "?c (externalRec ''1'' 5) emptyDB = (Inr True, d1)"
    "map rex_id (db_external d1) = [''1'']"
    by (simp add: InsertExternalRecord_def stmt_def demoC_def externalRec_def emptyDB_def
      exists_row_def Let_def)
  then obtain b' d2 where 2: "?c (externalRec ''2'' 7) d1 = (Inr b', d2)"
    by (cases "?c (externalRec ''2'' 7) d1")
      (auto simp: InsertExternalRecord_def stmt_def demoC_def externalRec_def exists_row_def Let_def
        map_eq_Cons_conv split: if_splits)
  from InsertExternalRecord_once [OF 1(1) 2] have "\<not> b' \<and> db_external d2 = db_external d1"
    by (simp add: externalRec_def)
  with 1(1) 2 show ?thesis by auto
qed




text \<open>C32: a reservation that was inserted is read back as it was, with its expiry in whole
  milliseconds, if nothing was committed or released yet.\<close>

theorem reservation_roundtrip:
  assumes "sqlInv C d" and "InsertReservation C x d = (Inr u, d1)"
    and "LockReservation C (res_TenantID x) (res_ID x) d1 = (Inr y, d2)"
    and "res_CommittedAmount x = 0" and "res_ReleasedAmount x = 0"
  shows "\<exists>now. y = x\<lparr>res_ExpiresAt := map_option (\<lambda>t. parseTime (formatTime t)) (res_ExpiresAt x),
    res_CreatedAt := now, res_UpdatedAt := now\<rparr>"
proof -
  have codec: "codec_ok (sc_D C)" using assms(1) by (simp add: sqlInv_def)
  have "find (\<lambda>r. rr_tenant_id r = res_TenantID x \<and> rr_id r = res_ID x) (db_reservations d) = None"
    using assms(2) by (auto simp: InsertReservation_def exec_simps exists_row_def find_None_iff list_ex_iff)
  with assms(2-5) codec show ?thesis
    by (cases x) (auto simp: InsertReservation_def LockReservation_def exec_simps findReservation_def find_append
      rowToReservation_def option.map_comp comp_def split: option.splits)
qed

definition someReservation :: Reservation where
  "someReservation = \<lparr>res_ID = ''1'', res_TenantID = ''t'', res_IdempotencyKey = ''r'',
     res_SourceAccountID = ''a'', res_ReservedAccountID = ''b'', res_Currency = ''U'',
     res_OriginalAmount = 5, res_OutstandingAmount = 5, res_CommittedAmount = 0,
     res_ReleasedAmount = 0, res_Status = ReservationHeld, res_ExpiresAt = Some 1500000,
     res_FlowRunID = ''f'', res_Metadata = [], res_CreatedAt = 0, res_UpdatedAt = 0\<rparr>"

theorem reservation_roundtrip_witness:
  "\<exists>d1 y d2. InsertReservation demoC someReservation emptyDB = (Inr (), d1) \<and>
     LockReservation demoC ''t'' ''1'' d1 = (Inr y, d2) \<and> res_ExpiresAt y = Some 1000000 \<and>
     res_OriginalAmount y = 5"
proof -
  obtain d1 where 1: "InsertReservation demoC someReservation emptyDB = (Inr (), d1)"
    by (simp add: InsertReservation_def insertQ_def stmt_def demoC_def someReservation_def emptyDB_def
      exists_row_def ReservationStatus_Valid_def Let_def)
  then obtain y d2 where 2: "LockReservation demoC (res_TenantID someReservation) (res_ID someReservation) d1 =
      (Inr y, d2)"
    by (cases "LockReservation demoC (res_TenantID someReservation) (res_ID someReservation) d1")
      (auto simp: LockReservation_def InsertReservation_def exec_simps findReservation_def demoC_def
        someReservation_def emptyDB_def selectQ_def stmt_def bindE_def ret_def Let_def insertQ_def
        exists_row_def ReservationStatus_Valid_def)
  have "sqlInv demoC emptyDB" using good_fresh by (simp add: good_def sqliteInv_def freshWorld_def freshStore_def)
  from reservation_roundtrip [OF this 1 2] 1 2 show ?thesis
    by (auto simp: someReservation_def formatTime_def parseTime_def)
qed

section \<open>The connection\<close>



section \<open>The outbox\<close>

text \<open>C20: one tick of the dispatcher, with any sink, loses no event: every event that was pending
  is still pending or was accepted by the sink, and the sink accepted only events of the batch,
  in their order.\<close>

theorem dispatcher_loses_nothing:
  assumes "sqliteInv C s" and "sink_contract P delivered"
    and "Outbox.tick (RepoAdapter (sqliteStore C)) P cfg (s, k) = (s', k')"
  shows "subseq (sqliteQueue s') (sqliteQueue s) \<and> (\<exists>new. delivered k' = delivered k @ new \<and>
    subseq new (map ev_ID (take (batchOf (cfg_BatchSize cfg)) (sqliteQueue s))) \<and>
    (\<forall>e\<in>set (sqliteQueue s). e \<in> set (sqliteQueue s') \<or> ev_ID e \<in> set new))"
proof -
  have "dispatcher (RepoAdapter (sqliteStore C)) sqliteQueue (sqliteInv C) P delivered"
    by (intro dispatcher.intro sqlite_queue assms(2))
  from dispatcher.tick_no_loss [OF this assms(1,3)] show ?thesis by simp
qed

theorem dispatcher_loses_nothing_witness:
  "\<exists>s' k'. Outbox.tick (RepoAdapter (sqliteStore demoC)) LogSink (NewDispatcher \<lparr>cfg_Interval = 0, cfg_BatchSize = 0\<rparr>)
       (w_st paidWorld, []) = (s', k') \<and>
     (\<forall>e\<in>set (sqliteQueue (w_st paidWorld)). e \<in> set (sqliteQueue s') \<or> ev_ID e \<in> set (map fst k'))"
proof -
  let ?cfg = "NewDispatcher \<lparr>cfg_Interval = 0, cfg_BatchSize = 0\<rparr>"
  obtain s' k' where run: "Outbox.tick (RepoAdapter (sqliteStore demoC)) LogSink ?cfg
      (w_st paidWorld, []) = (s', k')"
    by (cases "Outbox.tick (RepoAdapter (sqliteStore demoC)) LogSink ?cfg (w_st paidWorld, [])")
  from dispatcher_loses_nothing [OF good_inv(3) log_sink run] run show ?thesis by auto
qed

text \<open>C21: with a database and a sink that do not fail, the dispatcher empties the outbox: after as
  many ticks as there are pending events, or fewer full batches, nothing is pending and the sink
  got every event once, in the order of the queue.\<close>

theorem dispatcher_drains:
  assumes "sqliteReliable C s" and "length (sqliteQueue s) \<le> n * batchOf (cfg_BatchSize cfg)"
    and "Outbox.Run (RepoAdapter (sqliteStore C)) LogSink cfg n (s, k) = (s', k')"
  shows "sqliteQueue s' = [] \<and> map fst k' = map fst k @ map ev_ID (sqliteQueue s)"
  using drain.Run_drains [OF assms(1,3)] assms(2) by simp

theorem dispatcher_drains_witness:
  "\<exists>s' k'. Outbox.Run (RepoAdapter (sqliteStore demoC)) LogSink \<lparr>cfg_Interval = 1, cfg_BatchSize = 2\<rparr> 2
       (w_st heldWorld, []) = (s', k') \<and> sqliteQueue s' = [] \<and>
     map fst k' = [''5'', ''11'', ''13'']"
proof -
  let ?cfg = "\<lparr>cfg_Interval = 1, cfg_BatchSize = 2\<rparr>"
  obtain s' k' where run: "Outbox.Run (RepoAdapter (sqliteStore demoC)) LogSink ?cfg 2
      (w_st heldWorld, []) = (s', k')"
    by (cases "Outbox.Run (RepoAdapter (sqliteStore demoC)) LogSink ?cfg 2 (w_st heldWorld, [])")
  have q: "map ev_ID (sqliteQueue (w_st heldWorld)) = [''5'', ''11'', ''13'']"
    by (simp add: heldWorld_eval sqliteQueue_def pendingRows_def)
  then have "length (sqliteQueue (w_st heldWorld)) = 3" by (metis length_map list.size(3,4) eval_nat_numeral(3) One_nat_def numeral_2_eq_2 Suc_eq_plus1)
  then have "length (sqliteQueue (w_st heldWorld)) \<le> 2 * batchOf (cfg_BatchSize ?cfg)"
    by (simp add: batchOf_def)
  moreover have "sqliteReliable demoC (w_st heldWorld)"
    using good_inv(4) by (simp add: sqliteReliable_def demoC_def)
  ultimately show ?thesis using dispatcher_drains [OF _ _ run] run q by simp
qed

section \<open>The scheduler\<close>

lemma ListExpired_rows:
  "sqliteInv C s \<Longrightarrow> st_ListExpiredReservations (sqliteStore C) now n s = (Inr rows, s') \<Longrightarrow>
     x \<in> set rows \<Longrightarrow> \<exists>r\<in>set (db_reservations (sq_db s)). expired (formatTime now) r \<and>
       rr_tenant_id r = xr_TenantID x \<and> rr_id r = xr_ID x"
  by (auto simp: onDb_def sqliteInv_def ListExpiredReservations_def exec_simps split: prod.splits
    dest!: in_set_takeD)

text \<open>C22: a tick of the expiry job leaves every reservation that is not due exactly as it is.\<close>

theorem expiry_only_due:
  assumes "sqliteInv C (w_st w)" and "expiryTick E (sqliteStore C) cfg now w = (res, w')"
    and "\<forall>r\<in>set (db_reservations (sq_db (w_st w))). rr_tenant_id r = tn \<and> rr_id r = rid \<longrightarrow>
      \<not> expired (formatTime now) r"
  shows "v_reservation (sqliteView C (w_st w')) (tn, rid) = v_reservation (sqliteView C (w_st w)) (tn, rid)"
proof (rule sq.expiryTick_other [OF assms(1,2)])
  fix rows s1
  assume "st_ListExpiredReservations (sqliteStore C) now (cfg_BatchN cfg) (w_st w) = (Inr rows, s1)"
  from ListExpired_rows [OF assms(1) this] assms(3)
  show "(tn, rid) \<notin> (\<lambda>x. (xr_TenantID x, xr_ID x)) ` set rows" by fastforce
qed

theorem expiry_only_due_witness:
  "\<exists>res w'. expiryTick demoEnv (sqliteStore demoC) defaultConfig (- second) heldWorld = (res, w') \<and>
     v_reservation (sqliteView demoC (w_st w')) (''t'', ''12'') =
       v_reservation (sqliteView demoC (w_st heldWorld)) (''t'', ''12'')"
proof -
  obtain res w' where run: "expiryTick demoEnv (sqliteStore demoC) defaultConfig (- second) heldWorld = (res, w')"
    by (cases "expiryTick demoEnv (sqliteStore demoC) defaultConfig (- second) heldWorld")
  from expiry_only_due [OF good_inv(4) run, of "''t''" "''12''"] run show ?thesis
    by (auto simp: heldWorld_eval expired_def formatTime_def)
qed

end
