(* ===== verification/Client_Properties.thy ===== *)
theory Client_Properties
  imports Fixtures
begin

text \<open>
  Properties of the client library \<open>pkg/dledger\<close>: the error codes that reach its user, and the
  wallet over the embedded client. The wallet runs on a database with a funding account.
\<close>

section \<open>Errors\<close>

text \<open>C19: an error keeps its domain code from the store through the server and any wrapping of
  the SDK: \<open>IsErrCode\<close> finds exactly the code the error was made with, and none in an error
  without one.\<close>

fun wrapAll :: "string list \<Rightarrow> sdk_error \<Rightarrow> sdk_error" where
  "wrapAll [] e = e"
| "wrapAll (p # ps) e = Wrap p (wrapAll ps e)"

theorem error_code_survives:
  "IsErrCode (Some (wrapAll msgs (Rpc (ToConnectError err)))) (codeString c) \<longleftrightarrow> IsDomainCode err c"
  by (induction msgs) (simp_all add: IsErrCode_domain)

section \<open>The wallet\<close>

definition demoWallet :: Wallet where
  "demoWallet = NewWallet ''t'' [WithOwnerType ''u'']"

definition demoClient :: "sqlite world client" where
  "demoClient = embeddedClient demoEnv demoS"

definition walletWorld :: "sqlite world" where
  "walletWorld = snd (EnsurePlayerAccounts demoClient demoWallet ''a'' ''U'' demoWorld)"

definition demoDeposit :: TransferInput where
  "demoDeposit = \<lparr>ti_PlayerID = ''a'', ti_Currency = ''U'', ti_Amount = ''7'',
     ti_OtherAccountID = ''u:f:c:U'', ti_ExternalRef = ''x'', ti_IdempotencyKey = ''d1'',
     ti_SourceService = ''s''\<rparr>"

lemma ensure_run: "succeeds (EnsurePlayerAccounts demoClient demoWallet ''a'' ''U'') demoWorld"
  by code_simp

text \<open>The database of the world with the wallet, row by row.\<close>

lemma walletWorld_eval [code]: "walletWorld =
    \<lparr>w_st = \<lparr>sq_db = \<lparr>db_accounts =
      [\<lparr>ra_id = ''u:f:c:U'', ra_tenant_id = ''t'', ra_owner_type = ''u'', ra_owner_id =
      ''f'', ra_account_type = ''c'', ra_currency = ''U'', ra_normal_balance = NormalDebit,
      ra_allow_negative = 1, ra_status = AccountActive, ra_created_at = 1\<rparr>,
      \<lparr>ra_id = ''u:a:c:U'', ra_tenant_id = ''t'', ra_owner_type = ''u'', ra_owner_id =
      ''a'', ra_account_type = ''c'', ra_currency = ''U'', ra_normal_balance = NormalDebit,
      ra_allow_negative = 0, ra_status = AccountActive, ra_created_at = 4\<rparr>,
      \<lparr>ra_id = ''u:a:h:U'', ra_tenant_id = ''t'', ra_owner_type = ''u'', ra_owner_id =
      ''a'', ra_account_type = ''h'', ra_currency = ''U'', ra_normal_balance = NormalDebit,
      ra_allow_negative = 0, ra_status = AccountActive, ra_created_at = 7\<rparr>,
      \<lparr>ra_id = ''u:a:cash_available:U'', ra_tenant_id = ''t'', ra_owner_type = ''u'', ra_owner_id =
      ''a'', ra_account_type = ''cash_available'', ra_currency = ''U'', ra_normal_balance = NormalDebit,
      ra_allow_negative = 0, ra_status = AccountActive, ra_created_at = 10\<rparr>,
      \<lparr>ra_id = ''u:a:cash_reserved:U'', ra_tenant_id = ''t'', ra_owner_type = ''u'', ra_owner_id =
      ''a'', ra_account_type = ''cash_reserved'', ra_currency = ''U'', ra_normal_balance = NormalDebit,
      ra_allow_negative = 0, ra_status = AccountActive, ra_created_at = 13\<rparr>],
      db_balances = [], db_journals = [], db_entries = [], db_flow_runs = [], db_flow_steps = [],
      db_outbox = [], db_snapshots = [], db_reservations = [], db_fx_rates = [],
      db_external = [], db_batches = [], db_discrepancies = [], db_tick = 15\<rparr>,
      sq_pending = None, sq_done = True\<rparr>, w_ids = 0, w_ticks = 5\<rparr>"
  unfolding walletWorld_def by code_simp

lemma deposit_run: "succeeds (Deposit demoClient demoWallet demoDeposit) walletWorld"
  by code_simp

lemma wallet_run: "succeeds (GetWallet demoD demoClient demoWallet ''a'' ''U'') walletWorld"
  by code_simp

lemma walletInv_demo: "good w \<Longrightarrow> walletInv demoEnv demoC w"
  by (simp add: walletInv_def good_def demoEnv_def plainFaults_def) (simp add: demoC_def)

lemmas demo_ensure = succeeds_run [OF ensure_run [unfolded demoClient_def demoS_def]]
lemmas demo_deposit = succeeds_run [OF deposit_run [unfolded demoClient_def demoS_def]]
lemmas demo_wallet = succeeds_run [OF wallet_run [unfolded demoClient_def demoS_def]]

lemma walletWorld_inv: "walletInv demoEnv demoC walletWorld"
proof -
  obtain pa where "EnsurePlayerAccounts (embeddedClient demoEnv (sqliteStore demoC)) demoWallet ''a'' ''U''
      demoWorld = (Inr pa, walletWorld)"
    using demo_ensure by (auto simp: walletWorld_def demoClient_def demoS_def)
  from wal.EnsurePlayerAccounts_ok [OF walletInv_demo [OF good_worlds(1)] this] show ?thesis by simp
qed

text \<open>When \<open>EnsurePlayerAccounts\<close> succeeds, the two accounts it names exist, and no account
  that existed before was changed, whether they were created now, existed before, or were
  created by somebody else in between.\<close>

theorem EnsurePlayerAccounts_ensures:
  assumes "walletInv E C w"
    and "EnsurePlayerAccounts (embeddedClient E (sqliteStore C)) wl playerID ccy w = (Inr pa, w')"
  shows "v_account (sqliteView C (w_st w)) \<subseteq>\<^sub>m v_account (sqliteView C (w_st w')) \<and>
    v_account (sqliteView C (w_st w')) (wl_tenant wl, pa_Available pa) \<noteq> None \<and>
    v_account (sqliteView C (w_st w')) (wl_tenant wl, pa_Reserved pa) \<noteq> None"
  using wal.EnsurePlayerAccounts_ok [OF assms] by blast

theorem EnsurePlayerAccounts_ensures_witness:
  "\<exists>pa w'. EnsurePlayerAccounts (embeddedClient demoEnv (sqliteStore demoC)) demoWallet ''a'' ''U'' demoWorld =
       (Inr pa, w') \<and>
     v_account (sqliteView demoC (w_st w')) (wl_tenant demoWallet, pa_Available pa) \<noteq> None"
  using demo_ensure EnsurePlayerAccounts_ensures [OF walletInv_demo [OF good_worlds(1)]] by blast

text \<open>C24: a deposit that succeeds debits the available account of the player and credits the
  funding account with the amount and changes no other balance; repeated, it changes nothing.\<close>

theorem Deposit_transfers:
  assumes "walletInv E C w"
    and "Deposit (embeddedClient E (sqliteStore C)) wl i w = (Inr rcp, w')"
  shows "transferred (env_D E) (wl_tenant wl) i
    (walletAccountID wl (ti_PlayerID i) ''cash_available'' (ti_Currency i)) (ti_OtherAccountID i)
    (sqliteView C (w_st w)) (sqliteView C (w_st w'))"
  using wal.postJournal_ok [OF assms(1)] assms(2) unfolding Deposit_def by blast

theorem Deposit_transfers_witness:
  "\<exists>rcp w'. Deposit (embeddedClient demoEnv (sqliteStore demoC)) demoWallet demoDeposit walletWorld = (Inr rcp, w') \<and>
     transferred demoD ''t'' demoDeposit ''u:a:cash_available:U'' ''u:f:c:U''
       (sqliteView demoC (w_st walletWorld)) (sqliteView demoC (w_st w'))"
proof -
  obtain rcp w' where run: "Deposit (embeddedClient demoEnv (sqliteStore demoC)) demoWallet demoDeposit
      walletWorld = (Inr rcp, w')"
    using demo_deposit by blast
  from Deposit_transfers [OF walletWorld_inv run] run show ?thesis
    by (simp add: demoEnv_def demoWallet_def NewWallet_def WithOwnerType_def walletAccountID_def demoDeposit_def)
qed

text \<open>\<open>GetWallet\<close> reports the normalised balances of the player's two accounts and changes
  nothing.\<close>

theorem GetWallet_reports:
  assumes "walletInv E C w"
    and "GetWallet (env_D E) (embeddedClient E (sqliteStore C)) wl playerID ccy w = (Inr ws, w')"
  shows "sqliteView C (w_st w') = sqliteView C (w_st w) \<and>
    (\<forall>(ty, amount)\<in>{(''cash_available'', ws_Available ws), (''cash_reserved'', ws_Reserved ws)}.
       \<exists>acc. v_account (sqliteView C (w_st w)) (wl_tenant wl, walletAccountID wl playerID ty ccy) = Some acc \<and>
       amount = (let (d, c) = balanceOf (sqliteView C (w_st w))
           (wl_tenant wl, walletAccountID wl playerID ty ccy, ccy) in
         NormalizedBalance (acc_NormalBalance acc) d c))"
  using wal.GetWallet_ok [OF assms] by simp

theorem GetWallet_reports_witness:
  "\<exists>ws w'. GetWallet demoD (embeddedClient demoEnv (sqliteStore demoC)) demoWallet ''a'' ''U'' walletWorld =
       (Inr ws, w') \<and>
     v_account (sqliteView demoC (w_st walletWorld)) (''t'', ''u:a:cash_available:U'') \<noteq> None"
proof -
  obtain ws w' where run: "GetWallet (env_D demoEnv) (embeddedClient demoEnv (sqliteStore demoC)) demoWallet
      ''a'' ''U'' walletWorld = (Inr ws, w')"
    using demo_wallet by (auto simp: demoEnv_def)
  from GetWallet_reports [OF walletWorld_inv run] run show ?thesis
    by (auto simp: demoEnv_def demoWallet_def NewWallet_def WithOwnerType_def walletAccountID_def)
qed

end
