(* ===== verification/Connect.thy ===== *)
theory Connect
  imports Client
begin

text \<open>
  The wire: what \<open>protoc-gen-connect-go\<close> generated for the service
  (\<open>gen/proto/ledger/v1/ledgerv1connect/ledger.connect.go\<close>), the interceptors of the server
  (\<open>internal/service/interceptors\<close>) and the routes of \<open>cmd/server/main.go\<close>.

  \<^item> The Connect library and the Protobuf runtime are not part of the repository. They are the
    parameters \<open>connect_lib\<close> (what a call puts into an HTTP request and a handler into a
    response, and how both are read) and \<open>codecs\<close> (the encoding of each message), over a type
    of bodies \<open>'b\<close>. \<open>connect_ok\<close> and \<open>codecs_ok\<close> state their documented round trips: a body
    arrives as it was sent, an error with its code and its metadata, a decoded message is the
    one that was encoded. An encoder may refuse a message (text that is not UTF-8).
  \<^item> A round trip is a step of the state of the network, an HTTP handler a step of the state of
    the server: what the service works on, and the log.
\<close>

section \<open>HTTP\<close>

text \<open>\<open>http.Header\<close>, for keys in canonical form.\<close>

type_synonym header = "string \<rightharpoonup> string list"

definition hdrSet :: "string \<Rightarrow> string \<Rightarrow> header \<Rightarrow> header" where
  "hdrSet k v h = h(k \<mapsto> [v])"

definition hdrGet :: "header \<Rightarrow> string \<Rightarrow> string" where
  "hdrGet h k = (case h k of Some (v # vs) \<Rightarrow> v | _ \<Rightarrow> '''')"

lemma hdrGet_hdrSet [simp]: "hdrGet (hdrSet k v h) k' = (if k' = k then v else hdrGet h k')"
  by (simp add: hdrGet_def hdrSet_def)

record 'b http_request =
  hq_URL :: string
  hq_Header :: header
  hq_Body :: 'b

datatype 'b content = Text string | Message 'b

record 'b http_response =
  hp_Status :: int
  hp_Header :: header
  hp_Body :: "'b content"

type_synonym ('n, 'b) round_trip = "'b http_request \<Rightarrow> ('n, error, 'b http_response) exec"
type_synonym ('h, 'b) http_handler = "'b http_request \<Rightarrow> 'h \<Rightarrow> 'b http_response \<times> 'h"

text \<open>\<open>http.NotFound\<close> and \<open>w.WriteHeader(200)\<close>.\<close>

definition NotFound :: "'b http_response" where
  "NotFound = \<lparr>hp_Status = 404, hp_Header = Map.empty,
     hp_Body = Text (''404 page not found'' @ [CHR 0x0A])\<rparr>"

definition EmptyOK :: "'b http_response" where
  "EmptyOK = \<lparr>hp_Status = 200, hp_Header = Map.empty, hp_Body = Text ''''\<rparr>"

text \<open>\<open>strings.TrimRight(s, "/")\<close>, and the path of a parsed URL without percent escapes.\<close>

definition trimSlashes :: "string \<Rightarrow> string" where
  "trimSlashes s = rev (dropWhile (\<lambda>c. c = CHR ''/'') (rev s))"

fun afterScheme :: "string \<Rightarrow> string" where
  "afterScheme [] = []"
| "afterScheme (c # cs) = (if take 3 (c # cs) = ''://'' then drop 2 cs else afterScheme cs)"

definition urlPath :: "string \<Rightarrow> string" where
  "urlPath u = takeWhile (\<lambda>c. c \<notin> {CHR ''?'', CHR ''#''})
     (dropWhile (\<lambda>c. c \<notin> {CHR ''/'', CHR ''?'', CHR ''#''}) (afterScheme u))"

section \<open>The Connect library\<close>

record 'b connect_lib =
  cn_NewRequest :: "string \<Rightarrow> 'b \<Rightarrow> 'b http_request"
  cn_ReadRequest :: "'b http_request \<Rightarrow> 'b http_response + 'b"
  cn_WriteReply :: "connect_error + 'b \<Rightarrow> 'b http_response"
  cn_ReadReply :: "'b http_response \<Rightarrow> connect_error + 'b"
  cn_NetError :: "error \<Rightarrow> connect_error"
  cn_MarshalError :: connect_error
  cn_UnmarshalError :: connect_error

record ('b, 'q) codec =
  cd_Marshal :: "'q \<Rightarrow> 'b option"
  cd_Unmarshal :: "'b \<Rightarrow> 'q option"

record ('b, 'q, 'r) schema =
  sc_Req :: "('b, 'q) codec"
  sc_Res :: "('b, 'r) codec"

record 'b codecs =
  pb_CreateAccount :: "('b, CreateAccountRequest, AccountMsg) schema"
  pb_GetAccount :: "('b, (string \<times> string), AccountMsg) schema"
  pb_GetBalance :: "('b, GetBalanceRequest, BalanceMsg) schema"
  pb_PostJournal :: "('b, PostJournalRequest, PostJournalResponse) schema"
  pb_ExecuteFlow :: "('b, ExecuteFlowRequest, ExecuteFlowResponse) schema"
  pb_GetFlow :: "('b, (string \<times> string), ExecuteFlowResponse) schema"
  pb_ListAccountActivity :: "('b, ListAccountActivityRequest, (AccountActivityEntry list)) schema"
  pb_TakeBalanceSnapshot :: "('b, TakeBalanceSnapshotRequest, i32) schema"
  pb_CreateReservation :: "('b, CreateReservationRequest, ReservationMsg) schema"
  pb_CommitReservation :: "('b, CommitReservationRequest, ReservationMsg) schema"
  pb_ReleaseReservation :: "('b, ReleaseReservationRequest, ReservationMsg) schema"
  pb_GetReservation :: "('b, (string \<times> string), ReservationMsg) schema"
  pb_ListReservations :: "('b, ListReservationsRequest, (ReservationMsg list)) schema"
  pb_ExecuteExchange :: "('b, ExecuteExchangeRequest, ExecuteExchangeResponse) schema"
  pb_PutFXRate :: "('b, PutFXRateRequest, FXRateMsg) schema"
  pb_GetFXRate :: "('b, GetFXRateRequest, FXRateMsg) schema"
  pb_ListFXRates :: "('b, ListFXRatesRequest, (FXRateMsg list)) schema"
  pb_IngestExternalRecords :: "('b, IngestExternalRecordsRequest, (i32 \<times> i32)) schema"
  pb_RunReconciliation :: "('b, RunReconciliationRequest, ReconciliationBatchMsg) schema"
  pb_GetReconciliationBatch :: "('b, (string \<times> string), ReconciliationBatchMsg) schema"
  pb_ListDiscrepancies :: "('b, ListDiscrepanciesRequest, (DiscrepancyMsg list)) schema"
  pb_ResolveDiscrepancy :: "('b, ResolveDiscrepancyRequest, DiscrepancyMsg) schema"

text \<open>What travels of an error: its code and its metadata.\<close>

definition sameError :: "connect_error \<Rightarrow> connect_error \<Rightarrow> bool" where
  "sameError e e' \<longleftrightarrow> connectCode e' = connectCode e \<and> ledgerErrorCode e' = ledgerErrorCode e"

definition connect_ok :: "'b connect_lib \<Rightarrow> bool" where
  "connect_ok K \<longleftrightarrow>
     (\<forall>url b. hq_URL (cn_NewRequest K url b) = url) \<and>
     (\<forall>url b t. cn_ReadRequest K ((cn_NewRequest K url b)\<lparr>hq_Header :=
        hdrSet ''X-Tenant-Id'' t (hq_Header (cn_NewRequest K url b))\<rparr>) = Inr b) \<and>
     (\<forall>b. cn_ReadReply K (cn_WriteReply K (Inr b)) = Inr b) \<and>
     (\<forall>e. \<exists>e'. cn_ReadReply K (cn_WriteReply K (Inl e)) = Inl e' \<and> sameError e e') \<and>
     (\<forall>p. hp_Status p \<noteq> 200 \<longrightarrow> (\<exists>e. cn_ReadReply K p = Inl e))"

definition codec_lossless :: "('b, 'q) codec \<Rightarrow> bool" where
  "codec_lossless c \<longleftrightarrow> (\<forall>m b. cd_Marshal c m = Some b \<longrightarrow> cd_Unmarshal c b = Some m)"

definition schema_ok :: "('b, 'q, 'r) schema \<Rightarrow> bool" where
  "schema_ok s \<longleftrightarrow> codec_lossless (sc_Req s) \<and> codec_lossless (sc_Res s)"

definition codecs_ok :: "'b codecs \<Rightarrow> bool" where
  "codecs_ok P \<longleftrightarrow> schema_ok (pb_CreateAccount P) \<and>
     schema_ok (pb_GetAccount P) \<and>
     schema_ok (pb_GetBalance P) \<and>
     schema_ok (pb_PostJournal P) \<and>
     schema_ok (pb_ExecuteFlow P) \<and>
     schema_ok (pb_GetFlow P) \<and>
     schema_ok (pb_ListAccountActivity P) \<and>
     schema_ok (pb_TakeBalanceSnapshot P) \<and>
     schema_ok (pb_CreateReservation P) \<and>
     schema_ok (pb_CommitReservation P) \<and>
     schema_ok (pb_ReleaseReservation P) \<and>
     schema_ok (pb_GetReservation P) \<and>
     schema_ok (pb_ListReservations P) \<and>
     schema_ok (pb_ExecuteExchange P) \<and>
     schema_ok (pb_PutFXRate P) \<and>
     schema_ok (pb_GetFXRate P) \<and>
     schema_ok (pb_ListFXRates P) \<and>
     schema_ok (pb_IngestExternalRecords P) \<and>
     schema_ok (pb_RunReconciliation P) \<and>
     schema_ok (pb_GetReconciliationBatch P) \<and>
     schema_ok (pb_ListDiscrepancies P) \<and>
     schema_ok (pb_ResolveDiscrepancy P)"

section \<open>Procedures (ledger.connect.go)\<close>

definition LedgerServiceCreateAccountProcedure :: string where
  "LedgerServiceCreateAccountProcedure = ''/ledger.v1.LedgerService/CreateAccount''"

definition LedgerServiceGetAccountProcedure :: string where
  "LedgerServiceGetAccountProcedure = ''/ledger.v1.LedgerService/GetAccount''"

definition LedgerServiceGetBalanceProcedure :: string where
  "LedgerServiceGetBalanceProcedure = ''/ledger.v1.LedgerService/GetBalance''"

definition LedgerServicePostJournalProcedure :: string where
  "LedgerServicePostJournalProcedure = ''/ledger.v1.LedgerService/PostJournal''"

definition LedgerServiceExecuteFlowProcedure :: string where
  "LedgerServiceExecuteFlowProcedure = ''/ledger.v1.LedgerService/ExecuteFlow''"

definition LedgerServiceGetFlowProcedure :: string where
  "LedgerServiceGetFlowProcedure = ''/ledger.v1.LedgerService/GetFlow''"

definition LedgerServiceListAccountActivityProcedure :: string where
  "LedgerServiceListAccountActivityProcedure = ''/ledger.v1.LedgerService/ListAccountActivity''"

definition LedgerServiceTakeBalanceSnapshotProcedure :: string where
  "LedgerServiceTakeBalanceSnapshotProcedure = ''/ledger.v1.LedgerService/TakeBalanceSnapshot''"

definition LedgerServiceCreateReservationProcedure :: string where
  "LedgerServiceCreateReservationProcedure = ''/ledger.v1.LedgerService/CreateReservation''"

definition LedgerServiceCommitReservationProcedure :: string where
  "LedgerServiceCommitReservationProcedure = ''/ledger.v1.LedgerService/CommitReservation''"

definition LedgerServiceReleaseReservationProcedure :: string where
  "LedgerServiceReleaseReservationProcedure = ''/ledger.v1.LedgerService/ReleaseReservation''"

definition LedgerServiceGetReservationProcedure :: string where
  "LedgerServiceGetReservationProcedure = ''/ledger.v1.LedgerService/GetReservation''"

definition LedgerServiceListReservationsProcedure :: string where
  "LedgerServiceListReservationsProcedure = ''/ledger.v1.LedgerService/ListReservations''"

definition LedgerServiceExecuteExchangeProcedure :: string where
  "LedgerServiceExecuteExchangeProcedure = ''/ledger.v1.LedgerService/ExecuteExchange''"

definition LedgerServicePutFXRateProcedure :: string where
  "LedgerServicePutFXRateProcedure = ''/ledger.v1.LedgerService/PutFXRate''"

definition LedgerServiceGetFXRateProcedure :: string where
  "LedgerServiceGetFXRateProcedure = ''/ledger.v1.LedgerService/GetFXRate''"

definition LedgerServiceListFXRatesProcedure :: string where
  "LedgerServiceListFXRatesProcedure = ''/ledger.v1.LedgerService/ListFXRates''"

definition LedgerServiceIngestExternalRecordsProcedure :: string where
  "LedgerServiceIngestExternalRecordsProcedure = ''/ledger.v1.LedgerService/IngestExternalRecords''"

definition LedgerServiceRunReconciliationProcedure :: string where
  "LedgerServiceRunReconciliationProcedure = ''/ledger.v1.LedgerService/RunReconciliation''"

definition LedgerServiceGetReconciliationBatchProcedure :: string where
  "LedgerServiceGetReconciliationBatchProcedure = ''/ledger.v1.LedgerService/GetReconciliationBatch''"

definition LedgerServiceListDiscrepanciesProcedure :: string where
  "LedgerServiceListDiscrepanciesProcedure = ''/ledger.v1.LedgerService/ListDiscrepancies''"

definition LedgerServiceResolveDiscrepancyProcedure :: string where
  "LedgerServiceResolveDiscrepancyProcedure = ''/ledger.v1.LedgerService/ResolveDiscrepancy''"

lemmas procedure_defs =
  LedgerServiceCreateAccountProcedure_def
  LedgerServiceGetAccountProcedure_def
  LedgerServiceGetBalanceProcedure_def
  LedgerServicePostJournalProcedure_def
  LedgerServiceExecuteFlowProcedure_def
  LedgerServiceGetFlowProcedure_def
  LedgerServiceListAccountActivityProcedure_def
  LedgerServiceTakeBalanceSnapshotProcedure_def
  LedgerServiceCreateReservationProcedure_def
  LedgerServiceCommitReservationProcedure_def
  LedgerServiceReleaseReservationProcedure_def
  LedgerServiceGetReservationProcedure_def
  LedgerServiceListReservationsProcedure_def
  LedgerServiceExecuteExchangeProcedure_def
  LedgerServicePutFXRateProcedure_def
  LedgerServiceGetFXRateProcedure_def
  LedgerServiceListFXRatesProcedure_def
  LedgerServiceIngestExternalRecordsProcedure_def
  LedgerServiceRunReconciliationProcedure_def
  LedgerServiceGetReconciliationBatchProcedure_def
  LedgerServiceListDiscrepanciesProcedure_def
  LedgerServiceResolveDiscrepancyProcedure_def

section \<open>The generated client\<close>

text \<open>\<open>connect.Client\<close>: \<open>CallUnary\<close> encodes the message, sends it, and reads the reply.\<close>

record ('n, 'b, 'q, 'r) connect_client =
  cc_HTTPClient :: "('n, 'b) round_trip"
  cc_URL :: string
  cc_Schema :: "('b, 'q, 'r) schema"

definition CallUnary :: "'b connect_lib \<Rightarrow> ('n, 'b, 'q, 'r) connect_client \<Rightarrow> 'q \<Rightarrow>
    ('n, connect_error, 'r) exec" where
  "CallUnary K c q = (case cd_Marshal (sc_Req (cc_Schema c)) q of
       None \<Rightarrow> throwE (cn_MarshalError K)
     | Some b \<Rightarrow>
         bindE (mapErr (cn_NetError K) (cc_HTTPClient c (cn_NewRequest K (cc_URL c) b))) (\<lambda>resp.
         case cn_ReadReply K resp of
           Inl e \<Rightarrow> throwE e
         | Inr b' \<Rightarrow> (case cd_Unmarshal (sc_Res (cc_Schema c)) b' of
             None \<Rightarrow> throwE (cn_UnmarshalError K) | Some r \<Rightarrow> ret r)))"

record ('n, 'b) ledgerServiceClient =
  lsc_createAccount :: "('n, 'b, CreateAccountRequest, AccountMsg) connect_client"
  lsc_getAccount :: "('n, 'b, (string \<times> string), AccountMsg) connect_client"
  lsc_getBalance :: "('n, 'b, GetBalanceRequest, BalanceMsg) connect_client"
  lsc_postJournal :: "('n, 'b, PostJournalRequest, PostJournalResponse) connect_client"
  lsc_executeFlow :: "('n, 'b, ExecuteFlowRequest, ExecuteFlowResponse) connect_client"
  lsc_getFlow :: "('n, 'b, (string \<times> string), ExecuteFlowResponse) connect_client"
  lsc_listAccountActivity :: "('n, 'b, ListAccountActivityRequest, (AccountActivityEntry list)) connect_client"
  lsc_takeBalanceSnapshot :: "('n, 'b, TakeBalanceSnapshotRequest, i32) connect_client"
  lsc_createReservation :: "('n, 'b, CreateReservationRequest, ReservationMsg) connect_client"
  lsc_commitReservation :: "('n, 'b, CommitReservationRequest, ReservationMsg) connect_client"
  lsc_releaseReservation :: "('n, 'b, ReleaseReservationRequest, ReservationMsg) connect_client"
  lsc_getReservation :: "('n, 'b, (string \<times> string), ReservationMsg) connect_client"
  lsc_listReservations :: "('n, 'b, ListReservationsRequest, (ReservationMsg list)) connect_client"
  lsc_executeExchange :: "('n, 'b, ExecuteExchangeRequest, ExecuteExchangeResponse) connect_client"
  lsc_putFXRate :: "('n, 'b, PutFXRateRequest, FXRateMsg) connect_client"
  lsc_getFXRate :: "('n, 'b, GetFXRateRequest, FXRateMsg) connect_client"
  lsc_listFXRates :: "('n, 'b, ListFXRatesRequest, (FXRateMsg list)) connect_client"
  lsc_ingestExternalRecords :: "('n, 'b, IngestExternalRecordsRequest, (i32 \<times> i32)) connect_client"
  lsc_runReconciliation :: "('n, 'b, RunReconciliationRequest, ReconciliationBatchMsg) connect_client"
  lsc_getReconciliationBatch :: "('n, 'b, (string \<times> string), ReconciliationBatchMsg) connect_client"
  lsc_listDiscrepancies :: "('n, 'b, ListDiscrepanciesRequest, (DiscrepancyMsg list)) connect_client"
  lsc_resolveDiscrepancy :: "('n, 'b, ResolveDiscrepancyRequest, DiscrepancyMsg) connect_client"

definition NewLedgerServiceClient :: "'b codecs \<Rightarrow> ('n, 'b) round_trip \<Rightarrow> string \<Rightarrow>
    ('n, 'b) ledgerServiceClient" where
  "NewLedgerServiceClient P httpClient baseURL = (let baseURL = trimSlashes baseURL in \<lparr>
     lsc_createAccount = \<lparr>cc_HTTPClient = httpClient,
       cc_URL = baseURL @ LedgerServiceCreateAccountProcedure, cc_Schema = pb_CreateAccount P\<rparr>,
     lsc_getAccount = \<lparr>cc_HTTPClient = httpClient,
       cc_URL = baseURL @ LedgerServiceGetAccountProcedure, cc_Schema = pb_GetAccount P\<rparr>,
     lsc_getBalance = \<lparr>cc_HTTPClient = httpClient,
       cc_URL = baseURL @ LedgerServiceGetBalanceProcedure, cc_Schema = pb_GetBalance P\<rparr>,
     lsc_postJournal = \<lparr>cc_HTTPClient = httpClient,
       cc_URL = baseURL @ LedgerServicePostJournalProcedure, cc_Schema = pb_PostJournal P\<rparr>,
     lsc_executeFlow = \<lparr>cc_HTTPClient = httpClient,
       cc_URL = baseURL @ LedgerServiceExecuteFlowProcedure, cc_Schema = pb_ExecuteFlow P\<rparr>,
     lsc_getFlow = \<lparr>cc_HTTPClient = httpClient,
       cc_URL = baseURL @ LedgerServiceGetFlowProcedure, cc_Schema = pb_GetFlow P\<rparr>,
     lsc_listAccountActivity = \<lparr>cc_HTTPClient = httpClient,
       cc_URL = baseURL @ LedgerServiceListAccountActivityProcedure, cc_Schema = pb_ListAccountActivity P\<rparr>,
     lsc_takeBalanceSnapshot = \<lparr>cc_HTTPClient = httpClient,
       cc_URL = baseURL @ LedgerServiceTakeBalanceSnapshotProcedure, cc_Schema = pb_TakeBalanceSnapshot P\<rparr>,
     lsc_createReservation = \<lparr>cc_HTTPClient = httpClient,
       cc_URL = baseURL @ LedgerServiceCreateReservationProcedure, cc_Schema = pb_CreateReservation P\<rparr>,
     lsc_commitReservation = \<lparr>cc_HTTPClient = httpClient,
       cc_URL = baseURL @ LedgerServiceCommitReservationProcedure, cc_Schema = pb_CommitReservation P\<rparr>,
     lsc_releaseReservation = \<lparr>cc_HTTPClient = httpClient,
       cc_URL = baseURL @ LedgerServiceReleaseReservationProcedure, cc_Schema = pb_ReleaseReservation P\<rparr>,
     lsc_getReservation = \<lparr>cc_HTTPClient = httpClient,
       cc_URL = baseURL @ LedgerServiceGetReservationProcedure, cc_Schema = pb_GetReservation P\<rparr>,
     lsc_listReservations = \<lparr>cc_HTTPClient = httpClient,
       cc_URL = baseURL @ LedgerServiceListReservationsProcedure, cc_Schema = pb_ListReservations P\<rparr>,
     lsc_executeExchange = \<lparr>cc_HTTPClient = httpClient,
       cc_URL = baseURL @ LedgerServiceExecuteExchangeProcedure, cc_Schema = pb_ExecuteExchange P\<rparr>,
     lsc_putFXRate = \<lparr>cc_HTTPClient = httpClient,
       cc_URL = baseURL @ LedgerServicePutFXRateProcedure, cc_Schema = pb_PutFXRate P\<rparr>,
     lsc_getFXRate = \<lparr>cc_HTTPClient = httpClient,
       cc_URL = baseURL @ LedgerServiceGetFXRateProcedure, cc_Schema = pb_GetFXRate P\<rparr>,
     lsc_listFXRates = \<lparr>cc_HTTPClient = httpClient,
       cc_URL = baseURL @ LedgerServiceListFXRatesProcedure, cc_Schema = pb_ListFXRates P\<rparr>,
     lsc_ingestExternalRecords = \<lparr>cc_HTTPClient = httpClient,
       cc_URL = baseURL @ LedgerServiceIngestExternalRecordsProcedure, cc_Schema = pb_IngestExternalRecords P\<rparr>,
     lsc_runReconciliation = \<lparr>cc_HTTPClient = httpClient,
       cc_URL = baseURL @ LedgerServiceRunReconciliationProcedure, cc_Schema = pb_RunReconciliation P\<rparr>,
     lsc_getReconciliationBatch = \<lparr>cc_HTTPClient = httpClient,
       cc_URL = baseURL @ LedgerServiceGetReconciliationBatchProcedure, cc_Schema = pb_GetReconciliationBatch P\<rparr>,
     lsc_listDiscrepancies = \<lparr>cc_HTTPClient = httpClient,
       cc_URL = baseURL @ LedgerServiceListDiscrepanciesProcedure, cc_Schema = pb_ListDiscrepancies P\<rparr>,
     lsc_resolveDiscrepancy = \<lparr>cc_HTTPClient = httpClient,
       cc_URL = baseURL @ LedgerServiceResolveDiscrepancyProcedure, cc_Schema = pb_ResolveDiscrepancy P\<rparr>\<rparr>)"

definition ledgerServiceClientMethods :: "'b connect_lib \<Rightarrow> ('n, 'b) ledgerServiceClient \<Rightarrow> 'n client" where
  "ledgerServiceClientMethods K c = \<lparr>
     cl_CreateAccount = CallUnary K (lsc_createAccount c),
     cl_GetAccount = (\<lambda>tn i. CallUnary K (lsc_getAccount c) (tn, i)),
     cl_GetBalance = CallUnary K (lsc_getBalance c),
     cl_PostJournal = CallUnary K (lsc_postJournal c),
     cl_ExecuteFlow = CallUnary K (lsc_executeFlow c),
     cl_GetFlow = (\<lambda>tn i. CallUnary K (lsc_getFlow c) (tn, i)),
     cl_ListAccountActivity = CallUnary K (lsc_listAccountActivity c),
     cl_TakeBalanceSnapshot = CallUnary K (lsc_takeBalanceSnapshot c),
     cl_CreateReservation = CallUnary K (lsc_createReservation c),
     cl_CommitReservation = CallUnary K (lsc_commitReservation c),
     cl_ReleaseReservation = CallUnary K (lsc_releaseReservation c),
     cl_GetReservation = (\<lambda>tn i. CallUnary K (lsc_getReservation c) (tn, i)),
     cl_ListReservations = CallUnary K (lsc_listReservations c),
     cl_ExecuteExchange = CallUnary K (lsc_executeExchange c),
     cl_PutFXRate = CallUnary K (lsc_putFXRate c),
     cl_GetFXRate = CallUnary K (lsc_getFXRate c),
     cl_ListFXRates = CallUnary K (lsc_listFXRates c),
     cl_IngestExternalRecords = CallUnary K (lsc_ingestExternalRecords c),
     cl_RunReconciliation = CallUnary K (lsc_runReconciliation c),
     cl_GetReconciliationBatch = (\<lambda>tn i. CallUnary K (lsc_getReconciliationBatch c) (tn, i)),
     cl_ListDiscrepancies = CallUnary K (lsc_listDiscrepancies c),
     cl_ResolveDiscrepancy = CallUnary K (lsc_resolveDiscrepancy c)\<rparr>"

section \<open>Interceptors (interceptors/tenant.go, interceptors/logging.go)\<close>

text \<open>The server: what the service works on, the log, and the number of clock readings the log
  took. The context of a call holds the tenant under \<open>tenantKey\<close>.\<close>

record rpc_log =
  ll_Level :: string
  ll_Msg :: string
  ll_procedure :: string
  ll_tenant_id :: string
  ll_duration_ms :: int
  ll_err :: "connect_error option"

record 'c server =
  sv_state :: 'c
  sv_log :: "rpc_log list"
  sv_reads :: nat

type_synonym ctx = "string option"

record any_request =
  ar_Procedure :: string
  ar_Header :: header

type_synonym ('c, 'r) unary_func = "ctx \<Rightarrow> any_request \<Rightarrow> ('c server, connect_error, 'r) exec"

definition TenantFromContext :: "ctx \<Rightarrow> string" where
  "TenantFromContext c = (case c of None \<Rightarrow> '''' | Some v \<Rightarrow> v)"

definition NewTenant :: "('c, 'r) unary_func \<Rightarrow> ('c, 'r) unary_func" where
  "NewTenant nxt c req =
     (let tid = hdrGet (ar_Header req) ''X-Tenant-Id'' in
      if tid = '''' then throwE (ConnectError CodeInvalidArgument None (GoError ''X-Tenant-Id required''))
      else nxt (Some tid) req)"

definition NewLogging :: "(nat \<Rightarrow> time) \<Rightarrow> ('c, 'r) unary_func \<Rightarrow> ('c, 'r) unary_func" where
  "NewLogging clk nxt c req h =
     (let start = clk (sv_reads h) in
      case nxt c req (h\<lparr>sv_reads := Suc (sv_reads h)\<rparr>) of (res, h1) \<Rightarrow>
      let since = clk (sv_reads h1) - start;
          line = (\<lambda>level msg err. \<lparr>ll_Level = level, ll_Msg = msg,
            ll_procedure = ar_Procedure req, ll_tenant_id = TenantFromContext c,
            ll_duration_ms = sgn since * (\<bar>since\<bar> div millisecond), ll_err = err\<rparr>)
      in (res, h1\<lparr>sv_reads := Suc (sv_reads h1),
            sv_log := sv_log h1 @ [case res of Inl e \<Rightarrow> line ''WARN'' ''rpc.error'' (Some e)
                                   | Inr _ \<Rightarrow> line ''INFO'' ''rpc.ok'' None]\<rparr>))"

text \<open>\<open>connect.WithInterceptors\<close>: the first interceptor acts first.\<close>

datatype interceptor = Tenant | Logging "nat \<Rightarrow> time"

fun intercept :: "interceptor \<Rightarrow> ('c, 'r) unary_func \<Rightarrow> ('c, 'r) unary_func" where
  "intercept Tenant = NewTenant"
| "intercept (Logging clk) = NewLogging clk"

section \<open>The generated handler\<close>

text \<open>\<open>connect.NewUnaryHandler\<close>: it decodes the message, runs the method under the interceptors
  and writes the reply.\<close>

definition inState :: "('c, 'e, 'a) exec \<Rightarrow> ('c server, 'e, 'a) exec" where
  "inState m h = (case m (sv_state h) of (r, c) \<Rightarrow> (r, h\<lparr>sv_state := c\<rparr>))"

definition NewUnaryHandler :: "'b connect_lib \<Rightarrow> interceptor list \<Rightarrow> string \<Rightarrow> ('b, 'q, 'r) schema \<Rightarrow>
    ('q \<Rightarrow> ('c, connect_error, 'r) exec) \<Rightarrow> ('c server, 'b) http_handler" where
  "NewUnaryHandler K opts procedure s f r h =
     (case cn_ReadRequest K r of
        Inl refusal \<Rightarrow> (refusal, h)
      | Inr b \<Rightarrow> (case cd_Unmarshal (sc_Req s) b of
          None \<Rightarrow> (cn_WriteReply K (Inl (cn_UnmarshalError K)), h)
        | Some q \<Rightarrow> (case foldr intercept opts (\<lambda>c req. inState (f q)) None
              \<lparr>ar_Procedure = procedure, ar_Header = hq_Header r\<rparr> h of
            (Inl e, h') \<Rightarrow> (cn_WriteReply K (Inl e), h')
          | (Inr res, h') \<Rightarrow> (case cd_Marshal (sc_Res s) res of
              None \<Rightarrow> (cn_WriteReply K (Inl (cn_MarshalError K)), h')
            | Some b' \<Rightarrow> (cn_WriteReply K (Inr b'), h')))))"

definition ledgerServiceHandlers :: "'b connect_lib \<Rightarrow> 'b codecs \<Rightarrow> interceptor list \<Rightarrow> 'c client \<Rightarrow>
    (string \<times> ('c server, 'b) http_handler) list" where
  "ledgerServiceHandlers K P opts svc = [
     (LedgerServiceCreateAccountProcedure,
      NewUnaryHandler K opts LedgerServiceCreateAccountProcedure (pb_CreateAccount P)
        (cl_CreateAccount svc)),
     (LedgerServiceGetAccountProcedure,
      NewUnaryHandler K opts LedgerServiceGetAccountProcedure (pb_GetAccount P)
        (\<lambda>(tn, i). cl_GetAccount svc tn i)),
     (LedgerServiceGetBalanceProcedure,
      NewUnaryHandler K opts LedgerServiceGetBalanceProcedure (pb_GetBalance P)
        (cl_GetBalance svc)),
     (LedgerServicePostJournalProcedure,
      NewUnaryHandler K opts LedgerServicePostJournalProcedure (pb_PostJournal P)
        (cl_PostJournal svc)),
     (LedgerServiceExecuteFlowProcedure,
      NewUnaryHandler K opts LedgerServiceExecuteFlowProcedure (pb_ExecuteFlow P)
        (cl_ExecuteFlow svc)),
     (LedgerServiceGetFlowProcedure,
      NewUnaryHandler K opts LedgerServiceGetFlowProcedure (pb_GetFlow P)
        (\<lambda>(tn, i). cl_GetFlow svc tn i)),
     (LedgerServiceListAccountActivityProcedure,
      NewUnaryHandler K opts LedgerServiceListAccountActivityProcedure (pb_ListAccountActivity P)
        (cl_ListAccountActivity svc)),
     (LedgerServiceTakeBalanceSnapshotProcedure,
      NewUnaryHandler K opts LedgerServiceTakeBalanceSnapshotProcedure (pb_TakeBalanceSnapshot P)
        (cl_TakeBalanceSnapshot svc)),
     (LedgerServiceCreateReservationProcedure,
      NewUnaryHandler K opts LedgerServiceCreateReservationProcedure (pb_CreateReservation P)
        (cl_CreateReservation svc)),
     (LedgerServiceCommitReservationProcedure,
      NewUnaryHandler K opts LedgerServiceCommitReservationProcedure (pb_CommitReservation P)
        (cl_CommitReservation svc)),
     (LedgerServiceReleaseReservationProcedure,
      NewUnaryHandler K opts LedgerServiceReleaseReservationProcedure (pb_ReleaseReservation P)
        (cl_ReleaseReservation svc)),
     (LedgerServiceGetReservationProcedure,
      NewUnaryHandler K opts LedgerServiceGetReservationProcedure (pb_GetReservation P)
        (\<lambda>(tn, i). cl_GetReservation svc tn i)),
     (LedgerServiceListReservationsProcedure,
      NewUnaryHandler K opts LedgerServiceListReservationsProcedure (pb_ListReservations P)
        (cl_ListReservations svc)),
     (LedgerServiceExecuteExchangeProcedure,
      NewUnaryHandler K opts LedgerServiceExecuteExchangeProcedure (pb_ExecuteExchange P)
        (cl_ExecuteExchange svc)),
     (LedgerServicePutFXRateProcedure,
      NewUnaryHandler K opts LedgerServicePutFXRateProcedure (pb_PutFXRate P)
        (cl_PutFXRate svc)),
     (LedgerServiceGetFXRateProcedure,
      NewUnaryHandler K opts LedgerServiceGetFXRateProcedure (pb_GetFXRate P)
        (cl_GetFXRate svc)),
     (LedgerServiceListFXRatesProcedure,
      NewUnaryHandler K opts LedgerServiceListFXRatesProcedure (pb_ListFXRates P)
        (cl_ListFXRates svc)),
     (LedgerServiceIngestExternalRecordsProcedure,
      NewUnaryHandler K opts LedgerServiceIngestExternalRecordsProcedure (pb_IngestExternalRecords P)
        (cl_IngestExternalRecords svc)),
     (LedgerServiceRunReconciliationProcedure,
      NewUnaryHandler K opts LedgerServiceRunReconciliationProcedure (pb_RunReconciliation P)
        (cl_RunReconciliation svc)),
     (LedgerServiceGetReconciliationBatchProcedure,
      NewUnaryHandler K opts LedgerServiceGetReconciliationBatchProcedure (pb_GetReconciliationBatch P)
        (\<lambda>(tn, i). cl_GetReconciliationBatch svc tn i)),
     (LedgerServiceListDiscrepanciesProcedure,
      NewUnaryHandler K opts LedgerServiceListDiscrepanciesProcedure (pb_ListDiscrepancies P)
        (cl_ListDiscrepancies svc)),
     (LedgerServiceResolveDiscrepancyProcedure,
      NewUnaryHandler K opts LedgerServiceResolveDiscrepancyProcedure (pb_ResolveDiscrepancy P)
        (cl_ResolveDiscrepancy svc))]"

definition NewLedgerServiceHandler :: "'b connect_lib \<Rightarrow> 'b codecs \<Rightarrow> interceptor list \<Rightarrow> 'c client \<Rightarrow>
    string \<times> ('c server, 'b) http_handler" where
  "NewLedgerServiceHandler K P opts svc = (''/ledger.v1.LedgerService/'',
     \<lambda>r h. case map_of (ledgerServiceHandlers K P opts svc) (urlPath (hq_URL r)) of
       Some handler \<Rightarrow> handler r h | None \<Rightarrow> (NotFound, h))"

definition unimplemented :: "string \<Rightarrow> ('c, connect_error, 'r) exec" where
  "unimplemented name = throwE (ConnectError CodeUnimplemented None
     (GoError (''ledger.v1.LedgerService.'' @ name @ '' is not implemented'')))"

definition UnimplementedLedgerServiceHandler :: "'c client" where
  "UnimplementedLedgerServiceHandler = \<lparr>
     cl_CreateAccount = (\<lambda>r. unimplemented ''CreateAccount''),
     cl_GetAccount = (\<lambda>tn i. unimplemented ''GetAccount''),
     cl_GetBalance = (\<lambda>r. unimplemented ''GetBalance''),
     cl_PostJournal = (\<lambda>r. unimplemented ''PostJournal''),
     cl_ExecuteFlow = (\<lambda>r. unimplemented ''ExecuteFlow''),
     cl_GetFlow = (\<lambda>tn i. unimplemented ''GetFlow''),
     cl_ListAccountActivity = (\<lambda>r. unimplemented ''ListAccountActivity''),
     cl_TakeBalanceSnapshot = (\<lambda>r. unimplemented ''TakeBalanceSnapshot''),
     cl_CreateReservation = (\<lambda>r. unimplemented ''CreateReservation''),
     cl_CommitReservation = (\<lambda>r. unimplemented ''CommitReservation''),
     cl_ReleaseReservation = (\<lambda>r. unimplemented ''ReleaseReservation''),
     cl_GetReservation = (\<lambda>tn i. unimplemented ''GetReservation''),
     cl_ListReservations = (\<lambda>r. unimplemented ''ListReservations''),
     cl_ExecuteExchange = (\<lambda>r. unimplemented ''ExecuteExchange''),
     cl_PutFXRate = (\<lambda>r. unimplemented ''PutFXRate''),
     cl_GetFXRate = (\<lambda>r. unimplemented ''GetFXRate''),
     cl_ListFXRates = (\<lambda>r. unimplemented ''ListFXRates''),
     cl_IngestExternalRecords = (\<lambda>r. unimplemented ''IngestExternalRecords''),
     cl_RunReconciliation = (\<lambda>r. unimplemented ''RunReconciliation''),
     cl_GetReconciliationBatch = (\<lambda>tn i. unimplemented ''GetReconciliationBatch''),
     cl_ListDiscrepancies = (\<lambda>r. unimplemented ''ListDiscrepancies''),
     cl_ResolveDiscrepancy = (\<lambda>r. unimplemented ''ResolveDiscrepancy'')\<rparr>"

section \<open>The routes of the server (cmd/server/main.go)\<close>

text \<open>\<open>http.ServeMux\<close> with the path of the service, which ends in a slash and so matches every
  path below it, and \<open>/healthz\<close>.\<close>

definition serverMux :: "string \<times> ('h, 'b) http_handler \<Rightarrow> ('h, 'b) http_handler" where
  "serverMux svc r h =
     (let path = urlPath (hq_URL r) in
      if path = ''/healthz'' then (EmptyOK, h)
      else if take (length (fst svc)) path = fst svc then snd svc r h
      else (NotFound, h))"

definition httpServer :: "'b connect_lib \<Rightarrow> 'b codecs \<Rightarrow> (nat \<Rightarrow> time) \<Rightarrow> 'c client \<Rightarrow>
    ('c server, 'b) http_handler" where
  "httpServer K P clk svc = serverMux (NewLedgerServiceHandler K P [Tenant, Logging clk] svc)"

end
