(* ===== verification/Remote.thy ===== *)
theory Remote
  imports Connect Wallet System
begin

text \<open>
  The remote client of \<open>pkg/dledger/remote.go\<close> and what it shares with the embedded one.

  \<^item> \<open>NewRemote\<close> is the constructor: the transport that sets the tenant header under the
    generated client. The default transport of \<open>net/http\<close> is a parameter.
  \<^item> \<open>hosted\<close> is what is assumed of the world between client and server: the library and the
    encoders round trip, and the transport \<open>carries\<close> a request to the HTTP handler of a server
    and its response back, or fails, having reached the server or not.
  \<^item> \<open>outcome\<close> relates a remote call to the run of the method on the server's state, and every
    method of the remote client has it (\<open>remote_forwards\<close>): the URL the client builds leads
    through the mux and the generated handler to the method of the same name.
\<close>

section \<open>The remote client (remote.go, options.go)\<close>

text \<open>\<open>http.Client\<close>, by its transport: \<open>None\<close> is nil.\<close>

record ('n, 'b) http_client =
  hc_Transport :: "('n, 'b) round_trip option"

record ('n, 'b) remoteOptions =
  ro_httpClient :: "('n, 'b) http_client"

definition WithHTTPClient :: "('n, 'b) http_client \<Rightarrow> ('n, 'b) remoteOptions \<Rightarrow> ('n, 'b) remoteOptions" where
  "WithHTTPClient c opt = opt\<lparr>ro_httpClient := c\<rparr>"

definition roundTripperOr :: "('n, 'b) round_trip option \<Rightarrow> ('n, 'b) round_trip \<Rightarrow> ('n, 'b) round_trip" where
  "roundTripperOr rt fallback = (case rt of Some t \<Rightarrow> t | None \<Rightarrow> fallback)"

definition tenantTransport :: "('n, 'b) round_trip \<Rightarrow> string \<Rightarrow> ('n, 'b) round_trip" where
  "tenantTransport base tenant req =
     base (req\<lparr>hq_Header := hdrSet ''X-Tenant-Id'' tenant (hq_Header req)\<rparr>)"

definition remoteClient :: "'n client \<Rightarrow> 'n client" where
  "remoteClient rpc = \<lparr>
     cl_CreateAccount = (\<lambda>r. cl_CreateAccount rpc r),
     cl_GetAccount = (\<lambda>tn i. cl_GetAccount rpc tn i),
     cl_GetBalance = (\<lambda>r. cl_GetBalance rpc r),
     cl_PostJournal = (\<lambda>r. cl_PostJournal rpc r),
     cl_ExecuteFlow = (\<lambda>r. cl_ExecuteFlow rpc r),
     cl_GetFlow = (\<lambda>tn i. cl_GetFlow rpc tn i),
     cl_ListAccountActivity = (\<lambda>r. cl_ListAccountActivity rpc r),
     cl_TakeBalanceSnapshot = (\<lambda>r. cl_TakeBalanceSnapshot rpc r),
     cl_CreateReservation = (\<lambda>r. cl_CreateReservation rpc r),
     cl_CommitReservation = (\<lambda>r. cl_CommitReservation rpc r),
     cl_ReleaseReservation = (\<lambda>r. cl_ReleaseReservation rpc r),
     cl_GetReservation = (\<lambda>tn i. cl_GetReservation rpc tn i),
     cl_ListReservations = (\<lambda>r. cl_ListReservations rpc r),
     cl_ExecuteExchange = (\<lambda>r. cl_ExecuteExchange rpc r),
     cl_PutFXRate = (\<lambda>r. cl_PutFXRate rpc r),
     cl_GetFXRate = (\<lambda>r. cl_GetFXRate rpc r),
     cl_ListFXRates = (\<lambda>r. cl_ListFXRates rpc r),
     cl_IngestExternalRecords = (\<lambda>r. cl_IngestExternalRecords rpc r),
     cl_RunReconciliation = (\<lambda>r. cl_RunReconciliation rpc r),
     cl_GetReconciliationBatch = (\<lambda>tn i. cl_GetReconciliationBatch rpc tn i),
     cl_ListDiscrepancies = (\<lambda>r. cl_ListDiscrepancies rpc r),
     cl_ResolveDiscrepancy = (\<lambda>r. cl_ResolveDiscrepancy rpc r)\<rparr>"

definition remoteClose :: "('n, error, unit) exec" where
  "remoteClose = ret ()"

text \<open>The transport that the options choose: that of the last \<open>http.Client\<close> given, or the
  default one.\<close>

definition baseTransport :: "('n, 'b) round_trip \<Rightarrow> (('n, 'b) remoteOptions \<Rightarrow> ('n, 'b) remoteOptions) list \<Rightarrow>
    ('n, 'b) round_trip" where
  "baseTransport dt opts = (let opt = fold (\<lambda>fn opt. fn opt) opts \<lparr>ro_httpClient = \<lparr>hc_Transport = None\<rparr>\<rparr> in
     roundTripperOr (hc_Transport (ro_httpClient opt)) dt)"

definition NewRemote :: "'b connect_lib \<Rightarrow> 'b codecs \<Rightarrow> ('n, 'b) round_trip \<Rightarrow> string \<Rightarrow> string \<Rightarrow>
    (('n, 'b) remoteOptions \<Rightarrow> ('n, 'b) remoteOptions) list \<Rightarrow> 'n client" where
  "NewRemote K P dt url tenantID opts =
     (let hc = tenantTransport (baseTransport dt opts) tenantID;
          rpc = NewLedgerServiceClient P hc url
      in remoteClient (ledgerServiceClientMethods K rpc))"

section \<open>Addresses and routes\<close>

definition plainHost :: "string \<Rightarrow> string \<Rightarrow> bool" where
  "plainHost scheme host \<longleftrightarrow> CHR '':'' \<notin> set scheme \<and> host \<noteq> '''' \<and>
     (\<forall>c \<in> set host. c \<notin> {CHR ''/'', CHR ''?'', CHR ''#''})"

text \<open>The address of a server, with any number of slashes after it.\<close>

definition siteURL :: "string \<Rightarrow> string \<Rightarrow> nat \<Rightarrow> string" where
  "siteURL scheme host n = scheme @ ''://'' @ host @ replicate n (CHR ''/'')"

lemma trimSlashes_site:
  assumes "plainHost scheme host"
  shows "trimSlashes (siteURL scheme host n) = scheme @ ''://'' @ host"
proof -
  obtain c cs where "rev host = c # cs" "c \<noteq> CHR ''/''"
    using assms by (cases host rule: rev_cases) (auto simp: plainHost_def)
  moreover have "dropWhile (\<lambda>c. c = CHR ''/'') (replicate n (CHR ''/'') @ c # cs) = c # cs"
    if "c \<noteq> CHR ''/''" for c and cs :: string
    using that by (induction n) auto
  ultimately show ?thesis
    by (simp add: trimSlashes_def siteURL_def rev_swap)
qed

lemma afterScheme_skip:
  "CHR '':'' \<notin> set s \<Longrightarrow> afterScheme (s @ CHR '':'' # CHR ''/'' # CHR ''/'' # u) = u"
  by (induction s) auto

lemma urlPath_site:
  assumes "plainHost scheme host" and "hd p = CHR ''/''" and "p \<noteq> []"
    and "\<forall>c \<in> set p. c \<notin> {CHR ''?'', CHR ''#''}"
  shows "urlPath (scheme @ ''://'' @ host @ p) = p"
proof -
  have "dropWhile (\<lambda>c. c \<notin> {CHR ''/'', CHR ''?'', CHR ''#''}) (host @ p) = p"
    using assms(1-3) by (cases p) (auto simp: plainHost_def dropWhile_append1 dropWhile_append2)
  with assms(1,4) show ?thesis
    by (simp add: urlPath_def afterScheme_skip plainHost_def takeWhile_eq_all_conv)
qed

lemma urlPath_procedure:
  assumes "plainHost scheme host" and "\<forall>c \<in> set name. c \<notin> {CHR ''?'', CHR ''#''}"
  shows "urlPath (trimSlashes (siteURL scheme host n) @ ''/ledger.v1.LedgerService/'' @ name) =
    ''/ledger.v1.LedgerService/'' @ name"
  using urlPath_site [OF assms(1), of "''/ledger.v1.LedgerService/'' @ name"] assms
  by (simp add: trimSlashes_site)

text \<open>The mux and the generated handler lead a path of the service to its method.\<close>

lemma httpServer_route:
  assumes "urlPath (hq_URL r) = ''/ledger.v1.LedgerService/'' @ name"
    and "map_of (ledgerServiceHandlers K P [Tenant, Logging clk] svc)
      (''/ledger.v1.LedgerService/'' @ name) = Some handler"
  shows "httpServer K P clk svc r h = handler r h"
  using assms by (simp add: httpServer_def serverMux_def NewLedgerServiceHandler_def)

lemma handler_of:
  "map_of (ledgerServiceHandlers K P opts svc) LedgerServiceCreateAccountProcedure =
     Some (NewUnaryHandler K opts LedgerServiceCreateAccountProcedure (pb_CreateAccount P) (cl_CreateAccount svc))"
  "map_of (ledgerServiceHandlers K P opts svc) LedgerServiceGetAccountProcedure =
     Some (NewUnaryHandler K opts LedgerServiceGetAccountProcedure (pb_GetAccount P) (\<lambda>(tn, i). cl_GetAccount svc tn i))"
  "map_of (ledgerServiceHandlers K P opts svc) LedgerServiceGetBalanceProcedure =
     Some (NewUnaryHandler K opts LedgerServiceGetBalanceProcedure (pb_GetBalance P) (cl_GetBalance svc))"
  "map_of (ledgerServiceHandlers K P opts svc) LedgerServicePostJournalProcedure =
     Some (NewUnaryHandler K opts LedgerServicePostJournalProcedure (pb_PostJournal P) (cl_PostJournal svc))"
  "map_of (ledgerServiceHandlers K P opts svc) LedgerServiceExecuteFlowProcedure =
     Some (NewUnaryHandler K opts LedgerServiceExecuteFlowProcedure (pb_ExecuteFlow P) (cl_ExecuteFlow svc))"
  "map_of (ledgerServiceHandlers K P opts svc) LedgerServiceGetFlowProcedure =
     Some (NewUnaryHandler K opts LedgerServiceGetFlowProcedure (pb_GetFlow P) (\<lambda>(tn, i). cl_GetFlow svc tn i))"
  "map_of (ledgerServiceHandlers K P opts svc) LedgerServiceListAccountActivityProcedure =
     Some (NewUnaryHandler K opts LedgerServiceListAccountActivityProcedure (pb_ListAccountActivity P) (cl_ListAccountActivity svc))"
  "map_of (ledgerServiceHandlers K P opts svc) LedgerServiceTakeBalanceSnapshotProcedure =
     Some (NewUnaryHandler K opts LedgerServiceTakeBalanceSnapshotProcedure (pb_TakeBalanceSnapshot P) (cl_TakeBalanceSnapshot svc))"
  "map_of (ledgerServiceHandlers K P opts svc) LedgerServiceCreateReservationProcedure =
     Some (NewUnaryHandler K opts LedgerServiceCreateReservationProcedure (pb_CreateReservation P) (cl_CreateReservation svc))"
  "map_of (ledgerServiceHandlers K P opts svc) LedgerServiceCommitReservationProcedure =
     Some (NewUnaryHandler K opts LedgerServiceCommitReservationProcedure (pb_CommitReservation P) (cl_CommitReservation svc))"
  "map_of (ledgerServiceHandlers K P opts svc) LedgerServiceReleaseReservationProcedure =
     Some (NewUnaryHandler K opts LedgerServiceReleaseReservationProcedure (pb_ReleaseReservation P) (cl_ReleaseReservation svc))"
  "map_of (ledgerServiceHandlers K P opts svc) LedgerServiceGetReservationProcedure =
     Some (NewUnaryHandler K opts LedgerServiceGetReservationProcedure (pb_GetReservation P) (\<lambda>(tn, i). cl_GetReservation svc tn i))"
  "map_of (ledgerServiceHandlers K P opts svc) LedgerServiceListReservationsProcedure =
     Some (NewUnaryHandler K opts LedgerServiceListReservationsProcedure (pb_ListReservations P) (cl_ListReservations svc))"
  "map_of (ledgerServiceHandlers K P opts svc) LedgerServiceExecuteExchangeProcedure =
     Some (NewUnaryHandler K opts LedgerServiceExecuteExchangeProcedure (pb_ExecuteExchange P) (cl_ExecuteExchange svc))"
  "map_of (ledgerServiceHandlers K P opts svc) LedgerServicePutFXRateProcedure =
     Some (NewUnaryHandler K opts LedgerServicePutFXRateProcedure (pb_PutFXRate P) (cl_PutFXRate svc))"
  "map_of (ledgerServiceHandlers K P opts svc) LedgerServiceGetFXRateProcedure =
     Some (NewUnaryHandler K opts LedgerServiceGetFXRateProcedure (pb_GetFXRate P) (cl_GetFXRate svc))"
  "map_of (ledgerServiceHandlers K P opts svc) LedgerServiceListFXRatesProcedure =
     Some (NewUnaryHandler K opts LedgerServiceListFXRatesProcedure (pb_ListFXRates P) (cl_ListFXRates svc))"
  "map_of (ledgerServiceHandlers K P opts svc) LedgerServiceIngestExternalRecordsProcedure =
     Some (NewUnaryHandler K opts LedgerServiceIngestExternalRecordsProcedure (pb_IngestExternalRecords P) (cl_IngestExternalRecords svc))"
  "map_of (ledgerServiceHandlers K P opts svc) LedgerServiceRunReconciliationProcedure =
     Some (NewUnaryHandler K opts LedgerServiceRunReconciliationProcedure (pb_RunReconciliation P) (cl_RunReconciliation svc))"
  "map_of (ledgerServiceHandlers K P opts svc) LedgerServiceGetReconciliationBatchProcedure =
     Some (NewUnaryHandler K opts LedgerServiceGetReconciliationBatchProcedure (pb_GetReconciliationBatch P) (\<lambda>(tn, i). cl_GetReconciliationBatch svc tn i))"
  "map_of (ledgerServiceHandlers K P opts svc) LedgerServiceListDiscrepanciesProcedure =
     Some (NewUnaryHandler K opts LedgerServiceListDiscrepanciesProcedure (pb_ListDiscrepancies P) (cl_ListDiscrepancies svc))"
  "map_of (ledgerServiceHandlers K P opts svc) LedgerServiceResolveDiscrepancyProcedure =
     Some (NewUnaryHandler K opts LedgerServiceResolveDiscrepancyProcedure (pb_ResolveDiscrepancy P) (cl_ResolveDiscrepancy svc))"
  by (simp_all add: ledgerServiceHandlers_def procedure_defs)

lemma procedure_path:
  "LedgerServiceCreateAccountProcedure = ''/ledger.v1.LedgerService/'' @ ''CreateAccount''"
  "LedgerServiceGetAccountProcedure = ''/ledger.v1.LedgerService/'' @ ''GetAccount''"
  "LedgerServiceGetBalanceProcedure = ''/ledger.v1.LedgerService/'' @ ''GetBalance''"
  "LedgerServicePostJournalProcedure = ''/ledger.v1.LedgerService/'' @ ''PostJournal''"
  "LedgerServiceExecuteFlowProcedure = ''/ledger.v1.LedgerService/'' @ ''ExecuteFlow''"
  "LedgerServiceGetFlowProcedure = ''/ledger.v1.LedgerService/'' @ ''GetFlow''"
  "LedgerServiceListAccountActivityProcedure = ''/ledger.v1.LedgerService/'' @ ''ListAccountActivity''"
  "LedgerServiceTakeBalanceSnapshotProcedure = ''/ledger.v1.LedgerService/'' @ ''TakeBalanceSnapshot''"
  "LedgerServiceCreateReservationProcedure = ''/ledger.v1.LedgerService/'' @ ''CreateReservation''"
  "LedgerServiceCommitReservationProcedure = ''/ledger.v1.LedgerService/'' @ ''CommitReservation''"
  "LedgerServiceReleaseReservationProcedure = ''/ledger.v1.LedgerService/'' @ ''ReleaseReservation''"
  "LedgerServiceGetReservationProcedure = ''/ledger.v1.LedgerService/'' @ ''GetReservation''"
  "LedgerServiceListReservationsProcedure = ''/ledger.v1.LedgerService/'' @ ''ListReservations''"
  "LedgerServiceExecuteExchangeProcedure = ''/ledger.v1.LedgerService/'' @ ''ExecuteExchange''"
  "LedgerServicePutFXRateProcedure = ''/ledger.v1.LedgerService/'' @ ''PutFXRate''"
  "LedgerServiceGetFXRateProcedure = ''/ledger.v1.LedgerService/'' @ ''GetFXRate''"
  "LedgerServiceListFXRatesProcedure = ''/ledger.v1.LedgerService/'' @ ''ListFXRates''"
  "LedgerServiceIngestExternalRecordsProcedure = ''/ledger.v1.LedgerService/'' @ ''IngestExternalRecords''"
  "LedgerServiceRunReconciliationProcedure = ''/ledger.v1.LedgerService/'' @ ''RunReconciliation''"
  "LedgerServiceGetReconciliationBatchProcedure = ''/ledger.v1.LedgerService/'' @ ''GetReconciliationBatch''"
  "LedgerServiceListDiscrepanciesProcedure = ''/ledger.v1.LedgerService/'' @ ''ListDiscrepancies''"
  "LedgerServiceResolveDiscrepancyProcedure = ''/ledger.v1.LedgerService/'' @ ''ResolveDiscrepancy''"
  by (simp_all add: procedure_defs)

section \<open>Between client and server\<close>

text \<open>A header value that arrives as it was set: no control characters, no space at its ends.\<close>

definition cleanHeader :: "string \<Rightarrow> bool" where
  "cleanHeader v \<longleftrightarrow> (\<forall>c \<in> set v. CHR 0x20 \<le> c \<and> c \<noteq> CHR 0x7F) \<and>
     (v = '''' \<or> hd v \<noteq> CHR '' '' \<and> last v \<noteq> CHR '' '')"

text \<open>\<open>http.RoundTripper\<close>: the request reaches the handler at most once, and a response is the
  one the handler gave. A failure may come before the handler ran or after. \<open>srv\<close> is the server's
  part of the state.\<close>

definition carries :: "('n, 'b) round_trip \<Rightarrow> ('h, 'b) http_handler \<Rightarrow> ('n \<Rightarrow> 'h) \<Rightarrow> bool" where
  "carries rt H srv \<longleftrightarrow> (\<forall>req n. cleanHeader (hdrGet (hq_Header req) ''X-Tenant-Id'') \<longrightarrow>
     (case rt req n of
        (Inr p, n') \<Rightarrow> H req (srv n) = (p, srv n')
      | (Inl e, n') \<Rightarrow> srv n' = srv n \<or> srv n' = snd (H req (srv n))))"

lemma carriesD:
  assumes "carries rt H srv" and "cleanHeader (hdrGet (hq_Header req) ''X-Tenant-Id'')"
    and "rt req n = (res, n')"
  shows "case res of Inl e \<Rightarrow> srv n' = srv n \<or> srv n' = snd (H req (srv n))
    | Inr p \<Rightarrow> H req (srv n) = (p, srv n')"
  using assms(1) [unfolded carries_def, rule_format, OF assms(2), of n] assms(3)
  by (simp split: sum.splits)

definition hosted :: "'b connect_lib \<Rightarrow> 'b codecs \<Rightarrow> ('n, 'b) round_trip \<Rightarrow> ('n \<Rightarrow> 'c server) \<Rightarrow>
    (nat \<Rightarrow> time) \<Rightarrow> 'c client \<Rightarrow> bool" where
  "hosted K P rt srv clk svc \<longleftrightarrow>
     connect_ok K \<and> codecs_ok P \<and> carries rt (httpServer K P clk svc) srv"

text \<open>The error of the client that is not the server's: the transport failed, or an encoder
  refused a message.\<close>

definition wireError :: "'b connect_lib \<Rightarrow> connect_error \<Rightarrow> bool" where
  "wireError K e \<longleftrightarrow> (\<exists>err. e = cn_NetError K err) \<or> sameError (cn_MarshalError K) e"

text \<open>The outcome of a remote call, against the run of the method on the server's state \<open>c\<close>:
  the same result and the state the run leaves; or an error of the wire, and the server ran the
  method or did not.\<close>

definition outcome :: "'b connect_lib \<Rightarrow> bool \<Rightarrow> (connect_error + 'a) \<times> 'c \<Rightarrow> 'c \<Rightarrow>
    connect_error + 'a \<Rightarrow> 'c \<Rightarrow> bool" where
  "outcome K lossy run c res c' \<longleftrightarrow>
     rel_sum sameError (=) (fst run) res \<and> c' = snd run \<or>
     lossy \<and> (\<exists>e. res = Inl e \<and> wireError K e \<and> (c' = c \<or> c' = snd run))"

text \<open>The second can happen only when the transport may fail or an encoder may refuse.\<close>

definition schema_total :: "('b, 'q, 'r) schema \<Rightarrow> bool" where
  "schema_total s \<longleftrightarrow> (\<forall>q. cd_Marshal (sc_Req s) q \<noteq> None) \<and> (\<forall>r. cd_Marshal (sc_Res s) r \<noteq> None)"

definition codecs_total :: "'b codecs \<Rightarrow> bool" where
  "codecs_total P \<longleftrightarrow> schema_total (pb_CreateAccount P) \<and>
     schema_total (pb_GetAccount P) \<and>
     schema_total (pb_GetBalance P) \<and>
     schema_total (pb_PostJournal P) \<and>
     schema_total (pb_ExecuteFlow P) \<and>
     schema_total (pb_GetFlow P) \<and>
     schema_total (pb_ListAccountActivity P) \<and>
     schema_total (pb_TakeBalanceSnapshot P) \<and>
     schema_total (pb_CreateReservation P) \<and>
     schema_total (pb_CommitReservation P) \<and>
     schema_total (pb_ReleaseReservation P) \<and>
     schema_total (pb_GetReservation P) \<and>
     schema_total (pb_ListReservations P) \<and>
     schema_total (pb_ExecuteExchange P) \<and>
     schema_total (pb_PutFXRate P) \<and>
     schema_total (pb_GetFXRate P) \<and>
     schema_total (pb_ListFXRates P) \<and>
     schema_total (pb_IngestExternalRecords P) \<and>
     schema_total (pb_RunReconciliation P) \<and>
     schema_total (pb_GetReconciliationBatch P) \<and>
     schema_total (pb_ListDiscrepancies P) \<and>
     schema_total (pb_ResolveDiscrepancy P)"

definition mayFail :: "'b codecs \<Rightarrow> ('n, 'b) round_trip \<Rightarrow> 'n \<Rightarrow> bool" where
  "mayFail P rt n \<longleftrightarrow> \<not> codecs_total P \<or> (\<exists>req e n'. rt req n = (Inl e, n'))"

text \<open>What the interceptors make of a method.\<close>

abbreviation noTenant :: connect_error where
  "noTenant \<equiv> ConnectError CodeInvalidArgument None (GoError ''X-Tenant-Id required'')"

definition gated :: "string \<Rightarrow> ('c, connect_error, 'a) exec \<Rightarrow> ('c, connect_error, 'a) exec" where
  "gated t m = (if t = '''' then throwE noTenant else m)"

definition logs :: "string \<Rightarrow> string \<Rightarrow> bool \<Rightarrow> rpc_log \<Rightarrow> bool" where
  "logs procedure tenant failed l \<longleftrightarrow> ll_procedure l = procedure \<and> ll_tenant_id l = tenant \<and>
     (if failed then ll_Msg l = ''rpc.error'' \<and> ll_err l \<noteq> None
      else ll_Msg l = ''rpc.ok'' \<and> ll_err l = None)"

text \<open>Without a tenant the request is refused and not logged; with one the method runs and one
  line is logged, under the tenant of the header.\<close>

lemma intercepted:
  assumes "foldr intercept [Tenant, Logging clk] (\<lambda>c req. inState m) None
      \<lparr>ar_Procedure = p, ar_Header = hdr\<rparr> h = (res, h')"
  shows "gated (hdrGet hdr ''X-Tenant-Id'') m (sv_state h) = (res, sv_state h') \<and>
    (\<exists>ls. sv_log h' = sv_log h @ ls \<and>
      (if hdrGet hdr ''X-Tenant-Id'' = '''' then ls = []
       else \<exists>l. ls = [l] \<and> logs p (hdrGet hdr ''X-Tenant-Id'') (\<exists>e. res = Inl e) l))"
  using assms
  by (auto simp: NewTenant_def NewLogging_def inState_def gated_def throwE_def Let_def logs_def
    TenantFromContext_def split: if_splits prod.splits sum.splits)

definition forwards :: "'b connect_lib \<Rightarrow> ('n \<Rightarrow> bool) \<Rightarrow> string \<Rightarrow> ('n \<Rightarrow> 'c server) \<Rightarrow>
    ('n, connect_error, 'a) exec \<Rightarrow> ('c, connect_error, 'a) exec \<Rightarrow> bool" where
  "forwards K lossy t srv M m \<longleftrightarrow> (\<forall>n res n'. M n = (res, n') \<longrightarrow>
     outcome K (lossy n) (gated t m (sv_state (srv n))) (sv_state (srv n)) res (sv_state (srv n')))"

lemma forwardsD:
  "forwards K lossy t srv M m \<Longrightarrow> M n = (res, n') \<Longrightarrow>
     outcome K (lossy n) (gated t m (sv_state (srv n))) (sv_state (srv n)) res (sv_state (srv n'))"
  by (simp add: forwards_def)

lemma connect_okD:
  assumes "connect_ok K"
  shows "hq_URL (cn_NewRequest K url b) = url"
    and "cn_ReadRequest K ((cn_NewRequest K url b)\<lparr>hq_Header :=
      hdrSet ''X-Tenant-Id'' t (hq_Header (cn_NewRequest K url b))\<rparr>) = Inr b"
    and "cn_ReadReply K (cn_WriteReply K (Inr b)) = Inr b"
    and "\<exists>e'. cn_ReadReply K (cn_WriteReply K (Inl e)) = Inl e' \<and> sameError e e'"
  using assms by (simp_all add: connect_ok_def)

lemma NewUnaryHandler_reply:
  assumes "connect_ok K" and "schema_ok s"
    and "cn_ReadRequest K r = Inr b" and "cd_Unmarshal (sc_Req s) b = Some q"
    and "NewUnaryHandler K [Tenant, Logging clk] p s f r h = (resp, h')"
  obtains res where
    "gated (hdrGet (hq_Header r) ''X-Tenant-Id'') (f q) (sv_state h) = (res, sv_state h')"
    "case cn_ReadReply K resp of
       Inl e' \<Rightarrow> (case res of Inl e \<Rightarrow> sameError e e' | Inr a \<Rightarrow> \<not> schema_total s \<and> sameError (cn_MarshalError K) e')
     | Inr b' \<Rightarrow> \<exists>a. res = Inr a \<and> cd_Unmarshal (sc_Res s) b' = Some a"
proof -
  obtain res h1 where run: "foldr intercept [Tenant, Logging clk] (\<lambda>c req. inState (f q)) None
      \<lparr>ar_Procedure = p, ar_Header = hq_Header r\<rparr> h = (res, h1)"
    by fastforce
  have h1: "h1 = h'" using assms(3-5) run
    by (auto simp: NewUnaryHandler_def split: sum.splits option.splits)
  show thesis
  proof (rule that [of res])
    show "gated (hdrGet (hq_Header r) ''X-Tenant-Id'') (f q) (sv_state h) = (res, sv_state h')"
      using intercepted [OF run] h1 by simp
    show "case cn_ReadReply K resp of
       Inl e' \<Rightarrow> (case res of Inl e \<Rightarrow> sameError e e' | Inr a \<Rightarrow> \<not> schema_total s \<and> sameError (cn_MarshalError K) e')
     | Inr b' \<Rightarrow> \<exists>a. res = Inr a \<and> cd_Unmarshal (sc_Res s) b' = Some a"
    proof (cases res)
      case (Inl e)
      with assms(3-5) run have "resp = cn_WriteReply K (Inl e)" by (simp add: NewUnaryHandler_def)
      with connect_okD(4) [OF assms(1), of e] Inl show ?thesis by auto
    next
      case (Inr a)
      show ?thesis
      proof (cases "cd_Marshal (sc_Res s) a")
        case None
        with Inr assms(3-5) run have "resp = cn_WriteReply K (Inl (cn_MarshalError K))"
          by (simp add: NewUnaryHandler_def)
        with connect_okD(4) [OF assms(1), of "cn_MarshalError K"] Inr None show ?thesis
          by (auto simp: schema_total_def)
      next
        case (Some b')
        with Inr assms(3-5) run have "resp = cn_WriteReply K (Inr b')" by (simp add: NewUnaryHandler_def)
        with connect_okD(3) [OF assms(1)] Inr Some assms(2) show ?thesis
          by (simp add: schema_ok_def codec_lossless_def)
      qed
    qed
  qed
qed

lemma CallUnary_forwards:
  assumes "hosted K P rt srv clk svc" and "cleanHeader t" and "plainHost scheme host"
    and "schema_ok s" and "\<forall>c \<in> set name. c \<notin> {CHR ''?'', CHR ''#''}"
    and "codecs_total P \<Longrightarrow> schema_total s"
    and "map_of (ledgerServiceHandlers K P [Tenant, Logging clk] svc)
      (''/ledger.v1.LedgerService/'' @ name) = Some (NewUnaryHandler K [Tenant, Logging clk] p s f)"
  shows "forwards K (mayFail P rt) t srv (CallUnary K \<lparr>cc_HTTPClient = tenantTransport rt t,
      cc_URL = trimSlashes (siteURL scheme host k) @ ''/ledger.v1.LedgerService/'' @ name,
      cc_Schema = s\<rparr> q) (f q)"
  unfolding forwards_def
proof (intro allI impI)
  fix n res n'
  let ?u = "trimSlashes (siteURL scheme host k) @ ''/ledger.v1.LedgerService/'' @ name"
  let ?run = "gated t (f q) (sv_state (srv n))"
  assume call: "CallUnary K \<lparr>cc_HTTPClient = tenantTransport rt t, cc_URL = ?u, cc_Schema = s\<rparr> q n = (res, n')"
  note K = hosted_def [THEN iffD1, OF assms(1), THEN conjunct1]
  show "outcome K (mayFail P rt n) ?run (sv_state (srv n)) res (sv_state (srv n'))"
  proof (cases "cd_Marshal (sc_Req s) q")
    case None
    with assms(6) have "mayFail P rt n" unfolding mayFail_def schema_total_def by blast
    with None call show ?thesis
      by (auto simp: CallUnary_def throwE_def outcome_def wireError_def sameError_def)
  next
    case (Some b)
    define req where "req = (cn_NewRequest K ?u b)\<lparr>hq_Header :=
        hdrSet ''X-Tenant-Id'' t (hq_Header (cn_NewRequest K ?u b))\<rparr>"
    have t: "hdrGet (hq_Header req) ''X-Tenant-Id'' = t" by (simp add: req_def)
    have read: "cn_ReadRequest K req = Inr b" using connect_okD(2) [OF K] by (simp add: req_def)
    have dec: "cd_Unmarshal (sc_Req s) b = Some q"
      using assms(4) Some by (simp add: schema_ok_def codec_lossless_def)
    have "urlPath (hq_URL req) = ''/ledger.v1.LedgerService/'' @ name"
      using urlPath_procedure [OF assms(3,5)] connect_okD(1) [OF K] by (simp add: req_def)
    note H = httpServer_route [OF this assms(7)]
    obtain resp hs where h: "NewUnaryHandler K [Tenant, Logging clk] p s f req (srv n) = (resp, hs)"
      by fastforce
    from NewUnaryHandler_reply [OF K assms(4) read dec h] obtain r where
      r: "?run = (r, sv_state hs)" and
      reply: "case cn_ReadReply K resp of
         Inl e' \<Rightarrow> (case r of Inl e \<Rightarrow> sameError e e' | Inr a \<Rightarrow> \<not> schema_total s \<and> sameError (cn_MarshalError K) e')
       | Inr b' \<Rightarrow> \<exists>a. r = Inr a \<and> cd_Unmarshal (sc_Res s) b' = Some a"
      unfolding t by blast
    obtain tr n1 where trip: "rt req n = (tr, n1)" by fastforce
    have carried: "case tr of Inr p' \<Rightarrow> (resp, hs) = (p', srv n1) | Inl e \<Rightarrow> srv n1 = srv n \<or> srv n1 = hs"
      using carriesD [of rt "httpServer K P clk svc" srv req n tr n1] assms(1,2) trip t h
      by (simp add: hosted_def H split: sum.splits)
    show ?thesis
    proof (cases tr)
      case (Inl e)
      with call Some trip have "res = Inl (cn_NetError K e)" "n' = n1"
        by (auto simp: CallUnary_def tenantTransport_def req_def bindE_def mapErr_def)
      moreover have "mayFail P rt n" using trip Inl by (auto simp: mayFail_def)
      ultimately show ?thesis using carried r Inl by (auto simp: outcome_def wireError_def)
    next
      case (Inr p')
      with carried have "p' = resp" "srv n1 = hs" by simp_all
      with call Some trip Inr reply r assms(6) show ?thesis
        by (auto simp: CallUnary_def tenantTransport_def req_def bindE_def mapErr_def throwE_def ret_def
          outcome_def wireError_def mayFail_def split: sum.splits)
    qed
  qed
qed

section \<open>Every method of the remote client\<close>

lemma NewRemote_simps:
  "cl_CreateAccount (NewRemote K P dt url t opts) r1 = CallUnary K
     \<lparr>cc_HTTPClient = tenantTransport (baseTransport dt opts) t,
      cc_URL = trimSlashes url @ LedgerServiceCreateAccountProcedure, cc_Schema = pb_CreateAccount P\<rparr> r1"
  "cl_GetAccount (NewRemote K P dt url t opts) tn i = CallUnary K
     \<lparr>cc_HTTPClient = tenantTransport (baseTransport dt opts) t,
      cc_URL = trimSlashes url @ LedgerServiceGetAccountProcedure, cc_Schema = pb_GetAccount P\<rparr> (tn, i)"
  "cl_GetBalance (NewRemote K P dt url t opts) r3 = CallUnary K
     \<lparr>cc_HTTPClient = tenantTransport (baseTransport dt opts) t,
      cc_URL = trimSlashes url @ LedgerServiceGetBalanceProcedure, cc_Schema = pb_GetBalance P\<rparr> r3"
  "cl_PostJournal (NewRemote K P dt url t opts) r4 = CallUnary K
     \<lparr>cc_HTTPClient = tenantTransport (baseTransport dt opts) t,
      cc_URL = trimSlashes url @ LedgerServicePostJournalProcedure, cc_Schema = pb_PostJournal P\<rparr> r4"
  "cl_ExecuteFlow (NewRemote K P dt url t opts) r5 = CallUnary K
     \<lparr>cc_HTTPClient = tenantTransport (baseTransport dt opts) t,
      cc_URL = trimSlashes url @ LedgerServiceExecuteFlowProcedure, cc_Schema = pb_ExecuteFlow P\<rparr> r5"
  "cl_GetFlow (NewRemote K P dt url t opts) tn i = CallUnary K
     \<lparr>cc_HTTPClient = tenantTransport (baseTransport dt opts) t,
      cc_URL = trimSlashes url @ LedgerServiceGetFlowProcedure, cc_Schema = pb_GetFlow P\<rparr> (tn, i)"
  "cl_ListAccountActivity (NewRemote K P dt url t opts) r7 = CallUnary K
     \<lparr>cc_HTTPClient = tenantTransport (baseTransport dt opts) t,
      cc_URL = trimSlashes url @ LedgerServiceListAccountActivityProcedure, cc_Schema = pb_ListAccountActivity P\<rparr> r7"
  "cl_TakeBalanceSnapshot (NewRemote K P dt url t opts) r8 = CallUnary K
     \<lparr>cc_HTTPClient = tenantTransport (baseTransport dt opts) t,
      cc_URL = trimSlashes url @ LedgerServiceTakeBalanceSnapshotProcedure, cc_Schema = pb_TakeBalanceSnapshot P\<rparr> r8"
  "cl_CreateReservation (NewRemote K P dt url t opts) r9 = CallUnary K
     \<lparr>cc_HTTPClient = tenantTransport (baseTransport dt opts) t,
      cc_URL = trimSlashes url @ LedgerServiceCreateReservationProcedure, cc_Schema = pb_CreateReservation P\<rparr> r9"
  "cl_CommitReservation (NewRemote K P dt url t opts) r10 = CallUnary K
     \<lparr>cc_HTTPClient = tenantTransport (baseTransport dt opts) t,
      cc_URL = trimSlashes url @ LedgerServiceCommitReservationProcedure, cc_Schema = pb_CommitReservation P\<rparr> r10"
  "cl_ReleaseReservation (NewRemote K P dt url t opts) r11 = CallUnary K
     \<lparr>cc_HTTPClient = tenantTransport (baseTransport dt opts) t,
      cc_URL = trimSlashes url @ LedgerServiceReleaseReservationProcedure, cc_Schema = pb_ReleaseReservation P\<rparr> r11"
  "cl_GetReservation (NewRemote K P dt url t opts) tn i = CallUnary K
     \<lparr>cc_HTTPClient = tenantTransport (baseTransport dt opts) t,
      cc_URL = trimSlashes url @ LedgerServiceGetReservationProcedure, cc_Schema = pb_GetReservation P\<rparr> (tn, i)"
  "cl_ListReservations (NewRemote K P dt url t opts) r13 = CallUnary K
     \<lparr>cc_HTTPClient = tenantTransport (baseTransport dt opts) t,
      cc_URL = trimSlashes url @ LedgerServiceListReservationsProcedure, cc_Schema = pb_ListReservations P\<rparr> r13"
  "cl_ExecuteExchange (NewRemote K P dt url t opts) r14 = CallUnary K
     \<lparr>cc_HTTPClient = tenantTransport (baseTransport dt opts) t,
      cc_URL = trimSlashes url @ LedgerServiceExecuteExchangeProcedure, cc_Schema = pb_ExecuteExchange P\<rparr> r14"
  "cl_PutFXRate (NewRemote K P dt url t opts) r15 = CallUnary K
     \<lparr>cc_HTTPClient = tenantTransport (baseTransport dt opts) t,
      cc_URL = trimSlashes url @ LedgerServicePutFXRateProcedure, cc_Schema = pb_PutFXRate P\<rparr> r15"
  "cl_GetFXRate (NewRemote K P dt url t opts) r16 = CallUnary K
     \<lparr>cc_HTTPClient = tenantTransport (baseTransport dt opts) t,
      cc_URL = trimSlashes url @ LedgerServiceGetFXRateProcedure, cc_Schema = pb_GetFXRate P\<rparr> r16"
  "cl_ListFXRates (NewRemote K P dt url t opts) r17 = CallUnary K
     \<lparr>cc_HTTPClient = tenantTransport (baseTransport dt opts) t,
      cc_URL = trimSlashes url @ LedgerServiceListFXRatesProcedure, cc_Schema = pb_ListFXRates P\<rparr> r17"
  "cl_IngestExternalRecords (NewRemote K P dt url t opts) r18 = CallUnary K
     \<lparr>cc_HTTPClient = tenantTransport (baseTransport dt opts) t,
      cc_URL = trimSlashes url @ LedgerServiceIngestExternalRecordsProcedure, cc_Schema = pb_IngestExternalRecords P\<rparr> r18"
  "cl_RunReconciliation (NewRemote K P dt url t opts) r19 = CallUnary K
     \<lparr>cc_HTTPClient = tenantTransport (baseTransport dt opts) t,
      cc_URL = trimSlashes url @ LedgerServiceRunReconciliationProcedure, cc_Schema = pb_RunReconciliation P\<rparr> r19"
  "cl_GetReconciliationBatch (NewRemote K P dt url t opts) tn i = CallUnary K
     \<lparr>cc_HTTPClient = tenantTransport (baseTransport dt opts) t,
      cc_URL = trimSlashes url @ LedgerServiceGetReconciliationBatchProcedure, cc_Schema = pb_GetReconciliationBatch P\<rparr> (tn, i)"
  "cl_ListDiscrepancies (NewRemote K P dt url t opts) r21 = CallUnary K
     \<lparr>cc_HTTPClient = tenantTransport (baseTransport dt opts) t,
      cc_URL = trimSlashes url @ LedgerServiceListDiscrepanciesProcedure, cc_Schema = pb_ListDiscrepancies P\<rparr> r21"
  "cl_ResolveDiscrepancy (NewRemote K P dt url t opts) r22 = CallUnary K
     \<lparr>cc_HTTPClient = tenantTransport (baseTransport dt opts) t,
      cc_URL = trimSlashes url @ LedgerServiceResolveDiscrepancyProcedure, cc_Schema = pb_ResolveDiscrepancy P\<rparr> r22"
  by (simp_all add: NewRemote_def remoteClient_def ledgerServiceClientMethods_def NewLedgerServiceClient_def Let_def)

text \<open>A remote client of a server that runs \<open>svc\<close>.\<close>

definition remoteOf :: "'b connect_lib \<Rightarrow> 'b codecs \<Rightarrow> ('n, 'b) round_trip \<Rightarrow>
    (('n, 'b) remoteOptions \<Rightarrow> ('n, 'b) remoteOptions) list \<Rightarrow> string \<Rightarrow> string \<Rightarrow> string \<Rightarrow>
    ('n \<Rightarrow> 'c server) \<Rightarrow> (nat \<Rightarrow> time) \<Rightarrow> 'c client \<Rightarrow> bool" where
  "remoteOf K P dt opts t scheme host srv clk svc \<longleftrightarrow>
     hosted K P (baseTransport dt opts) srv clk svc \<and> cleanHeader t \<and> plainHost scheme host"

lemma codecs_okD:
  assumes "codecs_ok P"
  shows "schema_ok (pb_CreateAccount P)"
    and "schema_ok (pb_GetAccount P)"
    and "schema_ok (pb_GetBalance P)"
    and "schema_ok (pb_PostJournal P)"
    and "schema_ok (pb_ExecuteFlow P)"
    and "schema_ok (pb_GetFlow P)"
    and "schema_ok (pb_ListAccountActivity P)"
    and "schema_ok (pb_TakeBalanceSnapshot P)"
    and "schema_ok (pb_CreateReservation P)"
    and "schema_ok (pb_CommitReservation P)"
    and "schema_ok (pb_ReleaseReservation P)"
    and "schema_ok (pb_GetReservation P)"
    and "schema_ok (pb_ListReservations P)"
    and "schema_ok (pb_ExecuteExchange P)"
    and "schema_ok (pb_PutFXRate P)"
    and "schema_ok (pb_GetFXRate P)"
    and "schema_ok (pb_ListFXRates P)"
    and "schema_ok (pb_IngestExternalRecords P)"
    and "schema_ok (pb_RunReconciliation P)"
    and "schema_ok (pb_GetReconciliationBatch P)"
    and "schema_ok (pb_ListDiscrepancies P)"
    and "schema_ok (pb_ResolveDiscrepancy P)"
  using assms by (simp_all add: codecs_ok_def)

lemma codecs_totalD:
  assumes "codecs_total P"
  shows "schema_total (pb_CreateAccount P)"
    and "schema_total (pb_GetAccount P)"
    and "schema_total (pb_GetBalance P)"
    and "schema_total (pb_PostJournal P)"
    and "schema_total (pb_ExecuteFlow P)"
    and "schema_total (pb_GetFlow P)"
    and "schema_total (pb_ListAccountActivity P)"
    and "schema_total (pb_TakeBalanceSnapshot P)"
    and "schema_total (pb_CreateReservation P)"
    and "schema_total (pb_CommitReservation P)"
    and "schema_total (pb_ReleaseReservation P)"
    and "schema_total (pb_GetReservation P)"
    and "schema_total (pb_ListReservations P)"
    and "schema_total (pb_ExecuteExchange P)"
    and "schema_total (pb_PutFXRate P)"
    and "schema_total (pb_GetFXRate P)"
    and "schema_total (pb_ListFXRates P)"
    and "schema_total (pb_IngestExternalRecords P)"
    and "schema_total (pb_RunReconciliation P)"
    and "schema_total (pb_GetReconciliationBatch P)"
    and "schema_total (pb_ListDiscrepancies P)"
    and "schema_total (pb_ResolveDiscrepancy P)"
  using assms by (simp_all add: codecs_total_def)

lemma method_forwards:
  assumes "remoteOf K P dt opts t scheme host srv clk svc" and "codecs_ok P \<Longrightarrow> schema_ok s" and "codecs_total P \<Longrightarrow> schema_total s"
    and "p = ''/ledger.v1.LedgerService/'' @ name" and "\<forall>c \<in> set name. c \<notin> {CHR ''?'', CHR ''#''}"
    and "map_of (ledgerServiceHandlers K P [Tenant, Logging clk] svc) p =
      Some (NewUnaryHandler K [Tenant, Logging clk] p s f)"
  shows "forwards K (mayFail P (baseTransport dt opts)) t srv (CallUnary K \<lparr>cc_HTTPClient = tenantTransport (baseTransport dt opts) t,
      cc_URL = trimSlashes (siteURL scheme host k) @ p, cc_Schema = s\<rparr> q) (f q)"
  using CallUnary_forwards [of K P "baseTransport dt opts" srv clk svc t scheme host s name p f k q] assms
  by (simp add: remoteOf_def hosted_def)

lemma remote_forwards:
  assumes "remoteOf K P dt opts t scheme host srv clk svc"
  shows "forwards K (mayFail P (baseTransport dt opts)) t srv
      (cl_CreateAccount (NewRemote K P dt (siteURL scheme host k) t opts) r1)
      (cl_CreateAccount svc r1)"
    and "forwards K (mayFail P (baseTransport dt opts)) t srv
      (cl_GetAccount (NewRemote K P dt (siteURL scheme host k) t opts) tn i)
      (cl_GetAccount svc tn i)"
    and "forwards K (mayFail P (baseTransport dt opts)) t srv
      (cl_GetBalance (NewRemote K P dt (siteURL scheme host k) t opts) r3)
      (cl_GetBalance svc r3)"
    and "forwards K (mayFail P (baseTransport dt opts)) t srv
      (cl_PostJournal (NewRemote K P dt (siteURL scheme host k) t opts) r4)
      (cl_PostJournal svc r4)"
    and "forwards K (mayFail P (baseTransport dt opts)) t srv
      (cl_ExecuteFlow (NewRemote K P dt (siteURL scheme host k) t opts) r5)
      (cl_ExecuteFlow svc r5)"
    and "forwards K (mayFail P (baseTransport dt opts)) t srv
      (cl_GetFlow (NewRemote K P dt (siteURL scheme host k) t opts) tn i)
      (cl_GetFlow svc tn i)"
    and "forwards K (mayFail P (baseTransport dt opts)) t srv
      (cl_ListAccountActivity (NewRemote K P dt (siteURL scheme host k) t opts) r7)
      (cl_ListAccountActivity svc r7)"
    and "forwards K (mayFail P (baseTransport dt opts)) t srv
      (cl_TakeBalanceSnapshot (NewRemote K P dt (siteURL scheme host k) t opts) r8)
      (cl_TakeBalanceSnapshot svc r8)"
    and "forwards K (mayFail P (baseTransport dt opts)) t srv
      (cl_CreateReservation (NewRemote K P dt (siteURL scheme host k) t opts) r9)
      (cl_CreateReservation svc r9)"
    and "forwards K (mayFail P (baseTransport dt opts)) t srv
      (cl_CommitReservation (NewRemote K P dt (siteURL scheme host k) t opts) r10)
      (cl_CommitReservation svc r10)"
    and "forwards K (mayFail P (baseTransport dt opts)) t srv
      (cl_ReleaseReservation (NewRemote K P dt (siteURL scheme host k) t opts) r11)
      (cl_ReleaseReservation svc r11)"
    and "forwards K (mayFail P (baseTransport dt opts)) t srv
      (cl_GetReservation (NewRemote K P dt (siteURL scheme host k) t opts) tn i)
      (cl_GetReservation svc tn i)"
    and "forwards K (mayFail P (baseTransport dt opts)) t srv
      (cl_ListReservations (NewRemote K P dt (siteURL scheme host k) t opts) r13)
      (cl_ListReservations svc r13)"
    and "forwards K (mayFail P (baseTransport dt opts)) t srv
      (cl_ExecuteExchange (NewRemote K P dt (siteURL scheme host k) t opts) r14)
      (cl_ExecuteExchange svc r14)"
    and "forwards K (mayFail P (baseTransport dt opts)) t srv
      (cl_PutFXRate (NewRemote K P dt (siteURL scheme host k) t opts) r15)
      (cl_PutFXRate svc r15)"
    and "forwards K (mayFail P (baseTransport dt opts)) t srv
      (cl_GetFXRate (NewRemote K P dt (siteURL scheme host k) t opts) r16)
      (cl_GetFXRate svc r16)"
    and "forwards K (mayFail P (baseTransport dt opts)) t srv
      (cl_ListFXRates (NewRemote K P dt (siteURL scheme host k) t opts) r17)
      (cl_ListFXRates svc r17)"
    and "forwards K (mayFail P (baseTransport dt opts)) t srv
      (cl_IngestExternalRecords (NewRemote K P dt (siteURL scheme host k) t opts) r18)
      (cl_IngestExternalRecords svc r18)"
    and "forwards K (mayFail P (baseTransport dt opts)) t srv
      (cl_RunReconciliation (NewRemote K P dt (siteURL scheme host k) t opts) r19)
      (cl_RunReconciliation svc r19)"
    and "forwards K (mayFail P (baseTransport dt opts)) t srv
      (cl_GetReconciliationBatch (NewRemote K P dt (siteURL scheme host k) t opts) tn i)
      (cl_GetReconciliationBatch svc tn i)"
    and "forwards K (mayFail P (baseTransport dt opts)) t srv
      (cl_ListDiscrepancies (NewRemote K P dt (siteURL scheme host k) t opts) r21)
      (cl_ListDiscrepancies svc r21)"
    and "forwards K (mayFail P (baseTransport dt opts)) t srv
      (cl_ResolveDiscrepancy (NewRemote K P dt (siteURL scheme host k) t opts) r22)
      (cl_ResolveDiscrepancy svc r22)"
proof -
  show "forwards K (mayFail P (baseTransport dt opts)) t srv
      (cl_CreateAccount (NewRemote K P dt (siteURL scheme host k) t opts) r1)
      (cl_CreateAccount svc r1)"
    using method_forwards [OF assms codecs_okD(1) codecs_totalD(1) procedure_path(1) _ handler_of(1), where k = k and q = "r1"]
    by (simp add: NewRemote_simps(1))
  show "forwards K (mayFail P (baseTransport dt opts)) t srv
      (cl_GetAccount (NewRemote K P dt (siteURL scheme host k) t opts) tn i)
      (cl_GetAccount svc tn i)"
    using method_forwards [OF assms codecs_okD(2) codecs_totalD(2) procedure_path(2) _ handler_of(2), where k = k and q = "(tn, i)"]
    by (simp add: NewRemote_simps(2))
  show "forwards K (mayFail P (baseTransport dt opts)) t srv
      (cl_GetBalance (NewRemote K P dt (siteURL scheme host k) t opts) r3)
      (cl_GetBalance svc r3)"
    using method_forwards [OF assms codecs_okD(3) codecs_totalD(3) procedure_path(3) _ handler_of(3), where k = k and q = "r3"]
    by (simp add: NewRemote_simps(3))
  show "forwards K (mayFail P (baseTransport dt opts)) t srv
      (cl_PostJournal (NewRemote K P dt (siteURL scheme host k) t opts) r4)
      (cl_PostJournal svc r4)"
    using method_forwards [OF assms codecs_okD(4) codecs_totalD(4) procedure_path(4) _ handler_of(4), where k = k and q = "r4"]
    by (simp add: NewRemote_simps(4))
  show "forwards K (mayFail P (baseTransport dt opts)) t srv
      (cl_ExecuteFlow (NewRemote K P dt (siteURL scheme host k) t opts) r5)
      (cl_ExecuteFlow svc r5)"
    using method_forwards [OF assms codecs_okD(5) codecs_totalD(5) procedure_path(5) _ handler_of(5), where k = k and q = "r5"]
    by (simp add: NewRemote_simps(5))
  show "forwards K (mayFail P (baseTransport dt opts)) t srv
      (cl_GetFlow (NewRemote K P dt (siteURL scheme host k) t opts) tn i)
      (cl_GetFlow svc tn i)"
    using method_forwards [OF assms codecs_okD(6) codecs_totalD(6) procedure_path(6) _ handler_of(6), where k = k and q = "(tn, i)"]
    by (simp add: NewRemote_simps(6))
  show "forwards K (mayFail P (baseTransport dt opts)) t srv
      (cl_ListAccountActivity (NewRemote K P dt (siteURL scheme host k) t opts) r7)
      (cl_ListAccountActivity svc r7)"
    using method_forwards [OF assms codecs_okD(7) codecs_totalD(7) procedure_path(7) _ handler_of(7), where k = k and q = "r7"]
    by (simp add: NewRemote_simps(7))
  show "forwards K (mayFail P (baseTransport dt opts)) t srv
      (cl_TakeBalanceSnapshot (NewRemote K P dt (siteURL scheme host k) t opts) r8)
      (cl_TakeBalanceSnapshot svc r8)"
    using method_forwards [OF assms codecs_okD(8) codecs_totalD(8) procedure_path(8) _ handler_of(8), where k = k and q = "r8"]
    by (simp add: NewRemote_simps(8))
  show "forwards K (mayFail P (baseTransport dt opts)) t srv
      (cl_CreateReservation (NewRemote K P dt (siteURL scheme host k) t opts) r9)
      (cl_CreateReservation svc r9)"
    using method_forwards [OF assms codecs_okD(9) codecs_totalD(9) procedure_path(9) _ handler_of(9), where k = k and q = "r9"]
    by (simp add: NewRemote_simps(9))
  show "forwards K (mayFail P (baseTransport dt opts)) t srv
      (cl_CommitReservation (NewRemote K P dt (siteURL scheme host k) t opts) r10)
      (cl_CommitReservation svc r10)"
    using method_forwards [OF assms codecs_okD(10) codecs_totalD(10) procedure_path(10) _ handler_of(10), where k = k and q = "r10"]
    by (simp add: NewRemote_simps(10))
  show "forwards K (mayFail P (baseTransport dt opts)) t srv
      (cl_ReleaseReservation (NewRemote K P dt (siteURL scheme host k) t opts) r11)
      (cl_ReleaseReservation svc r11)"
    using method_forwards [OF assms codecs_okD(11) codecs_totalD(11) procedure_path(11) _ handler_of(11), where k = k and q = "r11"]
    by (simp add: NewRemote_simps(11))
  show "forwards K (mayFail P (baseTransport dt opts)) t srv
      (cl_GetReservation (NewRemote K P dt (siteURL scheme host k) t opts) tn i)
      (cl_GetReservation svc tn i)"
    using method_forwards [OF assms codecs_okD(12) codecs_totalD(12) procedure_path(12) _ handler_of(12), where k = k and q = "(tn, i)"]
    by (simp add: NewRemote_simps(12))
  show "forwards K (mayFail P (baseTransport dt opts)) t srv
      (cl_ListReservations (NewRemote K P dt (siteURL scheme host k) t opts) r13)
      (cl_ListReservations svc r13)"
    using method_forwards [OF assms codecs_okD(13) codecs_totalD(13) procedure_path(13) _ handler_of(13), where k = k and q = "r13"]
    by (simp add: NewRemote_simps(13))
  show "forwards K (mayFail P (baseTransport dt opts)) t srv
      (cl_ExecuteExchange (NewRemote K P dt (siteURL scheme host k) t opts) r14)
      (cl_ExecuteExchange svc r14)"
    using method_forwards [OF assms codecs_okD(14) codecs_totalD(14) procedure_path(14) _ handler_of(14), where k = k and q = "r14"]
    by (simp add: NewRemote_simps(14))
  show "forwards K (mayFail P (baseTransport dt opts)) t srv
      (cl_PutFXRate (NewRemote K P dt (siteURL scheme host k) t opts) r15)
      (cl_PutFXRate svc r15)"
    using method_forwards [OF assms codecs_okD(15) codecs_totalD(15) procedure_path(15) _ handler_of(15), where k = k and q = "r15"]
    by (simp add: NewRemote_simps(15))
  show "forwards K (mayFail P (baseTransport dt opts)) t srv
      (cl_GetFXRate (NewRemote K P dt (siteURL scheme host k) t opts) r16)
      (cl_GetFXRate svc r16)"
    using method_forwards [OF assms codecs_okD(16) codecs_totalD(16) procedure_path(16) _ handler_of(16), where k = k and q = "r16"]
    by (simp add: NewRemote_simps(16))
  show "forwards K (mayFail P (baseTransport dt opts)) t srv
      (cl_ListFXRates (NewRemote K P dt (siteURL scheme host k) t opts) r17)
      (cl_ListFXRates svc r17)"
    using method_forwards [OF assms codecs_okD(17) codecs_totalD(17) procedure_path(17) _ handler_of(17), where k = k and q = "r17"]
    by (simp add: NewRemote_simps(17))
  show "forwards K (mayFail P (baseTransport dt opts)) t srv
      (cl_IngestExternalRecords (NewRemote K P dt (siteURL scheme host k) t opts) r18)
      (cl_IngestExternalRecords svc r18)"
    using method_forwards [OF assms codecs_okD(18) codecs_totalD(18) procedure_path(18) _ handler_of(18), where k = k and q = "r18"]
    by (simp add: NewRemote_simps(18))
  show "forwards K (mayFail P (baseTransport dt opts)) t srv
      (cl_RunReconciliation (NewRemote K P dt (siteURL scheme host k) t opts) r19)
      (cl_RunReconciliation svc r19)"
    using method_forwards [OF assms codecs_okD(19) codecs_totalD(19) procedure_path(19) _ handler_of(19), where k = k and q = "r19"]
    by (simp add: NewRemote_simps(19))
  show "forwards K (mayFail P (baseTransport dt opts)) t srv
      (cl_GetReconciliationBatch (NewRemote K P dt (siteURL scheme host k) t opts) tn i)
      (cl_GetReconciliationBatch svc tn i)"
    using method_forwards [OF assms codecs_okD(20) codecs_totalD(20) procedure_path(20) _ handler_of(20), where k = k and q = "(tn, i)"]
    by (simp add: NewRemote_simps(20))
  show "forwards K (mayFail P (baseTransport dt opts)) t srv
      (cl_ListDiscrepancies (NewRemote K P dt (siteURL scheme host k) t opts) r21)
      (cl_ListDiscrepancies svc r21)"
    using method_forwards [OF assms codecs_okD(21) codecs_totalD(21) procedure_path(21) _ handler_of(21), where k = k and q = "r21"]
    by (simp add: NewRemote_simps(21))
  show "forwards K (mayFail P (baseTransport dt opts)) t srv
      (cl_ResolveDiscrepancy (NewRemote K P dt (siteURL scheme host k) t opts) r22)
      (cl_ResolveDiscrepancy svc r22)"
    using method_forwards [OF assms codecs_okD(22) codecs_totalD(22) procedure_path(22) _ handler_of(22), where k = k and q = "r22"]
    by (simp add: NewRemote_simps(22))
qed

end
