(* ===== verification/Remote_Contract.thy ===== *)
theory Remote_Contract
  imports Remote
begin

text \<open>
  What a caller may rely on over the network.

  \<^item> \<open>answer\<close> is a call of any of the 22 methods with its answer; \<open>remote_answer\<close> relates the
    answer of the remote client to the one of the client the server runs.
  \<^item> \<open>wire_client\<close> is the contract of a client whose errors may hide a success. Every
    \<open>ledger_client\<close> meets it, and so does a remote client of a server that runs one. It is
    enough for a wallet that repeats a transfer until it succeeds. It is interpreted on the
    remote client of a server over SQLite, as \<open>rem\<close>.
\<close>

section \<open>A call and its answer\<close>

datatype reply =
    PAccount AccountMsg
  | PBalance BalanceMsg
  | PJournal PostJournalResponse
  | PFlow ExecuteFlowResponse
  | PActivity "AccountActivityEntry list"
  | PCount i32
  | PReservation ReservationMsg
  | PReservations "ReservationMsg list"
  | PExchange ExecuteExchangeResponse
  | PFXRate FXRateMsg
  | PFXRates "FXRateMsg list"
  | PIngested "i32 \<times> i32"
  | PBatch ReconciliationBatchMsg
  | PDiscrepancies "DiscrepancyMsg list"
  | PDiscrepancy DiscrepancyMsg

definition mapE :: "('a \<Rightarrow> 'b) \<Rightarrow> ('s, 'e, 'a) exec \<Rightarrow> ('s, 'e, 'b) exec" where
  "mapE f m = bindE m (\<lambda>a. ret (f a))"

fun answer :: "'c client \<Rightarrow> rpc \<Rightarrow> ('c, connect_error, reply) exec" where
  "answer C (RCreateAccount r) = mapE PAccount (cl_CreateAccount C r)"
| "answer C (RGetAccount tn i) = mapE PAccount (cl_GetAccount C tn i)"
| "answer C (RGetBalance r) = mapE PBalance (cl_GetBalance C r)"
| "answer C (RPostJournal r) = mapE PJournal (cl_PostJournal C r)"
| "answer C (RExecuteFlow r) = mapE PFlow (cl_ExecuteFlow C r)"
| "answer C (RGetFlow tn i) = mapE PFlow (cl_GetFlow C tn i)"
| "answer C (RListAccountActivity r) = mapE PActivity (cl_ListAccountActivity C r)"
| "answer C (RTakeBalanceSnapshot r) = mapE PCount (cl_TakeBalanceSnapshot C r)"
| "answer C (RCreateReservation r) = mapE PReservation (cl_CreateReservation C r)"
| "answer C (RCommitReservation r) = mapE PReservation (cl_CommitReservation C r)"
| "answer C (RReleaseReservation r) = mapE PReservation (cl_ReleaseReservation C r)"
| "answer C (RGetReservation tn i) = mapE PReservation (cl_GetReservation C tn i)"
| "answer C (RListReservations r) = mapE PReservations (cl_ListReservations C r)"
| "answer C (RExecuteExchange r) = mapE PExchange (cl_ExecuteExchange C r)"
| "answer C (RPutFXRate r) = mapE PFXRate (cl_PutFXRate C r)"
| "answer C (RGetFXRate r) = mapE PFXRate (cl_GetFXRate C r)"
| "answer C (RListFXRates r) = mapE PFXRates (cl_ListFXRates C r)"
| "answer C (RIngestExternalRecords r) = mapE PIngested (cl_IngestExternalRecords C r)"
| "answer C (RRunReconciliation r) = mapE PBatch (cl_RunReconciliation C r)"
| "answer C (RGetReconciliationBatch tn i) = mapE PBatch (cl_GetReconciliationBatch C tn i)"
| "answer C (RListDiscrepancies r) = mapE PDiscrepancies (cl_ListDiscrepancies C r)"
| "answer C (RResolveDiscrepancy r) = mapE PDiscrepancy (cl_ResolveDiscrepancy C r)"

text \<open>\<open>serve\<close> is \<open>answer\<close> without the answer.\<close>

lemma call_mapE: "call (mapE f m) = call m"
  by (auto simp: call_def mapE_def bindE_def ret_def fun_eq_iff split: prod.splits sum.splits)

lemma serve_answer: "serve C r = call (answer C r)"
  by (cases r) (simp_all add: call_mapE)

lemma mapE_run: "mapE f m s = (map_sum id f (fst (m s)), snd (m s))"
  by (auto simp: mapE_def bindE_def ret_def split: prod.splits sum.splits)

lemma gated_mapE: "gated t (mapE f m) = mapE f (gated t m)"
  by (auto simp: gated_def mapE_run throwE_def fun_eq_iff)

lemma outcome_map:
  assumes "outcome K lossy run c res c'"
  shows "outcome K lossy (map_sum id f (fst run), snd run) c (map_sum id f res) c'"
proof -
  have "rel_sum sameError (=) (map_sum id f (fst run)) (map_sum id f res)"
    if "rel_sum sameError (=) (fst run) res"
    using that by (auto elim: rel_sum.cases)
  with assms show ?thesis by (auto simp: outcome_def)
qed

lemma forwards_mapE:
  assumes "forwards K lossy t srv M m"
  shows "forwards K lossy t srv (mapE f M) (mapE f m)"
  unfolding forwards_def gated_mapE
proof (intro allI impI)
  fix n res n' assume "mapE f M n = (res, n')"
  then obtain r where "M n = (r, n')" "res = map_sum id f r" by (cases "M n") (auto simp: mapE_run)
  with outcome_map [OF forwardsD [OF assms], of n r n' f] show
    "outcome K (lossy n) (mapE f (gated t m) (sv_state (srv n))) (sv_state (srv n)) res (sv_state (srv n'))"
    by (simp add: mapE_run)
qed

lemma remote_answer:
  assumes "remoteOf K P dt opts t scheme host srv clk svc"
  shows "forwards K (mayFail P (baseTransport dt opts)) t srv
    (answer (NewRemote K P dt (siteURL scheme host k) t opts) r) (answer svc r)"
  by (cases r) (simp_all only: answer.simps forwards_mapE remote_forwards [OF assms])

section \<open>A client whose errors may hide a success\<close>

locale wire_client =
  fixes C :: "'c client"
    and D :: decimal_lib
    and E :: env
    and cview :: "'c \<Rightarrow> ledger_view"
    and cinv :: "'c \<Rightarrow> bool"
  assumes wire_PostJournal_ok: "cinv c \<Longrightarrow> cl_PostJournal C pr c = (Inr resp, c') \<Longrightarrow>
      cinv c' \<and> (\<exists>n fresp. flowDone E (postJournalFlow pr) n (cview c) fresp (cview c'))"
    and wire_PostJournal_err: "cinv c \<Longrightarrow> cl_PostJournal C pr c = (Inl e, c') \<Longrightarrow>
      cinv c' \<and> (cview c' = cview c \<or>
        (\<exists>n fresp. flowDone E (postJournalFlow pr) n (cview c) fresp (cview c')))"
    and wire_decimals: "env_D E = D"

sublocale ledger_client \<subseteq> wire: wire_client C D E cview cinv
  using PostJournal_ok PostJournal_err decimals(2) by unfold_locales blast+

text \<open>A transfer of the wallet whose answer is dropped.\<close>

definition transferAttempt :: "'c client \<Rightarrow> Wallet \<Rightarrow> TransferInput \<Rightarrow> string \<Rightarrow> string \<Rightarrow> 'c \<Rightarrow> 'c" where
  "transferAttempt C w i debit credit c = snd (postJournal C w i debit credit c)"

context wire_client
begin

lemma wire_attempts:
  assumes "cinv c"
  shows "cinv ((transferAttempt C w i dr cr ^^ n) c) \<and>
    (cview ((transferAttempt C w i dr cr ^^ n) c) = cview c \<or>
     (\<exists>m resp. flowDone E (postJournalFlow (transferJournal w i dr cr)) m (cview c) resp
        (cview ((transferAttempt C w i dr cr ^^ n) c))))"
proof (induction n)
  case 0
  with assms show ?case by simp
next
  case (Suc n)
  let ?c = "(transferAttempt C w i dr cr ^^ n) c"
  let ?r = "postJournalFlow (transferJournal w i dr cr)"
  obtain res c' where run: "cl_PostJournal C (transferJournal w i dr cr) ?c = (res, c')"
    by (cases "cl_PostJournal C (transferJournal w i dr cr) ?c")
  then have c': "(transferAttempt C w i dr cr ^^ Suc n) c = c'"
    by (auto simp: transferAttempt_def postJournal_def bindE_def mapErr_def ret_def split: sum.splits)
  from wire_PostJournal_ok [of ?c] wire_PostJournal_err [of ?c] run Suc
  have 1: "cinv c'" "cview c' = cview ?c \<or> (\<exists>m resp. flowDone E ?r m (cview ?c) resp (cview c'))"
    by (cases res; blast)+
  show ?case unfolding c' using Suc 1 flowDone_twice by metis
qed

lemma wire_repeat:
  assumes "cinv c"
    and "postJournal C w i dr cr ((transferAttempt C w i dr cr ^^ n) c) = (Inr rcp, c')"
  shows "cinv c' \<and> transferred D (wl_tenant w) i dr cr (cview c) (cview c')"
proof -
  let ?c = "(transferAttempt C w i dr cr ^^ n) c"
  let ?r = "postJournalFlow (transferJournal w i dr cr)"
  obtain resp where pj: "cl_PostJournal C (transferJournal w i dr cr) ?c = (Inr resp, c')"
    using assms(2) by (auto simp: postJournal_def exec_simps)
  note a = wire_attempts [OF assms(1), where w = w and i = i and dr = dr and cr = cr and n = n]
  note p = wire_PostJournal_ok [OF conjunct1 [OF a] pj]
  then obtain m fresp where f: "flowDone E ?r m (cview ?c) fresp (cview c')" by blast
  then have "\<exists>m fresp. flowDone E ?r m (cview c) fresp (cview c')"
    using a flowDone_twice by metis
  with p flowDone_transferred wire_decimals show ?thesis by blast
qed

lemma wire_error:
  assumes "cinv c" and "postJournal C w i dr cr c = (Inl e, c')"
  shows "cinv c' \<and> (cview c' = cview c \<or> transferred D (wl_tenant w) i dr cr (cview c) (cview c'))"
proof -
  obtain e0 where "cl_PostJournal C (transferJournal w i dr cr) c = (Inl e0, c')"
    using assms(2) by (auto simp: postJournal_def exec_simps)
  from wire_PostJournal_err [OF assms(1) this] flowDone_transferred wire_decimals show ?thesis by blast
qed

end

section \<open>The remote client of a server\<close>

context ledger_client
begin

lemma remote_wire:
  "wire_client (NewRemote K P dt (siteURL scheme host k) t opts) D E (\<lambda>n. cview (sv_state (srv n)))
     (\<lambda>n. cinv (sv_state (srv n)) \<and> remoteOf K P dt opts t scheme host srv clk C)"
proof (unfold_locales, goal_cases)
  case (1 n pr resp n')
  let ?c = "sv_state (srv n)"
  obtain rs c1 where run: "cl_PostJournal C pr ?c = (rs, c1)" by (cases "cl_PostJournal C pr ?c")
  from forwardsD [OF remote_forwards(4) [OF conjunct2 [OF 1(1)]] 1(2)] run have "rs = Inr resp" "sv_state (srv n') = c1"
    by (auto simp: outcome_def gated_def throwE_def split: if_splits elim: rel_sum.cases)
  with PostJournal_ok [of ?c pr resp c1] run 1 show ?case by simp
next
  case (2 n pr e n')
  let ?c = "sv_state (srv n)"
  obtain rs c1 where run: "cl_PostJournal C pr ?c = (rs, c1)" by (cases "cl_PostJournal C pr ?c")
  from forwardsD [OF remote_forwards(4) [OF conjunct2 [OF 2(1)]] 2(2)] run have "sv_state (srv n') = ?c \<or> sv_state (srv n') = c1"
    by (auto simp: outcome_def gated_def throwE_def split: if_splits)
  moreover have "cinv c1 \<and> (cview c1 = cview ?c \<or>
      (\<exists>n fresp. flowDone E (postJournalFlow pr) n (cview ?c) fresp (cview c1)))"
    using PostJournal_ok [of ?c pr _ c1] PostJournal_err [of ?c pr _ c1] run 2 by (cases rs) blast+
  ultimately show ?case using 2 by auto
qed (rule decimals(2))

end

interpretation rem: wire_client "NewRemote K P dt (siteURL scheme host k) t opts" "env_D E" E
    "\<lambda>n. sqliteView C (w_st (sv_state (srv n)))"
    "\<lambda>n. walletInv E C (sv_state (srv n)) \<and>
       remoteOf K P dt opts t scheme host srv clk (embeddedClient E (sqliteStore C))"
  for K P dt scheme host k t opts E C srv clk
  by (rule wal.remote_wire)

end
