(* ===== verification/Remote_Properties.thy ===== *)
theory Remote_Properties
  imports Remote_Contract Client_Properties
begin

text \<open>
  Properties of the remote client, and a network to try them on: \<open>demoTransport\<close> delivers a
  request, loses it or loses its reply, as a list of fates says. Bodies are the messages
  themselves, an error travels as its HTTP status, its code and the error code header.
\<close>

section \<open>A library and its encoders\<close>

datatype body = Req rpc | Rep reply

definition codecOf :: "('q \<Rightarrow> body) \<Rightarrow> (body \<Rightarrow> 'q option) \<Rightarrow> (body, 'q) codec" where
  "codecOf f g = \<lparr>cd_Marshal = (\<lambda>m. Some (f m)), cd_Unmarshal = g\<rparr>"

lemma codecOf_lossless [simp]: "codec_lossless (codecOf f g) \<longleftrightarrow> (\<forall>m. g (f m) = Some m)"
  by (auto simp: codec_lossless_def codecOf_def)

text \<open>The encoding of each type of reply.\<close>

definition repAccount :: "(body, AccountMsg) codec" where
  "repAccount = codecOf (\<lambda>m. Rep (PAccount m)) (\<lambda>b. case b of Rep (PAccount m) \<Rightarrow> Some m | _ \<Rightarrow> None)"

definition repBalance :: "(body, BalanceMsg) codec" where
  "repBalance = codecOf (\<lambda>m. Rep (PBalance m)) (\<lambda>b. case b of Rep (PBalance m) \<Rightarrow> Some m | _ \<Rightarrow> None)"

definition repJournal :: "(body, PostJournalResponse) codec" where
  "repJournal = codecOf (\<lambda>m. Rep (PJournal m)) (\<lambda>b. case b of Rep (PJournal m) \<Rightarrow> Some m | _ \<Rightarrow> None)"

definition repFlow :: "(body, ExecuteFlowResponse) codec" where
  "repFlow = codecOf (\<lambda>m. Rep (PFlow m)) (\<lambda>b. case b of Rep (PFlow m) \<Rightarrow> Some m | _ \<Rightarrow> None)"

definition repActivity :: "(body, (AccountActivityEntry list)) codec" where
  "repActivity = codecOf (\<lambda>m. Rep (PActivity m)) (\<lambda>b. case b of Rep (PActivity m) \<Rightarrow> Some m | _ \<Rightarrow> None)"

definition repCount :: "(body, i32) codec" where
  "repCount = codecOf (\<lambda>m. Rep (PCount m)) (\<lambda>b. case b of Rep (PCount m) \<Rightarrow> Some m | _ \<Rightarrow> None)"

definition repReservation :: "(body, ReservationMsg) codec" where
  "repReservation = codecOf (\<lambda>m. Rep (PReservation m)) (\<lambda>b. case b of Rep (PReservation m) \<Rightarrow> Some m | _ \<Rightarrow> None)"

definition repReservations :: "(body, (ReservationMsg list)) codec" where
  "repReservations = codecOf (\<lambda>m. Rep (PReservations m)) (\<lambda>b. case b of Rep (PReservations m) \<Rightarrow> Some m | _ \<Rightarrow> None)"

definition repExchange :: "(body, ExecuteExchangeResponse) codec" where
  "repExchange = codecOf (\<lambda>m. Rep (PExchange m)) (\<lambda>b. case b of Rep (PExchange m) \<Rightarrow> Some m | _ \<Rightarrow> None)"

definition repFXRate :: "(body, FXRateMsg) codec" where
  "repFXRate = codecOf (\<lambda>m. Rep (PFXRate m)) (\<lambda>b. case b of Rep (PFXRate m) \<Rightarrow> Some m | _ \<Rightarrow> None)"

definition repFXRates :: "(body, (FXRateMsg list)) codec" where
  "repFXRates = codecOf (\<lambda>m. Rep (PFXRates m)) (\<lambda>b. case b of Rep (PFXRates m) \<Rightarrow> Some m | _ \<Rightarrow> None)"

definition repIngested :: "(body, (i32 \<times> i32)) codec" where
  "repIngested = codecOf (\<lambda>m. Rep (PIngested m)) (\<lambda>b. case b of Rep (PIngested m) \<Rightarrow> Some m | _ \<Rightarrow> None)"

definition repBatch :: "(body, ReconciliationBatchMsg) codec" where
  "repBatch = codecOf (\<lambda>m. Rep (PBatch m)) (\<lambda>b. case b of Rep (PBatch m) \<Rightarrow> Some m | _ \<Rightarrow> None)"

definition repDiscrepancies :: "(body, (DiscrepancyMsg list)) codec" where
  "repDiscrepancies = codecOf (\<lambda>m. Rep (PDiscrepancies m)) (\<lambda>b. case b of Rep (PDiscrepancies m) \<Rightarrow> Some m | _ \<Rightarrow> None)"

definition repDiscrepancy :: "(body, DiscrepancyMsg) codec" where
  "repDiscrepancy = codecOf (\<lambda>m. Rep (PDiscrepancy m)) (\<lambda>b. case b of Rep (PDiscrepancy m) \<Rightarrow> Some m | _ \<Rightarrow> None)"

definition demoCodecs :: "body codecs" where
  "demoCodecs = \<lparr>
     pb_CreateAccount = \<lparr>sc_Req = codecOf (\<lambda>m. Req (RCreateAccount m)) (\<lambda>b. case b of Req (RCreateAccount m) \<Rightarrow> Some m | _ \<Rightarrow> None),
       sc_Res = repAccount\<rparr>,
     pb_GetAccount = \<lparr>sc_Req = codecOf (\<lambda>(tn, i). Req (RGetAccount tn i)) (\<lambda>b. case b of Req (RGetAccount tn i) \<Rightarrow> Some (tn, i) | _ \<Rightarrow> None),
       sc_Res = repAccount\<rparr>,
     pb_GetBalance = \<lparr>sc_Req = codecOf (\<lambda>m. Req (RGetBalance m)) (\<lambda>b. case b of Req (RGetBalance m) \<Rightarrow> Some m | _ \<Rightarrow> None),
       sc_Res = repBalance\<rparr>,
     pb_PostJournal = \<lparr>sc_Req = codecOf (\<lambda>m. Req (RPostJournal m)) (\<lambda>b. case b of Req (RPostJournal m) \<Rightarrow> Some m | _ \<Rightarrow> None),
       sc_Res = repJournal\<rparr>,
     pb_ExecuteFlow = \<lparr>sc_Req = codecOf (\<lambda>m. Req (RExecuteFlow m)) (\<lambda>b. case b of Req (RExecuteFlow m) \<Rightarrow> Some m | _ \<Rightarrow> None),
       sc_Res = repFlow\<rparr>,
     pb_GetFlow = \<lparr>sc_Req = codecOf (\<lambda>(tn, i). Req (RGetFlow tn i)) (\<lambda>b. case b of Req (RGetFlow tn i) \<Rightarrow> Some (tn, i) | _ \<Rightarrow> None),
       sc_Res = repFlow\<rparr>,
     pb_ListAccountActivity = \<lparr>sc_Req = codecOf (\<lambda>m. Req (RListAccountActivity m)) (\<lambda>b. case b of Req (RListAccountActivity m) \<Rightarrow> Some m | _ \<Rightarrow> None),
       sc_Res = repActivity\<rparr>,
     pb_TakeBalanceSnapshot = \<lparr>sc_Req = codecOf (\<lambda>m. Req (RTakeBalanceSnapshot m)) (\<lambda>b. case b of Req (RTakeBalanceSnapshot m) \<Rightarrow> Some m | _ \<Rightarrow> None),
       sc_Res = repCount\<rparr>,
     pb_CreateReservation = \<lparr>sc_Req = codecOf (\<lambda>m. Req (RCreateReservation m)) (\<lambda>b. case b of Req (RCreateReservation m) \<Rightarrow> Some m | _ \<Rightarrow> None),
       sc_Res = repReservation\<rparr>,
     pb_CommitReservation = \<lparr>sc_Req = codecOf (\<lambda>m. Req (RCommitReservation m)) (\<lambda>b. case b of Req (RCommitReservation m) \<Rightarrow> Some m | _ \<Rightarrow> None),
       sc_Res = repReservation\<rparr>,
     pb_ReleaseReservation = \<lparr>sc_Req = codecOf (\<lambda>m. Req (RReleaseReservation m)) (\<lambda>b. case b of Req (RReleaseReservation m) \<Rightarrow> Some m | _ \<Rightarrow> None),
       sc_Res = repReservation\<rparr>,
     pb_GetReservation = \<lparr>sc_Req = codecOf (\<lambda>(tn, i). Req (RGetReservation tn i)) (\<lambda>b. case b of Req (RGetReservation tn i) \<Rightarrow> Some (tn, i) | _ \<Rightarrow> None),
       sc_Res = repReservation\<rparr>,
     pb_ListReservations = \<lparr>sc_Req = codecOf (\<lambda>m. Req (RListReservations m)) (\<lambda>b. case b of Req (RListReservations m) \<Rightarrow> Some m | _ \<Rightarrow> None),
       sc_Res = repReservations\<rparr>,
     pb_ExecuteExchange = \<lparr>sc_Req = codecOf (\<lambda>m. Req (RExecuteExchange m)) (\<lambda>b. case b of Req (RExecuteExchange m) \<Rightarrow> Some m | _ \<Rightarrow> None),
       sc_Res = repExchange\<rparr>,
     pb_PutFXRate = \<lparr>sc_Req = codecOf (\<lambda>m. Req (RPutFXRate m)) (\<lambda>b. case b of Req (RPutFXRate m) \<Rightarrow> Some m | _ \<Rightarrow> None),
       sc_Res = repFXRate\<rparr>,
     pb_GetFXRate = \<lparr>sc_Req = codecOf (\<lambda>m. Req (RGetFXRate m)) (\<lambda>b. case b of Req (RGetFXRate m) \<Rightarrow> Some m | _ \<Rightarrow> None),
       sc_Res = repFXRate\<rparr>,
     pb_ListFXRates = \<lparr>sc_Req = codecOf (\<lambda>m. Req (RListFXRates m)) (\<lambda>b. case b of Req (RListFXRates m) \<Rightarrow> Some m | _ \<Rightarrow> None),
       sc_Res = repFXRates\<rparr>,
     pb_IngestExternalRecords = \<lparr>sc_Req = codecOf (\<lambda>m. Req (RIngestExternalRecords m)) (\<lambda>b. case b of Req (RIngestExternalRecords m) \<Rightarrow> Some m | _ \<Rightarrow> None),
       sc_Res = repIngested\<rparr>,
     pb_RunReconciliation = \<lparr>sc_Req = codecOf (\<lambda>m. Req (RRunReconciliation m)) (\<lambda>b. case b of Req (RRunReconciliation m) \<Rightarrow> Some m | _ \<Rightarrow> None),
       sc_Res = repBatch\<rparr>,
     pb_GetReconciliationBatch = \<lparr>sc_Req = codecOf (\<lambda>(tn, i). Req (RGetReconciliationBatch tn i)) (\<lambda>b. case b of Req (RGetReconciliationBatch tn i) \<Rightarrow> Some (tn, i) | _ \<Rightarrow> None),
       sc_Res = repBatch\<rparr>,
     pb_ListDiscrepancies = \<lparr>sc_Req = codecOf (\<lambda>m. Req (RListDiscrepancies m)) (\<lambda>b. case b of Req (RListDiscrepancies m) \<Rightarrow> Some m | _ \<Rightarrow> None),
       sc_Res = repDiscrepancies\<rparr>,
     pb_ResolveDiscrepancy = \<lparr>sc_Req = codecOf (\<lambda>m. Req (RResolveDiscrepancy m)) (\<lambda>b. case b of Req (RResolveDiscrepancy m) \<Rightarrow> Some m | _ \<Rightarrow> None),
       sc_Res = repDiscrepancy\<rparr>\<rparr>"

lemma demoCodecs_ok: "codecs_ok demoCodecs"
  by (simp add: codecs_ok_def schema_ok_def demoCodecs_def
    repAccount_def repBalance_def repJournal_def repFlow_def repActivity_def repCount_def repReservation_def repReservations_def repExchange_def repFXRate_def repFXRates_def repIngested_def repBatch_def repDiscrepancies_def repDiscrepancy_def)

lemma demoCodecs_total: "codecs_total demoCodecs"
  by (simp add: codecs_total_def schema_total_def demoCodecs_def codecOf_def
    repAccount_def repBalance_def repJournal_def repFlow_def repActivity_def repCount_def repReservation_def repReservations_def repExchange_def repFXRate_def repFXRates_def repIngested_def repBatch_def repDiscrepancies_def repDiscrepancy_def)

fun codeName :: "ConnectCode \<Rightarrow> string" where
  "codeName CodeInternal = ''internal''"
| "codeName CodeFailedPrecondition = ''failed_precondition''"
| "codeName CodeNotFound = ''not_found''"
| "codeName CodeInvalidArgument = ''invalid_argument''"
| "codeName CodeAlreadyExists = ''already_exists''"
| "codeName CodeAborted = ''aborted''"
| "codeName CodeUnimplemented = ''unimplemented''"

definition codeNamed :: "string \<Rightarrow> ConnectCode" where
  "codeNamed s = (case find (\<lambda>c. codeName c = s) [CodeFailedPrecondition, CodeNotFound,
     CodeInvalidArgument, CodeAlreadyExists, CodeAborted, CodeUnimplemented] of
     None \<Rightarrow> CodeInternal | Some c \<Rightarrow> c)"

fun statusOf :: "ConnectCode \<Rightarrow> int" where
  "statusOf CodeInternal = 500"
| "statusOf CodeFailedPrecondition = 400"
| "statusOf CodeNotFound = 404"
| "statusOf CodeInvalidArgument = 400"
| "statusOf CodeAlreadyExists = 409"
| "statusOf CodeAborted = 409"
| "statusOf CodeUnimplemented = 501"

definition domainNamed :: "string \<Rightarrow> DomainCode option" where
  "domainNamed s = find (\<lambda>c. codeString c = s) [CodeInsufficientFunds, CodeInvalidAccountStatus,
     CodeReservationClosed, CodeDiscrepancyClosed, CodeAccountNotFound, CodeReservationNotFound,
     CodeFXRateNotFound, CodeDiscrepancyNotFound, CodeReconBatchNotFound,
     CodeAccountCurrencyMismatch, CodeUnbalancedJournal, CodeReservationAmountExceeds,
     CodeReservationCurrencyMismatch, CodeFXAmountMismatch, CodeDuplicateIdempotencyKey,
     CodeFlowAlreadyCompleted, CodeFlowConflict, CodeSerializationRetryExhausted,
     CodeUnsupportedOperation, CodeFlowTooLarge]"

lemma codeNamed_codeName [simp]: "codeNamed (codeName c) = c"
  by (cases c) (simp_all add: codeNamed_def)

lemma domainNamed_codeString [simp]: "domainNamed (codeString c) = Some c"
  by (cases c) (simp_all add: domainNamed_def)

definition errorReply :: "connect_error \<Rightarrow> 'b http_response" where
  "errorReply e = \<lparr>hp_Status = statusOf (connectCode e),
     hp_Header = (case ledgerErrorCode e of None \<Rightarrow> Map.empty
       | Some c \<Rightarrow> hdrSet ''Ledger-Error-Code'' (codeString c) Map.empty),
     hp_Body = Text (codeName (connectCode e))\<rparr>"

definition readError :: "'b http_response \<Rightarrow> connect_error" where
  "readError p = (let text = (case hp_Body p of Text s \<Rightarrow> s | Message _ \<Rightarrow> '''') in
     ConnectError (codeNamed text) (domainNamed (hdrGet (hp_Header p) ''Ledger-Error-Code'')) (GoError text))"

definition demoConnect :: "body connect_lib" where
  "demoConnect = \<lparr>
     cn_NewRequest = (\<lambda>url b. \<lparr>hq_URL = url, hq_Header = Map.empty, hq_Body = b\<rparr>),
     cn_ReadRequest = (\<lambda>r. Inr (hq_Body r)),
     cn_WriteReply = (\<lambda>r. case r of Inl e \<Rightarrow> errorReply e
       | Inr b \<Rightarrow> \<lparr>hp_Status = 200, hp_Header = Map.empty, hp_Body = Message b\<rparr>),
     cn_ReadReply = (\<lambda>p. if hp_Status p = 200
       then (case hp_Body p of Message b \<Rightarrow> Inr b | Text s \<Rightarrow> Inl (readError p))
       else Inl (readError p)),
     cn_NetError = ConnectError CodeInternal None,
     cn_MarshalError = ConnectError CodeInternal None (GoError ''marshal''),
     cn_UnmarshalError = ConnectError CodeInvalidArgument None (GoError ''unmarshal'')\<rparr>"

lemma statusOf_not_ok [simp]: "statusOf c \<noteq> 200"
  by (cases c) simp_all

lemma readError_errorReply: "sameError e (readError (errorReply e))"
proof (cases "ledgerErrorCode e")
  case None
  have "domainNamed '''' = None" by code_simp
  with None show ?thesis by (simp add: sameError_def readError_def errorReply_def hdrGet_def)
next
  case (Some c)
  then show ?thesis by (simp add: sameError_def readError_def errorReply_def)
qed

lemma demoConnect_ok: "connect_ok demoConnect"
  by (simp add: connect_ok_def demoConnect_def readError_errorReply) (simp add: errorReply_def)

section \<open>A network that loses messages\<close>

datatype fate = Delivered | Dropped | ReplyLost

record 'c network =
  nt_server :: "'c server"
  nt_fates :: "fate list"

definition demoClock :: "nat \<Rightarrow> time" where
  "demoClock n = int n * millisecond"

definition demoTransport :: "'c client \<Rightarrow> ('c network, body) round_trip" where
  "demoTransport svc req n =
     (case httpServer demoConnect demoCodecs demoClock svc req (nt_server n) of (p, h) \<Rightarrow>
      let n' = n\<lparr>nt_fates := tl (nt_fates n)\<rparr> in
      case nt_fates n of
        Dropped # fs \<Rightarrow> (Inl (GoError ''connection refused''), n')
      | ReplyLost # fs \<Rightarrow> (Inl (GoError ''unexpected EOF''), n'\<lparr>nt_server := h\<rparr>)
      | _ \<Rightarrow> (Inr p, n'\<lparr>nt_server := h\<rparr>))"

lemma demo_carries:
  "carries (demoTransport svc) (httpServer demoConnect demoCodecs demoClock svc) nt_server"
  by (auto simp: carries_def demoTransport_def Let_def split: prod.splits list.splits fate.splits)

definition demoRemote :: "string \<Rightarrow> string \<Rightarrow> 'c client \<Rightarrow> 'c network client" where
  "demoRemote url t svc = NewRemote demoConnect demoCodecs (demoTransport svc) url t []"

lemma demo_remoteOf:
  "cleanHeader t \<Longrightarrow> remoteOf demoConnect demoCodecs (demoTransport svc) [] t ''http'' ''localhost''
     nt_server demoClock svc"
  by (simp add: remoteOf_def hosted_def demoConnect_ok demoCodecs_ok demo_carries baseTransport_def
    roundTripperOr_def plainHost_def)

definition netOf :: "fate list \<Rightarrow> 'c \<Rightarrow> 'c network" where
  "netOf fs c = \<lparr>nt_server = \<lparr>sv_state = c, sv_log = [], sv_reads = 0\<rparr>, nt_fates = fs\<rparr>"

section \<open>Properties\<close>

text \<open>C28: over the network every call of every method has the outcome of the same call of the
  embedded client on the server's state: the same answer, or an error with the same code and the
  same ledger error code, and the same state. Only where the transport may fail or an encoder
  may refuse, it may be an error of that kind instead, and then the server ran the whole method
  or nothing of it. The tenant of the client is only a gate: without one the server refuses,
  and with one the outcome does not depend on which it is.\<close>

theorem remote_call:
  assumes "remoteOf K P dt opts t scheme host srv clk (embeddedClient E S)"
    and "answer (NewRemote K P dt (siteURL scheme host k) t opts) r n = (res, n')"
  shows "outcome K (mayFail P (baseTransport dt opts) n)
    (if t = '''' then (Inl noTenant, sv_state (srv n))
     else answer (embeddedClient E S) r (sv_state (srv n)))
    (sv_state (srv n)) res (sv_state (srv n'))"
  using forwardsD [OF remote_answer [OF assms(1)] assms(2)]
  by (simp add: gated_def throwE_def split: if_splits)

definition demoURL :: string where
  "demoURL = ''http://localhost//''"

lemma demoURL_site: "demoURL = siteURL ''http'' ''localhost'' 2"
  by (simp add: demoURL_def siteURL_def numeral_2_eq_2)

definition demoPost :: PostJournalRequest where
  "demoPost = transferJournal demoWallet demoDeposit ''u:a:cash_available:U'' ''u:f:c:U''"

text \<open>The deposit at the server, and the deposit again.\<close>

lemma demoPost_twice: "succeeds (PostJournal demoEnv demoS demoPost)
    (snd (PostJournal demoEnv demoS demoPost walletWorld))"
  by code_simp

lemma demoDeposit_post: "Deposit C demoWallet demoDeposit =
    bindE (mapErr Rpc (cl_PostJournal C demoPost)) (\<lambda>resp.
      ret \<lparr>rcp_JournalID = pjs_JournalId resp, rcp_FlowRunID = pjs_FlowRunId resp\<rparr>)"
  by (simp add: Deposit_def postJournal_def demoPost_def demoWallet_def demoDeposit_def NewWallet_def
    WithOwnerType_def walletAccountID_def)

lemma demoPost_once: "\<exists>a. PostJournal demoEnv demoS demoPost walletWorld =
    (Inr a, snd (PostJournal demoEnv demoS demoPost walletWorld))"
  using succeeds_run [OF deposit_run] by (auto simp: demoDeposit_post demoClient_def exec_simps)

lemma demo_remote_simps:
  "demoRemote demoURL t demoClient = NewRemote demoConnect demoCodecs
     (demoTransport (embeddedClient demoEnv (sqliteStore demoC))) (siteURL ''http'' ''localhost'' 2) t []"
  by (simp add: demoRemote_def demoURL_site demoClient_def demoS_def)

lemma demo_reliable:
  "nt_fates n = [] \<Longrightarrow> \<not> mayFail demoCodecs (baseTransport (demoTransport svc) []) n"
  by (simp add: mayFail_def demoCodecs_total baseTransport_def roundTripperOr_def demoTransport_def
    Let_def split: prod.splits)

lemma cleanHeader_t: "cleanHeader ''t''"
  by code_simp

theorem remote_call_witness:
  "\<exists>rep n'. answer (demoRemote demoURL ''t'' demoClient) (RPostJournal demoPost) (netOf [] walletWorld) =
       (Inr rep, n') \<and>
     answer demoClient (RPostJournal demoPost) walletWorld = (Inr rep, sv_state (nt_server n'))"
proof -
  obtain rep where post: "answer demoClient (RPostJournal demoPost) walletWorld =
      (Inr rep, snd (PostJournal demoEnv demoS demoPost walletWorld))"
    using demoPost_once by (auto simp: demoClient_def mapE_def exec_simps)
  obtain res n' where run: "answer (demoRemote demoURL ''t'' demoClient) (RPostJournal demoPost)
      (netOf [] walletWorld) = (res, n')"
    by fastforce
  from remote_call [OF demo_remoteOf [OF cleanHeader_t] run [unfolded demo_remote_simps]]
  have "rel_sum sameError (=) (Inr rep) res" "sv_state (nt_server n') = snd (PostJournal demoEnv demoS demoPost walletWorld)"
    using post by (simp_all add: outcome_def netOf_def demoClient_def demoS_def demo_reliable)
  with run post show ?thesis by (auto elim: rel_sum.cases)
qed

text \<open>C23: a deposit over a network that loses requests and replies can be repeated until it
  succeeds. However many attempts failed, and whatever each of them left at the server, the
  ledger has the deposit once when one succeeds.\<close>

theorem remote_deposit_once:
  assumes "walletInv E C (sv_state (srv n))"
    and "remoteOf K P dt opts t scheme host srv clk (embeddedClient E (sqliteStore C))"
    and "Deposit (NewRemote K P dt (siteURL scheme host k) t opts) wl i
      (((\<lambda>n. snd (Deposit (NewRemote K P dt (siteURL scheme host k) t opts) wl i n)) ^^ j) n) =
      (Inr rcp, n')"
  shows "transferred (env_D E) (wl_tenant wl) i
    (walletAccountID wl (ti_PlayerID i) ''cash_available'' (ti_Currency i)) (ti_OtherAccountID i)
    (sqliteView C (w_st (sv_state (srv n)))) (sqliteView C (w_st (sv_state (srv n'))))"
  using rem.wire_repeat [of E C srv n K P dt opts t scheme host clk k wl i] assms
  unfolding Deposit_def transferAttempt_def [abs_def] by blast

text \<open>A call that is lost on the way, and one whose reply is lost.\<close>

lemma demo_dropped:
  "nt_fates n = Dropped # fs \<Longrightarrow> \<exists>e. cl_PostJournal (demoRemote url t svc) r n = (Inl e, n\<lparr>nt_fates := fs\<rparr>)"
  by (simp add: demoRemote_def NewRemote_simps CallUnary_def demoCodecs_def codecOf_def bindE_def mapErr_def
    tenantTransport_def demoTransport_def baseTransport_def roundTripperOr_def Let_def split: prod.splits)

lemma demo_lost:
  assumes "nt_fates n = ReplyLost # fs"
  shows "\<exists>e h. cl_PostJournal (demoRemote demoURL ''t'' svc) r n =
      (Inl e, n\<lparr>nt_fates := fs, nt_server := h\<rparr>) \<and>
    sv_state h = snd (cl_PostJournal svc r (sv_state (nt_server n)))"
proof -
  let ?req = "\<lparr>hq_URL = trimSlashes demoURL @ LedgerServicePostJournalProcedure,
    hq_Header = hdrSet ''X-Tenant-Id'' ''t'' Map.empty, hq_Body = Req (RPostJournal r)\<rparr>"
  let ?H = "NewUnaryHandler demoConnect [Tenant, Logging demoClock] LedgerServicePostJournalProcedure
    (pb_PostJournal demoCodecs) (cl_PostJournal svc)"
  have "urlPath (hq_URL ?req) = ''/ledger.v1.LedgerService/'' @ ''PostJournal''"
    by code_simp
  from httpServer_route [OF this handler_of(4) [unfolded procedure_path(4)]]
  have H: "httpServer demoConnect demoCodecs demoClock svc ?req h = ?H ?req h" for h
    by (simp add: procedure_path(4))
  obtain p h where h: "?H ?req (nt_server n) = (p, h)" by fastforce
  have "cn_ReadRequest demoConnect ?req = Inr (Req (RPostJournal r))"
    "cd_Unmarshal (sc_Req (pb_PostJournal demoCodecs)) (Req (RPostJournal r)) = Some r"
    by (simp_all add: demoConnect_def demoCodecs_def codecOf_def)
  then obtain res where "gated (hdrGet (hq_Header ?req) ''X-Tenant-Id'') (cl_PostJournal svc r)
      (sv_state (nt_server n)) = (res, sv_state h)"
    by (rule NewUnaryHandler_reply [OF demoConnect_ok codecs_okD(4) [OF demoCodecs_ok] _ _ h])
  then have st: "sv_state h = snd (cl_PostJournal svc r (sv_state (nt_server n)))"
    by (simp add: gated_def)
  have "demoTransport svc ?req n = (Inl (GoError ''unexpected EOF''), n\<lparr>nt_fates := fs, nt_server := h\<rparr>)"
    by (simp add: demoTransport_def H h assms)
  moreover have "cd_Marshal (sc_Req (pb_PostJournal demoCodecs)) r = Some (Req (RPostJournal r))"
    "cn_NewRequest demoConnect u b = \<lparr>hq_URL = u, hq_Header = Map.empty, hq_Body = b\<rparr>" for u b
    by (simp_all add: demoConnect_def demoCodecs_def codecOf_def)
  ultimately have "cl_PostJournal (demoRemote demoURL ''t'' svc) r n =
      (Inl (cn_NetError demoConnect (GoError ''unexpected EOF'')), n\<lparr>nt_fates := fs, nt_server := h\<rparr>)"
    by (simp add: demoRemote_def NewRemote_simps(4) CallUnary_def bindE_def mapErr_def
      tenantTransport_def baseTransport_def roundTripperOr_def)
  with st show ?thesis by blast
qed

definition lossyNet :: "sqlite world network" where
  "lossyNet = netOf [Dropped, ReplyLost] walletWorld"

definition afterLosses :: "sqlite world network" where
  "afterLosses = ((\<lambda>n. snd (Deposit (demoRemote demoURL ''t'' demoClient) demoWallet demoDeposit n)) ^^ 2) lossyNet"

lemma afterLosses_state: "nt_fates afterLosses = []"
  "sv_state (nt_server afterLosses) = snd (PostJournal demoEnv demoS demoPost walletWorld)"
proof -
  let ?R = "demoRemote demoURL ''t'' demoClient"
  let ?n1 = "lossyNet\<lparr>nt_fates := [ReplyLost]\<rparr>"
  obtain e1 where 1: "cl_PostJournal ?R demoPost lossyNet = (Inl e1, ?n1)"
    using demo_dropped [of lossyNet "[ReplyLost]" demoURL "''t''" demoClient demoPost] by (auto simp: lossyNet_def netOf_def)
  obtain e2 h where 2: "cl_PostJournal ?R demoPost ?n1 = (Inl e2, ?n1\<lparr>nt_fates := [], nt_server := h\<rparr>)"
    and h: "sv_state h = snd (PostJournal demoEnv demoS demoPost walletWorld)"
    using demo_lost [of ?n1 "[]" demoClient demoPost] by (auto simp: lossyNet_def netOf_def demoClient_def)
  have after: "afterLosses = ?n1\<lparr>nt_fates := [], nt_server := h\<rparr>"
    by (simp add: afterLosses_def numeral_2_eq_2 demoDeposit_post bindE_def mapErr_def 1 2)
  show "nt_fates afterLosses = []" by (simp add: after)
  show "sv_state (nt_server afterLosses) = snd (PostJournal demoEnv demoS demoPost walletWorld)"
    by (simp add: after h)
qed

text \<open>The first request is lost, the deposit of the second is made and its reply lost; the third
  call is answered, and the ledger has one deposit.\<close>

theorem remote_deposit_once_witness:
  "\<exists>rcp n'. Deposit (demoRemote demoURL ''t'' demoClient) demoWallet demoDeposit afterLosses = (Inr rcp, n') \<and>
     transferred demoD ''t'' demoDeposit ''u:a:cash_available:U'' ''u:f:c:U''
       (sqliteView demoC (w_st walletWorld)) (sqliteView demoC (w_st (sv_state (nt_server n'))))"
proof -
  obtain a c where a: "PostJournal demoEnv demoS demoPost (sv_state (nt_server afterLosses)) = (Inr a, c)"
    using succeeds_run [OF demoPost_twice] by (auto simp: afterLosses_state)
  obtain res n1 where p: "cl_PostJournal (demoRemote demoURL ''t'' demoClient) demoPost afterLosses = (res, n1)"
    by fastforce
  from forwardsD [OF remote_forwards(4) [OF demo_remoteOf [OF cleanHeader_t]] p [unfolded demo_remote_simps]] a
  have "rel_sum sameError (=) (Inr a) res"
    by (simp add: outcome_def gated_def demo_reliable afterLosses_state(1) demoS_def)
  then have "res = Inr a" by (auto elim: rel_sum.cases)
  with p obtain rcp n' where run: "Deposit (demoRemote demoURL ''t'' demoClient) demoWallet demoDeposit
      afterLosses = (Inr rcp, n')"
    by (auto simp: demoDeposit_post bindE_def mapErr_def ret_def)
  have "walletInv demoEnv demoC (sv_state (nt_server lossyNet))"
    using walletWorld_inv by (simp add: lossyNet_def netOf_def)
  from remote_deposit_once [OF this demo_remoteOf [OF cleanHeader_t] run [unfolded afterLosses_def demo_remote_simps]] run
  show ?thesis
    by (simp add: demoEnv_def demoWallet_def NewWallet_def WithOwnerType_def walletAccountID_def
      demoDeposit_def lossyNet_def netOf_def)
qed

end
