(* ===== verification/Embedded.thy ===== *)
theory Embedded
  imports Scheduler Outbox
begin

text \<open>
  Starting and closing the embedded client (\<open>pkg/dledger/embedded.go\<close>, \<open>options.go\<close>) and opening
  its store (\<open>Open\<close> of the three backends).

  \<^item> \<open>process\<close> is what the client holds of the process: the database handles that are open, the
    migrations that ran, and the background jobs.
  \<^item> The drivers, goose and the AWS client are not part of the repository: each call of theirs
    returns what the parameter \<open>drivers\<close> says, an error or none.
  \<^item> A start that fails leaves no job behind and no handle, but for a SQLite handle whose ping
    failed; one that succeeds holds what \<open>Close\<close> releases, and a second \<open>Close\<close> does nothing.
\<close>

section \<open>Options (options.go)\<close>

type_synonym Backend = string

abbreviation SQLite :: Backend where "SQLite \<equiv> ''sqlite''"
abbreviation CRDB :: Backend where "CRDB \<equiv> ''crdb''"
abbreviation DynamoDB :: Backend where "DynamoDB \<equiv> ''dynamodb''"

datatype MigrateMode = MigrateAuto | MigrateSkip

record 'k Options =
  opt_Backend :: Backend
  opt_DSN :: string
  opt_MigrateMode :: MigrateMode
  opt_OutboxSink :: "'k option"
  opt_DisableScheduler :: bool
  opt_SchedulerExpiryTick :: duration

section \<open>The process\<close>

datatype 'k job = RunDispatcher "'k option" Config | RunScheduler SchedulerConfig

text \<open>A DynamoDB table: its attributes (all of type S), its key and its indexes, which project all
  attributes; \<open>True\<close> is a hash key, \<open>False\<close> a range key.\<close>

record tableSchema =
  ts_Attributes :: "string list"
  ts_Key :: "(string \<times> bool) list"
  ts_Indexes :: "(string \<times> (string \<times> bool) list) list"

text \<open>A handle is named by its driver and data source. A job runs under a context, which is a
  number here; \<open>ps_contexts\<close> is the next one. A sink of \<open>None\<close> is the log sink.\<close>

record 'k process =
  ps_handles :: "(string \<times> string) list"
  ps_migrated :: "(string \<times> string \<times> string \<times> string) list"
  ps_tables :: "(string \<times> tableSchema) list"
  ps_jobs :: "(nat \<times> 'k job) list"
  ps_contexts :: nat

record drivers =
  dv_Open :: "string \<Rightarrow> string \<Rightarrow> error option"
  dv_Ping :: "string \<Rightarrow> string \<Rightarrow> error option"
  dv_ParseConfig :: "string \<Rightarrow> error option"
  dv_NewPool :: "string \<Rightarrow> error option"
  dv_AwsConfig :: "error option"
  dv_CreateTable :: "string \<Rightarrow> tableSchema \<Rightarrow> error option"
  dv_ResourceInUse :: "error \<Rightarrow> bool"
  dv_WaitTable :: "string \<Rightarrow> error option"
  dv_DeleteTable :: "string \<Rightarrow> error option"
  dv_SetDialect :: "string \<Rightarrow> error option"
  dv_Up :: "string \<Rightarrow> string \<Rightarrow> string \<Rightarrow> error option"
  dv_Close :: "string \<Rightarrow> string \<Rightarrow> error option"

text \<open>A call that returns an error or nil.\<close>

definition check :: "error option \<Rightarrow> ('k process, error, unit) exec" where
  "check r = (case r of None \<Rightarrow> ret () | Some e \<Rightarrow> throwE e)"

definition acquire :: "string \<times> string \<Rightarrow> ('k process, error, unit) exec" where
  "acquire h p = (Inr (), p\<lparr>ps_handles := h # ps_handles p\<rparr>)"

definition closeHandle :: "string \<times> string \<Rightarrow> ('k process, error, unit) exec" where
  "closeHandle h p = (Inr (), p\<lparr>ps_handles := remove1 h (ps_handles p)\<rparr>)"

section \<open>Opening a store\<close>

datatype store = SqliteStore string | CrdbStore string | DynamoStore string

definition sqliteOpen :: "drivers \<Rightarrow> string \<Rightarrow> ('k process, error, store) exec" where
  "sqliteOpen V dsn = (let h = (''sqlite'', dsn @ ''?_journal_mode=WAL&_busy_timeout=5000&_foreign_keys=on'') in
     thenE (check (dv_Open V (fst h) (snd h)))
     (thenE (acquire h)
     (thenE (check (dv_Ping V (fst h) (snd h)))
     (ret (SqliteStore (snd h))))))"

definition crdbOpen :: "drivers \<Rightarrow> string \<Rightarrow> ('k process, error, store) exec" where
  "crdbOpen V dsn =
     thenE (check (dv_ParseConfig V dsn))
     (thenE (check (dv_NewPool V dsn))
     (thenE (acquire (''pgxpool'', dsn))
     (ret (CrdbStore dsn))))"

definition dynamoOpen :: "drivers \<Rightarrow> string \<Rightarrow> ('k process, error, store) exec" where
  "dynamoOpen V tab =
     (if tab = '''' then throwE (GoError ''dynamo: table name (DSN) required'')
      else thenE (check (dv_AwsConfig V)) (ret (DynamoStore tab)))"

definition ledgerTable :: tableSchema where
  "ledgerTable = \<lparr>ts_Attributes = [''pk'', ''gsi1pk'', ''gsi1sk'', ''gsi2pk'', ''gsi2sk''],
     ts_Key = [(''pk'', True)],
     ts_Indexes = [(''gsi1'', [(''gsi1pk'', True), (''gsi1sk'', False)]),
                   (''gsi2'', [(''gsi2pk'', True), (''gsi2sk'', False)])]\<rparr>"

text \<open>A table that exists already is no error.\<close>

definition EnsureTable :: "drivers \<Rightarrow> string \<Rightarrow> ('k process, error, unit) exec" where
  "EnsureTable V tab =
     thenE (case dv_CreateTable V tab ledgerTable of
         None \<Rightarrow> (\<lambda>p. (Inr (), p\<lparr>ps_tables := (tab, ledgerTable) # ps_tables p\<rparr>))
       | Some e \<Rightarrow> if dv_ResourceInUse V e then ret () else throwE e)
     (check (dv_WaitTable V tab))"

definition DeleteTable :: "drivers \<Rightarrow> string \<Rightarrow> ('k process, error, unit) exec" where
  "DeleteTable V tab =
     thenE (check (dv_DeleteTable V tab)) (\<lambda>p. (Inr (), p\<lparr>ps_tables := filter (\<lambda>x. fst x \<noteq> tab) (ps_tables p)\<rparr>))"

text \<open>The handle of SQLite and the pool are closed; the DynamoDB client has nothing to close.
  \<open>pool.Close\<close> returns nothing.\<close>

fun storeClose :: "drivers \<Rightarrow> store \<Rightarrow> ('k process, error, unit) exec" where
  "storeClose V (SqliteStore url) = thenE (closeHandle (''sqlite'', url)) (check (dv_Close V ''sqlite'' url))"
| "storeClose V (CrdbStore dsn) = closeHandle (''pgxpool'', dsn)"
| "storeClose V (DynamoStore tab) = ret ()"

section \<open>Migrations\<close>

text \<open>\<open>defer db.Close()\<close> runs on every return, and its error is dropped.\<close>

definition deferE :: "('s, 'e, 'a) exec \<Rightarrow> ('s, 'e, unit) exec \<Rightarrow> ('s, 'e, 'a) exec" where
  "deferE m d s = (case m s of (r, s1) \<Rightarrow> (r, snd (d s1)))"

definition runMigrations :: "drivers \<Rightarrow> string \<Rightarrow> string \<Rightarrow> string \<Rightarrow> string \<Rightarrow>
    ('k process, error, unit) exec" where
  "runMigrations V driver dsn fsys dialect =
     thenE (check (dv_Open V driver dsn))
     (thenE (acquire (driver, dsn))
     (deferE
       (thenE (check (dv_SetDialect V dialect))
       (thenE (check (dv_Up V driver dsn fsys))
       (\<lambda>p. (Inr (), p\<lparr>ps_migrated := (driver, dsn, fsys, dialect) # ps_migrated p\<rparr>))))
       (closeHandle (driver, dsn))))"

section \<open>The embedded client (embedded.go)\<close>

text \<open>The store, and the arguments of \<open>runMigrations\<close> where goose migrations apply.\<close>

definition openBackend :: "drivers \<Rightarrow> 'k Options \<Rightarrow>
    ('k process, error, store \<times> (string \<times> string \<times> string) option) exec" where
  "openBackend V opts =
     (if opt_Backend opts = SQLite \<or> opt_Backend opts = '''' then
        bindE (sqliteOpen V (opt_DSN opts)) (\<lambda>s.
          ret (s, Some (''sqlite'', ''migrations/sqlite'', ''sqlite3'')))
      else if opt_Backend opts = CRDB then
        bindE (crdbOpen V (opt_DSN opts)) (\<lambda>s.
          ret (s, Some (''pgx'', ''migrations/crdb'', ''postgres'')))
      else if opt_Backend opts = DynamoDB then
        bindE (dynamoOpen V (opt_DSN opts)) (\<lambda>s.
          if opt_MigrateMode opts = MigrateAuto then (\<lambda>p. case EnsureTable V (opt_DSN opts) p of
              (Inl e, p1) \<Rightarrow> (Inl e, snd (storeClose V s p1))
            | (Inr _, p1) \<Rightarrow> (Inr (s, None), p1))
          else ret (s, None))
      else throwE (GoError ''dledger: unknown backend''))"

text \<open>\<open>ec_context\<close> is the background context that \<open>cancel\<close> ends, \<open>ec_done\<close> the \<open>sync.Once\<close>.\<close>

record embeddedState =
  ec_store :: store
  ec_context :: nat
  ec_done :: bool

definition withCancel :: "('k process, error, nat) exec" where
  "withCancel p = (Inr (ps_contexts p), p\<lparr>ps_contexts := Suc (ps_contexts p)\<rparr>)"

definition startJob :: "nat \<Rightarrow> 'k job \<Rightarrow> ('k process, error, unit) exec" where
  "startJob c j p = (Inr (), p\<lparr>ps_jobs := (c, j) # ps_jobs p\<rparr>)"

definition cancel :: "nat \<Rightarrow> 'k process \<Rightarrow> 'k process" where
  "cancel c p = p\<lparr>ps_jobs := filter (\<lambda>j. fst j \<noteq> c) (ps_jobs p)\<rparr>"

definition migrateEmbedded :: "drivers \<Rightarrow> 'k Options \<Rightarrow> store \<Rightarrow> (string \<times> string \<times> string) option \<Rightarrow>
    ('k process, error, unit) exec" where
  "migrateEmbedded V opts s mig = (case mig of
       Some (driver, fsys, dialect) \<Rightarrow>
         if opt_MigrateMode opts = MigrateAuto then (\<lambda>p.
           case runMigrations V driver (opt_DSN opts) fsys dialect p of
             (Inl e, p1) \<Rightarrow> (Inl e, snd (storeClose V s p1))
           | (Inr _, p1) \<Rightarrow> (Inr (), p1))
         else ret ()
     | None \<Rightarrow> ret ())"

definition schedulerConfig :: "'k Options \<Rightarrow> SchedulerConfig" where
  "schedulerConfig opts = (if 0 < opt_SchedulerExpiryTick opts
     then defaultConfig\<lparr>cfg_ExpiryTick := opt_SchedulerExpiryTick opts\<rparr> else defaultConfig)"

definition NewEmbedded :: "drivers \<Rightarrow> 'k Options \<Rightarrow> ('k process, error, embeddedState) exec" where
  "NewEmbedded V opts =
     (if opt_DSN opts = '''' then throwE (GoError ''dledger: Options.DSN required'')
      else bindE (openBackend V opts) (\<lambda>(s, mig).
        thenE (migrateEmbedded V opts s mig)
        (bindE withCancel (\<lambda>c.
        thenE (startJob c (RunDispatcher (opt_OutboxSink opts) (NewDispatcher
            \<lparr>cfg_Interval = 250 * millisecond, cfg_BatchSize = 100\<rparr>)))
        (thenE (if opt_DisableScheduler opts then ret ()
                else startJob c (RunScheduler (schedulerConfig opts)))
        (ret \<lparr>ec_store = s, ec_context = c, ec_done = False\<rparr>))))))"

definition embeddedClose :: "drivers \<Rightarrow> embeddedState \<times> 'k process \<Rightarrow>
    (error + unit) \<times> embeddedState \<times> 'k process" where
  "embeddedClose V = (\<lambda>(c, p).
     if ec_done c then (Inr (), c, p)
     else case storeClose V (ec_store c) (cancel (ec_context c) p) of
       (r, p1) \<Rightarrow> (r, c\<lparr>ec_done := True\<rparr>, p1))"

section \<open>What a start leaves behind\<close>

fun handleOf :: "store \<Rightarrow> (string \<times> string) list" where
  "handleOf (SqliteStore url) = [(''sqlite'', url)]"
| "handleOf (CrdbStore dsn) = [(''pgxpool'', dsn)]"
| "handleOf (DynamoStore tab) = []"

lemma check_exec [exec_simps]:
  "check r p = (Inr u, p') \<longleftrightarrow> r = None \<and> p' = p"
  "check r p = (Inl e, p') \<longleftrightarrow> r = Some e \<and> p' = p"
  by (auto simp: check_def ret_def throwE_def split: option.splits)

lemma handle_exec [exec_simps]:
  "acquire h p = (Inr u, p') \<longleftrightarrow> p' = p\<lparr>ps_handles := h # ps_handles p\<rparr>"
  "\<not> acquire h p = (Inl e, p')"
  "closeHandle h p = (Inr u, p') \<longleftrightarrow> p' = p\<lparr>ps_handles := remove1 h (ps_handles p)\<rparr>"
  "\<not> closeHandle h p = (Inl e, p')"
  "startJob c j p = (Inr u, p') \<longleftrightarrow> p' = p\<lparr>ps_jobs := (c, j) # ps_jobs p\<rparr>"
  "\<not> startJob c j p = (Inl e, p')"
  "withCancel p = (Inr c, p') \<longleftrightarrow> c = ps_contexts p \<and> p' = p\<lparr>ps_contexts := Suc c\<rparr>"
  "\<not> withCancel p = (Inl e, p')"
  by (auto simp: acquire_def closeHandle_def startJob_def withCancel_def)

text \<open>What no step before the jobs touches.\<close>

abbreviation jobsOf :: "'k process \<Rightarrow> (nat \<times> 'k job) list \<times> nat" where
  "jobsOf p \<equiv> (ps_jobs p, ps_contexts p)"

lemma storeClose_handles:
  assumes "storeClose V s p = (r, p')"
  shows "jobsOf p' = jobsOf p \<and>
    ps_handles p' = (case handleOf s of [] \<Rightarrow> ps_handles p | h # _ \<Rightarrow> remove1 h (ps_handles p))"
  using assms
  by (cases s) (auto simp: thenE_def bindE_def closeHandle_def check_def ret_def throwE_def
    split: option.splits)

lemma runMigrations_handles:
  assumes "runMigrations V d dsn fsys dl p = (r, p')"
  shows "jobsOf p' = jobsOf p \<and> ps_handles p' = ps_handles p"
  using assms
  by (auto simp: runMigrations_def thenE_def bindE_def deferE_def closeHandle_def acquire_def check_def
    ret_def throwE_def split: option.splits)

lemma EnsureTable_handles:
  assumes "EnsureTable V tab p = (r, p')"
  shows "jobsOf p' = jobsOf p \<and> ps_handles p' = ps_handles p"
  using assms
  by (auto simp: EnsureTable_def thenE_def bindE_def check_def ret_def throwE_def
    split: option.splits if_splits)

lemma openBackend_Inr:
  assumes "openBackend V opts p = (Inr (s, mig), p')"
  shows "jobsOf p' = jobsOf p \<and> ps_handles p' = handleOf s @ ps_handles p"
  using assms
  by (auto simp: openBackend_def sqliteOpen_def crdbOpen_def dynamoOpen_def Let_def
    exec_simps ret_def split: if_splits prod.splits sum.splits dest: EnsureTable_handles)

lemma openBackend_Inl:
  assumes "openBackend V opts p = (Inl e, p')"
  shows "jobsOf p' = jobsOf p \<and> (ps_handles p' = ps_handles p \<or>
    (\<exists>url. dv_Ping V ''sqlite'' url = Some e \<and> ps_handles p' = (''sqlite'', url) # ps_handles p))"
  using assms
  by (auto simp: openBackend_def sqliteOpen_def crdbOpen_def dynamoOpen_def Let_def
    exec_simps ret_def split: if_splits prod.splits sum.splits dest: EnsureTable_handles)

lemma migrateEmbedded_handles:
  assumes "migrateEmbedded V opts s mig p = (r, p')" and "ps_handles p = handleOf s @ hs"
  shows "jobsOf p' = jobsOf p \<and> ps_handles p' = (case r of Inr _ \<Rightarrow> handleOf s @ hs | Inl e \<Rightarrow> hs)"
proof (cases "\<exists>d f l. mig = Some (d, f, l) \<and> opt_MigrateMode opts = MigrateAuto")
  case True
  then obtain d f l where mig: "mig = Some (d, f, l)" "opt_MigrateMode opts = MigrateAuto" by blast
  obtain r1 p1 where run: "runMigrations V d (opt_DSN opts) f l p = (r1, p1)" by fastforce
  note h = runMigrations_handles [OF run]
  show ?thesis
  proof (cases r1)
    case (Inl e)
    obtain r2 p2 where "storeClose V s p1 = (r2, p2)" by fastforce
    from storeClose_handles [OF this] this Inl mig run assms h show ?thesis
      by (cases s) (auto simp: migrateEmbedded_def)
  next
    case (Inr u)
    with mig run assms h show ?thesis by (auto simp: migrateEmbedded_def)
  qed
next
  case False
  with assms show ?thesis
    by (cases mig) (auto simp: migrateEmbedded_def ret_def split: prod.splits)
qed

text \<open>The jobs of a client that started.\<close>

definition embeddedJobs :: "'k Options \<Rightarrow> 'k job list" where
  "embeddedJobs opts = (if opt_DisableScheduler opts then [] else [RunScheduler (schedulerConfig opts)]) @
     [RunDispatcher (opt_OutboxSink opts) (NewDispatcher \<lparr>cfg_Interval = 250 * millisecond, cfg_BatchSize = 100\<rparr>)]"

lemma NewEmbedded_Inr:
  assumes "NewEmbedded V opts p = (Inr c, p')"
  shows "ps_handles p' = handleOf (ec_store c) @ ps_handles p \<and>
    ps_jobs p' = map (Pair (ps_contexts p)) (embeddedJobs opts) @ ps_jobs p \<and>
    ec_context c = ps_contexts p \<and> ps_contexts p' = Suc (ps_contexts p) \<and> \<not> ec_done c"
proof -
  obtain s mig p1 p2 where o: "openBackend V opts p = (Inr (s, mig), p1)" and
    m: "migrateEmbedded V opts s mig p1 = (Inr (), p2)" and
    c: "c = \<lparr>ec_store = s, ec_context = ps_contexts p2, ec_done = False\<rparr>" and
    p': "p' = p2\<lparr>ps_contexts := Suc (ps_contexts p2),
      ps_jobs := map (Pair (ps_contexts p2)) (embeddedJobs opts) @ ps_jobs p2\<rparr>"
    using assms by (auto simp: NewEmbedded_def exec_simps embeddedJobs_def split: if_splits)
  from openBackend_Inr [OF o] migrateEmbedded_handles [OF m] c p' show ?thesis by simp
qed

lemma NewEmbedded_Inl:
  assumes "NewEmbedded V opts p = (Inl e, p')"
  shows "jobsOf p' = jobsOf p \<and> (ps_handles p' = ps_handles p \<or>
    (\<exists>url. dv_Ping V ''sqlite'' url = Some e \<and> ps_handles p' = (''sqlite'', url) # ps_handles p))"
proof (cases "opt_DSN opts = ''''")
  case True
  with assms show ?thesis by (simp add: NewEmbedded_def throwE_def)
next
  case False
  then consider "openBackend V opts p = (Inl e, p')"
    | s mig p1 where "openBackend V opts p = (Inr (s, mig), p1)"
      "migrateEmbedded V opts s mig p1 = (Inl e, p')"
    using assms by (auto simp: NewEmbedded_def exec_simps split: if_splits)
  then show ?thesis
  proof cases
    case 1
    then show ?thesis by (rule openBackend_Inl)
  next
    case 2
    from openBackend_Inr [OF 2(1)] migrateEmbedded_handles [OF 2(2)] show ?thesis by simp
  qed
qed

text \<open>The contexts in use are older than the next one.\<close>

definition contextsOk :: "'k process \<Rightarrow> bool" where
  "contextsOk p \<longleftrightarrow> (\<forall>(c, j) \<in> set (ps_jobs p). c < ps_contexts p)"

theorem NewEmbedded_releases:
  assumes "contextsOk p"
  shows "case NewEmbedded V opts p of
      (Inl e, p') \<Rightarrow> ps_jobs p' = ps_jobs p \<and> (ps_handles p' = ps_handles p \<or>
        (\<exists>url. dv_Ping V ''sqlite'' url = Some e \<and> ps_handles p' = (''sqlite'', url) # ps_handles p))
    | (Inr c, p') \<Rightarrow> contextsOk p' \<and> (case embeddedClose V (c, p') of (r, c2, p2) \<Rightarrow>
        ps_jobs p2 = ps_jobs p \<and> ps_handles p2 = ps_handles p \<and>
        embeddedClose V (c2, p2) = (Inr (), c2, p2))"
proof -
  obtain res p' where run: "NewEmbedded V opts p = (res, p')" by fastforce
  show ?thesis
  proof (cases res)
    case (Inl e)
    with NewEmbedded_Inl [of V opts p e p'] run show ?thesis by auto
  next
    case (Inr c)
    note n = NewEmbedded_Inr [OF run [unfolded Inr]]
    obtain r p2 where cl: "storeClose V (ec_store c) (cancel (ec_context c) p') = (r, p2)" by fastforce
    have jobs: "filter (\<lambda>j. fst j \<noteq> ps_contexts p) (ps_jobs p) = ps_jobs p"
      using assms by (auto simp: contextsOk_def filter_id_conv)
    have "ps_handles p2 = ps_handles p" "ps_jobs p2 = ps_jobs p"
      using storeClose_handles [OF cl] n jobs
      by (cases "ec_store c"; simp add: cancel_def filter_map comp_def)+
    moreover have "contextsOk p'" using assms n by (auto simp: contextsOk_def)
    ultimately show ?thesis using run Inr cl n by (simp add: embeddedClose_def)
  qed
qed

end
