(* ===== verification/Go_Time.thy ===== *)
theory Go_Time
  imports Prelude
begin

text \<open>
  Times as texts: the part of Go's \<open>time\<close> package that the DynamoDB backend stores its
  timestamps with, \<open>t.UTC().Format(time.RFC3339Nano)\<close> and \<open>time.Parse(time.RFC3339Nano, s)\<close>.

  \<^item> \<open>civil\<close> and \<open>dayNumber\<close> turn days since 1 January of year 1 into dates of the Gregorian
    calendar and back, by cycles of 400, 100, 4 and 1 years as the package does.
  \<^item> \<open>formatRFC3339\<close> drops the trailing zeros of the fraction, as the layout
    \<open>.999999999\<close> says; \<open>parseRFC3339\<close> reads UTC and numeric zones and checks every range.
  \<^item> The round trip holds for the years 1 to 9999 (\<open>parse_format\<close>).
\<close>

section \<open>Decimal digits\<close>

definition digit :: "int \<Rightarrow> char" where
  "digit n = char_of (48 + n mod 10)"

definition isDigit :: "char \<Rightarrow> bool" where
  "isDigit c \<longleftrightarrow> 48 \<le> (of_char c :: int) \<and> (of_char c :: int) \<le> 57"

definition digitVal :: "char \<Rightarrow> int" where
  "digitVal c = of_char c - 48"

lemma of_char_digit [simp]: "(of_char (digit n) :: int) = 48 + n mod 10"
  by (simp add: digit_def)

lemma isDigit_digit [simp]: "isDigit (digit n)"
  by (simp add: isDigit_def)

lemma digitVal_digit [simp]: "digitVal (digit n) = n mod 10"
  by (simp add: digitVal_def)

function decDigits :: "int \<Rightarrow> string" where
  "decDigits n = (if n < 10 then [digit n] else decDigits (n div 10) @ [digit n])"
  by auto

termination by (relation "measure nat") auto

declare decDigits.simps [simp del]

text \<open>\<open>appendInt(b, x, width)\<close>: at least \<open>width\<close> digits, with leading zeros.\<close>

definition appendInt :: "int \<Rightarrow> nat \<Rightarrow> string" where
  "appendInt x width = (let ds = decDigits \<bar>x\<bar> in
     (if x < 0 then ''-'' else '''') @ replicate (width - length ds) (CHR ''0'') @ ds)"

definition numVal :: "string \<Rightarrow> int" where
  "numVal s = foldl (\<lambda>v c. 10 * v + digitVal c) 0 s"

lemma numVal_foldl: "foldl (\<lambda>v c. 10 * v + digitVal c) a s = a * 10 ^ length s + numVal s"
proof (induction s rule: rev_induct)
  case (snoc c s)
  then show ?case by (simp add: numVal_def algebra_simps)
qed (simp add: numVal_def)

lemma numVal_append: "numVal (s @ t) = numVal s * 10 ^ length t + numVal t"
  using numVal_foldl [of "numVal s" t] by (simp add: numVal_def)

lemma digitVal_0 [simp]: "digitVal (CHR ''0'') = 0"
  by (simp add: digitVal_def)

lemma isDigit_0 [simp]: "isDigit (CHR ''0'')"
  by (simp add: isDigit_def)

lemma numVal_zeros [simp]: "numVal (replicate n (CHR ''0'')) = 0"
  by (induction n) (simp_all add: numVal_def)

lemma numVal_decDigits: "0 \<le> n \<Longrightarrow> numVal (decDigits n) = n"
proof (induction n rule: decDigits.induct)
  case (1 n)
  have "numVal (if n < 10 then [digit n] else decDigits (n div 10) @ [digit n]) = n"
  proof (cases "n < 10")
    case False
    from 1(1) [OF False] False show ?thesis by (simp add: numVal_append) (simp add: numVal_def)
  qed (use 1(2) in \<open>simp add: numVal_def\<close>)
  then show ?case by (simp only: decDigits.simps [of n])
qed

lemma decDigits_isDigit: "c \<in> set (decDigits n) \<Longrightarrow> isDigit c"
proof (induction n rule: decDigits.induct)
  case (1 n)
  from 1(2) have "c \<in> set (if n < 10 then [digit n] else decDigits (n div 10) @ [digit n])"
    by (simp only: decDigits.simps [of n])
  with 1(1) show ?case by (auto split: if_splits)
qed

lemma length_decDigits: "n < 10 ^ Suc w \<Longrightarrow> length (decDigits n) \<le> Suc w"
proof (induction w arbitrary: n)
  case (Suc w)
  then have "n div 10 < 10 ^ Suc w" by simp
  from Suc.IH [OF this] show ?case by (subst decDigits.simps) simp
qed (simp add: decDigits.simps)

lemma appendInt_fits:
  assumes "0 \<le> x" and "x < 10 ^ Suc w"
  shows "length (appendInt x (Suc w)) = Suc w" and "numVal (appendInt x (Suc w)) = x"
    and "\<forall>c\<in>set (appendInt x (Suc w)). isDigit c"
  using length_decDigits [OF assms(2)] assms(1)
  by (auto simp: appendInt_def Let_def numVal_append numVal_decDigits dest: decDigits_isDigit)

section \<open>The calendar\<close>

definition isLeap :: "int \<Rightarrow> bool" where
  "isLeap year \<longleftrightarrow> year mod 4 = 0 \<and> (year mod 100 \<noteq> 0 \<or> year mod 400 = 0)"

definition monthLengths :: "bool \<Rightarrow> int list" where
  "monthLengths leap = [31, if leap then 29 else 28, 31, 30, 31, 30, 31, 31, 30, 31, 30, 31]"

definition daysIn :: "int \<Rightarrow> int \<Rightarrow> int" where
  "daysIn month year = monthLengths (isLeap year) ! nat (month - 1)"

text \<open>Month and day of the month of a day of the year (from 0).\<close>

fun monthDay :: "int list \<Rightarrow> int \<Rightarrow> int \<Rightarrow> int \<times> int" where
  "monthDay [] m yd = (m, yd + 1)"
| "monthDay (l # ls) m yd = (if yd < l then (m, yd + 1) else monthDay ls (m + 1) (yd - l))"

definition civil :: "int \<Rightarrow> int \<times> int \<times> int" where
  "civil d = (let n400 = d div 146097; r400 = d mod 146097;
     n100 = min 3 (r400 div 36524); r100 = r400 - 36524 * n100;
     n4 = r100 div 1461; r4 = r100 mod 1461;
     n1 = min 3 (r4 div 365); yday = r4 - 365 * n1;
     year = 400 * n400 + 100 * n100 + 4 * n4 + n1 + 1
   in (year, monthDay (monthLengths (isLeap year)) 1 yday))"

definition dayNumber :: "int \<Rightarrow> int \<Rightarrow> int \<Rightarrow> int" where
  "dayNumber year month day = (let y = year - 1 in
     365 * y + y div 4 - y div 100 + y div 400 +
     sum_list (take (nat (month - 1)) (monthLengths (isLeap year))) + day - 1)"

lemma monthDay_spec:
  assumes "monthDay ls m yd = (m', d')" and "0 \<le> yd" and "yd < sum_list ls"
  shows "\<exists>k. m' = m + int k \<and> k < length ls \<and> 1 \<le> d' \<and> d' \<le> ls ! k \<and>
    sum_list (take k ls) + d' - 1 = yd"
  using assms
proof (induction ls m yd rule: monthDay.induct)
  case (2 l ls m yd)
  show ?case
  proof (cases "yd < l")
    case True
    with 2 show ?thesis by (intro exI [of _ 0]) auto
  next
    case False
    with 2 obtain k where "m' = m + 1 + int k" "k < length ls" "1 \<le> d'" "d' \<le> ls ! k"
      "sum_list (take k ls) + d' - 1 = yd - l" by auto
    then show ?thesis by (intro exI [of _ "Suc k"]) auto
  qed
qed simp

lemma sum_monthLengths: "sum_list (monthLengths leap) = (if leap then 366 else 365)"
  by (simp add: monthLengths_def)

lemma length_monthLengths [simp]: "length (monthLengths leap) = 12"
  by (simp add: monthLengths_def)

lemma monthDay_range:
  assumes "monthDay (monthLengths leap) 1 yd = (m', d')" and "0 \<le> yd"
    and "yd < (if leap then 366 else 365)"
  shows "1 \<le> m' \<and> m' \<le> 12 \<and> 1 \<le> d' \<and> d' \<le> monthLengths leap ! nat (m' - 1) \<and>
    sum_list (take (nat (m' - 1)) (monthLengths leap)) + d' - 1 = yd"
  using monthDay_spec [OF assms(1,2)] assms(3) by (auto simp: sum_monthLengths)

text \<open>The year a day lies in, with the days of the years before it.\<close>

lemma cycle_year:
  assumes "0 \<le> n100" "n100 \<le> 3" "0 \<le> n4" "n4 \<le> 24" "0 \<le> n1" "n1 \<le> (3::int)"
    and "y = 400 * n400 + 100 * n100 + 4 * n4 + n1"
  shows "365 * y + y div 4 - y div 100 + y div 400 = 146097 * n400 + 36524 * n100 + 1461 * n4 + 365 * n1"
    and "isLeap (y + 1) \<longleftrightarrow> n1 = 3 \<and> (n4 \<noteq> 24 \<or> n100 = 3)"
proof -
  have "y div 4 = 100 * n400 + 25 * n100 + n4" "y div 100 = 4 * n400 + n100" "y div 400 = n400"
    using assms by linarith+
  with assms(7) show "365 * y + y div 4 - y div 100 + y div 400 =
      146097 * n400 + 36524 * n100 + 1461 * n4 + 365 * n1" by simp
  define z where "z = 4 * n4 + n1 + 1"
  have z: "1 \<le> z" "z \<le> 100" "z = 100 \<longleftrightarrow> n4 = 24 \<and> n1 = 3"
    using assms(1-6) unfolding z_def by presburger+
  have "(y + 1) mod 4 = (n1 + 1 + 4 * (100 * n400 + 25 * n100 + n4)) mod 4"
    unfolding assms(7) by (simp add: algebra_simps)
  also have "\<dots> = (n1 + 1) mod 4" by (rule mod_mult_self2)
  finally have 4: "(y + 1) mod 4 = 0 \<longleftrightarrow> n1 = 3" using assms(5,6) by (cases "n1 = 3") auto
  have "(y + 1) mod 100 = (z + 100 * (4 * n400 + n100)) mod 100"
    unfolding assms(7) z_def by (simp add: algebra_simps)
  also have "\<dots> = z mod 100" by (rule mod_mult_self2)
  finally have 100: "(y + 1) mod 100 = 0 \<longleftrightarrow> z = 100" using z(1,2) by (cases "z = 100") auto
  have "(y + 1) mod 400 = (z + 100 * n100 + 400 * n400) mod 400"
    unfolding assms(7) z_def by (simp add: algebra_simps)
  also have "\<dots> = (z + 100 * n100) mod 400" by (rule mod_mult_self2)
  finally have "(y + 1) mod 400 = (z + 100 * n100) mod 400" .
  moreover have "(z + 100 * n100) mod 400 = z + 100 * n100" if "z + 100 * n100 \<noteq> 400"
    using that z(1,2) assms(1,2) by (intro mod_pos_pos_trivial) auto
  ultimately have 400: "(y + 1) mod 400 = 0 \<longleftrightarrow> z = 100 \<and> n100 = 3"
    using z(1,2) assms(1,2) by (cases "z + 100 * n100 = 400") auto
  show "isLeap (y + 1) \<longleftrightarrow> n1 = 3 \<and> (n4 \<noteq> 24 \<or> n100 = 3)"
    unfolding isLeap_def 4 100 400 z(3) by blast
qed

lemma capped:
  assumes "0 \<le> r" and "r < 4 * c + e" and "(0::int) < c" and "0 \<le> e"
    and "n = min 3 (r div c)" and "r' = r - c * n"
  shows "0 \<le> n \<and> n \<le> 3 \<and> 0 \<le> r' \<and> r' < c + e \<and> (n = 3 \<or> r' < c)"
proof -
  have q: "r = c * (r div c) + r mod c" "0 \<le> r mod c" "r mod c < c" "0 \<le> r div c"
    using assms(1,3) by (simp_all add: pos_imp_zdiv_nonneg_iff)
  show ?thesis
  proof (cases "r div c < 3")
    case True
    then have "r' = r mod c" "n = r div c" using assms(5,6) by (auto simp: minus_mult_div_eq_mod)
    with q True assms(4) show ?thesis by simp
  next
    case False
    then have "c * 3 \<le> c * (r div c)" using assms(3) by (intro mult_left_mono) auto
    moreover have "n = 3" using False assms(5) by simp
    moreover have "c * 3 \<le> r" using \<open>c * 3 \<le> c * (r div c)\<close> q(1,2) by linarith
    ultimately show ?thesis using assms(2,6) by auto
  qed
qed

lemma div_pred: "0 < c \<Longrightarrow> (y - 1) div c = y div c - (if y mod c = 0 then 1 else (0::int))"
proof (cases "y mod c = 0")
  case True
  assume c: "0 < c"
  from True have "y - 1 = (c - 1) + c * (y div c - 1)"
    using mult_div_mod_eq [of c y] by (simp add: algebra_simps)
  also have "\<dots> div c = (c - 1) div c + (y div c - 1)" using c by (simp only: div_mult_self2 less_imp_neq)
  finally show ?thesis using c True by (simp add: div_pos_pos_trivial)
next
  case False
  assume c: "0 < c"
  from False c have r: "0 \<le> y mod c - 1" "y mod c - 1 < c"
    using pos_mod_sign [OF c, of y] pos_mod_bound [OF c, of y] by linarith+
  have "y - 1 = (y mod c - 1) + c * (y div c)" using mult_div_mod_eq [of c y] by simp
  also have "\<dots> div c = (y mod c - 1) div c + y div c" using c by (simp only: div_mult_self2 less_imp_neq)
  finally show ?thesis using r False by (simp add: div_pos_pos_trivial)
qed

lemma civil_spec:
  assumes "civil d = (y, m, day)"
  shows "dayNumber y m day = d" and "1 \<le> m" and "m \<le> 12" and "1 \<le> day" and "day \<le> daysIn m y"
proof -
  define n400 r400 where a: "n400 = d div 146097" "r400 = d mod 146097"
  define n100 r100 where b: "n100 = min 3 (r400 div 36524)" "r100 = r400 - 36524 * n100"
  define n4 r4 where c: "n4 = r100 div 1461" "r4 = r100 mod 1461"
  define n1 yday where e: "n1 = min 3 (r4 div 365)" "yday = r4 - 365 * n1"
  have r400: "0 \<le> r400" "r400 < 146097" "d = 146097 * n400 + r400" by (simp_all add: a)
  have r100: "0 \<le> n100" "n100 \<le> 3" "0 \<le> r100" "r100 \<le> 36524" "n100 = 3 \<or> r100 < 36524"
    using capped [OF r400(1) _ _ _ b, of 1] r400(2) by simp_all
  have r4: "0 \<le> r4" "r4 < 1461" "r100 = 1461 * n4 + r4" "0 \<le> n4"
    using r100(3) unfolding c by (simp_all only: pos_mod_sign pos_mod_bound mult_div_mod_eq
      pos_imp_zdiv_nonneg_iff zero_less_numeral)
  then have r4: "0 \<le> n4" "n4 \<le> 24" "0 \<le> r4" "r4 \<le> 1460" "r100 = 1461 * n4 + r4"
    using r100(4) by auto
  have yd: "0 \<le> n1" "n1 \<le> 3" "0 \<le> yday" "yday \<le> 365" "n1 = 3 \<or> yday < 365" "r4 = 365 * n1 + yday"
    using capped [OF r4(3) _ _ _ e, of 1] r4(4) e(2) by simp_all
  define y0 where "y0 = 400 * n400 + 100 * n100 + 4 * n4 + n1"
  note cyc = cycle_year [OF r100(1,2) r4(1,2) yd(1,2) y0_def]
  have "yday < 365" if "\<not> isLeap (y0 + 1)"
    using that yd(4-6) r4(4,5) r100(4,5) unfolding cyc(2) by auto
  then have yr: "yday < (if isLeap (y0 + 1) then 366 else 365)" using yd(4) by auto
  have eq: "y = y0 + 1" "monthDay (monthLengths (isLeap (y0 + 1))) 1 yday = (m, day)"
  proof -
    have "civil d = (y0 + 1, monthDay (monthLengths (isLeap (y0 + 1))) 1 yday)"
      by (simp only: civil_def Let_def a b c e y0_def)
    with assms show "y = y0 + 1" "monthDay (monthLengths (isLeap (y0 + 1))) 1 yday = (m, day)"
      by (metis prod.inject)+
  qed
  note mr = monthDay_range [OF eq(2) yd(3) yr]
  show "1 \<le> m" "m \<le> 12" "1 \<le> day" "day \<le> daysIn m y"
    using mr eq(1) by (simp_all add: daysIn_def)
  have "dayNumber y m day = 146097 * n400 + 36524 * n100 + 1461 * n4 + 365 * n1 + yday"
    using mr cyc(1) eq(1) by (simp add: dayNumber_def Let_def)
  also have "\<dots> = d" using r400(3) b(2) r4(5) yd(6) by simp
  finally show "dayNumber y m day = d" .
qed

lemma year_days_mono:
  assumes "y \<le> y'"
  shows "365 * y + y div 4 - y div 100 + y div 400 \<le> 365 * y' + y' div 4 - y' div 100 + (y' div 400 :: int)"
proof -
  have m: "y div c \<le> y' div c" if "0 < c" for c :: int
    using assms that by (rule zdiv_mono1)
  have "y' div 100 \<le> (y + 100 * (y' - y)) div 100" using assms by (intro zdiv_mono1) auto
  then have "y' div 100 \<le> y div 100 + (y' - y)" by simp
  with m [of 4] m [of 400] assms show ?thesis by simp
qed

text \<open>The first instant of the year 10000.\<close>

definition maxTime :: time where
  "maxTime = dayNumber 10000 1 1 * 24 * hour"

definition daysBefore :: "int \<Rightarrow> int" where
  "daysBefore year = (let y = year - 1 in 365 * y + y div 4 - y div 100 + y div 400)"

lemma dayNumber_daysBefore: "dayNumber year month day = daysBefore year +
    sum_list (take (nat (month - 1)) (monthLengths (isLeap year))) + day - 1"
  by (simp add: dayNumber_def daysBefore_def Let_def)

lemma leap_day:
  "(if isLeap y then 1 else 0) = (if y mod 4 = 0 then 1 else 0) - (if y mod 100 = 0 then 1 else 0) +
     (if y mod 400 = 0 then 1 else (0::int))"
proof -
  have dvd: "y mod 400 = 0 \<Longrightarrow> y mod 100 = 0" "y mod 100 = 0 \<Longrightarrow> y mod 4 = 0"
    using dvd_trans [of 100 400 y] dvd_trans [of 4 100 y] unfolding mod_eq_0_iff_dvd by simp_all
  have split: "(if p4 \<and> (\<not> p100 \<or> p400) then 1 else 0) = (if p4 then 1 else 0) - (if p100 then 1 else 0) +
      (if p400 then 1 else (0::int))" if "p400 \<longrightarrow> p100" "p100 \<longrightarrow> p4" for p4 p100 p400
    using that by (cases p4; cases p100; cases p400) simp_all
  show ?thesis unfolding isLeap_def by (rule split) (rule impI, rule dvd, assumption)+
qed

lemma daysBefore_Suc: "daysBefore (y + 1) = daysBefore y + (if isLeap y then 366 else 365)"
proof -
  have shift: "a + (if isLeap y then 1 else 0) = a + (b4 - b100 + b400) \<Longrightarrow>
      365 * y + q4 - q100 + q400 = 365 * (y - 1) + (q4 - b4) - (q100 - b100) + (q400 - b400) +
        (if isLeap y then 366 else 365)" for a b4 b100 b400 q4 q100 q400 :: int
    by (simp split: if_splits)
  show ?thesis
    unfolding daysBefore_def Let_def add_diff_cancel_right' div_pred [of 4 y, simplified]
      div_pred [of 100 y, simplified] div_pred [of 400 y, simplified]
    by (rule shift, rule arg_cong [OF leap_day])
qed

lemma daysBefore_mono: "y \<le> y' \<Longrightarrow> daysBefore y \<le> daysBefore y'"
  unfolding daysBefore_def Let_def by (rule year_days_mono) simp

lemma dayNumber_next:
  assumes "y < y'" and "1 \<le> m" and "m \<le> 12" and "day \<le> daysIn m y"
  shows "dayNumber y m day < dayNumber y' 1 1"
proof -
  let ?ls = "monthLengths (isLeap y)" and ?k = "nat (m - 1)"
  have k: "?k < 12" using assms by simp
  have "sum_list (take ?k ?ls) + ?ls ! ?k = sum_list (take (Suc ?k) ?ls)"
    using k by (simp add: take_Suc_conv_app_nth)
  also have "\<dots> \<le> sum_list (take (Suc ?k) ?ls) + sum_list (drop (Suc ?k) ?ls)"
  proof -
    have "0 \<le> x" if "x \<in> set (drop (Suc ?k) ?ls)" for x
      using in_set_dropD [OF that] by (auto simp: monthLengths_def split: if_splits)
    then show ?thesis using sum_list_nonneg [of "drop (Suc ?k) ?ls"] by simp
  qed
  also have "\<dots> = sum_list ?ls" by (metis append_take_drop_id sum_list_append)
  finally have "dayNumber y m day < daysBefore (y + 1)"
    using assms(4) by (simp add: dayNumber_daysBefore sum_monthLengths daysIn_def daysBefore_Suc)
  also have "\<dots> \<le> daysBefore y'" using assms(1) by (intro daysBefore_mono) simp
  finally show ?thesis by (simp add: dayNumber_daysBefore)
qed

section \<open>Texts of times\<close>

definition stripZeros :: "string \<Rightarrow> string" where
  "stripZeros s = rev (dropWhile (\<lambda>c. c = CHR ''0'') (rev s))"

definition fraction :: "int \<Rightarrow> string" where
  "fraction ns = (if ns = 0 then '''' else ''.'' @ stripZeros (appendInt ns 9))"

definition formatRFC3339 :: "time \<Rightarrow> string" where
  "formatRFC3339 t = (let secs = t div second; ns = t mod second; day = secs div 86400; s = secs mod 86400
   in case civil day of (y, m, d) \<Rightarrow>
     appendInt y 4 @ ''-'' @ appendInt m 2 @ ''-'' @ appendInt d 2 @ ''T'' @
     appendInt (s div 3600) 2 @ '':'' @ appendInt (s mod 3600 div 60) 2 @ '':'' @
     appendInt (s mod 60) 2 @ fraction ns @ ''Z'')"

text \<open>\<open>parseUint(s, min, max)\<close>.\<close>

definition parseUint :: "string \<Rightarrow> int \<Rightarrow> int \<Rightarrow> int option" where
  "parseUint s lo hi =
     (if list_all isDigit s \<and> lo \<le> numVal s \<and> numVal s \<le> hi then Some (numVal s) else None)"

text \<open>The fraction, digits past the ninth dropped, and the rest.\<close>

definition parseFraction :: "string \<Rightarrow> int \<times> string" where
  "parseFraction s = (case s of
     [] \<Rightarrow> (0, s)
   | c # r \<Rightarrow> (let ds = takeWhile isDigit r; v = take 9 ds in
       if c = CHR ''.'' \<and> ds \<noteq> [] then (numVal v * 10 ^ (9 - length v), dropWhile isDigit r) else (0, s)))"

text \<open>The zone: seconds east of UTC.\<close>

definition parseZone :: "string \<Rightarrow> int option" where
  "parseZone s =
     (if s = ''Z'' then Some 0
      else if length s = 6 \<and> (s ! 0 = CHR ''+'' \<or> s ! 0 = CHR ''-'') \<and> s ! 3 = CHR '':'' then
        (case parseUint (take 2 (drop 1 s)) 0 23 of
           None \<Rightarrow> None
         | Some h \<Rightarrow> (case parseUint (drop 4 s) 0 59 of
             None \<Rightarrow> None
           | Some m \<Rightarrow> Some ((if s ! 0 = CHR ''-'' then -1 else 1) * (3600 * h + 60 * m))))
      else None)"

definition parseRFC3339 :: "string \<Rightarrow> time option" where
  "parseRFC3339 s =
     (if length s < 19 \<or> s ! 4 \<noteq> CHR ''-'' \<or> s ! 7 \<noteq> CHR ''-'' \<or> s ! 10 \<noteq> CHR ''T'' \<or>
         s ! 13 \<noteq> CHR '':'' \<or> s ! 16 \<noteq> CHR '':'' then None
      else
        case parseUint (take 4 s) 0 9999 of None \<Rightarrow> None | Some y \<Rightarrow>
        case parseUint (take 2 (drop 5 s)) 1 12 of None \<Rightarrow> None | Some m \<Rightarrow>
        case parseUint (take 2 (drop 8 s)) 1 (daysIn m y) of None \<Rightarrow> None | Some d \<Rightarrow>
        case parseUint (take 2 (drop 11 s)) 0 23 of None \<Rightarrow> None | Some h \<Rightarrow>
        case parseUint (take 2 (drop 14 s)) 0 59 of None \<Rightarrow> None | Some mi \<Rightarrow>
        case parseUint (take 2 (drop 17 s)) 0 59 of None \<Rightarrow> None | Some se \<Rightarrow>
        case parseFraction (drop 19 s) of (ns, rest) \<Rightarrow>
        case parseZone rest of None \<Rightarrow> None | Some z \<Rightarrow>
          Some ((dayNumber y m d * 86400 + 3600 * h + 60 * mi + se - z) * second + ns))"

lemma stripZeros_zeros: "\<exists>k. s = stripZeros s @ replicate k (CHR ''0'')"
proof -
  have "rev s = takeWhile (\<lambda>c. c = CHR ''0'') (rev s) @ dropWhile (\<lambda>c. c = CHR ''0'') (rev s)"
    by simp
  then have "s = stripZeros s @ rev (takeWhile (\<lambda>c. c = CHR ''0'') (rev s))"
    unfolding stripZeros_def by (metis rev_append rev_rev_ident)
  moreover have "takeWhile (\<lambda>c. c = CHR ''0'') (rev s) =
      replicate (length (takeWhile (\<lambda>c. c = CHR ''0'') (rev s))) (CHR ''0'')"
    by (rule replicate_length_same [symmetric]) (auto dest: set_takeWhileD)
  ultimately show ?thesis by (metis rev_replicate)
qed

lemma parse_fraction:
  assumes "0 \<le> ns" and "ns < second"
  shows "parseFraction (fraction ns @ ''Z'') = (ns, ''Z'')"
proof (cases "ns = 0")
  case False
  note fits = appendInt_fits [of ns 8, simplified, OF assms(1)]
  obtain k where k: "appendInt ns 9 = stripZeros (appendInt ns 9) @ replicate k (CHR ''0'')"
    using stripZeros_zeros by blast
  define v where "v = stripZeros (appendInt ns 9)"
  have d: "\<forall>c\<in>set v. isDigit c" "length v + k = 9" "numVal v * 10 ^ k = ns"
    using fits assms(2) k numVal_append [of v "replicate k (CHR ''0'')"]
    by (metis Un_iff set_append v_def, metis length_append length_replicate v_def,
        metis add_0_right length_replicate numVal_zeros v_def)
  then have "v \<noteq> []" using False by (auto simp: numVal_def)
  moreover have "\<not> isDigit (CHR ''Z'')" by (simp add: isDigit_def)
  moreover have "9 - length v = k" using d(2) by simp
  ultimately show ?thesis using False d
    by (simp add: fraction_def parseFraction_def Let_def v_def [symmetric] takeWhile_append
        dropWhile_append)
qed (simp add: fraction_def parseFraction_def isDigit_def)

lemma parseUint_appendInt:
  assumes "lo \<le> x" and "x \<le> hi" and "0 \<le> x" and "x < 10 ^ Suc w"
  shows "parseUint (appendInt x (Suc w)) lo hi = Some x"
  using appendInt_fits [OF assms(3,4)] assms(1,2) by (simp add: parseUint_def list_all_iff)

lemma two_digits:
  assumes "0 \<le> x" and "x \<le> 99"
  shows "length (appendInt x 2) = 2" and "lo \<le> x \<Longrightarrow> x \<le> hi \<Longrightarrow> parseUint (appendInt x 2) lo hi = Some x"
  using appendInt_fits(1) [of x 1] parseUint_appendInt [of lo x hi 1] assms by (simp_all add: numeral_2_eq_2)

lemma four_digits:
  assumes "0 \<le> x" and "x \<le> 9999"
  shows "length (appendInt x 4) = 4" and "lo \<le> x \<Longrightarrow> x \<le> hi \<Longrightarrow> parseUint (appendInt x 4) lo hi = Some x"
  using appendInt_fits(1) [of x 3] parseUint_appendInt [of lo x hi 3] assms by (simp_all add: eval_nat_numeral)

text \<open>The fields of a text of the fixed layout.\<close>

lemma fixed_layout:
  assumes "length y = 4" "length mo = 2" "length d = 2" "length h = 2" "length mi = 2" "length s = 2"
    and "line = y @ ''-'' @ mo @ ''-'' @ d @ ''T'' @ h @ '':'' @ mi @ '':'' @ s @ rest"
  shows "\<not> length line < 19" "line ! 4 = CHR ''-''" "line ! 7 = CHR ''-''" "line ! 10 = CHR ''T''"
    "line ! 13 = CHR '':''" "line ! 16 = CHR '':''" "take 4 line = y" "take 2 (drop 5 line) = mo"
    "take 2 (drop 8 line) = d" "take 2 (drop 11 line) = h" "take 2 (drop 14 line) = mi"
    "take 2 (drop 17 line) = s" "drop 19 line = rest"
  using assms by (simp_all add: nth_append)

lemma clock_split:
  assumes "0 \<le> s" and "s < (86400::int)"
  shows "3600 * (s div 3600) + 60 * (s mod 3600 div 60) + s mod 60 = s" "s div 3600 \<le> 23"
    "0 \<le> s div 3600" "0 \<le> s mod 3600 div 60" "s mod 3600 div 60 \<le> 59" "0 \<le> s mod 60" "s mod 60 \<le> 59"
proof -
  have "s mod 3600 mod 60 = s mod 60" by (rule mod_mod_cancel) simp
  moreover have "s = 3600 * (s div 3600) + s mod 3600"
    "s mod 3600 = 60 * (s mod 3600 div 60) + s mod 3600 mod 60" by simp_all
  ultimately show "3600 * (s div 3600) + 60 * (s mod 3600 div 60) + s mod 60 = s" by linarith
  show "s div 3600 \<le> 23" "0 \<le> s div 3600" using assms by linarith+
  have "0 \<le> s mod 3600" "s mod 3600 < 3600" by simp_all
  then show "0 \<le> s mod 3600 div 60" "s mod 3600 div 60 \<le> 59" by linarith+
  have "0 \<le> s mod 60" "s mod 60 < 60" by simp_all
  then show "0 \<le> s mod 60" "s mod 60 \<le> 59" by linarith+
qed

lemma civil_year:
  assumes "civil d = (y, m, day)" and "0 \<le> d" and "d < dayNumber 10000 1 1"
  shows "1 \<le> y" and "y \<le> 9999"
proof -
  note c = civil_spec [OF assms(1)]
  show "1 \<le> y"
    using dayNumber_next [of y 1 m day] c assms(2)
    by (cases "y < 1") (simp_all add: dayNumber_daysBefore daysBefore_def)
  show "y \<le> 9999"
  proof (rule ccontr)
    assume "\<not> y \<le> 9999"
    then have "dayNumber 10000 1 1 \<le> dayNumber y 1 1"
      using daysBefore_mono [of 10000 y] by (simp add: dayNumber_daysBefore)
    also have "\<dots> \<le> dayNumber y m day"
    proof -
      have "0 \<le> sum_list (take (nat (m - 1)) (monthLengths (isLeap y)))"
        by (rule sum_list_nonneg) (auto simp: monthLengths_def dest!: in_set_takeD split: if_splits)
      with c(4) show ?thesis by (simp add: dayNumber_daysBefore)
    qed
    finally show False using c(1) assms(3) by simp
  qed
qed

lemma parse_format:
  assumes "0 \<le> t" and "t < maxTime"
  shows "parseRFC3339 (formatRFC3339 t) = Some t"
proof -
  define secs ns day s where d: "secs = t div second" "ns = t mod second" "day = secs div 86400" "s = secs mod 86400"
  obtain y m dd where c: "civil day = (y, m, dd)" by (cases "civil day")
  have rng: "0 \<le> ns" "ns < second" "0 \<le> s" "s < 86400" "t = (day * 86400 + s) * second + ns"
    by (simp_all add: d)
  have "0 \<le> secs" "secs < dayNumber 10000 1 1 * 86400"
    using assms by (simp_all add: d(1) maxTime_def pos_imp_zdiv_nonneg_iff)
  then have day: "0 \<le> day" "day < dayNumber 10000 1 1"
    unfolding d(3) by (simp_all add: pos_imp_zdiv_nonneg_iff)
  note spec = civil_spec [OF c] and yr = civil_year [OF c day] and ck = clock_split [OF rng(3,4)]
  have dd: "dd \<le> 31" using spec(2-5)
    by (auto simp: daysIn_def monthLengths_def nth_Cons' split: if_splits)
  define h mi se where hms: "h = s div 3600" "mi = s mod 3600 div 60" "se = s mod 60"
  have eq: "formatRFC3339 t = appendInt y 4 @ ''-'' @ appendInt m 2 @ ''-'' @ appendInt dd 2 @ ''T'' @
      appendInt h 2 @ '':'' @ appendInt mi 2 @ '':'' @ appendInt se 2 @ fraction ns @ ''Z''"
    by (simp add: formatRFC3339_def Let_def c flip: d hms)
  have b: "0 \<le> y" "y \<le> 9999" "0 \<le> m" "m \<le> 99" "0 \<le> dd" "dd \<le> 99" "0 \<le> h" "h \<le> 99" "h \<le> 23"
    "0 \<le> mi" "mi \<le> 99" "mi \<le> 59" "0 \<le> se" "se \<le> 99" "se \<le> 59"
    using yr spec(2-4) dd ck(2-7) unfolding hms [symmetric] by simp_all
  note lay = fixed_layout [OF four_digits(1) [OF b(1,2)] two_digits(1) [OF b(3,4)] two_digits(1) [OF b(5,6)]
      two_digits(1) [OF b(7,8)] two_digits(1) [OF b(10,11)] two_digits(1) [OF b(13,14)] eq]
  note nums = four_digits(2) [OF b(1,2,1,2)] two_digits(2) [OF b(3,4) spec(2,3)] two_digits(2) [OF b(5,6) spec(4,5)]
    two_digits(2) [OF b(7,8,7,9)] two_digits(2) [OF b(10,11,10,12)] two_digits(2) [OF b(13,14,13,15)]
  have "parseRFC3339 (formatRFC3339 t) = Some ((dayNumber y m dd * 86400 + 3600 * h + 60 * mi + se - 0) * second + ns)"
    unfolding parseRFC3339_def lay nums option.case parse_fraction [OF rng(1,2)] prod.case
    using lay(1) by (simp add: parseZone_def)
  also have "\<dots> = Some t" using ck(1) spec(1) rng(5) unfolding hms [symmetric] by (simp add: algebra_simps)
  finally show ?thesis .
qed

end
