(* ===== verification/Dynamo_Items.thy ===== *)
theory Dynamo_Items
  imports Repo Go_Time
begin

text \<open>
  Keys and items of the DynamoDB backend (\<open>keys.go\<close>, \<open>items.go\<close>).

  \<^item> Every row of the single table has a text as its partition key, made of a kind, the
    tenant and identifiers, joined by \<open>#\<close>. The key functions are injective as long as the
    tenant (and, for balances, the currency) has no \<open>#\<close>; the kinds never collide.
  \<^item> The item structs hold decimals and times as texts. Metadata and payloads are kept as
    the JSON values they denote. \<open>attributevalue.MarshalMap\<close> is not modelled: the datatype
    \<open>item\<close> keeps the struct that was marshalled.
  \<^item> Each \<open>fromItem\<close> reads back what \<open>toItem\<close> wrote (\<open>account_roundtrip\<close> and so on), for
    times that RFC 3339 can write (\<open>goodTime\<close>).
\<close>

section \<open>Keys (keys.go)\<close>

definition accountPK :: "string \<Rightarrow> string \<Rightarrow> string" where
  "accountPK tn a = ''ACC#'' @ tn @ ''#'' @ a"

definition accountUniqPK :: "string \<Rightarrow> string \<Rightarrow> string \<Rightarrow> string \<Rightarrow> string \<Rightarrow> string" where
  "accountUniqPK tn ownerType ownerID accountType ccy =
     ''ACCU#'' @ tn @ ''#'' @ ownerType @ ''#'' @ ownerID @ ''#'' @ accountType @ ''#'' @ ccy"

definition balancePK :: "string \<Rightarrow> string \<Rightarrow> string \<Rightarrow> string" where
  "balancePK tn a ccy = ''BAL#'' @ tn @ ''#'' @ a @ ''#'' @ ccy"

definition journalPK :: "string \<Rightarrow> string \<Rightarrow> string" where
  "journalPK tn j = ''JRN#'' @ tn @ ''#'' @ j"

definition eventUniqPK :: "string \<Rightarrow> string" where
  "eventUniqPK ev = ''EVT#'' @ ev"

definition flowPK :: "string \<Rightarrow> string \<Rightarrow> string" where
  "flowPK tn f = ''FLOW#'' @ tn @ ''#'' @ f"

definition flowIdempPK :: "string \<Rightarrow> string \<Rightarrow> string" where
  "flowIdempPK tn key = ''FIDEMP#'' @ tn @ ''#'' @ key"

definition outboxPK :: "string \<Rightarrow> string" where
  "outboxPK i = ''OBX#'' @ i"

definition reservationPK :: "string \<Rightarrow> string \<Rightarrow> string" where
  "reservationPK tn i = ''RES#'' @ tn @ ''#'' @ i"

definition resIdempPK :: "string \<Rightarrow> string \<Rightarrow> string" where
  "resIdempPK tn key = ''RIDEMP#'' @ tn @ ''#'' @ key"

definition gsiResOwnerPK :: "string \<Rightarrow> string \<Rightarrow> string \<Rightarrow> string" where
  "gsiResOwnerPK tn ownerType ownerID = ''RESOWN#'' @ tn @ ''#'' @ ownerType @ ''#'' @ ownerID"

abbreviation gsiOutboxPending :: string where "gsiOutboxPending \<equiv> ''OBX#PENDING''"
abbreviation gsiReservationExpiry :: string where "gsiReservationExpiry \<equiv> ''RESEXP''"

lemmas pk_defs = accountPK_def accountUniqPK_def balancePK_def journalPK_def eventUniqPK_def
  flowPK_def flowIdempPK_def outboxPK_def reservationPK_def resIdempPK_def

text \<open>The kind of a key: its first four characters.\<close>

definition pkKind :: "string \<Rightarrow> string" where
  "pkKind pk = take 4 pk"

lemma pkKinds [simp]:
  "pkKind (accountPK tn a) = ''ACC#''"
  "pkKind (accountUniqPK tn ownerT ownerI acT ccy) = ''ACCU''"
  "pkKind (balancePK tn a ccy) = ''BAL#''"
  "pkKind (journalPK tn j) = ''JRN#''"
  "pkKind (eventUniqPK ev) = ''EVT#''"
  "pkKind (flowPK tn f) = ''FLOW''"
  "pkKind (flowIdempPK tn key) = ''FIDE''"
  "pkKind (outboxPK i) = ''OBX#''"
  "pkKind (reservationPK tn i) = ''RES#''"
  "pkKind (resIdempPK tn key) = ''RIDE''"
  by (simp_all add: pkKind_def pk_defs)

abbreviation hashFree :: "string \<Rightarrow> bool" where
  "hashFree s \<equiv> CHR ''#'' \<notin> set s"

lemma hash_split:
  assumes "hashFree s" and "hashFree s'"
  shows "s @ CHR ''#'' # t = s' @ CHR ''#'' # t' \<longleftrightarrow> s = s' \<and> t = t'"
  using assms
proof (induction s arbitrary: s')
  case Nil
  then show ?case by (cases s') auto
next
  case (Cons c s)
  then show ?case by (cases s') auto
qed

lemma hash_split_right:
  assumes "hashFree t" and "hashFree t'"
  shows "s @ CHR ''#'' # t = s' @ CHR ''#'' # t' \<longleftrightarrow> s = s' \<and> t = t'"
proof -
  have "s @ CHR ''#'' # t = s' @ CHR ''#'' # t' \<longleftrightarrow>
      rev t @ CHR ''#'' # rev s = rev t' @ CHR ''#'' # rev s'"
    by (metis append.assoc append_Cons append_Nil rev.simps(2) rev_append rev_rev_ident)
  also have "\<dots> \<longleftrightarrow> rev t = rev t' \<and> rev s = rev s'" using assms by (intro hash_split) auto
  finally show ?thesis by auto
qed

lemma pk_inject:
  assumes "hashFree tn" and "hashFree tn'"
  shows "accountPK tn a = accountPK tn' a' \<longleftrightarrow> tn = tn' \<and> a = a'"
    and "journalPK tn a = journalPK tn' a' \<longleftrightarrow> tn = tn' \<and> a = a'"
    and "flowPK tn a = flowPK tn' a' \<longleftrightarrow> tn = tn' \<and> a = a'"
    and "flowIdempPK tn a = flowIdempPK tn' a' \<longleftrightarrow> tn = tn' \<and> a = a'"
    and "reservationPK tn a = reservationPK tn' a' \<longleftrightarrow> tn = tn' \<and> a = a'"
    and "resIdempPK tn a = resIdempPK tn' a' \<longleftrightarrow> tn = tn' \<and> a = a'"
    and "hashFree c \<Longrightarrow> hashFree c' \<Longrightarrow>
      balancePK tn a c = balancePK tn' a' c' \<longleftrightarrow> tn = tn' \<and> a = a' \<and> c = c'"
  using assms hash_split_right by (auto simp: pk_defs hash_split)

lemma pk_inject_free [simp]:
  "eventUniqPK e = eventUniqPK e' \<longleftrightarrow> e = e'" "outboxPK e = outboxPK e' \<longleftrightarrow> e = e'"
  by (auto simp: pk_defs)

section \<open>Texts of values (items.go)\<close>

definition fmtTime :: "time \<Rightarrow> string" where
  "fmtTime t = (if t = zeroTime then '''' else formatRFC3339 t)"

definition fmtTimePtr :: "time option \<Rightarrow> string" where
  "fmtTimePtr t = (case t of None \<Rightarrow> '''' | Some u \<Rightarrow> if u = zeroTime then '''' else formatRFC3339 u)"

definition parseTime :: "string \<Rightarrow> error + time" where
  "parseTime s = (if s = '''' then Inr zeroTime
     else case parseRFC3339 s of None \<Rightarrow> Inl (GoError ''parseTime'') | Some t \<Rightarrow> Inr t)"

definition parseTimePtr :: "string \<Rightarrow> error + time option" where
  "parseTimePtr s = (if s = '''' then Inr None
     else case parseRFC3339 s of None \<Rightarrow> Inl (GoError ''parseTimePtr'') | Some t \<Rightarrow> Inr (Some t))"

definition parseDec :: "decimal_lib \<Rightarrow> string \<Rightarrow> error + decimal" where
  "parseDec D s = (if s = '''' then Inr 0
     else case dl_NewFromString D s of None \<Rightarrow> Inl (GoError ''parseDec'') | Some d \<Rightarrow> Inr d)"

definition goodTime :: "time \<Rightarrow> bool" where
  "goodTime t \<longleftrightarrow> 0 \<le> t \<and> t < maxTime"

definition goodTimePtr :: "time option \<Rightarrow> bool" where
  "goodTimePtr t = (case t of None \<Rightarrow> True | Some u \<Rightarrow> 0 < u \<and> goodTime u)"

lemma formatRFC3339_nonempty [simp]: "formatRFC3339 t \<noteq> ''''"
  by (simp add: formatRFC3339_def Let_def split: prod.splits)

lemma parseTime_fmtTime [simp]: "goodTime t \<Longrightarrow> parseTime (fmtTime t) = Inr t"
  by (simp add: parseTime_def fmtTime_def goodTime_def parse_format)

lemma parseTimePtr_fmtTimePtr [simp]: "goodTimePtr t \<Longrightarrow> parseTimePtr (fmtTimePtr t) = Inr t"
  by (auto simp: parseTimePtr_def fmtTimePtr_def goodTime_def goodTimePtr_def parse_format split: option.splits)

lemma parseDec_String [simp]: "codec_ok D \<Longrightarrow> dl_String D d \<noteq> '''' \<Longrightarrow> parseDec D (dl_String D d) = Inr d"
  by (simp add: parseDec_def)

section \<open>Items (items.go)\<close>

record accountItem =
  ai_PK :: string
  ai_TenantID :: string
  ai_AccountID :: string
  ai_OwnerType :: string
  ai_OwnerID :: string
  ai_AccountType :: string
  ai_Currency :: string
  ai_NormalBalance :: string
  ai_AllowNegative :: bool
  ai_Status :: string
  ai_CreatedAt :: string

definition accountToItem :: "Account \<Rightarrow> accountItem" where
  "accountToItem a = \<lparr>ai_PK = accountPK (acc_TenantID a) (acc_ID a), ai_TenantID = acc_TenantID a,
     ai_AccountID = acc_ID a, ai_OwnerType = acc_OwnerType a, ai_OwnerID = acc_OwnerID a,
     ai_AccountType = acc_AccountType a, ai_Currency = acc_Currency a,
     ai_NormalBalance = acc_NormalBalance a, ai_AllowNegative = acc_AllowNegative a,
     ai_Status = acc_Status a, ai_CreatedAt = fmtTime (acc_CreatedAt a)\<rparr>"

definition accountFromItem :: "accountItem \<Rightarrow> error + Account" where
  "accountFromItem it = (case parseTime (ai_CreatedAt it) of
     Inl e \<Rightarrow> Inl e
   | Inr createdAt \<Rightarrow> Inr \<lparr>acc_ID = ai_AccountID it, acc_TenantID = ai_TenantID it,
       acc_OwnerType = ai_OwnerType it, acc_OwnerID = ai_OwnerID it,
       acc_AccountType = ai_AccountType it, acc_Currency = ai_Currency it,
       acc_NormalBalance = ai_NormalBalance it, acc_AllowNegative = ai_AllowNegative it,
       acc_Status = ai_Status it, acc_CreatedAt = createdAt\<rparr>)"

record balanceItem =
  bi_PK :: string
  bi_TenantID :: string
  bi_AccountID :: string
  bi_Currency :: string
  bi_PostedDebits :: string
  bi_PostedCredits :: string
  bi_Version :: int
  bi_UpdatedAt :: string

record entryItem =
  ei_AccountID :: string
  ei_Currency :: string
  ei_Direction :: string
  ei_Amount :: string

record journalItem =
  ji_PK :: string
  ji_TenantID :: string
  ji_JournalID :: string
  ji_FlowRunID :: string
  ji_EventID :: string
  ji_SourceService :: string
  ji_SourceType :: string
  ji_ActorID :: string
  ji_Metadata :: metadata
  ji_Entries :: "entryItem list"
  ji_CreatedAt :: string

definition entryToItem :: "decimal_lib \<Rightarrow> Entry \<Rightarrow> entryItem" where
  "entryToItem D e = \<lparr>ei_AccountID = ent_AccountID e, ei_Currency = ent_Currency e,
     ei_Direction = ent_Direction e, ei_Amount = dl_String D (ent_Amount e)\<rparr>"

definition journalToItem :: "decimal_lib \<Rightarrow> Journal \<Rightarrow> journalItem" where
  "journalToItem D j = \<lparr>ji_PK = journalPK (jrn_TenantID j) (jrn_ID j), ji_TenantID = jrn_TenantID j,
     ji_JournalID = jrn_ID j, ji_FlowRunID = jrn_FlowRunID j, ji_EventID = jrn_EventID j,
     ji_SourceService = jrn_SourceService j, ji_SourceType = jrn_SourceType j,
     ji_ActorID = jrn_ActorID j, ji_Metadata = jrn_Metadata j,
     ji_Entries = map (entryToItem D) (jrn_Entries j), ji_CreatedAt = fmtTime (jrn_CreatedAt j)\<rparr>"

text \<open>A loop that converts the elements of a list and stops at the first error.\<close>

fun mapSum :: "('a \<Rightarrow> 'e + 'b) \<Rightarrow> 'a list \<Rightarrow> 'e + 'b list" where
  "mapSum f [] = Inr []"
| "mapSum f (x # xs) = (case f x of
     Inl e \<Rightarrow> Inl e
   | Inr y \<Rightarrow> (case mapSum f xs of Inl e \<Rightarrow> Inl e | Inr ys \<Rightarrow> Inr (y # ys)))"

lemma mapSum_map: "(\<And>x. x \<in> set xs \<Longrightarrow> f (g x) = Inr x) \<Longrightarrow> mapSum f (map g xs) = Inr xs"
  by (induction xs) simp_all

definition entryFromItem :: "decimal_lib \<Rightarrow> entryItem \<Rightarrow> error + Entry" where
  "entryFromItem D e = (case parseDec D (ei_Amount e) of
     Inl err \<Rightarrow> Inl err
   | Inr amt \<Rightarrow> Inr \<lparr>ent_AccountID = ei_AccountID e, ent_Currency = ei_Currency e,
       ent_Direction = ei_Direction e, ent_Amount = amt\<rparr>)"

definition journalFromItem :: "decimal_lib \<Rightarrow> journalItem \<Rightarrow> error + Journal" where
  "journalFromItem D it = (case parseTime (ji_CreatedAt it) of
     Inl e \<Rightarrow> Inl e
   | Inr createdAt \<Rightarrow> (case mapSum (entryFromItem D) (ji_Entries it) of
       Inl e \<Rightarrow> Inl e
     | Inr entries \<Rightarrow> Inr \<lparr>jrn_ID = ji_JournalID it, jrn_TenantID = ji_TenantID it,
         jrn_FlowRunID = ji_FlowRunID it, jrn_EventID = ji_EventID it,
         jrn_SourceService = ji_SourceService it, jrn_SourceType = ji_SourceType it,
         jrn_ActorID = ji_ActorID it, jrn_Metadata = ji_Metadata it, jrn_Entries = entries,
         jrn_CreatedAt = createdAt\<rparr>))"

record flowStepItem =
  si_ID :: string
  si_TenantID :: string
  si_FlowRunID :: string
  si_Step :: string
  si_Status :: string
  si_JournalID :: string
  si_ErrorCode :: string
  si_CreatedAt :: string

record flowItem =
  fi_PK :: string
  fi_TenantID :: string
  fi_FlowRunID :: string
  fi_FlowType :: string
  fi_IdempotencyKey :: string
  fi_SourceService :: string
  fi_ActorID :: string
  fi_Status :: string
  fi_Metadata :: metadata
  fi_CreatedAt :: string
  fi_CompletedAt :: string
  fi_FailedAt :: string
  fi_Steps :: "flowStepItem list"

definition flowStepToItem :: "FlowStep \<Rightarrow> flowStepItem" where
  "flowStepToItem s = \<lparr>si_ID = fs_ID s, si_TenantID = fs_TenantID s, si_FlowRunID = fs_FlowRunID s,
     si_Step = fs_StepID s, si_Status = fs_Status s, si_JournalID = fs_JournalID s,
     si_ErrorCode = fs_ErrorCode s, si_CreatedAt = fmtTime (fs_CreatedAt s)\<rparr>"

definition flowToItem :: "FlowRun \<Rightarrow> FlowStep list \<Rightarrow> flowItem" where
  "flowToItem f steps = \<lparr>fi_PK = flowPK (fr_TenantID f) (fr_ID f), fi_TenantID = fr_TenantID f,
     fi_FlowRunID = fr_ID f, fi_FlowType = fr_FlowType f, fi_IdempotencyKey = fr_IdempotencyKey f,
     fi_SourceService = fr_SourceService f, fi_ActorID = fr_ActorID f, fi_Status = fr_Status f,
     fi_Metadata = fr_Metadata f, fi_CreatedAt = fmtTime (fr_CreatedAt f),
     fi_CompletedAt = fmtTimePtr (fr_CompletedAt f), fi_FailedAt = fmtTimePtr (fr_FailedAt f),
     fi_Steps = map flowStepToItem steps\<rparr>"

definition flowStepFromItem :: "flowStepItem \<Rightarrow> error + FlowStep" where
  "flowStepFromItem s = (case parseTime (si_CreatedAt s) of
     Inl e \<Rightarrow> Inl e
   | Inr createdAt \<Rightarrow> Inr \<lparr>fs_ID = si_ID s, fs_TenantID = si_TenantID s,
       fs_FlowRunID = si_FlowRunID s, fs_StepID = si_Step s, fs_Status = si_Status s,
       fs_JournalID = si_JournalID s, fs_ErrorCode = si_ErrorCode s, fs_CreatedAt = createdAt\<rparr>)"

text \<open>The run without its steps, and the steps.\<close>

definition flowFromItem :: "flowItem \<Rightarrow> error + FlowRun \<times> FlowStep list" where
  "flowFromItem it = (case parseTime (fi_CreatedAt it) of
     Inl e \<Rightarrow> Inl e
   | Inr createdAt \<Rightarrow> (case parseTimePtr (fi_CompletedAt it) of
     Inl e \<Rightarrow> Inl e
   | Inr completedAt \<Rightarrow> (case parseTimePtr (fi_FailedAt it) of
     Inl e \<Rightarrow> Inl e
   | Inr failedAt \<Rightarrow> (case mapSum flowStepFromItem (fi_Steps it) of
     Inl e \<Rightarrow> Inl e
   | Inr steps \<Rightarrow> Inr (\<lparr>fr_ID = fi_FlowRunID it, fr_TenantID = fi_TenantID it,
       fr_FlowType = fi_FlowType it, fr_IdempotencyKey = fi_IdempotencyKey it,
       fr_SourceService = fi_SourceService it, fr_ActorID = fi_ActorID it,
       fr_Status = fi_Status it, fr_Metadata = fi_Metadata it, fr_CreatedAt = createdAt,
       fr_CompletedAt = completedAt, fr_FailedAt = failedAt, fr_Steps = []\<rparr>, steps)))))"

text \<open>\<open>oi_PublishedAt\<close> is the attribute \<open>published_at\<close> that \<open>MarkOutboxPublished\<close> adds. An
  attribute of an index that is left out (\<open>omitempty\<close>) is the empty text.\<close>

record outboxItem =
  oi_PK :: string
  oi_TenantID :: string
  oi_AggregateID :: string
  oi_EventType :: string
  oi_IdempotencyKey :: string
  oi_Payload :: json
  oi_Attempts :: int
  oi_CreatedAt :: string
  oi_GSI1PK :: string
  oi_GSI1SK :: string
  oi_PublishedAt :: string

definition outboxToItem :: "OutboxEvent \<Rightarrow> outboxItem" where
  "outboxToItem e = (let createdAt = fmtTime (obx_CreatedAt e) in
     \<lparr>oi_PK = outboxPK (obx_ID e), oi_TenantID = obx_TenantID e, oi_AggregateID = obx_AggregateID e,
      oi_EventType = obx_EventType e, oi_IdempotencyKey = obx_IdempotencyKey e,
      oi_Payload = obx_Payload e, oi_Attempts = 0, oi_CreatedAt = createdAt,
      oi_GSI1PK = gsiOutboxPending, oi_GSI1SK = createdAt @ ''#'' @ obx_ID e, oi_PublishedAt = ''''\<rparr>)"

record reservationItem =
  ri_PK :: string
  ri_TenantID :: string
  ri_ReservationID :: string
  ri_IdempotencyKey :: string
  ri_SourceAccountID :: string
  ri_OwnerType :: string
  ri_OwnerID :: string
  ri_ReservedAccountID :: string
  ri_Currency :: string
  ri_OriginalAmount :: string
  ri_OutstandingAmount :: string
  ri_CommittedAmount :: string
  ri_ReleasedAmount :: string
  ri_Status :: string
  ri_ExpiresAt :: string
  ri_FlowRunID :: string
  ri_Metadata :: metadata
  ri_CreatedAt :: string
  ri_UpdatedAt :: string
  ri_Version :: int
  ri_GSI1PK :: string
  ri_GSI1SK :: string
  ri_GSI2PK :: string
  ri_GSI2SK :: string

definition reservationActive :: "ReservationStatus \<Rightarrow> bool" where
  "reservationActive status \<longleftrightarrow> status = ReservationHeld \<or> status = ReservationPartial"

text \<open>\<open>strings.SplitN(s, c, n)\<close>: at most \<open>n\<close> parts, the last with what is left.\<close>

fun splitN :: "char \<Rightarrow> nat \<Rightarrow> string \<Rightarrow> string list" where
  "splitN c 0 s = []"
| "splitN c (Suc 0) s = [s]"
| "splitN c (Suc (Suc n)) s = (case dropWhile (\<lambda>x. x \<noteq> c) s of
     [] \<Rightarrow> [s]
   | _ # rest \<Rightarrow> takeWhile (\<lambda>x. x \<noteq> c) s # splitN c (Suc n) rest)"

definition parseAccountOwner :: "string \<Rightarrow> string \<times> string" where
  "parseAccountOwner a = (case splitN (CHR '':'') 4 a of
     p0 # p1 # _ \<Rightarrow> (p0, p1)
   | _ \<Rightarrow> ('''', ''''))"

definition reservationToItem :: "decimal_lib \<Rightarrow> Reservation \<Rightarrow> int \<Rightarrow> reservationItem" where
  "reservationToItem D r version =
     (let expiresAt = fmtTimePtr (res_ExpiresAt r);
          (ownerType, ownerID) = parseAccountOwner (res_SourceAccountID r);
          act = reservationActive (res_Status r);
          byExpiry = act \<and> expiresAt \<noteq> '''';
          byOwner = act \<and> ownerType \<noteq> '''' \<and> ownerID \<noteq> ''''
      in \<lparr>ri_PK = reservationPK (res_TenantID r) (res_ID r), ri_TenantID = res_TenantID r,
          ri_ReservationID = res_ID r, ri_IdempotencyKey = res_IdempotencyKey r,
          ri_SourceAccountID = res_SourceAccountID r, ri_OwnerType = ownerType,
          ri_OwnerID = ownerID, ri_ReservedAccountID = res_ReservedAccountID r,
          ri_Currency = res_Currency r, ri_OriginalAmount = dl_String D (res_OriginalAmount r),
          ri_OutstandingAmount = dl_String D (res_OutstandingAmount r),
          ri_CommittedAmount = dl_String D (res_CommittedAmount r),
          ri_ReleasedAmount = dl_String D (res_ReleasedAmount r), ri_Status = res_Status r,
          ri_ExpiresAt = expiresAt, ri_FlowRunID = res_FlowRunID r, ri_Metadata = res_Metadata r,
          ri_CreatedAt = fmtTime (res_CreatedAt r), ri_UpdatedAt = fmtTime (res_UpdatedAt r),
          ri_Version = version,
          ri_GSI1PK = (if byExpiry then gsiReservationExpiry else ''''),
          ri_GSI1SK = (if byExpiry then expiresAt @ ''#'' @ res_TenantID r @ ''#'' @ res_ID r else ''''),
          ri_GSI2PK = (if byOwner then gsiResOwnerPK (res_TenantID r) ownerType ownerID else ''''),
          ri_GSI2SK = (if byOwner then fmtTime (res_CreatedAt r) @ ''#'' @ res_ID r else '''')\<rparr>)"

definition reservationFromItem :: "decimal_lib \<Rightarrow> reservationItem \<Rightarrow> error + Reservation \<times> int" where
  "reservationFromItem D it = (case parseDec D (ri_OriginalAmount it) of
     Inl e \<Rightarrow> Inl e
   | Inr original \<Rightarrow> (case parseDec D (ri_OutstandingAmount it) of
     Inl e \<Rightarrow> Inl e
   | Inr outstanding \<Rightarrow> (case parseDec D (ri_CommittedAmount it) of
     Inl e \<Rightarrow> Inl e
   | Inr committed \<Rightarrow> (case parseDec D (ri_ReleasedAmount it) of
     Inl e \<Rightarrow> Inl e
   | Inr released \<Rightarrow> (case parseTimePtr (ri_ExpiresAt it) of
     Inl e \<Rightarrow> Inl e
   | Inr expiresAt \<Rightarrow> (case parseTime (ri_CreatedAt it) of
     Inl e \<Rightarrow> Inl e
   | Inr createdAt \<Rightarrow> (case parseTime (ri_UpdatedAt it) of
     Inl e \<Rightarrow> Inl e
   | Inr updatedAt \<Rightarrow> Inr (\<lparr>res_ID = ri_ReservationID it, res_TenantID = ri_TenantID it,
       res_IdempotencyKey = ri_IdempotencyKey it, res_SourceAccountID = ri_SourceAccountID it,
       res_ReservedAccountID = ri_ReservedAccountID it, res_Currency = ri_Currency it,
       res_OriginalAmount = original, res_OutstandingAmount = outstanding,
       res_CommittedAmount = committed, res_ReleasedAmount = released, res_Status = ri_Status it,
       res_ExpiresAt = expiresAt, res_FlowRunID = ri_FlowRunID it, res_Metadata = ri_Metadata it,
       res_CreatedAt = createdAt, res_UpdatedAt = updatedAt\<rparr>, ri_Version it))))))))"

text \<open>A uniqueness marker, \<open>map[string]string{"pk": pk, field: id}\<close>.\<close>

datatype item =
    AccountItem accountItem
  | BalanceItem balanceItem
  | JournalItem journalItem
  | FlowItem flowItem
  | OutboxItem outboxItem
  | ReservationItem reservationItem
  | Marker string string string

fun itemPK :: "item \<Rightarrow> string" where
  "itemPK (AccountItem i) = ai_PK i"
| "itemPK (BalanceItem i) = bi_PK i"
| "itemPK (JournalItem i) = ji_PK i"
| "itemPK (FlowItem i) = fi_PK i"
| "itemPK (OutboxItem i) = oi_PK i"
| "itemPK (ReservationItem i) = ri_PK i"
| "itemPK (Marker pk field i) = pk"

text \<open>The attribute \<open>version\<close>.\<close>

fun itemVersion :: "item \<Rightarrow> int option" where
  "itemVersion (BalanceItem i) = Some (bi_Version i)"
| "itemVersion (ReservationItem i) = Some (ri_Version i)"
| "itemVersion _ = None"

section \<open>Reading back what was written\<close>

text \<open>The printer of the decimal package never writes an empty text.\<close>

definition printer_ok :: "decimal_lib \<Rightarrow> bool" where
  "printer_ok D \<longleftrightarrow> codec_ok D \<and> (\<forall>d. dl_String D d \<noteq> '''')"

lemma parseDec_printed [simp]: "printer_ok D \<Longrightarrow> parseDec D (dl_String D d) = Inr d"
  by (simp add: printer_ok_def parseDec_def)

lemma account_roundtrip:
  "goodTime (acc_CreatedAt a) \<Longrightarrow> accountFromItem (accountToItem a) = Inr a"
  by (simp add: accountFromItem_def accountToItem_def)

lemma journal_roundtrip:
  assumes "printer_ok D" and "goodTime (jrn_CreatedAt j)"
  shows "journalFromItem D (journalToItem D j) = Inr j"
proof -
  have "mapSum (entryFromItem D) (map (entryToItem D) es) = Inr es" for es
    by (rule mapSum_map) (simp add: entryFromItem_def entryToItem_def assms)
  with assms show ?thesis by (simp add: journalFromItem_def journalToItem_def)
qed

lemma flow_roundtrip:
  assumes "goodTime (fr_CreatedAt f)" and "goodTimePtr (fr_CompletedAt f)" and "goodTimePtr (fr_FailedAt f)"
    and "\<forall>s\<in>set steps. goodTime (fs_CreatedAt s)"
  shows "flowFromItem (flowToItem f steps) = Inr (f\<lparr>fr_Steps := []\<rparr>, steps)"
proof -
  have "mapSum flowStepFromItem (map flowStepToItem steps) = Inr steps"
    by (rule mapSum_map) (simp add: flowStepFromItem_def flowStepToItem_def assms)
  with assms show ?thesis by (simp add: flowFromItem_def flowToItem_def)
qed

lemma reservation_item_roundtrip:
  assumes "printer_ok D" and "goodTimePtr (res_ExpiresAt r)" and "goodTime (res_CreatedAt r)"
    and "goodTime (res_UpdatedAt r)"
  shows "reservationFromItem D (reservationToItem D r v) = Inr (r, v)"
proof -
  obtain p q where o: "parseAccountOwner (res_SourceAccountID r) = (p, q)" by fastforce
  note e = parseTimePtr_fmtTimePtr [OF assms(2)]
  show ?thesis
    unfolding reservationFromItem_def reservationToItem_def Let_def o prod.case reservationItem.simps
      parseDec_printed [OF assms(1)] sum.case e parseTime_fmtTime [OF assms(3)] parseTime_fmtTime [OF assms(4)]
    by simp
qed

lemma toItem_PK [simp]:
  "ai_PK (accountToItem a) = accountPK (acc_TenantID a) (acc_ID a)"
  "ji_PK (journalToItem D j) = journalPK (jrn_TenantID j) (jrn_ID j)"
  "fi_PK (flowToItem f steps) = flowPK (fr_TenantID f) (fr_ID f)"
  "oi_PK (outboxToItem e) = outboxPK (obx_ID e)"
  "ri_PK (reservationToItem D r v) = reservationPK (res_TenantID r) (res_ID r)"
  "ri_Version (reservationToItem D r v) = v"
  by (simp_all add: accountToItem_def journalToItem_def flowToItem_def outboxToItem_def
      reservationToItem_def Let_def split: prod.split)

end
