(* ===== verification/Dynamo_Store.thy ===== *)
theory Dynamo_Store
  imports Dynamo_Items
begin

text \<open>
  The DynamoDB service as the backend uses it, and the reads of the store (\<open>store.go\<close>,
  \<open>reads.go\<close>, \<open>reads_reservations.go\<close>, \<open>reads_outbox.go\<close>, \<open>unsupported.go\<close>).

  \<^item> The client \<open>*dynamodb.Client\<close> is a parameter: a record \<open>ddb\<close> of the four requests the
    code makes. Its documented behaviour is the locale \<open>dynamodb\<close>: what a request may do to
    the table \<open>tab d\<close>, while other clients that run this code change the table before it
    (\<open>evolves\<close>). A
    strongly consistent read sees the table, a transaction writes all its items when all its
    conditions hold and nothing otherwise, and a request that fails in any other way may or may
    not have been carried out.
  \<^item> \<open>memDdb\<close> is such a service in memory; it interprets the locale.
  \<^item> The indexes are only eventually consistent, so the contract says nothing of which items a
    query misses or how old they are; it says that they match the key condition.
\<close>

section \<open>The service\<close>

type_synonym dtable = "string \<Rightarrow> item option"

text \<open>\<open>attribute_not_exists(pk)\<close> and \<open>version = :v\<close>.\<close>

datatype condition = NoCondition | AttributeNotExists | VersionIs int

record db_put =
  wr_Item :: item
  wr_Cond :: condition

record query =
  q_Index :: string
  q_PK :: string
  q_Below :: "string option"
  q_Limit :: i32

text \<open>\<open>REMOVE gsi1pk, gsi1sk SET published_at = :t\<close> and \<open>ADD attempts :one\<close>.\<close>

datatype update = MarkPublished string | AddAttempts int

text \<open>A \<open>TransactionCanceledException\<close> with its reasons, by position, or any other error.\<close>

datatype write_error = Canceled "string option list" | WriteFailed string

datatype update_error = ConditionalCheckFailed | UpdateFailed string

record 'd ddb =
  db_GetItem :: "string \<Rightarrow> ('d, string, item option) exec"
  db_TransactWriteItems :: "db_put list \<Rightarrow> ('d, write_error, unit) exec"
  db_Query :: "query \<Rightarrow> ('d, string, item list) exec"
  db_UpdateItem :: "string \<Rightarrow> update \<Rightarrow> ('d, update_error, unit) exec"

fun holds :: "condition \<Rightarrow> item option \<Rightarrow> bool" where
  "holds NoCondition x = True"
| "holds AttributeNotExists x = (x = None)"
| "holds (VersionIs v) x = (case x of None \<Rightarrow> False | Some i \<Rightarrow> itemVersion i = Some v)"

abbreviation wr_PK :: "db_put \<Rightarrow> string" where
  "wr_PK w \<equiv> itemPK (wr_Item w)"

definition allowed :: "db_put list \<Rightarrow> dtable \<Rightarrow> bool" where
  "allowed ws T \<longleftrightarrow> (\<forall>w\<in>set ws. holds (wr_Cond w) (T (wr_PK w)))"

definition written :: "db_put list \<Rightarrow> dtable \<Rightarrow> dtable" where
  "written ws T = fold (\<lambda>w T. T(wr_PK w \<mapsto> wr_Item w)) ws T"

fun updated :: "update \<Rightarrow> item \<Rightarrow> item" where
  "updated (MarkPublished t) (OutboxItem i) =
     OutboxItem (i\<lparr>oi_GSI1PK := '''', oi_GSI1SK := '''', oi_PublishedAt := t\<rparr>)"
| "updated (AddAttempts n) (OutboxItem i) = OutboxItem (i\<lparr>oi_Attempts := oi_Attempts i + n\<rparr>)"
| "updated u i = i"

text \<open>Partition and sort key of an item in an index.\<close>

fun indexKey :: "string \<Rightarrow> item \<Rightarrow> string \<times> string" where
  "indexKey idx (OutboxItem i) = (if idx = ''gsi1'' then (oi_GSI1PK i, oi_GSI1SK i) else ('''', ''''))"
| "indexKey idx (ReservationItem i) = (if idx = ''gsi1'' then (ri_GSI1PK i, ri_GSI1SK i)
     else if idx = ''gsi2'' then (ri_GSI2PK i, ri_GSI2SK i) else ('''', ''''))"
| "indexKey idx _ = ('''', '''')"

definition matches :: "query \<Rightarrow> item \<Rightarrow> bool" where
  "matches q i \<longleftrightarrow> fst (indexKey (q_Index q) i) = q_PK q \<and>
     (case q_Below q of None \<Rightarrow> True | Some s \<Rightarrow> snd (indexKey (q_Index q) i) < s)"

section \<open>What other clients do\<close>

text \<open>What other clients that run this code may do to the table: add items, replace an item
  that has a version by one with a greater version, and change outbox events; the first
  version is 1 or more, and nothing is deleted. A reservation is stored under its own key.\<close>

fun wfItem :: "item \<Rightarrow> bool" where
  "wfItem (ReservationItem i) \<longleftrightarrow> ri_PK i = reservationPK (ri_TenantID i) (ri_ReservationID i)"
| "wfItem _ \<longleftrightarrow> True"

definition wfTable :: "dtable \<Rightarrow> bool" where
  "wfTable T \<longleftrightarrow> (\<forall>pk x. T pk = Some x \<longrightarrow> itemPK x = pk \<and> wfItem x)"

fun isOutbox :: "item \<Rightarrow> bool" where
  "isOutbox (OutboxItem i) = True"
| "isOutbox _ = False"

definition follows :: "item \<Rightarrow> item \<Rightarrow> bool" where
  "follows x y \<longleftrightarrow> y = x \<or> isOutbox x \<and> isOutbox y \<or>
     (\<exists>v v'. itemVersion x = Some v \<and> itemVersion y = Some v' \<and> v < v')"

definition evolves :: "dtable \<Rightarrow> dtable \<Rightarrow> bool" where
  "evolves T T' \<longleftrightarrow>
     (\<forall>pk x. T pk = Some x \<longrightarrow> (\<exists>y. T' pk = Some y \<and> follows x y)) \<and>
     (\<forall>pk y v. T pk = None \<longrightarrow> T' pk = Some y \<longrightarrow> itemVersion y = Some v \<longrightarrow> 1 \<le> v) \<and>
     (\<forall>pk y. T' pk = Some y \<longrightarrow> T pk = Some y \<or> itemPK y = pk \<and> wfItem y)"

lemma evolves_wf: "evolves T T' \<Longrightarrow> wfTable T \<Longrightarrow> wfTable T'"
  unfolding evolves_def wfTable_def by blast

lemma isOutbox_version: "isOutbox x \<Longrightarrow> itemVersion x = None"
  by (cases x) auto

lemma follows_trans: "follows x y \<Longrightarrow> follows y z \<Longrightarrow> follows x z"
  by (auto simp: follows_def dest: isOutbox_version)

lemma evolves_refl: "evolves T T"
  by (auto simp: evolves_def follows_def)

lemma evolves_keep:
  "evolves T T' \<Longrightarrow> T pk = Some x \<Longrightarrow> \<exists>y. T' pk = Some y \<and> follows x y"
  by (simp add: evolves_def)

lemma evolves_new:
  "evolves T T' \<Longrightarrow> T pk = None \<Longrightarrow> T' pk = Some y \<Longrightarrow> itemVersion y = Some v \<Longrightarrow> 1 \<le> v"
  by (simp add: evolves_def)

lemma evolves_trans:
  assumes "evolves T T1" and "evolves T1 T2"
  shows "evolves T T2"
  unfolding evolves_def
proof (intro conjI allI impI)
  fix pk x assume "T pk = Some x"
  with evolves_keep [OF assms(1)] evolves_keep [OF assms(2)] follows_trans
  show "\<exists>y. T2 pk = Some y \<and> follows x y" by meson
next
  fix pk y assume "T2 pk = Some y"
  then show "T pk = Some y \<or> itemPK y = pk \<and> wfItem y"
    using assms unfolding evolves_def by blast
next
  fix pk y v assume a: "T pk = None" "T2 pk = Some y" "itemVersion y = Some v"
  show "1 \<le> v"
  proof (cases "T1 pk")
    case None
    with evolves_new [OF assms(2) None] a show ?thesis by blast
  next
    case (Some z)
    with evolves_keep [OF assms(2) Some] a(2) have "follows z y" by auto
    with a(3) evolves_new [OF assms(1) a(1) Some] show ?thesis
      by (fastforce simp: follows_def dest: isOutbox_version)
  qed
qed

text \<open>An item that is neither versioned nor an outbox event never changes; a version says
  which item it is.\<close>

lemma evolves_fixed:
  "evolves T T' \<Longrightarrow> T pk = Some x \<Longrightarrow> itemVersion x = None \<Longrightarrow> \<not> isOutbox x \<Longrightarrow> T' pk = Some x"
  using evolves_keep [of T T' pk x] by (auto simp: follows_def)

lemma evolves_same_version:
  "evolves T T' \<Longrightarrow> T pk = Some x \<Longrightarrow> T' pk = Some y \<Longrightarrow> itemVersion x = Some v \<Longrightarrow>
     itemVersion y = Some v \<Longrightarrow> y = x"
  using evolves_keep [of T T' pk x] by (auto simp: follows_def dest: isOutbox_version)

text \<open>The writes of this code: every item is new or the next version of the one it replaces.\<close>

definition guarded :: "db_put list \<Rightarrow> bool" where
  "guarded ws \<longleftrightarrow> distinct (map itemPK (map wr_Item ws)) \<and>
     (\<forall>w\<in>set ws. wfItem (wr_Item w)) \<and> (\<forall>w\<in>set ws. case wr_Cond w of
     NoCondition \<Rightarrow> False
   | AttributeNotExists \<Rightarrow> (case itemVersion (wr_Item w) of None \<Rightarrow> True | Some v \<Rightarrow> 1 \<le> v)
   | VersionIs v \<Rightarrow> (case itemVersion (wr_Item w) of None \<Rightarrow> False | Some v' \<Rightarrow> v < v'))"

lemma written_other: "pk \<notin> itemPK ` wr_Item ` set ws \<Longrightarrow> written ws T pk = T pk"
  unfolding written_def by (induction ws arbitrary: T) auto

lemma written_mem:
  assumes "distinct (map itemPK (map wr_Item ws))" and "w \<in> set ws"
  shows "written ws T (wr_PK w) = Some (wr_Item w)"
  using assms
proof (induction ws arbitrary: T)
  case (Cons x ws)
  show ?case
  proof (cases "w = x")
    case True
    with Cons.prems(1) show ?thesis
      using written_other [of "wr_PK x" ws "T(wr_PK x \<mapsto> wr_Item x)"] by (simp add: written_def image_image)
  next
    case False
    with Cons show ?thesis by (simp add: written_def)
  qed
qed simp

lemma guarded_evolves:
  assumes "guarded ws" and "allowed ws T"
  shows "evolves T (written ws T)"
  unfolding evolves_def
proof (intro conjI allI impI)
  fix pk x assume x: "T pk = Some x"
  show "\<exists>y. written ws T pk = Some y \<and> follows x y"
  proof (cases "pk \<in> itemPK ` wr_Item ` set ws")
    case False
    with written_other [OF this] x show ?thesis by (simp add: follows_def)
  next
    case True
    then obtain w where w: "w \<in> set ws" "pk = wr_PK w" by auto
    with assms x written_mem [of ws w T] show ?thesis
      by (cases "wr_Cond w")
        (auto simp: guarded_def allowed_def follows_def split: option.splits dest!: bspec [OF _ w(1)])
  qed
next
  fix pk y assume y: "written ws T pk = Some y"
  show "T pk = Some y \<or> itemPK y = pk \<and> wfItem y"
  proof (cases "pk \<in> itemPK ` wr_Item ` set ws")
    case False
    with written_other [OF this] y show ?thesis by simp
  next
    case True
    then obtain w where "w \<in> set ws" "pk = wr_PK w" by auto
    with assms y written_mem [of ws w T] show ?thesis by (auto simp: guarded_def)
  qed
next
  fix pk y v assume y: "T pk = None" "written ws T pk = Some y" "itemVersion y = Some v"
  then obtain w where w: "w \<in> set ws" "pk = wr_PK w"
    using written_other [of pk ws T] by (cases "pk \<in> itemPK ` wr_Item ` set ws") auto
  with assms y written_mem [of ws w T] show "1 \<le> v"
    by (cases "wr_Cond w") (auto simp: guarded_def allowed_def split: option.splits dest!: bspec [OF _ w(1)])
qed

section \<open>The contract of the service\<close>

locale dynamodb =
  fixes B :: "'d ddb" and tab :: "'d \<Rightarrow> dtable"
  assumes GetItem: "db_GetItem B pk d = (r, d') \<Longrightarrow>
      evolves (tab d) (tab d') \<and> (\<forall>x. r = Inr x \<longrightarrow> x = tab d' pk)"
    and Transact_Inr: "db_TransactWriteItems B ws d = (Inr u, d') \<Longrightarrow>
      \<exists>T. evolves (tab d) T \<and> allowed ws T \<and> tab d' = written ws T"
    and Transact_Canceled: "db_TransactWriteItems B ws d = (Inl (Canceled reasons), d') \<Longrightarrow>
      evolves (tab d) (tab d') \<and> length reasons = length ws \<and>
      (\<forall>i<length ws. reasons ! i = Some ''ConditionalCheckFailed'' \<longrightarrow>
        \<not> holds (wr_Cond (ws ! i)) (tab d' (wr_PK (ws ! i))))"
    and Transact_Failed: "db_TransactWriteItems B ws d = (Inl (WriteFailed e), d') \<Longrightarrow>
      \<exists>T. evolves (tab d) T \<and> (tab d' = T \<or> allowed ws T \<and> tab d' = written ws T)"
    and Query: "db_Query B q d = (page, d') \<Longrightarrow>
      evolves (tab d) (tab d') \<and> (\<forall>xs. page = Inr xs \<longrightarrow> (\<forall>x\<in>set xs. matches q x) \<and>
        sorted (map (\<lambda>x. snd (indexKey (q_Index q) x)) xs) \<and> int (length xs) \<le> sint (q_Limit q))"
    and Update_Inr: "db_UpdateItem B pk upd d = (Inr u, d') \<Longrightarrow>
      \<exists>T x. evolves (tab d) T \<and> T pk = Some x \<and> tab d' = T(pk \<mapsto> updated upd x)"
    and Update_Check: "db_UpdateItem B pk upd d = (Inl ConditionalCheckFailed, d') \<Longrightarrow>
      evolves (tab d) (tab d') \<and> tab d' pk = None"
    and Update_Failed: "db_UpdateItem B pk upd d = (Inl (UpdateFailed e), d') \<Longrightarrow>
      \<exists>T. evolves (tab d) T \<and> (tab d' = T \<or> (\<exists>x. T pk = Some x \<and> tab d' = T(pk \<mapsto> updated upd x)))"

section \<open>The store (store.go, reads.go)\<close>

record 'd dyconf =
  dy_B :: "'d ddb"
  dy_clock :: "nat \<Rightarrow> time"
  dy_D :: decimal_lib

record 'd dstore =
  ds_db :: 'd
  ds_ticks :: nat

text \<open>\<open>ds_ticks\<close> counts requests and readings of the clock.\<close>

definition inDB :: "('d, 'e, 'a) exec \<Rightarrow> ('d dstore, 'e, 'a) exec" where
  "inDB m s = (case m (ds_db s) of (r, d) \<Rightarrow> (r, \<lparr>ds_db = d, ds_ticks = Suc (ds_ticks s)\<rparr>))"

lemma inDB_run: "inDB m s = (r, s') \<longleftrightarrow>
    (\<exists>d. m (ds_db s) = (r, d) \<and> s' = \<lparr>ds_db = d, ds_ticks = Suc (ds_ticks s)\<rparr>)"
  by (auto simp: inDB_def split: prod.splits)

definition storeNow :: "'d dyconf \<Rightarrow> ('d dstore, error, time) exec" where
  "storeNow C s = (Inr (dy_clock C (ds_ticks s)), s\<lparr>ds_ticks := Suc (ds_ticks s)\<rparr>)"

definition getItem :: "'d dyconf \<Rightarrow> string \<Rightarrow> ('d dstore, error, item option) exec" where
  "getItem C pk = mapErr (\<lambda>e. GoError (''get '' @ pk @ '': '' @ e)) (inDB (db_GetItem (dy_B C) pk))"

definition unmarshalErr :: "string \<Rightarrow> error" where
  "unmarshalErr pk = GoError (''unmarshal '' @ pk)"

definition GetAccount :: "'d dyconf \<Rightarrow> string \<Rightarrow> string \<Rightarrow> ('d dstore, error, Account) exec" where
  "GetAccount C tn a = bindE (getItem C (accountPK tn a)) (\<lambda>x. case x of
     None \<Rightarrow> throwE (DomainError CodeAccountNotFound (''account '' @ a))
   | Some (AccountItem it) \<Rightarrow> liftE (accountFromItem it)
   | Some other \<Rightarrow> throwE (unmarshalErr (accountPK tn a)))"

definition balanceFromItem :: "decimal_lib \<Rightarrow> balanceItem \<Rightarrow> error + decimal \<times> decimal \<times> int" where
  "balanceFromItem D it = (case parseDec D (bi_PostedDebits it) of
     Inl e \<Rightarrow> Inl e
   | Inr d \<Rightarrow> (case parseDec D (bi_PostedCredits it) of
       Inl e \<Rightarrow> Inl e
     | Inr c \<Rightarrow> Inr (d, c, bi_Version it)))"

definition GetBalance :: "'d dyconf \<Rightarrow> string \<Rightarrow> string \<Rightarrow> string \<Rightarrow>
    ('d dstore, error, decimal \<times> decimal \<times> int) exec" where
  "GetBalance C tn a c = bindE (getItem C (balancePK tn a c)) (\<lambda>x. case x of
     None \<Rightarrow> ret (0, 0, 0)
   | Some (BalanceItem it) \<Rightarrow> liftE (balanceFromItem (dy_D C) it)
   | Some other \<Rightarrow> throwE (unmarshalErr (balancePK tn a c)))"

definition GetFlow :: "'d dyconf \<Rightarrow> string \<Rightarrow> string \<Rightarrow> ('d dstore, error, FlowRun option) exec" where
  "GetFlow C tn fid = bindE (getItem C (flowPK tn fid)) (\<lambda>x. case x of
     None \<Rightarrow> ret None
   | Some (FlowItem it) \<Rightarrow>
       (case flowFromItem it of
          Inl e \<Rightarrow> throwE e
        | Inr (f, steps) \<Rightarrow> ret (Some (f\<lparr>fr_Steps := steps\<rparr>)))
   | Some other \<Rightarrow> throwE (unmarshalErr (flowPK tn fid)))"

section \<open>Reservations (reads_reservations.go)\<close>

definition GetReservation :: "'d dyconf \<Rightarrow> string \<Rightarrow> string \<Rightarrow> ('d dstore, error, Reservation) exec" where
  "GetReservation C tn rid = bindE (getItem C (reservationPK tn rid)) (\<lambda>x. case x of
     None \<Rightarrow> throwE (DomainError CodeReservationNotFound rid)
   | Some (ReservationItem it) \<Rightarrow>
       (case reservationFromItem (dy_D C) it of Inl e \<Rightarrow> throwE e | Inr (r, ver) \<Rightarrow> ret r)
   | Some other \<Rightarrow> throwE (unmarshalErr (reservationPK tn rid)))"

definition queryErr :: "string \<Rightarrow> string \<Rightarrow> error" where
  "queryErr op e = GoError (op @ '' query: '' @ e)"

fun expiredOf :: "item list \<Rightarrow> error + ExpiredReservation list" where
  "expiredOf [] = Inr []"
| "expiredOf (ReservationItem it # items) = (case expiredOf items of
     Inl e \<Rightarrow> Inl e
   | Inr xs \<Rightarrow> Inr (\<lparr>xr_ID = ri_ReservationID it, xr_TenantID = ri_TenantID it\<rparr> # xs))"
| "expiredOf (x # items) = Inl (GoError ''ListExpiredReservations unmarshal'')"

definition ListExpiredReservations :: "'d dyconf \<Rightarrow> time \<Rightarrow> int \<Rightarrow>
    ('d dstore, error, ExpiredReservation list) exec" where
  "ListExpiredReservations C now limit =
     (let lim = (if limit \<le> 0 then 100 else limit) in
      bindE (mapErr (queryErr ''ListExpiredReservations'') (inDB (db_Query (dy_B C)
        \<lparr>q_Index = ''gsi1'', q_PK = gsiReservationExpiry, q_Below = Some (fmtTime now),
         q_Limit = word_of_int lim\<rparr>))) (\<lambda>items. liftE (expiredOf items)))"

text \<open>The loop over the page: filter by status, stop at the limit.\<close>

fun collectReservations :: "decimal_lib \<Rightarrow> string \<Rightarrow> nat \<Rightarrow> item list \<Rightarrow> Reservation list \<Rightarrow>
    error + Reservation list" where
  "collectReservations D status limit [] out = Inr out"
| "collectReservations D status limit (ReservationItem it # items) out =
     (if status \<noteq> '''' \<and> ri_Status it \<noteq> status then collectReservations D status limit items out
      else case reservationFromItem D it of
        Inl e \<Rightarrow> Inl e
      | Inr (r, ver) \<Rightarrow>
          let out' = out @ [r] in
          if limit \<le> length out' then Inr out' else collectReservations D status limit items out')"
| "collectReservations D status limit (x # items) out = Inl (GoError ''ListReservations unmarshal'')"

definition ListReservations :: "'d dyconf \<Rightarrow> ListReservationsInput \<Rightarrow>
    ('d dstore, error, Reservation list) exec" where
  "ListReservations C i =
     (let limit = (if lri_Limit i \<le> 0 \<or> 500 < lri_Limit i then 100 else lri_Limit i) in
      if lri_OwnerType i = '''' \<or> lri_OwnerID i = '''' then ret []
      else
        bindE (mapErr (queryErr ''ListReservations'') (inDB (db_Query (dy_B C)
          \<lparr>q_Index = ''gsi2'', q_PK = gsiResOwnerPK (lri_TenantID i) (lri_OwnerType i) (lri_OwnerID i),
           q_Below = None, q_Limit = word_of_int (limit * 3)\<rparr>)))
        (\<lambda>items. liftE (collectReservations (dy_D C) (lri_Status i) (nat limit) items [])))"

section \<open>The outbox (reads_outbox.go)\<close>

fun pendingOf :: "item list \<Rightarrow> error + OutboxEvent list" where
  "pendingOf [] = Inr []"
| "pendingOf (OutboxItem it # items) = (case parseTime (oi_CreatedAt it) of
     Inl e \<Rightarrow> Inl e
   | Inr createdAt \<Rightarrow> (case pendingOf items of
       Inl e \<Rightarrow> Inl e
     | Inr es \<Rightarrow> Inr (\<lparr>obx_ID = drop (length ''OBX#'') (oi_PK it), obx_TenantID = oi_TenantID it,
         obx_AggregateID = oi_AggregateID it, obx_EventType = oi_EventType it,
         obx_IdempotencyKey = oi_IdempotencyKey it, obx_Payload = oi_Payload it,
         obx_CreatedAt = createdAt\<rparr> # es)))"
| "pendingOf (x # items) = Inl (GoError ''PendingOutbox unmarshal'')"

definition PendingOutbox :: "'d dyconf \<Rightarrow> int \<Rightarrow> ('d dstore, error, OutboxEvent list) exec" where
  "PendingOutbox C limit =
     (let lim = (if limit \<le> 0 then 100 else limit) in
      bindE (mapErr (queryErr ''PendingOutbox'') (inDB (db_Query (dy_B C)
        \<lparr>q_Index = ''gsi1'', q_PK = gsiOutboxPending, q_Below = None, q_Limit = word_of_int lim\<rparr>)))
      (\<lambda>items. liftE (pendingOf items)))"

definition updateErr :: "string \<Rightarrow> string \<Rightarrow> update_error \<Rightarrow> error" where
  "updateErr op i e = GoError (op @ '' '' @ i @ (case e of
     ConditionalCheckFailed \<Rightarrow> '': item not found'' | UpdateFailed msg \<Rightarrow> '': '' @ msg))"

definition MarkOutboxPublished :: "'d dyconf \<Rightarrow> string \<Rightarrow> ('d dstore, error, unit) exec" where
  "MarkOutboxPublished C i = bindE (storeNow C) (\<lambda>now.
     mapErr (updateErr ''MarkOutboxPublished'' i)
       (inDB (db_UpdateItem (dy_B C) (outboxPK i) (MarkPublished (fmtTime now)))))"

definition IncrementOutboxAttempts :: "'d dyconf \<Rightarrow> string \<Rightarrow> ('d dstore, error, unit) exec" where
  "IncrementOutboxAttempts C i = mapErr (updateErr ''IncrementOutboxAttempts'' i)
     (inDB (db_UpdateItem (dy_B C) (outboxPK i) (AddAttempts 1)))"

section \<open>What the backend does not support (unsupported.go)\<close>

definition errUnsupported :: "string \<Rightarrow> error" where
  "errUnsupported op = DomainError CodeUnsupportedOperation (''dynamodb backend: '' @ op @ '' not supported'')"

definition unsupported :: "string \<Rightarrow> ('s, error, 'a) exec" where
  "unsupported op = throwE (errUnsupported op)"

definition ListTenantsDueForSnapshot :: "time \<Rightarrow> int \<Rightarrow> ('s, error, string list) exec" where
  "ListTenantsDueForSnapshot t n = ret []"

definition PruneSnapshotsOlderThan :: "time \<Rightarrow> int \<Rightarrow> ('s, error, int) exec" where
  "PruneSnapshotsOlderThan t n = ret 0"

section \<open>A service in memory\<close>

text \<open>The table as a list of items with distinct keys, the outcomes of the coming requests
  (none: the request succeeds), and the writes of other clients that come before them. Foreign
  writes that are not guarded, or that their conditions forbid, are not carried out.\<close>

record memory =
  mem_items :: "(string \<times> item) list"
  mem_faults :: "string option list"
  mem_others :: "db_put list list"

abbreviation memTab :: "memory \<Rightarrow> dtable" where
  "memTab d \<equiv> map_of (mem_items d)"

definition memWrite :: "db_put list \<Rightarrow> (string \<times> item) list \<Rightarrow> (string \<times> item) list" where
  "memWrite ws xs = fold (\<lambda>w. AList.update (wr_PK w) (wr_Item w)) ws xs"

definition failing :: "db_put list \<Rightarrow> (string \<times> item) list \<Rightarrow> string option list" where
  "failing ws xs = map (\<lambda>w. if holds (wr_Cond w) (map_of xs (wr_PK w)) then None
     else Some ''ConditionalCheckFailed'') ws"

definition memTurn :: "memory \<Rightarrow> string option \<times> memory" where
  "memTurn d = (case mem_faults d of [] \<Rightarrow> None | f # fs \<Rightarrow> f,
     d\<lparr>mem_faults := tl (mem_faults d), mem_others := tl (mem_others d),
       mem_items := (case mem_others d of [] \<Rightarrow> mem_items d
         | ws # wss \<Rightarrow> if guarded ws \<and> list_all (\<lambda>f. f = None) (failing ws (mem_items d))
             then memWrite ws (mem_items d) else mem_items d)\<rparr>)"

definition memRequest :: "(string \<Rightarrow> 'e) \<Rightarrow> (memory, 'e, 'a) exec \<Rightarrow> (memory, 'e, 'a) exec" where
  "memRequest fail m d = (case memTurn d of
     (Some e, d') \<Rightarrow> (Inl (fail e), d')
   | (None, d') \<Rightarrow> m d')"

definition memDdb :: "memory ddb" where
  "memDdb = \<lparr>
     db_GetItem = \<lambda>pk. memRequest (\<lambda>e. e) (\<lambda>d. (Inr (memTab d pk), d)),
     db_TransactWriteItems = \<lambda>ws. memRequest WriteFailed (\<lambda>d.
       if list_all (\<lambda>f. f = None) (failing ws (mem_items d))
       then (Inr (), d\<lparr>mem_items := memWrite ws (mem_items d)\<rparr>)
       else (Inl (Canceled (failing ws (mem_items d))), d)),
     db_Query = \<lambda>q. memRequest (\<lambda>e. e) (\<lambda>d.
       if sint (q_Limit q) \<le> 0 then (Inl ''ValidationException'', d)
       else (Inr (take (nat (sint (q_Limit q))) (sort_key (\<lambda>x. snd (indexKey (q_Index q) x))
         (filter (matches q) (map snd (mem_items d))))), d)),
     db_UpdateItem = \<lambda>pk upd. memRequest UpdateFailed (\<lambda>d. case memTab d pk of
       None \<Rightarrow> (Inl ConditionalCheckFailed, d)
     | Some x \<Rightarrow> (Inr (), d\<lparr>mem_items := AList.update pk (updated upd x) (mem_items d)\<rparr>))\<rparr>"

lemma map_of_memWrite: "map_of (memWrite ws xs) = written ws (map_of xs)"
  unfolding memWrite_def written_def
  by (induction ws arbitrary: xs) (simp_all add: update_conv')

lemma failing_allowed:
  "list_all (\<lambda>f. f = None) (failing ws xs) \<longleftrightarrow> allowed ws (map_of xs)"
  by (auto simp: failing_def allowed_def list_all_iff)

lemma memTurn_over: "memTurn d = (f, d') \<Longrightarrow> evolves (memTab d) (memTab d')"
  using guarded_evolves
  by (auto simp: memTurn_def failing_allowed map_of_memWrite evolves_refl split: list.splits)

lemma memRequestE:
  assumes "memRequest fail m d = (r, d')"
  obtains (fault) e where "r = Inl (fail e)" "evolves (memTab d) (memTab d')"
  | (run) d1 where "evolves (memTab d) (memTab d1)" "m d1 = (r, d')"
  using assms memTurn_over [of d] by (auto simp: memRequest_def split: prod.splits option.splits)

interpretation mem: dynamodb memDdb memTab
proof unfold_locales
  show "db_GetItem memDdb pk d = (r, d') \<Longrightarrow>
      evolves (memTab d) (memTab d') \<and> (\<forall>x. r = Inr x \<longrightarrow> x = memTab d' pk)" for pk d r d'
    by (auto simp: memDdb_def elim!: memRequestE)
  show "db_TransactWriteItems memDdb ws d = (Inr u, d') \<Longrightarrow>
      \<exists>T. evolves (memTab d) T \<and> allowed ws T \<and> memTab d' = written ws T" for ws d u d'
    by (simp add: memDdb_def) (erule memRequestE,
      auto simp: failing_allowed map_of_memWrite split: if_splits)
  show "db_TransactWriteItems memDdb ws d = (Inl (Canceled reasons), d') \<Longrightarrow>
      evolves (memTab d) (memTab d') \<and> length reasons = length ws \<and>
      (\<forall>i<length ws. reasons ! i = Some ''ConditionalCheckFailed'' \<longrightarrow>
        \<not> holds (wr_Cond (ws ! i)) (memTab d' (wr_PK (ws ! i))))" for ws d reasons d'
    by (auto simp: memDdb_def failing_def elim!: memRequestE split: if_splits)
  show "db_TransactWriteItems memDdb ws d = (Inl (WriteFailed e), d') \<Longrightarrow>
      \<exists>T. evolves (memTab d) T \<and> (memTab d' = T \<or> allowed ws T \<and> memTab d' = written ws T)"
    for ws d e d'
    by (auto simp: memDdb_def elim!: memRequestE split: if_splits)
  show "db_Query memDdb q d = (page, d') \<Longrightarrow>
      evolves (memTab d) (memTab d') \<and> (\<forall>xs. page = Inr xs \<longrightarrow> (\<forall>x\<in>set xs. matches q x) \<and>
        sorted (map (\<lambda>x. snd (indexKey (q_Index q) x)) xs) \<and> int (length xs) \<le> sint (q_Limit q))"
    for q d page d'
    by (auto simp: memDdb_def sorted_wrt_take simp flip: take_map elim!: memRequestE split: if_splits
        dest!: in_set_takeD)
  show "db_UpdateItem memDdb pk upd d = (Inr u, d') \<Longrightarrow>
      \<exists>T x. evolves (memTab d) T \<and> T pk = Some x \<and> memTab d' = T(pk \<mapsto> updated upd x)" for pk upd d u d'
    by (simp add: memDdb_def) (erule memRequestE, fastforce,
      force simp: update_conv' split: option.splits)
  show "db_UpdateItem memDdb pk upd d = (Inl ConditionalCheckFailed, d') \<Longrightarrow>
      evolves (memTab d) (memTab d') \<and> memTab d' pk = None" for pk upd d d'
    by (auto simp: memDdb_def elim!: memRequestE split: option.splits)
  show "db_UpdateItem memDdb pk upd d = (Inl (UpdateFailed e), d') \<Longrightarrow>
      \<exists>T. evolves (memTab d) T \<and> (memTab d' = T \<or>
        (\<exists>x. T pk = Some x \<and> memTab d' = T(pk \<mapsto> updated upd x)))" for pk upd d e d'
    by (auto simp: memDdb_def elim!: memRequestE split: option.splits)
qed

end
