(* ===== verification/Dynamo_Tx.thy ===== *)
theory Dynamo_Tx
  imports Dynamo_Store
begin

text \<open>
  The transaction of the DynamoDB backend (\<open>internal/repo/dynamo/tx.go\<close>): a write buffer with
  overlays for what the transaction has read and written, flushed by one conditional
  \<open>TransactWriteItems\<close>.

  \<^item> \<open>dytx\<close> is the struct \<open>Tx\<close>. \<open>put\<close> coalesces writes of one key and keeps the condition of
    the first. Balances and reservations remember the version they were read with.
  \<^item> \<open>Commit\<close> sends the buffer with its conditions and classifies a cancelled transaction.
  \<^item> \<open>dynamoTx\<close> and \<open>dynamoStore\<close> are the interface values the service receives.
  \<^item> Go maps that are only looked up are functions; the buffer and the reservations, whose sizes
    or elements are used, are association lists (the order of \<open>range\<close> over the latter is that
    of insertion). Versions are unbounded.
\<close>

section \<open>State\<close>

datatype condKind = condNone | condNotExists | condVersionEquals

record pendingPut =
  pp_item :: item
  pp_cond :: condKind
  pp_version :: int

record txBalance =
  xb_debits :: decimal
  xb_credits :: decimal
  xb_readVersion :: int
  xb_existed :: bool

record flowState =
  fst_run :: FlowRun
  fst_steps :: "FlowStep list"

record resState =
  rst_res :: Reservation
  rst_readVersion :: int
  rst_existed :: bool

record 'd dytx =
  dt_store :: "'d dstore"
  dt_puts :: "(string \<times> pendingPut) list"
  dt_order :: "string list"
  dt_balances :: "string \<Rightarrow> txBalance option"
  dt_flows :: "string \<Rightarrow> flowState option"
  dt_journals :: "string \<Rightarrow> Journal option"
  dt_flowIdemp :: "string \<Rightarrow> string option"
  dt_reservations :: "(string \<times> resState) list"
  dt_done :: bool

type_synonym ('d, 'a) dyexec = "('d dytx, error, 'a) exec"

definition newTx :: "'d dstore \<Rightarrow> 'd dytx" where
  "newTx s = \<lparr>dt_store = s, dt_puts = [], dt_order = [], dt_balances = Map.empty,
     dt_flows = Map.empty, dt_journals = Map.empty, dt_flowIdemp = Map.empty,
     dt_reservations = [], dt_done = False\<rparr>"

definition BeginFlowTx :: "('d dstore, error, 'd dytx) exec" where
  "BeginFlowTx s = (Inr (newTx s), s)"

definition inStore :: "('d dstore, 'e, 'a) exec \<Rightarrow> ('d dytx, 'e, 'a) exec" where
  "inStore m t = (case m (dt_store t) of (r, s) \<Rightarrow> (r, t\<lparr>dt_store := s\<rparr>))"

lemma inStore_run: "inStore m t = (r, t') \<longleftrightarrow> (\<exists>s. m (dt_store t) = (r, s) \<and> t' = t\<lparr>dt_store := s\<rparr>)"
  by (auto simp: inStore_def split: prod.splits)

text \<open>A pure change of the overlays.\<close>

definition modify :: "('s \<Rightarrow> 's) \<Rightarrow> ('s, 'e, unit) exec" where
  "modify f s = (Inr (), f s)"

lemma modify_Inr [exec_simps]: "modify f s = (Inr u, s') \<longleftrightarrow> s' = f s"
  by (auto simp: modify_def)

lemma modify_Inl [exec_simps]: "\<not> modify f s = (Inl e, s')"
  by (simp add: modify_def)

definition getS :: "('s, 'e, 's) exec" where
  "getS s = (Inr s, s)"

lemma getS_Inr [exec_simps]: "getS s = (Inr x, s') \<longleftrightarrow> x = s \<and> s' = s"
  by (auto simp: getS_def)

lemma getS_Inl [exec_simps]: "\<not> getS s = (Inl e, s')"
  by (simp add: getS_def)

section \<open>The write buffer\<close>

definition put :: "string \<Rightarrow> item \<Rightarrow> condKind \<Rightarrow> int \<Rightarrow> ('d, unit) dyexec" where
  "put pk it cond version = modify (\<lambda>t. case map_of (dt_puts t) pk of
     Some existing \<Rightarrow> t\<lparr>dt_puts := AList.update pk (existing\<lparr>pp_item := it\<rparr>) (dt_puts t)\<rparr>
   | None \<Rightarrow> t\<lparr>dt_puts := AList.update pk \<lparr>pp_item = it, pp_cond = cond, pp_version = version\<rparr> (dt_puts t),
               dt_order := dt_order t @ [pk]\<rparr>)"

section \<open>Balances\<close>

text \<open>A missing row and a row with version 0 and no amounts read the same: a second read tells.\<close>

definition balanceExisted :: "'d dyconf \<Rightarrow> string \<Rightarrow> decimal \<times> decimal \<times> int \<Rightarrow> ('d, bool) dyexec" where
  "balanceExisted C key = (\<lambda>(d, cr, ver).
     if ver \<noteq> 0 \<or> d \<noteq> 0 \<or> cr \<noteq> 0 then ret True
     else bindE (inStore (getItem C key)) (\<lambda>x. case x of
            None \<Rightarrow> ret False
          | Some (BalanceItem it) \<Rightarrow> ret True
          | Some other \<Rightarrow> throwE (unmarshalErr key)))"

definition loadBalance :: "'d dyconf \<Rightarrow> string \<Rightarrow> string \<Rightarrow> string \<Rightarrow> ('d, txBalance) dyexec" where
  "loadBalance C tn a c = bindE getS (\<lambda>t. let key = balancePK tn a c in
     case dt_balances t key of
       Some b \<Rightarrow> ret b
     | None \<Rightarrow>
         bindE (inStore (GetBalance C tn a c)) (\<lambda>(d, cr, ver).
         bindE (balanceExisted C key (d, cr, ver)) (\<lambda>existed.
         let b = \<lparr>xb_debits = d, xb_credits = cr, xb_readVersion = ver, xb_existed = existed\<rparr> in
         thenE (modify (\<lambda>t. t\<lparr>dt_balances := (dt_balances t)(key \<mapsto> b)\<rparr>)) (ret b))))"

definition EnsureBalanceRow :: "'d dyconf \<Rightarrow> string \<Rightarrow> string \<Rightarrow> string \<Rightarrow> ('d, unit) dyexec" where
  "EnsureBalanceRow C tn a c = thenE (loadBalance C tn a c) (ret ())"

definition LockBalance :: "'d dyconf \<Rightarrow> string \<Rightarrow> string \<Rightarrow> string \<Rightarrow>
    ('d, decimal \<times> decimal \<times> int) dyexec" where
  "LockBalance C tn a c = bindE (loadBalance C tn a c) (\<lambda>b.
     ret (xb_debits b, xb_credits b, xb_readVersion b))"

definition UpdateBalance :: "'d dyconf \<Rightarrow> string \<Rightarrow> string \<Rightarrow> string \<Rightarrow> decimal \<Rightarrow> decimal \<Rightarrow>
    ('d, unit) dyexec" where
  "UpdateBalance C tn a c postedDebits postedCredits =
     bindE (loadBalance C tn a c) (\<lambda>b. let key = balancePK tn a c in
     thenE (modify (\<lambda>t. t\<lparr>dt_balances := (dt_balances t)(key \<mapsto>
       b\<lparr>xb_debits := postedDebits, xb_credits := postedCredits\<rparr>)\<rparr>))
     (bindE (inStore (storeNow C)) (\<lambda>now.
      put key (BalanceItem \<lparr>bi_PK = key, bi_TenantID = tn, bi_AccountID = a, bi_Currency = c,
         bi_PostedDebits = dl_String (dy_D C) postedDebits,
         bi_PostedCredits = dl_String (dy_D C) postedCredits,
         bi_Version = xb_readVersion b + 1, bi_UpdatedAt = fmtTime now\<rparr>)
       (if xb_existed b then condVersionEquals else condNotExists) (xb_readVersion b))))"

section \<open>Accounts\<close>

definition txGetAccount :: "'d dyconf \<Rightarrow> string \<Rightarrow> string \<Rightarrow> ('d, Account) dyexec" where
  "txGetAccount C tn a = bindE getS (\<lambda>t. case map_of (dt_puts t) (accountPK tn a) of
     Some pp \<Rightarrow> (case pp_item pp of
         AccountItem it \<Rightarrow> liftE (accountFromItem it)
       | other \<Rightarrow> throwE (unmarshalErr (accountPK tn a)))
   | None \<Rightarrow> inStore (GetAccount C tn a))"

definition InsertAccount :: "Account \<Rightarrow> ('d, unit) dyexec" where
  "InsertAccount a = (let uniqPK = accountUniqPK (acc_TenantID a) (acc_OwnerType a) (acc_OwnerID a)
       (acc_AccountType a) (acc_Currency a) in
     thenE (put (accountPK (acc_TenantID a) (acc_ID a)) (AccountItem (accountToItem a)) condNotExists 0)
       (put uniqPK (Marker uniqPK ''account_id'' (acc_ID a)) condNotExists 0))"

section \<open>Flows\<close>

definition putFlow :: "string \<Rightarrow> flowState \<Rightarrow> ('d, unit) dyexec" where
  "putFlow pk fs = thenE (modify (\<lambda>t. t\<lparr>dt_flows := (dt_flows t)(pk \<mapsto> fs)\<rparr>))
     (put pk (FlowItem (flowToItem (fst_run fs) (fst_steps fs))) condNotExists 0)"

definition InsertFlowRun :: "FlowRun \<Rightarrow> ('d, unit) dyexec" where
  "InsertFlowRun f = (let pk = flowPK (fr_TenantID f) (fr_ID f);
       idempPK = flowIdempPK (fr_TenantID f) (fr_IdempotencyKey f) in
     thenE (putFlow pk \<lparr>fst_run = f, fst_steps = []\<rparr>)
     (thenE (put idempPK (Marker idempPK ''flow_run_id'' (fr_ID f)) condNotExists 0)
       (modify (\<lambda>t. t\<lparr>dt_flowIdemp := (dt_flowIdemp t)(idempPK \<mapsto> pk)\<rparr>))))"

definition InsertFlowStep :: "FlowStep \<Rightarrow> ('d, unit) dyexec" where
  "InsertFlowStep s = bindE getS (\<lambda>t. let pk = flowPK (fs_TenantID s) (fs_FlowRunID s) in
     case dt_flows t pk of
       None \<Rightarrow> throwE (GoError (''dynamo: InsertFlowStep before InsertFlowRun in tx (flow '' @
         fs_FlowRunID s @ '')''))
     | Some fs \<Rightarrow> putFlow pk (fs\<lparr>fst_steps := fst_steps fs @ [s]\<rparr>))"

definition CompleteFlowRun :: "'d dyconf \<Rightarrow> string \<Rightarrow> string \<Rightarrow> ('d, unit) dyexec" where
  "CompleteFlowRun C tn fid = bindE getS (\<lambda>t. let pk = flowPK tn fid in
     case dt_flows t pk of
       None \<Rightarrow> throwE (GoError (''dynamo: CompleteFlowRun before InsertFlowRun in tx (flow '' @ fid @ '')''))
     | Some fs \<Rightarrow> bindE (inStore (storeNow C)) (\<lambda>now.
         putFlow pk (fs\<lparr>fst_run := (fst_run fs)\<lparr>fr_Status := FlowCompleted, fr_CompletedAt := Some now\<rparr>\<rparr>)))"

definition GetFlowByIdempotency :: "'d dyconf \<Rightarrow> string \<Rightarrow> string \<Rightarrow> ('d, FlowRun option) dyexec" where
  "GetFlowByIdempotency C tn key = bindE getS (\<lambda>t. let idempPK = flowIdempPK tn key in
     case Option.bind (dt_flowIdemp t idempPK) (dt_flows t) of
       Some fs \<Rightarrow> ret (Some ((fst_run fs)\<lparr>fr_Steps := fst_steps fs\<rparr>))
     | None \<Rightarrow> bindE (inStore (getItem C idempPK)) (\<lambda>x. case x of
         None \<Rightarrow> ret None
       | Some (Marker pk field fid) \<Rightarrow> inStore (GetFlow C tn fid)
       | Some other \<Rightarrow> throwE (unmarshalErr idempPK)))"

definition GetFlowSteps :: "'d dyconf \<Rightarrow> string \<Rightarrow> string \<Rightarrow> ('d, FlowStep list) dyexec" where
  "GetFlowSteps C tn fid = bindE getS (\<lambda>t. case dt_flows t (flowPK tn fid) of
     Some fs \<Rightarrow> ret (fst_steps fs)
   | None \<Rightarrow> bindE (inStore (GetFlow C tn fid)) (\<lambda>f. case f of
       None \<Rightarrow> ret []
     | Some run \<Rightarrow> ret (fr_Steps run)))"

section \<open>Journals and outbox\<close>

definition InsertJournal :: "'d dyconf \<Rightarrow> Journal \<Rightarrow> ('d, unit) dyexec" where
  "InsertJournal C j = (let jCopy = j\<lparr>jrn_Entries := []\<rparr>; jPK = journalPK (jrn_TenantID j) (jrn_ID j);
       evtPK = eventUniqPK (jrn_EventID j) in
     thenE (modify (\<lambda>t. t\<lparr>dt_journals := (dt_journals t)(jPK \<mapsto> jCopy)\<rparr>))
     (thenE (put jPK (JournalItem (journalToItem (dy_D C) jCopy)) condNotExists 0)
       (put evtPK (Marker evtPK ''journal_id'' (jrn_ID j)) condNotExists 0)))"

definition InsertEntry :: "'d dyconf \<Rightarrow> string \<Rightarrow> string \<Rightarrow> string \<Rightarrow> string \<Rightarrow> string \<Rightarrow> Direction \<Rightarrow>
    decimal \<Rightarrow> ('d, unit) dyexec" where
  "InsertEntry C tn entryID journalID a c dir amount = bindE getS (\<lambda>t. let jPK = journalPK tn journalID in
     case dt_journals t jPK of
       None \<Rightarrow> throwE (GoError (''dynamo: InsertEntry before InsertJournal in tx (journal '' @ journalID @ '')''))
     | Some j \<Rightarrow> let j' = j\<lparr>jrn_Entries := jrn_Entries j @
           [\<lparr>ent_AccountID = a, ent_Currency = c, ent_Direction = dir, ent_Amount = amount\<rparr>]\<rparr> in
         thenE (modify (\<lambda>t. t\<lparr>dt_journals := (dt_journals t)(jPK \<mapsto> j')\<rparr>))
           (put jPK (JournalItem (journalToItem (dy_D C) j')) condNotExists 0))"

definition InsertOutbox :: "OutboxEvent \<Rightarrow> ('d, unit) dyexec" where
  "InsertOutbox e = put (outboxPK (obx_ID e)) (OutboxItem (outboxToItem e)) condNotExists 0"

section \<open>Reservations\<close>

definition setReservation :: "string \<Rightarrow> resState \<Rightarrow> ('d, unit) dyexec" where
  "setReservation pk rs = modify (\<lambda>t. t\<lparr>dt_reservations := AList.update pk rs (dt_reservations t)\<rparr>)"

definition InsertReservation :: "'d dyconf \<Rightarrow> Reservation \<Rightarrow> ('d, unit) dyexec" where
  "InsertReservation C r = (let pk = reservationPK (res_TenantID r) (res_ID r);
       idempPK = resIdempPK (res_TenantID r) (res_IdempotencyKey r) in
     thenE (setReservation pk \<lparr>rst_res = r, rst_readVersion = 0, rst_existed = False\<rparr>)
     (thenE (put pk (ReservationItem (reservationToItem (dy_D C) r 1)) condNotExists 0)
       (put idempPK (Marker idempPK ''reservation_id'' (res_ID r)) condNotExists 0)))"

definition LockReservation :: "'d dyconf \<Rightarrow> string \<Rightarrow> string \<Rightarrow> ('d, Reservation) dyexec" where
  "LockReservation C tn rid = bindE getS (\<lambda>t. let pk = reservationPK tn rid in
     case map_of (dt_reservations t) pk of
       Some rs \<Rightarrow> ret (rst_res rs)
     | None \<Rightarrow> bindE (inStore (getItem C pk)) (\<lambda>x. case x of
         None \<Rightarrow> throwE (DomainError CodeReservationNotFound rid)
       | Some (ReservationItem it) \<Rightarrow> (case reservationFromItem (dy_D C) it of
           Inl e \<Rightarrow> throwE e
         | Inr (r, ver) \<Rightarrow>
             thenE (setReservation pk \<lparr>rst_res = r, rst_readVersion = ver, rst_existed = True\<rparr>) (ret r))
       | Some other \<Rightarrow> throwE (unmarshalErr pk)))"

definition GetReservationByIdempotency :: "'d dyconf \<Rightarrow> string \<Rightarrow> string \<Rightarrow>
    ('d, Reservation option) dyexec" where
  "GetReservationByIdempotency C tn key = bindE getS (\<lambda>t.
     case find (\<lambda>(pk, rs). res_TenantID (rst_res rs) = tn \<and> res_IdempotencyKey (rst_res rs) = key)
         (dt_reservations t) of
       Some (pk, rs) \<Rightarrow> ret (Some (rst_res rs))
     | None \<Rightarrow> bindE (inStore (getItem C (resIdempPK tn key))) (\<lambda>x. case x of
         None \<Rightarrow> ret None
       | Some (Marker pk field rid) \<Rightarrow> bindE (LockReservation C tn rid) (\<lambda>r. ret (Some r))
       | Some other \<Rightarrow> throwE (unmarshalErr (resIdempPK tn key))))"

definition UpdateReservationAmounts :: "'d dyconf \<Rightarrow> string \<Rightarrow> string \<Rightarrow> decimal \<Rightarrow> decimal \<Rightarrow> decimal \<Rightarrow>
    ReservationStatus \<Rightarrow> ('d, unit) dyexec" where
  "UpdateReservationAmounts C tn rid outstanding committed released status =
     bindE getS (\<lambda>t. let pk = reservationPK tn rid in
     case map_of (dt_reservations t) pk of
       None \<Rightarrow> throwE (GoError (''dynamo: UpdateReservationAmounts before LockReservation in tx (reservation ''
         @ rid @ '')''))
     | Some rs \<Rightarrow> bindE (inStore (storeNow C)) (\<lambda>now.
         let r = (rst_res rs)\<lparr>res_OutstandingAmount := outstanding, res_CommittedAmount := committed,
               res_ReleasedAmount := released, res_Status := status, res_UpdatedAt := now\<rparr> in
         thenE (setReservation pk (rs\<lparr>rst_res := r\<rparr>))
           (if rst_existed rs
            then put pk (ReservationItem (reservationToItem (dy_D C) r (rst_readVersion rs + 1)))
              condVersionEquals (rst_readVersion rs)
            else put pk (ReservationItem (reservationToItem (dy_D C) r 1)) condNotExists 0)))"

section \<open>Commit and rollback\<close>

abbreviation maxTxItems :: nat where "maxTxItems \<equiv> 100"

definition condOf :: "pendingPut \<Rightarrow> condition" where
  "condOf pp = (case pp_cond pp of
     condNone \<Rightarrow> NoCondition
   | condNotExists \<Rightarrow> AttributeNotExists
   | condVersionEquals \<Rightarrow> VersionIs (pp_version pp))"

text \<open>The buffer in the order of insertion. A key of \<open>order\<close> without a put cannot occur
  (\<open>t.puts[pk]\<close> would be a nil pointer).\<close>

definition transactItems :: "'d dytx \<Rightarrow> db_put list" where
  "transactItems t = map (\<lambda>pp. \<lparr>wr_Item = pp_item pp, wr_Cond = condOf pp\<rparr>)
     (map (\<lambda>pk. the (map_of (dt_puts t) pk)) (dt_order t))"

definition conflictError :: "pendingPut option \<Rightarrow> string \<Rightarrow> error" where
  "conflictError pp pk = (case map_option pp_cond pp of
     Some condVersionEquals \<Rightarrow>
       DomainError CodeSerializationRetryExhausted (''dynamodb version conflict on '' @ pk)
   | Some condNotExists \<Rightarrow>
       if take 4 pk = ''BAL#''
       then DomainError CodeSerializationRetryExhausted (''dynamodb fresh-balance race on '' @ pk)
       else DomainError CodeFlowConflict (''dynamodb duplicate item on '' @ pk)
   | _ \<Rightarrow> DomainError CodeFlowConflict (''dynamodb conditional check failed on '' @ pk))"

text \<open>The first reason that is a failed condition decides; with none, the error is wrapped.\<close>

definition classify :: "'d dytx \<Rightarrow> string option list \<Rightarrow> error" where
  "classify t reasons =
     (case find (\<lambda>i. reasons ! i = Some ''ConditionalCheckFailed'') [0..<length reasons] of
        None \<Rightarrow> GoError ''transact write: transaction cancelled''
      | Some i \<Rightarrow>
          if i < length (dt_order t)
          then conflictError (map_of (dt_puts t) (dt_order t ! i)) (dt_order t ! i)
          else conflictError None '''')"

definition Commit :: "'d dyconf \<Rightarrow> ('d, unit) dyexec" where
  "Commit C t =
     (if dt_done t then (Inl (GoError ''dynamo: tx already finished''), t)
      else let t = t\<lparr>dt_done := True\<rparr>; n = length (dt_puts t) in
        if n = 0 then (Inr (), t)
        else if maxTxItems < n
        then (Inl (DomainError CodeFlowTooLarge (''flow writes '' @ decDigits (int n) @ '' items, limit '' @
          decDigits (int maxTxItems))), t)
        else case inStore (inDB (db_TransactWriteItems (dy_B C) (transactItems t))) t of
            (Inr u, t') \<Rightarrow> (Inr (), t')
          | (Inl (Canceled reasons), t') \<Rightarrow> (Inl (classify t reasons), t')
          | (Inl (WriteFailed e), t') \<Rightarrow> (Inl (GoError (''transact write: '' @ e)), t'))"

definition Rollback :: "'d dytx \<Rightarrow> 'd dytx" where
  "Rollback t = (newTx (dt_store t))\<lparr>dt_done := True\<rparr>"

section \<open>The interface values\<close>

definition dynamoTx :: "'d dyconf \<Rightarrow> 'd dytx tx_ops" where
  "dynamoTx C = \<lparr>
     tx_GetFlowByIdempotency = GetFlowByIdempotency C,
     tx_GetAccount = txGetAccount C,
     tx_LockBalance = LockBalance C,
     tx_EnsureBalanceRow = EnsureBalanceRow C,
     tx_UpdateBalance = UpdateBalance C,
     tx_InsertAccount = InsertAccount,
     tx_InsertFlowRun = InsertFlowRun,
     tx_CompleteFlowRun = CompleteFlowRun C,
     tx_InsertJournal = InsertJournal C,
     tx_InsertEntry = InsertEntry C,
     tx_InsertFlowStep = InsertFlowStep,
     tx_InsertOutbox = InsertOutbox,
     tx_GetFlowSteps = GetFlowSteps C,
     tx_InsertReservation = InsertReservation C,
     tx_LockReservation = LockReservation C,
     tx_GetReservationByIdempotency = GetReservationByIdempotency C,
     tx_UpdateReservationAmounts = UpdateReservationAmounts C,
     tx_GetReconBatchByIdempotency = (\<lambda>tn key. unsupported ''Tx.GetReconBatchByIdempotency''),
     tx_InsertReconBatch = (\<lambda>b. unsupported ''Tx.InsertReconBatch''),
     tx_CompleteReconBatch = (\<lambda>b. unsupported ''Tx.CompleteReconBatch''),
     tx_ListExternalRecordsForRecon = (\<lambda>tn s f u. unsupported ''Tx.ListExternalRecordsForRecon''),
     tx_ListJournalsForRecon = (\<lambda>tn s f u. unsupported ''Tx.ListJournalsForRecon''),
     tx_UpdateExternalRecordMatch = (\<lambda>tn i s j. unsupported ''Tx.UpdateExternalRecordMatch''),
     tx_SumJournalEntries = (\<lambda>tn j a c. unsupported ''Tx.SumJournalEntries''),
     tx_InsertDiscrepancy = (\<lambda>d. unsupported ''Tx.InsertDiscrepancy''),
     tx_LockDiscrepancy = (\<lambda>tn i. unsupported ''Tx.LockDiscrepancy''),
     tx_ResolveDiscrepancyRow = (\<lambda>d. unsupported ''Tx.ResolveDiscrepancyRow'')\<rparr>"

text \<open>The table is shared by the store and its transactions: of two states the later counts.\<close>

definition later :: "'d dstore \<Rightarrow> 'd dstore \<Rightarrow> 'd dstore" where
  "later s1 s2 = (if ds_ticks s1 < ds_ticks s2 then s2 else s1)"

definition dynamoStore :: "'d dyconf \<Rightarrow> ('d dstore, 'd dytx) store_ops" where
  "dynamoStore C = \<lparr>
     st_Tx = dynamoTx C,
     st_BeginFlowTx = BeginFlowTx,
     st_Commit = (\<lambda>t s. case Commit C t of (r, t') \<Rightarrow> (r, dt_store t')),
     st_Rollback = (\<lambda>t s. later s (dt_store (Rollback t))),
     st_GetAccount = GetAccount C,
     st_GetBalance = GetBalance C,
     st_GetFlow = GetFlow C,
     st_ListAccountActivity = (\<lambda>i. unsupported ''ListAccountActivity''),
     st_PendingOutbox = PendingOutbox C,
     st_MarkOutboxPublished = MarkOutboxPublished C,
     st_IncrementOutboxAttempts = IncrementOutboxAttempts C,
     st_InsertSnapshot = (\<lambda>b. unsupported ''InsertSnapshot''),
     st_GetSnapshotBefore = (\<lambda>tn a c t. unsupported ''GetSnapshotBefore''),
     st_SumEntriesBetween = (\<lambda>tn a c f u. unsupported ''SumEntriesBetween''),
     st_ListTenantBalances = (\<lambda>tn. unsupported ''ListTenantBalances''),
     st_ListTenantsDueForSnapshot = ListTenantsDueForSnapshot,
     st_PruneSnapshotsOlderThan = PruneSnapshotsOlderThan,
     st_UpsertFXRate = (\<lambda>r. unsupported ''UpsertFXRate''),
     st_GetFXRateAt = (\<lambda>tn b q t. unsupported ''GetFXRateAt''),
     st_ListFXRates = (\<lambda>i. unsupported ''ListFXRates''),
     st_GetReservation = GetReservation C,
     st_ListExpiredReservations = ListExpiredReservations C,
     st_ListReservations = ListReservations C,
     st_InsertExternalRecord = (\<lambda>r. unsupported ''InsertExternalRecord''),
     st_ListExternalRecordsForRecon = (\<lambda>tn s f u. unsupported ''ListExternalRecordsForRecon''),
     st_ListJournalsForRecon = (\<lambda>tn s f u. unsupported ''ListJournalsForRecon''),
     st_GetReconBatch = (\<lambda>tn i. unsupported ''GetReconBatch''),
     st_ListDiscrepancies = (\<lambda>i. unsupported ''ListDiscrepancies''),
     st_GetDiscrepancy = (\<lambda>tn i. unsupported ''GetDiscrepancy'')\<rparr>"

lemma dynamoTx_simps [simp]:
  "tx_GetFlowByIdempotency (dynamoTx C) = GetFlowByIdempotency C"
  "tx_GetAccount (dynamoTx C) = txGetAccount C"
  "tx_LockBalance (dynamoTx C) = LockBalance C"
  "tx_EnsureBalanceRow (dynamoTx C) = EnsureBalanceRow C"
  "tx_UpdateBalance (dynamoTx C) = UpdateBalance C"
  "tx_InsertAccount (dynamoTx C) = InsertAccount"
  "tx_InsertFlowRun (dynamoTx C) = InsertFlowRun"
  "tx_CompleteFlowRun (dynamoTx C) = CompleteFlowRun C"
  "tx_InsertJournal (dynamoTx C) = InsertJournal C"
  "tx_InsertEntry (dynamoTx C) = InsertEntry C"
  "tx_InsertFlowStep (dynamoTx C) = InsertFlowStep"
  "tx_InsertOutbox (dynamoTx C) = InsertOutbox"
  "tx_GetFlowSteps (dynamoTx C) = GetFlowSteps C"
  "tx_InsertReservation (dynamoTx C) = InsertReservation C"
  "tx_LockReservation (dynamoTx C) = LockReservation C"
  "tx_GetReservationByIdempotency (dynamoTx C) = GetReservationByIdempotency C"
  "tx_UpdateReservationAmounts (dynamoTx C) = UpdateReservationAmounts C"
  by (simp_all add: dynamoTx_def)

lemma dynamoStore_simps [simp]:
  "st_Tx (dynamoStore C) = dynamoTx C"
  "st_BeginFlowTx (dynamoStore C) = BeginFlowTx"
  "st_Commit (dynamoStore C) t s = (case Commit C t of (r, t') \<Rightarrow> (r, dt_store t'))"
  "st_Rollback (dynamoStore C) t s = later s (dt_store t)"
  by (simp_all add: dynamoStore_def Rollback_def newTx_def)

end
