(* ===== verification/Dynamo_Commit.thy ===== *)
theory Dynamo_Commit
  imports Dynamo_Tx
begin

text \<open>
  What a transaction of the DynamoDB backend writes.

  \<^item> \<open>txOk\<close> is the invariant of the write buffer: every key is buffered once, in the order of
    \<open>order\<close>, with an item of that key; balances and reservations are written as the next
    version of what was read, everything else as a new item. Every method keeps it.
  \<^item> So what a commit sends is \<open>guarded\<close>: the other clients see the table evolve as they rely
    on (\<open>Commit_evolves\<close>), and a commit writes all of its buffer or nothing (\<open>Commit_cases\<close>).
\<close>

section \<open>The invariant of the buffer\<close>

definition putOk :: "'d dytx \<Rightarrow> string \<Rightarrow> pendingPut \<Rightarrow> bool" where
  "putOk t pk pp \<longleftrightarrow> itemPK (pp_item pp) = pk \<and>
     (if pkKind pk = ''BAL#''
      then \<exists>b bi. dt_balances t pk = Some b \<and> pp_item pp = BalanceItem bi \<and>
        bi_Version bi = xb_readVersion b + 1 \<and> pp_version pp = xb_readVersion b \<and>
        pp_cond pp = (if xb_existed b then condVersionEquals else condNotExists)
      else if pkKind pk = ''RES#''
      then \<exists>rs ri. map_of (dt_reservations t) pk = Some rs \<and> pp_item pp = ReservationItem ri \<and>
        wfItem (ReservationItem ri) \<and>
        (if rst_existed rs
         then ri_Version ri = rst_readVersion rs + 1 \<and> pp_version pp = rst_readVersion rs \<and>
           pp_cond pp = condVersionEquals
         else ri_Version ri = 1 \<and> pp_cond pp = condNotExists)
      else itemVersion (pp_item pp) = None \<and> pp_cond pp = condNotExists)"

definition txOk :: "'d dytx \<Rightarrow> bool" where
  "txOk t \<longleftrightarrow> distinct (map fst (dt_puts t)) \<and> dt_order t = map fst (dt_puts t) \<and>
     (\<forall>pk pp. map_of (dt_puts t) pk = Some pp \<longrightarrow> putOk t pk pp) \<and>
     (\<forall>pk b. dt_balances t pk = Some b \<longrightarrow> \<not> xb_existed b \<longrightarrow> xb_readVersion b = 0) \<and>
     (\<forall>pk fs. dt_flows t pk = Some fs \<longrightarrow> pk = flowPK (fr_TenantID (fst_run fs)) (fr_ID (fst_run fs))) \<and>
     (\<forall>pk j. dt_journals t pk = Some j \<longrightarrow> pk = journalPK (jrn_TenantID j) (jrn_ID j)) \<and>
     (\<forall>pk rs. map_of (dt_reservations t) pk = Some rs \<longrightarrow>
       pk = reservationPK (res_TenantID (rst_res rs)) (res_ID (rst_res rs)))"

definition putTx :: "string \<Rightarrow> item \<Rightarrow> condKind \<Rightarrow> int \<Rightarrow> 'd dytx \<Rightarrow> 'd dytx" where
  "putTx pk it cond version t = (case map_of (dt_puts t) pk of
     Some existing \<Rightarrow> t\<lparr>dt_puts := AList.update pk (existing\<lparr>pp_item := it\<rparr>) (dt_puts t)\<rparr>
   | None \<Rightarrow> t\<lparr>dt_puts := AList.update pk \<lparr>pp_item = it, pp_cond = cond, pp_version = version\<rparr> (dt_puts t),
               dt_order := dt_order t @ [pk]\<rparr>)"

lemma put_run [exec_simps]:
  "put pk it cond version t = (Inr u, t') \<longleftrightarrow> t' = putTx pk it cond version t"
  "\<not> put pk it cond version t = (Inl e, t')"
  by (auto simp: put_def putTx_def exec_simps)

definition pendingAt :: "'d dytx \<Rightarrow> string \<Rightarrow> item \<Rightarrow> condKind \<Rightarrow> int \<Rightarrow> pendingPut" where
  "pendingAt t pk it cond version = (case map_of (dt_puts t) pk of
     Some existing \<Rightarrow> existing\<lparr>pp_item := it\<rparr>
   | None \<Rightarrow> \<lparr>pp_item = it, pp_cond = cond, pp_version = version\<rparr>)"

lemma keys_update_new: "map_of xs k = None \<Longrightarrow> map fst (AList.update k v xs) = map fst xs @ [k]"
  by (induction xs) (auto split: if_splits)

lemma keys_update_old: "map_of xs k = Some w \<Longrightarrow> map fst (AList.update k v xs) = map fst xs"
  by (induction xs) (auto split: if_splits)

lemma putTx_simps [simp]:
  "dt_store (putTx pk it cond v t) = dt_store t" "dt_balances (putTx pk it cond v t) = dt_balances t"
  "dt_flows (putTx pk it cond v t) = dt_flows t" "dt_journals (putTx pk it cond v t) = dt_journals t"
  "dt_flowIdemp (putTx pk it cond v t) = dt_flowIdemp t"
  "dt_reservations (putTx pk it cond v t) = dt_reservations t" "dt_done (putTx pk it cond v t) = dt_done t"
  "map_of (dt_puts (putTx pk it cond v t)) = (map_of (dt_puts t))(pk \<mapsto> pendingAt t pk it cond v)"
  by (auto simp: putTx_def pendingAt_def update_conv' split: option.splits)

text \<open>The invariant reads the buffer and the two overlays only.\<close>

lemma putOk_same:
  "dt_balances t' pk = dt_balances t pk \<Longrightarrow>
   map_of (dt_reservations t') pk = map_of (dt_reservations t) pk \<Longrightarrow> putOk t' pk pp = putOk t pk pp"
  by (simp add: putOk_def)

lemma txOk_put:
  assumes "txOk t" and "putOk t pk (pendingAt t pk it cond v)"
  shows "txOk (putTx pk it cond v t)"
proof -
  have "distinct (map fst (dt_puts (putTx pk it cond v t)))"
    "dt_order (putTx pk it cond v t) = map fst (dt_puts (putTx pk it cond v t))"
    using assms(1)
    by (auto simp: txOk_def putTx_def keys_update_new keys_update_old map_of_eq_None_iff
        split: option.splits)
  with assms show ?thesis
    by (auto simp: txOk_def putOk_same [of "putTx pk it cond v t" _ t] split: if_splits)
qed

text \<open>A new item of any other kind.\<close>

lemma txOk_put_new:
  assumes "txOk t" and "itemPK it = pk" and "itemVersion it = None" and "pkKind pk \<notin> {''BAL#'', ''RES#''}"
  shows "txOk (putTx pk it condNotExists v t)"
proof (rule txOk_put [OF assms(1)])
  show "putOk t pk (pendingAt t pk it condNotExists v)"
    using assms by (auto simp: txOk_def putOk_def pendingAt_def split: option.splits)
qed

lemma txOk_overlay:
  assumes "txOk t" and "dt_puts t' = dt_puts t" and "dt_order t' = dt_order t"
    and "dt_balances t' = dt_balances t" and "dt_reservations t' = dt_reservations t"
    and "dt_flows t' = dt_flows t" and "dt_journals t' = dt_journals t"
  shows "txOk t'"
proof -
  have "putOk t' pk pp = putOk t pk pp" for pk pp by (rule putOk_same) (simp_all add: assms)
  then have ok: "putOk t' = putOk t" by (intro ext)
  from assms(1) show ?thesis unfolding txOk_def assms(2-7) ok .
qed

lemma txOk_newTx: "txOk (newTx s)"
  by (simp add: txOk_def newTx_def)

section \<open>Every method keeps the invariant\<close>

lemma inStore_Inr [exec_simps]:
  "inStore m t = (Inr a, t') \<longleftrightarrow> (\<exists>s. m (dt_store t) = (Inr a, s) \<and> t' = t\<lparr>dt_store := s\<rparr>)"
  by (rule inStore_run)

lemma inStore_Inl [exec_simps]:
  "inStore m t = (Inl e, t') \<longleftrightarrow> (\<exists>s. m (dt_store t) = (Inl e, s) \<and> t' = t\<lparr>dt_store := s\<rparr>)"
  by (rule inStore_run)

lemma storeNow_Inr [exec_simps]:
  "storeNow C s = (Inr x, s') \<longleftrightarrow> x = dy_clock C (ds_ticks s) \<and> s' = s\<lparr>ds_ticks := Suc (ds_ticks s)\<rparr>"
  by (auto simp: storeNow_def)

lemma storeNow_Inl [exec_simps]: "\<not> storeNow C s = (Inl e, s')"
  by (simp add: storeNow_def)

abbreviation keepsTx :: "('d, 'a) dyexec \<Rightarrow> bool" where
  "keepsTx \<equiv> stepsBy (\<lambda>t t'. txOk t \<longrightarrow> txOk t')"

lemma keepsTx_order: "reflp (\<lambda>t t'. txOk t \<longrightarrow> txOk t')" "transp (\<lambda>t t'. txOk t \<longrightarrow> txOk t')"
  by (auto simp: reflp_def transp_def)

lemmas keepsTx_bindE = stepsBy_bindE [OF keepsTx_order(2)]
  and keepsTx_thenE = stepsBy_thenE [OF keepsTx_order(2)]
  and keepsTx_pure = stepsBy_pure [OF keepsTx_order(1)]

lemma keepsTxI:
  assumes "\<And>t a t'. txOk t \<Longrightarrow> m t = (Inr a, t') \<Longrightarrow> txOk t'"
    and "\<And>t e t'. txOk t \<Longrightarrow> m t = (Inl e, t') \<Longrightarrow> txOk t'"
  shows "keepsTx m"
proof (intro stepsByI impI)
  fix t r t' assume "m t = (r, t')" "txOk t"
  with assms(1) [of t _ t'] assms(2) [of t _ t'] show "txOk t'" by (cases r) simp_all
qed

lemma keepsTxD: "keepsTx m \<Longrightarrow> txOk t \<Longrightarrow> m t = (r, t') \<Longrightarrow> txOk t'"
  by (simp add: stepsBy_def)

lemma keepsTx_getS:
  assumes "\<And>t r t'. txOk t \<Longrightarrow> f t t = (r, t') \<Longrightarrow> txOk t'"
  shows "keepsTx (bindE getS f)"
  by (rule keepsTxI) (auto simp: exec_simps dest: assms)

lemma keepsTx_inStore: "keepsTx (inStore m)"
  by (auto simp: stepsBy_def inStore_run elim: txOk_overlay)

lemma keepsTx_put:
  "itemPK it = pk \<Longrightarrow> itemVersion it = None \<Longrightarrow> pkKind pk \<notin> {''BAL#'', ''RES#''} \<Longrightarrow>
     keepsTx (put pk it condNotExists v)"
  by (auto intro!: keepsTxI txOk_put_new simp: exec_simps)

lemma keepsTx_modify: "(\<And>t. txOk t \<Longrightarrow> txOk (f t)) \<Longrightarrow> keepsTx (modify f)"
  by (auto intro!: keepsTxI simp: exec_simps)

lemma txOkD: "txOk t \<Longrightarrow> map_of (dt_puts t) pk = Some pp \<Longrightarrow> putOk t pk pp"
  by (simp add: txOk_def)

lemma txOk_balance:
  assumes "txOk t" and "pkKind key = ''BAL#''" and "\<not> xb_existed b \<Longrightarrow> xb_readVersion b = 0"
    and "\<And>b0. dt_balances t key = Some b0 \<Longrightarrow>
      xb_readVersion b = xb_readVersion b0 \<and> xb_existed b = xb_existed b0"
  shows "txOk (t\<lparr>dt_balances := (dt_balances t)(key \<mapsto> b)\<rparr>)"
proof -
  have "putOk (t\<lparr>dt_balances := (dt_balances t)(key \<mapsto> b)\<rparr>) pk pp"
    if "map_of (dt_puts t) pk = Some pp" for pk pp
  proof (cases "pk = key")
    case True
    with txOkD [OF assms(1) that] assms(2,4) show ?thesis by (auto simp: putOk_def)
  next
    case False
    then have "putOk (t\<lparr>dt_balances := (dt_balances t)(key \<mapsto> b)\<rparr>) pk pp = putOk t pk pp"
      by (intro putOk_same) simp_all
    with txOkD [OF assms(1) that] show ?thesis by simp
  qed
  with assms(1,3) show ?thesis by (simp add: txOk_def)
qed

lemma txOk_reservation:
  assumes "txOk t" and "key = reservationPK (res_TenantID (rst_res rs)) (res_ID (rst_res rs))"
    and "\<And>rs0. map_of (dt_reservations t) key = Some rs0 \<Longrightarrow>
      rst_readVersion rs = rst_readVersion rs0 \<and> rst_existed rs = rst_existed rs0"
  shows "txOk (t\<lparr>dt_reservations := AList.update key rs (dt_reservations t)\<rparr>)"
proof -
  have "putOk (t\<lparr>dt_reservations := AList.update key rs (dt_reservations t)\<rparr>) pk pp"
    if "map_of (dt_puts t) pk = Some pp" for pk pp
  proof (cases "pk = key")
    case True
    with txOkD [OF assms(1) that] assms(2,3) show ?thesis by (auto simp: putOk_def update_conv')
  next
    case False
    then have "putOk (t\<lparr>dt_reservations := AList.update key rs (dt_reservations t)\<rparr>) pk pp = putOk t pk pp"
      by (intro putOk_same) (simp_all add: update_conv')
    with txOkD [OF assms(1) that] show ?thesis by simp
  qed
  with assms(1,2) show ?thesis by (simp add: txOk_def update_conv')
qed

lemma txOk_put_balance:
  assumes "txOk t" and "pkKind key = ''BAL#''" and "dt_balances t key = Some b" and "bi_PK bi = key"
    and "bi_Version bi = xb_readVersion b + 1"
  shows "txOk (putTx key (BalanceItem bi) (if xb_existed b then condVersionEquals else condNotExists)
    (xb_readVersion b) t)"
proof (rule txOk_put [OF assms(1)])
  show "putOk t key (pendingAt t key (BalanceItem bi)
      (if xb_existed b then condVersionEquals else condNotExists) (xb_readVersion b))"
    using assms(2-5) txOkD [OF assms(1), of key]
    by (cases "map_of (dt_puts t) key") (auto simp: putOk_def pendingAt_def)
qed

lemma txOk_put_reservation:
  assumes "txOk t" and "pkKind key = ''RES#''" and "map_of (dt_reservations t) key = Some rs"
    and "ri_PK ri = key" and "ri_Version ri = (if rst_existed rs then rst_readVersion rs + 1 else 1)"
    and "cond = (if rst_existed rs then condVersionEquals else condNotExists)"
    and "rst_existed rs \<Longrightarrow> v = rst_readVersion rs" and "wfItem (ReservationItem ri)"
  shows "txOk (putTx key (ReservationItem ri) cond v t)"
proof (rule txOk_put [OF assms(1)])
  show "putOk t key (pendingAt t key (ReservationItem ri) cond v)"
    using assms(2-8) txOkD [OF assms(1), of key]
    by (cases "map_of (dt_puts t) key") (auto simp: putOk_def pendingAt_def)
qed

lemma txOk_store [simp]: "txOk (t\<lparr>dt_store := s\<rparr>) = txOk t"
  by (auto elim: txOk_overlay)

text \<open>Computations that only read through the store.\<close>

abbreviation readsOnly :: "('d, 'a) dyexec \<Rightarrow> bool" where
  "readsOnly \<equiv> stepsBy (\<lambda>t t'. \<exists>s. t' = t\<lparr>dt_store := s\<rparr>)"

lemma readsOnly_keepsTx: "readsOnly m \<Longrightarrow> keepsTx m"
  by (erule stepsBy_mono) auto

lemma same_store: "\<exists>s. t = t\<lparr>dt_store := s\<rparr>"
  by (rule exI [of _ "dt_store t"]) simp

lemma readsOnly_order:
  "reflp (\<lambda>t t'. \<exists>s. t' = t\<lparr>dt_store := s\<rparr>)" "transp (\<lambda>t t'. \<exists>s. t' = t\<lparr>dt_store := s\<rparr>)"
  by (auto simp: reflp_def transp_def intro: same_store)

lemma readsOnly_inStore: "readsOnly (inStore m)"
  by (auto simp: stepsBy_def inStore_run)

lemma stepsBy_case_item:
  assumes "\<And>i. stepsBy R (f1 i)" "\<And>i. stepsBy R (f2 i)" "\<And>i. stepsBy R (f3 i)" "\<And>i. stepsBy R (f4 i)"
    "\<And>i. stepsBy R (f5 i)" "\<And>i. stepsBy R (f6 i)" "\<And>p f i. stepsBy R (f7 p f i)"
  shows "stepsBy R (case x of AccountItem i \<Rightarrow> f1 i | BalanceItem i \<Rightarrow> f2 i | JournalItem i \<Rightarrow> f3 i
    | FlowItem i \<Rightarrow> f4 i | OutboxItem i \<Rightarrow> f5 i | ReservationItem i \<Rightarrow> f6 i | Marker p f i \<Rightarrow> f7 p f i)"
  using assms by (cases x) auto

lemmas stepsBy_cases = stepsBy_case_option stepsBy_case_item stepsBy_case_prod stepsBy_case_sum stepsBy_if

lemmas readsOnly_intros = stepsBy_pure [OF readsOnly_order(1)] stepsBy_bindE [OF readsOnly_order(2)]
  readsOnly_inStore stepsBy_cases

lemma stepsBy_getS:
  assumes "\<And>t. stepsBy R (f t)"
  shows "stepsBy R (bindE getS f)"
  using stepsByD [OF assms] by (auto simp: stepsBy_def bindE_def getS_def)

lemma readsOnly_balanceExisted: "readsOnly (balanceExisted C key p)"
  unfolding balanceExisted_def by (intro readsOnly_intros)

lemma readsOnly_reads:
  "readsOnly (txGetAccount C tn a)" "readsOnly (GetFlowByIdempotency C tn key)" "readsOnly (GetFlowSteps C tn fid)"
  unfolding txGetAccount_def GetFlowByIdempotency_def GetFlowSteps_def Let_def
  by (intro stepsBy_getS readsOnly_intros)+

lemma balanceExisted_version:
  "balanceExisted C key (d, cr, ver) t = (Inr ex, t') \<Longrightarrow> \<not> ex \<Longrightarrow> ver = 0"
proof (rule ccontr)
  assume run: "balanceExisted C key (d, cr, ver) t = (Inr ex, t')" and "\<not> ex" and "ver \<noteq> 0"
  from \<open>ver \<noteq> 0\<close> have "balanceExisted C key (d, cr, ver) = ret True"
    unfolding balanceExisted_def prod.case by (simp only: simp_thms if_True)
  with run \<open>\<not> ex\<close> show False by (simp add: ret_def)
qed

text \<open>What \<open>loadBalance\<close> leaves in the overlay.\<close>

lemma loadBalance_cases:
  assumes "loadBalance C tn a c t = (r, t')"
  obtains (known) b where "dt_balances t (balancePK tn a c) = Some b" "r = Inr b" "t' = t"
  | (read) s d cr ver ex s1 where "dt_balances t (balancePK tn a c) = None"
      "GetBalance C tn a c (dt_store t) = (Inr (d, cr, ver), s1)"
      "balanceExisted C (balancePK tn a c) (d, cr, ver) (t\<lparr>dt_store := s1\<rparr>) = (Inr ex, t\<lparr>dt_store := s\<rparr>)"
      "\<not> ex \<longrightarrow> ver = 0" "r = Inr \<lparr>xb_debits = d, xb_credits = cr, xb_readVersion = ver, xb_existed = ex\<rparr>"
      "t' = t\<lparr>dt_store := s, dt_balances := (dt_balances t)(balancePK tn a c \<mapsto>
        \<lparr>xb_debits = d, xb_credits = cr, xb_readVersion = ver, xb_existed = ex\<rparr>)\<rparr>"
  | (failed) e s where "r = Inl e" "t' = t\<lparr>dt_store := s\<rparr>"
      "GetBalance C tn a c (dt_store t) = (Inl e, s) \<or>
       (\<exists>p s1. GetBalance C tn a c (dt_store t) = (Inr p, s1) \<and>
         balanceExisted C (balancePK tn a c) p (t\<lparr>dt_store := s1\<rparr>) = (Inl e, t\<lparr>dt_store := s\<rparr>))"
proof (cases "dt_balances t (balancePK tn a c)")
  case (Some b)
  with assms have "r = Inr b" "t' = t" by (simp_all add: loadBalance_def Let_def bindE_def getS_def ret_def)
  with Some show thesis by (rule known)
next
  case None
  let ?key = "balancePK tn a c"
  let ?set = "\<lambda>(d, cr, ver) ex. let b = \<lparr>xb_debits = d, xb_credits = cr, xb_readVersion = ver, xb_existed = ex\<rparr> in
    thenE (modify (\<lambda>t. t\<lparr>dt_balances := (dt_balances t)(?key \<mapsto> b)\<rparr>)) (ret b)"
  have run: "bindE (inStore (GetBalance C tn a c)) (\<lambda>p. bindE (balanceExisted C ?key p) (?set p)) t = (r, t')"
    using assms None by (simp add: loadBalance_def Let_def bindE_def getS_def case_prod_beta')
  obtain r1 s1 where g: "GetBalance C tn a c (dt_store t) = (r1, s1)" by fastforce
  show thesis
  proof (cases r1)
    case (Inl e)
    with run g have "r = Inl e" "t' = t\<lparr>dt_store := s1\<rparr>" by (auto simp: bindE_def inStore_def)
    then show thesis by (rule failed) (use g Inl in simp)
  next
    case (Inr p)
    obtain d cr ver where p: "p = (d, cr, ver)" by (cases p)
    obtain r2 t2 where ex: "balanceExisted C ?key p (t\<lparr>dt_store := s1\<rparr>) = (r2, t2)" by fastforce
    from stepsByD [OF readsOnly_balanceExisted ex] obtain s2 where t2: "t2 = t\<lparr>dt_store := s2\<rparr>" by auto
    show thesis
    proof (cases r2)
      case (Inl e)
      with run g \<open>r1 = Inr p\<close> ex t2 have "r = Inl e" "t' = t\<lparr>dt_store := s2\<rparr>"
        by (auto simp: bindE_def inStore_def)
      then show thesis by (rule failed) (use g ex t2 Inl \<open>r1 = Inr p\<close> in blast)
    next
      case (Inr e)
      have "\<not> e \<longrightarrow> ver = 0" using balanceExisted_version ex Inr p by blast
      moreover from run g \<open>r1 = Inr p\<close> ex t2 Inr have "?set p e (t\<lparr>dt_store := s2\<rparr>) = (r, t')"
        by (simp add: bindE_def inStore_def)
      ultimately show thesis
        using g ex t2 Inr \<open>r1 = Inr p\<close>
        by (intro read [of d cr ver s1 e s2]) (auto simp: None p thenE_def bindE_def modify_def ret_def Let_def)
    qed
  qed
qed

lemma keepsTx_loadBalance: "keepsTx (loadBalance C tn a c)"
proof (intro stepsByI impI)
  fix t r t' assume "loadBalance C tn a c t = (r, t')" and t: "txOk t"
  from this(1) show "txOk t'"
  proof (cases rule: loadBalance_cases)
    case (read s d cr ver ex s1)
    have "txOk ((t\<lparr>dt_store := s\<rparr>)\<lparr>dt_balances := (dt_balances (t\<lparr>dt_store := s\<rparr>))(balancePK tn a c \<mapsto>
        \<lparr>xb_debits = d, xb_credits = cr, xb_readVersion = ver, xb_existed = ex\<rparr>)\<rparr>)"
      by (rule txOk_balance) (use t read in auto)
    with read show ?thesis by simp
  qed (use t in auto)
qed

lemma loadBalance_Inr:
  assumes "loadBalance C tn a c t = (Inr b, t')" and "txOk t"
  shows "dt_balances t' (balancePK tn a c) = Some b" and "txOk t'"
    and "\<not> xb_existed b \<Longrightarrow> xb_readVersion b = 0"
proof -
  show ok: "txOk t'" by (rule keepsTxD [OF keepsTx_loadBalance assms(2,1)])
  show b: "dt_balances t' (balancePK tn a c) = Some b"
    using assms(1) by (cases rule: loadBalance_cases) auto
  show "\<not> xb_existed b \<Longrightarrow> xb_readVersion b = 0" using ok b by (simp add: txOk_def)
qed

lemma keepsTx_UpdateBalance: "keepsTx (UpdateBalance C tn a c d cr)"
proof (rule keepsTxI)
  fix t u t' assume t: "txOk t" and run: "UpdateBalance C tn a c d cr t = (Inr u, t')"
  let ?key = "balancePK tn a c"
  from run obtain b t1 where l: "loadBalance C tn a c t = (Inr b, t1)"
    and t': "\<exists>s now. t' = putTx ?key (BalanceItem \<lparr>bi_PK = ?key, bi_TenantID = tn, bi_AccountID = a,
         bi_Currency = c, bi_PostedDebits = dl_String (dy_D C) d, bi_PostedCredits = dl_String (dy_D C) cr,
         bi_Version = xb_readVersion b + 1, bi_UpdatedAt = fmtTime now\<rparr>)
       (if xb_existed b then condVersionEquals else condNotExists) (xb_readVersion b)
       (t1\<lparr>dt_balances := (dt_balances t1)(?key \<mapsto> b\<lparr>xb_debits := d, xb_credits := cr\<rparr>), dt_store := s\<rparr>)"
    by (auto simp: UpdateBalance_def Let_def exec_simps)
  note l = loadBalance_Inr [OF l t]
  let ?b = "b\<lparr>xb_debits := d, xb_credits := cr\<rparr>"
  let ?t2 = "t1\<lparr>dt_balances := (dt_balances t1)(?key \<mapsto> ?b)\<rparr>"
  have "txOk ?t2" by (rule txOk_balance) (use l in auto)
  then have ok: "txOk (?t2\<lparr>dt_store := s\<rparr>)" for s by simp
  from t' obtain s now where "t' = putTx ?key (BalanceItem \<lparr>bi_PK = ?key, bi_TenantID = tn,
      bi_AccountID = a, bi_Currency = c, bi_PostedDebits = dl_String (dy_D C) d,
      bi_PostedCredits = dl_String (dy_D C) cr, bi_Version = xb_readVersion b + 1,
      bi_UpdatedAt = fmtTime now\<rparr>) (if xb_existed ?b then condVersionEquals else condNotExists)
      (xb_readVersion ?b) (?t2\<lparr>dt_store := s\<rparr>)" by auto
  moreover have "txOk (putTx ?key (BalanceItem \<lparr>bi_PK = ?key, bi_TenantID = tn,
      bi_AccountID = a, bi_Currency = c, bi_PostedDebits = dl_String (dy_D C) d,
      bi_PostedCredits = dl_String (dy_D C) cr, bi_Version = xb_readVersion b + 1,
      bi_UpdatedAt = fmtTime now\<rparr>) (if xb_existed ?b then condVersionEquals else condNotExists)
      (xb_readVersion ?b) (?t2\<lparr>dt_store := s\<rparr>))"
    by (rule txOk_put_balance [OF ok]) simp_all
  ultimately show "txOk t'" by simp
next
  fix t e t' assume t: "txOk t" and run: "UpdateBalance C tn a c d cr t = (Inl e, t')"
  then have "loadBalance C tn a c t = (Inl e, t')"
    by (auto simp: UpdateBalance_def Let_def exec_simps)
  with t show "txOk t'" by (rule keepsTxD [OF keepsTx_loadBalance])
qed

lemma txOk_flow:
  "txOk t \<Longrightarrow> pk = flowPK (fr_TenantID (fst_run fs)) (fr_ID (fst_run fs)) \<Longrightarrow>
     txOk (t\<lparr>dt_flows := (dt_flows t)(pk \<mapsto> fs)\<rparr>)"
  using putOk_same [of "t\<lparr>dt_flows := (dt_flows t)(pk \<mapsto> fs)\<rparr>" _ t] by (simp add: txOk_def)

lemma txOk_journal:
  "txOk t \<Longrightarrow> pk = journalPK (jrn_TenantID j) (jrn_ID j) \<Longrightarrow>
     txOk (t\<lparr>dt_journals := (dt_journals t)(pk \<mapsto> j)\<rparr>)"
  using putOk_same [of "t\<lparr>dt_journals := (dt_journals t)(pk \<mapsto> j)\<rparr>" _ t] by (simp add: txOk_def)

lemma keepsTx_flowIdemp: "keepsTx (modify (\<lambda>t. t\<lparr>dt_flowIdemp := h t\<rparr>))"
  by (rule keepsTx_modify, erule txOk_overlay; simp)

lemma keepsTx_putFlow:
  "pk = flowPK (fr_TenantID (fst_run fs)) (fr_ID (fst_run fs)) \<Longrightarrow> keepsTx (putFlow pk fs)"
  unfolding putFlow_def by (intro keepsTx_thenE keepsTx_modify keepsTx_put txOk_flow) simp_all

lemma keepsTx_inserts:
  "keepsTx (InsertAccount acc)" "keepsTx (InsertFlowRun f)" "keepsTx (InsertJournal C j)"
  "keepsTx (InsertOutbox ev)"
  unfolding InsertAccount_def InsertFlowRun_def InsertJournal_def InsertOutbox_def Let_def
  by (intro keepsTx_thenE keepsTx_flowIdemp keepsTx_put keepsTx_putFlow keepsTx_modify txOk_journal; simp)+

lemma txOk_flowD: "txOk t \<Longrightarrow> dt_flows t pk = Some fs \<Longrightarrow> pk = flowPK (fr_TenantID (fst_run fs)) (fr_ID (fst_run fs))"
  by (simp add: txOk_def)

lemma txOk_journalD: "txOk t \<Longrightarrow> dt_journals t pk = Some j \<Longrightarrow> pk = journalPK (jrn_TenantID j) (jrn_ID j)"
  by (simp add: txOk_def)

lemma txOk_reservationD: "txOk t \<Longrightarrow> map_of (dt_reservations t) pk = Some rs \<Longrightarrow>
    pk = reservationPK (res_TenantID (rst_res rs)) (res_ID (rst_res rs))"
  by (simp add: txOk_def)

lemma keepsTx_lookup:
  assumes "keepsTx m" and "\<And>t x. txOk t \<Longrightarrow> look t = Some x \<Longrightarrow> keepsTx (f x)"
  shows "keepsTx (bindE getS (\<lambda>t. case look t of None \<Rightarrow> m | Some x \<Rightarrow> f x))"
proof (rule keepsTx_getS)
  fix t r t' assume t: "txOk t" and run: "(case look t of None \<Rightarrow> m | Some x \<Rightarrow> f x) t = (r, t')"
  show "txOk t'"
  proof (cases "look t")
    case None
    with run keepsTxD [OF assms(1) t] show ?thesis by simp
  next
    case (Some x)
    with run keepsTxD [OF assms(2) [OF t Some] t] show ?thesis by simp
  qed
qed

lemma keepsTx_appends:
  "keepsTx (InsertFlowStep s)" "keepsTx (CompleteFlowRun C tn fid)" "keepsTx (InsertEntry C tn i jid a c dir amt)"
  unfolding InsertFlowStep_def CompleteFlowRun_def InsertEntry_def Let_def
  by (rule keepsTx_lookup [OF keepsTx_pure(2)];
      drule txOk_flowD txOk_journalD, assumption;
      intro keepsTx_bindE keepsTx_thenE keepsTx_inStore keepsTx_putFlow keepsTx_modify keepsTx_put txOk_journal;
      simp)+

text \<open>A reservation may be inserted unless the transaction holds it already.\<close>

lemma txOk_InsertReservation:
  assumes "txOk t" and "map_of (dt_reservations t) (reservationPK (res_TenantID r) (res_ID r)) = None"
    and "InsertReservation C r t = (x, t')"
  shows "txOk t'"
proof -
  let ?pk = "reservationPK (res_TenantID r) (res_ID r)"
  let ?idk = "resIdempPK (res_TenantID r) (res_IdempotencyKey r)"
  let ?rs = "\<lparr>rst_res = r, rst_readVersion = 0, rst_existed = False\<rparr>"
  let ?t1 = "t\<lparr>dt_reservations := AList.update ?pk ?rs (dt_reservations t)\<rparr>"
  let ?t2 = "putTx ?pk (ReservationItem (reservationToItem (dy_D C) r 1)) condNotExists 0 ?t1"
  have t': "t' = putTx ?idk (Marker ?idk ''reservation_id'' (res_ID r)) condNotExists 0 ?t2"
    using assms(3) by (cases x) (auto simp: InsertReservation_def setReservation_def Let_def exec_simps)
  have "txOk ?t1" by (rule txOk_reservation [OF assms(1)]) (simp_all add: assms(2))
  then have "txOk ?t2"
    by (rule txOk_put_reservation) (auto simp: update_conv' reservationToItem_def Let_def split: prod.split)
  then show ?thesis unfolding t' by (rule txOk_put_new) simp_all
qed

lemma keepsTx_UpdateReservationAmounts: "keepsTx (UpdateReservationAmounts C tn rid out com rel status)"
  unfolding UpdateReservationAmounts_def Let_def
proof (rule keepsTx_getS)
  fix t r t'
  let ?pk = "reservationPK tn rid"
  let ?res = "\<lambda>rs now. (rst_res rs)\<lparr>res_OutstandingAmount := out, res_CommittedAmount := com,
               res_ReleasedAmount := rel, res_Status := status, res_UpdatedAt := now\<rparr>"
  assume t: "txOk t" and run: "(case map_of (dt_reservations t) ?pk of
       None \<Rightarrow> throwE (GoError (''dynamo: UpdateReservationAmounts before LockReservation in tx (reservation ''
         @ rid @ '')''))
     | Some rs \<Rightarrow> bindE (inStore (storeNow C)) (\<lambda>now.
         thenE (setReservation ?pk (rs\<lparr>rst_res := ?res rs now\<rparr>))
           (if rst_existed rs
            then put ?pk (ReservationItem (reservationToItem (dy_D C) (?res rs now) (rst_readVersion rs + 1)))
              condVersionEquals (rst_readVersion rs)
            else put ?pk (ReservationItem (reservationToItem (dy_D C) (?res rs now) 1)) condNotExists 0))) t = (r, t')"
  show "txOk t'"
  proof (cases "map_of (dt_reservations t) ?pk")
    case None
    with run t show ?thesis by (simp add: throwE_def)
  next
    case (Some rs)
    define now where "now = dy_clock C (ds_ticks (dt_store t))"
    let ?rs = "rs\<lparr>rst_res := ?res rs now\<rparr>"
    let ?t1 = "t\<lparr>dt_store := (dt_store t)\<lparr>ds_ticks := Suc (ds_ticks (dt_store t))\<rparr>\<rparr>"
    let ?t2 = "?t1\<lparr>dt_reservations := AList.update ?pk ?rs (dt_reservations ?t1)\<rparr>"
    have t': "t' = putTx ?pk (ReservationItem (reservationToItem (dy_D C) (?res rs now)
        (if rst_existed rs then rst_readVersion rs + 1 else 1)))
        (if rst_existed rs then condVersionEquals else condNotExists)
        (if rst_existed rs then rst_readVersion rs else 0) ?t2"
      using run Some unfolding now_def
      by (cases r) (auto simp: setReservation_def exec_simps split: if_splits)
    note own = txOk_reservationD [OF t Some]
    have "txOk ?t2"
      by (rule txOk_reservation) (use t own Some in auto)
    then show ?thesis unfolding t'
      by (rule txOk_put_reservation [where rs = ?rs])
        (auto simp: update_conv' own reservationToItem_def Let_def split: prod.split)
  qed
qed

section \<open>What a commit sends\<close>

lemma transactItems_puts:
  assumes "txOk t"
  shows "transactItems t = map (\<lambda>(pk, pp). \<lparr>wr_Item = pp_item pp, wr_Cond = condOf pp\<rparr>) (dt_puts t)"
proof -
  have "map (\<lambda>pk. the (map_of (dt_puts t) pk)) (map fst (dt_puts t)) = map snd (dt_puts t)"
    using assms by (auto simp: txOk_def)
  moreover have "dt_order t = map fst (dt_puts t)" using assms by (simp add: txOk_def)
  ultimately show ?thesis by (simp only: transactItems_def) (simp add: case_prod_beta)
qed

lemma puts_member: "txOk t \<Longrightarrow> (pk, pp) \<in> set (dt_puts t) \<longleftrightarrow> map_of (dt_puts t) pk = Some pp"
  by (simp add: txOk_def)

lemma itemPK_puts: "txOk t \<Longrightarrow> (pk, pp) \<in> set (dt_puts t) \<Longrightarrow> itemPK (pp_item pp) = pk"
  using txOkD [of t pk pp] by (simp add: puts_member putOk_def)

lemma txOk_guarded:
  assumes "txOk t"
  shows "guarded (transactItems t)"
proof -
  have keys: "map itemPK (map wr_Item (transactItems t)) = map fst (dt_puts t)"
    using itemPK_puts [OF assms] by (auto simp: transactItems_puts [OF assms])
  have each: "wfItem (pp_item pp) \<and> (case condOf pp of
     NoCondition \<Rightarrow> False
   | AttributeNotExists \<Rightarrow> (case itemVersion (pp_item pp) of None \<Rightarrow> True | Some v \<Rightarrow> 1 \<le> v)
   | VersionIs v \<Rightarrow> (case itemVersion (pp_item pp) of None \<Rightarrow> False | Some v' \<Rightarrow> v < v'))"
    if "(pk, pp) \<in> set (dt_puts t)" for pk pp
  proof -
    have put: "putOk t pk pp" using that txOkD [OF assms] by (simp add: puts_member [OF assms])
    have fresh: "xb_readVersion b = 0" if "dt_balances t pk = Some b" "\<not> xb_existed b" for b
      using assms that by (simp add: txOk_def)
    from put fresh show ?thesis
      by (cases "pp_item pp") (auto simp: putOk_def condOf_def split: if_splits)
  qed
  have "distinct (map fst (dt_puts t))" using assms by (simp add: txOk_def)
  moreover have "\<exists>pk pp. w = \<lparr>wr_Item = pp_item pp, wr_Cond = condOf pp\<rparr> \<and> (pk, pp) \<in> set (dt_puts t)"
    if "w \<in> set (transactItems t)" for w
    using that by (auto simp: transactItems_puts [OF assms])
  ultimately show ?thesis
    unfolding guarded_def keys using each by (metis db_put.select_convs(1,2))
qed

text \<open>Which item a failed condition names, and how it is reported.\<close>

definition conflictOf :: "string \<Rightarrow> pendingPut \<Rightarrow> DomainCode" where
  "conflictOf pk pp = (if pp_cond pp = condVersionEquals \<or> pkKind pk = ''BAL#''
     then CodeSerializationRetryExhausted else CodeFlowConflict)"

lemma classify_reason:
  assumes "txOk t" and "length reasons = length (dt_puts t)"
  shows "classify t reasons = GoError ''transact write: transaction cancelled'' \<or>
    (\<exists>i pk pp msg. i < length (dt_puts t) \<and> dt_puts t ! i = (pk, pp) \<and>
       reasons ! i = Some ''ConditionalCheckFailed'' \<and> classify t reasons = DomainError (conflictOf pk pp) msg)"
proof (cases "find (\<lambda>i. reasons ! i = Some ''ConditionalCheckFailed'') [0..<length reasons]")
  case None
  then show ?thesis by (simp add: classify_def)
next
  case (Some i)
  then have i: "i < length (dt_puts t)" "reasons ! i = Some ''ConditionalCheckFailed''"
    using assms(2) by (auto simp: find_Some_iff)
  obtain pk pp where p: "dt_puts t ! i = (pk, pp)" by fastforce
  then have mem: "(pk, pp) \<in> set (dt_puts t)" using i(1) nth_mem by metis
  then have m: "map_of (dt_puts t) pk = Some pp" using puts_member [OF assms(1)] by simp
  have ord: "dt_order t ! i = pk" "i < length (dt_order t)" using assms(1) i(1) p by (simp_all add: txOk_def)
  have put: "putOk t pk pp" by (rule txOkD [OF assms(1) m])
  then have nocond: "pp_cond pp \<noteq> condNone" by (auto simp: putOk_def split: if_splits)
  have "\<exists>msg. classify t reasons = DomainError (conflictOf pk pp) msg"
    using Some ord m nocond
    by (cases "pp_cond pp") (auto simp: classify_def conflictError_def conflictOf_def pkKind_def)
  with i p show ?thesis by blast
qed

section \<open>Requests and commits against the service\<close>

abbreviation tableOf :: "('d \<Rightarrow> dtable) \<Rightarrow> 'd dytx \<Rightarrow> dtable" where
  "tableOf tab t \<equiv> tab (ds_db (dt_store t))"

text \<open>The table a request of a commit finds, and the outcomes of a commit.\<close>

definition commitOutcome :: "dtable \<Rightarrow> 'd dytx \<Rightarrow> error + unit \<Rightarrow> dtable \<Rightarrow> bool" where
  "commitOutcome T t r T' \<longleftrightarrow> (case r of
     Inr u \<Rightarrow> (dt_puts t = [] \<and> T' = T) \<or>
       (\<exists>T1. evolves T T1 \<and> allowed (transactItems t) T1 \<and> T' = written (transactItems t) T1 \<and>
         dt_puts t \<noteq> [] \<and> length (dt_puts t) \<le> maxTxItems)
   | Inl (DomainError c msg) \<Rightarrow>
       (c = CodeFlowTooLarge \<and> maxTxItems < length (dt_puts t) \<and> T' = T) \<or>
       (evolves T T' \<and> (\<exists>pk pp. (pk, pp) \<in> set (dt_puts t) \<and> \<not> holds (condOf pp) (T' pk) \<and>
         c = conflictOf pk pp))
   | Inl e \<Rightarrow> T' = T \<or> (\<exists>T1. evolves T T1 \<and>
       (T' = T1 \<or> allowed (transactItems t) T1 \<and> T' = written (transactItems t) T1)))"

context dynamodb
begin

lemma getItem_evolves:
  "getItem C pk s = (r, s') \<Longrightarrow> dy_B C = B \<Longrightarrow>
     evolves (tab (ds_db s)) (tab (ds_db s')) \<and> (\<forall>x. r = Inr x \<longrightarrow> x = tab (ds_db s') pk)"
  using GetItem [of pk "ds_db s"]
  by (fastforce simp: getItem_def mapErr_def inDB_def split: prod.splits sum.splits)

lemma Commit_cases:
  assumes "txOk t" and "dy_B C = B" and "Commit C t = (r, t')" and "\<not> dt_done t"
  shows "dt_done t' \<and> commitOutcome (tableOf tab t) t r (tableOf tab t')"
proof -
  let ?t = "t\<lparr>dt_done := True\<rparr>" and ?ws = "transactItems t"
  have ws: "transactItems ?t = ?ws" by (simp add: transactItems_def)
  obtain r1 d where req: "db_TransactWriteItems B ?ws (ds_db (dt_store t)) = (r1, d)" by fastforce
  let ?t1 = "?t\<lparr>dt_store := \<lparr>ds_db = d, ds_ticks = Suc (ds_ticks (dt_store t))\<rparr>\<rparr>"
  consider "dt_puts t = []" | "maxTxItems < length (dt_puts t)"
    | "dt_puts t \<noteq> []" "length (dt_puts t) \<le> maxTxItems" by fastforce
  then show ?thesis
  proof cases
    case 1
    with assms show ?thesis by (auto simp: Commit_def commitOutcome_def Let_def)
  next
    case 2
    then have "dt_puts t \<noteq> []" by auto
    with 2 assms show ?thesis by (auto simp: Commit_def commitOutcome_def Let_def)
  next
    case 3
    have run: "Commit C t = (case r1 of
        Inr u \<Rightarrow> (Inr (), ?t1)
      | Inl (Canceled reasons) \<Rightarrow> (Inl (classify ?t reasons), ?t1)
      | Inl (WriteFailed e) \<Rightarrow> (Inl (GoError (''transact write: '' @ e)), ?t1))"
      using 3 assms(2,4) req
      by (auto simp: Commit_def Let_def inStore_def inDB_def ws split: sum.split write_error.split)
    show ?thesis
    proof (cases r1)
      case (Inr u)
      with run assms(3) have rt: "r = Inr ()" "t' = ?t1" by auto
      from Transact_Inr [OF req [unfolded Inr]] obtain T1
        where "evolves (tableOf tab t) T1" "allowed ?ws T1" "tab d = written ?ws T1" by blast
      with 3 rt show ?thesis by (auto simp: commitOutcome_def)
    next
      case (Inl w)
      show ?thesis
      proof (cases w)
        case (WriteFailed e)
        with run assms(3) Inl have rt: "r = Inl (GoError (''transact write: '' @ e))" "t' = ?t1" by auto
        from Transact_Failed [OF req [unfolded Inl WriteFailed]] rt show ?thesis
          by (auto simp: commitOutcome_def)
      next
        case (Canceled reasons)
        with run assms(3) Inl have rt: "r = Inl (classify ?t reasons)" "t' = ?t1" by auto
        note C = Transact_Canceled [OF req [unfolded Inl Canceled]]
        have len: "length reasons = length (dt_puts t)"
          using C by (simp add: transactItems_puts [OF assms(1)])
        have ok: "txOk ?t" using assms(1) by (auto elim: txOk_overlay)
        have len': "length reasons = length (dt_puts ?t)" using len by simp
        from classify_reason [OF ok len'] consider
            "classify ?t reasons = GoError ''transact write: transaction cancelled''"
          | i pk pp msg where "i < length (dt_puts t)" "dt_puts t ! i = (pk, pp)"
              "reasons ! i = Some ''ConditionalCheckFailed''"
              "classify ?t reasons = DomainError (conflictOf pk pp) msg"
          by auto
        then show ?thesis
        proof cases
          case 1
          with rt C show ?thesis by (auto simp: commitOutcome_def)
        next
          case 2
          have mem: "(pk, pp) \<in> set (dt_puts t)" using 2(1,2) nth_mem by metis
          have w: "?ws ! i = \<lparr>wr_Item = pp_item pp, wr_Cond = condOf pp\<rparr>"
            using 2(1,2) by (simp add: transactItems_puts [OF assms(1)])
          have "\<not> holds (condOf pp) (tab d pk)"
            using C 2(1,3) len len' w itemPK_puts [OF assms(1) mem] by (metis db_put.select_convs(1,2))
          with rt 2(4) C mem show ?thesis by (auto simp: commitOutcome_def)
        qed
      qed
    qed
  qed
qed

text \<open>The guarantee: to the other clients a commit is a step of the table they rely on.\<close>

lemma Commit_evolves:
  assumes "txOk t" and "dy_B C = B" and "Commit C t = (r, t')"
  shows "evolves (tableOf tab t) (tableOf tab t')"
proof (cases "dt_done t")
  case True
  with assms(3) show ?thesis by (auto simp: Commit_def evolves_refl)
next
  case False
  from Commit_cases [OF assms False] have oc: "commitOutcome (tableOf tab t) t r (tableOf tab t')" by simp
  have "evolves T1 (written (transactItems t) T1)" if "allowed (transactItems t) T1" for T1
    using guarded_evolves [OF txOk_guarded [OF assms(1)] that] .
  with oc show ?thesis
    by (auto simp: commitOutcome_def evolves_refl split: sum.splits error.splits intro: evolves_trans)
qed

text \<open>What \<open>LockReservation\<close> finds.\<close>

lemma LockReservation_cases:
  assumes "LockReservation C tn rid t = (r, t')" and "dy_B C = B"
  obtains (known) rs where "map_of (dt_reservations t) (reservationPK tn rid) = Some rs"
      "r = Inr (rst_res rs)" "t' = t"
  | (read) s it res ver where "map_of (dt_reservations t) (reservationPK tn rid) = None"
      "evolves (tableOf tab t) (tab (ds_db s))" "tab (ds_db s) (reservationPK tn rid) = Some (ReservationItem it)"
      "reservationFromItem (dy_D C) it = Inr (res, ver)" "r = Inr res"
      "t' = t\<lparr>dt_store := s, dt_reservations := AList.update (reservationPK tn rid)
        \<lparr>rst_res = res, rst_readVersion = ver, rst_existed = True\<rparr> (dt_reservations t)\<rparr>"
  | (failed) e s where "r = Inl e" "evolves (tableOf tab t) (tab (ds_db s))" "t' = t\<lparr>dt_store := s\<rparr>"
proof (cases "map_of (dt_reservations t) (reservationPK tn rid)")
  case (Some rs)
  with assms have "r = Inr (rst_res rs)" "t' = t"
    by (simp_all add: LockReservation_def Let_def bindE_def getS_def ret_def)
  with Some show thesis by (rule known)
next
  case None
  let ?pk = "reservationPK tn rid"
  obtain r1 s where g: "getItem C ?pk (dt_store t) = (r1, s)" by fastforce
  note ev = getItem_evolves [OF g assms(2)]
  note defs = LockReservation_def Let_def bindE_def getS_def inStore_def throwE_def
    setReservation_def thenE_def modify_def ret_def
  show thesis
  proof (cases "\<exists>it res ver. r1 = Inr (Some (ReservationItem it)) \<and> reservationFromItem (dy_D C) it = Inr (res, ver)")
    case True
    then obtain it res ver where f: "r1 = Inr (Some (ReservationItem it))"
      "reservationFromItem (dy_D C) it = Inr (res, ver)" by blast
    have "LockReservation C tn rid t = (Inr res, t\<lparr>dt_store := s, dt_reservations := AList.update ?pk
        \<lparr>rst_res = res, rst_readVersion = ver, rst_existed = True\<rparr> (dt_reservations t)\<rparr>)"
      using None g f by (simp add: defs)
    with assms(1) ev f None read show thesis by (metis prod.inject)
  next
    case False
    have "\<exists>e. LockReservation C tn rid t = (Inl e, t\<lparr>dt_store := s\<rparr>)"
    proof (cases r1)
      case (Inl e)
      with None g show ?thesis by (simp add: defs)
    next
      case (Inr found)
      show ?thesis
      proof (cases found)
        case None': None
        with None g Inr show ?thesis by (simp add: defs)
      next
        case (Some i)
        show ?thesis
        proof (cases i)
          case (ReservationItem it)
          with False Inr Some obtain e where "reservationFromItem (dy_D C) it = Inl e"
            by (cases "reservationFromItem (dy_D C) it") auto
          with None g Inr Some ReservationItem show ?thesis by (simp add: defs)
        qed (use None g Inr Some in \<open>simp_all add: defs\<close>)
      qed
    qed
    with assms(1) ev failed show thesis by (metis prod.inject)
  qed
qed

lemma LockReservation_ok:
  assumes "txOk t" and "wfTable (tableOf tab t)" and "dy_B C = B" and "LockReservation C tn rid t = (r, t')"
  shows "txOk t'"
  using assms(4,3)
proof (cases rule: LockReservation_cases)
  case (read s it res ver)
  let ?pk = "reservationPK tn rid"
  have "itemPK (ReservationItem it) = ?pk \<and> wfItem (ReservationItem it)"
    using evolves_wf [OF read(2) assms(2)] read(3) unfolding wfTable_def by blast
  then have "?pk = reservationPK (ri_TenantID it) (ri_ReservationID it)" by (metis itemPK.simps(6) wfItem.simps(1))
  also have "\<dots> = reservationPK (res_TenantID res) (res_ID res)"
    using read(4) by (auto simp: reservationFromItem_def split: sum.splits)
  finally have own: "?pk = reservationPK (res_TenantID res) (res_ID res)" .
  have "txOk ((t\<lparr>dt_store := s\<rparr>)\<lparr>dt_reservations := AList.update ?pk
      \<lparr>rst_res = res, rst_readVersion = ver, rst_existed = True\<rparr> (dt_reservations (t\<lparr>dt_store := s\<rparr>))\<rparr>)"
    by (rule txOk_reservation) (use assms(1) own read(1) in auto)
  with read(6) show ?thesis by simp
qed (use assms(1) in auto)

end

end
