(* ===== verification/Dynamo_Steps.thy ===== *)
theory Dynamo_Steps
  imports Dynamo_Commit
begin

text \<open>
  A transaction of the DynamoDB backend from \<open>BeginFlowTx\<close> on, while other clients commit.

  \<^item> \<open>dyStep\<close> is one call of a method of \<open>dynamoTx\<close>; \<open>dyRun\<close> a sequence of them.
  \<^item> \<open>progress\<close> is what such a run does to the table (it evolves) and to what the transaction
    remembers (the versions it has read, the flows it has buffered): it is a rely condition
    and a guarantee at once.
  \<^item> \<open>dyInv\<close> holds of every transaction a run reaches (\<open>dyRun_inv\<close>); with it a commit that
    succeeds replaced exactly the rows the transaction had read (\<open>commit_read\<close>).
\<close>

section \<open>What a run of a method changes\<close>

definition sameRead :: "txBalance \<Rightarrow> txBalance \<Rightarrow> bool" where
  "sameRead b b' \<longleftrightarrow> xb_readVersion b' = xb_readVersion b \<and> xb_existed b' = xb_existed b"

definition sameResRead :: "resState \<Rightarrow> resState \<Rightarrow> bool" where
  "sameResRead rs rs' \<longleftrightarrow> rst_readVersion rs' = rst_readVersion rs \<and> rst_existed rs' = rst_existed rs"

definition progress :: "('d \<Rightarrow> dtable) \<Rightarrow> 'd dytx \<Rightarrow> 'd dytx \<Rightarrow> bool" where
  "progress tab t t' \<longleftrightarrow> evolves (tableOf tab t) (tableOf tab t') \<and> dt_done t' = dt_done t \<and>
     (\<forall>pk b. dt_balances t pk = Some b \<longrightarrow> (\<exists>b'. dt_balances t' pk = Some b' \<and> sameRead b b')) \<and>
     (\<forall>pk rs. map_of (dt_reservations t) pk = Some rs \<longrightarrow>
       (\<exists>rs'. map_of (dt_reservations t') pk = Some rs' \<and> sameResRead rs rs'))"

lemma progress_order: "reflp (progress tab)" "transp (progress tab)"
proof -
  show "reflp (progress tab)"
    by (simp add: reflp_def progress_def sameRead_def sameResRead_def evolves_refl)
  show "transp (progress tab)"
  proof (rule transpI)
    fix t t1 t2 assume a: "progress tab t t1" and b: "progress tab t1 t2"
    have "evolves (tableOf tab t) (tableOf tab t2)"
      using a b unfolding progress_def by (blast intro: evolves_trans)
    moreover have "\<exists>b'. dt_balances t2 pk = Some b' \<and> sameRead x b'" if "dt_balances t pk = Some x" for pk x
      using a b that unfolding progress_def sameRead_def by metis
    moreover have "\<exists>rs'. map_of (dt_reservations t2) pk = Some rs' \<and> sameResRead x rs'"
      if "map_of (dt_reservations t) pk = Some x" for pk x
      using a b that unfolding progress_def sameResRead_def by metis
    ultimately show "progress tab t t2" using a b by (simp add: progress_def)
  qed
qed

lemmas progress_refl = reflpD [OF progress_order(1)]
  and progress_trans = transpD [OF progress_order(2)]

lemmas progress_pure = stepsBy_pure [OF progress_order(1)]
  and progress_bindE = stepsBy_bindE [OF progress_order(2)]
  and progress_thenE = stepsBy_thenE [OF progress_order(2)]

lemma progress_overlay:
  assumes "dt_store t' = dt_store t" and "dt_balances t' = dt_balances t"
    and "dt_reservations t' = dt_reservations t" and "dt_done t' = dt_done t"
  shows "progress tab t t'"
  using assms by (simp add: progress_def sameRead_def sameResRead_def evolves_refl)

lemma progress_put: "stepsBy (progress tab) (put pk it cond v)"
proof (rule stepsByI)
  fix t t' :: "'a dytx" and r assume "put pk it cond v t = (r, t')"
  then have "t' = putTx pk it cond v t" by (cases r) (simp_all add: exec_simps)
  then show "progress tab t t'" by (intro progress_overlay) simp_all
qed

lemma progress_modify:
  "(\<And>t. dt_store (f t) = dt_store t \<and> dt_balances (f t) = dt_balances t \<and>
     dt_reservations (f t) = dt_reservations t \<and> dt_done (f t) = dt_done t) \<Longrightarrow> stepsBy (progress tab) (modify f)"
  by (auto simp: stepsBy_def modify_def intro!: progress_overlay)

text \<open>Reads of the store let the table evolve.\<close>

abbreviation storeEvolves :: "('d \<Rightarrow> dtable) \<Rightarrow> ('d dstore, 'e, 'a) exec \<Rightarrow> bool" where
  "storeEvolves tab \<equiv> stepsBy (\<lambda>s s'. evolves (tab (ds_db s)) (tab (ds_db s')))"

lemma storeEvolves_order:
  "reflp (\<lambda>s s'. evolves (tab (ds_db s)) (tab (ds_db s')))"
  "transp (\<lambda>s s'. evolves (tab (ds_db s)) (tab (ds_db s')))"
  by (auto simp: reflp_def transp_def evolves_refl intro: evolves_trans)

lemmas storeEvolves_intros = stepsBy_pure [OF storeEvolves_order(1)] stepsBy_bindE [OF storeEvolves_order(2)]
  stepsBy_cases

lemma progress_inStore:
  assumes "storeEvolves tab m"
  shows "stepsBy (progress tab) (inStore m)"
proof (rule stepsByI)
  fix t r t' assume "inStore m t = (r, t')"
  then obtain s where m: "m (dt_store t) = (r, s)" and t': "t' = t\<lparr>dt_store := s\<rparr>" by (auto simp: inStore_run)
  from stepsByD [OF assms m] show "progress tab t t'"
    by (simp add: t' progress_def sameRead_def sameResRead_def)
qed

lemma storeEvolves_storeNow: "storeEvolves tab (storeNow C)"
  by (auto simp: stepsBy_def storeNow_def evolves_refl)

text \<open>The methods that only add to the buffer and its overlays.\<close>

lemma progress_putFlow: "stepsBy (progress tab) (putFlow pk fs)"
  unfolding putFlow_def by (intro progress_thenE progress_put progress_modify) simp

lemma progress_inserts:
  "stepsBy (progress tab) (InsertAccount acc)" "stepsBy (progress tab) (InsertFlowRun f)"
  "stepsBy (progress tab) (InsertFlowStep s)" "stepsBy (progress tab) (CompleteFlowRun C tn fid)"
  "stepsBy (progress tab) (InsertJournal C j)" "stepsBy (progress tab) (InsertEntry C tn i jid a c dir amt)"
  "stepsBy (progress tab) (InsertOutbox ev)"
  unfolding InsertAccount_def InsertFlowRun_def InsertFlowStep_def CompleteFlowRun_def InsertJournal_def
    InsertEntry_def InsertOutbox_def Let_def
  by (intro stepsBy_getS stepsBy_cases progress_pure progress_bindE progress_thenE progress_putFlow
      progress_put progress_modify progress_inStore storeEvolves_storeNow; simp)+

lemma progress_balance:
  assumes "progress tab t t1" and "\<And>b0. dt_balances t1 key = Some b0 \<Longrightarrow> sameRead b0 b"
  shows "progress tab t (t1\<lparr>dt_balances := (dt_balances t1)(key \<mapsto> b)\<rparr>)"
proof (rule progress_trans [OF assms(1)])
  show "progress tab t1 (t1\<lparr>dt_balances := (dt_balances t1)(key \<mapsto> b)\<rparr>)"
    using assms(2) by (auto simp: progress_def evolves_refl sameRead_def sameResRead_def)
qed

lemma progress_setReservation:
  assumes "\<And>rs0. map_of (dt_reservations t) key = Some rs0 \<Longrightarrow> sameResRead rs0 rs"
  shows "progress tab t (t\<lparr>dt_reservations := AList.update key rs (dt_reservations t)\<rparr>)"
  using assms by (auto simp: progress_def evolves_refl sameRead_def sameResRead_def update_conv')

lemma progress_InsertReservation:
  assumes "map_of (dt_reservations t) (reservationPK (res_TenantID r) (res_ID r)) = None"
    and "InsertReservation C r t = (x, t')"
  shows "progress tab t t'"
proof -
  let ?t1 = "t\<lparr>dt_reservations := AList.update (reservationPK (res_TenantID r) (res_ID r))
    \<lparr>rst_res = r, rst_readVersion = 0, rst_existed = False\<rparr> (dt_reservations t)\<rparr>"
  have "progress tab t ?t1" by (rule progress_setReservation) (simp add: assms(1))
  moreover from assms(2) have "thenE (put (reservationPK (res_TenantID r) (res_ID r))
        (ReservationItem (reservationToItem (dy_D C) r 1)) condNotExists 0)
      (put (resIdempPK (res_TenantID r) (res_IdempotencyKey r))
        (Marker (resIdempPK (res_TenantID r) (res_IdempotencyKey r)) ''reservation_id'' (res_ID r)) condNotExists 0)
      ?t1 = (x, t')"
    by (simp add: InsertReservation_def setReservation_def Let_def thenE_def [of "modify f" for f] bindE_def modify_def)
  then have "progress tab ?t1 t'" by (rule stepsByD [OF progress_thenE [OF progress_put progress_put]])
  ultimately show ?thesis by (rule progress_trans)
qed

lemma progress_UpdateReservationAmounts:
  assumes "UpdateReservationAmounts C tn rid out com rel status t = (x, t')"
  shows "progress tab t t'"
proof (cases "map_of (dt_reservations t) (reservationPK tn rid)")
  case None
  with assms show ?thesis
    by (simp add: UpdateReservationAmounts_def Let_def bindE_def getS_def throwE_def progress_refl)
next
  case (Some rs)
  let ?pk = "reservationPK tn rid"
  let ?t1 = "t\<lparr>dt_store := (dt_store t)\<lparr>ds_ticks := Suc (ds_ticks (dt_store t))\<rparr>\<rparr>"
  from assms Some obtain r it cond v where
    t': "t' = putTx ?pk it cond v (?t1\<lparr>dt_reservations := AList.update ?pk (rs\<lparr>rst_res := r\<rparr>) (dt_reservations ?t1)\<rparr>)"
    by (cases x) (auto simp: UpdateReservationAmounts_def Let_def setReservation_def exec_simps split: if_splits)
  have "progress tab t ?t1" by (simp add: progress_def evolves_refl sameRead_def sameResRead_def)
  moreover have "progress tab ?t1 (?t1\<lparr>dt_reservations := AList.update ?pk (rs\<lparr>rst_res := r\<rparr>) (dt_reservations ?t1)\<rparr>)"
    by (rule progress_setReservation) (simp add: Some sameResRead_def)
  moreover have "progress tab t2 (putTx ?pk it cond v t2)" for t2 :: "'a dytx"
    by (rule progress_overlay) simp_all
  ultimately show ?thesis unfolding t' by (blast intro: progress_trans)
qed

section \<open>Runs of a transaction\<close>

text \<open>The operations the backend does not support leave the state alone. A reservation is inserted
  under a new identifier.\<close>

inductive dyStep :: "'d dyconf \<Rightarrow> 'd dytx \<Rightarrow> 'd dytx \<Rightarrow> bool" for C where
  stepGetFlowByIdempotency: "tx_GetFlowByIdempotency (dynamoTx C) tn key t = (r, t') \<Longrightarrow> dyStep C t t'"
| stepGetAccount: "tx_GetAccount (dynamoTx C) tn a t = (r, t') \<Longrightarrow> dyStep C t t'"
| stepLockBalance: "tx_LockBalance (dynamoTx C) tn a c t = (r, t') \<Longrightarrow> dyStep C t t'"
| stepEnsureBalanceRow: "tx_EnsureBalanceRow (dynamoTx C) tn a c t = (r, t') \<Longrightarrow> dyStep C t t'"
| stepUpdateBalance: "tx_UpdateBalance (dynamoTx C) tn a c d cr t = (r, t') \<Longrightarrow> dyStep C t t'"
| stepInsertAccount: "tx_InsertAccount (dynamoTx C) acc t = (r, t') \<Longrightarrow> dyStep C t t'"
| stepInsertFlowRun: "tx_InsertFlowRun (dynamoTx C) f t = (r, t') \<Longrightarrow> dyStep C t t'"
| stepCompleteFlowRun: "tx_CompleteFlowRun (dynamoTx C) tn fid t = (r, t') \<Longrightarrow> dyStep C t t'"
| stepInsertJournal: "tx_InsertJournal (dynamoTx C) j t = (r, t') \<Longrightarrow> dyStep C t t'"
| stepInsertEntry: "tx_InsertEntry (dynamoTx C) tn i jid a c dir amt t = (r, t') \<Longrightarrow> dyStep C t t'"
| stepInsertFlowStep: "tx_InsertFlowStep (dynamoTx C) s t = (r, t') \<Longrightarrow> dyStep C t t'"
| stepInsertOutbox: "tx_InsertOutbox (dynamoTx C) ev t = (r, t') \<Longrightarrow> dyStep C t t'"
| stepGetFlowSteps: "tx_GetFlowSteps (dynamoTx C) tn fid t = (r, t') \<Longrightarrow> dyStep C t t'"
| stepInsertReservation: "map_of (dt_reservations t) (reservationPK (res_TenantID res) (res_ID res)) = None \<Longrightarrow>
    tx_InsertReservation (dynamoTx C) res t = (r, t') \<Longrightarrow> dyStep C t t'"
| stepLockReservation: "tx_LockReservation (dynamoTx C) tn rid t = (r, t') \<Longrightarrow> dyStep C t t'"
| stepGetReservationByIdempotency:
    "tx_GetReservationByIdempotency (dynamoTx C) tn key t = (r, t') \<Longrightarrow> dyStep C t t'"
| stepUpdateReservationAmounts:
    "tx_UpdateReservationAmounts (dynamoTx C) tn rid out com rel status t = (r, t') \<Longrightarrow> dyStep C t t'"

abbreviation dyRun :: "'d dyconf \<Rightarrow> 'd dytx \<Rightarrow> 'd dytx \<Rightarrow> bool" where
  "dyRun C \<equiv> (dyStep C)\<^sup>*\<^sup>*"

text \<open>The amounts and the version a row stands for.\<close>

definition rowBalance :: "decimal_lib \<Rightarrow> string \<Rightarrow> item option \<Rightarrow> error + decimal \<times> decimal \<times> int" where
  "rowBalance D key x = (case x of
     None \<Rightarrow> Inr (0, 0, 0)
   | Some (BalanceItem it) \<Rightarrow> balanceFromItem D it
   | Some other \<Rightarrow> Inl (unmarshalErr key))"

context dynamodb
begin

lemma storeEvolves_reads:
  assumes "dy_B C = B"
  shows "storeEvolves tab (getItem C pk)" and "storeEvolves tab (GetAccount C tn a)"
    and "storeEvolves tab (GetBalance C tn a c)" and "storeEvolves tab (GetFlow C tn fid)"
proof -
  show g: "storeEvolves tab (getItem C pk)" for pk
    using getItem_evolves [OF _ assms] by (auto simp: stepsBy_def)
  show "storeEvolves tab (GetAccount C tn a)" and "storeEvolves tab (GetBalance C tn a c)"
    and "storeEvolves tab (GetFlow C tn fid)"
    unfolding GetAccount_def GetBalance_def GetFlow_def by (intro storeEvolves_intros g)+
qed

lemma progress_reads:
  assumes "dy_B C = B"
  shows "stepsBy (progress tab) (txGetAccount C tn a)"
    and "stepsBy (progress tab) (GetFlowByIdempotency C tn key)"
    and "stepsBy (progress tab) (GetFlowSteps C tn fid)"
    and "stepsBy (progress tab) (balanceExisted C k p)"
  unfolding txGetAccount_def GetFlowByIdempotency_def GetFlowSteps_def balanceExisted_def Let_def
  by (intro stepsBy_getS progress_bindE progress_pure progress_inStore storeEvolves_reads [OF assms] stepsBy_cases)+

text \<open>What the first read of a balance finds.\<close>

lemma GetBalance_row:
  assumes "GetBalance C tn a c s = (Inr v, s')" and "dy_B C = B"
  shows "rowBalance (dy_D C) (balancePK tn a c) (tab (ds_db s') (balancePK tn a c)) = Inr v"
proof -
  obtain x s1 where g: "getItem C (balancePK tn a c) s = (Inr x, s1)"
    and k: "(case x of None \<Rightarrow> ret (0, 0, 0)
       | Some (BalanceItem it) \<Rightarrow> liftE (balanceFromItem (dy_D C) it)
       | Some other \<Rightarrow> throwE (unmarshalErr (balancePK tn a c))) s1 = (Inr v, s')"
    using assms(1) by (auto simp: GetBalance_def exec_simps)
  from k have "rowBalance (dy_D C) (balancePK tn a c) x = Inr v \<and> s' = s1"
    by (cases x) (auto simp: rowBalance_def exec_simps split: item.splits)
  with getItem_evolves [OF g assms(2)] show ?thesis by simp
qed

lemma loadBalance_progress:
  assumes "loadBalance C tn a c t = (r, t')" and "dy_B C = B"
  shows "progress tab t t'"
proof -
  let ?key = "balancePK tn a c"
  have first: "progress tab t (t\<lparr>dt_store := s\<rparr>)" if "GetBalance C tn a c (dt_store t) = (v, s)" for v s
    using stepsByD [OF storeEvolves_reads(3) [OF assms(2)] that]
    by (simp add: progress_def sameRead_def sameResRead_def)
  have second: "progress tab t (t\<lparr>dt_store := s\<rparr>)"
    if "GetBalance C tn a c (dt_store t) = (v, s1)" "balanceExisted C ?key p (t\<lparr>dt_store := s1\<rparr>) = (x, t\<lparr>dt_store := s\<rparr>)"
    for v s1 p x s
    using stepsByD [OF progress_reads(4) [OF assms(2)] that(2)] first [OF that(1)] by (blast intro: progress_trans)
  from assms(1) show ?thesis
  proof (cases rule: loadBalance_cases)
    case known
    then show ?thesis by (simp add: progress_refl)
  next
    case (read s d cr ver ex s1)
    have "progress tab t ((t\<lparr>dt_store := s\<rparr>)\<lparr>dt_balances := (dt_balances (t\<lparr>dt_store := s\<rparr>))(?key \<mapsto>
        \<lparr>xb_debits = d, xb_credits = cr, xb_readVersion = ver, xb_existed = ex\<rparr>)\<rparr>)"
      by (rule progress_balance [OF second [OF read(2,3)]]) (simp add: read(1))
    with read(6) show ?thesis by simp
  next
    case (failed e s)
    from failed(3) first second show ?thesis unfolding failed(2) by blast
  qed
qed

text \<open>The balance of the first read is the row of a moment between the two states.\<close>

lemma loadBalance_read:
  assumes "loadBalance C tn a c t = (Inr b, t')" and "dt_balances t (balancePK tn a c) = None" and "dy_B C = B"
  obtains T where "evolves (tableOf tab t) T" and "evolves T (tableOf tab t')"
    and "rowBalance (dy_D C) (balancePK tn a c) (T (balancePK tn a c)) =
      Inr (xb_debits b, xb_credits b, xb_readVersion b)"
  using assms(1)
proof (cases rule: loadBalance_cases)
  case (read s d cr ver ex s1)
  have "evolves (tableOf tab t) (tab (ds_db s1))"
    using stepsByD [OF storeEvolves_reads(3) [OF assms(3)] read(2)] .
  moreover have "evolves (tab (ds_db s1)) (tableOf tab t')"
    using stepsByD [OF progress_reads(4) [OF assms(3)] read(3)] read(6) by (simp add: progress_def)
  moreover have "rowBalance (dy_D C) (balancePK tn a c) (tab (ds_db s1) (balancePK tn a c)) = Inr (d, cr, ver)"
    by (rule GetBalance_row [OF read(2) assms(3)])
  ultimately show thesis using that [of "tab (ds_db s1)"] read(5) by simp
qed (use assms(2) in auto)

lemma progress_balances:
  assumes "dy_B C = B"
  shows "stepsBy (progress tab) (EnsureBalanceRow C tn a c)" and "stepsBy (progress tab) (LockBalance C tn a c)"
  unfolding EnsureBalanceRow_def LockBalance_def
  by (intro progress_thenE progress_bindE progress_pure stepsByI, rule loadBalance_progress [OF _ assms], assumption)+

lemma progress_UpdateBalance:
  assumes "dy_B C = B"
  shows "stepsBy (progress tab) (UpdateBalance C tn a c d cr)"
proof (rule stepsByI)
  fix t t' :: "'d dytx" and r
  assume run: "UpdateBalance C tn a c d cr t = (r, t')"
  let ?key = "balancePK tn a c"
  obtain r1 t1 where l: "loadBalance C tn a c t = (r1, t1)" by fastforce
  note p1 = loadBalance_progress [OF l assms]
  show "progress tab t t'"
  proof (cases r1)
    case (Inl e)
    with run l p1 show ?thesis by (simp add: UpdateBalance_def bindE_def)
  next
    case (Inr b)
    have b: "dt_balances t1 ?key = Some b"
      using l [unfolded Inr] by (cases rule: loadBalance_cases) auto
    let ?t2 = "t1\<lparr>dt_balances := (dt_balances t1)(?key \<mapsto> b\<lparr>xb_debits := d, xb_credits := cr\<rparr>)\<rparr>"
    from run l Inr obtain it cond v where
      "t' = putTx ?key it cond v (?t2\<lparr>dt_store := (dt_store t1)\<lparr>ds_ticks := Suc (ds_ticks (dt_store t1))\<rparr>\<rparr>)"
      by (cases r) (auto simp: UpdateBalance_def Let_def exec_simps)
    moreover have "progress tab t ?t2"
      by (rule progress_balance [OF p1]) (use b in \<open>auto simp: sameRead_def\<close>)
    moreover have "progress tab ?t2 (?t2\<lparr>dt_store := (dt_store t1)\<lparr>ds_ticks := Suc (ds_ticks (dt_store t1))\<rparr>\<rparr>)"
      by (simp add: progress_def evolves_refl sameRead_def sameResRead_def)
    moreover have "progress tab t3 (putTx ?key it cond v t3)" for t3 :: "'d dytx"
      by (rule progress_overlay) simp_all
    ultimately show ?thesis by (blast intro: progress_trans)
  qed
qed

lemma progress_LockReservation:
  assumes "dy_B C = B"
  shows "stepsBy (progress tab) (LockReservation C tn rid)"
proof (rule stepsByI)
  fix t t' :: "'d dytx" and r
  assume "LockReservation C tn rid t = (r, t')"
  then show "progress tab t t'" using assms
  proof (cases rule: LockReservation_cases)
    case (read s it res ver)
    have "progress tab t (t\<lparr>dt_store := s\<rparr>)"
      using read(2) by (simp add: progress_def sameRead_def sameResRead_def)
    moreover have "progress tab (t\<lparr>dt_store := s\<rparr>) ((t\<lparr>dt_store := s\<rparr>)\<lparr>dt_reservations :=
        AList.update (reservationPK tn rid) \<lparr>rst_res = res, rst_readVersion = ver, rst_existed = True\<rparr>
          (dt_reservations (t\<lparr>dt_store := s\<rparr>))\<rparr>)"
      by (rule progress_setReservation) (simp add: read(1))
    ultimately show ?thesis using read(6) by (simp add: progress_trans [of tab t])
  qed (simp_all add: progress_refl progress_def sameRead_def sameResRead_def)
qed

lemma progress_GetReservationByIdempotency:
  assumes "dy_B C = B"
  shows "stepsBy (progress tab) (GetReservationByIdempotency C tn key)"
  unfolding GetReservationByIdempotency_def
  by (intro stepsBy_getS stepsBy_cases progress_bindE progress_pure progress_inStore
      storeEvolves_reads [OF assms] progress_LockReservation [OF assms])

lemma GetReservationByIdempotency_ok:
  assumes "dy_B C = B" and "txOk t" and "wfTable (tableOf tab t)"
    and "GetReservationByIdempotency C tn key t = (r, t')"
  shows "txOk t'"
proof (cases "find (\<lambda>(pk, rs). res_TenantID (rst_res rs) = tn \<and> res_IdempotencyKey (rst_res rs) = key) (dt_reservations t)")
  case (Some p)
  with assms(2,4) show ?thesis
    by (cases p) (simp add: GetReservationByIdempotency_def bindE_def getS_def ret_def)
next
  case None
  obtain x s where g: "getItem C (resIdempPK tn key) (dt_store t) = (x, s)" by fastforce
  have ok: "txOk (t\<lparr>dt_store := s\<rparr>)" "wfTable (tableOf tab (t\<lparr>dt_store := s\<rparr>))"
    using assms(2) evolves_wf [OF conjunct1 [OF getItem_evolves [OF g assms(1)]] assms(3)] by simp_all
  show ?thesis
  proof (cases "\<exists>pk f rid. x = Inr (Some (Marker pk f rid))")
    case True
    then obtain pk f rid where "x = Inr (Some (Marker pk f rid))" by blast
    with assms(4) None g obtain r1 where "LockReservation C tn rid (t\<lparr>dt_store := s\<rparr>) = (r1, t')"
      by (auto simp: GetReservationByIdempotency_def bindE_def getS_def inStore_def ret_def
          split: prod.splits sum.splits)
    then show ?thesis by (rule LockReservation_ok [OF ok assms(1)])
  next
    case False
    with assms(4) None g have "t' = t\<lparr>dt_store := s\<rparr>"
      by (auto simp: GetReservationByIdempotency_def bindE_def getS_def inStore_def ret_def throwE_def
          split: sum.splits option.splits item.splits)
    with ok show ?thesis by simp
  qed
qed

text \<open>Every step keeps the invariant, and the table moves on as the clients rely on.\<close>

lemma dyStep_progress:
  assumes "dyStep C t t'" and "dy_B C = B"
  shows "progress tab t t'"
  using assms(1)
  by cases (simp_all only: dynamoTx_simps,
    auto elim: stepsByD [OF progress_reads(1) [OF assms(2)]] stepsByD [OF progress_reads(2) [OF assms(2)]]
      stepsByD [OF progress_reads(3) [OF assms(2)]] stepsByD [OF progress_balances(1) [OF assms(2)]]
      stepsByD [OF progress_balances(2) [OF assms(2)]] stepsByD [OF progress_UpdateBalance [OF assms(2)]]
      stepsByD [OF progress_inserts(1)] stepsByD [OF progress_inserts(2)] stepsByD [OF progress_inserts(3)]
      stepsByD [OF progress_inserts(4)] stepsByD [OF progress_inserts(5)] stepsByD [OF progress_inserts(6)]
      stepsByD [OF progress_inserts(7)] progress_InsertReservation
      stepsByD [OF progress_LockReservation [OF assms(2)]]
      stepsByD [OF progress_GetReservationByIdempotency [OF assms(2)]] progress_UpdateReservationAmounts)

lemma dyStep_ok:
  assumes "dyStep C t t'" and "dy_B C = B" and "txOk t" and "wfTable (tableOf tab t)"
  shows "txOk t'"
  using assms(1)
proof cases
  case (stepInsertReservation res r)
  with txOk_InsertReservation [OF assms(3)] show ?thesis by simp
next
  case (stepLockReservation tn rid r)
  with LockReservation_ok [OF assms(3,4,2)] show ?thesis by simp
next
  case (stepGetReservationByIdempotency tn key r)
  with GetReservationByIdempotency_ok [OF assms(2-4)] show ?thesis by simp
next
  case (stepLockBalance tn a c r)
  have "keepsTx (LockBalance C tn a c)"
    unfolding LockBalance_def by (intro keepsTx_bindE keepsTx_pure keepsTx_loadBalance)
  with assms(3) stepLockBalance show ?thesis by (auto elim: keepsTxD)
next
  case (stepEnsureBalanceRow tn a c r)
  have "keepsTx (EnsureBalanceRow C tn a c)"
    unfolding EnsureBalanceRow_def by (intro keepsTx_thenE keepsTx_pure keepsTx_loadBalance)
  with assms(3) stepEnsureBalanceRow show ?thesis by (auto elim: keepsTxD)
qed (simp_all only: dynamoTx_simps,
    auto intro: keepsTxD [OF _ assms(3)] readsOnly_reads [THEN readsOnly_keepsTx] keepsTx_inserts keepsTx_appends
      keepsTx_UpdateBalance keepsTx_UpdateReservationAmounts)

lemma dyRun_inv:
  assumes "dyRun C t t'" and "dy_B C = B" and "txOk t" and "wfTable (tableOf tab t)"
  shows "txOk t' \<and> wfTable (tableOf tab t') \<and> progress tab t t'"
  using assms(1)
proof (induction rule: rtranclp_induct)
  case base
  then show ?case using assms(3,4) by (simp add: progress_refl)
next
  case (step t1 t2)
  note p = dyStep_progress [OF step.hyps(2) assms(2)]
  from p step.IH have "wfTable (tableOf tab t2)" by (auto simp: progress_def elim: evolves_wf)
  with p step.IH dyStep_ok [OF step.hyps(2) assms(2)] show ?case by (blast intro: progress_trans)
qed

text \<open>When the commit succeeds, the row it replaces is the row that was read first.\<close>

lemma commit_read:
  assumes "wfTable (tableOf tab t0)" and "txOk t0" and "dy_B C = B" and "\<not> dt_done t0"
    and "dt_balances t0 (balancePK tn a c) = None" and "loadBalance C tn a c t0 = (Inr b, t1)"
    and "dyRun C t1 t" and "map_of (dt_puts t) (balancePK tn a c) = Some pp"
    and "Commit C t = (Inr (), t')"
  obtains T where "evolves (tableOf tab t0) T" and "allowed (transactItems t) T"
    and "tableOf tab t' = written (transactItems t) T"
    and "rowBalance (dy_D C) (balancePK tn a c) (T (balancePK tn a c)) =
      Inr (xb_debits b, xb_credits b, xb_readVersion b)"
proof -
  let ?key = "balancePK tn a c"
  obtain T0 where T0: "evolves (tableOf tab t0) T0" "evolves T0 (tableOf tab t1)"
    "rowBalance (dy_D C) ?key (T0 ?key) = Inr (xb_debits b, xb_credits b, xb_readVersion b)"
    by (rule loadBalance_read [OF assms(6,5,3)])
  note p = loadBalance_progress [OF assms(6,3)]
  have wf1: "wfTable (tableOf tab t1)" using p assms(1) by (auto simp: progress_def elim: evolves_wf)
  note l = loadBalance_Inr [OF assms(6,2)]
  from dyRun_inv [OF assms(7,3) l(2) wf1]
  have ok: "txOk t" and run: "progress tab t1 t" by blast+
  from run l(1) obtain b' where b': "dt_balances t ?key = Some b'" "sameRead b b'" unfolding progress_def by blast
  have open': "\<not> dt_done t" using run p assms(4) by (simp add: progress_def)
  from Commit_cases [OF ok assms(3,9) open'] assms(8) obtain T where
    T: "evolves (tableOf tab t) T" "allowed (transactItems t) T" "tableOf tab t' = written (transactItems t) T"
    by (auto simp: commitOutcome_def)
  have "evolves T0 T" using T0(2) run T(1) by (auto simp: progress_def elim: evolves_trans)
  have "(?key, pp) \<in> set (dt_puts t)" using assms(8) puts_member [OF ok] by simp
  then have "\<lparr>wr_Item = pp_item pp, wr_Cond = condOf pp\<rparr> \<in> set (transactItems t)"
    by (force simp: transactItems_puts [OF ok])
  with T(2) have holds: "holds (condOf pp) (T (itemPK (pp_item pp)))" by (auto simp: allowed_def)
  note put = txOkD [OF ok assms(8), unfolded putOk_def]
  have "T ?key = T0 ?key"
  proof (cases "xb_existed b")
    case True
    with put b' have "condOf pp = VersionIs (xb_readVersion b)" "itemPK (pp_item pp) = ?key"
      by (auto simp: condOf_def sameRead_def)
    with holds obtain y where y: "T ?key = Some y" "itemVersion y = Some (xb_readVersion b)"
      by (auto split: option.splits)
    show ?thesis
    proof (cases "T0 ?key")
      case None
      with T0(3) have "xb_readVersion b = 0" by (simp add: rowBalance_def)
      with evolves_new [OF \<open>evolves T0 T\<close> None y] show ?thesis by simp
    next
      case (Some x)
      with T0(3) have "itemVersion x = Some (xb_readVersion b)"
        by (auto simp: rowBalance_def balanceFromItem_def split: item.splits sum.splits)
      with evolves_same_version [OF \<open>evolves T0 T\<close> Some y(1) _ y(2)] y(1) Some show ?thesis by simp
    qed
  next
    case False
    with put b' have "condOf pp = AttributeNotExists" "itemPK (pp_item pp) = ?key"
      by (auto simp: condOf_def sameRead_def)
    with holds have "T ?key = None" by simp
    moreover from this have "T0 ?key = None"
      using evolves_keep [OF \<open>evolves T0 T\<close>, of ?key] by (cases "T0 ?key") auto
    ultimately show ?thesis by simp
  qed
  moreover have "evolves (tableOf tab t0) T" using T0(1) \<open>evolves T0 T\<close> by (rule evolves_trans)
  ultimately show thesis using that T T0(3) by simp
qed

end

section \<open>Flows: the overlay is what is buffered\<close>

definition flowsOk :: "'d dytx \<Rightarrow> bool" where
  "flowsOk t \<longleftrightarrow> (\<forall>pk fs. dt_flows t pk = Some fs \<longrightarrow> pkKind pk = ''FLOW'' \<and>
     (\<exists>pp. map_of (dt_puts t) pk = Some pp \<and> pp_item pp = FlowItem (flowToItem (fst_run fs) (fst_steps fs))))"

abbreviation keepsFlows :: "('d, 'a) dyexec \<Rightarrow> bool" where
  "keepsFlows \<equiv> stepsBy (\<lambda>t t'. flowsOk t \<longrightarrow> flowsOk t')"

lemma keepsFlows_order: "reflp (\<lambda>t t'. flowsOk t \<longrightarrow> flowsOk t')" "transp (\<lambda>t t'. flowsOk t \<longrightarrow> flowsOk t')"
  by (auto simp: reflp_def transp_def)

lemmas keepsFlows_pure = stepsBy_pure [OF keepsFlows_order(1)]
  and keepsFlows_bindE = stepsBy_bindE [OF keepsFlows_order(2)]
  and keepsFlows_thenE = stepsBy_thenE [OF keepsFlows_order(2)]

lemma flowsOk_newTx: "flowsOk (newTx s)"
  by (simp add: flowsOk_def newTx_def)

lemma flowsOk_putTx: "flowsOk t \<Longrightarrow> pkKind pk \<noteq> ''FLOW'' \<Longrightarrow> flowsOk (putTx pk it cond v t)"
  by (auto simp: flowsOk_def)

lemma keepsFlows_put: "pkKind pk \<noteq> ''FLOW'' \<Longrightarrow> keepsFlows (put pk it cond v)"
proof (intro stepsByI impI)
  fix t t' :: "'a dytx" and r assume "pkKind pk \<noteq> ''FLOW''" "put pk it cond v t = (r, t')" "flowsOk t"
  then show "flowsOk t'" by (cases r) (simp_all add: exec_simps flowsOk_putTx)
qed

lemma keepsFlows_overlay:
  "(\<And>t. dt_puts (f t) = dt_puts t \<and> dt_flows (f t) = dt_flows t) \<Longrightarrow> keepsFlows (modify f)"
  by (auto simp: stepsBy_def modify_def flowsOk_def)

lemma keepsFlows_inStore: "keepsFlows (inStore m)"
  by (auto simp: stepsBy_def inStore_run flowsOk_def)

lemma keepsFlows_putFlow: "pkKind pk = ''FLOW'' \<Longrightarrow> keepsFlows (putFlow pk fs)"
proof (intro stepsByI impI)
  fix t t' :: "'a dytx" and r assume a: "pkKind pk = ''FLOW''" "putFlow pk fs t = (r, t')" "flowsOk t"
  from a(2) have "t' = putTx pk (FlowItem (flowToItem (fst_run fs) (fst_steps fs))) condNotExists 0
      (t\<lparr>dt_flows := (dt_flows t)(pk \<mapsto> fs)\<rparr>)"
    by (cases r) (auto simp: putFlow_def exec_simps)
  moreover have "pp_item (pendingAt t1 pk it cond v) = it" for t1 :: "'a dytx" and it cond v
    by (simp add: pendingAt_def split: option.split)
  ultimately show "flowsOk t'" using a(1,3) by (simp add: flowsOk_def)
qed

lemma keepsFlows_loadBalance: "keepsFlows (loadBalance C tn a c)"
proof (intro stepsByI impI)
  fix t t' :: "'a dytx" and r assume "loadBalance C tn a c t = (r, t')" and "flowsOk t"
  from this(1) show "flowsOk t'"
    by (cases rule: loadBalance_cases) (use \<open>flowsOk t\<close> in \<open>simp_all add: flowsOk_def\<close>)
qed

lemma keepsFlows_setReservation: "keepsFlows (setReservation pk rs)"
  unfolding setReservation_def by (rule keepsFlows_overlay) simp

lemma keepsFlows_LockReservation: "keepsFlows (LockReservation C tn rid)"
  unfolding LockReservation_def Let_def
  by (intro stepsBy_getS stepsBy_cases keepsFlows_bindE keepsFlows_thenE keepsFlows_pure keepsFlows_inStore
      keepsFlows_setReservation)

lemma keepsFlows_methods:
  "keepsFlows (txGetAccount C tn a)" "keepsFlows (GetFlowByIdempotency C tn key)"
  "keepsFlows (GetFlowSteps C tn fid)" "keepsFlows (LockBalance C tn a c)" "keepsFlows (EnsureBalanceRow C tn a c)"
  "keepsFlows (UpdateBalance C tn a c d cr)" "keepsFlows (InsertAccount acc)" "keepsFlows (InsertFlowRun f)"
  "keepsFlows (CompleteFlowRun C tn fid)" "keepsFlows (InsertJournal C j)"
  "keepsFlows (InsertEntry C tn i jid a c dir amt)" "keepsFlows (InsertFlowStep fstep)" "keepsFlows (InsertOutbox ev)"
  "keepsFlows (InsertReservation C res)" "keepsFlows (GetReservationByIdempotency C tn key)"
  "keepsFlows (UpdateReservationAmounts C tn rid out com rel status)"
  unfolding txGetAccount_def GetFlowByIdempotency_def GetFlowSteps_def LockBalance_def EnsureBalanceRow_def
    UpdateBalance_def InsertAccount_def InsertFlowRun_def CompleteFlowRun_def InsertJournal_def InsertEntry_def
    InsertFlowStep_def InsertOutbox_def InsertReservation_def GetReservationByIdempotency_def
    UpdateReservationAmounts_def Let_def
  by (intro stepsBy_getS stepsBy_cases keepsFlows_bindE keepsFlows_thenE keepsFlows_pure keepsFlows_inStore
    keepsFlows_put keepsFlows_putFlow keepsFlows_overlay keepsFlows_loadBalance keepsFlows_LockReservation
    keepsFlows_setReservation; simp)+

lemma keepsFlowsD: "keepsFlows m \<Longrightarrow> flowsOk t \<Longrightarrow> m t = (r, t') \<Longrightarrow> flowsOk t'"
  by (simp add: stepsBy_def)

lemma dyStep_flows:
  assumes "dyStep C t t'" and "flowsOk t"
  shows "flowsOk t'"
  using assms(1)
  by cases (simp_all only: dynamoTx_simps,
    auto intro: keepsFlowsD [OF _ assms(2)] keepsFlows_methods keepsFlows_LockReservation)

lemma dyRun_flows: "dyRun C t t' \<Longrightarrow> flowsOk t \<Longrightarrow> flowsOk t'"
  by (induction rule: rtranclp_induct) (auto elim: dyStep_flows)

context dynamodb
begin

text \<open>What a successful commit leaves in the table.\<close>

lemma commit_writes:
  assumes "txOk t" and "dy_B C = B" and "\<not> dt_done t" and "Commit C t = (Inr (), t')"
    and "map_of (dt_puts t) pk = Some pp"
  shows "tableOf tab t' pk = Some (pp_item pp)"
proof -
  from Commit_cases [OF assms(1,2,4,3)] assms(5) obtain T where
    T: "tableOf tab t' = written (transactItems t) T" by (auto simp: commitOutcome_def)
  have "(pk, pp) \<in> set (dt_puts t)" using assms(5) puts_member [OF assms(1)] by simp
  then have mem: "\<lparr>wr_Item = pp_item pp, wr_Cond = condOf pp\<rparr> \<in> set (transactItems t)"
    by (force simp: transactItems_puts [OF assms(1)])
  have "itemPK (pp_item pp) = pk" using txOkD [OF assms(1,5)] by (simp add: putOk_def)
  with written_mem [OF _ mem, of T] txOk_guarded [OF assms(1)] show ?thesis by (simp add: T guarded_def)
qed

text \<open>A flow that was committed is never changed: every later read returns it as it was buffered.\<close>

lemma committed_flow:
  assumes "wfTable (tab (ds_db s))" and "dyRun C (newTx s) t" and "dy_B C = B" and "Commit C t = (Inr (), t')"
    and "dt_flows t (flowPK tn fid) = Some fs" and "evolves (tableOf tab t') (tab (ds_db s1))"
    and "GetFlow C tn fid s1 = (Inr f, s2)"
    and "flowFromItem (flowToItem (fst_run fs) (fst_steps fs)) = Inr (run, steps)"
  shows "f = Some (run\<lparr>fr_Steps := steps\<rparr>)"
proof -
  let ?pk = "flowPK tn fid" and ?it = "FlowItem (flowToItem (fst_run fs) (fst_steps fs))"
  from dyRun_inv [OF assms(2,3) txOk_newTx] assms(1) have ok: "txOk t" and p: "progress tab (newTx s) t"
    by (simp_all add: newTx_def)
  have "flowsOk t" by (rule dyRun_flows [OF assms(2) flowsOk_newTx])
  with assms(5) obtain pp where pp: "map_of (dt_puts t) ?pk = Some pp" "pp_item pp = ?it"
    by (auto simp: flowsOk_def)
  have "\<not> dt_done t" using p by (simp add: progress_def newTx_def)
  from commit_writes [OF ok assms(3) this assms(4) pp(1)] pp(2) have "tableOf tab t' ?pk = Some ?it" by simp
  then have now: "tab (ds_db s1) ?pk = Some ?it" by (rule evolves_fixed [OF assms(6)]) simp_all
  obtain x s' where g: "getItem C ?pk s1 = (Inr x, s')"
    and k: "(case x of None \<Rightarrow> ret None
       | Some (FlowItem it) \<Rightarrow> (case flowFromItem it of Inl e \<Rightarrow> throwE e
          | Inr (f, steps) \<Rightarrow> ret (Some (f\<lparr>fr_Steps := steps\<rparr>)))
       | Some other \<Rightarrow> throwE (unmarshalErr ?pk)) s' = (Inr f, s2)"
    using assms(7) by (auto simp: GetFlow_def exec_simps)
  from getItem_evolves [OF g assms(3)] have "x = tab (ds_db s') ?pk" "evolves (tab (ds_db s1)) (tab (ds_db s'))"
    by simp_all
  moreover have "tab (ds_db s') ?pk = Some ?it"
    by (rule evolves_fixed [where x = ?it, OF calculation(2) now]) simp_all
  ultimately have "x = Some ?it" by simp
  with k assms(8) show ?thesis by (simp add: exec_simps)
qed

end

end
