(* ===== verification/Dynamo_Properties.thy ===== *)
theory Dynamo_Properties
  imports Dynamo_Steps Demo_Decimal
begin

text \<open>
  The properties of the DynamoDB backend, for every service with the contract \<open>dynamodb\<close>, and
  the runs on \<open>memDdb\<close> that show that their hypotheses can hold.
\<close>

section \<open>A small table\<close>

definition demoDy :: "memory dyconf" where
  "demoDy = \<lparr>dy_B = memDdb, dy_clock = (\<lambda>n. int (Suc n) * second), dy_D = demoD\<rparr>"

lemma demoDy_B [simp]: "dy_B demoDy = memDdb" "dy_D demoDy = demoD"
  by (simp_all add: demoDy_def)

definition demoMemory :: "item list \<Rightarrow> memory dstore" where
  "demoMemory xs = \<lparr>ds_db = \<lparr>mem_items = map (\<lambda>x. (itemPK x, x)) xs, mem_faults = [], mem_others = []\<rparr>,
     ds_ticks = 0\<rparr>"

definition demoBalance :: balanceItem where
  "demoBalance = \<lparr>bi_PK = balancePK ''t'' ''a'' ''U'', bi_TenantID = ''t'', bi_AccountID = ''a'',
     bi_Currency = ''U'', bi_PostedDebits = ''5'', bi_PostedCredits = ''2'', bi_Version = 3, bi_UpdatedAt = ''''\<rparr>"

definition demoStore :: "memory dstore" where
  "demoStore = demoMemory [BalanceItem demoBalance]"

lemma demoStore_wf: "wfTable (memTab (ds_db demoStore))"
  by (simp add: wfTable_def demoStore_def demoMemory_def)

text \<open>The transaction that reads the balance, and writes it with five more.\<close>

definition demoT1 :: "memory dytx" where
  "demoT1 = snd (LockBalance demoDy ''t'' ''a'' ''U'' (newTx demoStore))"

definition demoT2 :: "memory dytx" where
  "demoT2 = snd (UpdateBalance demoDy ''t'' ''a'' ''U'' 10 2 demoT1)"

lemma demoT1_run: "LockBalance demoDy ''t'' ''a'' ''U'' (newTx demoStore) = (Inr (5, 2, 3), demoT1)"
proof -
  have "fst (LockBalance demoDy ''t'' ''a'' ''U'' (newTx demoStore)) = Inr (5, 2, 3)" by code_simp
  then show ?thesis by (simp add: demoT1_def prod_eq_iff)
qed

lemma demoT2_run: "UpdateBalance demoDy ''t'' ''a'' ''U'' 10 2 demoT1 = (Inr (), demoT2)"
proof -
  have "fst (UpdateBalance demoDy ''t'' ''a'' ''U'' 10 2 demoT1) = Inr ()" by code_simp
  then show ?thesis by (simp add: demoT2_def prod_eq_iff)
qed

lemma demoT2_step: "dyRun demoDy demoT1 demoT2"
  using stepUpdateBalance [of demoDy "''t''" "''a''" "''U''" 10 2 demoT1] demoT2_run by auto


lemma demoCommit_run: "\<exists>t'. Commit demoDy demoT2 = (Inr (), t')"
proof -
  have "fst (Commit demoDy demoT2) = Inr ()" by code_simp
  then show ?thesis by (metis prod.collapse)
qed

section \<open>What a transaction writes\<close>





section \<open>Flows are read back\<close>

text \<open>C36: a flow that was committed is read back as it was written, with all its steps in their
  order, by every later read that succeeds, whatever other clients have committed since.\<close>

theorem dynamo_flow_readback:
  assumes "dynamodb (dy_B C) tab" and "wfTable (tab (ds_db s))" and "dyRun C (newTx s) t"
    and "Commit C t = (Inr (), t')" and "dt_flows t (flowPK tn fid) = Some fs"
    and "goodTime (fr_CreatedAt (fst_run fs))" and "goodTimePtr (fr_CompletedAt (fst_run fs))"
    and "goodTimePtr (fr_FailedAt (fst_run fs))" and "\<forall>x\<in>set (fst_steps fs). goodTime (fs_CreatedAt x)"
    and "evolves (tab (ds_db (dt_store t'))) (tab (ds_db s1))" and "GetFlow C tn fid s1 = (Inr f, s2)"
  shows "f = Some ((fst_run fs)\<lparr>fr_Steps := fst_steps fs\<rparr>)"
  using dynamodb.committed_flow [OF assms(1,2,3) refl assms(4,5,10,11) flow_roundtrip [OF assms(6-9)]] by simp

definition demoRun :: FlowRun where
  "demoRun = \<lparr>fr_ID = ''f'', fr_TenantID = ''t'', fr_FlowType = ''X'', fr_IdempotencyKey = ''k'',
     fr_SourceService = '''', fr_ActorID = '''', fr_Status = FlowRunning, fr_Metadata = [],
     fr_CreatedAt = second, fr_CompletedAt = None, fr_FailedAt = None, fr_Steps = []\<rparr>"

definition demoStep :: FlowStep where
  "demoStep = \<lparr>fs_ID = ''i'', fs_TenantID = ''t'', fs_FlowRunID = ''f'', fs_StepID = ''s'',
     fs_Status = StepCompleted, fs_JournalID = ''j'', fs_ErrorCode = '''', fs_CreatedAt = second\<rparr>"

definition demoF1 :: "memory dytx" where
  "demoF1 = snd (InsertFlowRun demoRun (newTx demoStore))"

definition demoF2 :: "memory dytx" where
  "demoF2 = snd (InsertFlowStep demoStep demoF1)"

definition demoF3 :: "memory dytx" where
  "demoF3 = snd (Commit demoDy demoF2)"

lemma demoF_runs:
  "InsertFlowRun demoRun (newTx demoStore) = (Inr (), demoF1)"
  "InsertFlowStep demoStep demoF1 = (Inr (), demoF2)"
  "Commit demoDy demoF2 = (Inr (), demoF3)"
proof -
  have "fst (InsertFlowRun demoRun (newTx demoStore)) = Inr ()" by code_simp
  then show "InsertFlowRun demoRun (newTx demoStore) = (Inr (), demoF1)" by (simp add: demoF1_def prod_eq_iff)
  have "fst (InsertFlowStep demoStep demoF1) = Inr ()" by code_simp
  then show "InsertFlowStep demoStep demoF1 = (Inr (), demoF2)" by (simp add: demoF2_def prod_eq_iff)
  have "fst (Commit demoDy demoF2) = Inr ()" by code_simp
  then show "Commit demoDy demoF2 = (Inr (), demoF3)" by (simp add: demoF3_def prod_eq_iff)
qed

lemma demoF_steps: "dyRun demoDy (newTx demoStore) demoF2"
  using stepInsertFlowRun [of demoDy demoRun "newTx demoStore" "Inr ()" demoF1]
    stepInsertFlowStep [of demoDy demoStep demoF1 "Inr ()" demoF2] demoF_runs(1,2) by auto

theorem dynamo_flow_readback_witness:
  "\<exists>f s2. GetFlow demoDy ''t'' ''f'' (dt_store demoF3) = (Inr f, s2) \<and>
     f = Some (demoRun\<lparr>fr_Steps := [demoStep]\<rparr>)"
proof -
  have found: "isl (fst (GetFlow demoDy ''t'' ''f'' (dt_store demoF3))) = False" by code_simp
  obtain f s2 where run: "GetFlow demoDy ''t'' ''f'' (dt_store demoF3) = (Inr f, s2)"
    using found by (cases "GetFlow demoDy ''t'' ''f'' (dt_store demoF3)"; cases "fst (GetFlow demoDy ''t'' ''f'' (dt_store demoF3))") auto
  let ?fs = "\<lparr>fst_run = demoRun, fst_steps = [demoStep]\<rparr>"
  have over: "dt_flows demoF2 (flowPK ''t'' ''f'') = Some ?fs" by code_simp
  have times: "goodTime (fr_CreatedAt demoRun)" "goodTimePtr (fr_CompletedAt demoRun)"
    "goodTimePtr (fr_FailedAt demoRun)" "goodTime (fs_CreatedAt demoStep)" by code_simp+
  have "f = Some ((fst_run ?fs)\<lparr>fr_Steps := fst_steps ?fs\<rparr>)"
    by (rule dynamo_flow_readback [of demoDy memTab demoStore demoF2 demoF3 "''t''" "''f''" ?fs "dt_store demoF3" f s2])
      (use mem.dynamodb_axioms demoStore_wf demoF_steps demoF_runs(3) over times run evolves_refl in simp_all)
  with run show ?thesis by auto
qed

section \<open>Expiry\<close>

lemma less_same_prefix: "p @ xs < p @ ys \<longleftrightarrow> xs < (ys :: string)"
  by (induction p) simp_all

text \<open>A whole second is written without a fraction, and \<open>Z\<close> comes after the dot.\<close>

lemma whole_second_last:
  assumes "second dvd t" and "t < u" and "u < t + second"
  shows "formatRFC3339 u @ x < formatRFC3339 t"
proof -
  from assms(1) obtain q where t: "t = second * q" by (elim dvdE)
  define ns where "ns = u - t"
  have ns: "0 < ns" "ns < second" "u = second * q + ns" using assms(2,3) by (simp_all add: ns_def t)
  have u: "u div second = q" "u mod second = ns"
    by (rule int_div_pos_eq [of _ _ _ ns] int_mod_pos_eq [of _ _ q]; use ns in simp)+
  have t': "t div second = q" "t mod second = 0" by (simp_all add: t)
  obtain y m d where c: "civil (q div 86400) = (y, m, d)" by (cases "civil (q div 86400)")
  let ?p = "appendInt y 4 @ ''-'' @ appendInt m 2 @ ''-'' @ appendInt d 2 @ ''T'' @
      appendInt (q mod 86400 div 3600) 2 @ '':'' @ appendInt (q mod 86400 mod 3600 div 60) 2 @ '':'' @
      appendInt (q mod 86400 mod 60) 2"
  have "formatRFC3339 u = ?p @ fraction ns @ ''Z''" "formatRFC3339 t = ?p @ fraction 0 @ ''Z''"
    unfolding formatRFC3339_def Let_def u t' c prod.case append_assoc by (rule refl)+
  moreover have "?p @ fraction ns @ rest < ?p @ fraction 0 @ ''Z''" for rest
    unfolding less_same_prefix using ns(1) by (simp add: fraction_def)
  ultimately show ?thesis by simp
qed

text \<open>C37: the expiry index is ordered by the text of the expiry time, and the text drops the
  trailing zeros of the fraction, so it is not ordered by time: at a whole second, a held
  reservation that expires later in that second is already listed as expired (and
  \<open>ExpireReservation\<close> releases it without looking at the time again).\<close>

theorem dynamo_expires_early:
  assumes "second dvd now" and "0 < now" and "now < u" and "u < now + second"
    and "res_ExpiresAt r = Some u" and "res_Status r = ReservationHeld" and "1 \<le> limit" and "limit < 2 ^ 31"
    and "dy_B C = memDdb"
  shows "fst (ListExpiredReservations C now limit (demoMemory [ReservationItem (reservationToItem (dy_D C) r v)])) =
    Inr [\<lparr>xr_ID = res_ID r, xr_TenantID = res_TenantID r\<rparr>]"
proof -
  let ?it = "reservationToItem (dy_D C) r v"
  have key: "ri_GSI1PK ?it = gsiReservationExpiry"
    "ri_GSI1SK ?it = formatRFC3339 u @ ''#'' @ res_TenantID r @ ''#'' @ res_ID r"
    "ri_ReservationID ?it = res_ID r" "ri_TenantID ?it = res_TenantID r"
    using assms(2,3,5,6)
    by (simp_all add: reservationToItem_def reservationActive_def fmtTimePtr_def Let_def split: prod.split)
  have now: "fmtTime now = formatRFC3339 now" using assms(2) by (simp add: fmtTime_def)
  have "ri_GSI1SK ?it < formatRFC3339 now"
    unfolding key(2) by (rule whole_second_last [OF assms(1,3,4)])
  moreover have "sint (word_of_int limit :: i32) = limit"
    unfolding sint_sbintrunc' by (rule signed_take_bit_int_eq_self) (use assms(7,8) in simp_all)
  ultimately show ?thesis
    using assms(7,9) key
    by (simp add: ListExpiredReservations_def demoMemory_def Let_def bindE_def mapErr_def inDB_def memDdb_def
        memRequest_def memTurn_def matches_def now liftE_def)
qed

definition demoHold :: Reservation where
  "demoHold = \<lparr>res_ID = ''r'', res_TenantID = ''t'', res_IdempotencyKey = ''k'', res_SourceAccountID = ''u:o:M:U'',
     res_ReservedAccountID = ''u:o:R:U'', res_Currency = ''U'', res_OriginalAmount = 5,
     res_OutstandingAmount = 5, res_CommittedAmount = 0, res_ReleasedAmount = 0,
     res_Status = ReservationHeld, res_ExpiresAt = Some (5 * second + 999), res_FlowRunID = '''',
     res_Metadata = [], res_CreatedAt = second, res_UpdatedAt = second\<rparr>"

theorem dynamo_expires_early_witness:
  "fst (ListExpiredReservations demoDy (5 * second) 10 (demoMemory [ReservationItem (reservationToItem demoD demoHold 1)])) =
     Inr [\<lparr>xr_ID = ''r'', xr_TenantID = ''t''\<rparr>]"
proof -
  have "res_ExpiresAt demoHold = Some (5 * second + 999)" "res_Status demoHold = ReservationHeld"
    "res_ID demoHold = ''r''" "res_TenantID demoHold = ''t''" by (simp_all add: demoHold_def)
  then show ?thesis
    using dynamo_expires_early [of "5 * second" "5 * second + 999" demoHold 10 demoDy 1] by simp
qed

section \<open>Events\<close>

text \<open>C38: the event id of a journal is unique among the journals committed by different
  transactions only. Two journals of one transaction with the same event id share one
  uniqueness marker in the write buffer, so both are committed, and the marker names the
  second (on SQLite the second insert fails).\<close>

theorem dynamo_event_repeated:
  assumes "dynamodb (dy_B C) tab" and "wfTable (tab (ds_db s))" and "jrn_EventID j' = jrn_EventID j"
    and "journalPK (jrn_TenantID j') (jrn_ID j') \<noteq> journalPK (jrn_TenantID j) (jrn_ID j)"
    and "InsertJournal C j (newTx s) = (r, t)" and "InsertJournal C j' t = (r', t')"
    and "Commit C t' = (Inr (), t2)"
  shows "r = Inr () \<and> r' = Inr () \<and>
    tab (ds_db (dt_store t2)) (journalPK (jrn_TenantID j) (jrn_ID j)) =
      Some (JournalItem (journalToItem (dy_D C) (j\<lparr>jrn_Entries := []\<rparr>))) \<and>
    tab (ds_db (dt_store t2)) (journalPK (jrn_TenantID j') (jrn_ID j')) =
      Some (JournalItem (journalToItem (dy_D C) (j'\<lparr>jrn_Entries := []\<rparr>))) \<and>
    tab (ds_db (dt_store t2)) (eventUniqPK (jrn_EventID j)) =
      Some (Marker (eventUniqPK (jrn_EventID j)) ''journal_id'' (jrn_ID j'))"
proof -
  have run: "dyRun C (newTx s) t'"
    using stepInsertJournal [of C j "newTx s"] stepInsertJournal [of C j' t] assms(5,6) by fastforce
  from dynamodb.dyRun_inv [OF assms(1) run refl txOk_newTx] assms(2)
  have ok: "txOk t'" "\<not> dt_done t'" by (simp_all add: newTx_def progress_def)
  note wr = dynamodb.commit_writes [OF assms(1) ok(1) refl ok(2) assms(7)]
  have kinds: "journalPK x y \<noteq> eventUniqPK z" "eventUniqPK z \<noteq> journalPK x y" for x y z
    by (simp_all add: pk_defs)
  from assms(5,6) have res: "r = Inr ()" "r' = Inr ()"
    by (cases r; cases r'; simp add: InsertJournal_def Let_def exec_simps)+
  note eqs = assms(5,6) [unfolded res InsertJournal_def Let_def]
  have "\<exists>c v. map_of (dt_puts t') (journalPK (jrn_TenantID j) (jrn_ID j)) =
      Some \<lparr>pp_item = JournalItem (journalToItem (dy_D C) (j\<lparr>jrn_Entries := []\<rparr>)), pp_cond = c, pp_version = v\<rparr>"
    "\<exists>c v. map_of (dt_puts t') (journalPK (jrn_TenantID j') (jrn_ID j')) =
      Some \<lparr>pp_item = JournalItem (journalToItem (dy_D C) (j'\<lparr>jrn_Entries := []\<rparr>)), pp_cond = c, pp_version = v\<rparr>"
    "\<exists>c v. map_of (dt_puts t') (eventUniqPK (jrn_EventID j)) =
      Some \<lparr>pp_item = Marker (eventUniqPK (jrn_EventID j)) ''journal_id'' (jrn_ID j'), pp_cond = c, pp_version = v\<rparr>"
    using eqs assms(3,4) kinds by (auto simp: exec_simps pendingAt_def newTx_def)
  with wr res show ?thesis by fastforce
qed

definition demoJournal :: "string \<Rightarrow> Journal" where
  "demoJournal i = \<lparr>jrn_ID = i, jrn_TenantID = ''t'', jrn_FlowRunID = ''f'', jrn_EventID = ''e'',
     jrn_SourceService = '''', jrn_SourceType = '''', jrn_ActorID = '''', jrn_Metadata = [],
     jrn_Entries = [], jrn_CreatedAt = second\<rparr>"

definition demoJ1 :: "memory dytx" where
  "demoJ1 = snd (InsertJournal demoDy (demoJournal ''1'') (newTx demoStore))"

definition demoJ2 :: "memory dytx" where
  "demoJ2 = snd (InsertJournal demoDy (demoJournal ''2'') demoJ1)"

theorem dynamo_event_repeated_witness:
  "\<exists>t2. Commit demoDy demoJ2 = (Inr (), t2) \<and>
     memTab (ds_db (dt_store t2)) (eventUniqPK ''e'') = Some (Marker (eventUniqPK ''e'') ''journal_id'' ''2'')"
proof -
  have ran: "fst (Commit demoDy demoJ2) = Inr ()" by code_simp
  obtain t2 where run: "Commit demoDy demoJ2 = (Inr (), t2)" using ran by (metis prod.collapse)
  have "journalPK ''t'' ''2'' \<noteq> journalPK ''t'' ''1''" by (simp add: journalPK_def)
  with dynamo_event_repeated [of demoDy memTab demoStore "demoJournal ''2''" "demoJournal ''1''" _ demoJ1 _ demoJ2 t2]
    mem.dynamodb_axioms demoStore_wf run show ?thesis
    by (auto simp: demoJournal_def demoJ1_def demoJ2_def prod_eq_iff)
qed

section \<open>Tenants\<close>



section \<open>Concurrent updates\<close>

text \<open>C40: no update of a balance is lost. When a transaction read a balance and later committed
  a new value of it, then the row its commit replaced is, at the moment of the commit, still
  the row it read, with the amounts and the version that \<open>LockBalance\<close> had returned, whatever
  other clients committed in between; and the row it leaves has the next version.\<close>

theorem dynamo_no_lost_update:
  assumes "dynamodb (dy_B C) tab" and "wfTable (tab (ds_db s))" and "dyRun C (newTx s) t0"
    and "dt_balances t0 (balancePK tn a c) = None" and "LockBalance C tn a c t0 = (Inr (d, cr, ver), t1)"
    and "dyRun C t1 t" and "map_of (dt_puts t) (balancePK tn a c) = Some pp" and "Commit C t = (Inr (), t')"
  shows "\<exists>T it. evolves (tab (ds_db (dt_store t0))) T \<and> allowed (transactItems t) T \<and>
    rowBalance (dy_D C) (balancePK tn a c) (T (balancePK tn a c)) = Inr (d, cr, ver) \<and>
    tab (ds_db (dt_store t')) = written (transactItems t) T \<and>
    tab (ds_db (dt_store t')) (balancePK tn a c) = Some (BalanceItem it) \<and> bi_Version it = ver + 1"
proof -
  let ?key = "balancePK tn a c"
  from dynamodb.dyRun_inv [OF assms(1,3) refl txOk_newTx] assms(2)
  have t0: "txOk t0" "wfTable (tab (ds_db (dt_store t0)))" "\<not> dt_done t0" by (simp_all add: newTx_def progress_def)
  from assms(5) obtain b where l: "loadBalance C tn a c t0 = (Inr b, t1)"
    and b: "d = xb_debits b" "cr = xb_credits b" "ver = xb_readVersion b"
    by (auto simp: LockBalance_def exec_simps)
  from dynamodb.commit_read [OF assms(1) t0(2,1) refl t0(3) assms(4) l assms(6-8)] b obtain T where
    T: "evolves (tab (ds_db (dt_store t0))) T" "allowed (transactItems t) T"
      "tab (ds_db (dt_store t')) = written (transactItems t) T"
      "rowBalance (dy_D C) ?key (T ?key) = Inr (d, cr, ver)" by metis
  note p = dynamodb.loadBalance_progress [OF assms(1) l refl]
  have "wfTable (tab (ds_db (dt_store t1)))" using p t0(2) by (auto simp: progress_def elim: evolves_wf)
  from dynamodb.dyRun_inv [OF assms(1,6) refl loadBalance_Inr(2) [OF l t0(1)] this]
  have t: "txOk t" "\<not> dt_done t" "\<exists>b'. dt_balances t ?key = Some b' \<and> sameRead b b'"
    using p t0(3) loadBalance_Inr(1) [OF l t0(1)] unfolding progress_def by blast+
  have "\<exists>it. pp_item pp = BalanceItem it \<and> bi_Version it = ver + 1"
    using txOkD [OF t(1) assms(7)] t(3) b(3) by (auto simp: putOk_def sameRead_def)
  with dynamodb.commit_writes [OF assms(1) t(1) refl t(2) assms(8,7)] T show ?thesis by auto
qed

theorem dynamo_no_lost_update_witness:
  "\<exists>T it t'. Commit demoDy demoT2 = (Inr (), t') \<and>
     rowBalance demoD (balancePK ''t'' ''a'' ''U'') (T (balancePK ''t'' ''a'' ''U'')) = Inr (5, 2, 3) \<and>
     memTab (ds_db (dt_store t')) (balancePK ''t'' ''a'' ''U'') = Some (BalanceItem it) \<and> bi_Version it = 4"
proof -
  let ?key = "balancePK ''t'' ''a'' ''U''"
  obtain t' where run: "Commit demoDy demoT2 = (Inr (), t')" using demoCommit_run by blast
  have "map_of (dt_puts demoT2) ?key \<noteq> None" by code_simp
  then obtain pp where pp: "map_of (dt_puts demoT2) ?key = Some pp" by blast
  have "dt_balances (newTx demoStore) ?key = None" by (simp add: newTx_def)
  with dynamo_no_lost_update [of demoDy memTab demoStore "newTx demoStore" "''t''" "''a''" "''U''" 5 2 3 demoT1
      demoT2 pp t', OF _ demoStore_wf _ _ demoT1_run demoT2_step pp run] mem.dynamodb_axioms run
  show ?thesis by auto
qed

end
