(* ===== verification/Agree.thy ===== *)
theory Agree
  imports System
begin

text \<open>
  Two backends that behave alike on certain amounts.

  \<^item> \<open>agree I Q m m'\<close>: from every state that satisfies \<open>I\<close>, \<open>m\<close> and \<open>m'\<close> give the same result and
    the same state, which satisfies \<open>I\<close> again; a result that is no error satisfies \<open>Q\<close>. There is a
    rule for each construct the service is built from.
  \<^item> The locales \<open>tx_agree\<close> and \<open>store_agree\<close> ask this of every method of a transaction and a
    store, on amounts that satisfy \<open>ok\<close>. It follows for every request and every job whose amounts
    are \<open>ok\<close> (\<open>gridAction\<close>), and for every run of the system made of them.
\<close>

section \<open>Agreement up to a condition\<close>

definition agree :: "('s \<Rightarrow> bool) \<Rightarrow> ('a \<Rightarrow> bool) \<Rightarrow> ('s, 'e, 'a) exec \<Rightarrow> ('s, 'e, 'a) exec \<Rightarrow> bool" where
  "agree I Q m m' \<longleftrightarrow> (\<forall>s r s'. I s \<longrightarrow> m s = (r, s') \<longrightarrow>
     m' s = (r, s') \<and> I s' \<and> (\<forall>a. r = Inr a \<longrightarrow> Q a))"

abbreviation same :: "('s \<Rightarrow> bool) \<Rightarrow> ('s, 'e, 'a) exec \<Rightarrow> ('s, 'e, 'a) exec \<Rightarrow> bool" where
  "same I \<equiv> agree I (\<lambda>_. True)"

abbreviation onSt :: "('x \<Rightarrow> bool) \<Rightarrow> 'x world \<Rightarrow> bool" where
  "onSt I w \<equiv> I (w_st w)"

named_theorems same_intros \<open>computations on which two backends agree\<close>

lemma agreeI:
  "(\<And>s r s'. I s \<Longrightarrow> m s = (r, s') \<Longrightarrow> m' s = (r, s') \<and> I s' \<and> (\<forall>a. r = Inr a \<longrightarrow> Q a)) \<Longrightarrow>
     agree I Q m m'"
  by (simp add: agree_def)

lemma agreeD:
  "agree I Q m m' \<Longrightarrow> I s \<Longrightarrow> m s = (r, s') \<Longrightarrow>
     m' s = (r, s') \<and> I s' \<and> (\<forall>a. r = Inr a \<longrightarrow> Q a)"
  by (simp add: agree_def)

lemma agree_weaken: "agree I Q m m' \<Longrightarrow> (\<And>a. Q a \<Longrightarrow> R a) \<Longrightarrow> agree I R m m'"
  by (fastforce simp: agree_def)

lemma agree_same: "agree I Q m m' \<Longrightarrow> same I m m'"
  by (erule agree_weaken) simp

lemma agree_ret: "Q a \<Longrightarrow> agree I Q (ret a) (ret a)"
  by (simp add: agree_def ret_def)

lemma same_ret [same_intros]: "same I (ret a) (ret a)"
  by (simp add: agree_ret)

lemma agree_throwE [same_intros]: "agree I Q (throwE e) (throwE e)"
  by (simp add: agree_def throwE_def)

lemma agree_liftE: "(\<And>a. x = Inr a \<Longrightarrow> Q a) \<Longrightarrow> agree I Q (liftE x) (liftE x)"
  by (simp add: agree_def liftE_def)

lemma agree_clock [same_intros]:
  "same (onSt I) (NewID E) (NewID E)"
  "same (onSt I) (Now E) (Now E)"
  by (auto simp: agree_def NewID_def Now_def)

lemma agree_inSt: "agree I Q m m' \<Longrightarrow> agree (onSt I) Q (inSt m) (inSt m')"
  by (fastforce simp: agree_def inSt_def split: prod.splits)

lemmas same_inSt [same_intros] = agree_inSt [where Q = "\<lambda>_. True"]

lemma agree_bindE:
  assumes "agree I Q m m'" and "\<And>a. Q a \<Longrightarrow> agree I R (f a) (f' a)"
  shows "agree I R (bindE m f) (bindE m' f')"
proof (rule agreeI)
  fix s r s' assume "I s" and run: "bindE m f s = (r, s')"
  obtain r1 s1 where m: "m s = (r1, s1)" by (cases "m s")
  note 1 = agreeD [OF assms(1) \<open>I s\<close> m]
  show "bindE m' f' s = (r, s') \<and> I s' \<and> (\<forall>a. r = Inr a \<longrightarrow> R a)"
  proof (cases r1)
    case (Inl e)
    with run m 1 show ?thesis by (auto simp: bindE_def)
  next
    case (Inr a)
    with run m have "f a s1 = (r, s')" by (simp add: bindE_def)
    moreover from 1 Inr have "Q a" "I s1" "m' s = (Inr a, s1)" by simp_all
    ultimately show ?thesis using agreeD [OF assms(2)] by (auto simp: bindE_def)
  qed
qed

lemma same_bindE [same_intros]:
  "same I m m' \<Longrightarrow> (\<And>a. same I (f a) (f' a)) \<Longrightarrow> same I (bindE m f) (bindE m' f')"
  by (rule agree_bindE)

lemma agree_thenE: "same I m m' \<Longrightarrow> agree I R n n' \<Longrightarrow> agree I R (thenE m n) (thenE m' n')"
  unfolding thenE_def by (rule agree_bindE)

lemmas same_thenE [same_intros] = agree_thenE [where R = "\<lambda>_. True"]

lemma agree_mapErr: "agree I Q m m' \<Longrightarrow> agree I Q (mapErr f m) (mapErr f m')"
  by (fastforce simp: agree_def mapErr_def split: prod.splits sum.splits)

lemmas same_mapErr [same_intros] = agree_mapErr [where Q = "\<lambda>_. True"]

lemma same_catchE [same_intros]: "same I m m' \<Longrightarrow> same I (catchE m) (catchE m')"
  by (fastforce simp: agree_def catchE_def split: prod.splits sum.splits)

lemma agree_catchE:
  "agree I Q m m' \<Longrightarrow> agree I (\<lambda>x. \<forall>a. x = Some a \<longrightarrow> Q a) (catchE m) (catchE m')"
  by (fastforce simp: agree_def catchE_def split: prod.splits sum.splits)

lemma agree_forE:
  assumes "\<And>x acc. x \<in> set xs \<Longrightarrow> P acc \<Longrightarrow> agree I P (f x acc) (f' x acc)" and "P acc"
  shows "agree I P (forE f xs acc) (forE f' xs acc)"
  using assms
proof (induction xs arbitrary: acc)
  case Nil
  then show ?case by (simp add: agree_ret)
next
  case (Cons x xs)
  have "agree I P (forE f xs a) (forE f' xs a)" if "P a" for a
    using that Cons.prems(1) by (intro Cons.IH) auto
  with Cons.prems show ?case by (auto intro: agree_bindE)
qed

lemma same_forE [same_intros]:
  "(\<And>x acc. x \<in> set xs \<Longrightarrow> same I (f x acc) (f' x acc)) \<Longrightarrow> same I (forE f xs acc) (forE f' xs acc)"
  by (rule agree_forE) simp_all

lemma same_case_prod [same_intros]:
  "(\<And>a b. same I (f a b) (f' a b)) \<Longrightarrow>
     same I (case p of (a, b) \<Rightarrow> f a b) (case p of (a, b) \<Rightarrow> f' a b)"
  by (cases p) simp

lemma agree_if:
  "(c \<Longrightarrow> agree I Q m m') \<Longrightarrow> (\<not> c \<Longrightarrow> agree I Q n n') \<Longrightarrow>
     agree I Q (if c then m else n) (if c then m' else n')"
  by simp

lemmas same_if [same_intros] = agree_if [where Q = "\<lambda>_. True"]

lemma same_case_option [same_intros]:
  "same I m m' \<Longrightarrow> (\<And>a. x = Some a \<Longrightarrow> same I (f a) (f' a)) \<Longrightarrow>
     same I (case x of None \<Rightarrow> m | Some a \<Rightarrow> f a) (case x of None \<Rightarrow> m' | Some a \<Rightarrow> f' a)"
  by (cases x) simp_all

lemma same_case_sum [same_intros]:
  "(\<And>e. x = Inl e \<Longrightarrow> same I (f e) (f' e)) \<Longrightarrow> (\<And>a. x = Inr a \<Longrightarrow> same I (g a) (g' a)) \<Longrightarrow>
     same I (case x of Inl e \<Rightarrow> f e | Inr a \<Rightarrow> g a) (case x of Inl e \<Rightarrow> f' e | Inr a \<Rightarrow> g' a)"
  by (cases x) simp_all

section \<open>Transactions\<close>

text \<open>The amounts of a request: \<open>okAmount\<close> of a text, \<open>okSteps\<close> of the entries of a flow.\<close>

definition okAmount :: "(decimal \<Rightarrow> bool) \<Rightarrow> decimal_lib \<Rightarrow> string \<Rightarrow> bool" where
  "okAmount ok D s = (case ParseAmount D s of Inl e \<Rightarrow> True | Inr x \<Rightarrow> ok x)"

lemma okAmountD: "okAmount ok D s \<Longrightarrow> ParseAmount D s = Inr x \<Longrightarrow> ok x"
  by (simp add: okAmount_def)

lemma okAmount_String: "codec_ok D \<Longrightarrow> ok x \<Longrightarrow> okAmount ok D (dl_String D x)"
  by (auto simp: okAmount_def ParseAmount_Inr split: sum.splits)

definition okSteps :: "(decimal \<Rightarrow> bool) \<Rightarrow> decimal_lib \<Rightarrow> StepMsg list \<Rightarrow> bool" where
  "okSteps ok D ms = list_all (\<lambda>s. list_all (\<lambda>e. okAmount ok D (em_Amount e))
     (GetEntries (sm_Journal s))) ms"

lemma entriesFromProto_ok:
  "list_all (\<lambda>e. okAmount ok D (em_Amount e)) es \<Longrightarrow> entriesFromProto D es = Inr xs \<Longrightarrow>
     list_all (\<lambda>e. ok (ent_Amount e)) xs"
  by (induction es arbitrary: xs) (auto simp: okAmount_def split: sum.splits)

lemma stepsFromProto_ok:
  "okSteps ok D ms \<Longrightarrow> stepsFromProto D ms = Inr steps \<Longrightarrow>
     list_all (\<lambda>st. list_all (\<lambda>e. ok (ent_Amount e)) (jrn_Entries (si_Journal st))) steps"
  by (induction ms arbitrary: steps)
    (auto simp: okSteps_def newJournal_def entriesFromProto_ok split: sum.splits)

lemma okSteps_transferFlow [simp]:
  "okSteps ok D (efr_Steps (transferFlow tn ft key svc actor sid ev da ca ccy s)) \<longleftrightarrow> okAmount ok D s"
  by (simp add: okSteps_def transferFlow_def GetEntries_def)

definition okState :: "(decimal \<Rightarrow> bool) \<Rightarrow> flow_state \<Rightarrow> bool" where
  "okState ok st \<longleftrightarrow> (\<forall>k b. st k = Some b \<longrightarrow> ok (bst_postedDebits b) \<and> ok (bst_postedCredits b))"

lemma okState_empty: "okState ok Map.empty"
  by (simp add: okState_def)

lemma okState_upd:
  "okState ok st \<Longrightarrow> ok (bst_postedDebits b) \<Longrightarrow> ok (bst_postedCredits b) \<Longrightarrow> okState ok (st(k \<mapsto> b))"
  by (simp add: okState_def)

lemma okStateD: "okState ok st \<Longrightarrow> st k = Some b \<Longrightarrow> ok (bst_postedDebits b) \<and> ok (bst_postedCredits b)"
  unfolding okState_def by blast

definition okReservation :: "(decimal \<Rightarrow> bool) \<Rightarrow> Reservation \<Rightarrow> bool" where
  "okReservation ok r \<longleftrightarrow> ok (res_OutstandingAmount r) \<and> ok (res_CommittedAmount r) \<and>
     ok (res_ReleasedAmount r)"

locale tx_agree =
  fixes T T' :: "'t tx_ops"
    and I :: "'t \<Rightarrow> bool"
    and ok :: "decimal \<Rightarrow> bool"
  assumes ok_zero: "ok 0"
    and ok_add: "ok x \<Longrightarrow> ok y \<Longrightarrow> ok (x + y)"
    and ok_diff: "ok x \<Longrightarrow> ok y \<Longrightarrow> ok (x - y)"
    and GetFlowByIdempotency: "same I (tx_GetFlowByIdempotency T tn key) (tx_GetFlowByIdempotency T' tn key)"
    and GetAccount: "same I (tx_GetAccount T tn a) (tx_GetAccount T' tn a)"
    and LockBalance: "agree I (\<lambda>(d, c, v). ok d \<and> ok c) (tx_LockBalance T tn a ccy) (tx_LockBalance T' tn a ccy)"
    and UpdateBalance: "ok d \<Longrightarrow> ok c \<Longrightarrow>
      same I (tx_UpdateBalance T tn a ccy d c) (tx_UpdateBalance T' tn a ccy d c)"
    and InsertAccount: "same I (tx_InsertAccount T acc) (tx_InsertAccount T' acc)"
    and InsertFlowRun: "same I (tx_InsertFlowRun T fr) (tx_InsertFlowRun T' fr)"
    and CompleteFlowRun: "same I (tx_CompleteFlowRun T tn fid) (tx_CompleteFlowRun T' tn fid)"
    and InsertJournal: "same I (tx_InsertJournal T j) (tx_InsertJournal T' j)"
    and InsertEntry: "ok amt \<Longrightarrow>
      same I (tx_InsertEntry T tn eid jid a ccy dir amt) (tx_InsertEntry T' tn eid jid a ccy dir amt)"
    and InsertFlowStep: "same I (tx_InsertFlowStep T fs) (tx_InsertFlowStep T' fs)"
    and InsertOutbox: "same I (tx_InsertOutbox T ev) (tx_InsertOutbox T' ev)"
    and GetFlowSteps: "same I (tx_GetFlowSteps T tn fid) (tx_GetFlowSteps T' tn fid)"
    and InsertReservation: "ok (res_OriginalAmount rv) \<Longrightarrow> okReservation ok rv \<Longrightarrow>
      same I (tx_InsertReservation T rv) (tx_InsertReservation T' rv)"
    and LockReservation: "agree I (okReservation ok) (tx_LockReservation T tn rid) (tx_LockReservation T' tn rid)"
    and GetReservationByIdempotency: "same I (tx_GetReservationByIdempotency T tn key) (tx_GetReservationByIdempotency T' tn key)"
    and UpdateReservationAmounts: "ok p \<Longrightarrow> ok q \<Longrightarrow> ok r \<Longrightarrow>
      same I (tx_UpdateReservationAmounts T tn rid p q r st) (tx_UpdateReservationAmounts T' tn rid p q r st)"
    and GetReconBatchByIdempotency: "same I (tx_GetReconBatchByIdempotency T tn key) (tx_GetReconBatchByIdempotency T' tn key)"
    and InsertReconBatch: "same I (tx_InsertReconBatch T b) (tx_InsertReconBatch T' b)"
    and CompleteReconBatch: "same I (tx_CompleteReconBatch T b) (tx_CompleteReconBatch T' b)"
    and ListExternalRecordsForRecon: "same I (tx_ListExternalRecordsForRecon T tn src ws we) (tx_ListExternalRecordsForRecon T' tn src ws we)"
    and ListJournalsForRecon: "same I (tx_ListJournalsForRecon T tn src ws we) (tx_ListJournalsForRecon T' tn src ws we)"
    and UpdateExternalRecordMatch: "same I (tx_UpdateExternalRecordMatch T tn xid ms jid) (tx_UpdateExternalRecordMatch T' tn xid ms jid)"
    and SumJournalEntries: "same I (tx_SumJournalEntries T tn jid a ccy) (tx_SumJournalEntries T' tn jid a ccy)"
    and InsertDiscrepancy: "same I (tx_InsertDiscrepancy T di) (tx_InsertDiscrepancy T' di)"
    and LockDiscrepancy: "same I (tx_LockDiscrepancy T tn did) (tx_LockDiscrepancy T' tn did)"
    and ResolveDiscrepancyRow: "same I (tx_ResolveDiscrepancyRow T di) (tx_ResolveDiscrepancyRow T' di)"

context tx_agree
begin

abbreviation wI :: "'t world \<Rightarrow> bool" where
  "wI w \<equiv> I (w_st w)"

lemmas tx_same [same_intros] =
  same_inSt [OF GetFlowByIdempotency] same_inSt [OF GetAccount] same_inSt [OF InsertAccount]
  same_inSt [OF InsertFlowRun] same_inSt [OF CompleteFlowRun] same_inSt [OF InsertJournal]
  same_inSt [OF InsertFlowStep] same_inSt [OF InsertOutbox] same_inSt [OF GetFlowSteps]
  same_inSt [OF GetReservationByIdempotency] same_inSt [OF GetReconBatchByIdempotency]
  same_inSt [OF InsertReconBatch] same_inSt [OF CompleteReconBatch]
  same_inSt [OF ListExternalRecordsForRecon] same_inSt [OF ListJournalsForRecon]
  same_inSt [OF UpdateExternalRecordMatch] same_inSt [OF SumJournalEntries]
  same_inSt [OF InsertDiscrepancy] same_inSt [OF LockDiscrepancy]
  same_inSt [OF ResolveDiscrepancyRow] agree_clock [of I]

lemma lockKey_agree:
  assumes "okState ok st"
  shows "agree wI (okState ok) (lockKey T tn k st) (lockKey T' tn k st)"
  unfolding lockKey_def
  using assms
  by (auto intro!: agree_bindE [OF agree_inSt [OF GetAccount]] agree_if agree_throwE
    agree_bindE [OF agree_inSt [OF LockBalance]] agree_ret okState_upd)

lemma applyEntry_agree:
  assumes "okState ok st" and "ok (ent_Amount e)"
  shows "agree wI (okState ok) (applyEntry E T tn jid e st) (applyEntry E T' tn jid e st)"
  unfolding applyEntry_def Let_def
  using assms okStateD [OF assms(1)]
  by (auto intro!: agree_bindE [OF agree_clock(1)] agree_thenE same_inSt InsertEntry agree_throwE
    agree_ret okState_upd ok_add split: option.splits)

lemma applyStep_agree:
  assumes "okState ok (fst acc)" and "list_all (\<lambda>e. ok (ent_Amount e)) (jrn_Entries (si_Journal st))"
  shows "agree wI (\<lambda>acc. okState ok (fst acc)) (applyStep E T r fid mm st acc)
    (applyStep E T' r fid mm st acc)"
proof -
  have es: "agree wI (okState ok)
      (forE (applyEntry E T tn jid) (jrn_Entries (si_Journal st)) (fst acc))
      (forE (applyEntry E T' tn jid) (jrn_Entries (si_Journal st)) (fst acc))" for tn jid
    using assms by (intro agree_forE applyEntry_agree) (auto simp: list_all_iff)
  show ?thesis
    unfolding applyStep_def Let_def
    by (cases "Journal_Validate (si_Journal st)")
      (simp add: agree_throwE, simp,
       (intro agree_bindE [OF agree_clock(1)] agree_bindE [OF agree_clock(2)] agree_thenE
         tx_same agree_bindE [OF es] agree_ret, simp_all)+)
qed

lemma persistKey_agree:
  assumes "okState ok st"
  shows "same wI (persistKey E T tn st k u) (persistKey E T' tn st k u)"
  unfolding persistKey_def
  by (cases "st k") (auto intro!: same_intros UpdateBalance dest: okStateD [OF assms])

lemma startFlow_agree:
  assumes "list_all (\<lambda>st. list_all (\<lambda>e. ok (ent_Amount e)) (jrn_Entries (si_Journal st))) steps"
  shows "same wI (startFlow E T r steps) (startFlow E T' r steps)"
proof -
  have lock: "agree wI (okState ok) (forE (lockKey T tn) ks Map.empty) (forE (lockKey T' tn) ks Map.empty)"
    for tn ks
    by (intro agree_forE lockKey_agree okState_empty)
  have step: "agree wI (\<lambda>acc. okState ok (fst acc)) (forE (applyStep E T r fid mm) steps (st, []))
      (forE (applyStep E T' r fid mm) steps (st, []))" if "okState ok st" for fid mm st
    using that assms by (intro agree_forE applyStep_agree) (auto simp: list_all_iff)
  show ?thesis
    unfolding startFlow_def Let_def
    by (intro agree_bindE [OF agree_clock(1)] agree_bindE [OF agree_clock(2)] same_thenE tx_same
        agree_bindE [OF lock] agree_bindE [OF step])
      (auto intro!: same_intros persistKey_agree)
qed

lemma executeFlowInTx_agree [same_intros]:
  assumes "okSteps ok (env_D E) (efr_Steps r)"
  shows "same wI (executeFlowInTx E T r) (executeFlowInTx E T' r)"
proof -
  have "same wI (startFlow E T r steps) (startFlow E T' r steps)"
    if "stepsFromProto (env_D E) (efr_Steps r) = Inr steps" for steps
    using stepsFromProto_ok [OF assms that] by (rule startFlow_agree)
  then show ?thesis
    unfolding executeFlowInTx_def replayFlow_def
    by (intro agree_bindE [OF agree_liftE, where Q = "\<lambda>steps. stepsFromProto (env_D E) (efr_Steps r) = Inr steps"]
        same_intros) auto
qed

lemma insertEvent_agree [same_intros]:
  "same wI (insertEvent E T tn agg ty key pl) (insertEvent E T' tn agg ty key pl)"
  unfolding insertEvent_def by (intro same_intros)

section \<open>Reservations, exchanges and reconciliation\<close>

lemma createReservationInTx_agree [same_intros]:
  assumes "okAmount ok (env_D E) (crr_Amount r)" and "ok amount"
  shows "same wI (createReservationInTx E T r amount) (createReservationInTx E T' r amount)"
  unfolding createReservationInTx_def Let_def
  using assms
  by (intro same_intros InsertReservation)
    (auto simp: createFlow_def newReservation_def okReservation_def ok_zero)

lemma lockOpen_agree:
  "agree wI (okReservation ok) (lockOpen E T tn rid amount) (lockOpen E T' tn rid amount)"
  unfolding lockOpen_def
  by (auto intro!: agree_bindE [OF agree_inSt [OF LockReservation]] agree_if agree_throwE agree_ret)

lemma saveReservation_agree:
  "okReservation ok res \<Longrightarrow> same wI (saveReservation T tn res) (saveReservation T' tn res)"
  unfolding saveReservation_def
  by (intro same_inSt UpdateReservationAmounts) (simp_all add: okReservation_def)

lemma commitReservationInTx_agree [same_intros]:
  assumes "codec_ok (env_D E)" and "ok amount"
  shows "same wI (commitReservationInTx E T r amount) (commitReservationInTx E T' r amount)"
  unfolding commitReservationInTx_def Let_def
  using assms
  by (intro agree_bindE [OF lockOpen_agree] same_intros saveReservation_agree)
    (auto simp: commitFlow_def commitAmounts_def okReservation_def okAmount_String ok_add ok_diff Let_def)

lemma releaseReservationInTx_agree [same_intros]:
  assumes "codec_ok (env_D E)" and "ok amount"
  shows "same wI (releaseReservationInTx E T r amount) (releaseReservationInTx E T' r amount)"
  unfolding releaseReservationInTx_def Let_def
  using assms
  by (intro agree_bindE [OF lockOpen_agree] same_intros saveReservation_agree)
    (auto simp: releaseFlow_def releaseAmounts_def okReservation_def okAmount_String ok_add ok_diff Let_def)

lemma expireReservationInTx_agree [same_intros]:
  assumes "codec_ok (env_D E)"
  shows "same wI (expireReservationInTx E T tn rid) (expireReservationInTx E T' tn rid)"
  unfolding expireReservationInTx_def Let_def
  using assms
  by (intro agree_bindE [OF agree_inSt [OF LockReservation]] same_intros saveReservation_agree)
    (auto simp: expireFlow_def expireAmounts_def okReservation_def okAmount_String ok_zero ok_add ok_diff Let_def)

lemma exchangeInTx_agree [same_intros]:
  assumes "okAmount ok (env_D E) (exr_FromAmount r)" and "okAmount ok (env_D E) (exr_ToAmount r)"
  shows "same wI (exchangeInTx E T r fa ta fc tc rate src) (exchangeInTx E T' r fa ta fc tc rate src)"
  unfolding exchangeInTx_def Let_def
  using assms by (intro same_intros) (simp add: exchangeFlow_def okSteps_def GetEntries_def Let_def)

lemma matcherRun_agree [same_intros]:
  "same wI (matcherRun T tn src ws we) (matcherRun T' tn src ws we)"
  unfolding matcherRun_def matchRecord_def amountMismatch_def by (intro same_intros)

lemma runReconInTx_agree [same_intros]:
  "same wI (runReconInTx E T r ws we) (runReconInTx E T' r ws we)"
  unfolding runReconInTx_def openDiscrepancy_def Let_def by (intro same_intros)

lemma resolveInTx_agree [same_intros]:
  assumes "\<And>adj. rdr_Adjustment r = Some adj \<Longrightarrow> okSteps ok (env_D E) (efr_Steps adj)"
  shows "same wI (resolveInTx E T r) (resolveInTx E T' r)"
  unfolding resolveInTx_def Let_def
  using assms by (intro same_intros) (simp add: adjustmentFlow_def)

end

section \<open>Stores\<close>

text \<open>\<open>J\<close> is a condition on the store, \<open>I\<close> one on its transactions.\<close>

definition okSnapshotOf :: "(decimal \<Rightarrow> bool) \<Rightarrow> TenantBalanceRow \<Rightarrow> bool" where
  "okSnapshotOf ok b \<longleftrightarrow> ok (tb_PostedDebits b) \<and> ok (tb_PostedCredits b)"

locale store_agree =
  fixes S S' :: "('s, 't) store_ops"
    and J :: "'s \<Rightarrow> bool"
    and I :: "'t \<Rightarrow> bool"
    and ok :: "decimal \<Rightarrow> bool"
  assumes tx: "tx_agree (st_Tx S) (st_Tx S') I ok"
    and Begin: "agree J I (st_BeginFlowTx S) (st_BeginFlowTx S')"
    and Commit: "I t \<Longrightarrow> same J (st_Commit S t) (st_Commit S' t)"
    and Rollback: "J s \<Longrightarrow> J (st_Rollback S t s) \<and> st_Rollback S' t s = st_Rollback S t s"
    and GetAccount: "same J (st_GetAccount S tn a) (st_GetAccount S' tn a)"
    and GetBalance: "agree J (\<lambda>(d, c, v). ok d \<and> ok c) (st_GetBalance S tn a ccy) (st_GetBalance S' tn a ccy)"
    and GetFlow: "same J (st_GetFlow S tn a) (st_GetFlow S' tn a)"
    and ListAccountActivity: "same J (st_ListAccountActivity S lai) (st_ListAccountActivity S' lai)"
    and PendingOutbox: "same J (st_PendingOutbox S n) (st_PendingOutbox S' n)"
    and MarkOutboxPublished: "same J (st_MarkOutboxPublished S a) (st_MarkOutboxPublished S' a)"
    and IncrementOutboxAttempts: "same J (st_IncrementOutboxAttempts S a) (st_IncrementOutboxAttempts S' a)"
    and InsertSnapshot: "ok (bs_PostedDebits bs) \<Longrightarrow> ok (bs_PostedCredits bs) \<Longrightarrow>
      same J (st_InsertSnapshot S bs) (st_InsertSnapshot S' bs)"
    and GetSnapshotBefore: "same J (st_GetSnapshotBefore S tn a ccy at1) (st_GetSnapshotBefore S' tn a ccy at1)"
    and SumEntriesBetween: "same J (st_SumEntriesBetween S tn a ccy at1 at2) (st_SumEntriesBetween S' tn a ccy at1 at2)"
    and ListTenantBalances: "agree J (list_all (okSnapshotOf ok)) (st_ListTenantBalances S tn) (st_ListTenantBalances S' tn)"
    and ListTenantsDueForSnapshot: "same J (st_ListTenantsDueForSnapshot S at1 n) (st_ListTenantsDueForSnapshot S' at1 n)"
    and PruneSnapshotsOlderThan: "same J (st_PruneSnapshotsOlderThan S at1 n) (st_PruneSnapshotsOlderThan S' at1 n)"
    and UpsertFXRate: "ok (fx_Rate fx) \<Longrightarrow> same J (st_UpsertFXRate S fx) (st_UpsertFXRate S' fx)"
    and GetFXRateAt: "same J (st_GetFXRateAt S tn a ccy at1) (st_GetFXRateAt S' tn a ccy at1)"
    and ListFXRates: "same J (st_ListFXRates S lfx) (st_ListFXRates S' lfx)"
    and GetReservation: "same J (st_GetReservation S tn a) (st_GetReservation S' tn a)"
    and ListExpiredReservations: "same J (st_ListExpiredReservations S at1 n) (st_ListExpiredReservations S' at1 n)"
    and ListReservations: "same J (st_ListReservations S lri) (st_ListReservations S' lri)"
    and InsertExternalRecord: "ok (er_Amount er) \<Longrightarrow> same J (st_InsertExternalRecord S er) (st_InsertExternalRecord S' er)"
    and GetReconBatch: "same J (st_GetReconBatch S tn a) (st_GetReconBatch S' tn a)"
    and ListDiscrepancies: "same J (st_ListDiscrepancies S ldi) (st_ListDiscrepancies S' ldi)"

sublocale store_agree \<subseteq> tx: tx_agree "st_Tx S" "st_Tx S'" I ok
  by (rule tx)

text \<open>The requests whose amounts are \<open>ok\<close>. A background job brings no amounts of its own.\<close>

fun okRpc :: "(decimal \<Rightarrow> bool) \<Rightarrow> decimal_lib \<Rightarrow> rpc \<Rightarrow> bool" where
  "okRpc ok D (RPostJournal r) = okSteps ok D (efr_Steps (postJournalFlow r))"
| "okRpc ok D (RExecuteFlow r) = okSteps ok D (efr_Steps r)"
| "okRpc ok D (RCreateReservation r) = okAmount ok D (crr_Amount r)"
| "okRpc ok D (RCommitReservation r) = okAmount ok D (cmr_Amount r)"
| "okRpc ok D (RReleaseReservation r) = okAmount ok D (rlr_Amount r)"
| "okRpc ok D (RExecuteExchange r) =
     (okAmount ok D (exr_FromAmount r) \<and> okAmount ok D (exr_ToAmount r))"
| "okRpc ok D (RPutFXRate r) = okAmount ok D (pfr_Rate r)"
| "okRpc ok D (RIngestExternalRecords r) = list_all (\<lambda>x. okAmount ok D (eri_Amount x)) (ier_Records r)"
| "okRpc ok D (RResolveDiscrepancy r) =
     (case rdr_Adjustment r of None \<Rightarrow> True | Some adj \<Rightarrow> okSteps ok D (efr_Steps adj))"
| "okRpc ok D r = True"

fun okAction :: "(decimal \<Rightarrow> bool) \<Rightarrow> decimal_lib \<Rightarrow> action \<Rightarrow> bool" where
  "okAction ok D (Request r) = okRpc ok D r"
| "okAction ok D a = True"

context store_agree
begin

abbreviation wJ :: "'s world \<Rightarrow> bool" where
  "wJ w \<equiv> J (w_st w)"

lemmas store_same [same_intros] =
  same_inSt [OF GetAccount] same_inSt [OF GetFlow] same_inSt [OF ListAccountActivity]
  same_inSt [OF GetSnapshotBefore] same_inSt [OF SumEntriesBetween]
  same_inSt [OF ListTenantsDueForSnapshot] same_inSt [OF PruneSnapshotsOlderThan]
  same_inSt [OF UpsertFXRate] same_inSt [OF GetFXRateAt] same_inSt [OF ListFXRates]
  same_inSt [OF GetReservation] same_inSt [OF ListExpiredReservations]
  same_inSt [OF ListReservations] same_inSt [OF InsertExternalRecord]
  same_inSt [OF GetReconBatch] same_inSt [OF ListDiscrepancies] same_inSt [OF InsertSnapshot]
  same_inSt [OF agree_same [OF GetBalance]] agree_clock [of J]

lemma runTx_agree [same_intros]:
  assumes "same (onSt I) body body'"
  shows "same wJ (runTx S body) (runTx S' body')"
proof (rule agreeI)
  fix w r w' assume w: "wJ w" and run: "runTx S body w = (r, w')"
  obtain rb s1 where b: "st_BeginFlowTx S (w_st w) = (rb, s1)" by (cases "st_BeginFlowTx S (w_st w)")
  note 1 = agreeD [OF Begin w b]
  show "runTx S' body' w = (r, w') \<and> wJ w' \<and> (\<forall>a. r = Inr a \<longrightarrow> True)"
  proof (cases rb)
    case (Inl e)
    with run b 1 show ?thesis by (auto simp: runTx_def)
  next
    case (Inr t)
    let ?w = "\<lparr>w_st = t, w_ids = w_ids w, w_ticks = w_ticks w\<rparr>"
    obtain rx wt where x: "body ?w = (rx, wt)" by (cases "body ?w")
    from 1 Inr have "I (w_st ?w)" by simp
    note 2 = agreeD [OF assms this x]
    show ?thesis
    proof (cases rx)
      case (Inl e)
      with run b 1 x 2 \<open>rb = Inr t\<close> Rollback [of s1 "w_st wt"] show ?thesis
        by (auto simp: runTx_def)
    next
      case (Inr a)
      obtain rc s2 where c: "st_Commit S (w_st wt) s1 = (rc, s2)" by (cases "st_Commit S (w_st wt) s1")
      have "I (w_st wt)" "J s1" using 1 2 by simp_all
      note 3 = agreeD [OF Commit [OF this(1)] this(2) c]
      with run b 1 x 2 c \<open>rb = Inr t\<close> Inr Rollback [of s2 "w_st wt"] show ?thesis
        by (cases rc) (auto simp: runTx_def)
    qed
  qed
qed

lemma runInTx_agree [same_intros]:
  assumes "same (onSt I) body body'"
  shows "same wJ (runInTx S body) (runInTx S' body')"
proof (rule agreeI)
  fix w r w' assume w: "wJ w" and run: "runInTx S body w = (r, w')"
  obtain rb s1 where b: "st_BeginFlowTx S (w_st w) = (rb, s1)" by (cases "st_BeginFlowTx S (w_st w)")
  note 1 = agreeD [OF Begin w b]
  show "runInTx S' body' w = (r, w') \<and> wJ w' \<and> (\<forall>a. r = Inr a \<longrightarrow> True)"
  proof (cases rb)
    case (Inl e)
    with run b 1 show ?thesis by (auto simp: runInTx_def)
  next
    case (Inr t)
    let ?w = "\<lparr>w_st = t, w_ids = w_ids w, w_ticks = w_ticks w\<rparr>"
    obtain rx wt where x: "body ?w = (rx, wt)" by (cases "body ?w")
    from 1 Inr have "I (w_st ?w)" by simp
    note 2 = agreeD [OF assms this x]
    show ?thesis
    proof (cases rx)
      case (Inl e)
      with run b 1 x 2 \<open>rb = Inr t\<close> Rollback [of s1 "w_st wt"] show ?thesis
        by (auto simp: runInTx_def)
    next
      case (Inr a)
      obtain rc s2 where c: "st_Commit S (w_st wt) s1 = (rc, s2)" by (cases "st_Commit S (w_st wt) s1")
      have "I (w_st wt)" "J s1" using 1 2 by simp_all
      note 3 = agreeD [OF Commit [OF this(1)] this(2) c]
      with run b 1 x 2 c \<open>rb = Inr t\<close> Inr show ?thesis by (auto simp: runInTx_def)
    qed
  qed
qed

section \<open>Handlers and jobs\<close>

lemma call_agree [same_intros]: "same wJ m m' \<Longrightarrow> same wJ (call m) (call m')"
  unfolding call_def by (intro same_intros)

lemma flow_handlers_agree [same_intros]:
  "okSteps ok (env_D E) (efr_Steps r) \<Longrightarrow> same wJ (ExecuteFlow E S r) (ExecuteFlow E S' r)"
  "okSteps ok (env_D E) (efr_Steps (postJournalFlow p)) \<Longrightarrow>
     same wJ (PostJournal E S p) (PostJournal E S' p)"
  "same wJ (Flow.GetFlow S tn fid) (Flow.GetFlow S' tn fid)"
  "same wJ (CreateAccount E S c) (CreateAccount E S' c)"
  "same wJ (Accounts.GetAccount S tn a) (Accounts.GetAccount S' tn a)"
  unfolding ExecuteFlow_def PostJournal_def Flow.GetFlow_def CreateAccount_def
    Accounts.GetAccount_def Let_def
  by (intro same_intros tx.tx_same tx.executeFlowInTx_agree; assumption)+

lemma reservation_handlers_agree [same_intros]:
  "okAmount ok (env_D E) (crr_Amount c) \<Longrightarrow> same wJ (CreateReservation E S c) (CreateReservation E S' c)"
  "codec_ok (env_D E) \<Longrightarrow> okAmount ok (env_D E) (cmr_Amount m) \<Longrightarrow>
     same wJ (CommitReservation E S m) (CommitReservation E S' m)"
  "codec_ok (env_D E) \<Longrightarrow> okAmount ok (env_D E) (rlr_Amount r) \<Longrightarrow>
     same wJ (ReleaseReservation E S r) (ReleaseReservation E S' r)"
  "codec_ok (env_D E) \<Longrightarrow> same wJ (ExpireReservation E S tn rid) (ExpireReservation E S' tn rid)"
  "same wJ (Reservations.GetReservation E S tn rid) (Reservations.GetReservation E S' tn rid)"
  "same wJ (Reservations.ListReservations E S l) (Reservations.ListReservations E S' l)"
  unfolding CreateReservation_def CommitReservation_def ReleaseReservation_def
    ExpireReservation_def Reservations.GetReservation_def Reservations.ListReservations_def
  by (intro same_intros tx.createReservationInTx_agree tx.commitReservationInTx_agree
    tx.releaseReservationInTx_agree tx.expireReservationInTx_agree; simp add: okAmount_def)+

lemma exchange_handlers_agree [same_intros]:
  "okAmount ok (env_D E) (pfr_Rate p) \<Longrightarrow> same wJ (PutFXRate E S p) (PutFXRate E S' p)"
  "same wJ (GetFXRate E S g) (GetFXRate E S' g)"
  "same wJ (Exchange.ListFXRates E S l) (Exchange.ListFXRates E S' l)"
  "okAmount ok (env_D E) (exr_FromAmount x) \<Longrightarrow> okAmount ok (env_D E) (exr_ToAmount x) \<Longrightarrow>
     same wJ (ExecuteExchange E S x) (ExecuteExchange E S' x)"
  unfolding PutFXRate_def GetFXRate_def Exchange.ListFXRates_def ExecuteExchange_def resolveRate_def
  by (intro same_intros tx.exchangeInTx_agree; simp add: okAmount_def)+

lemma balance_handlers_agree [same_intros]:
  "same wJ (Snapshots.GetBalance E S g) (Snapshots.GetBalance E S' g)"
  "same wJ (Snapshots.ListAccountActivity E S l) (Snapshots.ListAccountActivity E S' l)"
  unfolding Snapshots.GetBalance_def balanceAsOf_def Snapshots.ListAccountActivity_def Let_def
  by (intro same_intros)+

lemma insertSnapshot_agree:
  "okSnapshotOf ok b \<Longrightarrow> same wJ (insertSnapshot E S tn now b n) (insertSnapshot E S' tn now b n)"
  unfolding insertSnapshot_def by (intro same_intros) (simp_all add: okSnapshotOf_def)

lemma TakeBalanceSnapshot_agree [same_intros]:
  "same wJ (TakeBalanceSnapshot E S r) (TakeBalanceSnapshot E S' r)"
  unfolding TakeBalanceSnapshot_def Let_def
  by (intro same_if agree_throwE agree_bindE [OF agree_clock(2)]
      agree_bindE [OF agree_mapErr [OF agree_inSt [OF GetBalance]]]
      agree_bindE [OF agree_mapErr [OF agree_inSt [OF ListTenantBalances]]])
    (auto simp: okSnapshotOf_def list_all_iff intro!: same_forE insertSnapshot_agree)

lemma recon_handlers_agree [same_intros]:
  "list_all (\<lambda>x. okAmount ok (env_D E) (eri_Amount x)) (ier_Records i) \<Longrightarrow>
     same wJ (IngestExternalRecords E S i) (IngestExternalRecords E S' i)"
  "same wJ (RunReconciliation E S r) (RunReconciliation E S' r)"
  "same wJ (GetReconciliationBatch S tn bid) (GetReconciliationBatch S' tn bid)"
  "same wJ (Reconcile.ListDiscrepancies S l) (Reconcile.ListDiscrepancies S' l)"
  "(\<And>adj. rdr_Adjustment d = Some adj \<Longrightarrow> okSteps ok (env_D E) (efr_Steps adj)) \<Longrightarrow>
     same wJ (ResolveDiscrepancy E S d) (ResolveDiscrepancy E S' d)"
  unfolding IngestExternalRecords_def ingestRecord_def RunReconciliation_def
    GetReconciliationBatch_def Reconcile.ListDiscrepancies_def ResolveDiscrepancy_def Let_def
  by (intro same_intros tx.runReconInTx_agree tx.resolveInTx_agree;
    auto simp: list_all_iff okAmount_def)+

lemma serve_agree:
  "codec_ok (env_D E) \<Longrightarrow> okRpc ok (env_D E) r \<Longrightarrow>
     same wJ (serve (embeddedClient E S) r) (serve (embeddedClient E S') r)"
  by (cases r) (auto simp: embeddedClient_def intro!: same_intros)

lemma tickOf_agree:
  "codec_ok (env_D E) \<Longrightarrow> same wJ (tickOf E S cfg p) (tickOf E S' cfg p)"
  by (cases p; cases "fst p")
    (auto simp: tickOf_def snapshotTick_def expiryTick_def expireOne_def retentionTick_def
      intro!: same_intros)

text \<open>The dispatcher works on the store and the sink together.\<close>

lemma dispatchOne_agree:
  assumes "J s" and "dispatchOne (RepoAdapter S) P e (s, k) = (s', k')"
  shows "dispatchOne (RepoAdapter S') P e (s, k) = (s', k') \<and> J s'"
proof -
  obtain r1 k1 where p: "P e k = (r1, k1)" by (cases "P e k")
  obtain r2 s2 where i: "st_IncrementOutboxAttempts S (ev_ID e) s = (r2, s2)"
    by (cases "st_IncrementOutboxAttempts S (ev_ID e) s")
  obtain r3 s3 where m: "st_MarkOutboxPublished S (ev_ID e) s = (r3, s3)"
    by (cases "st_MarkOutboxPublished S (ev_ID e) s")
  show ?thesis
    using assms p i m agreeD [OF IncrementOutboxAttempts assms(1) i]
      agreeD [OF MarkOutboxPublished assms(1) m]
    by (cases r1) (simp_all add: dispatchOne_def RepoAdapter_def)
qed

lemma dispatchBatch_agree:
  "J s \<Longrightarrow> fold (dispatchOne (RepoAdapter S) P) es (s, k) = (s', k') \<Longrightarrow>
     fold (dispatchOne (RepoAdapter S') P) es (s, k) = (s', k') \<and> J s'"
proof (induction es arbitrary: s k)
  case (Cons e es)
  obtain s1 k1 where 1: "dispatchOne (RepoAdapter S) P e (s, k) = (s1, k1)"
    by (cases "dispatchOne (RepoAdapter S) P e (s, k)")
  note d = dispatchOne_agree [OF Cons.prems(1) 1]
  from Cons.prems(2) 1 have "fold (dispatchOne (RepoAdapter S) P) es (s1, k1) = (s', k')" by simp
  from Cons.IH [OF conjunct2 [OF d] this] d show ?case by simp
qed simp

lemma tick_agree:
  assumes "J s" and "tick (RepoAdapter S) P cfg (s, k) = (s', k')"
  shows "tick (RepoAdapter S') P cfg (s, k) = (s', k') \<and> J s'"
proof -
  obtain r s1 where p: "st_PendingOutbox S (cfg_BatchSize cfg) s = (r, s1)"
    by (cases "st_PendingOutbox S (cfg_BatchSize cfg) s")
  note 1 = agreeD [OF PendingOutbox assms(1) p]
  show ?thesis
  proof (cases r)
    case (Inl e)
    with p assms(2) 1 show ?thesis by (simp add: tick_def RepoAdapter_def bindE_def)
  next
    case (Inr rows)
    with p assms(2) have "fold (dispatchOne (RepoAdapter S) P) (map toEvent rows) (s1, k) = (s', k')"
      by (simp add: tick_def RepoAdapter_def bindE_def ret_def)
    with dispatchBatch_agree [of s1] 1 Inr show ?thesis
      by (simp add: tick_def RepoAdapter_def bindE_def ret_def)
  qed
qed

section \<open>Runs\<close>

lemma act_agree:
  assumes "codec_ok (env_D (dp_env X))" and "dp_store X = S"
    and "okAction ok (env_D (dp_env X)) a" and "J (w_st w)" and "act X a (w, k) = (w', k')"
  shows "act (X\<lparr>dp_store := S'\<rparr>) a (w, k) = (w', k') \<and> J (w_st w')"
proof (cases a)
  case (Request r)
  with assms have "serve (embeddedClient (dp_env X) S) r w =
      (fst (serve (embeddedClient (dp_env X) S) r w), w')" and "k' = k" by auto
  from agreeD [OF serve_agree assms(4) this(1)] this(2) assms(1,3) Request show ?thesis by simp
next
  case (Fire t now)
  with assms have "tickOf (dp_env X) S (dp_scheduler X) (t, now) w =
      (fst (tickOf (dp_env X) S (dp_scheduler X) (t, now) w), w')" and "k' = k" by auto
  from agreeD [OF tickOf_agree [OF assms(1)] assms(4) this(1)] this(2) Fire show ?thesis by simp
next
  case Dispatch
  with assms(2,5) obtain s' where
    t: "tick (RepoAdapter S) (dp_sink X) (dp_dispatcher X) (w_st w, k) = (s', k')"
      "w' = w\<lparr>w_st := s'\<rparr>"
    by (auto split: prod.splits)
  from tick_agree [OF assms(4) t(1)] t(2) Dispatch show ?thesis by simp
qed

lemma run_agree:
  assumes "codec_ok (env_D (dp_env X))" and "dp_store X = S"
  shows "list_all (okAction ok (env_D (dp_env X))) actions \<Longrightarrow> J (w_st w) \<Longrightarrow>
    fold (act X) actions (w, k) = (w', k') \<Longrightarrow>
    fold (act (X\<lparr>dp_store := S'\<rparr>)) actions (w, k) = (w', k') \<and> J (w_st w')"
proof (induction actions arbitrary: w k)
  case (Cons a actions)
  obtain w1 k1 where a: "act X a (w, k) = (w1, k1)" by (cases "act X a (w, k)")
  from Cons.prems(1) have "okAction ok (env_D (dp_env X)) a" by simp
  note 1 = act_agree [OF assms this Cons.prems(2) a]
  from Cons.IH [OF _ conjunct2 [OF 1]] Cons.prems a 1 show ?case by simp
qed simp

end

lemma reach_run: "reach X start x \<Longrightarrow> reach X start (fold (act X) actions x)"
proof (induction actions arbitrary: x)
  case (Cons a actions)
  from Cons.IH [OF reach_act [OF Cons.prems]] show ?case by simp
qed simp

end
