(* ===== verification/Crdb_Rows.thy ===== *)
theory Crdb_Rows
  imports Sql_Base
begin

text \<open>
  The CockroachDB database of \<open>internal/repo/crdb\<close>: the rows of \<open>gen/crdb/models.go\<close>, the tables
  of the migrations under \<open>internal/sdk/migrations/crdb\<close>, and the conversions of \<open>conv.go\<close>.

  \<^item> A \<open>pgtype.Timestamptz\<close> is an option (\<open>Valid\<close>) of microseconds, the precision of the column.
    A JSONB column is kept as its value, a UUID as its sixteen bytes.
  \<^item> A \<open>DECIMAL(38, 18)\<close> column rounds what is written to it. The rounding belongs to the database:
    it is the parameter \<open>cc_numeric\<close>, which gives the value stored, or none when it does not fit.
    \<open>numeric_ok\<close> states what the documentation of the type promises: the value stored has at most
    18 decimal places, is within half a unit of the last place, and is the value itself when
    that has at most 18 places and 20 digits before the point.
  \<^item> \<open>crdb_cfg\<close> also holds the clock of the database, which statements and which COMMITs fail, and
    the order in which a scan meets the rows.
\<close>

section \<open>Rows (gen/crdb/models.go)\<close>

type_synonym us = int
type_synonym timestamptz = "us option"
type_synonym uuid = "8 word list"

record crdbAccount =
  ka_ID :: string
  ka_TenantID :: string
  ka_OwnerType :: string
  ka_OwnerID :: string
  ka_AccountType :: string
  ka_Currency :: string
  ka_NormalBalance :: string
  ka_AllowNegative :: bool
  ka_Status :: string
  ka_CreatedAt :: timestamptz

record crdbAccountBalance =
  kb_TenantID :: string
  kb_AccountID :: string
  kb_Currency :: string
  kb_PostedDebits :: decimal
  kb_PostedCredits :: decimal
  kb_Version :: int
  kb_UpdatedAt :: timestamptz

record crdbBalanceSnapshot =
  kn_ID :: string
  kn_TenantID :: string
  kn_AccountID :: string
  kn_Currency :: string
  kn_PostedDebits :: decimal
  kn_PostedCredits :: decimal
  kn_Version :: int
  kn_SnapshotAt :: timestamptz
  kn_CreatedAt :: timestamptz

record crdbDiscrepancy =
  kd_ID :: string
  kd_TenantID :: string
  kd_BatchID :: string
  kd_Type :: string
  kd_ExternalRecordID :: "string option"
  kd_JournalID :: "string option"
  kd_Status :: string
  kd_ResolutionJournalID :: "string option"
  kd_ResolutionNote :: string
  kd_ResolvedBy :: string
  kd_ResolvedAt :: timestamptz
  kd_CreatedAt :: timestamptz

record crdbExternalRecord =
  kx_ID :: string
  kx_TenantID :: string
  kx_Source :: string
  kx_ExternalRef :: string
  kx_Amount :: decimal
  kx_Currency :: string
  kx_OccurredAt :: timestamptz
  kx_AccountID :: "string option"
  kx_RawPayload :: metadata
  kx_MatchStatus :: string
  kx_MatchedJournalID :: "string option"
  kx_CreatedAt :: timestamptz

record crdbFlowRun =
  kf_ID :: string
  kf_TenantID :: string
  kf_FlowType :: string
  kf_IdempotencyKey :: string
  kf_SourceService :: string
  kf_ActorID :: string
  kf_Status :: string
  kf_Metadata :: metadata
  kf_CreatedAt :: timestamptz
  kf_CompletedAt :: timestamptz
  kf_FailedAt :: timestamptz

record crdbFlowStep =
  ks_ID :: string
  ks_TenantID :: string
  ks_FlowRunID :: string
  ks_StepID :: string
  ks_Status :: string
  ks_JournalID :: "string option"
  ks_ErrorCode :: "string option"
  ks_CreatedAt :: timestamptz

record crdbFxRate =
  kr_ID :: string
  kr_TenantID :: string
  kr_BaseCurrency :: string
  kr_QuoteCurrency :: string
  kr_Rate :: decimal
  kr_Source :: string
  kr_EffectiveAt :: timestamptz
  kr_CreatedAt :: timestamptz

record crdbLedgerEntry =
  ke_ID :: uuid
  ke_TenantID :: string
  ke_JournalID :: string
  ke_AccountID :: string
  ke_Currency :: string
  ke_Direction :: string
  ke_Amount :: decimal
  ke_CreatedAt :: timestamptz

record crdbLedgerJournal =
  kj_ID :: string
  kj_TenantID :: string
  kj_FlowRunID :: "string option"
  kj_EventID :: string
  kj_SourceService :: string
  kj_SourceType :: string
  kj_ActorID :: string
  kj_Metadata :: metadata
  kj_CreatedAt :: timestamptz

record crdbOutboxEvent =
  ko_ID :: string
  ko_TenantID :: string
  ko_AggregateID :: string
  ko_EventType :: string
  ko_IdempotencyKey :: string
  ko_Payload :: json
  ko_PublishState :: string
  ko_Attempts :: int
  ko_CreatedAt :: timestamptz
  ko_PublishedAt :: timestamptz

record crdbReconciliationBatch =
  kc_ID :: string
  kc_TenantID :: string
  kc_IdempotencyKey :: string
  kc_Source :: string
  kc_WindowStart :: timestamptz
  kc_WindowEnd :: timestamptz
  kc_Status :: string
  kc_IngestedCount :: int
  kc_MatchedCount :: int
  kc_MismatchedCount :: int
  kc_MissingInLedgerCount :: int
  kc_MissingInExternalCount :: int
  kc_StartedAt :: timestamptz
  kc_CompletedAt :: timestamptz
  kc_ActorID :: string

record crdbReservation =
  kv_ID :: string
  kv_TenantID :: string
  kv_IdempotencyKey :: string
  kv_SourceAccountID :: string
  kv_ReservedAccountID :: string
  kv_Currency :: string
  kv_OriginalAmount :: decimal
  kv_OutstandingAmount :: decimal
  kv_CommittedAmount :: decimal
  kv_ReleasedAmount :: decimal
  kv_Status :: string
  kv_ExpiresAt :: timestamptz
  kv_FlowRunID :: string
  kv_Metadata :: metadata
  kv_CreatedAt :: timestamptz
  kv_UpdatedAt :: timestamptz

record crdb =
  k_accounts :: "crdbAccount list"
  k_account_balances :: "crdbAccountBalance list"
  k_ledger_journals :: "crdbLedgerJournal list"
  k_ledger_entries :: "crdbLedgerEntry list"
  k_flow_runs :: "crdbFlowRun list"
  k_flow_steps :: "crdbFlowStep list"
  k_outbox_events :: "crdbOutboxEvent list"
  k_balance_snapshots :: "crdbBalanceSnapshot list"
  k_reservations :: "crdbReservation list"
  k_fx_rates :: "crdbFxRate list"
  k_external_records :: "crdbExternalRecord list"
  k_reconciliation_batches :: "crdbReconciliationBatch list"
  k_discrepancies :: "crdbDiscrepancy list"

definition emptyCrdb :: crdb where
  "emptyCrdb = \<lparr>k_accounts = [], k_account_balances = [], k_ledger_journals = [],
     k_ledger_entries = [], k_flow_runs = [], k_flow_steps = [], k_outbox_events = [],
     k_balance_snapshots = [], k_reservations = [], k_fx_rates = [], k_external_records = [],
     k_reconciliation_batches = [], k_discrepancies = []\<rparr>"

section \<open>The database\<close>

record crdb_cfg =
  cc_numeric :: "decimal \<Rightarrow> decimal option"
  cc_now :: "nat \<Rightarrow> us"
  cc_fault :: "nat \<Rightarrow> error option"
  cc_commitFault :: "nat \<Rightarrow> (error \<times> bool) option"
  cc_scan :: "nat \<Rightarrow> nat \<Rightarrow> nat"

text \<open>A value with at most 18 decimal places.\<close>

definition onGrid :: "decimal \<Rightarrow> bool" where
  "onGrid x \<longleftrightarrow> snd (quotient_of (x * 10 ^ 18)) = 1"

definition numeric_ok :: "(decimal \<Rightarrow> decimal option) \<Rightarrow> bool" where
  "numeric_ok f \<longleftrightarrow> (\<forall>x y. f x = Some y \<longrightarrow> onGrid y \<and> \<bar>y - x\<bar> \<le> 1 / (2 * 10 ^ 18)) \<and>
     (\<forall>x. onGrid x \<and> \<bar>x\<bar> < 10 ^ 20 \<longrightarrow> f x = Some x)"

lemma onGrid_iff: "onGrid x \<longleftrightarrow> x * 10 ^ 18 \<in> \<int>"
proof
  assume "onGrid x"
  then have "x * 10 ^ 18 = of_int (fst (quotient_of (x * 10 ^ 18)))"
    using quotient_of_div [of "x * 10 ^ 18"] by (cases "quotient_of (x * 10 ^ 18)") (auto simp: onGrid_def)
  then show "x * 10 ^ 18 \<in> \<int>" by (metis Ints_of_int)
next
  assume "x * 10 ^ 18 \<in> \<int>"
  then obtain i where "x * 10 ^ 18 = of_int i" by (auto elim: Ints_cases)
  then show "onGrid x" by (simp only: onGrid_def quotient_of_int) simp
qed

lemma onGrid_0 [simp]: "onGrid 0"
  by (simp add: onGrid_iff)

lemma onGrid_add: "onGrid x \<Longrightarrow> onGrid y \<Longrightarrow> onGrid (x + y)"
  by (simp add: onGrid_iff distrib_right)

lemma onGrid_diff: "onGrid x \<Longrightarrow> onGrid y \<Longrightarrow> onGrid (x - y)"
  by (simp add: onGrid_iff left_diff_distrib)

text \<open>Two values with at most 18 places are equal or at least one unit of the last place apart, so
  rounding such a value gives it back.\<close>

lemma onGrid_close:
  assumes "onGrid x" and "onGrid y" and "\<bar>y - x\<bar> \<le> 1 / (2 * 10 ^ 18)"
  shows "y = x"
proof -
  obtain i j where ij: "x * 10 ^ 18 = of_int i" "y * 10 ^ 18 = of_int j"
    using assms(1,2) by (auto simp: onGrid_iff elim!: Ints_cases)
  have "\<bar>(y - x) * 10 ^ 18\<bar> = \<bar>y - x\<bar> * 10 ^ 18" by (simp only: abs_mult power_abs abs_numeral)
  also have "\<dots> \<le> 1 / (2 * 10 ^ 18) * 10 ^ 18" by (rule mult_right_mono [OF assms(3)]) simp
  finally have "\<bar>(y - x) * 10 ^ 18\<bar> \<le> 1 / 2" by simp
  then have "\<bar>of_int (j - i) :: rat\<bar> \<le> 1 / 2" by (simp only: left_diff_distrib ij of_int_diff)
  then have "of_int \<bar>j - i\<bar> < (1 :: rat)" by simp
  then have "j = i" by simp
  then have "(y - x) * 10 ^ 18 = 0" by (simp only: left_diff_distrib ij diff_self)
  then show ?thesis by simp
qed

lemma numeric_onGrid: "numeric_ok f \<Longrightarrow> onGrid x \<Longrightarrow> f x = Some y \<Longrightarrow> y = x"
  using onGrid_close by (simp add: numeric_ok_def)

lemma numeric_result: "numeric_ok f \<Longrightarrow> f x = Some y \<Longrightarrow> onGrid y"
  by (simp add: numeric_ok_def)

text \<open>The SQLSTATEs of the constraints.\<close>

abbreviation uniqueViolation :: error where
  "uniqueViolation \<equiv> PgError ''23505'' ''duplicate key value violates unique constraint''"
abbreviation foreignKeyViolation :: error where
  "foreignKeyViolation \<equiv> PgError ''23503'' ''insert or update violates foreign key constraint''"
abbreviation checkViolation :: error where
  "checkViolation \<equiv> PgError ''23514'' ''failed to satisfy CHECK constraint''"
abbreviation numericOverflow :: error where
  "numericOverflow \<equiv> PgError ''22003'' ''value with precision exceeds column''"
abbreviation negativeLimit :: error where
  "negativeLimit \<equiv> PgError ''2201W'' ''negative value for LIMIT''"

section \<open>Conversions (conv.go)\<close>

abbreviation microsecond :: duration where "microsecond \<equiv> 1000"

text \<open>\<open>pgtype.Timestamptz{Time: t, Valid: true}\<close> as the driver sends it, and the time it reads.\<close>

definition toTimestamptz :: "time \<Rightarrow> timestamptz" where
  "toTimestamptz t = Some (t div microsecond)"

definition timestamptzToTime :: "timestamptz \<Rightarrow> time" where
  "timestamptzToTime ts = (case ts of None \<Rightarrow> zeroTime | Some u \<Rightarrow> u * microsecond)"

definition timestamptzToTimePtr :: "timestamptz \<Rightarrow> time option" where
  "timestamptzToTimePtr ts = (case ts of None \<Rightarrow> None | Some u \<Rightarrow> Some (u * microsecond))"

definition rowToSnapshot :: "crdbBalanceSnapshot \<Rightarrow> BalanceSnapshot" where
  "rowToSnapshot r = \<lparr>bs_ID = kn_ID r, bs_TenantID = kn_TenantID r,
     bs_AccountID = kn_AccountID r, bs_Currency = kn_Currency r,
     bs_PostedDebits = kn_PostedDebits r, bs_PostedCredits = kn_PostedCredits r,
     bs_Version = kn_Version r, bs_SnapshotAt = timestamptzToTime (kn_SnapshotAt r),
     bs_CreatedAt = timestamptzToTime (kn_CreatedAt r)\<rparr>"

definition rowToAccount :: "crdbAccount \<Rightarrow> Account" where
  "rowToAccount r = \<lparr>acc_ID = ka_ID r, acc_TenantID = ka_TenantID r,
     acc_OwnerType = ka_OwnerType r, acc_OwnerID = ka_OwnerID r,
     acc_AccountType = ka_AccountType r, acc_Currency = ka_Currency r,
     acc_NormalBalance = ka_NormalBalance r, acc_AllowNegative = ka_AllowNegative r,
     acc_Status = ka_Status r, acc_CreatedAt = timestamptzToTime (ka_CreatedAt r)\<rparr>"

definition rowToFlowRun :: "crdbFlowRun \<Rightarrow> FlowRun" where
  "rowToFlowRun r = \<lparr>fr_ID = kf_ID r, fr_TenantID = kf_TenantID r, fr_FlowType = kf_FlowType r,
     fr_IdempotencyKey = kf_IdempotencyKey r, fr_SourceService = kf_SourceService r,
     fr_ActorID = kf_ActorID r, fr_Status = kf_Status r, fr_Metadata = kf_Metadata r,
     fr_CreatedAt = timestamptzToTime (kf_CreatedAt r),
     fr_CompletedAt = timestamptzToTimePtr (kf_CompletedAt r),
     fr_FailedAt = timestamptzToTimePtr (kf_FailedAt r), fr_Steps = []\<rparr>"

definition rowToFlowStep :: "crdbFlowStep \<Rightarrow> FlowStep" where
  "rowToFlowStep r = \<lparr>fs_ID = ks_ID r, fs_TenantID = ks_TenantID r,
     fs_FlowRunID = ks_FlowRunID r, fs_StepID = ks_StepID r, fs_Status = ks_Status r,
     fs_JournalID = orEmpty (ks_JournalID r), fs_ErrorCode = orEmpty (ks_ErrorCode r),
     fs_CreatedAt = timestamptzToTime (ks_CreatedAt r)\<rparr>"

definition rowToFXRate :: "crdbFxRate \<Rightarrow> FXRate" where
  "rowToFXRate r = \<lparr>fx_ID = kr_ID r, fx_TenantID = kr_TenantID r,
     fx_BaseCurrency = kr_BaseCurrency r, fx_QuoteCurrency = kr_QuoteCurrency r,
     fx_Rate = kr_Rate r, fx_Source = kr_Source r,
     fx_EffectiveAt = timestamptzToTime (kr_EffectiveAt r),
     fx_CreatedAt = timestamptzToTime (kr_CreatedAt r)\<rparr>"

definition rowToExternalRecord :: "crdbExternalRecord \<Rightarrow> ExternalRecord" where
  "rowToExternalRecord r = \<lparr>er_ID = kx_ID r, er_TenantID = kx_TenantID r,
     er_Source = kx_Source r, er_ExternalRef = kx_ExternalRef r, er_Amount = kx_Amount r,
     er_Currency = kx_Currency r, er_OccurredAt = timestamptzToTime (kx_OccurredAt r),
     er_AccountID = orEmpty (kx_AccountID r), er_RawPayload = kx_RawPayload r,
     er_MatchStatus = kx_MatchStatus r, er_MatchedJournalID = orEmpty (kx_MatchedJournalID r),
     er_CreatedAt = timestamptzToTime (kx_CreatedAt r)\<rparr>"

text \<open>\<open>int32(r.IngestedCount)\<close> keeps the low 32 bits.\<close>

definition rowToReconBatch :: "crdbReconciliationBatch \<Rightarrow> ReconciliationBatch" where
  "rowToReconBatch r = \<lparr>rb_ID = kc_ID r, rb_TenantID = kc_TenantID r,
     rb_IdempotencyKey = kc_IdempotencyKey r, rb_Source = kc_Source r,
     rb_WindowStart = timestamptzToTime (kc_WindowStart r),
     rb_WindowEnd = timestamptzToTime (kc_WindowEnd r), rb_Status = kc_Status r,
     rb_IngestedCount = word_of_int (kc_IngestedCount r),
     rb_MatchedCount = word_of_int (kc_MatchedCount r),
     rb_MismatchedCount = word_of_int (kc_MismatchedCount r),
     rb_MissingInLedgerCount = word_of_int (kc_MissingInLedgerCount r),
     rb_MissingInExternalCount = word_of_int (kc_MissingInExternalCount r),
     rb_StartedAt = timestamptzToTime (kc_StartedAt r),
     rb_CompletedAt = timestamptzToTime (kc_CompletedAt r), rb_ActorID = kc_ActorID r\<rparr>"

definition rowToDiscrepancy :: "crdbDiscrepancy \<Rightarrow> Discrepancy" where
  "rowToDiscrepancy r = \<lparr>dis_ID = kd_ID r, dis_TenantID = kd_TenantID r,
     dis_BatchID = kd_BatchID r, dis_Type = kd_Type r,
     dis_ExternalRecordID = orEmpty (kd_ExternalRecordID r),
     dis_JournalID = orEmpty (kd_JournalID r), dis_Status = kd_Status r,
     dis_ResolutionJournalID = orEmpty (kd_ResolutionJournalID r),
     dis_ResolutionNote = kd_ResolutionNote r, dis_ResolvedBy = kd_ResolvedBy r,
     dis_ResolvedAt = timestamptzToTime (kd_ResolvedAt r),
     dis_CreatedAt = timestamptzToTime (kd_CreatedAt r)\<rparr>"

definition rowToJournal :: "crdbLedgerJournal \<Rightarrow> Journal" where
  "rowToJournal r = \<lparr>jrn_ID = kj_ID r, jrn_TenantID = kj_TenantID r,
     jrn_FlowRunID = orEmpty (kj_FlowRunID r), jrn_EventID = kj_EventID r,
     jrn_SourceService = kj_SourceService r, jrn_SourceType = kj_SourceType r,
     jrn_ActorID = kj_ActorID r, jrn_Metadata = kj_Metadata r, jrn_Entries = [],
     jrn_CreatedAt = timestamptzToTime (kj_CreatedAt r)\<rparr>"

definition rowToReservation :: "crdbReservation \<Rightarrow> Reservation" where
  "rowToReservation r = \<lparr>res_ID = kv_ID r, res_TenantID = kv_TenantID r,
     res_IdempotencyKey = kv_IdempotencyKey r, res_SourceAccountID = kv_SourceAccountID r,
     res_ReservedAccountID = kv_ReservedAccountID r, res_Currency = kv_Currency r,
     res_OriginalAmount = kv_OriginalAmount r, res_OutstandingAmount = kv_OutstandingAmount r,
     res_CommittedAmount = kv_CommittedAmount r, res_ReleasedAmount = kv_ReleasedAmount r,
     res_Status = kv_Status r, res_ExpiresAt = timestamptzToTimePtr (kv_ExpiresAt r),
     res_FlowRunID = kv_FlowRunID r, res_Metadata = kv_Metadata r,
     res_CreatedAt = timestamptzToTime (kv_CreatedAt r),
     res_UpdatedAt = timestamptzToTime (kv_UpdatedAt r)\<rparr>"

lemma timestamptz_roundtrip:
  "timestamptzToTime (toTimestamptz t) \<le> t \<and> t < timestamptzToTime (toTimestamptz t) + microsecond"
proof -
  have "t div 1000 * 1000 = t - t mod 1000" by (simp add: minus_mod_eq_div_mult)
  moreover have "0 \<le> t mod 1000" "t mod 1000 < 1000" by simp_all
  ultimately show ?thesis unfolding timestamptzToTime_def toTimestamptz_def by simp
qed

section \<open>UUIDs (tx.go)\<close>

text \<open>A Go string is a list of bytes, and \<open>range\<close> walks its runes: a byte that is part of no
  ASCII rune is neither a hyphen nor a hexadecimal digit, so that such a string is refused by
  one of the two tests either way. \<open>byte(hi<<4 | lo)\<close> is \<open>16 hi + lo\<close>, as both are below 16.\<close>

definition hexVal :: "char \<Rightarrow> int" where
  "hexVal c = (if CHR ''0'' \<le> c \<and> c \<le> CHR ''9'' then int (of_char c) - int (of_char CHR ''0'')
     else if CHR ''a'' \<le> c \<and> c \<le> CHR ''f'' then int (of_char c) - int (of_char CHR ''a'') + 10
     else if CHR ''A'' \<le> c \<and> c \<le> CHR ''F'' then int (of_char c) - int (of_char CHR ''A'') + 10
     else -1)"

fun hexBytes :: "string \<Rightarrow> error + uuid" where
  "hexBytes (h # l # rest) =
     (if hexVal h < 0 \<or> hexVal l < 0 then Inl (GoError ''invalid hex'')
      else (case hexBytes rest of
          Inl e \<Rightarrow> Inl e
        | Inr bs \<Rightarrow> Inr (word_of_int (hexVal h * 16 + hexVal l) # bs)))"
| "hexBytes _ = Inr []"

definition parseUUID :: "string \<Rightarrow> error + uuid" where
  "parseUUID s = (let hex = filter (\<lambda>c. c \<noteq> CHR ''-'') s in
     if length hex \<noteq> 32 then Inl (GoError ''expected 32 hex chars'') else hexBytes hex)"

text \<open>\<open>fmt.Sprintf("%x", r.ID.Bytes)\<close>.\<close>

definition hexDigit :: "nat \<Rightarrow> char" where
  "hexDigit n = ''0123456789abcdef'' ! n"

definition formatHex :: "uuid \<Rightarrow> string" where
  "formatHex bs = concat (map (\<lambda>b. [hexDigit (unat b div 16), hexDigit (unat b mod 16)]) bs)"

end
