(* ===== verification/Crdb_Queries.thy ===== *)
theory Crdb_Queries
  imports Crdb_Rows
begin

text \<open>
  The generated queries of \<open>gen/crdb\<close>, one definition per SQL text, by the name of its constant
  and with the parameters \<open>$1, $2, ..\<close> in their order.

  \<^item> A \<open>query\<close> is a statement on the tables. It is given \<open>now()\<close>, which the database fixes for a
    transaction, and the order of its scans, which SQL leaves open where no ORDER BY does.
  \<^item> An INSERT or UPDATE checks, in this order, the DECIMAL columns, the CHECK constraints, the
    primary and UNIQUE keys, and the foreign keys of the migrations.
  \<^item> A \<open>:one\<close> query gives an option; none is \<open>pgx.ErrNoRows\<close>. \<open>FOR UPDATE\<close> takes locks, which a
    transaction that runs alone does not see.
  \<^item> The methods of \<open>Queries\<close> hand their parameters to the database and scan its columns into
    the rows of \<open>models.go\<close>.
\<close>

type_synonym 'a query = "us \<Rightarrow> (nat \<Rightarrow> nat) \<Rightarrow> (crdb, error, 'a) exec"

text \<open>A value written to a DECIMAL column or cast to its type.\<close>

definition toNumeric :: "crdb_cfg \<Rightarrow> decimal \<Rightarrow> (crdb, error, decimal) exec" where
  "toNumeric C x = (case cc_numeric C x of None \<Rightarrow> throwE numericOverflow | Some y \<Rightarrow> ret y)"

lemma toNumeric_Inr [exec_simps]:
  "toNumeric C x d = (Inr y, d') \<longleftrightarrow> cc_numeric C x = Some y \<and> d' = d"
  by (auto simp: toNumeric_def exec_simps split: option.splits)

text \<open>Comparisons with a NULL are not true.\<close>

definition tsLe :: "timestamptz \<Rightarrow> timestamptz \<Rightarrow> bool" where
  "tsLe a b = (case a of None \<Rightarrow> False | Some x \<Rightarrow> (case b of None \<Rightarrow> False | Some y \<Rightarrow> x \<le> y))"

definition tsLess :: "timestamptz \<Rightarrow> timestamptz \<Rightarrow> bool" where
  "tsLess a b = (case a of None \<Rightarrow> False | Some x \<Rightarrow> (case b of None \<Rightarrow> False | Some y \<Rightarrow> x < y))"

text \<open>\<open>LIMIT\<close> with a parameter of type \<open>int32\<close>.\<close>

definition limitRows :: "32 word \<Rightarrow> 'r list \<Rightarrow> (crdb, error, 'r list) exec" where
  "limitRows n rows = (if sint n < 0 then throwE negativeLimit else ret (take (nat (sint n)) rows))"

lemma limitRows_Inr [exec_simps]:
  "limitRows n rows d = (Inr xs, d') \<longleftrightarrow> 0 \<le> sint n \<and> xs = take (nat (sint n)) rows \<and> d' = d"
  by (auto simp: limitRows_def exec_simps)

text \<open>Foreign keys refer to the identifier alone.\<close>

definition hasAccount :: "string \<Rightarrow> crdb \<Rightarrow> bool" where
  "hasAccount i d = exists_row (\<lambda>r. ka_ID r = i) (k_accounts d)"

definition hasJournal :: "string \<Rightarrow> crdb \<Rightarrow> bool" where
  "hasJournal i d = exists_row (\<lambda>r. kj_ID r = i) (k_ledger_journals d)"

definition hasFlowRun :: "string \<Rightarrow> crdb \<Rightarrow> bool" where
  "hasFlowRun i d = exists_row (\<lambda>r. kf_ID r = i) (k_flow_runs d)"

definition nullOr :: "(string \<Rightarrow> crdb \<Rightarrow> bool) \<Rightarrow> string option \<Rightarrow> crdb \<Rightarrow> bool" where
  "nullOr P i d = (case i of None \<Rightarrow> True | Some v \<Rightarrow> P v d)"

section \<open>accounts.sql\<close>

definition getAccount :: "string \<Rightarrow> string \<Rightarrow> crdbAccount option query" where
  "getAccount tenantID i now scan =
     readS (\<lambda>d. find (\<lambda>r. ka_TenantID r = tenantID \<and> ka_ID r = i) (k_accounts d))"

definition insertAccount :: "string \<Rightarrow> string \<Rightarrow> string \<Rightarrow> string \<Rightarrow> string \<Rightarrow> string \<Rightarrow> string \<Rightarrow> bool \<Rightarrow>
    string \<Rightarrow> unit query" where
  "insertAccount i tenantID ownerType ownerID accountType currency normalBalance allowNegative status
      now scan =
     thenE (requireS (\<lambda>d. normalBalance \<in> {NormalDebit, NormalCredit} \<and>
         status \<in> {AccountActive, AccountFrozen, AccountClosed}) checkViolation)
    (thenE (requireS (\<lambda>d. \<not> exists_row (\<lambda>r. ka_ID r = i \<or> ka_TenantID r = tenantID \<and>
         ka_OwnerType r = ownerType \<and> ka_OwnerID r = ownerID \<and> ka_AccountType r = accountType \<and>
         ka_Currency r = currency) (k_accounts d)) uniqueViolation)
     (modifyS (\<lambda>d. d\<lparr>k_accounts := k_accounts d @ [\<lparr>ka_ID = i, ka_TenantID = tenantID,
        ka_OwnerType = ownerType, ka_OwnerID = ownerID, ka_AccountType = accountType,
        ka_Currency = currency, ka_NormalBalance = normalBalance,
        ka_AllowNegative = allowNegative, ka_Status = status, ka_CreatedAt = Some now\<rparr>]\<rparr>)))"

definition listAccountsByOwner :: "string \<Rightarrow> string \<Rightarrow> string \<Rightarrow> crdbAccount list query" where
  "listAccountsByOwner tenantID ownerType ownerID now scan =
     readS (\<lambda>d. filter (\<lambda>r. ka_TenantID r = tenantID \<and> ka_OwnerType r = ownerType \<and>
       ka_OwnerID r = ownerID) (scanOrder scan (k_accounts d)))"

section \<open>balances.sql\<close>

definition balanceKey :: "string \<Rightarrow> string \<Rightarrow> string \<Rightarrow> crdbAccountBalance \<Rightarrow> bool" where
  "balanceKey tenantID accountID currency r \<longleftrightarrow>
     kb_TenantID r = tenantID \<and> kb_AccountID r = accountID \<and> kb_Currency r = currency"

definition getBalance :: "string \<Rightarrow> string \<Rightarrow> string \<Rightarrow> crdbAccountBalance option query" where
  "getBalance tenantID accountID currency now scan =
     readS (\<lambda>d. find (balanceKey tenantID accountID currency) (k_account_balances d))"

definition lockBalance :: "string \<Rightarrow> string \<Rightarrow> string \<Rightarrow> crdbAccountBalance option query" where
  "lockBalance tenantID accountID currency now scan =
     readS (\<lambda>d. find (balanceKey tenantID accountID currency) (k_account_balances d))"

definition updateBalance :: "crdb_cfg \<Rightarrow> string \<Rightarrow> string \<Rightarrow> string \<Rightarrow> decimal \<Rightarrow> decimal \<Rightarrow> unit query" where
  "updateBalance C tenantID accountID currency postedDebits postedCredits now scan =
     whenS (\<lambda>d. exists_row (balanceKey tenantID accountID currency) (k_account_balances d))
       (bindE (toNumeric C postedDebits) (\<lambda>debits. bindE (toNumeric C postedCredits) (\<lambda>credits.
         modifyS (\<lambda>d. d\<lparr>k_account_balances := updateWhere (balanceKey tenantID accountID currency)
           (\<lambda>r. r\<lparr>kb_PostedDebits := debits, kb_PostedCredits := credits,
              kb_Version := kb_Version r + 1, kb_UpdatedAt := Some now\<rparr>) (k_account_balances d)\<rparr>))))"

definition upsertBalanceZero :: "string \<Rightarrow> string \<Rightarrow> string \<Rightarrow> unit query" where
  "upsertBalanceZero tenantID accountID currency now scan =
     whenS (\<lambda>d. \<not> exists_row (balanceKey tenantID accountID currency) (k_account_balances d))
       (thenE (requireS (hasAccount accountID) foreignKeyViolation)
         (modifyS (\<lambda>d. d\<lparr>k_account_balances := k_account_balances d @ [\<lparr>kb_TenantID = tenantID,
            kb_AccountID = accountID, kb_Currency = currency, kb_PostedDebits = 0,
            kb_PostedCredits = 0, kb_Version = 0, kb_UpdatedAt = Some now\<rparr>]\<rparr>)))"

section \<open>flows.sql\<close>

definition completeFlowRun :: "string \<Rightarrow> string \<Rightarrow> unit query" where
  "completeFlowRun i tenantID now scan =
     modifyS (\<lambda>d. d\<lparr>k_flow_runs := updateWhere (\<lambda>r. kf_ID r = i \<and> kf_TenantID r = tenantID)
       (\<lambda>r. r\<lparr>kf_Status := FlowCompleted, kf_CompletedAt := Some now\<rparr>) (k_flow_runs d)\<rparr>)"

definition getFlowByID :: "string \<Rightarrow> string \<Rightarrow> crdbFlowRun option query" where
  "getFlowByID tenantID i now scan =
     readS (\<lambda>d. find (\<lambda>r. kf_TenantID r = tenantID \<and> kf_ID r = i) (k_flow_runs d))"

definition getFlowByIdempotency :: "string \<Rightarrow> string \<Rightarrow> crdbFlowRun option query" where
  "getFlowByIdempotency tenantID key now scan =
     readS (\<lambda>d. find (\<lambda>r. kf_TenantID r = tenantID \<and> kf_IdempotencyKey r = key) (k_flow_runs d))"

definition getFlowSteps :: "string \<Rightarrow> string \<Rightarrow> crdbFlowStep list query" where
  "getFlowSteps tenantID flowRunID now scan =
     readS (\<lambda>d. sort_key ks_CreatedAt (filter (\<lambda>r. ks_TenantID r = tenantID \<and>
       ks_FlowRunID r = flowRunID) (scanOrder scan (k_flow_steps d))))"

definition insertFlowRun :: "string \<Rightarrow> string \<Rightarrow> string \<Rightarrow> string \<Rightarrow> string \<Rightarrow> string \<Rightarrow> metadata \<Rightarrow>
    unit query" where
  "insertFlowRun i tenantID flowType key sourceService actorID meta now scan =
     thenE (requireS (\<lambda>d. \<not> exists_row (\<lambda>r. kf_ID r = i \<or> kf_IdempotencyKey r = key)
         (k_flow_runs d)) uniqueViolation)
      (modifyS (\<lambda>d. d\<lparr>k_flow_runs := k_flow_runs d @ [\<lparr>kf_ID = i, kf_TenantID = tenantID,
         kf_FlowType = flowType, kf_IdempotencyKey = key, kf_SourceService = sourceService,
         kf_ActorID = actorID, kf_Status = FlowRunning, kf_Metadata = meta,
         kf_CreatedAt = Some now, kf_CompletedAt = None, kf_FailedAt = None\<rparr>]\<rparr>))"

definition insertFlowStep :: "string \<Rightarrow> string \<Rightarrow> string \<Rightarrow> string \<Rightarrow> string \<Rightarrow> string option \<Rightarrow>
    string option \<Rightarrow> unit query" where
  "insertFlowStep i tenantID flowRunID stepID status journalID errorCode now scan =
     thenE (requireS (\<lambda>d. status \<in> {StepCompleted, StepFailed}) checkViolation)
    (thenE (requireS (\<lambda>d. \<not> exists_row (\<lambda>r. ks_ID r = i \<or> ks_TenantID r = tenantID \<and>
         ks_FlowRunID r = flowRunID \<and> ks_StepID r = stepID) (k_flow_steps d)) uniqueViolation)
    (thenE (requireS (\<lambda>d. hasFlowRun flowRunID d \<and> nullOr hasJournal journalID d)
         foreignKeyViolation)
     (modifyS (\<lambda>d. d\<lparr>k_flow_steps := k_flow_steps d @ [\<lparr>ks_ID = i, ks_TenantID = tenantID,
        ks_FlowRunID = flowRunID, ks_StepID = stepID, ks_Status = status,
        ks_JournalID = journalID, ks_ErrorCode = errorCode, ks_CreatedAt = Some now\<rparr>]\<rparr>))))"

section \<open>journals.sql\<close>

definition getJournal :: "string \<Rightarrow> string \<Rightarrow> crdbLedgerJournal option query" where
  "getJournal tenantID i now scan =
     readS (\<lambda>d. find (\<lambda>r. kj_TenantID r = tenantID \<and> kj_ID r = i) (k_ledger_journals d))"

text \<open>With a NULL parameter the comparison holds for no row.\<close>

definition getJournalsByFlowRun :: "string \<Rightarrow> string option \<Rightarrow> crdbLedgerJournal list query" where
  "getJournalsByFlowRun tenantID flowRunID now scan =
     readS (\<lambda>d. filter (\<lambda>r. kj_TenantID r = tenantID \<and> flowRunID \<noteq> None \<and>
       kj_FlowRunID r = flowRunID) (scanOrder scan (k_ledger_journals d)))"

definition insertJournal :: "string \<Rightarrow> string \<Rightarrow> string option \<Rightarrow> string \<Rightarrow> string \<Rightarrow> string \<Rightarrow> string \<Rightarrow>
    metadata \<Rightarrow> unit query" where
  "insertJournal i tenantID flowRunID eventID sourceService sourceType actorID meta now scan =
     thenE (requireS (\<lambda>d. \<not> exists_row (\<lambda>r. kj_ID r = i \<or> kj_EventID r = eventID)
         (k_ledger_journals d)) uniqueViolation)
      (modifyS (\<lambda>d. d\<lparr>k_ledger_journals := k_ledger_journals d @ [\<lparr>kj_ID = i,
         kj_TenantID = tenantID, kj_FlowRunID = flowRunID, kj_EventID = eventID,
         kj_SourceService = sourceService, kj_SourceType = sourceType, kj_ActorID = actorID,
         kj_Metadata = meta, kj_CreatedAt = Some now\<rparr>]\<rparr>))"

section \<open>entries.sql\<close>

text \<open>\<open>CHECK (amount > 0)\<close> is of the value stored.\<close>

definition insertEntry :: "crdb_cfg \<Rightarrow> uuid \<Rightarrow> string \<Rightarrow> string \<Rightarrow> string \<Rightarrow> string \<Rightarrow> string \<Rightarrow> decimal \<Rightarrow>
    unit query" where
  "insertEntry C i tenantID journalID accountID currency direction amount now scan =
     bindE (toNumeric C amount) (\<lambda>stored.
     thenE (requireS (\<lambda>d. direction \<in> {DirectionDebit, DirectionCredit} \<and> 0 < stored) checkViolation)
    (thenE (requireS (\<lambda>d. \<not> exists_row (\<lambda>r. ke_ID r = i) (k_ledger_entries d)) uniqueViolation)
    (thenE (requireS (\<lambda>d. hasJournal journalID d \<and> hasAccount accountID d) foreignKeyViolation)
     (modifyS (\<lambda>d. d\<lparr>k_ledger_entries := k_ledger_entries d @ [\<lparr>ke_ID = i,
        ke_TenantID = tenantID, ke_JournalID = journalID, ke_AccountID = accountID,
        ke_Currency = currency, ke_Direction = direction, ke_Amount = stored,
        ke_CreatedAt = Some now\<rparr>]\<rparr>)))))"

definition listAccountActivity :: "string \<Rightarrow> string \<Rightarrow> string \<Rightarrow> timestamptz \<Rightarrow> timestamptz \<Rightarrow> 32 word \<Rightarrow>
    crdbLedgerEntry list query" where
  "listAccountActivity tenantID accountID currency since until limit now scan =
     bindE (readS (\<lambda>d. sort_key (\<lambda>r. (ke_CreatedAt r, ke_ID r)) (filter (\<lambda>r.
         ke_TenantID r = tenantID \<and> ke_AccountID r = accountID \<and> ke_Currency r = currency \<and>
         (since = None \<or> tsLe since (ke_CreatedAt r)) \<and>
         (until = None \<or> tsLe (ke_CreatedAt r) until)) (k_ledger_entries d))))
       (limitRows limit)"

section \<open>outbox.sql\<close>

definition incrementOutboxAttempts :: "string \<Rightarrow> unit query" where
  "incrementOutboxAttempts i now scan =
     modifyS (\<lambda>d. d\<lparr>k_outbox_events := updateWhere (\<lambda>r. ko_ID r = i)
       (\<lambda>r. r\<lparr>ko_Attempts := ko_Attempts r + 1\<rparr>) (k_outbox_events d)\<rparr>)"

definition insertOutbox :: "string \<Rightarrow> string \<Rightarrow> string \<Rightarrow> string \<Rightarrow> string \<Rightarrow> json \<Rightarrow> unit query" where
  "insertOutbox i tenantID aggregateID eventType key payload now scan =
     thenE (requireS (\<lambda>d. \<not> exists_row (\<lambda>r. ko_ID r = i \<or> ko_IdempotencyKey r = key)
         (k_outbox_events d)) uniqueViolation)
      (modifyS (\<lambda>d. d\<lparr>k_outbox_events := k_outbox_events d @ [\<lparr>ko_ID = i, ko_TenantID = tenantID,
         ko_AggregateID = aggregateID, ko_EventType = eventType, ko_IdempotencyKey = key,
         ko_Payload = payload, ko_PublishState = ''PENDING'', ko_Attempts = 0,
         ko_CreatedAt = Some now, ko_PublishedAt = None\<rparr>]\<rparr>))"

definition listPendingOutbox :: "32 word \<Rightarrow> crdbOutboxEvent list query" where
  "listPendingOutbox limit now scan =
     bindE (readS (\<lambda>d. sort_key ko_CreatedAt (filter (\<lambda>r. ko_PublishState r = ''PENDING'')
         (scanOrder scan (k_outbox_events d)))))
       (limitRows limit)"

definition markOutboxPublished :: "string \<Rightarrow> unit query" where
  "markOutboxPublished i now scan =
     modifyS (\<lambda>d. d\<lparr>k_outbox_events := updateWhere (\<lambda>r. ko_ID r = i)
       (\<lambda>r. r\<lparr>ko_PublishState := ''PUBLISHED'', ko_PublishedAt := Some now\<rparr>) (k_outbox_events d)\<rparr>)"

section \<open>snapshots.sql\<close>

definition getLatestSnapshotBefore :: "string \<Rightarrow> string \<Rightarrow> string \<Rightarrow> timestamptz \<Rightarrow>
    crdbBalanceSnapshot option query" where
  "getLatestSnapshotBefore tenantID accountID currency snapshotAt now scan =
     readS (\<lambda>d. limit1 (orderDesc (\<lambda>r. (kn_SnapshotAt r, kn_ID r)) (filter (\<lambda>r.
       kn_TenantID r = tenantID \<and> kn_AccountID r = accountID \<and> kn_Currency r = currency \<and>
       tsLe (kn_SnapshotAt r) snapshotAt) (k_balance_snapshots d))))"

definition insertSnapshot :: "crdb_cfg \<Rightarrow> string \<Rightarrow> string \<Rightarrow> string \<Rightarrow> string \<Rightarrow> decimal \<Rightarrow> decimal \<Rightarrow> int \<Rightarrow>
    timestamptz \<Rightarrow> unit query" where
  "insertSnapshot C i tenantID accountID currency postedDebits postedCredits version snapshotAt now scan =
     bindE (toNumeric C postedDebits) (\<lambda>debits. bindE (toNumeric C postedCredits) (\<lambda>credits.
     thenE (requireS (\<lambda>d. \<not> exists_row (\<lambda>r. kn_ID r = i) (k_balance_snapshots d)) uniqueViolation)
    (thenE (requireS (hasAccount accountID) foreignKeyViolation)
     (modifyS (\<lambda>d. d\<lparr>k_balance_snapshots := k_balance_snapshots d @ [\<lparr>kn_ID = i,
        kn_TenantID = tenantID, kn_AccountID = accountID, kn_Currency = currency,
        kn_PostedDebits = debits, kn_PostedCredits = credits, kn_Version = version,
        kn_SnapshotAt = snapshotAt, kn_CreatedAt = Some now\<rparr>]\<rparr>)))))"

definition listAllBalancesForTenant :: "string \<Rightarrow> crdbAccountBalance list query" where
  "listAllBalancesForTenant tenantID now scan =
     readS (\<lambda>d. sort_key (\<lambda>r. (kb_AccountID r, kb_Currency r))
       (filter (\<lambda>r. kb_TenantID r = tenantID) (k_account_balances d)))"

definition listTenantsDueForSnapshot :: "timestamptz \<Rightarrow> 32 word \<Rightarrow> string list query" where
  "listTenantsDueForSnapshot cutoff limit now scan =
     bindE (readS (\<lambda>d. remdups (map ka_TenantID (filter (\<lambda>a. \<not> exists_row (\<lambda>bs.
         kn_TenantID bs = ka_TenantID a \<and> tsLess cutoff (kn_SnapshotAt bs)) (k_balance_snapshots d))
         (scanOrder scan (k_accounts d))))))
       (limitRows limit)"

definition prunable :: "timestamptz \<Rightarrow> crdb \<Rightarrow> crdbBalanceSnapshot \<Rightarrow> bool" where
  "prunable cutoff d bs \<longleftrightarrow> tsLess (kn_SnapshotAt bs) cutoff \<and>
     exists_row (\<lambda>bs2. kn_TenantID bs2 = kn_TenantID bs \<and> kn_AccountID bs2 = kn_AccountID bs \<and>
       kn_Currency bs2 = kn_Currency bs \<and> tsLess (kn_SnapshotAt bs) (kn_SnapshotAt bs2))
       (k_balance_snapshots d)"

definition pruneSnapshotsOlderThan :: "timestamptz \<Rightarrow> 32 word \<Rightarrow> int query" where
  "pruneSnapshotsOlderThan cutoff limit now scan =
     bindE (readS (\<lambda>d. map kn_ID (filter (prunable cutoff d)
         (scanOrder scan (k_balance_snapshots d)))))
       (\<lambda>ids. bindE (limitRows limit ids) (\<lambda>gone.
         bindE (readS (\<lambda>d. length (filter (\<lambda>r. kn_ID r \<in> set gone) (k_balance_snapshots d)))) (\<lambda>n.
         thenE (modifyS (\<lambda>d. d\<lparr>k_balance_snapshots :=
             filter (\<lambda>r. kn_ID r \<notin> set gone) (k_balance_snapshots d)\<rparr>))
           (ret (int n)))))"

text \<open>\<open>CAST(COALESCE(SUM(CASE WHEN direction = .. THEN amount END), 0) AS DECIMAL(38, 18))\<close>.\<close>

definition sumSides :: "crdb_cfg \<Rightarrow> crdbLedgerEntry list \<Rightarrow> (crdb, error, decimal \<times> decimal) exec" where
  "sumSides C rows =
     bindE (toNumeric C (sum_list (map ke_Amount
        (filter (\<lambda>r. ke_Direction r = DirectionDebit) rows)))) (\<lambda>debits.
     bindE (toNumeric C (sum_list (map ke_Amount
        (filter (\<lambda>r. ke_Direction r = DirectionCredit) rows)))) (\<lambda>credits.
       ret (debits, credits)))"

definition sumEntriesBetween :: "crdb_cfg \<Rightarrow> string \<Rightarrow> string \<Rightarrow> string \<Rightarrow> timestamptz \<Rightarrow> timestamptz \<Rightarrow>
    (decimal \<times> decimal) query" where
  "sumEntriesBetween C tenantID accountID currency after until now scan =
     bindE (readS (\<lambda>d. filter (\<lambda>r. ke_TenantID r = tenantID \<and> ke_AccountID r = accountID \<and>
         ke_Currency r = currency \<and> tsLess after (ke_CreatedAt r) \<and>
         tsLe (ke_CreatedAt r) until) (k_ledger_entries d)))
       (sumSides C)"

section \<open>reservations.sql\<close>

definition reservationKey :: "string \<Rightarrow> string \<Rightarrow> crdbReservation \<Rightarrow> bool" where
  "reservationKey tenantID i r \<longleftrightarrow> kv_TenantID r = tenantID \<and> kv_ID r = i"

definition reservationStatuses :: "string list" where
  "reservationStatuses = [ReservationHeld, ReservationPartial, ReservationCommitted,
     ReservationReleased, ReservationExpired]"

definition getReservation :: "string \<Rightarrow> string \<Rightarrow> crdbReservation option query" where
  "getReservation tenantID i now scan =
     readS (\<lambda>d. find (reservationKey tenantID i) (k_reservations d))"

definition getReservationByIdempotency :: "string \<Rightarrow> string \<Rightarrow> crdbReservation option query" where
  "getReservationByIdempotency tenantID key now scan =
     readS (\<lambda>d. find (\<lambda>r. kv_TenantID r = tenantID \<and> kv_IdempotencyKey r = key) (k_reservations d))"

definition insertReservation :: "crdb_cfg \<Rightarrow> string \<Rightarrow> string \<Rightarrow> string \<Rightarrow> string \<Rightarrow> string \<Rightarrow> string \<Rightarrow>
    decimal \<Rightarrow> decimal \<Rightarrow> string \<Rightarrow> timestamptz \<Rightarrow> string \<Rightarrow> metadata \<Rightarrow> unit query" where
  "insertReservation C i tenantID key sourceAccountID reservedAccountID currency originalAmount
      outstandingAmount status expiresAt flowRunID meta now scan =
     bindE (toNumeric C originalAmount) (\<lambda>original.
     bindE (toNumeric C outstandingAmount) (\<lambda>outstanding.
     thenE (requireS (\<lambda>d. status \<in> set reservationStatuses) checkViolation)
    (thenE (requireS (\<lambda>d. \<not> exists_row (\<lambda>r. kv_ID r = i \<or> kv_IdempotencyKey r = key)
         (k_reservations d)) uniqueViolation)
    (thenE (requireS (\<lambda>d. hasAccount sourceAccountID d \<and> hasAccount reservedAccountID d \<and>
         hasFlowRun flowRunID d) foreignKeyViolation)
     (modifyS (\<lambda>d. d\<lparr>k_reservations := k_reservations d @ [\<lparr>kv_ID = i, kv_TenantID = tenantID,
        kv_IdempotencyKey = key, kv_SourceAccountID = sourceAccountID,
        kv_ReservedAccountID = reservedAccountID, kv_Currency = currency,
        kv_OriginalAmount = original, kv_OutstandingAmount = outstanding, kv_CommittedAmount = 0,
        kv_ReleasedAmount = 0, kv_Status = status, kv_ExpiresAt = expiresAt,
        kv_FlowRunID = flowRunID, kv_Metadata = meta, kv_CreatedAt = Some now,
        kv_UpdatedAt = Some now\<rparr>]\<rparr>))))))"

definition listExpiredReservations :: "timestamptz \<Rightarrow> 32 word \<Rightarrow> crdbReservation list query" where
  "listExpiredReservations expiresAt limit now scan =
     bindE (readS (\<lambda>d. sort_key kv_ExpiresAt (filter (\<lambda>r.
         kv_Status r \<in> {ReservationHeld, ReservationPartial} \<and> tsLe (kv_ExpiresAt r) expiresAt)
         (scanOrder scan (k_reservations d)))))
       (limitRows limit)"

definition listReservations :: "string \<Rightarrow> string \<Rightarrow> string \<Rightarrow> string \<Rightarrow> 32 word \<Rightarrow>
    crdbReservation list query" where
  "listReservations tenantID ownerType ownerID status limit now scan =
     bindE (readS (\<lambda>d. orderDesc (\<lambda>r. (kv_CreatedAt r, kv_ID r)) (filter (\<lambda>r.
         kv_TenantID r = tenantID \<and> exists_row (\<lambda>a. ka_ID a = kv_SourceAccountID r \<and>
           matches (ka_OwnerType a) ownerType \<and> matches (ka_OwnerID a) ownerID) (k_accounts d) \<and>
         matches (kv_Status r) status) (k_reservations d))))
       (limitRows limit)"

definition lockReservation :: "string \<Rightarrow> string \<Rightarrow> crdbReservation option query" where
  "lockReservation tenantID i now scan =
     readS (\<lambda>d. find (reservationKey tenantID i) (k_reservations d))"

definition updateReservationAmounts :: "crdb_cfg \<Rightarrow> decimal \<Rightarrow> decimal \<Rightarrow> decimal \<Rightarrow> string \<Rightarrow> string \<Rightarrow>
    string \<Rightarrow> unit query" where
  "updateReservationAmounts C outstandingAmount committedAmount releasedAmount status tenantID i now scan =
     whenS (\<lambda>d. exists_row (reservationKey tenantID i) (k_reservations d))
       (bindE (toNumeric C outstandingAmount) (\<lambda>outstanding.
        bindE (toNumeric C committedAmount) (\<lambda>committed.
        bindE (toNumeric C releasedAmount) (\<lambda>released.
        thenE (requireS (\<lambda>d. status \<in> set reservationStatuses) checkViolation)
         (modifyS (\<lambda>d. d\<lparr>k_reservations := updateWhere (reservationKey tenantID i)
            (\<lambda>r. r\<lparr>kv_OutstandingAmount := outstanding, kv_CommittedAmount := committed,
               kv_ReleasedAmount := released, kv_Status := status, kv_UpdatedAt := Some now\<rparr>)
            (k_reservations d)\<rparr>))))))"

section \<open>fx_rates.sql\<close>

definition getFXRateAt :: "string \<Rightarrow> string \<Rightarrow> string \<Rightarrow> timestamptz \<Rightarrow> crdbFxRate option query" where
  "getFXRateAt tenantID baseCurrency quoteCurrency effectiveAt now scan =
     readS (\<lambda>d. limit1 (orderDesc (\<lambda>r. (kr_EffectiveAt r, kr_ID r)) (filter (\<lambda>r.
       kr_TenantID r = tenantID \<and> kr_BaseCurrency r = baseCurrency \<and>
       kr_QuoteCurrency r = quoteCurrency \<and> tsLe (kr_EffectiveAt r) effectiveAt) (k_fx_rates d))))"

definition listFXRates :: "string \<Rightarrow> string \<Rightarrow> string \<Rightarrow> timestamptz \<Rightarrow> timestamptz \<Rightarrow> 32 word \<Rightarrow>
    crdbFxRate list query" where
  "listFXRates tenantID baseCurrency quoteCurrency since until limit now scan =
     bindE (readS (\<lambda>d. orderDesc (\<lambda>r. (kr_EffectiveAt r, kr_ID r)) (filter (\<lambda>r.
         kr_TenantID r = tenantID \<and> matches (kr_BaseCurrency r) baseCurrency \<and>
         matches (kr_QuoteCurrency r) quoteCurrency \<and>
         (since = None \<or> tsLe since (kr_EffectiveAt r)) \<and>
         (until = None \<or> tsLe (kr_EffectiveAt r) until)) (k_fx_rates d))))
       (limitRows limit)"

definition rateKey :: "string \<Rightarrow> string \<Rightarrow> string \<Rightarrow> timestamptz \<Rightarrow> string \<Rightarrow> crdbFxRate \<Rightarrow> bool" where
  "rateKey tenantID baseCurrency quoteCurrency effectiveAt source r \<longleftrightarrow>
     kr_TenantID r = tenantID \<and> kr_BaseCurrency r = baseCurrency \<and>
     kr_QuoteCurrency r = quoteCurrency \<and> kr_EffectiveAt r = effectiveAt \<and> kr_Source r = source"

text \<open>\<open>ON CONFLICT (..) DO UPDATE SET rate = excluded.rate RETURNING *\<close>.\<close>

definition upsertFXRate :: "crdb_cfg \<Rightarrow> string \<Rightarrow> string \<Rightarrow> string \<Rightarrow> string \<Rightarrow> decimal \<Rightarrow> string \<Rightarrow>
    timestamptz \<Rightarrow> crdbFxRate query" where
  "upsertFXRate C i tenantID baseCurrency quoteCurrency rate source effectiveAt now scan =
     (let same = rateKey tenantID baseCurrency quoteCurrency effectiveAt source in
      bindE (toNumeric C rate) (\<lambda>stored.
      bindE (readS (\<lambda>d. find same (k_fx_rates d))) (\<lambda>conflict.
        case conflict of
          Some row \<Rightarrow>
            thenE (modifyS (\<lambda>d. d\<lparr>k_fx_rates :=
                updateWhere same (\<lambda>r. r\<lparr>kr_Rate := stored\<rparr>) (k_fx_rates d)\<rparr>))
              (ret (row\<lparr>kr_Rate := stored\<rparr>))
        | None \<Rightarrow>
            (let row = \<lparr>kr_ID = i, kr_TenantID = tenantID, kr_BaseCurrency = baseCurrency,
               kr_QuoteCurrency = quoteCurrency, kr_Rate = stored, kr_Source = source,
               kr_EffectiveAt = effectiveAt, kr_CreatedAt = Some now\<rparr> in
             thenE (requireS (\<lambda>d. \<not> exists_row (\<lambda>r. kr_ID r = i) (k_fx_rates d)) uniqueViolation)
            (thenE (modifyS (\<lambda>d. d\<lparr>k_fx_rates := k_fx_rates d @ [row]\<rparr>))
             (ret row))))))"

section \<open>external_records.sql\<close>

text \<open>\<open>ON CONFLICT (tenant_id, source, external_ref) DO NOTHING\<close>, with the rows affected.\<close>

definition insertExternalRecord :: "crdb_cfg \<Rightarrow> string \<Rightarrow> string \<Rightarrow> string \<Rightarrow> string \<Rightarrow> decimal \<Rightarrow> string \<Rightarrow>
    timestamptz \<Rightarrow> string option \<Rightarrow> metadata \<Rightarrow> int query" where
  "insertExternalRecord C i tenantID source externalRef amount currency occurredAt accountID rawPayload
      now scan =
     bindE (toNumeric C amount) (\<lambda>stored.
     bindE (readS (\<lambda>d. exists_row (\<lambda>r. kx_TenantID r = tenantID \<and> kx_Source r = source \<and>
         kx_ExternalRef r = externalRef) (k_external_records d))) (\<lambda>conflict.
       if conflict then ret 0
       else thenE (requireS (\<lambda>d. \<not> exists_row (\<lambda>r. kx_ID r = i) (k_external_records d)) uniqueViolation)
           (thenE (modifyS (\<lambda>d. d\<lparr>k_external_records := k_external_records d @ [\<lparr>kx_ID = i,
              kx_TenantID = tenantID, kx_Source = source, kx_ExternalRef = externalRef,
              kx_Amount = stored, kx_Currency = currency, kx_OccurredAt = occurredAt,
              kx_AccountID = accountID, kx_RawPayload = rawPayload,
              kx_MatchStatus = ExternalUnmatched, kx_MatchedJournalID = None,
              kx_CreatedAt = Some now\<rparr>]\<rparr>))
            (ret 1))))"

definition listExternalRecordsForRecon :: "string \<Rightarrow> string \<Rightarrow> timestamptz \<Rightarrow> timestamptz \<Rightarrow>
    crdbExternalRecord list query" where
  "listExternalRecordsForRecon tenantID source windowStart windowEnd now scan =
     readS (\<lambda>d. sort_key kx_OccurredAt (filter (\<lambda>r. kx_TenantID r = tenantID \<and>
       kx_Source r = source \<and> tsLe windowStart (kx_OccurredAt r) \<and>
       tsLe (kx_OccurredAt r) windowEnd \<and> kx_MatchStatus r = ExternalUnmatched)
       (scanOrder scan (k_external_records d))))"

definition updateExternalRecordMatch :: "string \<Rightarrow> string option \<Rightarrow> string \<Rightarrow> string \<Rightarrow> unit query" where
  "updateExternalRecordMatch matchStatus matchedJournalID i tenantID now scan =
     whenS (\<lambda>d. exists_row (\<lambda>r. kx_ID r = i \<and> kx_TenantID r = tenantID) (k_external_records d))
       (thenE (requireS (\<lambda>d. matchStatus \<in> {ExternalUnmatched, ExternalMatched, ExternalMismatched})
          checkViolation)
       (thenE (requireS (nullOr hasJournal matchedJournalID) foreignKeyViolation)
        (modifyS (\<lambda>d. d\<lparr>k_external_records :=
           updateWhere (\<lambda>r. kx_ID r = i \<and> kx_TenantID r = tenantID)
             (\<lambda>r. r\<lparr>kx_MatchStatus := matchStatus, kx_MatchedJournalID := matchedJournalID\<rparr>)
             (k_external_records d)\<rparr>))))"

section \<open>reconciliation_batches.sql\<close>

definition completeReconBatch :: "int \<Rightarrow> int \<Rightarrow> int \<Rightarrow> int \<Rightarrow> int \<Rightarrow> string \<Rightarrow> string \<Rightarrow> unit query" where
  "completeReconBatch ingested matched mismatched missingInLedger missingInExternal i tenantID now scan =
     modifyS (\<lambda>d. d\<lparr>k_reconciliation_batches :=
       updateWhere (\<lambda>r. kc_ID r = i \<and> kc_TenantID r = tenantID)
         (\<lambda>r. r\<lparr>kc_Status := BatchCompleted, kc_CompletedAt := Some now,
            kc_IngestedCount := ingested, kc_MatchedCount := matched,
            kc_MismatchedCount := mismatched, kc_MissingInLedgerCount := missingInLedger,
            kc_MissingInExternalCount := missingInExternal\<rparr>) (k_reconciliation_batches d)\<rparr>)"

definition getReconBatch :: "string \<Rightarrow> string \<Rightarrow> crdbReconciliationBatch option query" where
  "getReconBatch tenantID i now scan =
     readS (\<lambda>d. find (\<lambda>r. kc_TenantID r = tenantID \<and> kc_ID r = i) (k_reconciliation_batches d))"

definition getReconBatchByIdempotency :: "string \<Rightarrow> string \<Rightarrow> crdbReconciliationBatch option query" where
  "getReconBatchByIdempotency tenantID key now scan =
     readS (\<lambda>d. find (\<lambda>r. kc_TenantID r = tenantID \<and> kc_IdempotencyKey r = key)
       (k_reconciliation_batches d))"

definition insertReconBatch :: "string \<Rightarrow> string \<Rightarrow> string \<Rightarrow> string \<Rightarrow> timestamptz \<Rightarrow> timestamptz \<Rightarrow>
    string \<Rightarrow> unit query" where
  "insertReconBatch i tenantID key source windowStart windowEnd actorID now scan =
     thenE (requireS (\<lambda>d. \<not> exists_row (\<lambda>r. kc_ID r = i \<or> kc_IdempotencyKey r = key)
         (k_reconciliation_batches d)) uniqueViolation)
      (modifyS (\<lambda>d. d\<lparr>k_reconciliation_batches := k_reconciliation_batches d @ [\<lparr>kc_ID = i,
         kc_TenantID = tenantID, kc_IdempotencyKey = key, kc_Source = source,
         kc_WindowStart = windowStart, kc_WindowEnd = windowEnd, kc_Status = BatchRunning,
         kc_IngestedCount = 0, kc_MatchedCount = 0, kc_MismatchedCount = 0,
         kc_MissingInLedgerCount = 0, kc_MissingInExternalCount = 0, kc_StartedAt = Some now,
         kc_CompletedAt = None, kc_ActorID = actorID\<rparr>]\<rparr>))"

definition listJournalsForRecon :: "string \<Rightarrow> string \<Rightarrow> timestamptz \<Rightarrow> timestamptz \<Rightarrow>
    crdbLedgerJournal list query" where
  "listJournalsForRecon tenantID sourceService windowStart windowEnd now scan =
     readS (\<lambda>d. sort_key kj_CreatedAt (filter (\<lambda>r. kj_TenantID r = tenantID \<and>
       kj_SourceService r = sourceService \<and> tsLe windowStart (kj_CreatedAt r) \<and>
       tsLe (kj_CreatedAt r) windowEnd) (scanOrder scan (k_ledger_journals d))))"

definition sumJournalEntries :: "crdb_cfg \<Rightarrow> string \<Rightarrow> string \<Rightarrow> string \<Rightarrow> string \<Rightarrow>
    (decimal \<times> decimal) query" where
  "sumJournalEntries C tenantID journalID accountID currency now scan =
     bindE (readS (\<lambda>d. filter (\<lambda>r. ke_TenantID r = tenantID \<and> ke_JournalID r = journalID \<and>
         ke_AccountID r = accountID \<and> ke_Currency r = currency) (k_ledger_entries d)))
       (sumSides C)"

section \<open>discrepancies.sql\<close>

definition getDiscrepancy :: "string \<Rightarrow> string \<Rightarrow> crdbDiscrepancy option query" where
  "getDiscrepancy tenantID i now scan =
     readS (\<lambda>d. find (\<lambda>r. kd_TenantID r = tenantID \<and> kd_ID r = i) (k_discrepancies d))"

definition insertDiscrepancy :: "string \<Rightarrow> string \<Rightarrow> string \<Rightarrow> string \<Rightarrow> string option \<Rightarrow> string option \<Rightarrow>
    unit query" where
  "insertDiscrepancy i tenantID batchID ty externalRecordID journalID now scan =
     thenE (requireS (\<lambda>d. ty \<in> {DiscrepancyMissingInLedger, DiscrepancyMissingInExternal,
         DiscrepancyAmountMismatch}) checkViolation)
    (thenE (requireS (\<lambda>d. \<not> exists_row (\<lambda>r. kd_ID r = i) (k_discrepancies d)) uniqueViolation)
    (thenE (requireS (\<lambda>d. exists_row (\<lambda>b. kc_ID b = batchID) (k_reconciliation_batches d) \<and>
         nullOr (\<lambda>x d. exists_row (\<lambda>r. kx_ID r = x) (k_external_records d)) externalRecordID d \<and>
         nullOr hasJournal journalID d) foreignKeyViolation)
     (modifyS (\<lambda>d. d\<lparr>k_discrepancies := k_discrepancies d @ [\<lparr>kd_ID = i, kd_TenantID = tenantID,
        kd_BatchID = batchID, kd_Type = ty, kd_ExternalRecordID = externalRecordID,
        kd_JournalID = journalID, kd_Status = DiscrepancyOpen, kd_ResolutionJournalID = None,
        kd_ResolutionNote = '''', kd_ResolvedBy = '''', kd_ResolvedAt = None,
        kd_CreatedAt = Some now\<rparr>]\<rparr>))))"

definition listDiscrepancies :: "string \<Rightarrow> string \<Rightarrow> string \<Rightarrow> 32 word \<Rightarrow> crdbDiscrepancy list query" where
  "listDiscrepancies tenantID batchID status limit now scan =
     bindE (readS (\<lambda>d. orderDesc kd_CreatedAt (filter (\<lambda>r. kd_TenantID r = tenantID \<and>
         matches (kd_BatchID r) batchID \<and> matches (kd_Status r) status)
         (scanOrder scan (k_discrepancies d)))))
       (limitRows limit)"

definition lockDiscrepancy :: "string \<Rightarrow> string \<Rightarrow> crdbDiscrepancy option query" where
  "lockDiscrepancy tenantID i now scan =
     readS (\<lambda>d. find (\<lambda>r. kd_TenantID r = tenantID \<and> kd_ID r = i) (k_discrepancies d))"

definition resolveDiscrepancyRow :: "string \<Rightarrow> string option \<Rightarrow> string \<Rightarrow> string \<Rightarrow> string \<Rightarrow> string \<Rightarrow>
    unit query" where
  "resolveDiscrepancyRow status resolutionJournalID resolutionNote resolvedBy i tenantID now scan =
     whenS (\<lambda>d. exists_row (\<lambda>r. kd_ID r = i \<and> kd_TenantID r = tenantID) (k_discrepancies d))
       (thenE (requireS (\<lambda>d. status \<in> {DiscrepancyOpen, DiscrepancyResolved, DiscrepancyIgnored})
          checkViolation)
       (thenE (requireS (nullOr hasJournal resolutionJournalID) foreignKeyViolation)
        (modifyS (\<lambda>d. d\<lparr>k_discrepancies :=
           updateWhere (\<lambda>r. kd_ID r = i \<and> kd_TenantID r = tenantID)
             (\<lambda>r. r\<lparr>kd_Status := status, kd_ResolutionJournalID := resolutionJournalID,
                kd_ResolutionNote := resolutionNote, kd_ResolvedBy := resolvedBy,
                kd_ResolvedAt := Some now\<rparr>) (k_discrepancies d)\<rparr>))))"

end
