(* ===== verification/Crdb_Tx.thy ===== *)
theory Crdb_Tx
  imports Crdb_Queries
begin

text \<open>
  The CockroachDB transaction of \<open>internal/repo/crdb/tx.go\<close>.

  \<^item> \<open>crdb_tx\<close> is an open \<open>pgx.Tx\<close>: the tables as the transaction sees them, its timestamp
    \<open>now()\<close>, and whether a statement has failed in it.
  \<^item> \<open>onTx\<close> runs a query on it. A statement that fails, for a driver error or a constraint, aborts
    the transaction: the server refuses every later statement with SQLSTATE 25P02.
  \<^item> The methods of \<open>Tx\<close> call the queries of \<open>Crdb_Queries\<close> and convert their rows. An error that
    the client finds (an invalid UUID, no row) leaves the transaction as it is.
\<close>

section \<open>Statements in a transaction\<close>

record crdb_tx =
  ct_db :: crdb
  ct_now :: us
  ct_tick :: nat
  ct_aborted :: bool

type_synonym 'a crtx = "(crdb_tx, error, 'a) exec"

abbreviation inFailedTransaction :: error where
  "inFailedTransaction \<equiv> PgError ''25P02'' ''current transaction is aborted''"

abbreviation errNoRows :: error where
  "errNoRows \<equiv> GoError ''no rows in result set''"

definition onTx :: "crdb_cfg \<Rightarrow> 'a query \<Rightarrow> 'a crtx" where
  "onTx C q t = (let n = ct_tick t; t1 = t\<lparr>ct_tick := Suc n\<rparr> in
     if ct_aborted t then (Inl inFailedTransaction, t1)
     else (case cc_fault C n of
         Some e \<Rightarrow> (Inl e, t1\<lparr>ct_aborted := True\<rparr>)
       | None \<Rightarrow> (case q (ct_now t) (cc_scan C n) (ct_db t) of
             (Inl e, d) \<Rightarrow> (Inl e, t1\<lparr>ct_aborted := True\<rparr>)
           | (Inr a, d) \<Rightarrow> (Inr a, t1\<lparr>ct_db := d\<rparr>))))"

lemma onTx_Inr [exec_simps]:
  "onTx C q t = (Inr a, t') \<longleftrightarrow> \<not> ct_aborted t \<and> cc_fault C (ct_tick t) = None \<and>
     (\<exists>d. q (ct_now t) (cc_scan C (ct_tick t)) (ct_db t) = (Inr a, d) \<and>
       t' = t\<lparr>ct_tick := Suc (ct_tick t), ct_db := d\<rparr>)"
  by (auto simp: onTx_def Let_def split: option.splits prod.splits sum.splits)

lemma onTx_Inl:
  "onTx C q t = (Inl e, t') \<Longrightarrow> ct_aborted t' \<and> ct_db t' = ct_db t \<and> ct_now t' = ct_now t"
  by (auto simp: onTx_def Let_def split: option.splits prod.splits sum.splits if_splits)

section \<open>Flows\<close>

definition GetFlowByIdempotency :: "crdb_cfg \<Rightarrow> string \<Rightarrow> string \<Rightarrow> FlowRun option crtx" where
  "GetFlowByIdempotency C tenantID key =
     bindE (onTx C (getFlowByIdempotency tenantID key)) (\<lambda>row. ret (map_option rowToFlowRun row))"

definition InsertFlowRun :: "crdb_cfg \<Rightarrow> FlowRun \<Rightarrow> unit crtx" where
  "InsertFlowRun C f = onTx C (insertFlowRun (fr_ID f) (fr_TenantID f) (fr_FlowType f)
     (fr_IdempotencyKey f) (fr_SourceService f) (fr_ActorID f) (fr_Metadata f))"

definition CompleteFlowRun :: "crdb_cfg \<Rightarrow> string \<Rightarrow> string \<Rightarrow> unit crtx" where
  "CompleteFlowRun C tenantID flowRunID = onTx C (completeFlowRun flowRunID tenantID)"

definition InsertFlowStep :: "crdb_cfg \<Rightarrow> FlowStep \<Rightarrow> unit crtx" where
  "InsertFlowStep C s = onTx C (insertFlowStep (fs_ID s) (fs_TenantID s) (fs_FlowRunID s)
     (fs_StepID s) (fs_Status s) (nullString (fs_JournalID s)) (nullString (fs_ErrorCode s)))"

definition GetFlowSteps :: "crdb_cfg \<Rightarrow> string \<Rightarrow> string \<Rightarrow> FlowStep list crtx" where
  "GetFlowSteps C tenantID flowRunID =
     bindE (onTx C (getFlowSteps tenantID flowRunID)) (\<lambda>rows. ret (map rowToFlowStep rows))"

section \<open>Accounts and balances\<close>

definition GetAccount :: "crdb_cfg \<Rightarrow> string \<Rightarrow> string \<Rightarrow> Account crtx" where
  "GetAccount C tenantID accountID =
     bindE (onTx C (getAccount tenantID accountID)) (\<lambda>row. case row of
       None \<Rightarrow> throwE (DomainError CodeAccountNotFound accountID)
     | Some r \<Rightarrow> ret (rowToAccount r))"

definition InsertAccount :: "crdb_cfg \<Rightarrow> Account \<Rightarrow> unit crtx" where
  "InsertAccount C a = onTx C (insertAccount (acc_ID a) (acc_TenantID a) (acc_OwnerType a)
     (acc_OwnerID a) (acc_AccountType a) (acc_Currency a) (acc_NormalBalance a)
     (acc_AllowNegative a) (acc_Status a))"

definition EnsureBalanceRow :: "crdb_cfg \<Rightarrow> string \<Rightarrow> string \<Rightarrow> string \<Rightarrow> unit crtx" where
  "EnsureBalanceRow C tenantID accountID currency =
     onTx C (upsertBalanceZero tenantID accountID currency)"

definition LockBalance :: "crdb_cfg \<Rightarrow> string \<Rightarrow> string \<Rightarrow> string \<Rightarrow> (decimal \<times> decimal \<times> int) crtx" where
  "LockBalance C tenantID accountID currency =
     thenE (EnsureBalanceRow C tenantID accountID currency)
       (bindE (onTx C (lockBalance tenantID accountID currency)) (\<lambda>row. case row of
          None \<Rightarrow> throwE errNoRows
        | Some r \<Rightarrow> ret (kb_PostedDebits r, kb_PostedCredits r, kb_Version r)))"

definition UpdateBalance :: "crdb_cfg \<Rightarrow> string \<Rightarrow> string \<Rightarrow> string \<Rightarrow> decimal \<Rightarrow> decimal \<Rightarrow> unit crtx" where
  "UpdateBalance C tenantID accountID currency postedDebits postedCredits =
     onTx C (updateBalance C tenantID accountID currency postedDebits postedCredits)"

section \<open>Journals, entries and events\<close>

definition InsertJournal :: "crdb_cfg \<Rightarrow> Journal \<Rightarrow> unit crtx" where
  "InsertJournal C j = onTx C (insertJournal (jrn_ID j) (jrn_TenantID j)
     (nullString (jrn_FlowRunID j)) (jrn_EventID j) (jrn_SourceService j) (jrn_SourceType j)
     (jrn_ActorID j) (jrn_Metadata j))"

definition InsertEntry :: "crdb_cfg \<Rightarrow> string \<Rightarrow> string \<Rightarrow> string \<Rightarrow> string \<Rightarrow> string \<Rightarrow> Direction \<Rightarrow>
    decimal \<Rightarrow> unit crtx" where
  "InsertEntry C tenantID entryID journalID accountID currency dir amount =
     (case parseUUID entryID of
        Inl err \<Rightarrow> throwE (GoError (''insert entry: invalid uuid '' @ entryID @ '': '' @ Error_string err))
      | Inr uid \<Rightarrow> onTx C (insertEntry C uid tenantID journalID accountID currency dir amount))"

definition InsertOutbox :: "crdb_cfg \<Rightarrow> OutboxEvent \<Rightarrow> unit crtx" where
  "InsertOutbox C e = onTx C (insertOutbox (obx_ID e) (obx_TenantID e) (obx_AggregateID e)
     (obx_EventType e) (obx_IdempotencyKey e) (obx_Payload e))"

section \<open>Reservations\<close>

definition InsertReservation :: "crdb_cfg \<Rightarrow> Reservation \<Rightarrow> unit crtx" where
  "InsertReservation C r =
     (let expires = (case res_ExpiresAt r of None \<Rightarrow> None | Some t \<Rightarrow> toTimestamptz t) in
      onTx C (insertReservation C (res_ID r) (res_TenantID r) (res_IdempotencyKey r)
        (res_SourceAccountID r) (res_ReservedAccountID r) (res_Currency r) (res_OriginalAmount r)
        (res_OutstandingAmount r) (res_Status r) expires (res_FlowRunID r) (res_Metadata r)))"

definition LockReservation :: "crdb_cfg \<Rightarrow> string \<Rightarrow> string \<Rightarrow> Reservation crtx" where
  "LockReservation C tenantID reservationID =
     bindE (onTx C (lockReservation tenantID reservationID)) (\<lambda>row. case row of
       None \<Rightarrow> throwE (DomainError CodeReservationNotFound reservationID)
     | Some r \<Rightarrow> ret (rowToReservation r))"

definition GetReservationByIdempotency :: "crdb_cfg \<Rightarrow> string \<Rightarrow> string \<Rightarrow> Reservation option crtx" where
  "GetReservationByIdempotency C tenantID key =
     bindE (onTx C (getReservationByIdempotency tenantID key))
       (\<lambda>row. ret (map_option rowToReservation row))"

definition UpdateReservationAmounts :: "crdb_cfg \<Rightarrow> string \<Rightarrow> string \<Rightarrow> decimal \<Rightarrow> decimal \<Rightarrow> decimal \<Rightarrow>
    ReservationStatus \<Rightarrow> unit crtx" where
  "UpdateReservationAmounts C tenantID reservationID outstanding committed released status =
     onTx C (updateReservationAmounts C outstanding committed released status tenantID reservationID)"

section \<open>Reconciliation\<close>

definition txExternalRecords :: "crdb_cfg \<Rightarrow> string \<Rightarrow> string \<Rightarrow> time \<Rightarrow> time \<Rightarrow> ExternalRecord list crtx" where
  "txExternalRecords C tenantID source windowStart windowEnd =
     bindE (onTx C (listExternalRecordsForRecon tenantID source (toTimestamptz windowStart)
         (toTimestamptz windowEnd))) (\<lambda>rows. ret (map rowToExternalRecord rows))"

definition txJournals :: "crdb_cfg \<Rightarrow> string \<Rightarrow> string \<Rightarrow> time \<Rightarrow> time \<Rightarrow> Journal list crtx" where
  "txJournals C tenantID source windowStart windowEnd =
     bindE (onTx C (listJournalsForRecon tenantID source (toTimestamptz windowStart)
         (toTimestamptz windowEnd))) (\<lambda>rows. ret (map rowToJournal rows))"

definition GetReconBatchByIdempotency :: "crdb_cfg \<Rightarrow> string \<Rightarrow> string \<Rightarrow>
    ReconciliationBatch option crtx" where
  "GetReconBatchByIdempotency C tenantID key =
     bindE (onTx C (getReconBatchByIdempotency tenantID key))
       (\<lambda>row. ret (map_option rowToReconBatch row))"

definition InsertReconBatch :: "crdb_cfg \<Rightarrow> ReconciliationBatch \<Rightarrow> unit crtx" where
  "InsertReconBatch C b = onTx C (insertReconBatch (rb_ID b) (rb_TenantID b) (rb_IdempotencyKey b)
     (rb_Source b) (toTimestamptz (rb_WindowStart b)) (toTimestamptz (rb_WindowEnd b))
     (rb_ActorID b))"

definition CompleteReconBatch :: "crdb_cfg \<Rightarrow> ReconciliationBatch \<Rightarrow> unit crtx" where
  "CompleteReconBatch C b = onTx C (completeReconBatch (sint (rb_IngestedCount b))
     (sint (rb_MatchedCount b)) (sint (rb_MismatchedCount b)) (sint (rb_MissingInLedgerCount b))
     (sint (rb_MissingInExternalCount b)) (rb_ID b) (rb_TenantID b))"

definition UpdateExternalRecordMatch :: "crdb_cfg \<Rightarrow> string \<Rightarrow> string \<Rightarrow> ExternalRecordStatus \<Rightarrow>
    string \<Rightarrow> unit crtx" where
  "UpdateExternalRecordMatch C tenantID i status journalID =
     onTx C (updateExternalRecordMatch status (nullString journalID) i tenantID)"

definition SumJournalEntries :: "crdb_cfg \<Rightarrow> string \<Rightarrow> string \<Rightarrow> string \<Rightarrow> string \<Rightarrow>
    (decimal \<times> decimal) crtx" where
  "SumJournalEntries C tenantID journalID accountID currency =
     onTx C (sumJournalEntries C tenantID journalID accountID currency)"

definition InsertDiscrepancy :: "crdb_cfg \<Rightarrow> Discrepancy \<Rightarrow> unit crtx" where
  "InsertDiscrepancy C d = onTx C (insertDiscrepancy (dis_ID d) (dis_TenantID d) (dis_BatchID d)
     (dis_Type d) (nullString (dis_ExternalRecordID d)) (nullString (dis_JournalID d)))"

definition LockDiscrepancy :: "crdb_cfg \<Rightarrow> string \<Rightarrow> string \<Rightarrow> Discrepancy crtx" where
  "LockDiscrepancy C tenantID i =
     bindE (onTx C (lockDiscrepancy tenantID i)) (\<lambda>row. case row of
       None \<Rightarrow> throwE (DomainError CodeDiscrepancyNotFound i)
     | Some r \<Rightarrow> ret (rowToDiscrepancy r))"

definition ResolveDiscrepancyRow :: "crdb_cfg \<Rightarrow> Discrepancy \<Rightarrow> unit crtx" where
  "ResolveDiscrepancyRow C d = onTx C (resolveDiscrepancyRow (dis_Status d)
     (nullString (dis_ResolutionJournalID d)) (dis_ResolutionNote d) (dis_ResolvedBy d) (dis_ID d)
     (dis_TenantID d))"

section \<open>The method table\<close>

definition crdbTx :: "crdb_cfg \<Rightarrow> crdb_tx tx_ops" where
  "crdbTx C = \<lparr>tx_GetFlowByIdempotency = GetFlowByIdempotency C, tx_GetAccount = GetAccount C,
     tx_LockBalance = LockBalance C, tx_EnsureBalanceRow = EnsureBalanceRow C,
     tx_UpdateBalance = UpdateBalance C, tx_InsertAccount = InsertAccount C,
     tx_InsertFlowRun = InsertFlowRun C, tx_CompleteFlowRun = CompleteFlowRun C,
     tx_InsertJournal = InsertJournal C, tx_InsertEntry = InsertEntry C,
     tx_InsertFlowStep = InsertFlowStep C, tx_InsertOutbox = InsertOutbox C,
     tx_GetFlowSteps = GetFlowSteps C, tx_InsertReservation = InsertReservation C,
     tx_LockReservation = LockReservation C,
     tx_GetReservationByIdempotency = GetReservationByIdempotency C,
     tx_UpdateReservationAmounts = UpdateReservationAmounts C,
     tx_GetReconBatchByIdempotency = GetReconBatchByIdempotency C,
     tx_InsertReconBatch = InsertReconBatch C, tx_CompleteReconBatch = CompleteReconBatch C,
     tx_ListExternalRecordsForRecon = txExternalRecords C,
     tx_ListJournalsForRecon = txJournals C,
     tx_UpdateExternalRecordMatch = UpdateExternalRecordMatch C,
     tx_SumJournalEntries = SumJournalEntries C, tx_InsertDiscrepancy = InsertDiscrepancy C,
     tx_LockDiscrepancy = LockDiscrepancy C, tx_ResolveDiscrepancyRow = ResolveDiscrepancyRow C\<rparr>"

lemma crdbTx_simps [simp]:
  "tx_GetFlowByIdempotency (crdbTx C) = GetFlowByIdempotency C"
  "tx_GetAccount (crdbTx C) = GetAccount C"
  "tx_LockBalance (crdbTx C) = LockBalance C"
  "tx_EnsureBalanceRow (crdbTx C) = EnsureBalanceRow C"
  "tx_UpdateBalance (crdbTx C) = UpdateBalance C"
  "tx_InsertAccount (crdbTx C) = InsertAccount C"
  "tx_InsertFlowRun (crdbTx C) = InsertFlowRun C"
  "tx_CompleteFlowRun (crdbTx C) = CompleteFlowRun C"
  "tx_InsertJournal (crdbTx C) = InsertJournal C"
  "tx_InsertEntry (crdbTx C) = InsertEntry C"
  "tx_InsertFlowStep (crdbTx C) = InsertFlowStep C"
  "tx_InsertOutbox (crdbTx C) = InsertOutbox C"
  "tx_GetFlowSteps (crdbTx C) = GetFlowSteps C"
  "tx_InsertReservation (crdbTx C) = InsertReservation C"
  "tx_LockReservation (crdbTx C) = LockReservation C"
  "tx_GetReservationByIdempotency (crdbTx C) = GetReservationByIdempotency C"
  "tx_UpdateReservationAmounts (crdbTx C) = UpdateReservationAmounts C"
  "tx_GetReconBatchByIdempotency (crdbTx C) = GetReconBatchByIdempotency C"
  "tx_InsertReconBatch (crdbTx C) = InsertReconBatch C"
  "tx_CompleteReconBatch (crdbTx C) = CompleteReconBatch C"
  "tx_ListExternalRecordsForRecon (crdbTx C) = txExternalRecords C"
  "tx_ListJournalsForRecon (crdbTx C) = txJournals C"
  "tx_UpdateExternalRecordMatch (crdbTx C) = UpdateExternalRecordMatch C"
  "tx_SumJournalEntries (crdbTx C) = SumJournalEntries C"
  "tx_InsertDiscrepancy (crdbTx C) = InsertDiscrepancy C"
  "tx_LockDiscrepancy (crdbTx C) = LockDiscrepancy C"
  "tx_ResolveDiscrepancyRow (crdbTx C) = ResolveDiscrepancyRow C"
  by (simp_all add: crdbTx_def)

end
