(* ===== verification/Crdb_Laws.thy ===== *)
theory Crdb_Laws
  imports Crdb_Tx
begin

text \<open>
  The CockroachDB transaction against the contract \<open>ledger_tx\<close>. \<open>crdbView\<close> reads the ledger off
  the tables. The contract speaks of exact amounts, so it holds where the DECIMAL columns keep
  every value they accept (\<open>exactNumeric\<close>); \<open>strictCfg\<close> is the database that refuses the values
  it would have to round. A database that rounds behaves like the strict one on values with at
  most 18 places: \<open>Agree\<close> and \<open>Crdb_Grid\<close> carry this over to whole flows.
\<close>

section \<open>The ledger in the tables\<close>

definition crdbEntryView :: "crdbLedgerEntry \<Rightarrow> posted_entry" where
  "crdbEntryView r = (ke_TenantID r, ke_JournalID r, \<lparr>ent_AccountID = ke_AccountID r,
     ent_Currency = ke_Currency r, ent_Direction = ke_Direction r, ent_Amount = ke_Amount r\<rparr>)"

definition crdbView :: "crdb \<Rightarrow> ledger_view" where
  "crdbView d = \<lparr>v_account = (\<lambda>(tn, a). map_option rowToAccount
       (find (\<lambda>r. ka_TenantID r = tn \<and> ka_ID r = a) (k_accounts d))),
     v_balance = (\<lambda>(tn, a, c). map_option (\<lambda>r. (kb_PostedDebits r, kb_PostedCredits r))
       (find (balanceKey tn a c) (k_account_balances d))),
     v_journals = map (\<lambda>r. (kj_TenantID r, kj_ID r, kj_EventID r)) (k_ledger_journals d),
     v_entries = map crdbEntryView (k_ledger_entries d),
     v_flow = (\<lambda>(tn, key). map_option (\<lambda>r. (kf_ID r, kf_Status r))
       (find (\<lambda>r. kf_TenantID r = tn \<and> kf_IdempotencyKey r = key) (k_flow_runs d))),
     v_steps = (\<lambda>(tn, fid). map (\<lambda>r. stepInfo (rowToFlowStep r))
       (filter (\<lambda>r. ks_TenantID r = tn \<and> ks_FlowRunID r = fid) (k_flow_steps d))),
     v_reservation = (\<lambda>(tn, rid). map_option (\<lambda>r. coreOf (rowToReservation r))
       (find (reservationKey tn rid) (k_reservations d))),
     v_outbox = map (\<lambda>r. (ko_TenantID r, ko_AggregateID r, ko_EventType r, ko_IdempotencyKey r))
       (k_outbox_events d)\<rparr>"

text \<open>Identifiers of reservations and flows, and idempotency keys of flows, are unique.\<close>

definition crdbKeys :: "crdb \<Rightarrow> bool" where
  "crdbKeys d \<longleftrightarrow> distinct (map kv_ID (k_reservations d)) \<and> distinct (map kf_ID (k_flow_runs d)) \<and>
     distinct (map kf_IdempotencyKey (k_flow_runs d))"

definition exactNumeric :: "crdb_cfg \<Rightarrow> bool" where
  "exactNumeric C \<longleftrightarrow> (\<forall>x y. cc_numeric C x = Some y \<longrightarrow> y = x)"

definition txView :: "crdb_tx \<Rightarrow> ledger_view" where
  "txView t = crdbView (ct_db t)"

definition txInv :: "crdb_cfg \<Rightarrow> crdb_tx \<Rightarrow> bool" where
  "txInv C t \<longleftrightarrow> exactNumeric C \<and> crdbKeys (ct_db t)"

lemma exactNumericD: "exactNumeric C \<Longrightarrow> cc_numeric C x = Some y \<Longrightarrow> y = x"
  by (simp add: exactNumeric_def)

lemma toNumeric_exact:
  "exactNumeric C \<Longrightarrow>
     toNumeric C x d = (Inr y, d') \<longleftrightarrow> cc_numeric C x \<noteq> None \<and> y = x \<and> d' = d"
  by (auto simp: toNumeric_Inr dest: exactNumericD)

lemma crdbView_sel:
  "v_account (crdbView d) (tn, a) = map_option rowToAccount
     (find (\<lambda>r. ka_TenantID r = tn \<and> ka_ID r = a) (k_accounts d))"
  "v_balance (crdbView d) (tn, a, c) = map_option (\<lambda>r. (kb_PostedDebits r, kb_PostedCredits r))
     (find (balanceKey tn a c) (k_account_balances d))"
  "v_flow (crdbView d) (tn, key) = map_option (\<lambda>r. (kf_ID r, kf_Status r))
     (find (\<lambda>r. kf_TenantID r = tn \<and> kf_IdempotencyKey r = key) (k_flow_runs d))"
  "v_steps (crdbView d) (tn, fid) = map (\<lambda>r. stepInfo (rowToFlowStep r))
     (filter (\<lambda>r. ks_TenantID r = tn \<and> ks_FlowRunID r = fid) (k_flow_steps d))"
  "v_reservation (crdbView d) (tn, rid) = map_option (\<lambda>r. coreOf (rowToReservation r))
     (find (reservationKey tn rid) (k_reservations d))"
  by (simp_all add: crdbView_def)

text \<open>Changing other tables.\<close>

lemma crdbView_other [simp]:
  "crdbView (d\<lparr>k_reconciliation_batches := b\<rparr>) = crdbView d"
  "crdbView (d\<lparr>k_external_records := x\<rparr>) = crdbView d"
  "crdbView (d\<lparr>k_discrepancies := y\<rparr>) = crdbView d"
  "crdbView (d\<lparr>k_balance_snapshots := n\<rparr>) = crdbView d"
  "crdbView (d\<lparr>k_fx_rates := f\<rparr>) = crdbView d"
  by (simp_all add: crdbView_def)

lemma crdbKeys_other [simp]:
  "crdbKeys (d\<lparr>k_reconciliation_batches := b\<rparr>) = crdbKeys d"
  "crdbKeys (d\<lparr>k_external_records := x\<rparr>) = crdbKeys d"
  "crdbKeys (d\<lparr>k_discrepancies := y\<rparr>) = crdbKeys d"
  "crdbKeys (d\<lparr>k_balance_snapshots := n\<rparr>) = crdbKeys d"
  "crdbKeys (d\<lparr>k_fx_rates := f\<rparr>) = crdbKeys d"
  "crdbKeys (d\<lparr>k_accounts := a\<rparr>) = crdbKeys d"
  "crdbKeys (d\<lparr>k_account_balances := bs\<rparr>) = crdbKeys d"
  "crdbKeys (d\<lparr>k_ledger_journals := js\<rparr>) = crdbKeys d"
  "crdbKeys (d\<lparr>k_ledger_entries := es\<rparr>) = crdbKeys d"
  "crdbKeys (d\<lparr>k_flow_steps := ss\<rparr>) = crdbKeys d"
  "crdbKeys (d\<lparr>k_outbox_events := os\<rparr>) = crdbKeys d"
  by (simp_all add: crdbKeys_def)

text \<open>Queries that leave the ledger as it is.\<close>

definition quiet :: "'a query \<Rightarrow> bool" where
  "quiet q \<longleftrightarrow> (\<forall>now scan d a d'. q now scan d = (Inr a, d') \<longrightarrow>
     crdbView d' = crdbView d \<and> (crdbKeys d \<longrightarrow> crdbKeys d'))"

named_theorems quiet_intros \<open>queries that leave the ledger as it is\<close>

lemma quiet_recon [quiet_intros]:
  "quiet (getReconBatch tn i)"
  "quiet (getReconBatchByIdempotency tn key)"
  "quiet (insertReconBatch i tn key src ws we act)"
  "quiet (completeReconBatch n1 n2 n3 n4 n5 i tn)"
  "quiet (listExternalRecordsForRecon tn src ws we)"
  "quiet (listJournalsForRecon tn src ws we)"
  "quiet (updateExternalRecordMatch ms jid i tn)"
  "quiet (insertDiscrepancy i tn b ty x j)"
  "quiet (getDiscrepancy tn i)"
  "quiet (lockDiscrepancy tn i)"
  "quiet (listDiscrepancies tn b st lm)"
  "quiet (resolveDiscrepancyRow st jid note who i tn)"
  by (auto simp: quiet_def exec_simps getReconBatch_def getReconBatchByIdempotency_def
    insertReconBatch_def completeReconBatch_def listExternalRecordsForRecon_def
    listJournalsForRecon_def updateExternalRecordMatch_def insertDiscrepancy_def
    getDiscrepancy_def lockDiscrepancy_def listDiscrepancies_def resolveDiscrepancyRow_def
    split: if_splits)

lemma quiet_reads [quiet_intros]:
  "quiet (getAccount tn a)"
  "quiet (getBalance tn a c)"
  "quiet (lockBalance tn a c)"
  "quiet (getFlowByID tn fid)"
  "quiet (getFlowByIdempotency tn key)"
  "quiet (getFlowSteps tn fid)"
  "quiet (listAccountActivity tn a c ts us lm)"
  "quiet (listPendingOutbox lm)"
  "quiet (getLatestSnapshotBefore tn a c ts)"
  "quiet (listAllBalancesForTenant tn)"
  "quiet (listTenantsDueForSnapshot ts lm)"
  "quiet (getReservation tn rid)"
  "quiet (getReservationByIdempotency tn key)"
  "quiet (lockReservation tn rid)"
  "quiet (listExpiredReservations ts lm)"
  "quiet (listReservations tn ot oi st lm)"
  "quiet (getFXRateAt tn b q ts)"
  "quiet (listFXRates tn b q ts us lm)"
  by (simp_all add: quiet_def exec_simps getAccount_def getBalance_def lockBalance_def
    getFlowByID_def getFlowByIdempotency_def getFlowSteps_def listAccountActivity_def
    listPendingOutbox_def getLatestSnapshotBefore_def listAllBalancesForTenant_def
    listTenantsDueForSnapshot_def getReservation_def getReservationByIdempotency_def
    lockReservation_def listExpiredReservations_def listReservations_def getFXRateAt_def
    listFXRates_def)

lemma quiet_updates [quiet_intros]:
  "quiet (insertSnapshot C i tn a c pd pc ver ts)"
  "quiet (pruneSnapshotsOlderThan ts lm)"
  "quiet (upsertFXRate C i tn b q rate src ts)"
  "quiet (insertExternalRecord C i tn src ref amt c ts acct raw)"
  "quiet (sumEntriesBetween C tn a c ts us)"
  "quiet (sumJournalEntries C tn j a c)"
  by (auto simp: quiet_def exec_simps insertSnapshot_def pruneSnapshotsOlderThan_def
    upsertFXRate_def insertExternalRecord_def sumEntriesBetween_def sumJournalEntries_def
    sumSides_def Let_def split: if_splits option.splits)

lemma quiet_outbox [quiet_intros]:
  "quiet (incrementOutboxAttempts i)"
  "quiet (markOutboxPublished i)"
  by (auto simp: quiet_def exec_simps incrementOutboxAttempts_def markOutboxPublished_def
    crdbView_def map_updateWhere)

lemma quietD: "quiet q \<Longrightarrow> q now scan d = (Inr a, d') \<Longrightarrow>
    crdbView d' = crdbView d \<and> (crdbKeys d \<longrightarrow> crdbKeys d')"
  by (simp add: quiet_def)

lemma onTx_quiet:
  "quiet q \<Longrightarrow> txInv C t \<Longrightarrow> onTx C q t = (Inr a, t') \<Longrightarrow> txInv C t' \<and> txView t' = txView t"
  by (auto simp: exec_simps txInv_def txView_def dest: quietD)

section \<open>The contract\<close>

lemmas tx_defs = txInv_def txView_def

lemma crdb_GetFlowByIdempotency_law:
  assumes "txInv C t" and "GetFlowByIdempotency C tn key t = (Inr fo, t')"
  shows "txInv C t' \<and> txView t' = txView t \<and>
    v_flow (txView t) (tn, key) = map_option (\<lambda>f. (fr_ID f, fr_Status f)) fo"
  using assms
  by (auto simp: GetFlowByIdempotency_def getFlowByIdempotency_def exec_simps tx_defs crdbView_sel
    rowToFlowRun_def option.map_comp comp_def)

lemma crdb_GetAccount_law:
  assumes "txInv C t" and "GetAccount C tn a t = (Inr acc, t')"
  shows "txInv C t' \<and> txView t' = txView t \<and> v_account (txView t) (tn, a) = Some acc"
  using assms
  by (auto simp: GetAccount_def getAccount_def exec_simps tx_defs crdbView_sel split: option.splits)

lemma exists_row_None: "\<not> exists_row P rows \<longleftrightarrow> find P rows = None"
  by (auto simp: exists_row_def list_ex_iff find_None_iff)

lemma balanceKey_simps [simp]:
  "balanceKey tn a c \<lparr>kb_TenantID = tn', kb_AccountID = a', kb_Currency = c', kb_PostedDebits = x,
     kb_PostedCredits = y, kb_Version = v, kb_UpdatedAt = u\<rparr> \<longleftrightarrow> tn' = tn \<and> a' = a \<and> c' = c"
  by (auto simp: balanceKey_def)

lemma upsertBalanceZero_law:
  assumes "upsertBalanceZero tn a c now scan d = (Inr u, d')"
  shows "crdbView d' = (crdbView d)\<lparr>v_balance :=
      (v_balance (crdbView d))((tn, a, c) \<mapsto> balanceOf (crdbView d) (tn, a, c))\<rparr> \<and>
    (crdbKeys d \<longrightarrow> crdbKeys d')"
proof (cases "find (balanceKey tn a c) (k_account_balances d)")
  case None
  define r1 where "r1 = \<lparr>kb_TenantID = tn, kb_AccountID = a, kb_Currency = c,
    kb_PostedDebits = 0, kb_PostedCredits = 0, kb_Version = 0, kb_UpdatedAt = Some now\<rparr>"
  have d': "d' = d\<lparr>k_account_balances := k_account_balances d @ [r1]\<rparr>"
    using assms None exists_row_None [of "balanceKey tn a c" "k_account_balances d"]
    by (auto simp: upsertBalanceZero_def exec_simps r1_def split: if_splits)
  have "v_balance (crdbView d') = (v_balance (crdbView d))((tn, a, c) \<mapsto> (0, 0))"
    using None by (auto simp: crdbView_def d' find_append r1_def fun_eq_iff split: option.splits)
  with None show ?thesis
    by (simp add: balanceOf_def crdbView_sel) (simp add: crdbView_def d' crdbKeys_def)
next
  case (Some r)
  then have "d' = d"
    using assms exists_row_None [of "balanceKey tn a c" "k_account_balances d"]
    by (auto simp: upsertBalanceZero_def exec_simps split: if_splits)
  with Some show ?thesis by (simp add: balanceOf_def crdbView_sel fun_upd_idem)
qed

lemma crdb_LockBalance_law:
  assumes "txInv C t" and "LockBalance C tn a c t = (Inr (d, cr, ver), t')"
  shows "txInv C t' \<and> (d, cr) = balanceOf (txView t) (tn, a, c) \<and>
    txView t' = (txView t)\<lparr>v_balance := (v_balance (txView t))((tn, a, c) \<mapsto> (d, cr))\<rparr>"
proof -
  obtain d1 now scan r where u: "upsertBalanceZero tn a c now scan (ct_db t) = (Inr (), d1)" and
    f: "find (balanceKey tn a c) (k_account_balances d1) = Some r" and
    r: "d = kb_PostedDebits r" "cr = kb_PostedCredits r" and t': "ct_db t' = d1"
    using assms(2)
    by (auto simp: LockBalance_def EnsureBalanceRow_def lockBalance_def exec_simps split: option.splits)
  note law = upsertBalanceZero_law [OF u]
  have "v_balance (crdbView d1) (tn, a, c) = Some (d, cr)" by (simp add: crdbView_sel f r)
  then have "balanceOf (crdbView (ct_db t)) (tn, a, c) = (d, cr)" using law by simp
  with law assms(1) t' show ?thesis by (simp add: tx_defs)
qed

lemma updateBalance_law:
  assumes "exactNumeric C" and "v_balance (crdbView d0) (tn, a, c) \<noteq> None"
    and "updateBalance C tn a c d cr now scan d0 = (Inr u, d')"
  shows "crdbView d' = (crdbView d0)\<lparr>v_balance := (v_balance (crdbView d0))((tn, a, c) \<mapsto> (d, cr))\<rparr> \<and>
    (crdbKeys d0 \<longrightarrow> crdbKeys d')"
proof -
  define upd where "upd = (\<lambda>r :: crdbAccountBalance. r\<lparr>kb_PostedDebits := d, kb_PostedCredits := cr,
    kb_Version := kb_Version r + 1, kb_UpdatedAt := Some now\<rparr>)"
  have "find (balanceKey tn a c) (k_account_balances d0) \<noteq> None"
    using assms(2) by (simp add: crdbView_sel)
  then have d': "d' = d0\<lparr>k_account_balances := updateWhere (balanceKey tn a c) upd (k_account_balances d0)\<rparr>"
    using assms(1,3) exists_row_None [of "balanceKey tn a c" "k_account_balances d0"]
    by (auto simp: updateBalance_def upd_def toNumeric_exact exec_simps simp del: toNumeric_Inr split: if_splits)
  then have rows: "k_account_balances d' = updateWhere (balanceKey tn a c) upd (k_account_balances d0)"
    by simp
  have same: "balanceKey tn' a' c' (upd r) = balanceKey tn' a' c' r" for tn' a' c' r
    by (simp add: balanceKey_def upd_def)
  have key: "balanceKey tn' a' c' r \<Longrightarrow> balanceKey tn a c r \<longleftrightarrow> tn' = tn \<and> a' = a \<and> c' = c" for tn' a' c' r
    by (auto simp: balanceKey_def)
  have "v_balance (crdbView d') = (v_balance (crdbView d0))((tn, a, c) \<mapsto> (d, cr))"
  proof (rule ext)
    fix k :: bal_key
    obtain tn' a' c' where k: "k = (tn', a', c')" by (cases k)
    have "find (balanceKey tn' a' c') (k_account_balances d') = (if tn' = tn \<and> a' = a \<and> c' = c
        then map_option upd (find (balanceKey tn' a' c') (k_account_balances d0))
        else find (balanceKey tn' a' c') (k_account_balances d0))"
      unfolding rows by (rule find_updateWhere_if, rule same, rule key)
    then show "v_balance (crdbView d') k = ((v_balance (crdbView d0))((tn, a, c) \<mapsto> (d, cr))) k"
      using assms(2) by (auto simp: k crdbView_sel upd_def)
  qed
  then have "crdbView d' = (crdbView d0)\<lparr>v_balance := (v_balance (crdbView d0))((tn, a, c) \<mapsto> (d, cr))\<rparr>"
    by (simp add: crdbView_def d')
  then show ?thesis by (simp add: d')
qed

lemma crdb_UpdateBalance_law:
  assumes "txInv C t" and "v_balance (txView t) (tn, a, c) \<noteq> None"
    and "UpdateBalance C tn a c d cr t = (Inr u, t')"
  shows "txInv C t' \<and>
    txView t' = (txView t)\<lparr>v_balance := (v_balance (txView t))((tn, a, c) \<mapsto> (d, cr))\<rparr>"
proof -
  obtain d1 now scan where "updateBalance C tn a c d cr now scan (ct_db t) = (Inr u, d1)" "ct_db t' = d1"
    using assms(3) by (auto simp: UpdateBalance_def exec_simps)
  with updateBalance_law [OF _ _ this(1)] assms(1,2) show ?thesis by (simp add: tx_defs)
qed

lemma crdb_InsertAccount_law:
  assumes "txInv C t" and "InsertAccount C acc t = (Inr u, t')"
  shows "txInv C t' \<and> v_account (txView t) (acc_TenantID acc, acc_ID acc) = None \<and>
    (\<exists>ct. txView t' = (txView t)\<lparr>v_account := (v_account (txView t))
      ((acc_TenantID acc, acc_ID acc) \<mapsto> acc\<lparr>acc_CreatedAt := ct\<rparr>)\<rparr>)"
proof -
  let ?P = "\<lambda>r. ka_ID r = acc_ID acc \<or> ka_TenantID r = acc_TenantID acc \<and>
    ka_OwnerType r = acc_OwnerType acc \<and> ka_OwnerID r = acc_OwnerID acc \<and>
    ka_AccountType r = acc_AccountType acc \<and> ka_Currency r = acc_Currency acc"
  define row where "row = \<lparr>ka_ID = acc_ID acc, ka_TenantID = acc_TenantID acc,
    ka_OwnerType = acc_OwnerType acc, ka_OwnerID = acc_OwnerID acc,
    ka_AccountType = acc_AccountType acc, ka_Currency = acc_Currency acc,
    ka_NormalBalance = acc_NormalBalance acc, ka_AllowNegative = acc_AllowNegative acc,
    ka_Status = acc_Status acc, ka_CreatedAt = Some (ct_now t)\<rparr>"
  let ?d = "ct_db t" let ?ct = "timestamptzToTime (Some (ct_now t))"
  have d': "ct_db t' = ?d\<lparr>k_accounts := k_accounts ?d @ [row]\<rparr>" and
    fresh: "\<not> exists_row ?P (k_accounts ?d)"
    using assms(2) by (simp_all add: InsertAccount_def insertAccount_def exec_simps row_def)
  have row: "rowToAccount row = acc\<lparr>acc_CreatedAt := ?ct\<rparr>"
    by (simp add: rowToAccount_def row_def)
  have none: "find (\<lambda>r. ka_TenantID r = tn \<and> ka_ID r = acc_ID acc) (k_accounts ?d) = None" for tn
    by (rule exists_row_find [OF fresh]) auto
  have "v_account (crdbView (ct_db t')) = (v_account (crdbView ?d))
      ((acc_TenantID acc, acc_ID acc) \<mapsto> acc\<lparr>acc_CreatedAt := ?ct\<rparr>)"
    using none row
    by (auto simp: crdbView_def d' find_append fun_eq_iff row_def split: option.splits)
  then have "crdbView (ct_db t') = (crdbView ?d)\<lparr>v_account := (v_account (crdbView ?d))
      ((acc_TenantID acc, acc_ID acc) \<mapsto> acc\<lparr>acc_CreatedAt := ?ct\<rparr>)\<rparr>"
    by (simp add: crdbView_def d')
  moreover have "v_account (crdbView ?d) (acc_TenantID acc, acc_ID acc) = None"
    by (simp add: crdbView_sel none)
  ultimately show ?thesis using assms(1) by (auto simp: tx_defs d')
qed

lemma crdb_InsertFlowRun_law:
  assumes "txInv C t" and "InsertFlowRun C f t = (Inr u, t')"
  shows "txInv C t' \<and> txView t' = (txView t)\<lparr>v_flow :=
    (v_flow (txView t))((fr_TenantID f, fr_IdempotencyKey f) \<mapsto> (fr_ID f, FlowRunning))\<rparr>"
proof -
  let ?P = "\<lambda>r. kf_ID r = fr_ID f \<or> kf_IdempotencyKey r = fr_IdempotencyKey f"
  let ?d = "ct_db t"
  obtain row where d': "ct_db t' = ?d\<lparr>k_flow_runs := k_flow_runs ?d @ [row]\<rparr>" and
    fresh: "\<not> exists_row ?P (k_flow_runs ?d)" and
    row: "kf_ID row = fr_ID f" "kf_TenantID row = fr_TenantID f" "kf_Status row = FlowRunning"
      "kf_IdempotencyKey row = fr_IdempotencyKey f"
    using assms(2) by (fastforce simp: InsertFlowRun_def insertFlowRun_def exec_simps)
  have none: "find (\<lambda>r. kf_TenantID r = tn \<and> kf_IdempotencyKey r = fr_IdempotencyKey f)
      (k_flow_runs ?d) = None" for tn
    by (rule exists_row_find [OF fresh]) auto
  have "v_flow (crdbView (ct_db t')) = (v_flow (crdbView ?d))
      ((fr_TenantID f, fr_IdempotencyKey f) \<mapsto> (fr_ID f, FlowRunning))"
    using none by (auto simp: crdbView_def d' find_append fun_eq_iff row split: option.splits)
  then have "crdbView (ct_db t') = (crdbView ?d)\<lparr>v_flow := (v_flow (crdbView ?d))
      ((fr_TenantID f, fr_IdempotencyKey f) \<mapsto> (fr_ID f, FlowRunning))\<rparr>"
    by (simp add: crdbView_def d')
  moreover have "crdbKeys ?d \<Longrightarrow> crdbKeys (ct_db t')"
    using fresh by (auto simp: crdbKeys_def d' row exists_row_def list_ex_iff)
  ultimately show ?thesis using assms(1) by (simp add: tx_defs)
qed

lemma crdb_CompleteFlowRun_law:
  assumes "txInv C t" and "CompleteFlowRun C tn fid t = (Inr u, t')"
  shows "txInv C t' \<and> txView t' = (txView t)\<lparr>v_flow := completeFlow tn fid (v_flow (txView t))\<rparr>"
proof -
  define upd where "upd = (\<lambda>r :: crdbFlowRun. r\<lparr>kf_Status := FlowCompleted, kf_CompletedAt := Some (ct_now t)\<rparr>)"
  let ?P = "\<lambda>r. kf_ID r = fid \<and> kf_TenantID r = tn"
  let ?d = "ct_db t"
  have d': "ct_db t' = ?d\<lparr>k_flow_runs := updateWhere ?P upd (k_flow_runs ?d)\<rparr>"
    using assms(2) by (auto simp: CompleteFlowRun_def completeFlowRun_def exec_simps upd_def)
  have same: "kf_ID (upd r) = kf_ID r" "kf_TenantID (upd r) = kf_TenantID r"
    "kf_IdempotencyKey (upd r) = kf_IdempotencyKey r" "kf_Status (upd r) = FlowCompleted" for r
    by (simp_all add: upd_def)
  have "find (\<lambda>r. kf_TenantID r = tn' \<and> kf_IdempotencyKey r = key) (k_flow_runs (ct_db t')) =
      map_option (\<lambda>r. if ?P r then upd r else r)
        (find (\<lambda>r. kf_TenantID r = tn' \<and> kf_IdempotencyKey r = key) (k_flow_runs ?d))" for tn' key
    by (simp add: d' find_updateWhere same)
  then have "v_flow (crdbView (ct_db t')) = completeFlow tn fid (v_flow (crdbView ?d))"
    by (auto simp: crdbView_def completeFlow_def fun_eq_iff same option.map_comp comp_def
      dest!: find_SomeD split: option.splits)
  then have "crdbView (ct_db t') = (crdbView ?d)\<lparr>v_flow := completeFlow tn fid (v_flow (crdbView ?d))\<rparr>"
    by (simp add: crdbView_def d')
  with assms(1) show ?thesis by (simp add: tx_defs d' crdbKeys_def map_updateWhere same)
qed

lemma crdb_append_laws:
  assumes "txInv C t"
  shows "InsertJournal C j t = (Inr u, t') \<Longrightarrow> txInv C t' \<and> txView t' = (txView t)\<lparr>v_journals :=
      v_journals (txView t) @ [(jrn_TenantID j, jrn_ID j, jrn_EventID j)]\<rparr>"
    and "InsertEntry C tn eid jid a c dir amt t = (Inr u, t') \<Longrightarrow> txInv C t' \<and>
      txView t' = (txView t)\<lparr>v_entries := v_entries (txView t) @
        [(tn, jid, \<lparr>ent_AccountID = a, ent_Currency = c, ent_Direction = dir, ent_Amount = amt\<rparr>)]\<rparr>"
    and "InsertFlowStep C s t = (Inr u, t') \<Longrightarrow> txInv C t' \<and> txView t' = (txView t)\<lparr>v_steps :=
      (v_steps (txView t))((fs_TenantID s, fs_FlowRunID s) :=
        v_steps (txView t) (fs_TenantID s, fs_FlowRunID s) @ [stepInfo s])\<rparr>"
    and "InsertOutbox C e t = (Inr u, t') \<Longrightarrow> txInv C t' \<and> txView t' = (txView t)\<lparr>v_outbox :=
      v_outbox (txView t) @ [(obx_TenantID e, obx_AggregateID e, obx_EventType e, obx_IdempotencyKey e)]\<rparr>"
proof -
  show "InsertJournal C j t = (Inr u, t') \<Longrightarrow> txInv C t' \<and> txView t' = (txView t)\<lparr>v_journals :=
      v_journals (txView t) @ [(jrn_TenantID j, jrn_ID j, jrn_EventID j)]\<rparr>"
    using assms by (auto simp: InsertJournal_def insertJournal_def exec_simps tx_defs crdbView_def)
  show "txInv C t' \<and> txView t' = (txView t)\<lparr>v_entries := v_entries (txView t) @
      [(tn, jid, \<lparr>ent_AccountID = a, ent_Currency = c, ent_Direction = dir, ent_Amount = amt\<rparr>)]\<rparr>"
    if run: "InsertEntry C tn eid jid a c dir amt t = (Inr u, t')"
  proof -
    have "exactNumeric C" using assms by (simp add: txInv_def)
    then obtain uid now where "ct_db t' = (ct_db t)\<lparr>k_ledger_entries := k_ledger_entries (ct_db t) @
        [\<lparr>ke_ID = uid, ke_TenantID = tn, ke_JournalID = jid, ke_AccountID = a, ke_Currency = c,
          ke_Direction = dir, ke_Amount = amt, ke_CreatedAt = now\<rparr>]\<rparr>"
      using run
      by (auto simp: InsertEntry_def insertEntry_def exec_simps dest: exactNumericD split: sum.splits)
    with assms show ?thesis by (simp add: tx_defs crdbView_def crdbEntryView_def)
  qed
  show "InsertFlowStep C s t = (Inr u, t') \<Longrightarrow> txInv C t' \<and> txView t' = (txView t)\<lparr>v_steps :=
      (v_steps (txView t))((fs_TenantID s, fs_FlowRunID s) :=
        v_steps (txView t) (fs_TenantID s, fs_FlowRunID s) @ [stepInfo s])\<rparr>"
    using assms
    by (auto simp: InsertFlowStep_def insertFlowStep_def exec_simps tx_defs crdbView_def
      rowToFlowStep_def stepInfo_def fun_eq_iff)
  show "InsertOutbox C e t = (Inr u, t') \<Longrightarrow> txInv C t' \<and> txView t' = (txView t)\<lparr>v_outbox :=
      v_outbox (txView t) @ [(obx_TenantID e, obx_AggregateID e, obx_EventType e, obx_IdempotencyKey e)]\<rparr>"
    using assms by (auto simp: InsertOutbox_def insertOutbox_def exec_simps tx_defs crdbView_def)
qed

text \<open>The steps of a flow are read in some order that their timestamps allow.\<close>

lemma getFlowSteps_mset:
  assumes "getFlowSteps tn fid now scan d = (Inr rows, d')"
  shows "d' = d \<and> mset (map (\<lambda>r. stepInfo (rowToFlowStep r)) rows) = mset (v_steps (crdbView d) (tn, fid))"
proof -
  have rows: "rows = sort_key ks_CreatedAt (filter (\<lambda>r. ks_TenantID r = tn \<and> ks_FlowRunID r = fid)
      (scanOrder scan (k_flow_steps d)))" and "d' = d"
    using assms by (simp_all add: getFlowSteps_def exec_simps)
  have "mset (map f rows) = image_mset f (filter_mset (\<lambda>r. ks_TenantID r = tn \<and> ks_FlowRunID r = fid)
      (mset (k_flow_steps d)))" for f :: "crdbFlowStep \<Rightarrow> step_info"
    by (simp add: rows)
  with \<open>d' = d\<close> show ?thesis by (simp add: crdbView_sel)
qed

lemma crdb_GetFlowSteps_law:
  assumes "txInv C t" and "GetFlowSteps C tn fid t = (Inr ss, t')"
  shows "txInv C t' \<and> txView t' = txView t \<and>
    mset (map stepInfo ss) = mset (v_steps (txView t) (tn, fid))"
proof -
  obtain rows d now scan where q: "getFlowSteps tn fid now scan (ct_db t) = (Inr rows, d)" and
    "ss = map rowToFlowStep rows" and "ct_db t' = d"
    using assms(2) by (auto simp: GetFlowSteps_def exec_simps)
  with getFlowSteps_mset [OF q] assms(1) show ?thesis by (simp add: tx_defs comp_def)
qed

lemma crdb_InsertReservation_law:
  assumes "txInv C t" and "res_CommittedAmount x = 0" and "res_ReleasedAmount x = 0"
    and "InsertReservation C x t = (Inr u, t')"
  shows "txInv C t' \<and> txView t' = (txView t)\<lparr>v_reservation :=
    (v_reservation (txView t))((res_TenantID x, res_ID x) \<mapsto> coreOf x)\<rparr>"
proof -
  let ?P = "\<lambda>r. kv_ID r = res_ID x \<or> kv_IdempotencyKey r = res_IdempotencyKey x"
  let ?d = "ct_db t"
  have ok: "exactNumeric C" using assms(1) by (simp add: txInv_def)
  obtain row where d': "ct_db t' = ?d\<lparr>k_reservations := k_reservations ?d @ [row]\<rparr>" and
    fresh: "\<not> exists_row ?P (k_reservations ?d)" and
    row: "kv_ID row = res_ID x" "kv_TenantID row = res_TenantID x"
      "coreOf (rowToReservation row) = coreOf x"
    using assms(2-) exactNumericD [OF ok]
    by (fastforce simp: InsertReservation_def insertReservation_def Let_def exec_simps
      rowToReservation_def coreOf_def)
  have key: "reservationKey tn rid row \<longleftrightarrow> tn = res_TenantID x \<and> rid = res_ID x" for tn rid
    by (auto simp: reservationKey_def row)
  have none: "find (reservationKey tn (res_ID x)) (k_reservations ?d) = None" for tn
    by (rule exists_row_find [OF fresh]) (auto simp: reservationKey_def)
  have "v_reservation (crdbView (ct_db t')) =
      (v_reservation (crdbView ?d))((res_TenantID x, res_ID x) \<mapsto> coreOf x)"
    using none row(3) by (auto simp: crdbView_def d' find_append fun_eq_iff key split: option.splits)
  then have "crdbView (ct_db t') = (crdbView ?d)\<lparr>v_reservation :=
      (v_reservation (crdbView ?d))((res_TenantID x, res_ID x) \<mapsto> coreOf x)\<rparr>"
    by (simp add: crdbView_def d')
  moreover have "crdbKeys ?d \<Longrightarrow> crdbKeys (ct_db t')"
    using fresh by (auto simp: crdbKeys_def d' row exists_row_def list_ex_iff)
  ultimately show ?thesis using assms(1) by (simp add: tx_defs)
qed

lemma crdb_LockReservation_law:
  assumes "txInv C t" and "LockReservation C tn rid t = (Inr x, t')"
  shows "txInv C t' \<and> txView t' = txView t \<and>
    v_reservation (txView t) (tn, rid) = Some (coreOf x) \<and> res_ID x = rid \<and> res_TenantID x = tn"
  using assms
  by (auto simp: LockReservation_def lockReservation_def exec_simps tx_defs crdbView_sel
    reservationKey_def rowToReservation_def dest!: find_SomeD split: option.splits)

lemma crdb_GetReservationByIdempotency_law:
  assumes "txInv C t" and "GetReservationByIdempotency C tn key t = (Inr ro, t')"
  shows "txInv C t' \<and> txView t' = txView t \<and>
    (\<forall>x. ro = Some x \<longrightarrow> v_reservation (txView t) (tn, res_ID x) = Some (coreOf x) \<and>
       res_IdempotencyKey x = key)"
proof -
  let ?d = "ct_db t"
  have ro: "ro = map_option rowToReservation
      (find (\<lambda>r. kv_TenantID r = tn \<and> kv_IdempotencyKey r = key) (k_reservations ?d))" and
    t': "ct_db t' = ?d"
    using assms(2)
    by (auto simp: GetReservationByIdempotency_def getReservationByIdempotency_def exec_simps)
  have "v_reservation (crdbView ?d) (tn, res_ID x) = Some (coreOf x) \<and> res_IdempotencyKey x = key"
    if x: "ro = Some x" for x
  proof -
    obtain row where row: "row \<in> set (k_reservations ?d)" "kv_TenantID row = tn"
        "kv_IdempotencyKey row = key" "x = rowToReservation row"
      using x by (auto simp: ro dest!: find_SomeD)
    have "find (reservationKey tn (kv_ID row)) (k_reservations ?d) = Some row"
      using assms(1) row(1,2)
      by (intro find_unique) (auto simp: reservationKey_def txInv_def crdbKeys_def distinct_map inj_on_def)
    with row show ?thesis by (simp add: crdbView_sel rowToReservation_def)
  qed
  with assms(1) t' show ?thesis by (simp add: tx_defs)
qed

lemma updateReservationAmounts_law:
  assumes "exactNumeric C"
    and "updateReservationAmounts C out com rel status tn rid now scan d = (Inr u, d')"
  shows "crdbView d' = (crdbView d)\<lparr>v_reservation := (v_reservation (crdbView d))
    ((tn, rid) := map_option (\<lambda>r. r\<lparr>rc_Outstanding := out, rc_Committed := com,
       rc_Released := rel, rc_Status := status\<rparr>) (v_reservation (crdbView d) (tn, rid)))\<rparr> \<and>
    (crdbKeys d \<longrightarrow> crdbKeys d')"
proof (cases "exists_row (reservationKey tn rid) (k_reservations d)")
  case False
  then have "d' = d" "find (reservationKey tn rid) (k_reservations d) = None"
    using assms(2) by (simp_all add: updateReservationAmounts_def exec_simps exists_row_None)
  then show ?thesis by (simp add: crdbView_sel fun_upd_idem)
next
  case True
  define upd where "upd = (\<lambda>r :: crdbReservation. r\<lparr>kv_OutstandingAmount := out,
    kv_CommittedAmount := com, kv_ReleasedAmount := rel, kv_Status := status,
    kv_UpdatedAt := Some now\<rparr>)"
  have d': "d' = d\<lparr>k_reservations := updateWhere (reservationKey tn rid) upd (k_reservations d)\<rparr>"
    using assms True
    by (auto simp: updateReservationAmounts_def upd_def toNumeric_exact exec_simps simp del: toNumeric_Inr)
  then have rows: "k_reservations d' = updateWhere (reservationKey tn rid) upd (k_reservations d)"
    by simp
  have same: "reservationKey tn' rid' (upd r) = reservationKey tn' rid' r" "kv_ID (upd r) = kv_ID r"
    for r tn' rid' by (simp_all add: upd_def reservationKey_def)
  have key: "reservationKey tn' rid' r \<Longrightarrow> reservationKey tn rid r \<longleftrightarrow> tn' = tn \<and> rid' = rid" for tn' rid' r
    by (auto simp: reservationKey_def)
  have core: "coreOf (rowToReservation (upd r)) = (coreOf (rowToReservation r))
      \<lparr>rc_Outstanding := out, rc_Committed := com, rc_Released := rel, rc_Status := status\<rparr>" for r
    by (simp add: coreOf_def rowToReservation_def upd_def)
  have f: "find (reservationKey tn' rid') (k_reservations d') =
      (if tn' = tn \<and> rid' = rid then map_option upd (find (reservationKey tn' rid') (k_reservations d))
       else find (reservationKey tn' rid') (k_reservations d))" for tn' rid'
    unfolding rows by (rule find_updateWhere_if, rule same, rule key)
  have "v_reservation (crdbView d') = (v_reservation (crdbView d))
    ((tn, rid) := map_option (\<lambda>r. r\<lparr>rc_Outstanding := out, rc_Committed := com,
       rc_Released := rel, rc_Status := status\<rparr>) (v_reservation (crdbView d) (tn, rid)))"
  proof (rule ext)
    fix k :: "string \<times> string"
    obtain tn' rid' where k: "k = (tn', rid')" by (cases k)
    show "v_reservation (crdbView d') k = ((v_reservation (crdbView d))
      ((tn, rid) := map_option (\<lambda>r. r\<lparr>rc_Outstanding := out, rc_Committed := com,
         rc_Released := rel, rc_Status := status\<rparr>) (v_reservation (crdbView d) (tn, rid)))) k"
      by (auto simp: k crdbView_sel f core option.map_comp comp_def)
  qed
  then have "crdbView d' = (crdbView d)\<lparr>v_reservation := (v_reservation (crdbView d))
    ((tn, rid) := map_option (\<lambda>r. r\<lparr>rc_Outstanding := out, rc_Committed := com,
       rc_Released := rel, rc_Status := status\<rparr>) (v_reservation (crdbView d) (tn, rid)))\<rparr>"
    by (simp add: crdbView_def d')
  then show ?thesis by (simp add: d' crdbKeys_def map_updateWhere same)
qed

lemma crdb_UpdateReservationAmounts_law:
  assumes "txInv C t" and "UpdateReservationAmounts C tn rid out com rel status t = (Inr u, t')"
  shows "txInv C t' \<and> txView t' = (txView t)\<lparr>v_reservation := (v_reservation (txView t))
    ((tn, rid) := map_option (\<lambda>r. r\<lparr>rc_Outstanding := out, rc_Committed := com,
       rc_Released := rel, rc_Status := status\<rparr>) (v_reservation (txView t) (tn, rid)))\<rparr>"
proof -
  obtain d1 now scan where q: "updateReservationAmounts C out com rel status tn rid now scan (ct_db t) = (Inr u, d1)"
    and "ct_db t' = d1"
    using assms(2) by (auto simp: UpdateReservationAmounts_def exec_simps)
  with updateReservationAmounts_law [OF _ q] assms(1) show ?thesis by (simp add: tx_defs)
qed

lemma crdb_recon_laws:
  assumes "txInv C t"
  shows "GetReconBatchByIdempotency C tn key t = (Inr b, t') \<Longrightarrow> txInv C t' \<and> txView t' = txView t"
    and "InsertReconBatch C rb t = (Inr u, t') \<Longrightarrow> txInv C t' \<and> txView t' = txView t"
    and "CompleteReconBatch C rb t = (Inr u, t') \<Longrightarrow> txInv C t' \<and> txView t' = txView t"
    and "txExternalRecords C tn src ws we t = (Inr xs, t') \<Longrightarrow> txInv C t' \<and> txView t' = txView t"
    and "txJournals C tn src ws we t = (Inr js, t') \<Longrightarrow> txInv C t' \<and> txView t' = txView t"
    and "UpdateExternalRecordMatch C tn i ms jid t = (Inr u, t') \<Longrightarrow> txInv C t' \<and> txView t' = txView t"
    and "SumJournalEntries C tn jid a c t = (Inr dc, t') \<Longrightarrow> txInv C t' \<and> txView t' = txView t"
    and "InsertDiscrepancy C dx t = (Inr u, t') \<Longrightarrow> txInv C t' \<and> txView t' = txView t"
    and "LockDiscrepancy C tn i t = (Inr d1, t') \<Longrightarrow> txInv C t' \<and> txView t' = txView t"
    and "ResolveDiscrepancyRow C dx t = (Inr u, t') \<Longrightarrow> txInv C t' \<and> txView t' = txView t"
  unfolding GetReconBatchByIdempotency_def InsertReconBatch_def CompleteReconBatch_def
    txExternalRecords_def txJournals_def UpdateExternalRecordMatch_def SumJournalEntries_def
    InsertDiscrepancy_def LockDiscrepancy_def ResolveDiscrepancyRow_def
    bindE_Inr ret_Inr
  by (auto simp: throwE_def ret_def intro: onTx_quiet [OF _ assms] quiet_intros split: option.splits
    dest!: onTx_quiet [OF _ assms, rotated])

interpretation crtx: ledger_tx "crdbTx C" txView "txInv C" for C
  by unfold_locales
    (simp only: crdbTx_simps,
     (rule crdb_GetFlowByIdempotency_law crdb_GetAccount_law crdb_LockBalance_law crdb_UpdateBalance_law
        crdb_InsertAccount_law crdb_InsertFlowRun_law crdb_CompleteFlowRun_law crdb_append_laws crdb_GetFlowSteps_law
        crdb_InsertReservation_law crdb_LockReservation_law crdb_GetReservationByIdempotency_law
        crdb_UpdateReservationAmounts_law crdb_recon_laws; assumption))+

end
