(* ===== verification/Crdb_Store.thy ===== *)
theory Crdb_Store
  imports Crdb_Tx
begin

text \<open>
  The CockroachDB store of \<open>internal/repo/crdb/store.go\<close>: a pool of connections.

  \<^item> A query of the store is a transaction of its own (\<open>onPool\<close>): it reads the committed tables,
    with a timestamp of its own, and changes them only when it succeeds.
  \<^item> \<open>BeginFlowTx\<close> opens a SERIALIZABLE transaction. Committed transactions have the effect of
    running one after the other, which is how they run here; one that the database cannot order
    is a statement or a COMMIT that fails with SQLSTATE 40001.
  \<^item> A COMMIT in an aborted transaction rolls back and is reported as an error. A COMMIT that
    fails may have been applied: the flag of \<open>cc_commitFault\<close>. Either way the transaction is
    closed, and closing it again does nothing.
\<close>

section \<open>The pool\<close>

record crdb_store =
  kp_db :: crdb
  kp_tick :: nat
  kp_closed :: bool

type_synonym 'a pool = "(crdb_store, error, 'a) exec"

definition onPool :: "crdb_cfg \<Rightarrow> 'a query \<Rightarrow> 'a pool" where
  "onPool C q s = (let n = kp_tick s; s1 = s\<lparr>kp_tick := Suc n\<rparr> in
     case cc_fault C n of
       Some e \<Rightarrow> (Inl e, s1)
     | None \<Rightarrow> (case q (cc_now C n) (cc_scan C n) (kp_db s) of
           (Inl e, d) \<Rightarrow> (Inl e, s1)
         | (Inr a, d) \<Rightarrow> (Inr a, s1\<lparr>kp_db := d\<rparr>)))"

lemma onPool_Inr [exec_simps]:
  "onPool C q s = (Inr a, s') \<longleftrightarrow> cc_fault C (kp_tick s) = None \<and>
     (\<exists>d. q (cc_now C (kp_tick s)) (cc_scan C (kp_tick s)) (kp_db s) = (Inr a, d) \<and>
       s' = s\<lparr>kp_tick := Suc (kp_tick s), kp_db := d\<rparr>)"
  by (auto simp: onPool_def Let_def split: option.splits prod.splits sum.splits)

lemma onPool_Inl: "onPool C q s = (Inl e, s') \<Longrightarrow> kp_db s' = kp_db s"
  by (auto simp: onPool_def Let_def split: option.splits prod.splits sum.splits)

definition BeginFlowTx :: "crdb_cfg \<Rightarrow> crdb_tx pool" where
  "BeginFlowTx C s = (let n = kp_tick s in
     case cc_fault C n of
       Some e \<Rightarrow> (Inl e, s\<lparr>kp_tick := Suc n\<rparr>)
     | None \<Rightarrow> (Inr \<lparr>ct_db = kp_db s, ct_now = cc_now C n, ct_tick = Suc n, ct_aborted = False\<rparr>,
         s\<lparr>kp_tick := Suc n, kp_closed := False\<rparr>))"

abbreviation errTxClosed :: error where
  "errTxClosed \<equiv> GoError ''tx is closed''"
abbreviation errTxCommitRollback :: error where
  "errTxCommitRollback \<equiv> GoError ''commit unexpectedly resulted in rollback''"

definition Commit :: "crdb_cfg \<Rightarrow> crdb_tx \<Rightarrow> unit pool" where
  "Commit C t s = (let n = ct_tick t; s1 = s\<lparr>kp_tick := Suc n, kp_closed := True\<rparr> in
     if kp_closed s then (Inl errTxClosed, s)
     else (case cc_commitFault C n of
         Some (e, applied) \<Rightarrow>
           (Inl e, if applied \<and> \<not> ct_aborted t then s1\<lparr>kp_db := ct_db t\<rparr> else s1)
       | None \<Rightarrow> if ct_aborted t then (Inl errTxCommitRollback, s1)
                 else (Inr (), s1\<lparr>kp_db := ct_db t\<rparr>)))"

definition Rollback :: "crdb_cfg \<Rightarrow> crdb_tx \<Rightarrow> crdb_store \<Rightarrow> crdb_store" where
  "Rollback C t s = (if kp_closed s then s else s\<lparr>kp_tick := Suc (ct_tick t), kp_closed := True\<rparr>)"

section \<open>Limits\<close>

text \<open>\<open>int32(in.Limit)\<close> is taken before the default is chosen, or after it.\<close>

definition pageSize :: "int \<Rightarrow> 32 word" where
  "pageSize n = (let limit = word_of_int n :: 32 word in if sint limit \<le> 0 then 100 else limit)"

definition pageSize500 :: "int \<Rightarrow> 32 word" where
  "pageSize500 n = (let limit = word_of_int n :: 32 word in
     if sint limit \<le> 0 \<or> 500 < sint limit then 100 else limit)"

definition limitArg :: "int \<Rightarrow> 32 word" where
  "limitArg n = word_of_int (if n \<le> 0 then 100 else n)"

section \<open>Accounts, balances and flows\<close>

definition GetAccount :: "crdb_cfg \<Rightarrow> string \<Rightarrow> string \<Rightarrow> Account pool" where
  "GetAccount C tenantID accountID =
     bindE (onPool C (getAccount tenantID accountID)) (\<lambda>row. case row of
       None \<Rightarrow> throwE (DomainError CodeAccountNotFound (''account '' @ accountID))
     | Some r \<Rightarrow> ret (rowToAccount r))"

definition GetBalance :: "crdb_cfg \<Rightarrow> string \<Rightarrow> string \<Rightarrow> string \<Rightarrow> (decimal \<times> decimal \<times> int) pool" where
  "GetBalance C tenantID accountID currency =
     bindE (onPool C (getBalance tenantID accountID currency)) (\<lambda>row. case row of
       None \<Rightarrow> ret (0, 0, 0)
     | Some r \<Rightarrow> ret (kb_PostedDebits r, kb_PostedCredits r, kb_Version r))"

definition GetFlow :: "crdb_cfg \<Rightarrow> string \<Rightarrow> string \<Rightarrow> FlowRun option pool" where
  "GetFlow C tenantID flowRunID =
     bindE (onPool C (getFlowByID tenantID flowRunID)) (\<lambda>row. case row of
       None \<Rightarrow> ret None
     | Some r \<Rightarrow> bindE (onPool C (getFlowSteps tenantID flowRunID)) (\<lambda>steps.
         ret (Some ((rowToFlowRun r)\<lparr>fr_Steps := map rowToFlowStep steps\<rparr>))))"

definition entryToActivity :: "crdbLedgerEntry \<Rightarrow> ActivityRow" where
  "entryToActivity r = \<lparr>ar_JournalID = ke_JournalID r, ar_EntryID = formatHex (ke_ID r),
     ar_Currency = ke_Currency r, ar_Direction = ke_Direction r, ar_Amount = ke_Amount r,
     ar_CreatedAt = timestamptzToTime (ke_CreatedAt r), ar_SourceService = ''''\<rparr>"

definition ListAccountActivity :: "crdb_cfg \<Rightarrow> ListActivityInput \<Rightarrow> ActivityRow list pool" where
  "ListAccountActivity C i =
     (let since = (case lai_Since i of None \<Rightarrow> None | Some t \<Rightarrow> toTimestamptz t);
          until = (case lai_Until i of None \<Rightarrow> None | Some t \<Rightarrow> toTimestamptz t) in
      bindE (onPool C (listAccountActivity (lai_TenantID i) (lai_AccountID i) (lai_Currency i)
          since until (pageSize (lai_Limit i)))) (\<lambda>rows. ret (map entryToActivity rows)))"

section \<open>Outbox\<close>

definition rowToOutboxEvent :: "crdbOutboxEvent \<Rightarrow> OutboxEvent" where
  "rowToOutboxEvent r = \<lparr>obx_ID = ko_ID r, obx_TenantID = ko_TenantID r,
     obx_AggregateID = ko_AggregateID r, obx_EventType = ko_EventType r,
     obx_IdempotencyKey = ko_IdempotencyKey r, obx_Payload = ko_Payload r,
     obx_CreatedAt = timestamptzToTime (ko_CreatedAt r)\<rparr>"

definition PendingOutbox :: "crdb_cfg \<Rightarrow> int \<Rightarrow> OutboxEvent list pool" where
  "PendingOutbox C limit =
     bindE (onPool C (listPendingOutbox (limitArg limit))) (\<lambda>rows. ret (map rowToOutboxEvent rows))"

definition MarkOutboxPublished :: "crdb_cfg \<Rightarrow> string \<Rightarrow> unit pool" where
  "MarkOutboxPublished C i = onPool C (markOutboxPublished i)"

definition IncrementOutboxAttempts :: "crdb_cfg \<Rightarrow> string \<Rightarrow> unit pool" where
  "IncrementOutboxAttempts C i = onPool C (incrementOutboxAttempts i)"

section \<open>Snapshots\<close>

definition InsertSnapshot :: "crdb_cfg \<Rightarrow> BalanceSnapshot \<Rightarrow> unit pool" where
  "InsertSnapshot C snap = onPool C (insertSnapshot C (bs_ID snap) (bs_TenantID snap)
     (bs_AccountID snap) (bs_Currency snap) (bs_PostedDebits snap) (bs_PostedCredits snap)
     (bs_Version snap) (toTimestamptz (bs_SnapshotAt snap)))"

definition GetSnapshotBefore :: "crdb_cfg \<Rightarrow> string \<Rightarrow> string \<Rightarrow> string \<Rightarrow> time \<Rightarrow>
    BalanceSnapshot option pool" where
  "GetSnapshotBefore C tenantID accountID currency t =
     bindE (onPool C (getLatestSnapshotBefore tenantID accountID currency (toTimestamptz t)))
       (\<lambda>row. ret (map_option rowToSnapshot row))"

definition SumEntriesBetween :: "crdb_cfg \<Rightarrow> string \<Rightarrow> string \<Rightarrow> string \<Rightarrow> time \<Rightarrow> time \<Rightarrow>
    (decimal \<times> decimal) pool" where
  "SumEntriesBetween C tenantID accountID currency after until =
     onPool C (sumEntriesBetween C tenantID accountID currency (toTimestamptz after)
       (toTimestamptz until))"

definition ListTenantBalances :: "crdb_cfg \<Rightarrow> string \<Rightarrow> TenantBalanceRow list pool" where
  "ListTenantBalances C tenantID =
     bindE (onPool C (listAllBalancesForTenant tenantID)) (\<lambda>rows.
       ret (map (\<lambda>r. \<lparr>tb_AccountID = kb_AccountID r, tb_Currency = kb_Currency r,
         tb_PostedDebits = kb_PostedDebits r, tb_PostedCredits = kb_PostedCredits r,
         tb_Version = kb_Version r\<rparr>) rows))"

definition ListTenantsDueForSnapshot :: "crdb_cfg \<Rightarrow> time \<Rightarrow> int \<Rightarrow> string list pool" where
  "ListTenantsDueForSnapshot C cutoff limit =
     onPool C (listTenantsDueForSnapshot (toTimestamptz cutoff) (limitArg limit))"

definition PruneSnapshotsOlderThan :: "crdb_cfg \<Rightarrow> time \<Rightarrow> int \<Rightarrow> int pool" where
  "PruneSnapshotsOlderThan C cutoff limit =
     onPool C (pruneSnapshotsOlderThan (toTimestamptz cutoff) (limitArg limit))"

section \<open>Reservations\<close>

definition GetReservation :: "crdb_cfg \<Rightarrow> string \<Rightarrow> string \<Rightarrow> Reservation pool" where
  "GetReservation C tenantID reservationID =
     bindE (onPool C (getReservation tenantID reservationID)) (\<lambda>row. case row of
       None \<Rightarrow> throwE (DomainError CodeReservationNotFound reservationID)
     | Some r \<Rightarrow> ret (rowToReservation r))"

definition ListExpiredReservations :: "crdb_cfg \<Rightarrow> time \<Rightarrow> int \<Rightarrow> ExpiredReservation list pool" where
  "ListExpiredReservations C now limit =
     bindE (onPool C (listExpiredReservations (toTimestamptz now) (limitArg limit))) (\<lambda>rows.
       ret (map (\<lambda>r. \<lparr>xr_ID = kv_ID r, xr_TenantID = kv_TenantID r\<rparr>) rows))"

definition ListReservations :: "crdb_cfg \<Rightarrow> ListReservationsInput \<Rightarrow> Reservation list pool" where
  "ListReservations C i =
     bindE (onPool C (listReservations (lri_TenantID i) (lri_OwnerType i) (lri_OwnerID i)
         (lri_Status i) (pageSize500 (lri_Limit i)))) (\<lambda>rows. ret (map rowToReservation rows))"

section \<open>Rates\<close>

definition UpsertFXRate :: "crdb_cfg \<Rightarrow> FXRate \<Rightarrow> FXRate pool" where
  "UpsertFXRate C r =
     bindE (onPool C (upsertFXRate C (fx_ID r) (fx_TenantID r) (fx_BaseCurrency r)
         (fx_QuoteCurrency r) (fx_Rate r) (fx_Source r) (toTimestamptz (fx_EffectiveAt r))))
       (\<lambda>row. ret (rowToFXRate row))"

definition GetFXRateAt :: "crdb_cfg \<Rightarrow> string \<Rightarrow> string \<Rightarrow> string \<Rightarrow> time \<Rightarrow> FXRate option pool" where
  "GetFXRateAt C tenantID base quote t =
     bindE (onPool C (getFXRateAt tenantID base quote (toTimestamptz t)))
       (\<lambda>row. ret (map_option rowToFXRate row))"

definition ListFXRates :: "crdb_cfg \<Rightarrow> ListFXRatesInput \<Rightarrow> FXRate list pool" where
  "ListFXRates C i =
     (let since = (case lfx_Since i of None \<Rightarrow> None | Some t \<Rightarrow> toTimestamptz t);
          until = (case lfx_Until i of None \<Rightarrow> None | Some t \<Rightarrow> toTimestamptz t) in
      bindE (onPool C (listFXRates (lfx_TenantID i) (lfx_BaseCurrency i) (lfx_QuoteCurrency i)
          since until (pageSize500 (lfx_Limit i)))) (\<lambda>rows. ret (map rowToFXRate rows)))"

section \<open>Reconciliation\<close>

definition InsertExternalRecord :: "crdb_cfg \<Rightarrow> ExternalRecord \<Rightarrow> bool pool" where
  "InsertExternalRecord C r =
     bindE (onPool C (insertExternalRecord C (er_ID r) (er_TenantID r) (er_Source r)
         (er_ExternalRef r) (er_Amount r) (er_Currency r) (toTimestamptz (er_OccurredAt r))
         (nullString (er_AccountID r)) (er_RawPayload r))) (\<lambda>n. ret (0 < n))"

definition externalRecords :: "crdb_cfg \<Rightarrow> string \<Rightarrow> string \<Rightarrow> time \<Rightarrow> time \<Rightarrow> ExternalRecord list pool" where
  "externalRecords C tenantID source windowStart windowEnd =
     bindE (onPool C (listExternalRecordsForRecon tenantID source (toTimestamptz windowStart)
         (toTimestamptz windowEnd))) (\<lambda>rows. ret (map rowToExternalRecord rows))"

definition journals :: "crdb_cfg \<Rightarrow> string \<Rightarrow> string \<Rightarrow> time \<Rightarrow> time \<Rightarrow> Journal list pool" where
  "journals C tenantID source windowStart windowEnd =
     bindE (onPool C (listJournalsForRecon tenantID source (toTimestamptz windowStart)
         (toTimestamptz windowEnd))) (\<lambda>rows. ret (map rowToJournal rows))"

definition GetReconBatch :: "crdb_cfg \<Rightarrow> string \<Rightarrow> string \<Rightarrow> ReconciliationBatch pool" where
  "GetReconBatch C tenantID batchID =
     bindE (onPool C (getReconBatch tenantID batchID)) (\<lambda>row. case row of
       None \<Rightarrow> throwE (DomainError CodeReconBatchNotFound batchID)
     | Some r \<Rightarrow> ret (rowToReconBatch r))"

definition ListDiscrepancies :: "crdb_cfg \<Rightarrow> ListDiscrepanciesInput \<Rightarrow> Discrepancy list pool" where
  "ListDiscrepancies C i =
     bindE (onPool C (listDiscrepancies (ldi_TenantID i) (ldi_BatchID i) (ldi_Status i)
         (pageSize500 (ldi_Limit i)))) (\<lambda>rows. ret (map rowToDiscrepancy rows))"

definition GetDiscrepancy :: "crdb_cfg \<Rightarrow> string \<Rightarrow> string \<Rightarrow> Discrepancy pool" where
  "GetDiscrepancy C tenantID discrepancyID =
     bindE (onPool C (getDiscrepancy tenantID discrepancyID)) (\<lambda>row. case row of
       None \<Rightarrow> throwE (DomainError CodeDiscrepancyNotFound discrepancyID)
     | Some r \<Rightarrow> ret (rowToDiscrepancy r))"

section \<open>The method table\<close>

definition crdbStore :: "crdb_cfg \<Rightarrow> (crdb_store, crdb_tx) store_ops" where
  "crdbStore C = \<lparr>st_Tx = crdbTx C, st_BeginFlowTx = BeginFlowTx C, st_Commit = Commit C,
     st_Rollback = Rollback C, st_GetAccount = GetAccount C, st_GetBalance = GetBalance C,
     st_GetFlow = GetFlow C, st_ListAccountActivity = ListAccountActivity C,
     st_PendingOutbox = PendingOutbox C, st_MarkOutboxPublished = MarkOutboxPublished C,
     st_IncrementOutboxAttempts = IncrementOutboxAttempts C, st_InsertSnapshot = InsertSnapshot C,
     st_GetSnapshotBefore = GetSnapshotBefore C, st_SumEntriesBetween = SumEntriesBetween C,
     st_ListTenantBalances = ListTenantBalances C,
     st_ListTenantsDueForSnapshot = ListTenantsDueForSnapshot C,
     st_PruneSnapshotsOlderThan = PruneSnapshotsOlderThan C, st_UpsertFXRate = UpsertFXRate C,
     st_GetFXRateAt = GetFXRateAt C, st_ListFXRates = ListFXRates C,
     st_GetReservation = GetReservation C, st_ListExpiredReservations = ListExpiredReservations C,
     st_ListReservations = ListReservations C, st_InsertExternalRecord = InsertExternalRecord C,
     st_ListExternalRecordsForRecon = externalRecords C, st_ListJournalsForRecon = journals C,
     st_GetReconBatch = GetReconBatch C, st_ListDiscrepancies = ListDiscrepancies C,
     st_GetDiscrepancy = GetDiscrepancy C\<rparr>"

lemma crdbStore_simps [simp]:
  "st_Tx (crdbStore C) = crdbTx C"
  "st_BeginFlowTx (crdbStore C) = BeginFlowTx C"
  "st_Commit (crdbStore C) = Commit C"
  "st_Rollback (crdbStore C) = Rollback C"
  "st_GetAccount (crdbStore C) = GetAccount C"
  "st_GetBalance (crdbStore C) = GetBalance C"
  "st_GetFlow (crdbStore C) = GetFlow C"
  "st_ListAccountActivity (crdbStore C) = ListAccountActivity C"
  "st_PendingOutbox (crdbStore C) = PendingOutbox C"
  "st_MarkOutboxPublished (crdbStore C) = MarkOutboxPublished C"
  "st_IncrementOutboxAttempts (crdbStore C) = IncrementOutboxAttempts C"
  "st_InsertSnapshot (crdbStore C) = InsertSnapshot C"
  "st_GetSnapshotBefore (crdbStore C) = GetSnapshotBefore C"
  "st_SumEntriesBetween (crdbStore C) = SumEntriesBetween C"
  "st_ListTenantBalances (crdbStore C) = ListTenantBalances C"
  "st_ListTenantsDueForSnapshot (crdbStore C) = ListTenantsDueForSnapshot C"
  "st_PruneSnapshotsOlderThan (crdbStore C) = PruneSnapshotsOlderThan C"
  "st_UpsertFXRate (crdbStore C) = UpsertFXRate C"
  "st_GetFXRateAt (crdbStore C) = GetFXRateAt C"
  "st_ListFXRates (crdbStore C) = ListFXRates C"
  "st_GetReservation (crdbStore C) = GetReservation C"
  "st_ListExpiredReservations (crdbStore C) = ListExpiredReservations C"
  "st_ListReservations (crdbStore C) = ListReservations C"
  "st_InsertExternalRecord (crdbStore C) = InsertExternalRecord C"
  "st_ListExternalRecordsForRecon (crdbStore C) = externalRecords C"
  "st_ListJournalsForRecon (crdbStore C) = journals C"
  "st_GetReconBatch (crdbStore C) = GetReconBatch C"
  "st_ListDiscrepancies (crdbStore C) = ListDiscrepancies C"
  "st_GetDiscrepancy (crdbStore C) = GetDiscrepancy C"
  by (simp_all add: crdbStore_def)

end
