(* ===== verification/Crdb_Contract.thy ===== *)
theory Crdb_Contract
  imports System Crdb_Laws Crdb_Store
begin

text \<open>
  The CockroachDB store against the contract \<open>ledger_store\<close>: the interpretation \<open>cr\<close> holds when
  the DECIMAL columns are exact and a COMMIT that fails has not been applied. Whatever is proved
  of the service, its jobs and the system over an arbitrary store then holds over this one.
\<close>

definition storeView :: "crdb_store \<Rightarrow> ledger_view" where
  "storeView s = crdbView (kp_db s)"

definition storeInv :: "crdb_cfg \<Rightarrow> crdb_store \<Rightarrow> bool" where
  "storeInv C s \<longleftrightarrow> exactNumeric C \<and> crdbKeys (kp_db s) \<and>
     (\<forall>n e. cc_commitFault C n \<noteq> Some (e, True))"

text \<open>A transaction of the store: begun and not yet closed.\<close>

definition storeTInv :: "crdb_cfg \<Rightarrow> crdb_store \<Rightarrow> crdb_tx \<Rightarrow> bool" where
  "storeTInv C s t \<longleftrightarrow> txInv C t \<and> \<not> kp_closed s"

lemma keeps_onPool [keeps_intros]:
  assumes "quiet q"
  shows "keeps (storeInv C) storeView (onPool C q)"
  unfolding keeps_def
proof (intro allI impI)
  fix s r s' assume s: "storeInv C s" "onPool C q s = (r, s')"
  show "storeInv C s' \<and> storeView s' = storeView s"
  proof (cases r)
    case (Inl e)
    with s onPool_Inl [of C q s e s'] show ?thesis by (simp add: storeInv_def storeView_def)
  next
    case (Inr a)
    with s quietD [OF assms] show ?thesis by (auto simp: exec_simps storeInv_def storeView_def)
  qed
qed

lemma crdb_store_keeps:
  "keeps (storeInv C) storeView (GetAccount C tn a)"
  "keeps (storeInv C) storeView (GetBalance C tn a c)"
  "keeps (storeInv C) storeView (GetFlow C tn a)"
  "keeps (storeInv C) storeView (ListAccountActivity C lai)"
  "keeps (storeInv C) storeView (PendingOutbox C n)"
  "keeps (storeInv C) storeView (MarkOutboxPublished C a)"
  "keeps (storeInv C) storeView (IncrementOutboxAttempts C a)"
  "keeps (storeInv C) storeView (InsertSnapshot C bs)"
  "keeps (storeInv C) storeView (GetSnapshotBefore C tn a c t)"
  "keeps (storeInv C) storeView (SumEntriesBetween C tn a c t u)"
  "keeps (storeInv C) storeView (ListTenantBalances C tn)"
  "keeps (storeInv C) storeView (ListTenantsDueForSnapshot C t n)"
  "keeps (storeInv C) storeView (PruneSnapshotsOlderThan C t n)"
  "keeps (storeInv C) storeView (UpsertFXRate C fx)"
  "keeps (storeInv C) storeView (GetFXRateAt C tn a c t)"
  "keeps (storeInv C) storeView (ListFXRates C lfx)"
  "keeps (storeInv C) storeView (GetReservation C tn a)"
  "keeps (storeInv C) storeView (ListExpiredReservations C t n)"
  "keeps (storeInv C) storeView (ListReservations C lri)"
  "keeps (storeInv C) storeView (InsertExternalRecord C er)"
  "keeps (storeInv C) storeView (externalRecords C tn a t u)"
  "keeps (storeInv C) storeView (journals C tn a t u)"
  "keeps (storeInv C) storeView (GetReconBatch C tn a)"
  "keeps (storeInv C) storeView (ListDiscrepancies C ldi)"
  "keeps (storeInv C) storeView (GetDiscrepancy C tn a)"
  by (auto simp: GetAccount_def GetBalance_def GetFlow_def ListAccountActivity_def PendingOutbox_def
    MarkOutboxPublished_def IncrementOutboxAttempts_def InsertSnapshot_def GetSnapshotBefore_def
    SumEntriesBetween_def ListTenantBalances_def ListTenantsDueForSnapshot_def
    PruneSnapshotsOlderThan_def UpsertFXRate_def GetFXRateAt_def ListFXRates_def GetReservation_def
    ListExpiredReservations_def ListReservations_def InsertExternalRecord_def externalRecords_def
    journals_def GetReconBatch_def ListDiscrepancies_def GetDiscrepancy_def Let_def
    intro!: keeps_intros quiet_intros split: option.splits)

lemma crdbTx_contract: "ledger_tx (crdbTx C) txView (storeTInv C s)"
proof (cases "kp_closed s")
  case True
  then have "storeTInv C s = (\<lambda>t. False)" by (simp add: storeTInv_def fun_eq_iff)
  then show ?thesis by (simp, unfold_locales) simp_all
next
  case False
  then have "storeTInv C s = txInv C" by (simp add: storeTInv_def fun_eq_iff)
  then show ?thesis using crtx.ledger_tx_axioms by simp
qed

lemma crdb_Begin_law:
  assumes "storeInv C s" and "BeginFlowTx C s = (r, s')"
  shows "storeInv C s' \<and> storeView s' = storeView s \<and>
    (\<forall>t. r = Inr t \<longrightarrow> storeTInv C s' t \<and> txView t = storeView s)"
  using assms
  by (auto simp: BeginFlowTx_def Let_def storeInv_def storeView_def storeTInv_def txInv_def
    txView_def split: option.splits)

lemma Commit_Inr_law:
  assumes "storeInv C s" and "storeTInv C s t" and "Commit C t s = (Inr u, s')"
  shows "storeInv C s' \<and> storeView s' = txView t"
  using assms
  by (auto simp: Commit_def Let_def storeInv_def storeView_def storeTInv_def txInv_def txView_def
    split: option.splits if_splits)

lemma Commit_Inl_law:
  assumes "storeInv C s" and "Commit C t s = (Inl e, s')"
  shows "storeInv C s' \<and> storeView s' = storeView s"
  using assms
  by (auto simp: Commit_def Let_def storeInv_def storeView_def split: option.splits if_splits)

lemma crdb_Rollback_law:
  assumes "storeInv C s"
  shows "storeInv C (Rollback C t s) \<and> storeView (Rollback C t s) = storeView s"
  using assms by (simp add: Rollback_def storeInv_def storeView_def)

lemma crdb_GetAccount_result:
  "GetAccount C tn a s = (Inr acc, s') \<Longrightarrow> v_account (storeView s) (tn, a) = Some acc"
  by (auto simp: GetAccount_def getAccount_def exec_simps storeView_def crdbView_sel split: option.splits)

lemma crdb_GetBalance_result:
  "GetBalance C tn a c s = (Inr (d, cr, ver), s') \<Longrightarrow> (d, cr) = balanceOf (storeView s) (tn, a, c)"
  by (auto simp: GetBalance_def getBalance_def exec_simps storeView_def balanceOf_def crdbView_sel
    split: option.splits)

lemma crdb_GetReservation_result:
  "GetReservation C tn rid s = (Inr x, s') \<Longrightarrow> v_reservation (storeView s) (tn, rid) = Some (coreOf x)"
  by (auto simp: GetReservation_def getReservation_def exec_simps storeView_def crdbView_sel
    split: option.splits)

lemma crdb_GetFlow_result:
  assumes "storeInv C s" and "GetFlow C tn fid s = (Inr fo, s')"
  shows "\<forall>f. fo = Some f \<longrightarrow> fr_ID f = fid \<and>
    mset (map stepInfo (fr_Steps f)) = mset (v_steps (storeView s) (tn, fid)) \<and>
    v_flow (storeView s) (tn, fr_IdempotencyKey f) = Some (fid, fr_Status f)"
proof (intro allI impI)
  fix f assume "fo = Some f"
  let ?d = "kp_db s"
  obtain r steps now scan d2 where
    r: "find (\<lambda>r. kf_TenantID r = tn \<and> kf_ID r = fid) (k_flow_runs ?d) = Some r" and
    q: "getFlowSteps tn fid now scan ?d = (Inr steps, d2)" and
    f: "f = (rowToFlowRun r)\<lparr>fr_Steps := map rowToFlowStep steps\<rparr>"
    using assms(2) \<open>fo = Some f\<close>
    by (auto simp: GetFlow_def getFlowByID_def exec_simps split: option.splits)
  have row: "r \<in> set (k_flow_runs ?d)" "kf_TenantID r = tn" "kf_ID r = fid"
    using find_SomeD [OF r] by auto
  have "find (\<lambda>r'. kf_TenantID r' = tn \<and> kf_IdempotencyKey r' = kf_IdempotencyKey r)
      (k_flow_runs ?d) = Some r"
    using assms(1) row
    by (intro find_unique) (auto simp: storeInv_def crdbKeys_def distinct_map inj_on_def)
  with row(3) getFlowSteps_mset [OF q]
  show "fr_ID f = fid \<and> mset (map stepInfo (fr_Steps f)) = mset (v_steps (storeView s) (tn, fid)) \<and>
    v_flow (storeView s) (tn, fr_IdempotencyKey f) = Some (fid, fr_Status f)"
    by (simp add: f storeView_def crdbView_sel rowToFlowRun_def comp_def)
qed

interpretation cr: ledger_store "crdbStore C" storeView "storeInv C" txView "storeTInv C" for C
proof (rule ledger_store.intro, goal_cases)
  case 1
  show ?case by (simp add: crdbTx_contract)
next
  case (2 s t s')
  then show ?case using crdb_Begin_law by auto
next
  case (3 s e s')
  then show ?case using crdb_Begin_law by auto
next
  case (4 s t u s')
  then show ?case using Commit_Inr_law [OF 4(1,2)] by simp
next
  case (5 s t e s')
  then show ?case using Commit_Inl_law [OF 5(1)] by simp
next
  case (6 s t)
  then show ?case by (simp add: crdb_Rollback_law)
next
  case (8 s tn a acc s')
  then show ?case using crdb_GetAccount_result by simp
next
  case (9 s tn a c d cr ver s')
  then show ?case using crdb_GetBalance_result by simp
next
  case (10 s tn fid fo s')
  then show ?case using crdb_GetFlow_result by simp
next
  case (11 s tn rid res s')
  then show ?case using crdb_GetReservation_result by simp
qed (simp_all only: crdbStore_simps crdb_store_keeps)

end
