(* ===== verification/Crdb_Grid.thy ===== *)
theory Crdb_Grid
  imports Agree Crdb_Contract
begin

text \<open>
  CockroachDB rounds what it writes to a DECIMAL(38, 18) column. The contracts of \<open>Repo\<close> speak of
  exact amounts and hold of a database that refuses what it would have to round (\<open>strictCfg\<close>).
  Here the two databases are shown to behave alike on amounts with at most 18 decimal places:
  the locales of \<open>Agree\<close> are interpreted on the two stores, with the condition that every balance,
  entry and reservation in the tables is on the grid of the column (\<open>gridDb\<close>).
\<close>

section \<open>The database that refuses to round\<close>

definition strictCfg :: "crdb_cfg \<Rightarrow> crdb_cfg" where
  "strictCfg C = C\<lparr>cc_numeric := \<lambda>x. if onGrid x then cc_numeric C x else None\<rparr>"

lemma strictCfg_sel [simp]:
  "cc_now (strictCfg C) = cc_now C"
  "cc_fault (strictCfg C) = cc_fault C"
  "cc_commitFault (strictCfg C) = cc_commitFault C"
  "cc_scan (strictCfg C) = cc_scan C"
  by (simp_all add: strictCfg_def)

lemma strictCfg_exact: "numeric_ok (cc_numeric C) \<Longrightarrow> exactNumeric (strictCfg C)"
  by (auto simp: exactNumeric_def strictCfg_def numeric_onGrid split: if_splits)

definition gridDb :: "crdb \<Rightarrow> bool" where
  "gridDb d \<longleftrightarrow>
     list_all (\<lambda>r. onGrid (kb_PostedDebits r) \<and> onGrid (kb_PostedCredits r)) (k_account_balances d) \<and>
     list_all (\<lambda>r. onGrid (ke_Amount r)) (k_ledger_entries d) \<and>
     list_all (\<lambda>r. okReservation onGrid (rowToReservation r)) (k_reservations d)"

text \<open>The condition of the interpretations, for the tables under a configuration.\<close>

definition gridInv :: "crdb_cfg \<Rightarrow> crdb \<Rightarrow> bool" where
  "gridInv C d \<longleftrightarrow> numeric_ok (cc_numeric C) \<and> gridDb d"

lemma gridDb_other [simp]:
  "gridDb (d\<lparr>k_accounts := a\<rparr>) = gridDb d"
  "gridDb (d\<lparr>k_ledger_journals := js\<rparr>) = gridDb d"
  "gridDb (d\<lparr>k_flow_runs := fr\<rparr>) = gridDb d"
  "gridDb (d\<lparr>k_flow_steps := ss\<rparr>) = gridDb d"
  "gridDb (d\<lparr>k_outbox_events := os\<rparr>) = gridDb d"
  "gridDb (d\<lparr>k_balance_snapshots := n\<rparr>) = gridDb d"
  "gridDb (d\<lparr>k_fx_rates := f\<rparr>) = gridDb d"
  "gridDb (d\<lparr>k_external_records := x\<rparr>) = gridDb d"
  "gridDb (d\<lparr>k_reconciliation_batches := b\<rparr>) = gridDb d"
  "gridDb (d\<lparr>k_discrepancies := y\<rparr>) = gridDb d"
  by (simp_all add: gridDb_def)

section \<open>Statements\<close>

lemma agree_readS: "(\<And>d. I d \<Longrightarrow> Q (f d)) \<Longrightarrow> agree I Q (readS f) (readS f)"
  by (simp add: agree_def readS_def)

lemma same_readS [same_intros]: "same I (readS f) (readS f)"
  by (rule agree_readS) simp

lemma same_modifyS: "(\<And>d. I d \<Longrightarrow> I (f d)) \<Longrightarrow> same I (modifyS f) (modifyS f)"
  by (simp add: agree_def modifyS_def)

lemma same_requireS [same_intros]: "same I (requireS P e) (requireS P e)"
  by (simp add: agree_def requireS_def)

lemma same_whenS [same_intros]: "same I m m' \<Longrightarrow> same I (whenS P m) (whenS P m')"
  by (auto simp: agree_def whenS_def)

lemma agree_limitRows:
  "list_all P rows \<Longrightarrow> agree I (list_all P) (limitRows n rows) (limitRows n rows)"
  by (auto simp: agree_def limitRows_def throwE_def ret_def list_all_iff dest: in_set_takeD)

lemma same_limitRows [same_intros]: "same I (limitRows n rows) (limitRows n rows)"
  by (auto simp: agree_def limitRows_def throwE_def ret_def)

lemma agree_toNumeric:
  "onGrid x \<Longrightarrow> agree (gridInv C) onGrid (toNumeric C x) (toNumeric (strictCfg C) x)"
  by (auto simp: agree_def toNumeric_def strictCfg_def gridInv_def throwE_def ret_def
    dest: numeric_result split: option.splits)

lemma same_numeric_bind [same_intros]:
  "onGrid x \<Longrightarrow> (\<And>y. onGrid y \<Longrightarrow> same (gridInv C) (f y) (f' y)) \<Longrightarrow>
     same (gridInv C) (bindE (toNumeric C x) f) (bindE (toNumeric (strictCfg C) x) f')"
  by (rule agree_bindE [OF agree_toNumeric])

lemma same_modify_grid [same_intros]:
  "(\<And>d. gridDb d \<Longrightarrow> gridDb (f d)) \<Longrightarrow> same (gridInv C) (modifyS f) (modifyS f)"
  by (rule same_modifyS) (simp add: gridInv_def)

lemma list_all_updateWhere:
  "list_all P rows \<Longrightarrow> (\<And>r. P r \<Longrightarrow> P (f r)) \<Longrightarrow> list_all P (updateWhere Q f rows)"
  by (auto simp: updateWhere_def list_all_iff)

section \<open>Queries\<close>

lemma onGrid_sum: "list_all onGrid xs \<Longrightarrow> onGrid (sum_list xs)"
  by (induction xs) (simp_all add: onGrid_add)

lemma sumSides_same [same_intros]:
  "list_all (\<lambda>r. onGrid (ke_Amount r)) rows \<Longrightarrow>
     same (gridInv C) (sumSides C rows) (sumSides (strictCfg C) rows)"
  unfolding sumSides_def
  by (intro same_intros onGrid_sum) (auto simp: list_all_iff)

lemma agree_readS_bind:
  "(\<And>d. I d \<Longrightarrow> Q (f d)) \<Longrightarrow> (\<And>a. Q a \<Longrightarrow> agree I R (g a) (g' a)) \<Longrightarrow>
     agree I R (bindE (readS f) g) (bindE (readS f) g')"
  by (rule agree_bindE [OF agree_readS])

lemma query_reads_same [same_intros]:
  "same (gridInv C) (getAccount tn a now scan) (getAccount tn a now scan)"
  "same (gridInv C) (getFlowByID tn fid now scan) (getFlowByID tn fid now scan)"
  "same (gridInv C) (getFlowByIdempotency tn key now scan) (getFlowByIdempotency tn key now scan)"
  "same (gridInv C) (getFlowSteps tn fid now scan) (getFlowSteps tn fid now scan)"
  "same (gridInv C) (listAccountActivity tn a c ts us lm now scan) (listAccountActivity tn a c ts us lm now scan)"
  "same (gridInv C) (listPendingOutbox lm now scan) (listPendingOutbox lm now scan)"
  "same (gridInv C) (getLatestSnapshotBefore tn a c ts now scan) (getLatestSnapshotBefore tn a c ts now scan)"
  "same (gridInv C) (listTenantsDueForSnapshot ts lm now scan) (listTenantsDueForSnapshot ts lm now scan)"
  "same (gridInv C) (getReservation tn rid now scan) (getReservation tn rid now scan)"
  "same (gridInv C) (getReservationByIdempotency tn key now scan) (getReservationByIdempotency tn key now scan)"
  "same (gridInv C) (listExpiredReservations ts lm now scan) (listExpiredReservations ts lm now scan)"
  "same (gridInv C) (listReservations tn ot oi st lm now scan) (listReservations tn ot oi st lm now scan)"
  "same (gridInv C) (getFXRateAt tn b q ts now scan) (getFXRateAt tn b q ts now scan)"
  "same (gridInv C) (listFXRates tn b q ts us lm now scan) (listFXRates tn b q ts us lm now scan)"
  "same (gridInv C) (getReconBatch tn i now scan) (getReconBatch tn i now scan)"
  "same (gridInv C) (getReconBatchByIdempotency tn key now scan) (getReconBatchByIdempotency tn key now scan)"
  "same (gridInv C) (listExternalRecordsForRecon tn src ts us now scan) (listExternalRecordsForRecon tn src ts us now scan)"
  "same (gridInv C) (listJournalsForRecon tn src ts us now scan) (listJournalsForRecon tn src ts us now scan)"
  "same (gridInv C) (lockDiscrepancy tn i now scan) (lockDiscrepancy tn i now scan)"
  "same (gridInv C) (listDiscrepancies tn b st lm now scan) (listDiscrepancies tn b st lm now scan)"
  unfolding getAccount_def getFlowByID_def getFlowByIdempotency_def getFlowSteps_def
    listAccountActivity_def listPendingOutbox_def getLatestSnapshotBefore_def
    listTenantsDueForSnapshot_def getReservation_def getReservationByIdempotency_def
    listExpiredReservations_def listReservations_def getFXRateAt_def listFXRates_def
    getReconBatch_def getReconBatchByIdempotency_def listExternalRecordsForRecon_def
    listJournalsForRecon_def lockDiscrepancy_def listDiscrepancies_def
  by (rule same_intros)+

lemma query_updates_same [same_intros]:
  "same (gridInv C) (insertAccount i tn ot oi ty c nb an st now scan) (insertAccount i tn ot oi ty c nb an st now scan)"
  "same (gridInv C) (upsertBalanceZero tn a c now scan) (upsertBalanceZero tn a c now scan)"
  "same (gridInv C) (completeFlowRun i tn now scan) (completeFlowRun i tn now scan)"
  "same (gridInv C) (insertFlowRun i tn ft key svc actor meta now scan) (insertFlowRun i tn ft key svc actor meta now scan)"
  "same (gridInv C) (insertFlowStep i tn fid sid st jid ec now scan) (insertFlowStep i tn fid sid st jid ec now scan)"
  "same (gridInv C) (insertJournal i tn fo ev svc ft actor meta now scan) (insertJournal i tn fo ev svc ft actor meta now scan)"
  "same (gridInv C) (incrementOutboxAttempts i now scan) (incrementOutboxAttempts i now scan)"
  "same (gridInv C) (insertOutbox i tn agg ty key pl now scan) (insertOutbox i tn agg ty key pl now scan)"
  "same (gridInv C) (markOutboxPublished i now scan) (markOutboxPublished i now scan)"
  "same (gridInv C) (pruneSnapshotsOlderThan ts lm now scan) (pruneSnapshotsOlderThan ts lm now scan)"
  "same (gridInv C) (insertReconBatch i tn key svc ts us actor now scan) (insertReconBatch i tn key svc ts us actor now scan)"
  "same (gridInv C) (completeReconBatch n1 n2 n3 n4 n5 i tn now scan) (completeReconBatch n1 n2 n3 n4 n5 i tn now scan)"
  "same (gridInv C) (updateExternalRecordMatch st jid i tn now scan) (updateExternalRecordMatch st jid i tn now scan)"
  "same (gridInv C) (insertDiscrepancy i tn b ty xo jid now scan) (insertDiscrepancy i tn b ty xo jid now scan)"
  "same (gridInv C) (resolveDiscrepancyRow st jid note who i tn now scan) (resolveDiscrepancyRow st jid note who i tn now scan)"
  unfolding insertAccount_def upsertBalanceZero_def completeFlowRun_def insertFlowRun_def
    insertFlowStep_def insertJournal_def incrementOutboxAttempts_def insertOutbox_def
    markOutboxPublished_def pruneSnapshotsOlderThan_def insertReconBatch_def
    completeReconBatch_def updateExternalRecordMatch_def insertDiscrepancy_def
    resolveDiscrepancyRow_def
  by (rule same_intros | simp add: gridDb_def; fail)+

text \<open>The statements that write amounts.\<close>

lemma query_amounts_same [same_intros]:
  "onGrid x \<Longrightarrow> onGrid y \<Longrightarrow> same (gridInv C) (updateBalance C tn a c x y now scan)
     (updateBalance (strictCfg C) tn a c x y now scan)"
  "onGrid x \<Longrightarrow> same (gridInv C) (insertEntry C i tn j a c dir x now scan)
     (insertEntry (strictCfg C) i tn j a c dir x now scan)"
  "onGrid x \<Longrightarrow> onGrid y \<Longrightarrow> same (gridInv C) (Crdb_Queries.insertSnapshot C i' tn a c x y ver ts now scan)
     (Crdb_Queries.insertSnapshot (strictCfg C) i' tn a c x y ver ts now scan)"
  "onGrid x \<Longrightarrow> onGrid y \<Longrightarrow>
     same (gridInv C) (insertReservation C i' tn key a b c x y st ts fid meta now scan)
       (insertReservation (strictCfg C) i' tn key a b c x y st ts fid meta now scan)"
  "onGrid x \<Longrightarrow> onGrid y \<Longrightarrow> onGrid z \<Longrightarrow>
     same (gridInv C) (updateReservationAmounts C x y z st tn i' now scan)
       (updateReservationAmounts (strictCfg C) x y z st tn i' now scan)"
  "onGrid x \<Longrightarrow> same (gridInv C) (upsertFXRate C i' tn b q x src ts now scan)
     (upsertFXRate (strictCfg C) i' tn b q x src ts now scan)"
  "onGrid x \<Longrightarrow> same (gridInv C) (insertExternalRecord C i' tn src ref x c ts acct raw now scan)
     (insertExternalRecord (strictCfg C) i' tn src ref x c ts acct raw now scan)"
  unfolding updateBalance_def insertEntry_def Crdb_Queries.insertSnapshot_def insertReservation_def
    updateReservationAmounts_def upsertFXRate_def insertExternalRecord_def Let_def
  by (rule same_intros | assumption |
    simp add: gridDb_def list_all_updateWhere rowToReservation_def okReservation_def; fail)+

text \<open>The statements that read amounts.\<close>

lemma gridInv_entries:
  "gridInv C d \<Longrightarrow> list_all (\<lambda>r. onGrid (ke_Amount r)) (filter P (k_ledger_entries d))"
  by (auto simp: gridInv_def gridDb_def list_all_iff)

lemma sumEntriesBetween_same [same_intros]:
  "same (gridInv C) (sumEntriesBetween C tn a c ts us now scan)
     (sumEntriesBetween (strictCfg C) tn a c ts us now scan)"
  unfolding sumEntriesBetween_def
  by (rule agree_readS_bind [where Q = "list_all (\<lambda>r. onGrid (ke_Amount r))"])
    (simp_all add: gridInv_entries sumSides_same)

lemma sumJournalEntries_same [same_intros]:
  "same (gridInv C) (sumJournalEntries C tn j a c now scan)
     (sumJournalEntries (strictCfg C) tn j a c now scan)"
  unfolding sumJournalEntries_def
  by (rule agree_readS_bind [where Q = "list_all (\<lambda>r. onGrid (ke_Amount r))"])
    (simp_all add: gridInv_entries sumSides_same)

definition gridBalance :: "crdbAccountBalance \<Rightarrow> bool" where
  "gridBalance r \<longleftrightarrow> onGrid (kb_PostedDebits r) \<and> onGrid (kb_PostedCredits r)"

lemma gridInv_balances: "gridInv C d \<Longrightarrow> r \<in> set (k_account_balances d) \<Longrightarrow> gridBalance r"
  by (auto simp: gridInv_def gridDb_def gridBalance_def list_all_iff)

lemma balance_reads:
  "agree (gridInv C) (\<lambda>x. \<forall>r. x = Some r \<longrightarrow> gridBalance r) (getBalance tn a c now scan) (getBalance tn a c now scan)"
  "agree (gridInv C) (\<lambda>x. \<forall>r. x = Some r \<longrightarrow> gridBalance r) (lockBalance tn a c now scan) (lockBalance tn a c now scan)"
  "agree (gridInv C) (list_all gridBalance) (listAllBalancesForTenant tn now scan)
     (listAllBalancesForTenant tn now scan)"
  unfolding getBalance_def lockBalance_def listAllBalancesForTenant_def
  by (rule agree_readS, auto dest: find_SomeD gridInv_balances simp: list_all_iff)+

lemma lockReservation_read:
  "agree (gridInv C) (\<lambda>x. \<forall>r. x = Some r \<longrightarrow> okReservation onGrid (rowToReservation r))
     (lockReservation tn i now scan) (lockReservation tn i now scan)"
  unfolding lockReservation_def
  by (rule agree_readS) (auto dest!: find_SomeD simp: gridInv_def gridDb_def list_all_iff)

section \<open>Transactions\<close>

definition gridTx :: "crdb_cfg \<Rightarrow> crdb_tx \<Rightarrow> bool" where
  "gridTx C t \<longleftrightarrow> gridInv C (ct_db t)"

lemma agree_onTx:
  assumes "\<And>now scan. agree (gridInv C) Q (q now scan) (q' now scan)"
  shows "agree (gridTx C) Q (onTx C q) (onTx (strictCfg C) q')"
proof (rule agreeI)
  fix t r t' assume t: "gridTx C t" and run: "onTx C q t = (r, t')"
  obtain rq d where q: "q (ct_now t) (cc_scan C (ct_tick t)) (ct_db t) = (rq, d)"
    by (cases "q (ct_now t) (cc_scan C (ct_tick t)) (ct_db t)")
  have "gridInv C (ct_db t)" using t by (simp add: gridTx_def)
  from agreeD [OF assms this q] run q t
  show "onTx (strictCfg C) q' t = (r, t') \<and> gridTx C t' \<and> (\<forall>a. r = Inr a \<longrightarrow> Q a)"
    by (auto simp: onTx_def Let_def gridTx_def split: option.splits sum.splits if_splits)
qed

lemmas same_onTx [same_intros] = agree_onTx [where Q = "\<lambda>_. True"]

interpretation gtx: tx_agree "crdbTx C" "crdbTx (strictCfg C)" "gridTx C" onGrid for C
proof (unfold_locales, goal_cases)
  case (6 tn a ccy)
  show ?case
    unfolding crdbTx_simps Crdb_Tx.LockBalance_def Crdb_Tx.EnsureBalanceRow_def
    by (rule agree_thenE [OF same_onTx [OF query_updates_same(2)]],
      rule agree_bindE [OF agree_onTx [OF balance_reads(2)]])
      (auto simp: gridBalance_def intro: agree_throwE agree_ret split: option.splits)
next
  case (17 tn rid)
  show ?case
    unfolding crdbTx_simps Crdb_Tx.LockReservation_def
    by (rule agree_bindE [OF agree_onTx [OF lockReservation_read]])
      (auto intro: agree_throwE agree_ret split: option.splits)
qed (simp_all add: onGrid_add onGrid_diff okReservation_def Crdb_Tx.GetFlowByIdempotency_def
  Crdb_Tx.GetAccount_def Crdb_Tx.UpdateBalance_def Crdb_Tx.InsertAccount_def
  Crdb_Tx.InsertFlowRun_def Crdb_Tx.CompleteFlowRun_def Crdb_Tx.InsertJournal_def
  Crdb_Tx.InsertEntry_def Crdb_Tx.InsertFlowStep_def Crdb_Tx.InsertOutbox_def
  Crdb_Tx.GetFlowSteps_def Crdb_Tx.InsertReservation_def Crdb_Tx.GetReservationByIdempotency_def
  Crdb_Tx.UpdateReservationAmounts_def Crdb_Tx.GetReconBatchByIdempotency_def
  Crdb_Tx.InsertReconBatch_def Crdb_Tx.CompleteReconBatch_def txExternalRecords_def txJournals_def
  Crdb_Tx.UpdateExternalRecordMatch_def Crdb_Tx.SumJournalEntries_def
  Crdb_Tx.InsertDiscrepancy_def Crdb_Tx.LockDiscrepancy_def Crdb_Tx.ResolveDiscrepancyRow_def
  Let_def same_intros)

section \<open>The store\<close>

definition gridStore :: "crdb_cfg \<Rightarrow> crdb_store \<Rightarrow> bool" where
  "gridStore C s \<longleftrightarrow> gridInv C (kp_db s)"

lemma agree_onPool:
  assumes "\<And>now scan. agree (gridInv C) Q (q now scan) (q' now scan)"
  shows "agree (gridStore C) Q (onPool C q) (onPool (strictCfg C) q')"
proof (rule agreeI)
  fix s r s' assume s: "gridStore C s" and run: "onPool C q s = (r, s')"
  obtain rq d where q: "q (cc_now C (kp_tick s)) (cc_scan C (kp_tick s)) (kp_db s) = (rq, d)"
    by (cases "q (cc_now C (kp_tick s)) (cc_scan C (kp_tick s)) (kp_db s)")
  have "gridInv C (kp_db s)" using s by (simp add: gridStore_def)
  from agreeD [OF assms this q] run q s
  show "onPool (strictCfg C) q' s = (r, s') \<and> gridStore C s' \<and> (\<forall>a. r = Inr a \<longrightarrow> Q a)"
    by (auto simp: onPool_def Let_def gridStore_def split: option.splits sum.splits if_splits)
qed

lemmas same_onPool [same_intros] = agree_onPool [where Q = "\<lambda>_. True"]

lemma Begin_grid: "agree (gridStore C) (gridTx C) (BeginFlowTx C) (BeginFlowTx (strictCfg C))"
  by (auto simp: agree_def BeginFlowTx_def Let_def gridStore_def gridTx_def split: option.splits)

lemma Commit_grid: "gridTx C t \<Longrightarrow> same (gridStore C) (Commit C t) (Commit (strictCfg C) t)"
  by (auto simp: agree_def Commit_def Let_def gridStore_def gridTx_def split: option.splits if_splits)

lemma Rollback_grid:
  "gridStore C s \<Longrightarrow> gridStore C (Rollback C t s) \<and> Rollback (strictCfg C) t s = Rollback C t s"
  by (simp add: Rollback_def gridStore_def)

interpretation gst: store_agree "crdbStore C" "crdbStore (strictCfg C)" "gridStore C" "gridTx C" onGrid for C
proof (rule store_agree.intro, goal_cases)
  case 1
  show ?case by (simp add: gtx.tx_agree_axioms)
next
  case 2
  show ?case by (simp add: Begin_grid)
next
  case (3 t)
  then show ?case by (simp add: Commit_grid)
next
  case (4 s t)
  then show ?case by (simp add: Rollback_grid)
next
  case (6 tn a ccy)
  show ?case
    unfolding crdbStore_simps Crdb_Store.GetBalance_def
    by (rule agree_bindE [OF agree_onPool [OF balance_reads(1)]])
      (auto simp: gridBalance_def intro: agree_ret split: option.splits)
next
  case (15 tn)
  show ?case
    unfolding crdbStore_simps Crdb_Store.ListTenantBalances_def
    by (rule agree_bindE [OF agree_onPool [OF balance_reads(3)]])
      (auto simp: gridBalance_def okSnapshotOf_def list_all_iff intro: agree_ret)
qed (simp_all add: Crdb_Store.GetAccount_def Crdb_Store.GetFlow_def
  Crdb_Store.ListAccountActivity_def Crdb_Store.PendingOutbox_def
  Crdb_Store.MarkOutboxPublished_def Crdb_Store.IncrementOutboxAttempts_def
  Crdb_Store.InsertSnapshot_def Crdb_Store.GetSnapshotBefore_def Crdb_Store.SumEntriesBetween_def
  Crdb_Store.ListTenantsDueForSnapshot_def Crdb_Store.PruneSnapshotsOlderThan_def
  Crdb_Store.UpsertFXRate_def Crdb_Store.GetFXRateAt_def Crdb_Store.ListFXRates_def
  Crdb_Store.GetReservation_def Crdb_Store.ListExpiredReservations_def
  Crdb_Store.ListReservations_def Crdb_Store.InsertExternalRecord_def
  Crdb_Store.GetReconBatch_def Crdb_Store.ListDiscrepancies_def Let_def same_intros)

section \<open>Runs of the system on CockroachDB\<close>

definition freshCrdb :: crdb_store where
  "freshCrdb = \<lparr>kp_db = emptyCrdb, kp_tick = 0, kp_closed = True\<rparr>"

definition freshCrdbWorld :: "crdb_store world" where
  "freshCrdbWorld = \<lparr>w_st = freshCrdb, w_ids = 0, w_ticks = 0\<rparr>"

text \<open>What a deployment relies on: the DECIMAL columns round as documented, and a COMMIT that is
  reported as failed has not been applied.\<close>

definition saneCrdb :: "crdb_cfg \<Rightarrow> bool" where
  "saneCrdb C \<longleftrightarrow> numeric_ok (cc_numeric C) \<and> (\<forall>n e. cc_commitFault C n \<noteq> Some (e, True))"

lemma freshCrdb_grid: "saneCrdb C \<Longrightarrow> gridStore C freshCrdb"
  by (simp add: saneCrdb_def gridStore_def gridInv_def gridDb_def freshCrdb_def emptyCrdb_def)

lemma freshCrdb_inv: "saneCrdb C \<Longrightarrow> storeInv (strictCfg C) freshCrdb"
  by (simp add: saneCrdb_def storeInv_def strictCfg_exact crdbKeys_def freshCrdb_def emptyCrdb_def)

lemma freshCrdb_ledger: "ledger_inv (storeView freshCrdb)"
  by (simp add: storeView_def crdbView_def freshCrdb_def emptyCrdb_def ledger_inv_def
    ledger_inv_parts balanceOf_def tenantEntries_def netIn_def)

text \<open>A run of requests whose amounts are on the grid, and of jobs, is a run on the exact store.\<close>

lemma crdb_run:
  assumes "saneCrdb C" and "codec_ok (env_D (dp_env X))" and "dp_store X = crdbStore C"
    and "list_all (okAction onGrid (env_D (dp_env X))) actions"
    and "fold (act X) actions (freshCrdbWorld, k0) = (w, k)"
  shows "reach (X\<lparr>dp_store := crdbStore (strictCfg C)\<rparr>) (freshCrdbWorld, k0) (w, k) \<and>
    gridStore C (w_st w)"
proof -
  have "gridStore C (w_st freshCrdbWorld)"
    using freshCrdb_grid [OF assms(1)] by (simp add: freshCrdbWorld_def)
  from gst.run_agree [OF assms(2,3,4) this assms(5)]
    reach_run [OF reach_start, of "X\<lparr>dp_store := crdbStore (strictCfg C)\<rparr>" "(freshCrdbWorld, k0)" actions]
  show ?thesis by simp
qed

lemma crdb_run_ledger:
  assumes "saneCrdb C" and "codec_ok (env_D (dp_env X))" and "dp_store X = crdbStore C"
    and "list_all (okAction onGrid (env_D (dp_env X))) actions"
    and "fold (act X) actions (freshCrdbWorld, k0) = (w, k)"
  shows "ledger_inv (storeView (w_st w)) \<and>
    ledger_steps (storeView freshCrdb) (storeView (w_st w)) \<and> gridDb (kp_db (w_st w))"
  using cr.reach_steps [OF conjunct1 [OF crdb_run [OF assms]], of "strictCfg C"]
    freshCrdb_inv [OF assms(1)] freshCrdb_ledger crdb_run [OF assms]
  by (simp add: freshCrdbWorld_def gridStore_def gridInv_def)

end
