(* ===== verification/Crdb_Commit.thy ===== *)
theory Crdb_Commit
  imports Crdb_Grid
begin

text \<open>
  A COMMIT whose outcome is unknown. When the connection breaks during COMMIT the client sees an
  error, and the transaction may have been applied. \<open>attempt\<close> is a call of the orchestrator whose
  answer is lost; whatever a series of attempts met, the first call that succeeds leaves the
  ledger with the flow posted once. The configuration is arbitrary here: any statement and any
  COMMIT may fail, applied or not.
\<close>

definition attempt :: "env \<Rightarrow> crdb_cfg \<Rightarrow> ExecuteFlowRequest \<Rightarrow> crdb_store world \<Rightarrow> crdb_store world" where
  "attempt E C r w = snd (ExecuteFlow E (crdbStore C) r w)"

section \<open>On exact columns\<close>

definition exactStore :: "crdb_cfg \<Rightarrow> crdb_store \<Rightarrow> bool" where
  "exactStore C s \<longleftrightarrow> exactNumeric C \<and> crdbKeys (kp_db s)"

text \<open>What a transaction of the store did, when its body does \<open>Q\<close>: it is reported as done and was
  applied, or it is reported as failed and was applied or not.\<close>

lemma crdb_runTx:
  assumes "exactStore C (w_st w)" and "runTx (crdbStore C) body w = (r, w')"
    and "\<And>s w1 a w2. storeTInv C s (w_st w1) \<Longrightarrow> body w1 = (Inr a, w2) \<Longrightarrow>
      storeTInv C s (w_st w2) \<and> Q (w_ids w1) (txView (w_st w1)) a (txView (w_st w2))"
  shows "exactStore C (w_st w') \<and>
    (case r of
       Inr a \<Rightarrow> Q (w_ids w) (storeView (w_st w)) a (storeView (w_st w'))
     | Inl e \<Rightarrow> storeView (w_st w') = storeView (w_st w) \<or>
         (\<exists>a. Q (w_ids w) (storeView (w_st w)) a (storeView (w_st w'))))"
proof -
  let ?w1 = "\<lambda>t. \<lparr>w_st = t, w_ids = w_ids w, w_ticks = w_ticks w\<rparr>"
  obtain rb s1 where b: "BeginFlowTx C (w_st w) = (rb, s1)" by (cases "BeginFlowTx C (w_st w)")
  show ?thesis
  proof (cases rb)
    case (Inl e)
    with assms(1,2) b show ?thesis
      by (auto simp: runTx_def BeginFlowTx_def Let_def exactStore_def storeView_def split: option.splits)
  next
    case (Inr t)
    with b assms(1) have t: "kp_db s1 = kp_db (w_st w)" "ct_db t = kp_db (w_st w)"
      "storeTInv C s1 t"
      by (auto simp: BeginFlowTx_def Let_def exactStore_def storeTInv_def txInv_def split: option.splits)
    obtain rx wt where x: "body (?w1 t) = (rx, wt)" by (cases "body (?w1 t)")
    show ?thesis
    proof (cases rx)
      case (Inl e)
      with assms(1,2) b Inr x t show ?thesis
        by (auto simp: runTx_def Rollback_def exactStore_def storeView_def)
    next
      case (Inr a)
      from assms(3) [of s1 "?w1 t"] t x Inr
      have q: "storeTInv C s1 (w_st wt)" "Q (w_ids w) (storeView (w_st w)) a (txView (w_st wt))"
        by (simp_all add: storeView_def txView_def)
      obtain rc s2 where c: "Commit C (w_st wt) s1 = (rc, s2)" by (cases "Commit C (w_st wt) s1")
      have s2: "kp_db s2 = kp_db s1 \<or> kp_db s2 = ct_db (w_st wt)"
        "rc = Inr () \<Longrightarrow> kp_db s2 = ct_db (w_st wt)"
        using c by (auto simp: Commit_def Let_def split: option.splits if_splits)
      from assms(2) b \<open>rb = Inr t\<close> x Inr c
      have w': "w_st w' = (case rc of Inl e \<Rightarrow> Rollback C (w_st wt) s2 | Inr u \<Rightarrow> s2)"
        "r = (case rc of Inl e \<Rightarrow> Inl e | Inr u \<Rightarrow> Inr a)"
        by (auto simp: runTx_def split: sum.splits)
      then have db: "kp_db (w_st w') = kp_db s2"
        by (simp add: Rollback_def split: sum.splits)
      from q s2 t w' db assms(1) show ?thesis
        by (cases rc) (auto simp: exactStore_def storeView_def txView_def storeTInv_def txInv_def)
    qed
  qed
qed

lemma exact_ExecuteFlow:
  assumes "exactStore C (w_st w)" and "ExecuteFlow E (crdbStore C) r w = (res, w')"
  shows "exactStore C (w_st w') \<and>
    (case res of
       Inr resp \<Rightarrow> flowDone E r (w_ids w) (storeView (w_st w)) resp (storeView (w_st w'))
     | Inl e \<Rightarrow> storeView (w_st w') = storeView (w_st w) \<or>
         (\<exists>resp. flowDone E r (w_ids w) (storeView (w_st w)) resp (storeView (w_st w'))))"
proof -
  obtain res0 where run: "runTx (crdbStore C) (executeFlowInTx E (crdbTx C) r) w = (res0, w')"
    and res: "res = (case res0 of Inl e \<Rightarrow> Inl (ToConnectError e) | Inr a \<Rightarrow> Inr a)"
    using assms(2) by (auto simp: ExecuteFlow_def mapErr_def split: prod.splits sum.splits)
  from crdb_runTx [where Q = "flowDone E r", OF assms(1) run cr.tx.executeFlowInTx_Inr] res
  show ?thesis by (auto split: sum.splits)
qed

section \<open>On rounding columns\<close>

definition crdbReady :: "crdb_cfg \<Rightarrow> crdb_store \<Rightarrow> bool" where
  "crdbReady C s \<longleftrightarrow> gridStore C s \<and> crdbKeys (kp_db s)"

lemma crdbReady_exact: "crdbReady C s \<Longrightarrow> exactStore (strictCfg C) s"
  by (simp add: crdbReady_def gridStore_def gridInv_def exactStore_def strictCfg_exact)

lemma crdb_ExecuteFlow:
  assumes "crdbReady C (w_st w)" and "okSteps onGrid (env_D E) (efr_Steps r)"
    and "ExecuteFlow E (crdbStore C) r w = (res, w')"
  shows "crdbReady C (w_st w') \<and>
    (case res of
       Inr resp \<Rightarrow> flowDone E r (w_ids w) (storeView (w_st w)) resp (storeView (w_st w'))
     | Inl e \<Rightarrow> storeView (w_st w') = storeView (w_st w) \<or>
         (\<exists>resp. flowDone E r (w_ids w) (storeView (w_st w)) resp (storeView (w_st w'))))"
proof -
  have "gridStore C (w_st w)" using assms(1) by (simp add: crdbReady_def)
  note a = agreeD [OF gst.flow_handlers_agree(1) [OF assms(2)] this assms(3)]
  from exact_ExecuteFlow [OF crdbReady_exact [OF assms(1)] conjunct1 [OF a]] a show ?thesis
    by (auto simp: crdbReady_def exactStore_def)
qed

lemma attempts:
  assumes "crdbReady C (w_st w)" and "okSteps onGrid (env_D E) (efr_Steps r)"
  shows "crdbReady C (w_st ((attempt E C r ^^ n) w)) \<and>
    (storeView (w_st ((attempt E C r ^^ n) w)) = storeView (w_st w) \<or>
     (\<exists>m resp. flowDone E r m (storeView (w_st w)) resp (storeView (w_st ((attempt E C r ^^ n) w)))))"
proof (induction n)
  case 0
  with assms show ?case by simp
next
  case (Suc n)
  let ?w = "(attempt E C r ^^ n) w"
  obtain res w' where run: "ExecuteFlow E (crdbStore C) r ?w = (res, w')"
    by (cases "ExecuteFlow E (crdbStore C) r ?w")
  then have w': "(attempt E C r ^^ Suc n) w = w'" by (simp add: attempt_def)
  from crdb_ExecuteFlow [OF conjunct1 [OF Suc] assms(2) run]
  have 1: "crdbReady C (w_st w')" "storeView (w_st w') = storeView (w_st ?w) \<or>
      (\<exists>m resp. flowDone E r m (storeView (w_st ?w)) resp (storeView (w_st w')))"
    by (auto split: sum.splits)
  show ?case
    unfolding w' using Suc 1 flowDone_twice by metis
qed

end
