(* ===== verification/Crdb_Properties.thy ===== *)
theory Crdb_Properties
  imports Fixtures Crdb_Commit
begin

text \<open>
  Properties of the CockroachDB backend, on a concrete database: columns that round half up to 18
  places and refuse what does not fit, a clock that counts, and identifiers of 32 hexadecimal
  digits, as a UUID column needs them.
\<close>

section \<open>A database\<close>

definition roundNumeric :: "decimal \<Rightarrow> decimal option" where
  "roundNumeric x = (let y = rat_of_int (round (x * 10 ^ 18)) / 10 ^ 18 in
     if \<bar>y\<bar> < 10 ^ 20 then Some y else None)"






definition crdbC :: crdb_cfg where
  "crdbC = \<lparr>cc_numeric = roundNumeric, cc_now = int, cc_fault = (\<lambda>n. None),
     cc_commitFault = (\<lambda>n. None), cc_scan = (\<lambda>n i. i)\<rparr>"






definition crdbRow :: "string \<Rightarrow> bool \<Rightarrow> us \<Rightarrow> crdbAccount" where
  "crdbRow owner neg t = \<lparr>ka_ID = ''u:'' @ owner @ '':c:U'', ka_TenantID = ''t'', ka_OwnerType = ''u'',
     ka_OwnerID = owner, ka_AccountType = ''c'', ka_Currency = ''U'', ka_NormalBalance = NormalDebit,
     ka_AllowNegative = neg, ka_Status = AccountActive, ka_CreatedAt = Some t\<rparr>"








section \<open>Identifiers\<close>

definition lowerHex :: "char \<Rightarrow> char" where
  "lowerHex c = (if CHR ''A'' \<le> c \<and> c \<le> CHR ''F'' then char_of (of_char c + (32 :: nat)) else c)"

definition hexChar_ok :: "char \<Rightarrow> bool" where
  "hexChar_ok c \<longleftrightarrow> hexVal c < 0 \<or> hexVal c < 16 \<and> hexDigit (nat (hexVal c)) = lowerHex c"

lemma char_between:
  assumes "a \<le> c" and "c \<le> b" and "of_char a = m" and "of_char b = n"
  shows "c \<in> char_of ` {m..n :: nat}"
proof (rule image_eqI)
  show "c = char_of (of_char c :: nat)" by simp
  show "of_char c \<in> {m..n}" using assms by (simp add: less_eq_char_def)
qed

lemma hexChars: "list_all hexChar_ok (map char_of ([48..<58] @ [97..<103] @ [65..<71::nat]))"
  by code_simp

lemma hexChar: "hexChar_ok c"
proof (cases "hexVal c < 0")
  case False
  then have "c \<in> char_of ` {48..57::nat} \<or> c \<in> char_of ` {97..102::nat} \<or> c \<in> char_of ` {65..70::nat}"
    using char_between [of "CHR ''0''" c "CHR ''9''" 48 57]
      char_between [of "CHR ''a''" c "CHR ''f''" 97 102]
      char_between [of "CHR ''A''" c "CHR ''F''" 65 70]
    by (auto simp only: hexVal_def of_char_Char of_bool_eq split: if_splits) simp_all
  then have "c \<in> set (map char_of ([48..<58] @ [97..<103] @ [65..<71::nat]))"
    by (auto simp del: upt_rec_numeral)
  with hexChars show ?thesis by (simp only: list_all_iff)
qed (simp add: hexChar_ok_def)

lemma hexDigits:
  assumes "\<not> hexVal h < 0" and "\<not> hexVal l < 0"
  defines "w \<equiv> word_of_int (hexVal h * 16 + hexVal l) :: 8 word"
  shows "[hexDigit (unat w div 16), hexDigit (unat w mod 16)] = [lowerHex h, lowerHex l]"
proof -
  have h: "0 \<le> hexVal h" "hexVal h < 16" "hexDigit (nat (hexVal h)) = lowerHex h"
    using hexChar [of h] assms(1) by (auto simp: hexChar_ok_def)
  have l: "0 \<le> hexVal l" "hexVal l < 16" "hexDigit (nat (hexVal l)) = lowerHex l"
    using hexChar [of l] assms(2) by (auto simp: hexChar_ok_def)
  have "uint w = hexVal h * 16 + hexVal l"
    using h l by (simp only: w_def uint_word_of_int) (simp add: mod_pos_pos_trivial)
  then have u: "unat w = nat (hexVal h) * 16 + nat (hexVal l)"
    using h l by (simp add: unat_eq_nat_uint nat_add_distrib nat_mult_distrib)
  have "nat (hexVal l) < 16" using l by simp
  then have "unat w div 16 = nat (hexVal h)" "unat w mod 16 = nat (hexVal l)"
    by (simp_all add: u)
  with h l show ?thesis by simp
qed

lemma formatHex_hexBytes:
  "even (length hex) \<Longrightarrow> hexBytes hex = Inr bs \<Longrightarrow> formatHex bs = map lowerHex hex"
proof (induction hex arbitrary: bs rule: hexBytes.induct)
  case (1 h l rest)
  then obtain bs' where "\<not> hexVal h < 0" "\<not> hexVal l < 0" "hexBytes rest = Inr bs'"
    "bs = word_of_int (hexVal h * 16 + hexVal l) # bs'"
    by (auto split: if_splits sum.splits)
  with 1 hexDigits [of h l] show ?case by (simp add: formatHex_def)
qed (simp_all add: formatHex_def)

lemma formatHex_parseUUID:
  "parseUUID s = Inr bs \<Longrightarrow> formatHex bs = map lowerHex (filter (\<lambda>c. c \<noteq> CHR ''-'') s)"
  using formatHex_hexBytes [of "filter (\<lambda>c. c \<noteq> CHR ''-'') s" bs]
  by (simp add: parseUUID_def Let_def split: if_splits)

section \<open>Properties\<close>






text \<open>C27: the identifier of an entry does not come back as it was given. It is stored as the
  sixteen bytes of a UUID, and \<open>ListAccountActivity\<close> reports them in lower case without hyphens.\<close>

theorem crdb_entry_id:
  assumes "Crdb_Tx.InsertEntry C tn entryID jid a ccy dir amt t = (Inr u, t')"
  shows "\<exists>r. k_ledger_entries (ct_db t') = k_ledger_entries (ct_db t) @ [r] \<and>
    ar_EntryID (entryToActivity r) = map lowerHex (filter (\<lambda>c. c \<noteq> CHR ''-'') entryID)"
  using assms
  by (auto simp: Crdb_Tx.InsertEntry_def insertEntry_def exec_simps entryToActivity_def
    formatHex_parseUUID split: sum.splits)

definition uuidTx :: crdb_tx where
  "uuidTx = \<lparr>ct_db = emptyCrdb\<lparr>k_accounts := [crdbRow ''a'' False 0],
     k_ledger_journals := [\<lparr>kj_ID = ''j'', kj_TenantID = ''t'', kj_FlowRunID = None, kj_EventID = ''e'',
       kj_SourceService = ''s'', kj_SourceType = ''P'', kj_ActorID = ''a'', kj_Metadata = [],
       kj_CreatedAt = Some 0\<rparr>]\<rparr>, ct_now = 0, ct_tick = 0, ct_aborted = False\<rparr>"

lemma uuid_run:
  "succeeds (Crdb_Tx.InsertEntry crdbC ''t'' ''F47AC10B-58CC-4372-A567-0E02B2C3D479'' ''j'' ''u:a:c:U'' ''U''
     DirectionDebit 1) uuidTx"
  by code_simp

theorem crdb_entry_id_witness:
  "\<exists>t' r. Crdb_Tx.InsertEntry crdbC ''t'' ''F47AC10B-58CC-4372-A567-0E02B2C3D479'' ''j'' ''u:a:c:U'' ''U''
       DirectionDebit 1 uuidTx = (Inr (), t') \<and> k_ledger_entries (ct_db t') = [r] \<and>
     ar_EntryID (entryToActivity r) = ''f47ac10b58cc4372a5670e02b2c3d479''"
proof -
  obtain t' where t: "Crdb_Tx.InsertEntry crdbC ''t'' ''F47AC10B-58CC-4372-A567-0E02B2C3D479'' ''j'' ''u:a:c:U'' ''U''
      DirectionDebit 1 uuidTx = (Inr (), t')"
    using succeeds_run [OF uuid_run] by auto
  have "map lowerHex (filter (\<lambda>c. c \<noteq> CHR ''-'') ''F47AC10B-58CC-4372-A567-0E02B2C3D479'') =
      ''f47ac10b58cc4372a5670e02b2c3d479''" by code_simp
  moreover have "k_ledger_entries (ct_db uuidTx) = []" by (simp add: uuidTx_def emptyCrdb_def)
  ultimately show ?thesis using crdb_entry_id [OF t] t by auto
qed




end
