(* ===== verification/Spec2Isabelle.thy ===== *)
theory Spec2Isabelle
  imports Service_Properties Store_Properties Client_Properties Remote_Properties
    Embedded Dynamo_Properties Crdb_Properties
begin

text \<open>
  A verification library for dledger, a multi-tenant double-entry ledger in Go.

  \<^bold>\<open>The program.\<close> The service (\<open>internal/service\<close>) executes \<^emph>\<open>flows\<close>: lists of journals
  that are posted in one database transaction under an idempotency key. Reservations (hold,
  commit, release, expire), currency exchanges and the resolution of discrepancies are flows
  with a record of their own. It reads and writes through the interface \<open>repo.Store\<close> /
  \<open>repo.Tx\<close> (\<open>internal/repo\<close>), which has three backends. Every posted step leaves an event in
  an outbox table that a dispatcher (\<open>internal/outbox\<close>) delivers; a scheduler
  (\<open>internal/scheduler\<close>) takes balance snapshots, expires reservations and prunes snapshots; a
  matcher (\<open>internal/recon\<close>) compares journals with external records. \<open>pkg/dledger\<close> is the
  client library, with a wallet on top.

  \<^bold>\<open>The theories\<close>, in the order of their imports:
  \<^item> \<open>Prelude\<close>: decimals (exact rationals; the decimal package is the parameter \<open>decimal_lib\<close>),
    times (nanoseconds), the state-and-error computations \<open>exec\<close>, and shared list lemmas.
  \<^item> \<open>Domain\<close>: \<open>internal/ledger\<close>: error codes, accounts, journals and \<open>Journal.Validate\<close>,
    flows, reservations, reconciliation types.
  \<^item> \<open>Repo\<close>: \<open>repo.go\<close> as the records \<open>tx_ops\<close> and \<open>store_ops\<close>, \<open>retry.go\<close>, the abstract
    \<open>ledger_view\<close>, and the contracts of a backend as the locales \<open>ledger_tx\<close> and
    \<open>ledger_store\<close>.
  \<^item> \<open>Proto\<close>: the messages of \<open>ledger.proto\<close>, \<open>ToConnectError\<close>, the server's clock and
    identifiers (\<open>env\<close>).
  \<^item> \<open>Ledger_Spec\<close>: the specification: what may happen to a \<open>ledger_view\<close> (\<open>ledger_step\<close>), the
    books (\<open>ledger_inv\<close>) that every step keeps, and what no step ever undoes (\<open>extends\<close>).
  \<^item> \<open>Flow\<close>, \<open>Flow_Correct\<close>: \<open>execute_flow.go\<close>, \<open>post_journal.go\<close>, \<open>server.go\<close>; each loop of
    the orchestrator is related to the specification, so that a successful flow is one
    \<open>post\<close> step (\<open>flowDone\<close>) and a failed transaction is none.
  \<^item> \<open>Accounts\<close>, \<open>Reservations\<close>, \<open>Exchange\<close>, \<open>Snapshots\<close>, \<open>Reconcile\<close>: the other handlers of
    \<open>internal/service\<close> and the matcher, each with its effect on the ledger.
  \<^item> \<open>Scheduler\<close>: the three ticks of \<open>scheduler.go\<close>.
  \<^item> \<open>Sql_Base\<close>: tables as lists of rows and the statements on them, for both SQL backends.
  \<^item> \<open>Sqlite_Rows\<close>, \<open>Sqlite_Queries\<close>, \<open>Sqlite_Tx\<close>, \<open>Sqlite_Store\<close>: the SQLite backend: the
    rows, the generated queries of \<open>gen/sqlite\<close> one by one, the methods of \<open>tx.go\<close> and
    \<open>store.go\<close> over them, the connection with its transaction, and the proof that they meet both contracts (\<open>sqtx\<close>, \<open>sq\<close>).
  \<^item> \<open>Outbox\<close>: the dispatcher against a contract of the queue and one of the sink, both met by
    the SQLite outbox and the log sink.
  \<^item> \<open>Go_Time\<close>: dates and RFC 3339 texts of times as Go's \<open>time\<close> package writes and reads them.
  \<^item> \<open>Dynamo_Items\<close>, \<open>Dynamo_Store\<close>, \<open>Dynamo_Tx\<close>: the DynamoDB backend: keys and items of its
    one table, the reads and updates of the store, and the transaction, a write buffer that a
    single conditional request flushes. The service is the contract \<open>dynamodb\<close>; it says what
    every client of this code may do to the table (\<open>evolves\<close>).
  \<^item> \<open>Dynamo_Commit\<close>, \<open>Dynamo_Steps\<close>, \<open>Dynamo_Properties\<close>: the invariant of the write buffer,
    the outcomes of a commit, and runs of a transaction while other clients commit.
  \<^item> \<open>Crdb_Rows\<close>, \<open>Crdb_Queries\<close>, \<open>Crdb_Tx\<close>, \<open>Crdb_Store\<close>: the CockroachDB backend: the rows and
    one definition per generated query of \<open>gen/crdb\<close>, with the constraints and foreign keys of
    the tables, the conversions of \<open>conv.go\<close>, the transaction (which a failed statement aborts) and
    the pool. \<open>Crdb_Laws\<close>, \<open>Crdb_Contract\<close>: it meets both contracts where columns are exact (\<open>cr\<close>).
  \<^item> \<open>Agree\<close>, \<open>Crdb_Grid\<close>: two backends that behave alike on certain amounts give every request
    and job the same answer; a database that rounds to 18 decimal places agrees so with one that
    refuses to round, which carries all that is proved of exact columns over to it.
  \<^item> \<open>Crdb_Commit\<close>, \<open>Crdb_Properties\<close>: COMMITs whose outcome is unknown, and the properties.
  \<^item> \<open>Client\<close>, \<open>Wallet\<close>: \<open>pkg/dledger\<close>: the client interface, the embedded client, the error
    codes and the wallet; the contract \<open>ledger_client\<close> follows from \<open>ledger_store\<close>.
  \<^item> \<open>Connect\<close>, \<open>Remote\<close>, \<open>Remote_Contract\<close>, \<open>Remote_Properties\<close>: the network: the generated client and
    handler of \<open>gen/proto\<close>, the interceptors, the routes of \<open>cmd/server\<close> and the remote client.
    A remote call has the outcome of the call at the server, or fails on the wire (\<open>outcome\<close>);
    \<open>wire_client\<close> is what remains of \<open>ledger_client\<close> when a reply may be lost.
  \<^item> \<open>Embedded\<close>: opening the stores, \<open>NewEmbedded\<close> and \<open>Close\<close>, over the handles and jobs of the process.
  \<^item> \<open>System\<close>: server, scheduler and dispatcher as one transition system (\<open>act\<close>, \<open>reach\<close>).
  \<^item> \<open>Atomicity\<close>, \<open>As_Of\<close>: requests that fail change nothing; balances in the past.
  \<^item> \<open>Demo_Decimal\<close>, \<open>Fixtures\<close>: a concrete decimal package, clock and database on which the
    properties are tried.
  \<^item> \<open>Service_Properties\<close>, \<open>Store_Properties\<close>, \<open>Client_Properties\<close> and this theory: the properties.

  \<^bold>\<open>Parameters.\<close> The decimal package parses what it prints (\<open>codec_ok\<close>). The clocks and the
  generated identifiers are arbitrary sequences. Any SQL statement may fail with any driver
  error. A COMMIT or ROLLBACK may fail; the properties of whole runs need that SQLite then
  has rolled the transaction back (\<open>sane\<close>), and C26 shows what happens when it has not. The
  DynamoDB client is a record of four requests with the contract \<open>dynamodb\<close>; \<open>memDdb\<close> meets it.
  The rounding of a DECIMAL(38, 18) column is \<open>cc_numeric\<close>, with the documented behaviour
  \<open>numeric_ok\<close>; \<open>roundNumeric\<close> meets it. The Connect library, the encoders of the messages and the
  HTTP transport are \<open>connect_lib\<close>, \<open>codecs\<close> and a \<open>round_trip\<close>, with the contracts \<open>connect_ok\<close>,
  \<open>codecs_ok\<close> and \<open>carries\<close>; \<open>demoConnect\<close>, \<open>demoCodecs\<close> and \<open>demoTransport\<close> meet them.

  \<^bold>\<open>Bounds.\<close> No fuel is used: every loop of the program is a recursion over a list or over the
  number of attempts. The endless loops of the scheduler and the dispatcher are folds over the
  ticks that fired. Counters that Go keeps in 32 bits are words; versions are unbounded.

  \<^bold>\<open>Concurrency.\<close> A transaction is atomic: the SQLite store has a single connection and opens
  each with BEGIN IMMEDIATE, so requests and jobs interleave as whole actions of \<open>System\<close>.
  A handler that uses several transactions or reads outside one is still one action there.
  CockroachDB transactions are SERIALIZABLE and run one after the other; a conflict is a
  statement or a COMMIT that fails. On DynamoDB other clients may commit before every request of a transaction, and the
  properties of \<open>Dynamo_Properties\<close> hold for all of them.

  \<^bold>\<open>Not modelled.\<close> Marshalling the DynamoDB items, the flags, signals and shutdown of the
  executables, tracing and the SQL migrations; the
  foreign keys of SQLite, which it does not enforce. Error messages lose
  the quoting and positions that \<open>fmt.Errorf\<close> adds.
\<close>

section \<open>The system\<close>

text \<open>C1: whatever requests arrive and whichever jobs run, in any order, and whichever statements
  fail, the books hold in every state the system reaches from a new database: the balance of
  every account is the sum of its posted entries, all posted entries of a tenant net to zero in
  every currency, no account that forbids it is overdrawn, no flow is half done, and every
  reservation conserves its amount.\<close>

theorem books_hold_in_every_state:
  assumes "sane C" and "dp_store X = sqliteStore C" and "reach X (freshWorld, k0) (w, k)"
  shows "ledger_inv (sqliteView C (w_st w))"
  using reach_sqlite [OF assms] by blast

definition demoDeployment :: "(sqlite, sqldb, log_line list) deployment" where
  "demoDeployment = \<lparr>dp_env = demoEnv, dp_store = sqliteStore demoC, dp_sink = LogSink,
     dp_scheduler = defaultConfig, dp_dispatcher = NewDispatcher \<lparr>cfg_Interval = 0, cfg_BatchSize = 0\<rparr>\<rparr>"

lemma demoDeployment_store: "dp_store demoDeployment = sqliteStore demoC"
  by (simp add: demoDeployment_def)

lemma reach_demoWorld: "reach demoDeployment (freshWorld, []) (demoWorld, [])"
proof -
  let ?r = "\<lambda>ow ty n w. snd (call (CreateAccount demoEnv (sqliteStore demoC) (accountRequest ow ty ''U'' n)) w)"
  have go: "reach demoDeployment (freshWorld, []) (?r ow ty n w, [])"
    if "reach demoDeployment (freshWorld, []) (w, [])" for ow ty n w
    using reach_act [OF that, of "Request (RCreateAccount (accountRequest ow ty ''U'' n))"]
    by (simp add: demoDeployment_def embeddedClient_def)
  have "snd (createAll rs w) = fold (\<lambda>r w. snd (call (CreateAccount demoEnv (sqliteStore demoC) r) w)) rs w"
    if "succeeds (createAll rs) w" for rs w
    using that
    by (induction rs arbitrary: w)
      (auto simp: createAll_def succeeds_def bindE_def ret_def demoS_def split: prod.splits sum.splits)
  from this [of "[accountRequest ''f'' ''c'' ''U'' True, accountRequest ''a'' ''c'' ''U'' False,
      accountRequest ''a'' ''h'' ''U'' False]" freshWorld] demoAccounts_run
  have "demoWorld = ?r ''a'' ''h'' False (?r ''a'' ''c'' False (?r ''f'' ''c'' True freshWorld))"
    by (simp add: demoWorld_def demoAccounts_def)
  with go [OF go [OF go [OF reach_start]]] show ?thesis by metis
qed

theorem books_hold_in_every_state_witness:
  "sane demoC \<and> reach demoDeployment (freshWorld, []) (demoWorld, []) \<and>
     ledger_inv (sqliteView demoC (w_st demoWorld))"
  using books_hold_in_every_state [OF demoC_sane demoDeployment_store reach_demoWorld]
    demoC_sane reach_demoWorld by blast

text \<open>C2: the implementation refines the specification: every action of a reachable system, a
  request of any kind, a tick of the scheduler or of the dispatcher, succeeding or failing, is a
  sequence of steps of the abstract ledger.\<close>

theorem every_action_refines_the_ledger:
  assumes "sane C" and "dp_store X = sqliteStore C" and "reach X (freshWorld, k0) (w, k)"
    and "act X a (w, k) = (w', k')"
  shows "ledger_steps (sqliteView C (w_st w)) (sqliteView C (w_st w'))"
  using sq.act_steps [OF assms(2) _ _ assms(4)] reach_sqlite [OF assms(1-3)] by blast

theorem every_action_refines_the_ledger_witness:
  "\<exists>w' k'. act demoDeployment (Request (RExecuteFlow demoFlow)) (demoWorld, []) = (w', k') \<and>
     ledger_steps (sqliteView demoC (w_st demoWorld)) (sqliteView demoC (w_st w'))"
proof -
  obtain w' k' where a: "act demoDeployment (Request (RExecuteFlow demoFlow)) (demoWorld, []) = (w', k')"
    by (cases "act demoDeployment (Request (RExecuteFlow demoFlow)) (demoWorld, [])")
  from every_action_refines_the_ledger [OF demoC_sane demoDeployment_store reach_demoWorld a] a
  show ?thesis by blast
qed

text \<open>C3: history is append-only. From any reachable state on, posted journals and entries stay as
  they are and in their order, accounts are never changed or removed, and a completed flow stays
  completed under its key.\<close>

theorem history_is_append_only:
  assumes "sane C" and "dp_store X = sqliteStore C" and "reach X (freshWorld, k0) (w, k)"
    and "reach X (w, k) (w', k')"
  shows "extends (sqliteView C (w_st w)) (sqliteView C (w_st w'))"
  using sq.reach_steps [OF assms(4,2)] reach_sqlite [OF assms(1-3)] ledger_steps_extends by auto

theorem history_is_append_only_witness:
  "\<exists>w' k'. reach demoDeployment (demoWorld, []) (w', k') \<and>
     extends (sqliteView demoC (w_st demoWorld)) (sqliteView demoC (w_st w'))"
proof -
  obtain w' k' where "act demoDeployment (Fire ExpiryTicker 0) (demoWorld, []) = (w', k')"
    by (cases "act demoDeployment (Fire ExpiryTicker 0) (demoWorld, [])")
  with reach_act [OF reach_start, of demoDeployment "(demoWorld, [])" "Fire ExpiryTicker 0"]
  have r: "reach demoDeployment (demoWorld, []) (w', k')" by simp
  from history_is_append_only [OF demoC_sane demoDeployment_store reach_demoWorld r] r
  show ?thesis by blast
qed

end
